(* ===== verification/Prelude.thy ===== *)
theory Prelude
  imports Main "HOL-Library.Word"
begin

text \<open>
  The shared base of the development: the names of the machine integers, the Rust integer
  operations the firmware uses on them (saturating and clamping arithmetic, truncating
  division, the wrapping deadline test), the result type of fallible state operations with
  its sequencing combinator (the \<open>?\<close> operator), the fixed-capacity queue the code
  uses (\<open>heapless::Deque\<close>), and the interfaces (locales) stated over them: a
  wrapping deadline clock, a bounded queue, a wire code, and a reflexive-transitive
  relation kept by state operations.
\<close>

unbundle bit_operations_syntax

named_theorems rust_arith \<open>arithmetic facts on machine words\<close>
named_theorems outcome_simps \<open>rules for sequencing fallible operations\<close>

section \<open>Machine integers\<close>

type_synonym u8 = "8 word"
type_synonym u16 = "16 word"
type_synonym u32 = "32 word"

text \<open>Signed values have the same carrier; they are read with \<^const>\<open>sint\<close>.\<close>

type_synonym i16 = "16 word"
type_synonym i32 = "32 word"

definition sat_add :: "'a::len word \<Rightarrow> 'a word \<Rightarrow> 'a word" where
  "sat_add a b = (if unat a + unat b < 2 ^ LENGTH('a) then a + b else - 1)"

definition sat_sub :: "'a::len word \<Rightarrow> 'a word \<Rightarrow> 'a word" where
  "sat_sub a b = (if a < b then 0 else a - b)"

definition clamp_word :: "'a::len word \<Rightarrow> 'a word \<Rightarrow> 'a word \<Rightarrow> 'a word" where
  "clamp_word lo hi x = (if x < lo then lo else if hi < x then hi else x)"

definition trunc_div :: "int \<Rightarrow> int \<Rightarrow> int" where
  "trunc_div a b = sgn a * sgn b * (\<bar>a\<bar> div \<bar>b\<bar>)"

definition sat_i32 :: "int \<Rightarrow> int" where
  "sat_i32 v = max (- 2147483648) (min 2147483647 v)"

definition sat_i16 :: "int \<Rightarrow> int" where
  "sat_i16 v = max (- 32768) (min 32767 v)"

text \<open>\<open>value.clamp(i16::MIN as i32, i16::MAX as i32) as i16\<close>\<close>

definition clamp_i16 :: "int \<Rightarrow> i16" where
  "clamp_i16 v = word_of_int (sat_i16 v)"

text \<open>\<open>value.saturating_abs()\<close> on an \<open>i32\<close>\<close>

definition abs_i32 :: "int \<Rightarrow> int" where
  "abs_i32 v = sat_i32 \<bar>v\<bar>"

lemma unat_sat_add: "unat (sat_add a (b :: 'a::len word)) = min (unat a + unat b) (2 ^ LENGTH('a) - 1)"
proof (cases "unat a + unat b < 2 ^ LENGTH('a)")
  case True
  then have "unat (a + b) = unat a + unat b"
    by (simp add: unat_add_lem [symmetric])
  with True show ?thesis by (simp add: sat_add_def)
next
  case False
  have "unat (- 1 :: 'a word) = 2 ^ LENGTH('a) - 1" by (simp only: unsigned_minus_1_eq_mask mask_eq_exp_minus_1)
  with False show ?thesis by (simp add: sat_add_def)
qed

lemma clamp_word_bounds [rust_arith]:
  "lo \<le> hi \<Longrightarrow> lo \<le> clamp_word lo hi x \<and> clamp_word lo hi x \<le> hi"
  by (auto simp: clamp_word_def)

lemma sat_i16_bounds [rust_arith]: "- 32768 \<le> sat_i16 v \<and> sat_i16 v \<le> 32767"
  by (auto simp: sat_i16_def)

lemma sint_clamp_i16 [rust_arith]: "sint (clamp_i16 v) = sat_i16 v"
proof -
  have "signed_take_bit 15 (sat_i16 v) = sat_i16 v"
    by (rule signed_take_bit_int_eq_self) (auto simp: sat_i16_def)
  then show ?thesis by (simp add: clamp_i16_def sint_sbintrunc')
qed

lemma clamp_i16_sint [simp]: "clamp_i16 (sint (x :: i16)) = x"
proof -
  have "- 32768 \<le> sint x" "sint x < 32768"
    using sint_greater_eq [of x] sint_less [of x] by simp_all
  then have "sat_i16 (sint x) = sint x" by (simp add: sat_i16_def)
  then show ?thesis by (simp add: clamp_i16_def)
qed

section \<open>Wrapping deadlines\<close>

text \<open>
  \<open>now.wrapping_sub(deadline) < u32::MAX / 2\<close>: the one deadline test of the firmware
  (\<open>runtime/helpers.rs\<close>, \<open>audio.rs\<close>, \<open>network_registry.rs\<close> and, inlined, the lease
  tests of \<open>status/commands.rs\<close>).
\<close>

definition time_reached :: "u32 \<Rightarrow> u32 \<Rightarrow> bool" where
  "time_reached now_ms deadline_ms \<longleftrightarrow> now_ms - deadline_ms < 2147483647"

text \<open>A clock with wrapping deadlines: what a user of deadlines may rely on.\<close>

locale deadline_clock =
  fixes reached :: "'t \<Rightarrow> 't \<Rightarrow> bool"
    and after :: "'t \<Rightarrow> 'd \<Rightarrow> 't"
    and span :: "'d \<Rightarrow> bool"
    and elapsed :: "'d \<Rightarrow> 'd \<Rightarrow> bool"
  assumes pending: "span d \<Longrightarrow> \<not> reached t (after t d)"
    and due: "elapsed d e \<Longrightarrow> reached (after t e) (after t d)"
    and early: "span d \<Longrightarrow> \<not> elapsed d e \<Longrightarrow> span e \<Longrightarrow> \<not> reached (after t e) (after t d)"
begin

lemma armed_until_due: "span d \<Longrightarrow> span e \<Longrightarrow> reached (after t e) (after t d) \<Longrightarrow> elapsed d e"
  using early by blast

lemma reached_iff_elapsed:
  "span d \<Longrightarrow> span e \<Longrightarrow> reached (after t e) (after t d) \<longleftrightarrow> elapsed d e"
  using due early by blast

end

definition deadline_span :: "u32 \<Rightarrow> bool" where
  "deadline_span d \<longleftrightarrow> 0 < d \<and> d \<le> 2147483646"

definition span_elapsed :: "u32 \<Rightarrow> u32 \<Rightarrow> bool" where
  "span_elapsed d e \<longleftrightarrow> d \<le> e \<and> e - d < 2147483647"

lemma time_reached_self [simp]: "time_reached t t"
  by (simp add: time_reached_def)

lemma time_reached_shift [simp]: "time_reached (t + a) (t + b) = time_reached a b"
  by (simp add: time_reached_def)

lemma time_reached_zero_iff: "time_reached 0 d \<longleftrightarrow> d = 0 \<or> 2147483650 \<le> d"
proof -
  have lt: "0 \<le> uint d" "uint d < 4294967296"
    using uint_lt2p [of d] by simp_all
  then have "uint (- d) = (if uint d = 0 then 0 else 4294967296 - uint d)"
    by (simp add: uint_word_ariths zmod_zminus1_eq_if)
  with lt have "uint (- d) < 2147483647 \<longleftrightarrow> uint d = 0 \<or> 2147483650 \<le> uint d"
    by auto
  then show ?thesis
    by (simp add: time_reached_def word_less_def word_le_def uint_0_iff)
qed

lemma time_reached_after_self_iff: "time_reached t (t + d) \<longleftrightarrow> d = 0 \<or> 2147483650 \<le> d"
  using time_reached_shift [of t 0 d] by (simp add: time_reached_zero_iff)

lemma time_reached_ahead: "a < b \<Longrightarrow> b - a \<le> 2147483646 \<Longrightarrow> \<not> time_reached a b"
proof -
  assume *: "a < b" "b - a \<le> 2147483646"
  then have "time_reached a b = time_reached a (a + (b - a))" by simp
  also have "\<dots> \<longleftrightarrow> b - a = 0 \<or> 2147483650 \<le> b - a" by (rule time_reached_after_self_iff)
  finally show "\<not> time_reached a b" using * by (auto simp: word_le_nat_alt)
qed

interpretation ms: deadline_clock time_reached "(+)" deadline_span span_elapsed
proof (unfold_locales, goal_cases)
  case (1 d t)
  then show ?case by (auto simp: time_reached_after_self_iff deadline_span_def word_le_nat_alt)
next
  case (2 d e t)
  then show ?case by (auto simp: span_elapsed_def time_reached_def)
next
  case (3 d e t)
  have "\<not> time_reached e d"
  proof (cases "d \<le> e")
    case True
    with 3 show ?thesis by (auto simp: span_elapsed_def time_reached_def)
  next
    case False
    then have "e < d" by simp
    moreover have "d - e \<le> 2147483646"
      using 3(1) \<open>e < d\<close> by (simp add: deadline_span_def word_le_nat_alt word_less_nat_alt unat_sub_if_size)
    ultimately show ?thesis by (rule time_reached_ahead)
  qed
  then show ?case by simp
qed

lemma span_elapsed_iff: "deadline_span e \<Longrightarrow> span_elapsed d e \<longleftrightarrow> \<not> e < d"
  by (auto simp: span_elapsed_def deadline_span_def word_le_nat_alt word_less_nat_alt unat_sub)

section \<open>Fallible state operations\<close>

text \<open>
  A Rust function \<open>fn f(&mut self, ..) -> Result<(), E>\<close> is modelled by a function from the
  state to the state it leaves behind together with \<^term>\<open>None\<close> for \<open>Ok(())\<close> or
  \<^term>\<open>Some e\<close> for \<open>Err(e)\<close>: an early return keeps every mutation made before it.
\<close>

type_synonym ('s, 'e) outcome = "'s \<times> 'e option"

definition ok :: "'s \<Rightarrow> ('s, 'e) outcome" where
  "ok s = (s, None)"

definition fail :: "'e \<Rightarrow> 's \<Rightarrow> ('s, 'e) outcome" where
  "fail e s = (s, Some e)"

definition is_ok :: "('s, 'e) outcome \<Rightarrow> bool" where
  "is_ok r \<longleftrightarrow> snd r = None"

text \<open>\<open>r?; f\<close>\<close>

definition and_then :: "('s, 'e) outcome \<Rightarrow> ('s \<Rightarrow> ('s, 'e) outcome) \<Rightarrow> ('s, 'e) outcome" where
  "and_then r f = (case snd r of None \<Rightarrow> f (fst r) | Some e \<Rightarrow> (fst r, Some e))"

lemma and_then_ok [simp, outcome_simps]: "and_then (ok s) f = f s"
  by (simp add: and_then_def ok_def)

lemma and_then_fail [simp, outcome_simps]: "and_then (fail e s) f = fail e s"
  by (simp add: and_then_def fail_def)

lemma and_then_Pair_None [simp, outcome_simps]: "and_then (s, None) f = f s"
  by (simp add: and_then_def)

lemma and_then_Pair_Some [simp, outcome_simps]: "and_then (s, Some e) f = (s, Some e)"
  by (simp add: and_then_def)

lemma fst_ok [simp]: "fst (ok s) = s" and snd_ok [simp]: "snd (ok s) = None"
  by (simp_all add: ok_def)

lemma fst_fail [simp]: "fst (fail e s) = s" and snd_fail [simp]: "snd (fail e s) = Some e"
  by (simp_all add: fail_def)

lemma is_ok_ok [simp]: "is_ok (ok s)" and is_ok_fail [simp]: "\<not> is_ok (fail e s)"
  by (simp_all add: is_ok_def)

lemma and_then_assoc: "and_then (and_then r f) g = and_then r (\<lambda>s. and_then (f s) g)"
  by (simp add: and_then_def split: option.splits)

lemma snd_and_then_None_iff [outcome_simps]:
  "snd (and_then r f) = None \<longleftrightarrow> snd r = None \<and> snd (f (fst r)) = None"
  by (simp add: and_then_def split: option.splits)

lemma fst_and_then: "fst (and_then r f) = (if snd r = None then fst (f (fst r)) else fst r)"
  by (simp add: and_then_def split: option.splits)

text \<open>
  Any predicate on states that both parts keep is kept by the sequence: the one rule
  through which invariants, frame conditions and transition relations pass the
  \<open>?\<close> operator.
\<close>

lemma and_then_keeps:
  assumes "P (fst r)" and "\<And>s. P s \<Longrightarrow> P (fst (f s))"
  shows "P (fst (and_then r f))"
  using assms by (simp add: and_then_def split: option.splits)

section \<open>Fixed-capacity queues\<close>

text \<open>
  \<open>heapless::Deque<T, N>\<close> is a library type. What the firmware relies on is its
  documented contract, stated as the assumptions of the locale: a push on a full queue
  returns the element and changes nothing, a push on a queue with room adds at its end, and a pop
  takes from the front. The model represents a queue by the list of its elements.
\<close>

locale bounded_queue =
  fixes cap :: nat
    and elems :: "'q \<Rightarrow> 'a list"
    and pushb :: "'q \<Rightarrow> 'a \<Rightarrow> 'q"
    and pushf :: "'q \<Rightarrow> 'a \<Rightarrow> 'q"
    and invar :: "'q \<Rightarrow> bool"
  assumes invar_cap: "invar q \<Longrightarrow> length (elems q) \<le> cap"
    and pushb_room: "length (elems q) < cap \<Longrightarrow> elems (pushb q x) = elems q @ [x]"
    and pushb_full: "length (elems q) \<ge> cap \<Longrightarrow> elems (pushb q x) = elems q"
    and pushf_room: "length (elems q) < cap \<Longrightarrow> elems (pushf q x) = x # elems q"
    and pushf_full: "length (elems q) \<ge> cap \<Longrightarrow> elems (pushf q x) = elems q"
    and invar_pushb: "invar q \<Longrightarrow> invar (pushb q x)"
    and invar_pushf: "invar q \<Longrightarrow> invar (pushf q x)"
begin

lemma set_pushb: "set (elems (pushb q x)) \<subseteq> insert x (set (elems q))"
  by (cases "length (elems q) < cap") (auto simp: pushb_room pushb_full)

lemma set_pushf: "set (elems (pushf q x)) \<subseteq> insert x (set (elems q))"
  by (cases "length (elems q) < cap") (auto simp: pushf_room pushf_full)

lemma push_never_loses: "set (elems q) \<subseteq> set (elems (pushb q x)) \<inter> set (elems (pushf q x))"
  by (cases "length (elems q) < cap") (auto simp: pushb_room pushb_full pushf_room pushf_full)

end

definition push_back :: "nat \<Rightarrow> 'a list \<Rightarrow> 'a \<Rightarrow> 'a list" where
  "push_back n q x = (if length q < n then q @ [x] else q)"

definition push_front :: "nat \<Rightarrow> 'a list \<Rightarrow> 'a \<Rightarrow> 'a list" where
  "push_front n q x = (if length q < n then x # q else q)"

interpretation dq: bounded_queue n "\<lambda>q. q" "push_back n" "push_front n" "\<lambda>q. length q \<le> n"
  by unfold_locales (auto simp: push_back_def push_front_def)

lemma length_push_back [simp]: "length q \<le> n \<Longrightarrow> length (push_back n q x) \<le> n"
  and length_push_front [simp]: "length q \<le> n \<Longrightarrow> length (push_front n q x) \<le> n"
  by (simp_all add: push_back_def push_front_def)

lemma push_back_room [simp]: "length q < n \<Longrightarrow> push_back n q x = q @ [x]"
  and push_front_room [simp]: "length q < n \<Longrightarrow> push_front n q x = x # q"
  by (simp_all add: push_back_def push_front_def)

lemma set_push_back: "set (push_back n q x) \<subseteq> insert x (set q)"
  by (rule dq.set_pushb)

lemma set_push_front: "set (push_front n q x) \<subseteq> insert x (set q)"
  by (rule dq.set_pushf)

section \<open>Wire codes\<close>

text \<open>
  An enumeration travels as a small integer. The contract of such a code is that decoding
  an encoded value gives it back; every consequence is proved once, here.
\<close>

locale wire_code =
  fixes enc :: "'a \<Rightarrow> 'w" and dec :: "'w \<Rightarrow> 'a option"
  assumes dec_enc: "dec (enc x) = Some x"
begin

lemma enc_inject: "enc x = enc y \<longleftrightarrow> x = y"
  by (metis dec_enc option.inject)

lemma enc_eq_dec: "enc x = w \<Longrightarrow> dec w = Some x"
  using dec_enc by blast

lemma unknown_code: "dec w = None \<Longrightarrow> enc x \<noteq> w"
  using dec_enc by fastforce

end

text \<open>A code with no spare words: every decodable word is the code of what it decodes to.\<close>

locale exact_wire_code = wire_code +
  assumes enc_dec: "dec w = Some x \<Longrightarrow> enc x = w"
begin

lemma dec_iff: "dec w = Some x \<longleftrightarrow> enc x = w"
  using dec_enc enc_dec by blast

lemma dec_inject: "dec v = Some x \<Longrightarrow> dec w = Some x \<Longrightarrow> v = w"
  using enc_dec by metis

end

section \<open>Transition relations kept by operations\<close>

text \<open>
  A relation between the state before and the state after that every operation respects
  (``nothing but permitted bytes were sent'', ``the latch only went up''). Its two laws
  carry it through sequences, fallible sequences and folds.
\<close>

locale transition =
  fixes R :: "'s \<Rightarrow> 's \<Rightarrow> bool"
  assumes refl: "R s s"
    and trans: "R s t \<Longrightarrow> R t u \<Longrightarrow> R s u"
begin

lemma compose: "R s t \<Longrightarrow> (\<And>x. R x (f x)) \<Longrightarrow> R s (f t)"
  using trans by blast

lemma through_and_then: "R s (fst r) \<Longrightarrow> (\<And>x. R x (fst (f x))) \<Longrightarrow> R s (fst (and_then r f))"
  by (rule and_then_keeps [where P = "R s"]) (blast intro: trans)+

lemma through_fold: "(\<And>x y. R y (f x y)) \<Longrightarrow> R s (fold f xs s)"
  by (induction xs arbitrary: s) (auto intro: refl trans)

end

end
