(* ===== verification/Imu.thy ===== *)
theory Imu
  imports Prelude
begin

text \<open>
  The inertial driver \<open>drivers/imu.rs\<close>: raw MPU-6050 register decoding, the integer
  square root, and the derived state (yaw, pitch, roll, tilt and impact score) computed from
  one sample with or without a gravity calibration. \<open>i32\<close> and \<open>i64\<close> intermediates are integers
  with every saturation of the source written out; \<open>u32\<close>/\<open>u64\<close> roots are naturals.
  The I2C bus (\<open>embedded_hal\<close>) is a parameter: the driver's state machine takes the bus
  replies as arguments.
\<close>

section \<open>Samples\<close>

record imu_sample =
  im_timestamp_ms :: u32
  im_gyro_x :: i16
  im_gyro_y :: i16
  im_gyro_z :: i16
  im_accel_x :: i16
  im_accel_y :: i16
  im_accel_z :: i16

definition stationary_sample :: "u32 \<Rightarrow> imu_sample" where
  "stationary_sample t = \<lparr>im_timestamp_ms = t, im_gyro_x = 0, im_gyro_y = 0, im_gyro_z = 0,
     im_accel_x = 0, im_accel_y = 0, im_accel_z = 9807\<rparr>"

datatype imu_health = HUnknown | HOk | HFault | HAbsent

record imu_derived =
  dv_yaw :: int
  dv_pitch :: i16
  dv_roll :: i16
  dv_yaw_rate :: i16
  dv_accel_magnitude :: u16
  dv_tilt_magnitude :: u16
  dv_roughness :: u16
  dv_impact_score :: u16

record imu_vector =
  vec_x :: i16
  vec_y :: i16
  vec_z :: i16

record imu_gravity_calibration =
  cal_reference :: imu_vector
  cal_magnitude :: u16

definition gravity_vector :: "imu_sample \<Rightarrow> imu_vector" where
  "gravity_vector s = \<lparr>vec_x = im_accel_x s, vec_y = im_accel_y s, vec_z = im_accel_z s\<rparr>"

section \<open>Register decoding\<close>

definition read_i16 :: "u8 list \<Rightarrow> nat \<Rightarrow> i16" where
  "read_i16 bytes offset = word_of_int (uint (bytes ! offset) * 256 + uint (bytes ! (offset + 1)))"

definition accel_raw_to_mm_s2 :: "i16 \<Rightarrow> i16" where
  "accel_raw_to_mm_s2 raw = clamp_i16 (trunc_div (sat_i32 (sint raw * 9807)) 16384)"

definition gyro_raw_to_mrad_s :: "i16 \<Rightarrow> i16" where
  "gyro_raw_to_mrad_s raw = clamp_i16 (trunc_div (sat_i32 (sint raw * 133)) 1000)"

definition decode_mpu6050_sample :: "u32 \<Rightarrow> u8 list \<Rightarrow> imu_sample" where
  "decode_mpu6050_sample now_ms bytes =
     \<lparr>im_timestamp_ms = now_ms,
      im_gyro_x = gyro_raw_to_mrad_s (read_i16 bytes 8),
      im_gyro_y = gyro_raw_to_mrad_s (read_i16 bytes 10),
      im_gyro_z = gyro_raw_to_mrad_s (read_i16 bytes 12),
      im_accel_x = accel_raw_to_mm_s2 (read_i16 bytes 0),
      im_accel_y = accel_raw_to_mm_s2 (read_i16 bytes 2),
      im_accel_z = accel_raw_to_mm_s2 (read_i16 bytes 4)\<rparr>"

section \<open>The driver's state machine\<close>

text \<open>
  \<open>Mpu6050\<close> keeps one flag. The bus replies are the arguments: the identity register,
  the three configuration writes, and the fourteen sample bytes (\<^term>\<open>None\<close> where the bus
  reports an error).
\<close>

definition mpu_initialize :: "u8 option \<Rightarrow> bool \<Rightarrow> bool \<Rightarrow> bool \<Rightarrow> imu_health option" where
  "mpu_initialize who_am_i pwr_ok gyro_ok accel_ok =
     (case who_am_i of
        None \<Rightarrow> Some HAbsent
      | Some w \<Rightarrow>
          if w \<noteq> 0x68 \<and> w \<noteq> 0x70 then Some HAbsent
          else if \<not> pwr_ok then Some HFault
          else if \<not> gyro_ok then Some HFault
          else if \<not> accel_ok then Some HFault
          else None)"

definition mpu_poll ::
  "bool \<Rightarrow> u8 option \<Rightarrow> bool \<Rightarrow> bool \<Rightarrow> bool \<Rightarrow> u8 list option \<Rightarrow> u32
   \<Rightarrow> bool \<times> (imu_health + imu_sample option)" where
  "mpu_poll initialized who pwr_ok gyro_ok accel_ok sample_bytes now_ms =
     (let failure = (if initialized then None else mpu_initialize who pwr_ok gyro_ok accel_ok) in
      case failure of
        Some h \<Rightarrow> (initialized, Inl h)
      | None \<Rightarrow>
          (case sample_bytes of
             None \<Rightarrow> (True, Inl HFault)
           | Some bytes \<Rightarrow> (True, Inr (Some (decode_mpu6050_sample now_ms bytes)))))"

section \<open>Integer square root\<close>

text \<open>\<open>while bit > value { bit >>= 2 }\<close>\<close>

fun shrink_bit :: "nat \<Rightarrow> nat \<Rightarrow> nat" where
  "shrink_bit b v = (if v < b then shrink_bit (b div 4) v else b)"

declare shrink_bit.simps [simp del]

fun sqrt_loop :: "nat \<Rightarrow> nat \<Rightarrow> nat \<Rightarrow> nat" where
  "sqrt_loop n result b =
     (if b = 0 then result
      else if result + b \<le> n
      then sqrt_loop (n - (result + b)) (result div 2 + b) (b div 4)
      else sqrt_loop n (result div 2) (b div 4))"

declare sqrt_loop.simps [simp del]

definition int_sqrt :: "nat \<Rightarrow> nat" where
  "int_sqrt v = sqrt_loop v 0 (shrink_bit (2 ^ 30) v)"

definition int_sqrt_u64 :: "nat \<Rightarrow> nat" where
  "int_sqrt_u64 v = sqrt_loop v 0 (shrink_bit (2 ^ 62) v)"

lemma four_div: "(4::nat) * 4 ^ k div 4 = 4 ^ k"
  by simp

lemma four_power: "(4::nat) ^ n = 2 ^ n * 2 ^ n"
proof -
  have "(4::nat) ^ n = (2 * 2) ^ n" by simp
  then show ?thesis by (simp only: power_mult_distrib)
qed

text \<open>
  The loop invariant: with \<open>bit = 4 ^ k\<close>, the root found so far is \<open>q\<close>, the scaled
  partial result is \<open>q * 2 ^ (k + 1)\<close> and the remainder is \<open>v - q * q\<close>.
\<close>

lemma sqrt_loop_correct:
  assumes "q * q \<le> v" and "v < (q + 2 ^ Suc k) * (q + 2 ^ Suc k)"
  shows "\<exists>r. sqrt_loop (v - q * q) (q * 2 ^ Suc k) (4 ^ k) = r \<and> r * r \<le> v \<and> v < (r + 1) * (r + 1)"
  using assms
proof (induction k arbitrary: q)
  case 0
  have step: "(v - q * q \<ge> q * 2 + 1) \<longleftrightarrow> (q + 1) * (q + 1) \<le> v"
    using 0(1) by (auto simp: algebra_simps)
  show ?case
  proof (cases "(q + 1) * (q + 1) \<le> v")
    case True
    then have "sqrt_loop (v - q * q) (q * 2 ^ Suc 0) (4 ^ 0) = q + 1"
      using step by (simp add: sqrt_loop.simps)
    with True 0(2) show ?thesis by (simp add: algebra_simps)
  next
    case False
    then have "sqrt_loop (v - q * q) (q * 2 ^ Suc 0) (4 ^ 0) = q"
      using step by (simp add: sqrt_loop.simps)
    with False 0(1) show ?thesis by simp
  qed
next
  case (Suc k)
  let ?p = "(2::nat) ^ Suc k"
  have four: "(4::nat) ^ Suc k = ?p * ?p"
    by (rule four_power)
  have half: "q * 2 ^ Suc (Suc k) div 2 = q * ?p"
    by simp
  have scaled: "q * 2 ^ Suc (Suc k) + 4 ^ Suc k = (q + ?p) * (q + ?p) - q * q"
    by (simp add: four [simplified] algebra_simps)
  have step: "(q * 2 ^ Suc (Suc k) + 4 ^ Suc k \<le> v - q * q) \<longleftrightarrow> (q + ?p) * (q + ?p) \<le> v"
    using Suc.prems(1) scaled by (auto simp: algebra_simps)
  show ?case
  proof (cases "(q + ?p) * (q + ?p) \<le> v")
    case True
    have "v - q * q - (q * 2 ^ Suc (Suc k) + 4 ^ Suc k) = v - (q + ?p) * (q + ?p)"
    proof -
      have "q * q \<le> (q + ?p) * (q + ?p)" by (intro mult_mono) auto
      then show ?thesis unfolding scaled by linarith
    qed
    moreover have "q * ?p + 4 ^ Suc k = (q + ?p) * ?p"
      by (simp add: four [simplified] algebra_simps)
    ultimately have "sqrt_loop (v - q * q) (q * 2 ^ Suc (Suc k)) (4 ^ Suc k)
        = sqrt_loop (v - (q + ?p) * (q + ?p)) ((q + ?p) * 2 ^ Suc k) (4 ^ k)"
      using True step half four_div
      by (subst sqrt_loop.simps) (simp only: if_True if_False refl, simp)
    moreover have "v < (q + ?p + 2 ^ Suc k) * (q + ?p + 2 ^ Suc k)"
      using Suc.prems(2) by (simp add: algebra_simps)
    ultimately show ?thesis using Suc.IH [OF True] by simp
  next
    case False
    then have "sqrt_loop (v - q * q) (q * 2 ^ Suc (Suc k)) (4 ^ Suc k)
        = sqrt_loop (v - q * q) (q * 2 ^ Suc k) (4 ^ k)"
      using step half four_div by (subst sqrt_loop.simps) (simp add: mult.left_commute)
    moreover have "v < (q + 2 ^ Suc k) * (q + 2 ^ Suc k)" using False by simp
    ultimately show ?thesis using Suc.IH [OF Suc.prems(1)] by simp
  qed
qed

lemma shrink_bit_result:
  assumes "0 < v" and "v < 4 ^ Suc k"
  shows "\<exists>j. shrink_bit (4 ^ k) v = 4 ^ j \<and> v < 4 ^ Suc j"
  using assms
proof (induction k)
  case 0
  then show ?case by (intro exI [of _ 0]) (simp add: shrink_bit.simps)
next
  case (Suc k)
  show ?case
  proof (cases "v < 4 ^ Suc k")
    case True
    then have "shrink_bit (4 ^ Suc k) v = shrink_bit (4 ^ k) v"
      by (subst shrink_bit.simps) simp
    with Suc.IH [OF Suc.prems(1) True] show ?thesis by simp
  next
    case False
    then have "shrink_bit (4 ^ Suc k) v = 4 ^ Suc k"
      by (subst shrink_bit.simps) simp
    with Suc.prems(2) show ?thesis by blast
  qed
qed

lemma shrink_bit_zero: "shrink_bit b 0 = 0"
  by (induction b rule: less_induct) (subst shrink_bit.simps, simp)

lemma sqrt_loop_from_shrink:
  assumes "v < 4 ^ Suc k"
  defines "r \<equiv> sqrt_loop v 0 (shrink_bit (4 ^ k) v)"
  shows "r * r \<le> v \<and> v < (r + 1) * (r + 1)"
proof (cases "v = 0")
  case True
  then show ?thesis by (simp add: r_def shrink_bit_zero sqrt_loop.simps)
next
  case False
  then obtain j where j: "shrink_bit (4 ^ k) v = 4 ^ j" "v < 4 ^ Suc j"
    using shrink_bit_result assms(1) by blast
  have "v < (0 + 2 ^ Suc j) * (0 + 2 ^ Suc j)"
    using j(2) four_power [of "Suc j"] by simp
  then show ?thesis using sqrt_loop_correct [of 0 v j] j(1) by (simp add: r_def)
qed

lemma int_sqrt_floor: "v < 2 ^ 32 \<Longrightarrow> int_sqrt v * int_sqrt v \<le> v \<and> v < (int_sqrt v + 1) * (int_sqrt v + 1)"
  using sqrt_loop_from_shrink [of v 15] by (simp add: int_sqrt_def)

lemma int_sqrt_u64_floor:
  "v < 2 ^ 64 \<Longrightarrow> int_sqrt_u64 v * int_sqrt_u64 v \<le> v \<and> v < (int_sqrt_u64 v + 1) * (int_sqrt_u64 v + 1)"
  using sqrt_loop_from_shrink [of v 31] by (simp add: int_sqrt_u64_def)

section \<open>Derived state\<close>

definition vector_magnitude :: "int \<Rightarrow> int \<Rightarrow> int \<Rightarrow> u16" where
  "vector_magnitude x y z =
     (let square_sum = sat_i32 (sat_i32 (sat_i32 (x * x) + sat_i32 (y * y)) + sat_i32 (z * z))
      in of_nat (min (int_sqrt (nat square_sum)) 65535))"

definition sat_i64 :: "int \<Rightarrow> int" where
  "sat_i64 v = max (- 9223372036854775808) (min 9223372036854775807 v)"

definition vector_magnitude_i64 :: "int \<Rightarrow> int \<Rightarrow> int \<Rightarrow> nat" where
  "vector_magnitude_i64 x y z =
     int_sqrt_u64 (nat (sat_i64 (sat_i64 (sat_i64 (x * x) + sat_i64 (y * y)) + sat_i64 (z * z))))"

definition from_stationary_sample :: "imu_sample \<Rightarrow> imu_gravity_calibration option" where
  "from_stationary_sample sample =
     (let reference = gravity_vector sample;
          magnitude = vector_magnitude (sint (vec_x reference)) (sint (vec_y reference))
                        (sint (vec_z reference))
      in if magnitude < 1000 then None
         else Some \<lparr>cal_reference = reference, cal_magnitude = magnitude\<rparr>)"

definition tilt_axis_mrad :: "int \<Rightarrow> int \<Rightarrow> i16" where
  "tilt_axis_mrad axis vertical =
     (if vertical = 0
      then (if axis = 0 then 0 else if axis > 0 then 32767 else word_of_int (- 32768))
      else clamp_i16 (trunc_div (sat_i32 (axis * 1000)) (max (abs_i32 vertical) 1)))"

text \<open>The cross products and the dot product saturate at \<open>i32\<close>, the scaled cross magnitude at
  \<open>u64\<close>.\<close>

definition calibrated_tilt :: "imu_sample \<Rightarrow> imu_gravity_calibration \<Rightarrow> i16 \<times> i16 \<times> u16" where
  "calibrated_tilt sample calibration =
     (let reference = cal_reference calibration; current = gravity_vector sample;
          rx = sint (vec_x reference); ry = sint (vec_y reference); rz = sint (vec_z reference);
          cx = sint (vec_x current); cy = sint (vec_y current); cz = sint (vec_z current);
          cross_x = sat_i32 (sat_i32 (ry * cz) - sat_i32 (rz * cy));
          cross_y = sat_i32 (sat_i32 (rz * cx) - sat_i32 (rx * cz));
          cross_z = sat_i32 (sat_i32 (rx * cy) - sat_i32 (ry * cx));
          dot = sat_i32 (sat_i32 (sat_i32 (rx * cx) + sat_i32 (ry * cy)) + sat_i32 (rz * cz));
          denominator = max (abs_i32 dot) 1;
          pitch = clamp_i16 (trunc_div (sat_i32 (cross_y * 1000)) denominator);
          roll = clamp_i16 (trunc_div (sat_i32 (cross_x * 1000)) denominator);
          cross_magnitude = vector_magnitude_i64 cross_x cross_y cross_z;
          tilt = min (min (cross_magnitude * 1000) (2 ^ 64 - 1) div nat denominator) 65535
      in (pitch, roll, of_nat tilt))"

definition derive_sample_inner ::
  "int \<Rightarrow> u32 \<Rightarrow> u16 \<Rightarrow> imu_sample \<Rightarrow> imu_gravity_calibration option \<Rightarrow> imu_derived" where
  "derive_sample_inner previous_yaw previous_timestamp previous_accel sample calibration =
     (let elapsed_ms = (if previous_timestamp = 0 then 0
                        else im_timestamp_ms sample - previous_timestamp);
          yaw_delta = trunc_div (sat_i32 (sint (im_gyro_z sample) * sint elapsed_ms)) 1000;
          accel_magnitude = vector_magnitude (sint (im_accel_x sample)) (sint (im_accel_y sample))
                              (sint (im_accel_z sample));
          (pitch, roll, tilt_magnitude) =
            (case calibration of
               Some c \<Rightarrow> calibrated_tilt sample c
             | None \<Rightarrow>
                 (let pitch = tilt_axis_mrad (sint (im_accel_x sample)) (sint (im_accel_z sample));
                      roll = tilt_axis_mrad (sint (im_accel_y sample)) (sint (im_accel_z sample))
                  in (pitch, roll,
                      word_of_int (min (max (abs_i32 (sint pitch)) (abs_i32 (sint roll))) 65535))));
          roughness = (if previous_accel = 0 then 0
                       else min (abs_i32 (uint accel_magnitude - uint previous_accel)) 65535)
      in \<lparr>dv_yaw = sat_i32 (previous_yaw + yaw_delta),
          dv_pitch = pitch,
          dv_roll = roll,
          dv_yaw_rate = im_gyro_z sample,
          dv_accel_magnitude = accel_magnitude,
          dv_tilt_magnitude = tilt_magnitude,
          dv_roughness = word_of_int roughness,
          dv_impact_score = word_of_int roughness\<rparr>)"

text \<open>\<open>derive_sample\<close> and \<open>derive_sample_with_gravity_calibration\<close> fix the last argument.\<close>

definition derive_sample :: "int \<Rightarrow> u32 \<Rightarrow> u16 \<Rightarrow> imu_sample \<Rightarrow> imu_derived" where
  "derive_sample yaw timestamp accel sample = derive_sample_inner yaw timestamp accel sample None"

definition derive_sample_with_gravity_calibration ::
  "int \<Rightarrow> u32 \<Rightarrow> u16 \<Rightarrow> imu_sample \<Rightarrow> imu_gravity_calibration \<Rightarrow> imu_derived" where
  "derive_sample_with_gravity_calibration yaw timestamp accel sample calibration =
     derive_sample_inner yaw timestamp accel sample (Some calibration)"

section \<open>Facts about derived state\<close>

lemma sat_i32_bounds [rust_arith]: "- 2147483648 \<le> sat_i32 v \<and> sat_i32 v \<le> 2147483647"
  by (auto simp: sat_i32_def)

lemma sat_i32_id [simp]: "- 2147483648 \<le> v \<Longrightarrow> v \<le> 2147483647 \<Longrightarrow> sat_i32 v = v"
  by (simp add: sat_i32_def)

lemma i16_square_bound:
  fixes x :: i16
  shows "0 \<le> sint x * sint x \<and> sint x * sint x \<le> 1073741824"
proof -
  have "\<bar>sint x\<bar> \<le> 32768"
    using sint_greater_eq [of x] sint_less [of x] by auto
  then have "\<bar>sint x\<bar> * \<bar>sint x\<bar> \<le> 32768 * 32768" by (intro mult_mono) auto
  then show ?thesis by simp
qed

lemma sat_sum_squares:
  assumes "0 \<le> a" "a \<le> 1073741824" "0 \<le> b" "b \<le> 1073741824" "0 \<le> c" "c \<le> 1073741824"
  shows "sat_i32 (sat_i32 (sat_i32 a + sat_i32 b) + sat_i32 c) = min (a + b + c) 2147483647"
proof -
  have "sat_i32 a = a" "sat_i32 b = b" "sat_i32 c = c"
    using assms by simp_all
  moreover have "sat_i32 (a + b) = min (a + b) 2147483647"
    using assms by (auto simp: sat_i32_def)
  ultimately show ?thesis using assms by (auto simp: sat_i32_def)
qed

text \<open>
  On sensor-sized inputs the magnitude is the exact integer norm, except that a square sum
  beyond \<open>i32::MAX\<close> (all three axes near full scale) is clamped first.
\<close>

lemma vector_magnitude_floor:
  fixes x y z :: i16
  defines "n \<equiv> min (sint x * sint x + sint y * sint y + sint z * sint z) 2147483647"
  shows "uint (vector_magnitude (sint x) (sint y) (sint z)) ^ 2 \<le> n \<and>
         n < (uint (vector_magnitude (sint x) (sint y) (sint z)) + 1) ^ 2"
proof -
  let ?q = "sat_i32 (sat_i32 (sat_i32 (sint x * sint x) + sat_i32 (sint y * sint y)) +
             sat_i32 (sint z * sint z))"
  have bounds: "0 \<le> sint x * sint x" "sint x * sint x \<le> 1073741824"
    "0 \<le> sint y * sint y" "sint y * sint y \<le> 1073741824"
    "0 \<le> sint z * sint z" "sint z * sint z \<le> 1073741824"
    using i16_square_bound by blast+
  have n: "?q = n"
    unfolding n_def by (rule sat_sum_squares [OF bounds])
  have "0 \<le> n" using bounds unfolding n_def min_def by simp
  moreover have "n \<le> 2147483647" unfolding n_def by simp
  ultimately have n0: "0 \<le> n" "n \<le> 2147483647" by simp_all
  let ?r = "int_sqrt (nat n)"
  have r: "?r * ?r \<le> nat n" "nat n < (?r + 1) * (?r + 1)"
    using int_sqrt_floor [of "nat n"] n0 by auto
  have "?r < 65536"
  proof (rule ccontr)
    assume "\<not> ?r < 65536"
    then have "65536 * 65536 \<le> ?r * ?r" by (intro mult_mono) auto
    with r(1) n0 show False by linarith
  qed
  then have "uint (vector_magnitude (sint x) (sint y) (sint z)) = int ?r"
    by (simp add: vector_magnitude_def n Let_def uint_nat unat_of_nat)
  moreover have "int ?r * int ?r \<le> n" "n < (int ?r + 1) * (int ?r + 1)"
  proof -
    have "int (?r * ?r) \<le> int (nat n)" "int (nat n) < int ((?r + 1) * (?r + 1))"
      using r by (simp_all only: of_nat_le_iff of_nat_less_iff)
    then show "int ?r * int ?r \<le> n" "n < (int ?r + 1) * (int ?r + 1)"
      using n0 by (simp_all only: of_nat_mult of_nat_add of_nat_1 int_nat_eq if_True)
  qed
  ultimately show ?thesis by (simp add: power2_eq_square)
qed

lemma impact_is_roughness:
  "dv_impact_score (derive_sample_inner y t a s c) = dv_roughness (derive_sample_inner y t a s c)"
  by (simp add: derive_sample_inner_def Let_def split: prod.splits option.splits)

lemma first_sample_no_impact: "dv_impact_score (derive_sample_inner y t 0 s c) = 0"
  by (simp add: derive_sample_inner_def Let_def split: prod.splits option.splits)

lemma mpu_poll_sample_only_after_initialization:
  assumes "mpu_poll initialized who p g a bytes now_ms = (initialized', Inr (Some sample))"
  shows "initialized' \<and> im_timestamp_ms sample = now_ms \<and>
    (initialized \<or> ((who = Some 0x68 \<or> who = Some 0x70) \<and> p \<and> g \<and> a))"
  using assms
  by (auto simp: mpu_poll_def mpu_initialize_def decode_mpu6050_sample_def Let_def
           split: option.splits if_splits)

lemma square_root_unique:
  "(r :: nat) * r \<le> v \<Longrightarrow> v < (r + 1) * (r + 1) \<Longrightarrow> q * q \<le> v \<Longrightarrow> v < (q + 1) * (q + 1) \<Longrightarrow> q = r"
  by (metis Suc_eq_plus1 le_less_trans less_Suc_eq_le mult_le_mono not_less order_antisym)

lemma int_sqrt_u64_square: "r < 2 ^ 32 \<Longrightarrow> int_sqrt_u64 (r * r) = r"
proof -
  assume "r < 2 ^ 32"
  then have "r * r < 2 ^ 32 * 2 ^ 32" by (intro mult_strict_mono) auto
  then have "r * r < 2 ^ 64" by simp
  from int_sqrt_u64_floor [OF this] show ?thesis
    by (intro square_root_unique [of r "r * r"]) auto
qed

lemma sideways_magnitude: "vector_magnitude_i64 0 96177249 0 = 96177249"
proof -
  have "nat (sat_i64 (sat_i64 (sat_i64 (0 * 0) + sat_i64 (96177249 * 96177249)) + sat_i64 (0 * 0)))
      = 96177249 * 96177249"
    by (simp add: sat_i64_def)
  then show ?thesis using int_sqrt_u64_square [of 96177249] unfolding vector_magnitude_i64_def by simp
qed

section \<open>Properties\<close>

text \<open>Integer magnitude: the magnitude of a 16-bit acceleration vector is the exact integer square
  root of the sum of squares, itself capped at the largest 32-bit signed value.\<close>

theorem magnitude_is_integer_root:
  "(uint (vector_magnitude (sint x) (sint y) (sint z)))\<^sup>2
     \<le> min (sint (x :: i16) * sint x + sint (y :: i16) * sint y + sint (z :: i16) * sint z) 2147483647 \<and>
   min (sint x * sint x + sint y * sint y + sint z * sint z) 2147483647
     < (uint (vector_magnitude (sint x) (sint y) (sint z)) + 1)\<^sup>2"
  by (rule vector_magnitude_floor)

end
