(* ===== verification/Commands.thy ===== *)
theory Commands
  imports Prelude
begin

text \<open>
  The vocabulary the lanes of the firmware exchange: \<open>commands.rs\<close> (the ingress command
  \<open>BrainstemCommand\<close>, the internal \<open>RuntimeCommand\<close>, the fixed scripts) and
  \<open>events.rs\<close> (decoded sensor packets, runtime events, errors), with the translation from
  ingress to internal commands and the two command classifiers of \<open>runtime/helpers.rs\<close>.
\<close>

section \<open>Enumerations\<close>

datatype create_oi_mode = Passive | Safe | Full

datatype safety_latch_kind =
  LBump | LCliff | LWheelDrop | LTilt | LImpact | LCharging | LHeartbeat

datatype feedback_kind = FOk | FError | FArmed | FLostTarget | FDockSeen | FDanger

datatype power_state_request =
  PWake | PSleep | PStartOi | PDebugBaud19200 | PDebugBaud57600 | PDebugBaud115200

record song_tone =
  tone_note :: u8
  duration_64ths :: u8

definition silent_tone :: song_tone where
  "silent_tone = \<lparr>tone_note = 0, duration_64ths = 0\<rparr>"

definition max_song_tones :: nat where
  "max_song_tones = 16"

text \<open>A \<open>[SongTone; MAX_SONG_TONES]\<close> array is a list of that length.\<close>

type_synonym tones = "song_tone list"

definition no_tones :: tones where
  "no_tones = replicate max_song_tones silent_tone"

section \<open>Ingress commands\<close>

text \<open>Arguments in the order of the fields; the last argument of a sequenced command is
  its sequence number.\<close>

datatype (plugins only: code size) brainstem_command =
    BPing
  | BArm
  | BDisarm
  | BEStop
  | BClearEStop
  | BCmdVel i16 i16 u32 u32
  | BDriveDirect i16 i16 u32 u32
  | BDriveArc i16 i16 u32 u32
  | BUnsupported u32
  | BClearSafetyLatch safety_latch_kind u32
  | BCarefulMode u32 u32
  | BEscapeMotion safety_latch_kind u32 i16 i16 u32 u32
  | BHeartbeatStop u32 u32
  | BRequestSensors u8 u32
  | BStreamSensors bool u8 u32 u32
  | BClearMotionQueue u32
  | BDefineChirp feedback_kind tones u8 u32
  | BPlayFeedback feedback_kind u32
  | BSetAudioSilent bool u32
  | BPowerState power_state_request u32
  | BCalibrateTurn i16 u32 u32
  | BOrientationProbe i16 u32 u32
  | BResetOdometry u32
  | BZeroImuOrientation u32
  | BClearImuOrientation u32
  | BRestartCreate
  | BResetMotherbrain
  | BGetCapabilities
  | BGetEvents u32
  | BStop
  | BStatus
  | BBootsel
  | BSetMode create_oi_mode
  | BSongDefine u8 tones u8 u32
  | BSongPlay u8
  | BDock
  | BSetLights u8 u8 u8

section \<open>Internal commands and scripts\<close>

datatype (plugins only: code size) runtime_command =
    RWakeCreate
  | RSleepCreate
  | RStop
  | REStop
  | RClearEStop
  | RDriveDirect i16 i16 "u32 option"
  | RCmdVel i16 i16 "u32 option"
  | RClearSafetyLatch safety_latch_kind
  | RCarefulMode u32
  | REscapeMotion safety_latch_kind u32 i16 i16 u32
  | RHeartbeatStop u32
  | RDriveArc i16 i16 "u32 option"
  | RRequestSensors u8
  | RStreamSensors bool u8 u32
  | RClearMotionQueue
  | RDefineChirp feedback_kind tones u8
  | RPlayFeedback feedback_kind
  | RSetAudioSilent bool
  | RCalibrateTurn i16 u32
  | ROrientationProbe i16 u32
  | RResetOdometry
  | RZeroImuOrientation
  | RClearImuOrientation
  | RStartOi
  | RSetCreateBaud u32
  | RSetMode create_oi_mode
  | RDrive i16 i16 u32
  | RStopDrive
  | RSongDefine u8 tones u8
  | RSongPlay u8
  | RDock
  | RSetLights u8 u8 u8

definition acquire_create_script :: "runtime_command list" where
  "acquire_create_script = [RWakeCreate, RStartOi, RSetMode Full]"

definition disarm_script :: "runtime_command list" where
  "disarm_script = [RStop]"

definition restart_create_script :: "runtime_command list" where
  "restart_create_script = [RStop, RSleepCreate, RWakeCreate, RStartOi, RSetMode Full]"

section \<open>Translation and classification (\<open>runtime/helpers.rs\<close>)\<close>

fun runtime_command_from_forebrain :: "brainstem_command \<Rightarrow> runtime_command option" where
  "runtime_command_from_forebrain BPing = None"
| "runtime_command_from_forebrain BStatus = None"
| "runtime_command_from_forebrain BBootsel = None"
| "runtime_command_from_forebrain BArm = None"
| "runtime_command_from_forebrain BDisarm = None"
| "runtime_command_from_forebrain BRestartCreate = None"
| "runtime_command_from_forebrain BResetMotherbrain = None"
| "runtime_command_from_forebrain BStop = Some RStop"
| "runtime_command_from_forebrain BEStop = Some REStop"
| "runtime_command_from_forebrain BClearEStop = Some RClearEStop"
| "runtime_command_from_forebrain (BSetMode mode) = Some (RSetMode mode)"
| "runtime_command_from_forebrain (BCmdVel lin ang ttl seq) = Some (RCmdVel lin ang (Some ttl))"
| "runtime_command_from_forebrain (BDriveDirect l r ttl seq) = Some (RDriveDirect l r (Some ttl))"
| "runtime_command_from_forebrain (BDriveArc v rad ttl seq) = Some (RDriveArc v rad (Some ttl))"
| "runtime_command_from_forebrain (BUnsupported seq) = None"
| "runtime_command_from_forebrain (BClearSafetyLatch kind seq) = Some (RClearSafetyLatch kind)"
| "runtime_command_from_forebrain (BCarefulMode ttl seq) = Some (RCarefulMode ttl)"
| "runtime_command_from_forebrain (BEscapeMotion kind gen lin ang ttl seq) =
     Some (REscapeMotion kind gen lin ang ttl)"
| "runtime_command_from_forebrain (BHeartbeatStop timeout seq) = Some (RHeartbeatStop timeout)"
| "runtime_command_from_forebrain (BRequestSensors pid seq) = Some (RRequestSensors pid)"
| "runtime_command_from_forebrain (BStreamSensors en pid period seq) =
     Some (RStreamSensors en pid period)"
| "runtime_command_from_forebrain (BClearMotionQueue seq) = Some RClearMotionQueue"
| "runtime_command_from_forebrain (BDefineChirp kind ts n seq) = Some (RDefineChirp kind ts n)"
| "runtime_command_from_forebrain (BPlayFeedback kind seq) = Some (RPlayFeedback kind)"
| "runtime_command_from_forebrain (BSetAudioSilent silent seq) = Some (RSetAudioSilent silent)"
| "runtime_command_from_forebrain (BPowerState request seq) =
     (case request of
        PWake \<Rightarrow> Some RWakeCreate
      | PSleep \<Rightarrow> Some RSleepCreate
      | PStartOi \<Rightarrow> Some RStartOi
      | PDebugBaud19200 \<Rightarrow> Some (RSetCreateBaud 19200)
      | PDebugBaud57600 \<Rightarrow> Some (RSetCreateBaud 57600)
      | PDebugBaud115200 \<Rightarrow> Some (RSetCreateBaud 115200))"
| "runtime_command_from_forebrain (BCalibrateTurn ang dur seq) = Some (RCalibrateTurn ang dur)"
| "runtime_command_from_forebrain (BOrientationProbe ang dur seq) =
     Some (ROrientationProbe ang dur)"
| "runtime_command_from_forebrain (BResetOdometry seq) = Some RResetOdometry"
| "runtime_command_from_forebrain (BZeroImuOrientation seq) = Some RZeroImuOrientation"
| "runtime_command_from_forebrain (BClearImuOrientation seq) = Some RClearImuOrientation"
| "runtime_command_from_forebrain (BSongPlay sid) = Some (RSongPlay sid)"
| "runtime_command_from_forebrain (BSongDefine sid ts n seq) = Some (RSongDefine sid ts n)"
| "runtime_command_from_forebrain BDock = Some RDock"
| "runtime_command_from_forebrain (BSetLights bits color intensity) =
     Some (RSetLights bits color intensity)"
| "runtime_command_from_forebrain BGetCapabilities = None"
| "runtime_command_from_forebrain (BGetEvents since) = None"

definition is_motion_command :: "runtime_command \<Rightarrow> bool" where
  "is_motion_command c =
     (case c of
        RDriveDirect _ _ _ \<Rightarrow> True
      | RCmdVel _ _ _ \<Rightarrow> True
      | REscapeMotion _ _ _ _ _ \<Rightarrow> True
      | RDriveArc _ _ _ \<Rightarrow> True
      | RDrive _ _ _ \<Rightarrow> True
      | RStopDrive \<Rightarrow> True
      | RCalibrateTurn _ _ \<Rightarrow> True
      | ROrientationProbe _ _ \<Rightarrow> True
      | RDock \<Rightarrow> True
      | _ \<Rightarrow> False)"

definition requires_dock_departure :: "runtime_command \<Rightarrow> bool" where
  "requires_dock_departure c =
     (case c of
        RCmdVel lin ang _ \<Rightarrow> lin \<noteq> 0 \<or> ang \<noteq> 0
      | REscapeMotion _ _ lin ang _ \<Rightarrow> lin \<noteq> 0 \<or> ang \<noteq> 0
      | RDrive l r _ \<Rightarrow> l \<noteq> 0 \<or> r \<noteq> 0
      | RDriveDirect l r _ \<Rightarrow> l \<noteq> 0 \<or> r \<noteq> 0
      | RDriveArc v _ _ \<Rightarrow> v \<noteq> 0
      | RDock \<Rightarrow> False
      | RStopDrive \<Rightarrow> False
      | _ \<Rightarrow> is_motion_command c)"

definition is_cmd_vel :: "runtime_command \<Rightarrow> bool" where
  "is_cmd_vel c = (case c of RCmdVel _ _ _ \<Rightarrow> True | _ \<Rightarrow> False)"

definition is_escape_motion :: "runtime_command \<Rightarrow> bool" where
  "is_escape_motion c = (case c of REscapeMotion _ _ _ _ _ \<Rightarrow> True | _ \<Rightarrow> False)"

definition command_preempts_contact_withdrawal :: "brainstem_command \<Rightarrow> bool" where
  "command_preempts_contact_withdrawal c =
     (case c of BStop \<Rightarrow> True | BEStop \<Rightarrow> True | BDisarm \<Rightarrow> True | _ \<Rightarrow> False)"

fun feedback_index :: "feedback_kind \<Rightarrow> nat" where
  "feedback_index FOk = 0"
| "feedback_index FError = 1"
| "feedback_index FArmed = 2"
| "feedback_index FLostTarget = 3"
| "feedback_index FDockSeen = 4"
| "feedback_index FDanger = 5"

definition feedback_slot :: "feedback_kind \<Rightarrow> u8" where
  "feedback_slot kind = 10 + of_nat (feedback_index kind)"

definition tone_of :: "u8 \<times> u8 \<Rightarrow> song_tone" where
  "tone_of p = \<lparr>tone_note = fst p, duration_64ths = snd p\<rparr>"

text \<open>Copies the tones into the front of a fresh array, as the loops over
  \<open>notes.iter().enumerate()\<close> do.\<close>

definition tone_array :: "song_tone list \<Rightarrow> tones" where
  "tone_array ts = take max_song_tones (ts @ no_tones)"

definition default_feedback_tones :: "feedback_kind \<Rightarrow> tones \<times> u8" where
  "default_feedback_tones kind =
     (let notes = (case kind of
          FOk \<Rightarrow> [(60, 8), (64, 8), (67, 12)]
        | FError \<Rightarrow> [(64, 8), (62, 8), (60, 12)]
        | FArmed \<Rightarrow> [(65, 8), (67, 8), (71, 12)]
        | FLostTarget \<Rightarrow> [(55, 8), (52, 8), (48, 12)]
        | FDockSeen \<Rightarrow> [(67, 8), (71, 8), (74, 12)]
        | FDanger \<Rightarrow> [(48, 6), (48, 6), (48, 12)])
      in (tone_array (map tone_of notes), of_nat (length notes)))"

section \<open>Sensor packets, runtime events and errors (\<open>events.rs\<close>)\<close>

record create_sensor_flags =
  fl_bump_left :: bool
  fl_bump_right :: bool
  fl_wheel_drop :: bool
  fl_wall :: bool
  fl_cliff_left :: bool
  fl_cliff_front_left :: bool
  fl_cliff_front_right :: bool
  fl_cliff_right :: bool
  fl_virtual_wall :: bool
  fl_overcurrent :: bool

record create_sensor_packet =
  pk_flags :: create_sensor_flags
  pk_ir_byte :: u8
  pk_buttons :: u8
  pk_distance_mm :: i16
  pk_angle_mrad :: i16
  pk_charging_state :: u8
  pk_charging_sources :: u8
  pk_oi_mode :: u8
  pk_voltage_mv :: u16
  pk_current_ma :: i16
  pk_temperature_c :: u8
  pk_charge_mah :: u16
  pk_capacity_mah :: u16
  pk_cliff_left_signal :: u16
  pk_cliff_front_left_signal :: u16
  pk_cliff_front_right_signal :: u16
  pk_cliff_right_signal :: u16

definition default_flags :: create_sensor_flags where
  "default_flags = \<lparr>fl_bump_left = False, fl_bump_right = False, fl_wheel_drop = False, fl_wall = False,
     fl_cliff_left = False, fl_cliff_front_left = False, fl_cliff_front_right = False,
     fl_cliff_right = False, fl_virtual_wall = False, fl_overcurrent = False\<rparr>"

definition default_packet :: create_sensor_packet where
  "default_packet = \<lparr>pk_flags = default_flags, pk_ir_byte = 0, pk_buttons = 0, pk_distance_mm = 0,
     pk_angle_mrad = 0, pk_charging_state = 0, pk_charging_sources = 0, pk_oi_mode = 0, pk_voltage_mv = 0,
     pk_current_ma = 0, pk_temperature_c = 0, pk_charge_mah = 0, pk_capacity_mah = 0,
     pk_cliff_left_signal = 0, pk_cliff_front_left_signal = 0, pk_cliff_front_right_signal = 0,
     pk_cliff_right_signal = 0\<rparr>"

datatype brainstem_error = CreateNoResponse | UartFraming | Timeout | InvalidPacket

datatype (plugins only: code size) brainstem_event =
    EvBoot
  | EvTickMs u32
  | EvCreatePowerOnRequested
  | EvCreatePowerOffRequested
  | EvCreatePowerToggled
  | EvCreateOiStartRequested
  | EvCreateOiModeRequested create_oi_mode
  | EvCreatePacketReceived u8 "u8 list"
  | EvCreateSensorPacketDecoded u8 create_sensor_packet
  | EvDriveRequested i16 i16 u32
  | EvDriveStopped
  | EvError brainstem_error

section \<open>Facts\<close>

lemma cmd_vel_translation:
  "runtime_command_from_forebrain c = Some r \<Longrightarrow>
   is_cmd_vel r \<longleftrightarrow> (\<exists>lin ang ttl seq. c = BCmdVel lin ang ttl seq)"
  by (cases c) (auto simp: is_cmd_vel_def split: power_state_request.splits)

lemma requires_departure_is_motion: "requires_dock_departure c \<Longrightarrow> is_motion_command c"
  by (cases c) (auto simp: requires_dock_departure_def is_motion_command_def)

lemma length_no_tones [simp]: "length no_tones = max_song_tones"
  by (simp add: no_tones_def)

lemma length_tone_array [simp]: "length (tone_array ts) = max_song_tones"
  by (simp add: tone_array_def)

lemma feedback_index_less: "feedback_index k < 6"
  by (cases k) simp_all

end
