(* ===== verification/Event_Log.thy ===== *)
theory Event_Log
  imports Commands
begin

text \<open>
  The public event log of \<open>status/events.rs\<close>: a ring of 128 records addressed by a wrapping
  sequence counter, read in bounded pages by a cursor. The ring is the five parallel
  static arrays of \<open>status/state.rs\<close>, here one array of records. The abstraction
  \<open>retained\<close> is the list a reader may see; recording appends to it and drops the oldest,
  and a page is a prefix of its unread part.
\<close>

section \<open>Records\<close>

datatype (plugins only: code size) public_event_kind =
    KNone | KBoot | KCommandAccepted | KCommandRejected | KCommandStarted | KCommandCompleted
  | KCommandInterrupted | KCommandTimedOut | KBodyPowerRequested | KBodyPowerChanged
  | KBodyModeRequested | KBodyModeChanged | KTelemetryReceived | KSensorFrameDecoded
  | KMotionRequested | KMotionStopped | KSafetyTripped | KSafetyCleared | KBumpChanged
  | KCliffChanged | KWheelDropLatched | KWheelDropCleared | KWallChanged | KVirtualWallChanged
  | KBatteryLow | KChargingStateChanged | KButtonsChanged | KIrChanged | KHeartbeatExpired
  | KEStopLatched | KEStopCleared | KImuFrameReceived | KImuFault | KTiltChanged
  | KMotionInconsistencyDetected | KImpactDetected | KImuCalibrationChanged | KError
  | KSessionOpened | KSessionReplaced | KSessionRejected | KTransportChanged
  | KPeerRebootDetected | KDhcpLeaseChanged | KDnsRegistrationChanged | KAuthorityChanged
  | KMotherbrainResetRequested | KMotherbrainResetAsserted | KMotherbrainResetCompleted
  | KMotherbrainResetRefused | KContactWithdrawalStarted | KContactWithdrawalCompleted
  | KCommandRenewed | KAudioStateChanged

definition public_event_code :: "public_event_kind \<Rightarrow> u8" where
  "public_event_code k =
     (case k of
        KNone \<Rightarrow> 0 | KBoot \<Rightarrow> 1 | KCommandAccepted \<Rightarrow> 2 | KCommandRejected \<Rightarrow> 3 | KCommandStarted \<Rightarrow> 4
      | KCommandCompleted \<Rightarrow> 5 | KCommandInterrupted \<Rightarrow> 6 | KCommandTimedOut \<Rightarrow> 7
      | KBodyPowerRequested \<Rightarrow> 8 | KBodyPowerChanged \<Rightarrow> 9 | KBodyModeRequested \<Rightarrow> 10
      | KBodyModeChanged \<Rightarrow> 11 | KTelemetryReceived \<Rightarrow> 12 | KSensorFrameDecoded \<Rightarrow> 13
      | KMotionRequested \<Rightarrow> 14 | KMotionStopped \<Rightarrow> 15 | KSafetyTripped \<Rightarrow> 16 | KSafetyCleared \<Rightarrow> 17
      | KBumpChanged \<Rightarrow> 18 | KCliffChanged \<Rightarrow> 19 | KWheelDropLatched \<Rightarrow> 20 | KWheelDropCleared \<Rightarrow> 21
      | KWallChanged \<Rightarrow> 22 | KVirtualWallChanged \<Rightarrow> 23 | KBatteryLow \<Rightarrow> 24
      | KChargingStateChanged \<Rightarrow> 25 | KButtonsChanged \<Rightarrow> 26 | KIrChanged \<Rightarrow> 27
      | KHeartbeatExpired \<Rightarrow> 28 | KEStopLatched \<Rightarrow> 29 | KEStopCleared \<Rightarrow> 30 | KImuFrameReceived \<Rightarrow> 31
      | KImuFault \<Rightarrow> 32 | KTiltChanged \<Rightarrow> 33 | KMotionInconsistencyDetected \<Rightarrow> 34
      | KImpactDetected \<Rightarrow> 35 | KImuCalibrationChanged \<Rightarrow> 36 | KError \<Rightarrow> 37 | KSessionOpened \<Rightarrow> 38
      | KSessionReplaced \<Rightarrow> 39 | KSessionRejected \<Rightarrow> 40 | KTransportChanged \<Rightarrow> 41
      | KPeerRebootDetected \<Rightarrow> 42 | KDhcpLeaseChanged \<Rightarrow> 43 | KDnsRegistrationChanged \<Rightarrow> 44
      | KAuthorityChanged \<Rightarrow> 45 | KMotherbrainResetRequested \<Rightarrow> 46
      | KMotherbrainResetAsserted \<Rightarrow> 47 | KMotherbrainResetCompleted \<Rightarrow> 48
      | KMotherbrainResetRefused \<Rightarrow> 49 | KContactWithdrawalStarted \<Rightarrow> 50
      | KContactWithdrawalCompleted \<Rightarrow> 51 | KCommandRenewed \<Rightarrow> 52 | KAudioStateChanged \<Rightarrow> 53)"

record public_event_record =
  ev_seq :: u32
  ev_kind :: u8
  ev_a :: u32
  ev_b :: u32
  ev_c :: u32

definition empty_event :: public_event_record where
  "empty_event = \<lparr>ev_seq = 0, ev_kind = 0, ev_a = 0, ev_b = 0, ev_c = 0\<rparr>"

record event_log =
  log_next :: u32
  log_slots :: "nat \<Rightarrow> public_event_record"

definition event_log_capacity :: nat where
  "event_log_capacity = 128"

definition event_response_capacity :: nat where
  "event_response_capacity = 16"

definition initial_log :: event_log where
  "initial_log = \<lparr>log_next = 1, log_slots = (\<lambda>_. empty_event)\<rparr>"

section \<open>Operations\<close>

definition event_index :: "u32 \<Rightarrow> nat" where
  "event_index seq = unat seq mod event_log_capacity"

definition record_public_event ::
  "public_event_kind \<Rightarrow> u32 \<Rightarrow> u32 \<Rightarrow> u32 \<Rightarrow> event_log \<Rightarrow> event_log \<times> u32" where
  "record_public_event kind a b c l =
     (let seq = log_next l in
      (\<lparr>log_next = max (seq + 1) 1,
        log_slots = (log_slots l)(event_index seq :=
          \<lparr>ev_seq = seq, ev_kind = public_event_code kind, ev_a = a, ev_b = b, ev_c = c\<rparr>)\<rparr>,
       seq))"

definition event_oldest_seq :: "event_log \<Rightarrow> u32" where
  "event_oldest_seq l = max (sat_sub (log_next l) 128) 1"

definition event_dropped_before_seq :: "u32 \<Rightarrow> event_log \<Rightarrow> u32" where
  "event_dropped_before_seq since_seq l =
     (if sat_add since_seq 1 < event_oldest_seq l then event_oldest_seq l else 0)"

text \<open>\<open>for seq in since_seq.saturating_add(1)..next_seq\<close>\<close>

definition seq_range :: "u32 \<Rightarrow> u32 \<Rightarrow> u32 list" where
  "seq_range first past = map of_nat [unat first ..< unat past]"

definition collect_events_since :: "nat \<Rightarrow> u32 \<Rightarrow> event_log \<Rightarrow> public_event_record list" where
  "collect_events_since n since_seq l =
     (let since_seq = max since_seq (sat_sub (event_oldest_seq l) 1) in
      fold (\<lambda>seq out.
              let entry = log_slots l (event_index seq) in
              if ev_seq entry \<noteq> seq then out else push_back n out (entry\<lparr>ev_seq := seq\<rparr>))
           (seq_range (sat_add since_seq 1) (log_next l)) [])"

definition event_batch_next_seq :: "public_event_record list \<Rightarrow> event_log \<Rightarrow> u32" where
  "event_batch_next_seq records l =
     (if records = [] then log_next l else sat_add (ev_seq (last records)) 1)"

section \<open>The retained window\<close>

definition log_ok :: "event_log \<Rightarrow> bool" where
  "log_ok l \<longleftrightarrow> 1 \<le> log_next l \<and>
     (\<forall>n. unat (event_oldest_seq l) \<le> n \<and> n < unat (log_next l) \<longrightarrow>
        ev_seq (log_slots l (n mod event_log_capacity)) = of_nat n)"

definition retained :: "event_log \<Rightarrow> public_event_record list" where
  "retained l = map (\<lambda>n. log_slots l (n mod event_log_capacity))
     [unat (event_oldest_seq l) ..< unat (log_next l)]"

lemma unat_oldest: "unat (event_oldest_seq l) = max (unat (log_next l) - 128) 1"
proof -
  have sub: "unat (sat_sub (log_next l) 128) = unat (log_next l) - 128"
  proof (cases "log_next l < 128")
    case True
    then show ?thesis by (simp add: sat_sub_def word_less_nat_alt)
  next
    case False
    then have "(128 :: u32) \<le> log_next l" by simp
    then have "unat (log_next l - 128) = unat (log_next l) - unat (128 :: u32)"
      by (rule unat_sub)
    with False show ?thesis by (simp add: sat_sub_def)
  qed
  show ?thesis
    by (simp add: event_oldest_seq_def max_def word_le_nat_alt sub [symmetric])
qed

lemma event_index_of_nat: "n < 4294967296 \<Longrightarrow> event_index (of_nat n) = n mod event_log_capacity"
  by (simp add: event_index_def unat_of_nat)

lemma fold_push_back:
  "length out \<le> n \<Longrightarrow> fold (\<lambda>x out. if P x then out else push_back n out (f x)) xs out
     = take n (out @ map f (filter (\<lambda>x. \<not> P x) xs))"
proof (induction xs arbitrary: out)
  case Nil
  then show ?case by simp
next
  case (Cons x xs)
  consider "P x" | "\<not> P x" "length out < n" | "\<not> P x" "length out = n"
    using Cons.prems by fastforce
  then show ?case
  proof cases
    case 2
    then have "fold (\<lambda>x out. if P x then out else push_back n out (f x)) xs (out @ [f x])
        = take n ((out @ [f x]) @ map f (filter (\<lambda>x. \<not> P x) xs))"
      by (intro Cons.IH) simp
    with 2 show ?thesis by simp
  next
    case 3
    then have "push_back n out (f x) = out" by (simp add: push_back_def)
    with 3 Cons show ?thesis by simp
  qed (use Cons in simp)
qed

lemma filter_above_upt: "filter (\<lambda>n. m < n) [i ..< j] = [max i (Suc m) ..< j]"
proof (induction j)
  case 0
  then show ?case by simp
next
  case (Suc j)
  then show ?case by (auto simp: max_def)
qed

lemma log_ok_initial: "log_ok initial_log"
  by (auto simp: log_ok_def initial_log_def unat_oldest)

lemma unat_u32_less: "unat (w :: u32) < 4294967296"
  using unsigned_less [of w] by simp

lemma unat_inc_u32: "unat (w :: u32) < 4294967295 \<Longrightarrow> unat (w + 1) = unat w + 1"
  by (simp add: unat_word_ariths)

lemma inc_last_u32: "unat (w :: u32) = 4294967295 \<Longrightarrow> w + 1 = 0"
  by (simp add: unat_word_ariths flip: unat_eq_zero)

lemma log_next_record:
  "log_next (fst (record_public_event k a b c l)) = max (log_next l + 1) 1"
  by (simp add: record_public_event_def Let_def)

lemma unat_next_record:
  "unat (log_next (fst (record_public_event k a b c l))) =
     (if unat (log_next l) = 4294967295 then 1 else unat (log_next l) + 1)"
proof (cases "unat (log_next l) = 4294967295")
  case True
  then show ?thesis by (simp add: log_next_record inc_last_u32)
next
  case False
  then have "unat (log_next l + 1) = unat (log_next l) + 1"
    using unat_u32_less [of "log_next l"] by (intro unat_inc_u32) simp
  with False show ?thesis
    by (simp add: log_next_record max_def word_le_nat_alt)
qed

lemma slot_after_record:
  "log_slots (fst (record_public_event k a b c l)) i =
     (if i = event_index (log_next l)
      then \<lparr>ev_seq = log_next l, ev_kind = public_event_code k, ev_a = a, ev_b = b, ev_c = c\<rparr>
      else log_slots l i)"
  by (simp add: record_public_event_def Let_def)

text \<open>Two sequence numbers of the retained window never share a slot.\<close>

lemma window_no_clash:
  "m < n \<Longrightarrow> n - m < event_log_capacity \<Longrightarrow> m mod event_log_capacity \<noteq> n mod event_log_capacity"
proof
  assume "m < n" "n - m < event_log_capacity" "m mod event_log_capacity = n mod event_log_capacity"
  then have "event_log_capacity dvd n - m"
    by (metis mod_eq_dvd_iff_nat less_imp_le)
  with \<open>m < n\<close> \<open>n - m < event_log_capacity\<close> show False
    by (auto dest: dvd_imp_le)
qed

theorem log_ok_record:
  assumes "log_ok l"
  shows "log_ok (fst (record_public_event k a b c l))"
proof (cases "unat (log_next l) = 4294967295")
  case True
  then have "unat (log_next (fst (record_public_event k a b c l))) = 1"
    by (simp add: unat_next_record)
  then show ?thesis by (simp add: log_ok_def unat_oldest word_le_nat_alt)
next
  case False
  let ?l = "fst (record_public_event k a b c l)"
  have nxt: "unat (log_next ?l) = unat (log_next l) + 1"
    using False by (simp add: unat_next_record)
  have "ev_seq (log_slots ?l (n mod event_log_capacity)) = of_nat n"
    if n: "max (unat (log_next ?l) - 128) 1 \<le> n" "n < unat (log_next ?l)" for n
  proof (cases "n = unat (log_next l)")
    case True
    then show ?thesis by (simp add: slot_after_record event_index_def)
  next
    case False
    then have "n < unat (log_next l)" using n nxt by simp
    moreover have "unat (log_next l) - n < event_log_capacity"
      using n unfolding nxt event_log_capacity_def by linarith
    ultimately have "n mod event_log_capacity \<noteq> event_index (log_next l)"
      unfolding event_index_def by (rule window_no_clash)
    moreover have "unat (event_oldest_seq l) \<le> n"
      using n unfolding nxt unat_oldest by linarith
    ultimately show ?thesis
      using assms \<open>n < unat (log_next l)\<close> by (simp add: slot_after_record log_ok_def)
  qed
  then show ?thesis using nxt by (simp add: log_ok_def unat_oldest word_le_nat_alt)
qed

text \<open>Recording is a bounded append on the window a reader may see.\<close>

theorem retained_record:
  assumes "log_ok l" and "unat (log_next l) < 4294967295"
  shows "retained (fst (record_public_event k a b c l)) =
    drop (length (retained l) - 127) (retained l) @
      [\<lparr>ev_seq = log_next l, ev_kind = public_event_code k, ev_a = a, ev_b = b, ev_c = c\<rparr>]"
proof -
  let ?l = "fst (record_public_event k a b c l)" and ?n = "unat (log_next l)"
  let ?e = "\<lparr>ev_seq = log_next l, ev_kind = public_event_code k, ev_a = a, ev_b = b, ev_c = c\<rparr>"
  have n1: "1 \<le> ?n" using assms(1) by (simp add: log_ok_def word_le_nat_alt)
  have nxt: "unat (log_next ?l) = ?n + 1" using assms(2) by (simp add: unat_next_record)
  have "retained ?l = map (\<lambda>n. log_slots ?l (n mod event_log_capacity)) [max (?n - 127) 1 ..< ?n] @ [?e]"
    using n1 by (simp add: retained_def unat_oldest nxt slot_after_record event_index_def)
  also have "map (\<lambda>n. log_slots ?l (n mod event_log_capacity)) [max (?n - 127) 1 ..< ?n]
      = map (\<lambda>n. log_slots l (n mod event_log_capacity)) [max (?n - 127) 1 ..< ?n]"
  proof (rule map_cong [OF refl])
    fix m
    assume "m \<in> set [max (?n - 127) 1 ..< ?n]"
    then have "m mod event_log_capacity \<noteq> event_index (log_next l)"
      unfolding event_index_def by (intro window_no_clash) (auto simp: event_log_capacity_def)
    then show "log_slots ?l (m mod event_log_capacity) = log_slots l (m mod event_log_capacity)"
      by (simp add: slot_after_record)
  qed
  also have "\<dots> = drop (length (retained l) - 127) (retained l)"
  proof -
    have "max (?n - 128) 1 + (?n - max (?n - 128) 1 - 127) = max (?n - 127) 1"
      using n1 by (cases "?n \<le> 128") auto
    then show ?thesis by (simp add: retained_def unat_oldest drop_map drop_upt)
  qed
  finally show ?thesis .
qed

lemma length_retained: "length (retained l) \<le> 128"
  by (simp add: retained_def unat_oldest)

lemma retained_seqs:
  "log_ok l \<Longrightarrow> map (\<lambda>r. unat (ev_seq r)) (retained l) = [unat (event_oldest_seq l) ..< unat (log_next l)]"
proof -
  assume *: "log_ok l"
  have "unat (ev_seq (log_slots l (n mod event_log_capacity))) = n"
    if "unat (event_oldest_seq l) \<le> n" "n < unat (log_next l)" for n
  proof -
    have "n < 4294967296" using that unat_u32_less [of "log_next l"] by simp
    with * that show ?thesis by (simp add: log_ok_def unat_of_nat)
  qed
  then show ?thesis by (auto simp: retained_def o_def intro: map_idI)
qed

section \<open>Reading\<close>

text \<open>A page is the first \<open>n\<close> retained events above the cursor.\<close>

theorem collect_page:
  assumes "log_ok l"
  shows "collect_events_since n since l = take n (filter (\<lambda>r. since < ev_seq r) (retained l))"
proof -
  let ?o = "unat (event_oldest_seq l)" and ?x = "unat (log_next l)"
  let ?g = "\<lambda>m. log_slots l (m mod event_log_capacity)"
  let ?s = "max since (sat_sub (event_oldest_seq l) 1)"
  have x: "?x < 4294967296" by (rule unat_u32_less)
  have o1: "1 \<le> ?o" by (simp add: unat_oldest)
  have so: "unat (sat_sub (event_oldest_seq l) 1) = ?o - 1"
  proof -
    have "(1 :: u32) \<le> event_oldest_seq l" using o1 by (simp add: word_le_nat_alt)
    then show ?thesis by (simp add: sat_sub_def unat_sub linorder_not_less)
  qed
  have s: "unat ?s = max (unat since) (?o - 1)"
    by (simp add: max_def word_le_nat_alt so)
  have range: "[unat (sat_add ?s 1) ..< ?x] = [max ?o (Suc (unat since)) ..< ?x]"
  proof -
    have "unat (sat_add ?s 1) = min (max (unat since) (?o - 1) + 1) 4294967295"
      by (simp add: unat_sat_add s)
    then have "unat (sat_add ?s 1) = max ?o (Suc (unat since)) \<or>
        4294967295 \<le> unat (sat_add ?s 1) \<and> 4294967295 \<le> max ?o (Suc (unat since))"
      using o1 by arith
    then show ?thesis using x by fastforce
  qed
  have seq: "ev_seq (?g m) = of_nat m" and idx: "event_index (of_nat m) = m mod event_log_capacity"
    if "m \<in> set [max ?o (Suc (unat since)) ..< ?x]" for m
    using that assms x by (auto simp: log_ok_def event_index_of_nat)
  have "collect_events_since n since l
      = take n (map (\<lambda>q. (log_slots l (event_index q))\<lparr>ev_seq := q\<rparr>)
          (filter (\<lambda>q. \<not> ev_seq (log_slots l (event_index q)) \<noteq> q)
             (map of_nat [max ?o (Suc (unat since)) ..< ?x])))"
    unfolding collect_events_since_def Let_def seq_range_def range
    by (subst fold_push_back) simp_all
  also have "filter (\<lambda>q. \<not> ev_seq (log_slots l (event_index q)) \<noteq> q)
             (map of_nat [max ?o (Suc (unat since)) ..< ?x])
           = map of_nat [max ?o (Suc (unat since)) ..< ?x]"
    by (rule filter_True) (use seq idx in \<open>auto simp del: set_upt\<close>)
  also have "map (\<lambda>q. (log_slots l (event_index q))\<lparr>ev_seq := q\<rparr>)
               (map of_nat [max ?o (Suc (unat since)) ..< ?x])
           = map ?g [max ?o (Suc (unat since)) ..< ?x]"
    unfolding map_map o_def
  proof (rule map_cong [OF refl])
    fix m
    assume m: "m \<in> set [max ?o (Suc (unat since)) ..< ?x]"
    show "(log_slots l (event_index (of_nat m)))\<lparr>ev_seq := of_nat m\<rparr> = ?g m"
      using seq [OF m] unfolding idx [OF m] by (cases "?g m") simp
  qed
  also have "\<dots> = map ?g (filter (\<lambda>m. unat since < m) [?o ..< ?x])"
    by (simp add: filter_above_upt)
  also have "filter (\<lambda>m. unat since < m) [?o ..< ?x] = filter (\<lambda>m. since < ev_seq (?g m)) [?o ..< ?x]"
  proof (rule filter_cong [OF refl])
    fix m
    assume "m \<in> set [?o ..< ?x]"
    with assms x have "ev_seq (?g m) = of_nat m" "m < 4294967296"
      by (auto simp: log_ok_def)
    then show "(unat since < m) = (since < ev_seq (?g m))"
      by (simp add: word_less_nat_alt unat_of_nat)
  qed
  finally show ?thesis by (simp add: retained_def filter_map o_def)
qed

section \<open>Paging\<close>

text \<open>
  A reader that continues at the returned \<open>next_seq\<close> minus one: \<open>k\<close> pages of \<open>n\<close> records.
\<close>

primrec read_pages :: "nat \<Rightarrow> nat \<Rightarrow> u32 \<Rightarrow> event_log \<Rightarrow> public_event_record list" where
  "read_pages 0 n since l = []"
| "read_pages (Suc k) n since l =
     (let page = collect_events_since n since l in
      if page = [] then []
      else page @ read_pages k n (sat_sub (event_batch_next_seq page l) 1) l)"

lemma filter_above_index:
  "map f xs = [a ..< b] \<Longrightarrow> filter (\<lambda>r. m < f r) xs = drop (Suc m - a) xs"
proof (induction xs arbitrary: a)
  case Nil
  then show ?case by simp
next
  case (Cons x xs)
  then have "a < b" by (cases "a < b") auto
  with Cons.prems have fx: "f x = a" and "map f xs = [Suc a ..< b]"
    by (simp_all add: upt_conv_Cons)
  then have "filter (\<lambda>r. m < f r) xs = drop (Suc m - Suc a) xs" by (intro Cons.IH)
  with fx show ?case by (cases "m < a") (auto simp: Suc_diff_le)
qed

lemma unread_seqs:
  assumes "log_ok l"
  shows "map (\<lambda>r. unat (ev_seq r)) (filter (\<lambda>r. since < ev_seq r) (retained l)) =
    [max (unat (event_oldest_seq l)) (Suc (unat since)) ..< unat (log_next l)]"
proof -
  have "filter (\<lambda>r. since < ev_seq r) (retained l)
      = drop (Suc (unat since) - unat (event_oldest_seq l)) (retained l)"
    using filter_above_index [OF retained_seqs [OF assms], of "unat since"]
    by (simp add: word_less_nat_alt)
  then have "map (\<lambda>r. unat (ev_seq r)) (filter (\<lambda>r. since < ev_seq r) (retained l))
      = drop (Suc (unat since) - unat (event_oldest_seq l))
          [unat (event_oldest_seq l) ..< unat (log_next l)]"
    by (simp add: retained_seqs [OF assms] drop_map [symmetric])
  then show ?thesis by (simp add: drop_upt max_def)
qed

lemma next_cursor:
  assumes "log_ok l" and "collect_events_since n since l \<noteq> []"
  defines "c \<equiv> sat_sub (event_batch_next_seq (collect_events_since n since l) l) 1"
  shows "filter (\<lambda>r. c < ev_seq r) (retained l) = drop n (filter (\<lambda>r. since < ev_seq r) (retained l))"
proof -
  let ?xs = "filter (\<lambda>r. since < ev_seq r) (retained l)"
  let ?a = "max (unat (event_oldest_seq l)) (Suc (unat since))" and ?b = "unat (log_next l)"
  have page: "collect_events_since n since l = take n ?xs" by (rule collect_page [OF assms(1)])
  have seqs: "map (\<lambda>r. unat (ev_seq r)) ?xs = [?a ..< ?b]" by (rule unread_seqs [OF assms(1)])
  let ?k = "min (length ?xs) n"
  have len: "length ?xs = ?b - ?a"
    using arg_cong [OF seqs, of length] by simp
  have k: "0 < ?k"
    using assms(2) unfolding page by (simp add: length_greater_0_conv)
  have "unat (ev_seq (last (take n ?xs))) = last (map (\<lambda>r. unat (ev_seq r)) (take n ?xs))"
    using assms(2) page by (simp add: last_map)
  also have "\<dots> = last (take n [?a ..< ?b])" by (simp only: seqs take_map [symmetric])
  also have "\<dots> = ?a + (?k - 1)"
    using k len by (simp add: last_conv_nth min_def) auto
  finally have last: "unat (ev_seq (last (take n ?xs))) = ?a + (?k - 1)" .
  have "unat (ev_seq (last (take n ?xs))) < 4294967295"
    using last k len unat_u32_less [of "log_next l"] by linarith
  then have "unat (sat_add (ev_seq (last (take n ?xs))) 1) = unat (ev_seq (last (take n ?xs))) + 1"
    by (simp add: unat_sat_add)
  then have c: "unat c = ?a + (?k - 1)"
    using assms(2) last page
    by (simp add: c_def event_batch_next_seq_def sat_sub_def word_less_nat_alt unat_sub word_le_nat_alt)
  have "since \<le> c" using c by (simp add: word_le_nat_alt)
  then have "filter (\<lambda>r. c < ev_seq r) (retained l) = filter (\<lambda>r. c < ev_seq r) ?xs"
    by (auto intro!: filter_cong)
  also have "\<dots> = filter (\<lambda>r. unat c < unat (ev_seq r)) ?xs" by (simp add: word_less_nat_alt)
  also have "\<dots> = drop (Suc (unat c) - ?a) ?xs" by (rule filter_above_index [OF seqs])
  also have "\<dots> = drop n ?xs"
    using c k by (cases "length ?xs \<le> n") auto
  finally show ?thesis .
qed

theorem read_pages_prefix:
  assumes "log_ok l"
  shows "read_pages k n since l = take (k * n) (filter (\<lambda>r. since < ev_seq r) (retained l))"
proof (induction k arbitrary: since)
  case 0
  then show ?case by simp
next
  case (Suc k)
  let ?xs = "filter (\<lambda>r. since < ev_seq r) (retained l)"
  have page: "collect_events_since n since l = take n ?xs" by (rule collect_page [OF assms])
  show ?case
  proof (cases "collect_events_since n since l = []")
    case True
    then have "n = 0 \<or> ?xs = []" by (simp add: page)
    with True show ?thesis by (auto simp: Let_def)
  next
    case False
    then have "read_pages (Suc k) n since l = take n ?xs @ take (k * n) (drop n ?xs)"
      by (simp add: Let_def Suc.IH next_cursor [OF assms False] page [symmetric])
    also have "\<dots> = take (n + k * n) ?xs" by (simp add: take_add)
    finally show ?thesis by simp
  qed
qed

section \<open>The log against an unbounded history\<close>

text \<open>A history is the list of everything ever recorded; the log holds its end.\<close>

type_synonym history = "(public_event_kind \<times> u32 \<times> u32 \<times> u32) list"

definition log_of :: "history \<Rightarrow> event_log" where
  "log_of es = fold (\<lambda>(k, a, b, c) l. fst (record_public_event k a b c l)) es initial_log"

definition numbered :: "history \<Rightarrow> public_event_record list" where
  "numbered es = map (\<lambda>(i, k, a, b, c).
     \<lparr>ev_seq = of_nat (Suc i), ev_kind = public_event_code k, ev_a = a, ev_b = b, ev_c = c\<rparr>)
     (enumerate 0 es)"

lemma length_numbered [simp]: "length (numbered es) = length es"
  by (simp add: numbered_def)

lemma numbered_snoc:
  "numbered (es @ [(k, a, b, c)]) = numbered es @
     [\<lparr>ev_seq = of_nat (Suc (length es)), ev_kind = public_event_code k, ev_a = a, ev_b = b, ev_c = c\<rparr>]"
  by (simp add: numbered_def enumerate_append_eq)

lemma log_of_snoc: "log_of (es @ [(k, a, b, c)]) = fst (record_public_event k a b c (log_of es))"
  by (simp add: log_of_def)

lemma log_of_ok: "log_ok (log_of es)"
proof (induction es rule: rev_induct)
  case (snoc e es)
  then show ?case by (cases e) (simp add: log_of_snoc log_ok_record)
qed (simp add: log_of_def log_ok_initial)

lemma log_of_next: "length es < 4294967295 \<Longrightarrow> unat (log_next (log_of es)) = Suc (length es)"
proof (induction es rule: rev_induct)
  case (snoc e es)
  then show ?case by (cases e) (simp add: log_of_snoc unat_next_record)
qed (simp add: log_of_def initial_log_def)

lemma u32_of_unat: "unat (w :: u32) = n \<Longrightarrow> w = of_nat n"
  by auto

lemma retained_history:
  "length es < 4294967295 \<Longrightarrow> retained (log_of es) = drop (length es - 128) (numbered es)"
proof (induction es rule: rev_induct)
  case Nil
  then show ?case by (simp add: log_of_def retained_def unat_oldest initial_log_def numbered_def)
next
  case (snoc e es)
  obtain k a b c where e: "e = (k, a, b, c)" by (cases e)
  have n: "unat (log_next (log_of es)) = Suc (length es)" using snoc.prems by (simp add: log_of_next)
  then have next_seq: "log_next (log_of es) = of_nat (Suc (length es))"
    by (rule u32_of_unat)
  have len: "length (retained (log_of es)) = min (length es) 128"
    using snoc by simp
  have suc: "\<not> length es \<le> 128 \<Longrightarrow> Suc (length es - 128) = length es - 127" by simp
  have "retained (log_of (es @ [e])) = drop (length (retained (log_of es)) - 127) (retained (log_of es)) @
      [\<lparr>ev_seq = log_next (log_of es), ev_kind = public_event_code k, ev_a = a, ev_b = b, ev_c = c\<rparr>]"
    unfolding e log_of_snoc using n snoc.prems by (intro retained_record log_of_ok) simp
  also have "drop (length (retained (log_of es)) - 127) (retained (log_of es)) =
      drop (length es - 127) (numbered es)"
    using snoc len suc by (simp add: min_def)
  finally show ?case using snoc.prems
    by (simp add: e numbered_snoc next_seq)
qed

text \<open>C33. Event log refinement: after any history shorter than the 32-bit sequence space the ring
  holds exactly the last 128 events, numbered from 1 in recording order, and a reader that keeps
  asking for pages of \<open>n\<close> events from its cursor receives exactly the unread ones, in order and
  without repetition.\<close>

theorem event_log_pages_history:
  assumes "length es < 4294967295"
  shows "retained (log_of es) = drop (length es - 128) (numbered es) \<and>
    read_pages k n since (log_of es) =
      take (k * n) (filter (\<lambda>r. since < ev_seq r) (drop (length es - 128) (numbered es)))"
  using retained_history [OF assms] read_pages_prefix [OF log_of_ok] by simp

theorem event_log_pages_history_witness:
  "read_pages 3 1 1 (log_of [(KBoot, 0, 0, 0), (KEStopLatched, 7, 8, 9)]) =
     [\<lparr>ev_seq = 2, ev_kind = public_event_code KEStopLatched, ev_a = 7, ev_b = 8, ev_c = 9\<rparr>]"
  using event_log_pages_history [of "[(KBoot, 0, 0, 0), (KEStopLatched, 7, 8, 9)]" 3 1 1]
  by (simp add: numbered_def)

end
