(* ===== verification/Audio.thy ===== *)
theory Audio
  imports Commands
begin

text \<open>
  The auditory annunciator, \<open>audio.rs\<close>: one pending urgent cue, one pending
  informational cue and a busy window. The lemmas show that the two slots only ever hold
  cues of their own class, that a silent annunciator holds none, and that the pending
  urgent cue only rises in priority until it is played.
\<close>

section \<open>Cues\<close>

datatype (plugins only: code size) auditory_cue =
    CueNone | CueArmed | CueEStop | CueCliff | CueWheelDrop | CueTilt | CueImpact
  | CueHeartbeatLost | CueAuthorityLost | CueAuthorityReplaced | CueBumpContact
  | CueCreateError | CueRuntimeError | CueServiceFailure | CueLowBattery | CueSafetyClear
  | CueRecovery | CueAuthorityAcquired | CueDockContact | CueImuFault | CueServiceComplete
  | CueDockSeen | CueMotionInconsistency

fun cue_code :: "auditory_cue \<Rightarrow> u8" where
  "cue_code CueNone = 0"
| "cue_code CueArmed = 1"
| "cue_code CueEStop = 2"
| "cue_code CueCliff = 3"
| "cue_code CueWheelDrop = 4"
| "cue_code CueTilt = 5"
| "cue_code CueImpact = 6"
| "cue_code CueHeartbeatLost = 7"
| "cue_code CueAuthorityLost = 8"
| "cue_code CueAuthorityReplaced = 9"
| "cue_code CueBumpContact = 10"
| "cue_code CueCreateError = 11"
| "cue_code CueRuntimeError = 12"
| "cue_code CueServiceFailure = 13"
| "cue_code CueLowBattery = 14"
| "cue_code CueSafetyClear = 15"
| "cue_code CueRecovery = 16"
| "cue_code CueAuthorityAcquired = 17"
| "cue_code CueDockContact = 18"
| "cue_code CueImuFault = 19"
| "cue_code CueServiceComplete = 20"
| "cue_code CueDockSeen = 21"
| "cue_code CueMotionInconsistency = 22"

fun cue_priority :: "auditory_cue \<Rightarrow> nat" where
  "cue_priority CueEStop = 8"
| "cue_priority CueCliff = 7"
| "cue_priority CueWheelDrop = 7"
| "cue_priority CueTilt = 7"
| "cue_priority CueImpact = 7"
| "cue_priority CueHeartbeatLost = 6"
| "cue_priority CueAuthorityLost = 6"
| "cue_priority CueAuthorityReplaced = 6"
| "cue_priority CueCreateError = 6"
| "cue_priority CueBumpContact = 5"
| "cue_priority CueRuntimeError = 4"
| "cue_priority CueServiceFailure = 4"
| "cue_priority CueImuFault = 4"
| "cue_priority CueMotionInconsistency = 4"
| "cue_priority CueLowBattery = 3"
| "cue_priority CueSafetyClear = 2"
| "cue_priority CueRecovery = 2"
| "cue_priority CueArmed = 1"
| "cue_priority CueAuthorityAcquired = 1"
| "cue_priority CueDockContact = 1"
| "cue_priority CueServiceComplete = 1"
| "cue_priority CueDockSeen = 1"
| "cue_priority CueNone = 0"

definition cue_urgent :: "auditory_cue \<Rightarrow> bool" where
  "cue_urgent c \<longleftrightarrow> 3 \<le> cue_priority c"

definition cue_from_code :: "u8 \<Rightarrow> auditory_cue" where
  "cue_from_code code =
     (if code = 1 then CueArmed
      else if code = 2 then CueEStop
      else if code = 3 then CueCliff
      else if code = 4 then CueWheelDrop
      else if code = 5 then CueTilt
      else if code = 6 then CueImpact
      else if code = 7 then CueHeartbeatLost
      else if code = 8 then CueAuthorityLost
      else if code = 9 then CueAuthorityReplaced
      else if code = 10 then CueBumpContact
      else if code = 11 then CueCreateError
      else if code = 12 then CueRuntimeError
      else if code = 13 then CueServiceFailure
      else if code = 14 then CueLowBattery
      else if code = 15 then CueSafetyClear
      else if code = 16 then CueRecovery
      else if code = 17 then CueAuthorityAcquired
      else if code = 18 then CueDockContact
      else if code = 19 then CueImuFault
      else if code = 20 then CueServiceComplete
      else if code = 21 then CueDockSeen
      else if code = 22 then CueMotionInconsistency
      else CueNone)"

interpretation cue_wire: wire_code cue_code "\<lambda>w. Some (cue_from_code w)"
proof
  show "Some (cue_from_code (cue_code x)) = Some x" for x
    by (cases x) (simp_all add: cue_from_code_def)
qed

section \<open>The annunciator\<close>

datatype cue_request_result = CueReady | CueQueued | CueSuppressed | CueDropped

record annunciator =
  au_silent :: bool
  au_urgent :: "auditory_cue option"
  au_informational :: "auditory_cue option"
  au_busy_until_ms :: u32

definition new_annunciator :: annunciator where
  "new_annunciator = \<lparr>au_silent = False, au_urgent = None, au_informational = None,
     au_busy_until_ms = 0\<rparr>"

definition count_some :: "'a option \<Rightarrow> u32" where
  "count_some x = (case x of None \<Rightarrow> 0 | Some _ \<Rightarrow> 1)"

definition au_set_silent :: "bool \<Rightarrow> annunciator \<Rightarrow> annunciator \<times> u32" where
  "au_set_silent silent a =
     (let a = a\<lparr>au_silent := silent\<rparr> in
      if \<not> silent then (a, 0)
      else (a\<lparr>au_urgent := None, au_informational := None\<rparr>,
            count_some (au_urgent a) + count_some (au_informational a)))"

definition au_enqueue :: "auditory_cue \<Rightarrow> annunciator \<Rightarrow> annunciator \<times> cue_request_result" where
  "au_enqueue cue a =
     (if cue_urgent cue then
        (let replaced_information = au_informational a \<noteq> None;
             a = a\<lparr>au_informational := None\<rparr> in
         case au_urgent a of
           Some pending \<Rightarrow>
             if cue_priority pending > cue_priority cue then (a, CueDropped)
             else (a\<lparr>au_urgent := Some cue\<rparr>, CueDropped)
         | None \<Rightarrow>
             (a\<lparr>au_urgent := Some cue\<rparr>, if replaced_information then CueDropped else CueQueued))
      else
        (a\<lparr>au_informational := Some cue\<rparr>,
         if au_informational a \<noteq> None then CueDropped else CueQueued))"

definition au_request ::
  "auditory_cue \<Rightarrow> u32 \<Rightarrow> annunciator \<Rightarrow> annunciator \<times> cue_request_result" where
  "au_request cue now_ms a =
     (if au_silent a then (a, CueSuppressed)
      else if \<not> time_reached now_ms (au_busy_until_ms a) then au_enqueue cue a
      else
        (let replaced_information = cue_urgent cue \<and> au_informational a \<noteq> None;
             a = (if cue_urgent cue then a\<lparr>au_informational := None\<rparr> else a) in
         if au_urgent a = None \<and> au_informational a = None then
           (if cue_urgent cue then a\<lparr>au_urgent := Some cue\<rparr> else a\<lparr>au_informational := Some cue\<rparr>,
            if replaced_information then CueDropped else CueReady)
         else au_enqueue cue a))"

definition au_take_ready :: "u32 \<Rightarrow> annunciator \<Rightarrow> annunciator \<times> auditory_cue option" where
  "au_take_ready now_ms a =
     (if au_silent a \<or> \<not> time_reached now_ms (au_busy_until_ms a) then (a, None)
      else (case au_urgent a of
              Some cue \<Rightarrow> (a\<lparr>au_urgent := None\<rparr>, Some cue)
            | None \<Rightarrow> (a\<lparr>au_informational := None\<rparr>, au_informational a)))"

definition au_playback_available :: "u32 \<Rightarrow> annunciator \<Rightarrow> bool" where
  "au_playback_available now_ms a \<longleftrightarrow>
     \<not> au_silent a \<and> au_urgent a = None \<and> au_informational a = None \<and>
     time_reached now_ms (au_busy_until_ms a)"

definition au_mark_manual_played :: "u32 \<Rightarrow> u32 \<Rightarrow> annunciator \<Rightarrow> annunciator" where
  "au_mark_manual_played now_ms duration_ms a =
     a\<lparr>au_busy_until_ms := now_ms + max duration_ms 1\<rparr>"

definition cue_notes :: "auditory_cue \<Rightarrow> u8 list" where
  "cue_notes cue =
     (case cue of
        CueArmed \<Rightarrow> [65, 67, 71]
      | CueEStop \<Rightarrow> [60, 60, 60, 60]
      | CueCliff \<Rightarrow> [71, 60, 71, 60]
      | CueWheelDrop \<Rightarrow> [60, 65, 60, 65]
      | CueTilt \<Rightarrow> [69, 65, 62]
      | CueImpact \<Rightarrow> [60, 67, 60]
      | CueHeartbeatLost \<Rightarrow> [67, 64, 60]
      | CueAuthorityLost \<Rightarrow> [67, 62, 60]
      | CueAuthorityReplaced \<Rightarrow> [67, 65, 62]
      | CueBumpContact \<Rightarrow> [60, 62, 60]
      | CueCreateError \<Rightarrow> [64, 62, 60, 60]
      | CueRuntimeError \<Rightarrow> [64, 62, 60]
      | CueServiceFailure \<Rightarrow> [65, 62, 60]
      | CueLowBattery \<Rightarrow> [69, 64, 60]
      | CueSafetyClear \<Rightarrow> [60, 64, 67]
      | CueRecovery \<Rightarrow> [62, 65, 69]
      | CueAuthorityAcquired \<Rightarrow> [60, 67, 64]
      | CueDockContact \<Rightarrow> [67, 71, 62]
      | CueImuFault \<Rightarrow> [71, 65, 64]
      | CueServiceComplete \<Rightarrow> [62, 67, 71]
      | CueDockSeen \<Rightarrow> [67, 62, 71]
      | CueMotionInconsistency \<Rightarrow> [64, 71, 64]
      | CueNone \<Rightarrow> [])"

text \<open>Every note lasts 6 ticks, the last one 10.\<close>

fun cue_song :: "u8 list \<Rightarrow> song_tone list" where
  "cue_song [] = []"
| "cue_song [n] = [tone_of (n, 10)]"
| "cue_song (n # ns) = tone_of (n, 6) # cue_song ns"

definition cue_tones :: "auditory_cue \<Rightarrow> tones \<times> u8" where
  "cue_tones cue = (tone_array (cue_song (cue_notes cue)), of_nat (length (cue_notes cue)))"

definition tone_ms :: "song_tone \<Rightarrow> nat" where
  "tone_ms t = unat (duration_64ths t) * 1000 div 64"

definition tone_duration_ms :: "tones \<Rightarrow> u8 \<Rightarrow> u32" where
  "tone_duration_ms tones count =
     of_nat (max (sum_list (map tone_ms (take (unat (min count 16)) tones))) 1)"

definition cue_duration_ms :: "auditory_cue \<Rightarrow> u32" where
  "cue_duration_ms cue = (case cue_tones cue of (tones, count) \<Rightarrow> tone_duration_ms tones count)"

definition au_mark_played :: "auditory_cue \<Rightarrow> u32 \<Rightarrow> annunciator \<Rightarrow> annunciator" where
  "au_mark_played cue now_ms a = a\<lparr>au_busy_until_ms := now_ms + cue_duration_ms cue\<rparr>"

section \<open>Invariant\<close>

text \<open>Each slot holds a cue of its class and silence holds none.\<close>

definition annunciator_ok :: "annunciator \<Rightarrow> bool" where
  "annunciator_ok a \<longleftrightarrow>
     (case au_urgent a of None \<Rightarrow> True | Some c \<Rightarrow> cue_urgent c) \<and>
     (case au_informational a of None \<Rightarrow> True | Some c \<Rightarrow> \<not> cue_urgent c) \<and>
     (au_silent a \<longrightarrow> au_urgent a = None \<and> au_informational a = None)"

lemmas annunciator_defs =
  annunciator_ok_def au_set_silent_def au_enqueue_def au_request_def au_take_ready_def
  au_mark_manual_played_def au_mark_played_def Let_def

lemma annunciator_ok_new: "annunciator_ok new_annunciator"
  by (simp add: annunciator_ok_def new_annunciator_def)

lemma annunciator_ok_step:
  assumes "annunciator_ok a"
  shows "annunciator_ok (fst (au_set_silent b a))"
    and "annunciator_ok (fst (au_request cue t a))"
    and "annunciator_ok (fst (au_take_ready t a))"
    and "annunciator_ok (au_mark_manual_played t d a)"
    and "annunciator_ok (au_mark_played cue t a)"
  using assms by (auto simp: annunciator_defs split: option.splits if_splits)

section \<open>Priority\<close>

text \<open>The rank of the pending urgent cue.\<close>

definition pending_rank :: "annunciator \<Rightarrow> nat" where
  "pending_rank a = (case au_urgent a of None \<Rightarrow> 0 | Some c \<Rightarrow> cue_priority c)"

lemma request_keeps_silence: "au_silent (fst (au_request cue t a)) = au_silent a"
  by (simp add: annunciator_defs split: option.splits)

lemma request_rank_mono: "pending_rank a \<le> pending_rank (fst (au_request cue t a))"
  by (auto simp: annunciator_defs pending_rank_def split: option.splits)

lemma request_urgent_rank:
  "cue_urgent cue \<Longrightarrow> \<not> au_silent a \<Longrightarrow>
   cue_priority cue \<le> pending_rank (fst (au_request cue t a))"
  by (auto simp: annunciator_defs pending_rank_def split: option.splits)

interpretation rank: transition "\<lambda>a b. pending_rank a \<le> pending_rank b \<and> au_silent a = au_silent b"
  by unfold_locales auto

lemma requests_keep_rank:
  "pending_rank a \<le> pending_rank (fold (\<lambda>(c, t) x. fst (au_request c t x)) rs a) \<and>
   au_silent (fold (\<lambda>(c, t) x. fst (au_request c t x)) rs a) = au_silent a"
  using rank.through_fold [of "\<lambda>(c, t) x. fst (au_request c t x)" a rs]
  by (auto simp: request_rank_mono request_keeps_silence)

lemma only_estop_has_top_rank: "cue_priority c \<ge> 8 \<longleftrightarrow> c = CueEStop"
  by (cases c) simp_all

lemma take_ready_urgent_first:
  "\<not> au_silent a \<Longrightarrow> time_reached t (au_busy_until_ms a) \<Longrightarrow> au_urgent a = Some c \<Longrightarrow>
   snd (au_take_ready t a) = Some c"
  by (simp add: au_take_ready_def)

lemma cue_duration_bounds: "1 \<le> cue_duration_ms cue \<and> cue_duration_ms cue \<le> 435"
  by (cases cue)
    (simp_all add: cue_duration_ms_def cue_tones_def tone_duration_ms_def cue_notes_def tone_array_def
      tone_of_def tone_ms_def no_tones_def silent_tone_def max_song_tones_def)

section \<open>The emergency cue\<close>

lemma estop_is_the_top_rank: "8 \<le> pending_rank a \<Longrightarrow> au_urgent a = Some CueEStop"
  by (cases "au_urgent a") (auto simp: pending_rank_def only_estop_has_top_rank)

lemma request_keeps_busy: "au_busy_until_ms (fst (au_request cue t a)) = au_busy_until_ms a"
  by (simp add: annunciator_defs split: option.splits)

lemma requests_keep_busy:
  "au_busy_until_ms (fold (\<lambda>(cue, t) x. fst (au_request cue t x)) rs a) = au_busy_until_ms a"
  by (induction rs arbitrary: a) (auto simp: request_keeps_busy)

text \<open>An emergency-stop cue requested while sound is on is the next cue played, whatever was
  pending before it and whatever is requested after it.\<close>

theorem estop_cue_plays_next:
  assumes "\<not> au_silent a" and "time_reached later (au_busy_until_ms a)"
  shows "snd (au_take_ready later
    (fold (\<lambda>(cue, t) x. fst (au_request cue t x)) rs (fst (au_request CueEStop now_ms a)))) = Some CueEStop"
proof -
  let ?a = "fst (au_request CueEStop now_ms a)"
  let ?b = "fold (\<lambda>(cue, t) x. fst (au_request cue t x)) rs ?a"
  have "8 \<le> pending_rank ?a"
    using request_urgent_rank [of CueEStop a now_ms] assms(1) by (simp add: cue_urgent_def)
  then have "8 \<le> pending_rank ?b" and "\<not> au_silent ?b"
    using requests_keep_rank [of ?a rs] assms(1) by (auto simp: request_keeps_silence)
  moreover have "time_reached later (au_busy_until_ms ?b)"
    using assms(2) by (simp add: requests_keep_busy request_keeps_busy)
  ultimately show ?thesis by (intro take_ready_urgent_first estop_is_the_top_rank)
qed

theorem estop_cue_plays_next_witness:
  "snd (au_take_ready 10 (fold (\<lambda>(cue, t) x. fst (au_request cue t x)) [(CueCliff, 6), (CueArmed, 7)]
     (fst (au_request CueEStop 5 new_annunciator)))) = Some CueEStop"
  by (rule estop_cue_plays_next) (simp_all add: new_annunciator_def time_reached_def)

text \<open>Between cues the annunciator waits for the playing one: a played cue makes it busy for at
  least 1 and at most 435 ms, during which nothing is taken, and after which what is pending is.\<close>

theorem played_cue_spaces_playback:
  assumes "deadline_span e" and "\<not> au_silent a"
  shows "1 \<le> cue_duration_ms cue \<and> cue_duration_ms cue \<le> 435 \<and>
    (snd (au_take_ready (now_ms + e) (au_mark_played cue now_ms a)) = None \<longleftrightarrow>
      e < cue_duration_ms cue \<or> (au_urgent a = None \<and> au_informational a = None))"
proof -
  let ?d = "cue_duration_ms cue"
  have b: "1 \<le> ?d" "?d \<le> 435" using cue_duration_bounds [of cue] by simp_all
  then have span: "deadline_span ?d"
    by (auto simp: deadline_span_def word_le_nat_alt word_less_nat_alt)
  have "time_reached (now_ms + e) (now_ms + ?d) \<longleftrightarrow> span_elapsed ?d e"
    by (rule ms.reached_iff_elapsed [OF span assms(1)])
  also have "\<dots> \<longleftrightarrow> \<not> e < ?d"
    using assms(1) by (rule span_elapsed_iff)
  finally have "time_reached (now_ms + e) (now_ms + ?d) \<longleftrightarrow> \<not> e < ?d" .
  then show ?thesis
    using assms(2) b by (auto simp: au_mark_played_def au_take_ready_def split: option.splits)
qed

theorem played_cue_spaces_playback_witness:
  "snd (au_take_ready (1000 + 300) (au_mark_played CueEStop 1000 (new_annunciator\<lparr>au_urgent := Some CueTilt\<rparr>))) = None
   \<and> 300 < cue_duration_ms CueEStop"
  using played_cue_spaces_playback [of 300 "new_annunciator\<lparr>au_urgent := Some CueTilt\<rparr>" CueEStop 1000]
  by (simp add: new_annunciator_def deadline_span_def cue_duration_ms_def cue_tones_def tone_duration_ms_def
      cue_notes_def tone_array_def tone_of_def tone_ms_def no_tones_def silent_tone_def max_song_tones_def)

end
