(* ===== verification/Status_State.thy ===== *)
theory Status_State
  imports Event_Log Audio Imu
begin

text \<open>
  The shared status of the firmware, \<open>status/state.rs\<close>: the static atomics, grouped by
  domain into nested records, with their initial values and the setters of
  \<open>status/telemetry.rs\<close>, \<open>status/events.rs\<close> and \<open>status/commands.rs\<close> that touch one domain and
  the event log. An atomic holding an enum code is a \<open>u8\<close>, as in the source. The lanes are
  modelled one operation at a time: an operation runs without interleaving with the
  stores of another lane (the one lock-free protocol of the source, the odometry
  sequence counter, has its own theory).
\<close>

section \<open>Codes\<close>

abbreviation UNKNOWN :: u8 where "UNKNOWN \<equiv> 0"
abbreviation OFF :: u8 where "OFF \<equiv> 1"
abbreviation ON :: u8 where "ON \<equiv> 2"

definition on_off :: "bool \<Rightarrow> u8" where
  "on_off b = (if b then ON else OFF)"

definition b32 :: "bool \<Rightarrow> u32" where
  "b32 b = (if b then 1 else 0)"

datatype runtime_state = Booting | Running | Idle | RError

fun runtime_state_code :: "runtime_state \<Rightarrow> u8" where
  "runtime_state_code Booting = 1"
| "runtime_state_code Running = 2"
| "runtime_state_code Idle = 3"
| "runtime_state_code RError = 4"

datatype body_state =
  BodyNotStarted | BodyWaitingForCreate | BodyOiStarted | BodyMoving | BodyPowerCycling
| BodyIdle | BodyError

fun body_state_code :: "body_state \<Rightarrow> u8" where
  "body_state_code BodyNotStarted = 1"
| "body_state_code BodyWaitingForCreate = 2"
| "body_state_code BodyOiStarted = 3"
| "body_state_code BodyMoving = 4"
| "body_state_code BodyPowerCycling = 5"
| "body_state_code BodyIdle = 6"
| "body_state_code BodyError = 7"

datatype runtime_action_code = ActNone | ActPowerPulse | ActWakeSettle | ActWaitForCreate | ActSettle | ActDriving

fun runtime_action_value :: "runtime_action_code \<Rightarrow> u8" where
  "runtime_action_value ActNone = 0"
| "runtime_action_value ActPowerPulse = 1"
| "runtime_action_value ActWakeSettle = 4"
| "runtime_action_value ActWaitForCreate = 5"
| "runtime_action_value ActSettle = 6"
| "runtime_action_value ActDriving = 7"

fun error_code :: "brainstem_error \<Rightarrow> u8" where
  "error_code CreateNoResponse = 1"
| "error_code UartFraming = 2"
| "error_code Timeout = 3"
| "error_code InvalidPacket = 4"

datatype uart_read_error = UOverrun | UBreak | UParity | UFraming | UOther

fun uart_read_error_code :: "uart_read_error \<Rightarrow> u8" where
  "uart_read_error_code UOverrun = 1"
| "uart_read_error_code UBreak = 2"
| "uart_read_error_code UParity = 3"
| "uart_read_error_code UFraming = 4"
| "uart_read_error_code UOther = 5"

datatype safety_event_kind = SBump | SCliff | SWheelDrop | SEStop | SHeartbeat | STilt | SImpact | SCharging

fun safety_event_code :: "safety_event_kind \<Rightarrow> u8" where
  "safety_event_code SBump = 1"
| "safety_event_code SCliff = 2"
| "safety_event_code SWheelDrop = 3"
| "safety_event_code SEStop = 4"
| "safety_event_code SHeartbeat = 5"
| "safety_event_code STilt = 6"
| "safety_event_code SImpact = 7"
| "safety_event_code SCharging = 8"

definition safety_event_kind_of :: "u8 \<Rightarrow> safety_event_kind option" where
  "safety_event_kind_of code =
     (if code = 1 then Some SBump
      else if code = 2 then Some SCliff
      else if code = 3 then Some SWheelDrop
      else if code = 4 then Some SEStop
      else if code = 5 then Some SHeartbeat
      else if code = 6 then Some STilt
      else if code = 7 then Some SImpact
      else if code = 8 then Some SCharging
      else None)"

interpretation safety_wire: exact_wire_code safety_event_code safety_event_kind_of
proof
  show "safety_event_kind_of (safety_event_code x) = Some x" for x
    by (cases x) (simp_all add: safety_event_kind_of_def)
  show "safety_event_kind_of w = Some x \<Longrightarrow> safety_event_code x = w" for w x
    by (auto simp: safety_event_kind_of_def split: if_splits)
qed

lemma safety_event_kind_of_code [simp]: "safety_event_kind_of (safety_event_code x) = Some x"
  by (rule safety_wire.dec_enc)

lemma safety_event_kind_of_zero [simp]: "safety_event_kind_of 0 = None"
  by (simp add: safety_event_kind_of_def)

lemma safety_event_code_nonzero [simp]: "safety_event_code x \<noteq> 0"
  by (cases x) simp_all

fun safety_latch_kind_to_event :: "safety_latch_kind \<Rightarrow> safety_event_kind" where
  "safety_latch_kind_to_event LBump = SBump"
| "safety_latch_kind_to_event LCliff = SCliff"
| "safety_latch_kind_to_event LWheelDrop = SWheelDrop"
| "safety_latch_kind_to_event LHeartbeat = SHeartbeat"
| "safety_latch_kind_to_event LTilt = STilt"
| "safety_latch_kind_to_event LImpact = SImpact"
| "safety_latch_kind_to_event LCharging = SCharging"

lemma latch_kind_never_estop: "safety_latch_kind_to_event k \<noteq> SEStop"
  by (cases k) simp_all

fun imu_health_code :: "imu_health \<Rightarrow> u8" where
  "imu_health_code HUnknown = 0"
| "imu_health_code HOk = 1"
| "imu_health_code HFault = 2"
| "imu_health_code HAbsent = 3"

datatype contact_withdrawal_outcome = WithdrawalCompleted | WithdrawalSafetyPreempted | WithdrawalFailed

fun withdrawal_outcome_code :: "contact_withdrawal_outcome \<Rightarrow> u8" where
  "withdrawal_outcome_code WithdrawalCompleted = 1"
| "withdrawal_outcome_code WithdrawalSafetyPreempted = 2"
| "withdrawal_outcome_code WithdrawalFailed = 3"

datatype motherbrain_reset_refusal =
  RefusedHardwareDisabled | RefusedUnsafeState | RefusedCooldown | RefusedDuplicate
| RefusedInvalidServiceAuthority | RefusedInvalidCommandId

fun reset_refusal_code :: "motherbrain_reset_refusal \<Rightarrow> u32" where
  "reset_refusal_code RefusedHardwareDisabled = 1"
| "reset_refusal_code RefusedUnsafeState = 2"
| "reset_refusal_code RefusedCooldown = 3"
| "reset_refusal_code RefusedDuplicate = 4"
| "reset_refusal_code RefusedInvalidServiceAuthority = 5"
| "reset_refusal_code RefusedInvalidCommandId = 6"

section \<open>The statics, by domain\<close>

record command_status =
  cs_current :: u8
  cs_last_accepted :: u32
  cs_last_rejected :: u32
  cs_last_started :: u32
  cs_last_completed :: u32
  cs_last_interrupted :: u32
  cs_last_timed_out :: u32
  cs_last_dispatched :: u32
  cs_dispatched_session :: u32
  cs_dispatched_lease :: u32

record mailbox =
  mb_kind :: u8
  mb_id :: u32
  mb_a :: u32
  mb_b :: u32
  mb_c :: u32
  mb_d :: u32
  mb_duration :: u32
  mb_seq :: u32
  mb_service_session :: u32
  mb_service_lease :: u32
  mb_song_tones :: "u32 list"
  mb_vel_kind :: u8
  mb_vel_id :: u32
  mb_vel_a :: u32
  mb_vel_b :: u32
  mb_vel_ttl :: u32
  mb_vel_seq :: u32
  mb_vel_renewal :: u8
  mb_stream :: u8
  mb_stream_id :: u32
  mb_stream_a :: u32
  mb_stream_b :: u32

record diagnostic_session =
  dg_session_hash :: u32
  dg_peer_hash :: u32
  dg_peer_boot_hash :: u32
  dg_role :: u8
  dg_purpose :: u8
  dg_transport :: u8

record session_status =
  ss_replace_request :: u32
  ss_replace_ack :: u32
  ss_pending_hash :: u32
  ss_pending_peer :: u32
  ss_pending_boot :: u32
  ss_active_hash :: u32
  ss_active_generation :: u32
  ss_active_peer :: u32
  ss_active_boot :: u32
  ss_transport :: u8
  ss_diagnostic :: "diagnostic_session list"

record authority_status =
  as_request :: u32
  as_ack :: u32
  as_pending_lease :: u32
  as_pending_session :: u32
  as_lease :: u32
  as_session :: u32
  as_expires_ms :: u32
  as_service_lease :: u32
  as_service_session :: u32
  as_service_expires_ms :: u32
  as_service_scope :: u8

record safety_status =
  sf_flags :: u32
  sf_latch_kind :: u8
  sf_hazard_generation :: u32
  sf_careful_until_ms :: u32

record sensor_status =
  sn_last_packet_id :: u8
  sn_complete_count :: u32
  sn_last_complete_ms :: u32
  sn_flags :: u32
  sn_distance_mm :: u32
  sn_angle_mrad :: u32
  sn_ir_byte :: u8
  sn_buttons :: u8
  sn_charging_state :: u8
  sn_charging_sources :: u8
  sn_voltage_mv :: u32
  sn_current_ma :: u32
  sn_temperature_c :: u32
  sn_charge_mah :: u32
  sn_capacity_mah :: u32
  sn_cliff_left :: u32
  sn_cliff_front_left :: u32
  sn_cliff_front_right :: u32
  sn_cliff_right :: u32

record audio_status =
  ao_song_defined_id :: u8
  ao_song_defined_len :: u8
  ao_song_played_id :: u8
  ao_silent :: u8
  ao_last_requested :: u8
  ao_last_played :: u8
  ao_last_playback_ms :: u32
  ao_suppressed :: u32
  ao_dropped :: u32

record odometry_status =
  od_reset_count :: u32
  od_sequence :: u32
  od_distance_mm :: u32
  od_x_q10 :: u32
  od_y_q10 :: u32
  od_heading_mrad :: u32

record imu_status =
  iu_present :: u8
  iu_health :: u8
  iu_last_ms :: u32
  iu_count :: u32
  iu_gyro_x :: u32
  iu_gyro_y :: u32
  iu_gyro_z :: u32
  iu_accel_x :: u32
  iu_accel_y :: u32
  iu_accel_z :: u32
  iu_yaw :: u32
  iu_pitch :: u32
  iu_roll :: u32
  iu_accel_magnitude :: u32
  iu_tilt_magnitude :: u32
  iu_roughness :: u32
  iu_impact_score :: u32
  iu_motion_consistency :: u8
  iu_calibration_state :: u8
  iu_tilt_active :: u8

record imu_calibration_status =
  ic_gravity_calibrated :: u8
  ic_ref_x :: u32
  ic_ref_y :: u32
  ic_ref_z :: u32
  ic_ref_magnitude :: u32
  ic_bias_count :: u32
  ic_bias_sum_x :: u32
  ic_bias_sum_y :: u32
  ic_bias_sum_z :: u32
  ic_bias_x :: u32
  ic_bias_y :: u32
  ic_bias_z :: u32

record uart_status =
  us_rx_health :: u8
  us_last_packet_ms :: u32
  us_last_read_error :: u8
  us_rx_bytes :: u32
  us_rx_packets :: u32
  us_last_packet_len :: u32
  us_tx_bytes :: u32
  us_last_rx_byte :: u8
  us_last_tx_byte :: u8
  us_last_rx_ms :: u32
  us_last_tx_ms :: u32
  us_overruns :: u32
  us_breaks :: u32
  us_parity_errors :: u32
  us_framing_errors :: u32
  us_other_errors :: u32

record run_status =
  rs_runtime_state :: u8
  rs_create_power :: u8
  rs_oi_mode :: u8
  rs_body_state :: u8
  rs_action :: u8
  rs_last_error :: u8
  rs_last_error_uart :: u8
  rs_last_error_action :: u8
  rs_wake_response :: u32
  rs_wake_expected :: u32
  rs_charging_indicator :: u8
  rs_battery_low_latched :: u8
  rs_led_blinks :: u8
  rs_wifi_state :: u8

record status =
  st_log :: event_log
  st_cmd :: command_status
  st_mail :: mailbox
  st_session :: session_status
  st_auth :: authority_status
  st_safety :: safety_status
  st_sensor :: sensor_status
  st_audio :: audio_status
  st_odo :: odometry_status
  st_imu :: imu_status
  st_cal :: imu_calibration_status
  st_uart :: uart_status
  st_run :: run_status

section \<open>Initial values\<close>

definition initial_command_status :: command_status where
  "initial_command_status = \<lparr>cs_current = 0, cs_last_accepted = 0, cs_last_rejected = 0,
     cs_last_started = 0, cs_last_completed = 0, cs_last_interrupted = 0, cs_last_timed_out = 0,
     cs_last_dispatched = 0, cs_dispatched_session = 0, cs_dispatched_lease = 0\<rparr>"

definition initial_mailbox :: mailbox where
  "initial_mailbox = \<lparr>mb_kind = 0, mb_id = 0, mb_a = 0, mb_b = 0, mb_c = 0, mb_d = 0,
     mb_duration = 0, mb_seq = 0, mb_service_session = 0, mb_service_lease = 0,
     mb_song_tones = replicate max_song_tones 0, mb_vel_kind = 0, mb_vel_id = 0, mb_vel_a = 0,
     mb_vel_b = 0, mb_vel_ttl = 0, mb_vel_seq = 0, mb_vel_renewal = OFF, mb_stream = OFF,
     mb_stream_id = 0, mb_stream_a = 0, mb_stream_b = 0\<rparr>"

definition diagnostic_session_capacity :: nat where
  "diagnostic_session_capacity = 4"

definition no_diagnostic_session :: diagnostic_session where
  "no_diagnostic_session = \<lparr>dg_session_hash = 0, dg_peer_hash = 0, dg_peer_boot_hash = 0,
     dg_role = 0, dg_purpose = 0, dg_transport = 0\<rparr>"

definition initial_session_status :: session_status where
  "initial_session_status = \<lparr>ss_replace_request = 0, ss_replace_ack = 0, ss_pending_hash = 0,
     ss_pending_peer = 0, ss_pending_boot = 0, ss_active_hash = 0, ss_active_generation = 0,
     ss_active_peer = 0, ss_active_boot = 0, ss_transport = 0,
     ss_diagnostic = replicate diagnostic_session_capacity no_diagnostic_session\<rparr>"

definition initial_authority_status :: authority_status where
  "initial_authority_status = \<lparr>as_request = 0, as_ack = 0, as_pending_lease = 0,
     as_pending_session = 0, as_lease = 0, as_session = 0, as_expires_ms = 0, as_service_lease = 0,
     as_service_session = 0, as_service_expires_ms = 0, as_service_scope = 0\<rparr>"

definition initial_safety_status :: safety_status where
  "initial_safety_status = \<lparr>sf_flags = 0, sf_latch_kind = 0, sf_hazard_generation = 0,
     sf_careful_until_ms = 0\<rparr>"

text \<open>The values \<open>clear_create_sensor_snapshot\<close> stores, which are the initial ones.\<close>

definition cleared_sensor_status :: sensor_status where
  "cleared_sensor_status = \<lparr>sn_last_packet_id = 0, sn_complete_count = 0, sn_last_complete_ms = 0,
     sn_flags = 0, sn_distance_mm = 0, sn_angle_mrad = 0, sn_ir_byte = 0, sn_buttons = 0,
     sn_charging_state = 0, sn_charging_sources = 0, sn_voltage_mv = 0, sn_current_ma = 0,
     sn_temperature_c = 0, sn_charge_mah = 0, sn_capacity_mah = 0, sn_cliff_left = 0,
     sn_cliff_front_left = 0, sn_cliff_front_right = 0, sn_cliff_right = 0\<rparr>"

definition initial_audio_status :: audio_status where
  "initial_audio_status = \<lparr>ao_song_defined_id = 0, ao_song_defined_len = 0,
     ao_song_played_id = 0, ao_silent = OFF, ao_last_requested = 0, ao_last_played = 0,
     ao_last_playback_ms = 0, ao_suppressed = 0, ao_dropped = 0\<rparr>"

definition initial_odometry_status :: odometry_status where
  "initial_odometry_status = \<lparr>od_reset_count = 0, od_sequence = 0, od_distance_mm = 0,
     od_x_q10 = 0, od_y_q10 = 0, od_heading_mrad = 0\<rparr>"

definition initial_imu_status :: imu_status where
  "initial_imu_status = \<lparr>iu_present = UNKNOWN, iu_health = 0, iu_last_ms = 0, iu_count = 0,
     iu_gyro_x = 0, iu_gyro_y = 0, iu_gyro_z = 0, iu_accel_x = 0, iu_accel_y = 0, iu_accel_z = 0,
     iu_yaw = 0, iu_pitch = 0, iu_roll = 0, iu_accel_magnitude = 0, iu_tilt_magnitude = 0,
     iu_roughness = 0, iu_impact_score = 0, iu_motion_consistency = 0, iu_calibration_state = 0,
     iu_tilt_active = 0\<rparr>"

definition initial_imu_calibration_status :: imu_calibration_status where
  "initial_imu_calibration_status = \<lparr>ic_gravity_calibrated = 0, ic_ref_x = 0, ic_ref_y = 0,
     ic_ref_z = 0, ic_ref_magnitude = 0, ic_bias_count = 0, ic_bias_sum_x = 0, ic_bias_sum_y = 0,
     ic_bias_sum_z = 0, ic_bias_x = 0, ic_bias_y = 0, ic_bias_z = 0\<rparr>"

definition initial_uart_status :: uart_status where
  "initial_uart_status = \<lparr>us_rx_health = UNKNOWN, us_last_packet_ms = 0, us_last_read_error = 0,
     us_rx_bytes = 0, us_rx_packets = 0, us_last_packet_len = 0, us_tx_bytes = 0,
     us_last_rx_byte = 0, us_last_tx_byte = 0, us_last_rx_ms = 0, us_last_tx_ms = 0,
     us_overruns = 0, us_breaks = 0, us_parity_errors = 0, us_framing_errors = 0,
     us_other_errors = 0\<rparr>"

definition initial_run_status :: run_status where
  "initial_run_status = \<lparr>rs_runtime_state = 1, rs_create_power = UNKNOWN, rs_oi_mode = UNKNOWN,
     rs_body_state = 1, rs_action = 0, rs_last_error = 0, rs_last_error_uart = 0,
     rs_last_error_action = 0, rs_wake_response = 0, rs_wake_expected = 0,
     rs_charging_indicator = UNKNOWN, rs_battery_low_latched = 0, rs_led_blinks = 0,
     rs_wifi_state = 0\<rparr>"

definition initial_status :: status where
  "initial_status = \<lparr>st_log = initial_log, st_cmd = initial_command_status,
     st_mail = initial_mailbox, st_session = initial_session_status,
     st_auth = initial_authority_status, st_safety = initial_safety_status,
     st_sensor = cleared_sensor_status, st_audio = initial_audio_status,
     st_odo = initial_odometry_status, st_imu = initial_imu_status,
     st_cal = initial_imu_calibration_status, st_uart = initial_uart_status,
     st_run = initial_run_status\<rparr>"

end
