(* ===== verification/Hardware.thy ===== *)
theory Hardware
  imports Imu Status_State
begin

text \<open>
  The hardware trait \<open>BrainstemHardware\<close> of \<open>hardware.rs\<close>. The peripherals are the
  environment: the clock readings, the bytes and errors the serial line delivers, whether a
  write or a flush succeeds, the inertial polls and the charging pin are inputs carried by the
  record; the bytes written, the levels driven and the delays are what the firmware did to it.
\<close>

datatype serial_read = RxByte u8 | RxWouldBlock | RxError uart_read_error

record hardware =
  hw_clock_us :: "nat \<Rightarrow> u32"
  hw_clock_reads :: nat
  hw_rx :: "serial_read list"
  hw_write_ok :: "nat \<Rightarrow> bool"
  hw_writes :: nat
  hw_flush_ok :: "nat \<Rightarrow> bool"
  hw_flushes :: nat
  hw_tx :: "u8 list"
  hw_baud_ok :: "u32 \<Rightarrow> bool"
  hw_baud :: u32
  hw_imu :: "(imu_health + imu_sample option) list"
  hw_charging_pin :: "bool option"
  hw_power_toggle :: "bool list"
  hw_indicators :: bool
  hw_motherbrain_reset :: "bool list"
  hw_watchdog_feeds :: nat
  hw_delayed_ms :: nat

text \<open>\<open>now_us\<close>: the value read and the state after the reading.\<close>

definition now_us :: "hardware \<Rightarrow> hardware \<times> u32" where
  "now_us h = (h\<lparr>hw_clock_reads := Suc (hw_clock_reads h)\<rparr>, hw_clock_us h (hw_clock_reads h))"

definition hw_now_ms :: "hardware \<Rightarrow> hardware \<times> u32" where
  "hw_now_ms h = (case now_us h of (h, us) \<Rightarrow> (h, us div 1000))"

definition read_byte :: "hardware \<Rightarrow> hardware \<times> serial_read" where
  "read_byte h =
     (case hw_rx h of
        [] \<Rightarrow> (h, RxWouldBlock)
      | r # rs \<Rightarrow> (h\<lparr>hw_rx := rs\<rparr>, r))"

definition write_byte :: "u8 \<Rightarrow> hardware \<Rightarrow> hardware \<times> bool" where
  "write_byte b h =
     (let good = hw_write_ok h (hw_writes h) in
      (h\<lparr>hw_writes := Suc (hw_writes h), hw_tx := (if good then hw_tx h @ [b] else hw_tx h)\<rparr>, good))"

definition flush_uart :: "hardware \<Rightarrow> hardware \<times> bool" where
  "flush_uart h = (h\<lparr>hw_flushes := Suc (hw_flushes h)\<rparr>, hw_flush_ok h (hw_flushes h))"

text \<open>The default \<open>drain_uart_rx\<close>: at most 256 reads, until the line would block.\<close>

fun drain_reads :: "nat \<Rightarrow> hardware \<Rightarrow> hardware" where
  "drain_reads 0 h = h"
| "drain_reads (Suc n) h =
     (case read_byte h of
        (h, RxWouldBlock) \<Rightarrow> h
      | (h, _) \<Rightarrow> drain_reads n h)"

definition drain_uart_rx :: "hardware \<Rightarrow> hardware" where
  "drain_uart_rx h = drain_reads 256 h"

definition set_create_uart_baud :: "u32 \<Rightarrow> hardware \<Rightarrow> hardware \<times> bool" where
  "set_create_uart_baud baud h =
     (if hw_baud_ok h baud then (h\<lparr>hw_baud := baud\<rparr>, True) else (h, False))"

definition poll_imu_sample :: "hardware \<Rightarrow> hardware \<times> (imu_health + imu_sample option)" where
  "poll_imu_sample h =
     (case hw_imu h of
        [] \<Rightarrow> (h, Inr None)
      | r # rs \<Rightarrow> (h\<lparr>hw_imu := rs\<rparr>, r))"

definition charging_indicator_pin :: "hardware \<Rightarrow> bool option" where
  "charging_indicator_pin h = hw_charging_pin h"

text \<open>A pulse drives the line low, then high; ending it drives the line low.\<close>

definition begin_power_toggle_pulse :: "hardware \<Rightarrow> hardware" where
  "begin_power_toggle_pulse h = h\<lparr>hw_power_toggle := hw_power_toggle h @ [False, True]\<rparr>"

definition end_power_toggle_pulse :: "hardware \<Rightarrow> hardware" where
  "end_power_toggle_pulse h = h\<lparr>hw_power_toggle := hw_power_toggle h @ [False]\<rparr>"

definition set_indicators :: "bool \<Rightarrow> hardware \<Rightarrow> hardware" where
  "set_indicators on h = h\<lparr>hw_indicators := on\<rparr>"

definition set_motherbrain_reset :: "bool \<Rightarrow> hardware \<Rightarrow> hardware" where
  "set_motherbrain_reset asserted h = h\<lparr>hw_motherbrain_reset := hw_motherbrain_reset h @ [asserted]\<rparr>"

definition feed_watchdog :: "hardware \<Rightarrow> hardware" where
  "feed_watchdog h = h\<lparr>hw_watchdog_feeds := Suc (hw_watchdog_feeds h)\<rparr>"

definition delay_ms :: "u32 \<Rightarrow> hardware \<Rightarrow> hardware" where
  "delay_ms ms h = h\<lparr>hw_delayed_ms := hw_delayed_ms h + unat ms\<rparr>"

text \<open>\<open>initialize_power_control\<close>: the toggle is driven low before the level shifter is enabled,
  which is left disabled when the first step fails. The two operations are arguments, as in
  the source.\<close>

definition initialize_power_control :: "('s, 'e) outcome \<Rightarrow> ('s \<Rightarrow> ('s, 'e) outcome) \<Rightarrow> ('s, 'e) outcome" where
  "initialize_power_control toggle_low enable_oe = and_then toggle_low enable_oe"

section \<open>Frame facts\<close>

lemma drain_reads_frame [simp]:
  "hw_tx (drain_reads n h) = hw_tx h" "hw_power_toggle (drain_reads n h) = hw_power_toggle h"
  "hw_motherbrain_reset (drain_reads n h) = hw_motherbrain_reset h"
  "hw_clock_us (drain_reads n h) = hw_clock_us h"
  by (induction n arbitrary: h)
    (auto simp: read_byte_def split: list.splits serial_read.splits)

text \<open>What draining leaves: everything up to the first pause of the line is gone.\<close>

lemma drain_reads_rx:
  "length (hw_rx h) \<le> n \<Longrightarrow> hw_rx (drain_reads n h) = drop 1 (dropWhile (\<lambda>r. r \<noteq> RxWouldBlock) (hw_rx h))"
  by (induction n arbitrary: h)
    (auto simp: read_byte_def split: list.splits serial_read.splits)

section \<open>Properties\<close>

text \<open>Deadlines: between an arming at \<open>t\<close> and any later reading within half the clock's range a
  deadline \<open>d\<close> ms ahead is reached exactly when \<open>d\<close> ms have passed, across the wrap of the clock.\<close>

theorem deadlines_fire_on_time:
  assumes "deadline_span d" and "deadline_span e"
  shows "\<not> time_reached t (t + d) \<and> (time_reached (t + e) (t + d) \<longleftrightarrow> d \<le> e)"
  using ms.reached_iff_elapsed [OF assms] ms.pending [OF assms(1)] span_elapsed_iff [OF assms(2)]
  by auto

theorem deadlines_fire_on_time_witness:
  "\<not> time_reached (4294967290 + 99) (4294967290 + 100) \<and> time_reached (4294967290 + 100) (4294967290 + 100)"
  using deadlines_fire_on_time [of 100 99 4294967290] deadlines_fire_on_time [of 100 100 4294967290]
  by (simp add: deadline_span_def)

text \<open>The millisecond clock is a 32-bit microsecond counter divided by 1000, so it wraps to zero
  after 4294967 ms: a deadline set past that reading, as every deadline armed in the last moments
  before the wrap is, is never reached.\<close>

theorem deadline_past_clock_wrap_never_reached:
  assumes "4294967 < deadline" and "deadline < 2147483650"
  shows "\<not> time_reached (snd (hw_now_ms h)) deadline"
proof -
  obtain us :: u32 where now: "snd (hw_now_ms h) = us div 1000"
    by (simp add: hw_now_ms_def now_us_def)
  have "us div 1000 \<le> 4294967"
    using unat_u32_less [of us] by (simp add: word_le_nat_alt unat_div)
  then have less: "unat (us div 1000) < unat deadline" and bound: "unat deadline \<le> 2147483649"
    using assms by (simp_all add: word_le_nat_alt word_less_nat_alt)
  have "unat (us div 1000 - deadline) = 4294967296 + unat (us div 1000) - unat deadline"
    using less by (simp add: unat_sub_if_size word_size word_le_nat_alt)
  then have "2147483647 \<le> unat (us div 1000 - deadline)" using bound by linarith
  then show ?thesis unfolding now time_reached_def by (simp add: word_less_nat_alt)
qed

theorem deadline_past_clock_wrap_never_reached_witness:
  "\<forall>h. \<not> time_reached (snd (hw_now_ms h)) (4294900 + 300)"
  by (intro allI deadline_past_clock_wrap_never_reached) simp_all

end
