(* ===== verification/Sensor_Packets.thy ===== *)
theory Sensor_Packets
  imports Commands
begin

text \<open>
  The Create sensor packets of \<open>drivers/create_uart.rs\<close>: lengths, validity of each byte, and
  the decoding of a packet body into a \<open>CreateSensorPacket\<close>. Decoding is total: a body of the
  wrong length or with an invalid byte is \<^term>\<open>None\<close>.
\<close>

section \<open>Bytes\<close>

definition be16 :: "u8 \<Rightarrow> u8 \<Rightarrow> u16" where
  "be16 hi lo = push_bit 8 (ucast hi) OR ucast lo"

definition to_be :: "u16 \<Rightarrow> u8 list" where
  "to_be v = [ucast (drop_bit 8 v), ucast v]"

lemma be16_to_be: "be16 (ucast (drop_bit 8 v)) (ucast v) = v"
  by (rule bit_word_eqI)
    (auto simp: be16_def bit_or_iff bit_push_bit_iff bit_unsigned_iff bit_drop_bit_eq
      dest: bit_imp_le_length)

lemma to_be_be16: "to_be (be16 hi lo) = [hi, lo]"
proof -
  have "ucast (drop_bit 8 (be16 hi lo)) = hi"
    by (rule bit_word_eqI)
      (auto simp: be16_def bit_or_iff bit_push_bit_iff bit_unsigned_iff bit_drop_bit_eq
        dest: bit_imp_le_length)
  moreover have "ucast (be16 hi lo) = lo"
    by (rule bit_word_eqI)
      (auto simp: be16_def bit_or_iff bit_push_bit_iff bit_unsigned_iff dest: bit_imp_le_length)
  ultimately show ?thesis by (simp add: to_be_def)
qed

definition degrees_to_mrad :: "i16 \<Rightarrow> i16" where
  "degrees_to_mrad degrees = clamp_i16 (trunc_div (sint degrees * 17453) 1000)"

section \<open>Lengths and validity\<close>

definition sensor_packet_length :: "u8 \<Rightarrow> nat option" where
  "sensor_packet_length p =
     (if p = 0 then Some 26
      else if 7 \<le> p \<and> p \<le> 18 \<or> p = 21 \<or> p = 24 \<or> p = 32 \<or> 34 \<le> p \<and> p \<le> 38 then Some 1
      else if p = 19 \<or> p = 20 \<or> p = 22 \<or> p = 23 \<or> 25 \<le> p \<and> p \<le> 31 then Some 2
      else None)"

definition sensor_packet_is_decoded :: "u8 \<Rightarrow> bool" where
  "sensor_packet_is_decoded p \<longleftrightarrow>
     p = 0 \<or> 7 \<le> p \<and> p \<le> 14 \<or> 17 \<le> p \<and> p \<le> 26 \<or> 28 \<le> p \<and> p \<le> 31 \<or> p = 34 \<or> p = 35"

definition valid_bumps_wheel_drops :: "u8 \<Rightarrow> bool" where
  "valid_bumps_wheel_drops b \<longleftrightarrow> b AND NOT 0x1F = 0"

definition valid_bool :: "u8 \<Rightarrow> bool" where
  "valid_bool b \<longleftrightarrow> b \<le> 1"

definition valid_buttons :: "u8 \<Rightarrow> bool" where
  "valid_buttons b \<longleftrightarrow> b AND NOT 0x0F = 0"

definition valid_charging_state :: "u8 \<Rightarrow> bool" where
  "valid_charging_state b \<longleftrightarrow> b \<le> 5"

definition valid_charging_sources :: "u8 \<Rightarrow> bool" where
  "valid_charging_sources b \<longleftrightarrow> b AND NOT 3 = 0"

definition valid_group_zero :: "u8 list \<Rightarrow> bool" where
  "valid_group_zero bytes \<longleftrightarrow>
     valid_bumps_wheel_drops (bytes ! 0) \<and> list_all valid_bool (take 6 (drop 1 bytes)) \<and>
     valid_buttons (bytes ! 11) \<and> valid_charging_state (bytes ! 16)"

section \<open>Decoding\<close>

definition apply_bumps_wheel_drops :: "u8 \<Rightarrow> create_sensor_flags \<Rightarrow> create_sensor_flags" where
  "apply_bumps_wheel_drops b f =
     f\<lparr>fl_bump_right := b AND 1 \<noteq> 0, fl_bump_left := b AND 2 \<noteq> 0, fl_wheel_drop := b AND 0x1C \<noteq> 0\<rparr>"

definition apply_group_zero :: "u8 list \<Rightarrow> create_sensor_packet \<Rightarrow> create_sensor_packet" where
  "apply_group_zero bytes k =
     k\<lparr>pk_flags := (apply_bumps_wheel_drops (bytes ! 0) (pk_flags k))\<lparr>
          fl_wall := bytes ! 1 \<noteq> 0, fl_cliff_left := bytes ! 2 \<noteq> 0,
          fl_cliff_front_left := bytes ! 3 \<noteq> 0, fl_cliff_front_right := bytes ! 4 \<noteq> 0,
          fl_cliff_right := bytes ! 5 \<noteq> 0, fl_virtual_wall := bytes ! 6 \<noteq> 0,
          fl_overcurrent := bytes ! 7 \<noteq> 0\<rparr>,
       pk_ir_byte := bytes ! 10,
       pk_buttons := bytes ! 11,
       pk_distance_mm := be16 (bytes ! 12) (bytes ! 13),
       pk_angle_mrad := degrees_to_mrad (be16 (bytes ! 14) (bytes ! 15)),
       pk_charging_state := bytes ! 16,
       pk_voltage_mv := be16 (bytes ! 17) (bytes ! 18),
       pk_current_ma := be16 (bytes ! 19) (bytes ! 20),
       pk_temperature_c := bytes ! 21,
       pk_charge_mah := be16 (bytes ! 22) (bytes ! 23),
       pk_capacity_mah := be16 (bytes ! 24) (bytes ! 25)\<rparr>"

text \<open>One packet field written into an otherwise default packet, when its guard holds.\<close>

definition guarded :: "bool \<Rightarrow> (create_sensor_packet \<Rightarrow> create_sensor_packet) \<Rightarrow> create_sensor_packet option" where
  "guarded b f = (if b then Some (f default_packet) else None)"

definition set_flag :: "(create_sensor_flags \<Rightarrow> create_sensor_flags) \<Rightarrow> create_sensor_packet \<Rightarrow> create_sensor_packet" where
  "set_flag f k = k\<lparr>pk_flags := f (pk_flags k)\<rparr>"

definition decode_sensor_packet :: "u8 \<Rightarrow> u8 list \<Rightarrow> create_sensor_packet option" where
  "decode_sensor_packet p bytes =
     (let b0 = bytes ! 0; word = be16 (bytes ! 0) (bytes ! 1);
          one = (length bytes = 1); two = (length bytes = 2) in
      if p = 0 then guarded (length bytes = 26 \<and> valid_group_zero bytes) (apply_group_zero bytes)
      else if p = 7 then guarded (one \<and> valid_bumps_wheel_drops b0) (set_flag (apply_bumps_wheel_drops b0))
      else if p = 8 then guarded (one \<and> valid_bool b0) (set_flag (fl_wall_update (\<lambda>_. b0 \<noteq> 0)))
      else if p = 9 then guarded (one \<and> valid_bool b0) (set_flag (fl_cliff_left_update (\<lambda>_. b0 \<noteq> 0)))
      else if p = 10 then guarded (one \<and> valid_bool b0) (set_flag (fl_cliff_front_left_update (\<lambda>_. b0 \<noteq> 0)))
      else if p = 11 then guarded (one \<and> valid_bool b0) (set_flag (fl_cliff_front_right_update (\<lambda>_. b0 \<noteq> 0)))
      else if p = 12 then guarded (one \<and> valid_bool b0) (set_flag (fl_cliff_right_update (\<lambda>_. b0 \<noteq> 0)))
      else if p = 13 then guarded (one \<and> valid_bool b0) (set_flag (fl_virtual_wall_update (\<lambda>_. b0 \<noteq> 0)))
      else if p = 14 then guarded one (set_flag (fl_overcurrent_update (\<lambda>_. b0 \<noteq> 0)))
      else if p = 17 then guarded one (pk_ir_byte_update (\<lambda>_. b0))
      else if p = 18 then guarded (one \<and> valid_buttons b0) (pk_buttons_update (\<lambda>_. b0))
      else if p = 19 then guarded two (pk_distance_mm_update (\<lambda>_. word))
      else if p = 20 then guarded two (pk_angle_mrad_update (\<lambda>_. degrees_to_mrad word))
      else if p = 21 then guarded (one \<and> valid_charging_state b0) (pk_charging_state_update (\<lambda>_. b0))
      else if p = 22 then guarded two (pk_voltage_mv_update (\<lambda>_. word))
      else if p = 23 then guarded two (pk_current_ma_update (\<lambda>_. word))
      else if p = 24 then guarded one (pk_temperature_c_update (\<lambda>_. b0))
      else if p = 25 then guarded two (pk_charge_mah_update (\<lambda>_. word))
      else if p = 26 then guarded two (pk_capacity_mah_update (\<lambda>_. word))
      else if p = 28 then guarded two (pk_cliff_left_signal_update (\<lambda>_. word))
      else if p = 29 then guarded two (pk_cliff_front_left_signal_update (\<lambda>_. word))
      else if p = 30 then guarded two (pk_cliff_front_right_signal_update (\<lambda>_. word))
      else if p = 31 then guarded two (pk_cliff_right_signal_update (\<lambda>_. word))
      else if p = 34 then guarded (one \<and> valid_charging_sources b0) (pk_charging_sources_update (\<lambda>_. b0))
      else if p = 35 then guarded (one \<and> b0 \<le> 3) (pk_oi_mode_update (\<lambda>_. b0))
      else None)"

section \<open>Facts\<close>

lemma guarded_Some [simp]: "guarded b f = Some k \<longleftrightarrow> b \<and> k = f default_packet"
  by (auto simp: guarded_def)

text \<open>Every decoded packet is a requested one of the announced length, and its range-checked
  fields are in range.\<close>

lemma decoded_packet_length:
  "decode_sensor_packet p bytes = Some k \<Longrightarrow>
   sensor_packet_length p = Some (length bytes) \<and> sensor_packet_is_decoded p"
  unfolding decode_sensor_packet_def Let_def
  by (simp add: sensor_packet_length_def sensor_packet_is_decoded_def split: if_split_asm)

lemma default_packet_fields [simp]:
  "pk_charging_state default_packet = 0" "pk_buttons default_packet = 0" "pk_oi_mode default_packet = 0"
  "pk_charging_sources default_packet = 0" "pk_flags default_packet = default_flags"
  by (simp_all add: default_packet_def)

lemma decoded_packet_in_range:
  "decode_sensor_packet p bytes = Some k \<Longrightarrow>
   pk_charging_state k \<le> 5 \<and> pk_oi_mode k \<le> 3 \<and> valid_buttons (pk_buttons k) \<and>
   valid_charging_sources (pk_charging_sources k)"
  unfolding decode_sensor_packet_def Let_def
  by (simp add: valid_group_zero_def valid_charging_state_def valid_buttons_def
      valid_charging_sources_def apply_group_zero_def set_flag_def split: if_split_asm)

lemma sensor_length_bound: "sensor_packet_length p = Some n \<Longrightarrow> 1 \<le> n \<and> n \<le> 26"
  by (auto simp: sensor_packet_length_def split: if_splits)

section \<open>Properties\<close>

text \<open>C40. Packet decoding is total over what it accepts and never out of range: a decoded payload has
  the length announced for its packet, and its mode, charging state, buttons and charging sources
  are values the Create documents.\<close>

theorem decoded_packets_are_valid:
  assumes "decode_sensor_packet p bytes = Some k"
  shows "sensor_packet_length p = Some (length bytes) \<and> sensor_packet_is_decoded p \<and>
    pk_charging_state k \<le> 5 \<and> pk_oi_mode k \<le> 3 \<and> valid_buttons (pk_buttons k) \<and>
    valid_charging_sources (pk_charging_sources k)"
  using decoded_packet_length [OF assms] decoded_packet_in_range [OF assms] by simp

theorem decoded_packets_are_valid_witness:
  "sensor_packet_length 35 = Some 1 \<and> sensor_packet_is_decoded 35"
  using decoded_packets_are_valid [of 35 "[2]" "default_packet\<lparr>pk_oi_mode := 2\<rparr>"]
  by (simp add: decode_sensor_packet_def guarded_def)

end
