(* ===== verification/Status_Marks.thy ===== *)
theory Status_Marks
  imports Status_State
begin

text \<open>
  The recorders and setters of the status module: \<open>emit\<close> (\<open>record_public_event\<close> on the whole
  status), the blink request, \<open>signal_event\<close>, the lifecycle marks of \<open>status/telemetry.rs\<close> and the
  scalar setters. Each touches the event log and at most one domain.
\<close>

named_theorems status_defs \<open>definitions of the status setters\<close>

section \<open>Recording\<close>

definition emit :: "public_event_kind \<Rightarrow> u32 \<Rightarrow> u32 \<Rightarrow> u32 \<Rightarrow> status \<Rightarrow> status" where
  [status_defs]: "emit kind a b c s = s\<lparr>st_log := fst (record_public_event kind a b c (st_log s))\<rparr>"

definition saturating_inc :: "u32 \<Rightarrow> u32" where
  "saturating_inc n = sat_add n 1"

text \<open>\<open>add_signed\<close>: \<open>i32\<close> saturating addition on an encoded counter.\<close>

definition add_signed :: "int \<Rightarrow> u32 \<Rightarrow> u32" where
  "add_signed amount counter = word_of_int (sat_i32 (sint counter + amount))"

definition encode_signed_i16 :: "i16 \<Rightarrow> u32" where
  "encode_signed_i16 v = ucast v"

definition decode_signed_i16 :: "u32 \<Rightarrow> i16" where
  "decode_signed_i16 v = ucast v"

definition encode_signed_i32 :: "int \<Rightarrow> u32" where
  "encode_signed_i32 v = word_of_int v"

definition decode_signed_i32 :: "u32 \<Rightarrow> int" where
  "decode_signed_i32 v = sint v"

definition pack_i16_pair :: "i16 \<Rightarrow> i16 \<Rightarrow> u32" where
  "pack_i16_pair left right = push_bit 16 (ucast left) OR ucast right"

lemma decode_encode_i16 [simp]: "decode_signed_i16 (encode_signed_i16 v) = v"
  by (rule bit_word_eqI) (simp add: decode_signed_i16_def encode_signed_i16_def bit_unsigned_iff)

definition request_led_blinks :: "u8 \<Rightarrow> status \<Rightarrow> status" where
  [status_defs]: "request_led_blinks blinks s =
     (let blinks = min blinks 9 in
      if rs_led_blinks (st_run s) < blinks
      then s\<lparr>st_run := (st_run s)\<lparr>rs_led_blinks := blinks\<rparr>\<rparr> else s)"

definition take_led_blinks :: "status \<Rightarrow> status \<times> u8 option" where
  "take_led_blinks s =
     (s\<lparr>st_run := (st_run s)\<lparr>rs_led_blinks := 0\<rparr>\<rparr>,
      if rs_led_blinks (st_run s) = 0 then None else Some (rs_led_blinks (st_run s)))"

fun encode_oi_mode_public :: "create_oi_mode \<Rightarrow> u32" where
  "encode_oi_mode_public Passive = 1"
| "encode_oi_mode_public Safe = 2"
| "encode_oi_mode_public Full = 3"

definition record_public_event_from_brainstem_event :: "brainstem_event \<Rightarrow> status \<Rightarrow> status" where
  [status_defs]: "record_public_event_from_brainstem_event event s =
     (case event of
        EvBoot \<Rightarrow> emit KBoot 0 0 0 s
      | EvCreatePowerOnRequested \<Rightarrow> emit KBodyPowerRequested 1 0 0 s
      | EvCreatePowerOffRequested \<Rightarrow> emit KBodyPowerRequested 0 0 0 s
      | EvCreatePowerToggled \<Rightarrow> emit KBodyPowerChanged 0 0 0 s
      | EvCreateOiStartRequested \<Rightarrow> emit KBodyModeRequested 0 0 0 s
      | EvCreateOiModeRequested mode \<Rightarrow> emit KBodyModeRequested (encode_oi_mode_public mode) 0 0 s
      | EvCreatePacketReceived _ _ \<Rightarrow> s
      | EvCreateSensorPacketDecoded _ _ \<Rightarrow> s
      | EvDriveRequested l r duration \<Rightarrow> emit KMotionRequested (pack_i16_pair l r) duration 0 s
      | EvDriveStopped \<Rightarrow> emit KMotionStopped 0 0 0 s
      | EvError error \<Rightarrow> emit KError (ucast (error_code error)) 0 0 s
      | EvTickMs _ \<Rightarrow> s)"

definition event_blinks :: "brainstem_event \<Rightarrow> u8 option" where
  [status_defs]: "event_blinks event =
     (case event of
        EvBoot \<Rightarrow> Some 1
      | EvCreatePowerOnRequested \<Rightarrow> Some 2
      | EvCreatePowerOffRequested \<Rightarrow> Some 2
      | EvCreatePowerToggled \<Rightarrow> Some 3
      | EvCreateOiStartRequested \<Rightarrow> Some 5
      | EvCreateOiModeRequested _ \<Rightarrow> Some 5
      | EvCreatePacketReceived _ _ \<Rightarrow> Some 6
      | EvCreateSensorPacketDecoded _ _ \<Rightarrow> Some 6
      | EvDriveRequested _ _ _ \<Rightarrow> Some 7
      | EvDriveStopped \<Rightarrow> Some 7
      | EvError _ \<Rightarrow> Some 8
      | EvTickMs _ \<Rightarrow> None)"

definition signal_event :: "brainstem_event \<Rightarrow> status \<Rightarrow> status" where
  [status_defs]: "signal_event event s =
     (let s = record_public_event_from_brainstem_event event s in
      case event_blinks event of None \<Rightarrow> s | Some blinks \<Rightarrow> request_led_blinks blinks s)"

section \<open>Run state\<close>

definition set_runtime_state :: "runtime_state \<Rightarrow> status \<Rightarrow> status" where
  [status_defs]: "set_runtime_state state s =
     s\<lparr>st_run := (st_run s)\<lparr>rs_runtime_state := runtime_state_code state\<rparr>\<rparr>"

definition set_body_state :: "body_state \<Rightarrow> status \<Rightarrow> status" where
  [status_defs]: "set_body_state state s =
     s\<lparr>st_run := (st_run s)\<lparr>rs_body_state := body_state_code state\<rparr>\<rparr>"

definition set_runtime_action :: "runtime_action_code \<Rightarrow> status \<Rightarrow> status" where
  [status_defs]: "set_runtime_action action s =
     s\<lparr>st_run := (st_run s)\<lparr>rs_action := runtime_action_value action\<rparr>\<rparr>"

definition clear_create_sensor_snapshot :: "status \<Rightarrow> status" where
  [status_defs]: "clear_create_sensor_snapshot s = s\<lparr>st_sensor := cleared_sensor_status\<rparr>"

definition set_create_power_on :: "bool \<Rightarrow> status \<Rightarrow> status" where
  [status_defs]: "set_create_power_on on s =
     (let s = s\<lparr>st_run := (st_run s)\<lparr>rs_create_power := on_off on\<rparr>\<rparr> in
      if on then s else clear_create_sensor_snapshot s)"

definition set_create_power_unknown :: "status \<Rightarrow> status" where
  [status_defs]: "set_create_power_unknown s =
     clear_create_sensor_snapshot (s\<lparr>st_run := (st_run s)\<lparr>rs_create_power := UNKNOWN\<rparr>\<rparr>)"

definition known_create_power_state :: "u8 \<Rightarrow> bool option" where
  "known_create_power_state state =
     (if state = OFF then Some False else if state = ON then Some True else None)"

definition mark_create_charging_indicator :: "bool option \<Rightarrow> status \<Rightarrow> status" where
  [status_defs]: "mark_create_charging_indicator active s =
     s\<lparr>st_run := (st_run s)\<lparr>rs_charging_indicator :=
        (case active of Some b \<Rightarrow> on_off b | None \<Rightarrow> UNKNOWN)\<rparr>\<rparr>"

definition charging_state_active :: "u8 \<Rightarrow> bool" where
  "charging_state_active c \<longleftrightarrow> 1 \<le> c \<and> c \<le> 3"

definition charging_interlock_active :: "status \<Rightarrow> bool" where
  "charging_interlock_active s \<longleftrightarrow>
     rs_charging_indicator (st_run s) = ON \<or> charging_state_active (sn_charging_state (st_sensor s))"

definition set_oi_mode :: "create_oi_mode \<Rightarrow> status \<Rightarrow> status" where
  [status_defs]: "set_oi_mode mode s =
     s\<lparr>st_run := (st_run s)\<lparr>rs_oi_mode := (case mode of Passive \<Rightarrow> 1 | Safe \<Rightarrow> 2 | Full \<Rightarrow> 3)\<rparr>\<rparr>"

definition set_oi_mode_unknown :: "status \<Rightarrow> status" where
  [status_defs]: "set_oi_mode_unknown s = s\<lparr>st_run := (st_run s)\<lparr>rs_oi_mode := UNKNOWN\<rparr>\<rparr>"

definition set_wake_probe_progress :: "u32 \<Rightarrow> u32 \<Rightarrow> status \<Rightarrow> status" where
  [status_defs]: "set_wake_probe_progress response expected s =
     s\<lparr>st_run := (st_run s)\<lparr>rs_wake_response := response, rs_wake_expected := expected\<rparr>\<rparr>"

definition set_error :: "brainstem_error \<Rightarrow> status \<Rightarrow> status" where
  [status_defs]: "set_error error s =
     (let s = s\<lparr>st_run := (st_run s)\<lparr>rs_last_error := error_code error,
                rs_last_error_uart := us_last_read_error (st_uart s),
                rs_last_error_action := rs_action (st_run s)\<rparr>\<rparr>;
          s = set_runtime_state RError s;
          s = set_body_state BodyError s
      in request_led_blinks 8 s)"

definition network_services_ready :: "status \<Rightarrow> bool" where
  "network_services_ready s \<longleftrightarrow> rs_wifi_state (st_run s) = 3"

section \<open>UART counters\<close>

definition mark_uart_rx_byte :: "u8 \<Rightarrow> u32 \<Rightarrow> status \<Rightarrow> status" where
  [status_defs]: "mark_uart_rx_byte byte timestamp s =
     s\<lparr>st_uart := (st_uart s)\<lparr>us_last_rx_byte := byte, us_last_rx_ms := timestamp,
        us_rx_bytes := saturating_inc (us_rx_bytes (st_uart s))\<rparr>\<rparr>"

definition mark_uart_tx_byte :: "u8 \<Rightarrow> u32 \<Rightarrow> status \<Rightarrow> status" where
  [status_defs]: "mark_uart_tx_byte byte timestamp s =
     s\<lparr>st_uart := (st_uart s)\<lparr>us_last_tx_byte := byte, us_last_tx_ms := timestamp,
        us_tx_bytes := saturating_inc (us_tx_bytes (st_uart s))\<rparr>\<rparr>"

definition mark_uart_packet :: "nat \<Rightarrow> status \<Rightarrow> status" where
  [status_defs]: "mark_uart_packet len s =
     s\<lparr>st_uart := (st_uart s)\<lparr>us_rx_health := ON, us_last_read_error := 0,
        us_last_packet_ms := us_last_rx_ms (st_uart s),
        us_rx_packets := saturating_inc (us_rx_packets (st_uart s)),
        us_last_packet_len := of_nat len\<rparr>\<rparr>"

definition mark_uart_rx_error :: "status \<Rightarrow> status" where
  [status_defs]: "mark_uart_rx_error s = s\<lparr>st_uart := (st_uart s)\<lparr>us_rx_health := OFF\<rparr>\<rparr>"

definition mark_uart_rx_error_detail :: "uart_read_error \<Rightarrow> status \<Rightarrow> status" where
  [status_defs]: "mark_uart_rx_error_detail error s =
     (let u = (st_uart s)\<lparr>us_rx_health := OFF\<rparr>;
          u = (case error of
                 UOverrun \<Rightarrow> u\<lparr>us_overruns := saturating_inc (us_overruns u)\<rparr>
               | UBreak \<Rightarrow> u\<lparr>us_breaks := saturating_inc (us_breaks u)\<rparr>
               | UParity \<Rightarrow> u\<lparr>us_parity_errors := saturating_inc (us_parity_errors u)\<rparr>
               | UFraming \<Rightarrow> u\<lparr>us_framing_errors := saturating_inc (us_framing_errors u)\<rparr>
               | UOther \<Rightarrow> u\<lparr>us_other_errors := saturating_inc (us_other_errors u)\<rparr>)
      in s\<lparr>st_uart := u\<lparr>us_last_read_error := uart_read_error_code error\<rparr>\<rparr>)"

section \<open>Command lifecycle\<close>

definition command_code :: "runtime_command option \<Rightarrow> u8" where
  "command_code command =
     (case command of
        None \<Rightarrow> 0
      | Some c \<Rightarrow>
          (case c of
             RWakeCreate \<Rightarrow> 1
           | RSleepCreate \<Rightarrow> 2
           | RSetMode Passive \<Rightarrow> 5
           | RSetMode Safe \<Rightarrow> 6
           | RSetMode Full \<Rightarrow> 7
           | RStop \<Rightarrow> 9
           | REStop \<Rightarrow> 9
           | RClearEStop \<Rightarrow> 0
           | RDriveDirect _ _ _ \<Rightarrow> 8
           | RCmdVel _ _ _ \<Rightarrow> 8
           | RDriveArc _ _ _ \<Rightarrow> 8
           | REscapeMotion _ _ _ _ _ \<Rightarrow> 8
           | RClearSafetyLatch _ \<Rightarrow> 10
           | RCarefulMode _ \<Rightarrow> 10
           | RHeartbeatStop _ \<Rightarrow> 10
           | RStartOi \<Rightarrow> 4
           | RDrive _ _ _ \<Rightarrow> 8
           | RStopDrive \<Rightarrow> 9
           | _ \<Rightarrow> 0))"

definition set_command :: "runtime_command option \<Rightarrow> status \<Rightarrow> status" where
  [status_defs]: "set_command command s = s\<lparr>st_cmd := (st_cmd s)\<lparr>cs_current := command_code command\<rparr>\<rparr>"

definition mark_command_started :: "u32 \<Rightarrow> u8 \<Rightarrow> status \<Rightarrow> status" where
  [status_defs]: "mark_command_started command_id code s =
     emit KCommandStarted command_id (ucast code) 0
       (s\<lparr>st_cmd := (st_cmd s)\<lparr>cs_last_started := command_id\<rparr>\<rparr>)"

definition mark_command_completed :: "u32 \<Rightarrow> status \<Rightarrow> status" where
  [status_defs]: "mark_command_completed command_id s =
     emit KCommandCompleted command_id 0 0
       (s\<lparr>st_cmd := (st_cmd s)\<lparr>cs_last_completed := command_id\<rparr>\<rparr>)"

definition mark_command_interrupted :: "u32 \<Rightarrow> status \<Rightarrow> status" where
  [status_defs]: "mark_command_interrupted command_id s =
     emit KCommandInterrupted command_id 0 0
       (s\<lparr>st_cmd := (st_cmd s)\<lparr>cs_last_interrupted := command_id\<rparr>\<rparr>)"

definition mark_command_timed_out :: "u32 \<Rightarrow> status \<Rightarrow> status" where
  [status_defs]: "mark_command_timed_out command_id s =
     emit KCommandTimedOut command_id 0 0
       (s\<lparr>st_cmd := (st_cmd s)\<lparr>cs_last_timed_out := command_id\<rparr>\<rparr>)"

section \<open>Safety marks\<close>

text \<open>The generation of a hazard is the sequence number of the event that reports it.\<close>

definition mark_safety_tripped :: "safety_event_kind \<Rightarrow> status \<Rightarrow> status" where
  [status_defs]: "mark_safety_tripped kind s =
     (case record_public_event KSafetyTripped (ucast (safety_event_code kind)) 0 0 (st_log s) of
        (l, generation) \<Rightarrow>
          s\<lparr>st_log := l, st_safety := (st_safety s)\<lparr>sf_hazard_generation := generation\<rparr>\<rparr>)"

definition mark_safety_cleared :: "safety_event_kind \<Rightarrow> status \<Rightarrow> status" where
  [status_defs]: "mark_safety_cleared kind s =
     (let s = emit KSafetyCleared (ucast (safety_event_code kind)) 0 0 s in
      s\<lparr>st_safety := (st_safety s)\<lparr>sf_hazard_generation := 0\<rparr>\<rparr>)"

definition set_session_safety_snapshot ::
  "bool \<Rightarrow> bool \<Rightarrow> bool \<Rightarrow> safety_event_kind option \<Rightarrow> status \<Rightarrow> status" where
  [status_defs]: "set_session_safety_snapshot estop tripped interlock kind s =
     s\<lparr>st_safety := (st_safety s)\<lparr>
        sf_flags := b32 estop OR push_bit 1 (b32 tripped) OR push_bit 2 (b32 interlock),
        sf_latch_kind := (case kind of None \<Rightarrow> 0 | Some k \<Rightarrow> safety_event_code k)\<rparr>\<rparr>"

definition session_safety_snapshot :: "status \<Rightarrow> bool \<times> bool \<times> bool \<times> safety_event_kind option" where
  "session_safety_snapshot s =
     (let flags = sf_flags (st_safety s) in
      (flags AND 1 \<noteq> 0, flags AND 2 \<noteq> 0, flags AND 4 \<noteq> 0,
       safety_event_kind_of (sf_latch_kind (st_safety s))))"

definition safety_hazard_generation :: "status \<Rightarrow> u32" where
  "safety_hazard_generation s = sf_hazard_generation (st_safety s)"

definition set_careful_mode_until :: "u32 option \<Rightarrow> status \<Rightarrow> status" where
  [status_defs]: "set_careful_mode_until deadline s =
     s\<lparr>st_safety := (st_safety s)\<lparr>sf_careful_until_ms := (case deadline of None \<Rightarrow> 0 | Some d \<Rightarrow> d)\<rparr>\<rparr>"

definition careful_mode_remaining_ms :: "u32 \<Rightarrow> status \<Rightarrow> u32" where
  "careful_mode_remaining_ms now_ms s =
     (let deadline = sf_careful_until_ms (st_safety s) in
      if deadline = 0 \<or> now_ms - deadline < 2147483647 then 0 else deadline - now_ms)"

definition mark_contact_withdrawal_started ::
  "u8 \<Rightarrow> u8 \<Rightarrow> u32 \<Rightarrow> u16 \<Rightarrow> u16 \<Rightarrow> status \<Rightarrow> status" where
  [status_defs]: "mark_contact_withdrawal_started contact_bits repeated preempted speed duration s =
     emit KContactWithdrawalStarted
       (ucast (contact_bits AND 3) OR push_bit 8 (ucast repeated)) preempted
       (ucast speed OR push_bit 16 (ucast duration)) s"

definition mark_contact_withdrawal_completed ::
  "contact_withdrawal_outcome \<Rightarrow> safety_event_kind option \<Rightarrow> bool \<Rightarrow> u32 \<Rightarrow> u32 \<Rightarrow> status \<Rightarrow> status" where
  [status_defs]: "mark_contact_withdrawal_completed outcome dominating final_stopped displacement elapsed s =
     emit KContactWithdrawalCompleted
       (ucast (withdrawal_outcome_code outcome)
        OR push_bit 8 (case dominating of None \<Rightarrow> 0 | Some k \<Rightarrow> ucast (safety_event_code k))
        OR push_bit 16 (b32 final_stopped))
       displacement elapsed s"

section \<open>Audio and songs\<close>

definition mark_song_defined :: "u8 \<Rightarrow> u8 \<Rightarrow> status \<Rightarrow> status" where
  [status_defs]: "mark_song_defined sid tone_count s =
     s\<lparr>st_audio := (st_audio s)\<lparr>ao_song_defined_id := sid, ao_song_defined_len := min tone_count 16\<rparr>\<rparr>"

definition mark_song_played :: "u8 \<Rightarrow> status \<Rightarrow> status" where
  [status_defs]: "mark_song_played sid s = s\<lparr>st_audio := (st_audio s)\<lparr>ao_song_played_id := sid\<rparr>\<rparr>"

definition audio_silent :: "status \<Rightarrow> bool" where
  "audio_silent s \<longleftrightarrow> ao_silent (st_audio s) = ON"

definition set_audio_silent :: "bool \<Rightarrow> status \<Rightarrow> status" where
  [status_defs]: "set_audio_silent silent s =
     (let old = ao_silent (st_audio s);
          s = s\<lparr>st_audio := (st_audio s)\<lparr>ao_silent := on_off silent\<rparr>\<rparr>
      in if old \<noteq> on_off silent then emit KAudioStateChanged (b32 silent) 0 0 s else s)"

definition mark_audio_cue_requested :: "u8 \<Rightarrow> status \<Rightarrow> status" where
  [status_defs]: "mark_audio_cue_requested cue s = s\<lparr>st_audio := (st_audio s)\<lparr>ao_last_requested := cue\<rparr>\<rparr>"

definition mark_audio_cue_played :: "u8 \<Rightarrow> u32 \<Rightarrow> status \<Rightarrow> status" where
  [status_defs]: "mark_audio_cue_played cue timestamp s =
     s\<lparr>st_audio := (st_audio s)\<lparr>ao_last_played := cue, ao_last_playback_ms := timestamp\<rparr>\<rparr>"

definition increment_audio_suppressed_by_silent :: "status \<Rightarrow> status" where
  [status_defs]: "increment_audio_suppressed_by_silent s =
     s\<lparr>st_audio := (st_audio s)\<lparr>ao_suppressed := saturating_inc (ao_suppressed (st_audio s))\<rparr>\<rparr>"

definition increment_audio_dropped_or_replaced :: "u32 \<Rightarrow> status \<Rightarrow> status" where
  [status_defs]: "increment_audio_dropped_or_replaced count s =
     (if 0 < count then s\<lparr>st_audio := (st_audio s)\<lparr>ao_dropped := ao_dropped (st_audio s) + count\<rparr>\<rparr>
      else s)"

section \<open>Frame facts\<close>

text \<open>Which domains the recorders leave alone, as rewrite rules.\<close>

lemma emit_frame [simp]:
  "st_cmd (emit k a b c s) = st_cmd s" "st_mail (emit k a b c s) = st_mail s"
  "st_session (emit k a b c s) = st_session s" "st_auth (emit k a b c s) = st_auth s"
  "st_safety (emit k a b c s) = st_safety s" "st_sensor (emit k a b c s) = st_sensor s"
  "st_audio (emit k a b c s) = st_audio s" "st_odo (emit k a b c s) = st_odo s"
  "st_imu (emit k a b c s) = st_imu s" "st_cal (emit k a b c s) = st_cal s"
  "st_uart (emit k a b c s) = st_uart s" "st_run (emit k a b c s) = st_run s"
  by (simp_all add: emit_def)

lemma request_led_blinks_frame [simp]:
  "st_log (request_led_blinks n s) = st_log s"
  "st_cmd (request_led_blinks n s) = st_cmd s" "st_mail (request_led_blinks n s) = st_mail s"
  "st_session (request_led_blinks n s) = st_session s" "st_auth (request_led_blinks n s) = st_auth s"
  "st_safety (request_led_blinks n s) = st_safety s" "st_sensor (request_led_blinks n s) = st_sensor s"
  "st_audio (request_led_blinks n s) = st_audio s" "st_odo (request_led_blinks n s) = st_odo s"
  "st_imu (request_led_blinks n s) = st_imu s" "st_cal (request_led_blinks n s) = st_cal s"
  "st_uart (request_led_blinks n s) = st_uart s"
  by (simp_all add: request_led_blinks_def Let_def)

lemma signal_event_frame [simp]:
  "st_cmd (signal_event e s) = st_cmd s" "st_mail (signal_event e s) = st_mail s"
  "st_session (signal_event e s) = st_session s" "st_auth (signal_event e s) = st_auth s"
  "st_safety (signal_event e s) = st_safety s" "st_sensor (signal_event e s) = st_sensor s"
  "st_audio (signal_event e s) = st_audio s" "st_odo (signal_event e s) = st_odo s"
  "st_imu (signal_event e s) = st_imu s" "st_cal (signal_event e s) = st_cal s"
  "st_uart (signal_event e s) = st_uart s"
  by (cases e; simp add: signal_event_def record_public_event_from_brainstem_event_def event_blinks_def)+

text \<open>The safety snapshot survives its packing into flag bits.\<close>

lemma safety_snapshot_roundtrip:
  "session_safety_snapshot (set_session_safety_snapshot e t i k s) = (e, t, i, k)"
  by (cases e; cases t; cases i; cases k)
    (simp_all add: session_safety_snapshot_def set_session_safety_snapshot_def b32_def
)

lemma careful_mode_remaining_expired:
  "time_reached now_ms (sf_careful_until_ms (st_safety s)) \<Longrightarrow> careful_mode_remaining_ms now_ms s = 0"
  by (simp add: careful_mode_remaining_ms_def time_reached_def Let_def)

end
