(* ===== verification/Protocol.thy ===== *)
theory Protocol
  imports Prelude
begin

text \<open>
  The shared protocol vocabulary of \<open>pete-cockpit-protocol\<close>: endpoint roles, session
  purposes, the two role policies, the reject reasons with their wire codes, protocol
  negotiation and identity tokens.
\<close>

section \<open>Roles and policies\<close>

datatype endpoint_role = RoleBrainstem | RoleMotherbrain | RoleForebrain | RoleOperator | RoleSimulator | RoleServiceTool

datatype session_purpose = PurposeControl | PurposeDiagnostic

datatype control_authority = AuthorityMotherbrain | AuthorityForebrainRecovery | AuthorityOperatorDebug

datatype authorization_class = AuthReadOnly | AuthEmergency | AuthSession | AuthControlLease | AuthServiceLease

datatype service_scope = ScopeBootsel | ScopeRestartCreate | ScopeResetMotherbrain

datatype transport_kind = THttp | TWebSocket | THardwareUart | TUdp | TUsbCdc | TSimulator

fun transport_code :: "transport_kind \<Rightarrow> u8" where
  "transport_code THttp = 1"
| "transport_code TWebSocket = 2"
| "transport_code THardwareUart = 3"
| "transport_code TUdp = 4"
| "transport_code TUsbCdc = 5"
| "transport_code TSimulator = 6"

definition role_can_request_control :: "endpoint_role \<Rightarrow> session_purpose \<Rightarrow> control_authority \<Rightarrow> bool" where
  "role_can_request_control role purpose authority =
     (if purpose \<noteq> PurposeControl then False
      else (case (role, authority) of
              (RoleMotherbrain, AuthorityMotherbrain) \<Rightarrow> True
            | (RoleForebrain, AuthorityForebrainRecovery) \<Rightarrow> True
            | (RoleOperator, AuthorityOperatorDebug) \<Rightarrow> True
            | _ \<Rightarrow> False))"

definition role_can_request_service :: "endpoint_role \<Rightarrow> session_purpose \<Rightarrow> transport_kind \<Rightarrow> bool" where
  "role_can_request_service role purpose transport =
     (case (role, purpose, transport) of
        (RoleMotherbrain, PurposeControl, TUsbCdc) \<Rightarrow> True
      | (RoleMotherbrain, PurposeControl, THttp) \<Rightarrow> True
      | (RoleServiceTool, _, TUsbCdc) \<Rightarrow> True
      | _ \<Rightarrow> False)"

definition brainstem_accepts_client_role :: "endpoint_role \<Rightarrow> bool" where
  "brainstem_accepts_client_role role \<longleftrightarrow>
     \<not> (case role of RoleBrainstem \<Rightarrow> True | RoleSimulator \<Rightarrow> True | _ \<Rightarrow> False)"

section \<open>Reject reasons\<close>

datatype handshake_reject_reason =
  WrongRole | ProtocolMajorMismatch | ProtocolMinorIncompatible | MissingRequiredFeature
| InvalidIdentity | HandshakeBusy | InternalError

fun handshake_reject_code :: "handshake_reject_reason \<Rightarrow> u32" where
  "handshake_reject_code WrongRole = 1"
| "handshake_reject_code ProtocolMajorMismatch = 2"
| "handshake_reject_code ProtocolMinorIncompatible = 3"
| "handshake_reject_code MissingRequiredFeature = 4"
| "handshake_reject_code InvalidIdentity = 5"
| "handshake_reject_code HandshakeBusy = 6"
| "handshake_reject_code InternalError = 7"

datatype command_reject_reason =
  RejBusy | RejCharging | RejStaleSequence | RejUnsupported | RejHazardMismatch
| RejEscapeEnvelope | RejAbsoluteHazard | RejUnknown u8

definition reject_from_code :: "u8 \<Rightarrow> command_reject_reason" where
  "reject_from_code code =
     (if code = 1 then RejBusy
      else if code = 2 then RejCharging
      else if code = 3 then RejStaleSequence
      else if code = 4 then RejUnsupported
      else if code = 5 then RejHazardMismatch
      else if code = 6 then RejEscapeEnvelope
      else if code = 7 then RejAbsoluteHazard
      else RejUnknown code)"

fun reject_code :: "command_reject_reason \<Rightarrow> u8" where
  "reject_code RejBusy = 1"
| "reject_code RejCharging = 2"
| "reject_code RejStaleSequence = 3"
| "reject_code RejUnsupported = 4"
| "reject_code RejHazardMismatch = 5"
| "reject_code RejEscapeEnvelope = 6"
| "reject_code RejAbsoluteHazard = 7"
| "reject_code (RejUnknown code) = code"

text \<open>Every code is the code of what it decodes to; \<open>Unknown\<close> of a known code is not canonical.\<close>

lemma reject_code_from_code: "reject_code (reject_from_code w) = w"
  by (simp add: reject_from_code_def)

lemma reject_from_code_known:
  "(\<And>w. r \<noteq> RejUnknown w) \<Longrightarrow> reject_from_code (reject_code r) = r"
  by (cases r) (simp_all add: reject_from_code_def)

section \<open>Negotiation and identities\<close>

definition negotiate_minor :: "u16 \<Rightarrow> u16 \<Rightarrow> u16 \<Rightarrow> handshake_reject_reason + u16" where
  "negotiate_minor client_major client_minor_min client_minor_max =
     (if client_major \<noteq> 1 then Inl ProtocolMajorMismatch
      else
        (let low = (if client_minor_min > 0 then client_minor_min else 0);
             high = (if client_minor_max < 0 then client_minor_max else 0) in
         if low > high then Inl ProtocolMinorIncompatible else Inr high))"

definition is_ascii_alphanumeric :: "u8 \<Rightarrow> bool" where
  "is_ascii_alphanumeric b \<longleftrightarrow>
     48 \<le> b \<and> b \<le> 57 \<or> 65 \<le> b \<and> b \<le> 90 \<or> 97 \<le> b \<and> b \<le> 122"

definition valid_identity_token :: "u8 list \<Rightarrow> nat \<Rightarrow> bool" where
  "valid_identity_token token max_len \<longleftrightarrow>
     token \<noteq> [] \<and> length token \<le> max_len \<and>
     list_all (\<lambda>b. is_ascii_alphanumeric b \<or> b = 45 \<or> b = 95 \<or> b = 46) token"

lemma negotiate_minor_iff:
  "negotiate_minor major lo hi = Inr v \<longleftrightarrow> major = 1 \<and> lo = 0 \<and> v = 0"
  by (auto simp: negotiate_minor_def word_gt_0)

text \<open>A token holds no byte that could end or escape a quoted JSON string.\<close>

lemma identity_token_is_json_safe:
  "valid_identity_token token n \<Longrightarrow> b \<in> set token \<Longrightarrow> 32 < b \<and> b < 127 \<and> b \<noteq> 34 \<and> b \<noteq> 92"
  by (auto simp: valid_identity_token_def list_all_iff is_ascii_alphanumeric_def word_less_nat_alt
        word_le_nat_alt)

lemma control_needs_matching_role:
  "role_can_request_control role purpose authority \<Longrightarrow>
   purpose = PurposeControl \<and> brainstem_accepts_client_role role \<and>
   (\<forall>other. role_can_request_control role purpose other \<longrightarrow> other = authority)"
  by (cases role; cases authority)
    (auto simp: role_can_request_control_def brainstem_accepts_client_role_def
          split: if_splits control_authority.splits)

section \<open>Properties\<close>

text \<open>Handshake rules: the one protocol version is negotiated exactly by the clients that include
  it, control is granted only for the control purpose, to an accepted role and for one authority,
  and an identity token holds no byte that would have to be escaped in JSON.\<close>

theorem handshake_rules:
  "(negotiate_minor major lo hi = Inr v \<longleftrightarrow> major = 1 \<and> lo = 0 \<and> v = 0) \<and>
   (role_can_request_control role purpose authority \<longrightarrow> purpose = PurposeControl \<and>
      brainstem_accepts_client_role role \<and>
      (\<forall>other. role_can_request_control role purpose other \<longrightarrow> other = authority)) \<and>
   (valid_identity_token token n \<and> b \<in> set token \<longrightarrow> 32 < b \<and> b < 127 \<and> b \<noteq> 34 \<and> b \<noteq> 92)"
  using negotiate_minor_iff [of major lo hi v] control_needs_matching_role [of role purpose authority]
    identity_token_is_json_safe [of token n b] by simp

theorem handshake_rules_witness:
  "brainstem_accepts_client_role RoleMotherbrain \<and> 32 < (97 :: u8)"
  using handshake_rules [of 1 0 0 0 RoleMotherbrain PurposeControl AuthorityMotherbrain "[97]" 4 97]
  by (simp add: role_can_request_control_def valid_identity_token_def is_ascii_alphanumeric_def)

end
