(* ===== verification/Platform.thy ===== *)
theory Platform
  imports Prelude
begin

text \<open>
  What the firmware takes from outside its sources: the constants the build generates from
  \<open>body.toml\<close> and \<open>board.toml\<close> (\<open>body_config.rs\<close>), and the single-precision trigonometry
  (\<open>libm\<close>) that turns a distance and an angle delta into displacement counts. They are a record
  that the definitions using them take as an argument; no definition gives its fields a value
  except the instance used to evaluate examples, which follows the checked-in \<open>toml\<close> files.
\<close>

record platform =
  pf_imu_enabled :: bool
  pf_imu_tilt_stop_mrad :: i16
  pf_imu_impact_stop_mm_s2 :: u16
  pf_imu_poll_period_ms :: u32
  pf_imu_mounting_calibrated :: bool
  pf_power_toggle_pulse_ms :: u32
  pf_wake_wait_ms :: u32
  pf_responsive_timeout_ms :: u32
  pf_post_start_settle_ms :: u32
  pf_post_mode_settle_ms :: u32
  pf_sensor_probe_packet :: u8
  pf_idle_blink_ms :: u32
  pf_error_blink_ms :: u32
  pf_error_pause_ms :: u32
  pf_motherbrain_reset_enabled :: bool
  pf_charging_indicator_enabled :: bool
  pf_displacement_q10 :: "int \<Rightarrow> int \<Rightarrow> int \<Rightarrow> int \<times> int"

text \<open>\<open>pf_displacement_q10 distance_mm heading_mrad angle_mrad\<close> stands for the two rounded
  products of \<open>integrate_odometry_delta\<close>.\<close>

definition example_platform :: platform where
  "example_platform = \<lparr>pf_imu_enabled = True, pf_imu_tilt_stop_mrad = 650,
     pf_imu_impact_stop_mm_s2 = 18000, pf_imu_poll_period_ms = 20,
     pf_imu_mounting_calibrated = True, pf_power_toggle_pulse_ms = 500, pf_wake_wait_ms = 5000,
     pf_responsive_timeout_ms = 6000, pf_post_start_settle_ms = 250,
     pf_post_mode_settle_ms = 100, pf_sensor_probe_packet = 35, pf_idle_blink_ms = 1000,
     pf_error_blink_ms = 150, pf_error_pause_ms = 900, pf_motherbrain_reset_enabled = True,
     pf_charging_indicator_enabled = True, pf_displacement_q10 = (\<lambda>d h a. (d * 1024, 0))\<rparr>"

end
