(* ===== verification/Escape.thy ===== *)
theory Escape
  imports Status_Marks Protocol Platform
begin

text \<open>
  \<open>validate_escape_motion\<close> of \<open>status/commands.rs\<close>: the envelope inside which motion is
  admitted while a bump or cliff latch is set. The lemmas invert an acceptance into the facts
  it rests on.
\<close>

section \<open>The sensed hazards\<close>

definition flag_bit :: "nat \<Rightarrow> u32 \<Rightarrow> bool" where
  "flag_bit i flags \<longleftrightarrow> flags AND push_bit i 1 \<noteq> 0"

definition cliff_flags :: "u32 \<Rightarrow> bool" where
  "cliff_flags flags \<longleftrightarrow> flags AND 0xF0 \<noteq> 0"

definition imu_ok :: "platform \<Rightarrow> status \<Rightarrow> bool" where
  "imu_ok pf s \<longleftrightarrow> pf_imu_enabled pf \<and> iu_health (st_imu s) = imu_health_code HOk"

text \<open>\<open>snapshot.imu_tilt_magnitude_mrad as i16 >= body::IMU_TILT_STOP_MRAD\<close>: the stored word
  is read as a \<open>u16\<close> and reinterpreted as signed.\<close>

definition tilt_exceeds :: "platform \<Rightarrow> u16 \<Rightarrow> bool" where
  "tilt_exceeds pf tilt \<longleftrightarrow> sint tilt \<ge> sint (pf_imu_tilt_stop_mrad pf)"

definition tilt_sensed :: "platform \<Rightarrow> status \<Rightarrow> bool" where
  "tilt_sensed pf s \<longleftrightarrow> imu_ok pf s \<and> tilt_exceeds pf (ucast (iu_tilt_magnitude (st_imu s)))"

definition impact_sensed :: "platform \<Rightarrow> status \<Rightarrow> bool" where
  "impact_sensed pf s \<longleftrightarrow>
     imu_ok pf s \<and> (ucast (iu_impact_score (st_imu s)) :: u16) \<ge> pf_imu_impact_stop_mm_s2 pf"

section \<open>Validation\<close>

definition escape_ttl_ms :: u32 where "escape_ttl_ms = 250"

definition validate_escape_motion ::
  "platform \<Rightarrow> safety_latch_kind \<Rightarrow> u32 \<Rightarrow> i16 \<Rightarrow> i16 \<Rightarrow> u32 \<Rightarrow> status \<Rightarrow> command_reject_reason option" where
  "validate_escape_motion pf kind generation linear angular ttl s =
     (case session_safety_snapshot s of
        (estop_latched, safety_tripped, motion_interlock, latched_kind) \<Rightarrow>
          if \<not> safety_tripped \<or> latched_kind \<noteq> Some (safety_latch_kind_to_event kind)
             \<or> generation = 0 \<or> generation \<noteq> safety_hazard_generation s
          then Some RejHazardMismatch
          else if estop_latched \<or> motion_interlock then Some RejAbsoluteHazard
          else if ttl \<noteq> escape_ttl_ms \<or> sint linear > 0 \<or> sint linear < - 120
             \<or> \<bar>sint angular\<bar> > 500 \<or> (linear = 0 \<and> angular = 0)
          then Some RejEscapeEnvelope
          else
            (let flags = sn_flags (st_sensor s);
                 bump_right = flag_bit 0 flags;
                 bump_left = flag_bit 1 flags;
                 wheel_drop = flag_bit 2 flags;
                 cliff = cliff_flags flags in
             if wheel_drop \<or> tilt_sensed pf s \<or> impact_sensed pf s \<or> charging_interlock_active s
             then Some RejAbsoluteHazard
             else (case kind of
                 LBump \<Rightarrow>
                   if \<not> bump_left \<and> \<not> bump_right then Some RejHazardMismatch
                   else if cliff then Some RejAbsoluteHazard
                   else if (bump_left \<and> \<not> bump_right \<and> sint angular > 0)
                        \<or> (bump_right \<and> \<not> bump_left \<and> sint angular < 0)
                        \<or> (bump_left \<and> bump_right \<and> angular \<noteq> 0)
                   then Some RejEscapeEnvelope
                   else None
               | LCliff \<Rightarrow>
                   if \<not> cliff then Some RejHazardMismatch
                   else if bump_left \<or> bump_right then Some RejAbsoluteHazard
                   else if sint linear \<ge> 0 \<or> angular \<noteq> 0 then Some RejEscapeEnvelope
                   else None
               | _ \<Rightarrow> Some RejHazardMismatch)))"

section \<open>What an acceptance implies\<close>

definition escape_envelope :: "i16 \<Rightarrow> i16 \<Rightarrow> u32 \<Rightarrow> bool" where
  "escape_envelope linear angular ttl \<longleftrightarrow>
     ttl = 250 \<and> - 120 \<le> sint linear \<and> sint linear \<le> 0 \<and> \<bar>sint angular\<bar> \<le> 500 \<and>
     (linear \<noteq> 0 \<or> angular \<noteq> 0)"

lemma escape_accepted:
  assumes "validate_escape_motion pf kind generation linear angular ttl s = None"
  shows "escape_envelope linear angular ttl"
    and "generation \<noteq> 0 \<and> generation = safety_hazard_generation s"
    and "kind = LBump \<or> kind = LCliff"
    and "\<exists>t. session_safety_snapshot s = (False, True, False, Some t) \<and>
           t = safety_latch_kind_to_event kind"
    and "\<not> flag_bit 2 (sn_flags (st_sensor s))"
    and "\<not> tilt_sensed pf s \<and> \<not> impact_sensed pf s \<and> \<not> charging_interlock_active s"
  using assms
  by (auto simp: validate_escape_motion_def escape_envelope_def escape_ttl_ms_def Let_def
           split: prod.splits if_splits safety_latch_kind.splits)

lemma cliff_escape_is_straight_back:
  "validate_escape_motion pf LCliff generation linear angular ttl s = None \<Longrightarrow>
   sint linear < 0 \<and> angular = 0 \<and> cliff_flags (sn_flags (st_sensor s))"
  by (auto simp: validate_escape_motion_def Let_def split: prod.splits if_splits)

section \<open>Properties\<close>


text \<open>A robot whose left bumper alone is pressed, with the bump latched: the Create sends 2 in
  packet 7, and the flags are merged into a fresh snapshot.\<close>

definition left_contact :: status where
  "left_contact = set_session_safety_snapshot False True False (Some SBump) (mark_safety_tripped SBump
     (initial_status\<lparr>st_sensor := (st_sensor initial_status)\<lparr>sn_flags := 1\<rparr>\<rparr>))"

lemma left_contact_facts:
  "session_safety_snapshot left_contact = (False, True, False, Some SBump)"
  "safety_hazard_generation left_contact = 1"
  "sn_flags (st_sensor left_contact) = 1" "charging_interlock_active left_contact = False"
  "imu_ok pf left_contact = False"
  by (simp_all add: left_contact_def status_defs session_safety_snapshot_def safety_hazard_generation_def
      record_public_event_def initial_status_def initial_safety_status_def initial_log_def Let_def b32_def
      charging_interlock_active_def charging_state_active_def cleared_sensor_status_def imu_ok_def
      initial_imu_status_def initial_run_status_def safety_event_kind_of_def)

lemma left_contact_escape:
  "validate_escape_motion pf LBump 1 lin ang ttl left_contact =
     (if ttl \<noteq> escape_ttl_ms \<or> sint lin > 0 \<or> sint lin < - 120 \<or> \<bar>sint ang\<bar> > 500 \<or> (lin = 0 \<and> ang = 0) \<or>
         sint ang < 0 then Some RejEscapeEnvelope else None)"
  by (auto simp: validate_escape_motion_def left_contact_facts tilt_sensed_def impact_sensed_def
      flag_bit_def cliff_flags_def Let_def)


end
