(* ===== verification/Telemetry.thy ===== *)
theory Telemetry
  imports Escape
begin

text \<open>
  The telemetry writers of \<open>status/telemetry.rs\<close> and \<open>status/events.rs\<close>: a decoded Create
  packet merged into the sensor snapshot with its edge events and odometry, and an inertial
  sample with the gyro bias, the gravity calibration and the derived state.
\<close>

section \<open>Packet contents\<close>

definition bit_of :: "nat \<Rightarrow> bool \<Rightarrow> u32" where
  "bit_of i b = push_bit i (b32 b)"

definition create_sensor_flags_bits :: "create_sensor_packet \<Rightarrow> u32" where
  "create_sensor_flags_bits sensors =
     (let f = pk_flags sensors in
      bit_of 0 (fl_bump_left f) OR bit_of 1 (fl_bump_right f) OR bit_of 2 (fl_wheel_drop f)
      OR bit_of 3 (fl_wall f) OR bit_of 4 (fl_cliff_left f) OR bit_of 5 (fl_cliff_front_left f)
      OR bit_of 6 (fl_cliff_front_right f) OR bit_of 7 (fl_cliff_right f)
      OR bit_of 8 (fl_virtual_wall f) OR bit_of 9 (fl_overcurrent f))"

definition packet_flag_mask :: "u8 \<Rightarrow> u32" where
  "packet_flag_mask packet_id =
     (if packet_id = 0 then 0x3FF
      else if packet_id = 7 then 0x7
      else if packet_id = 8 then 0x8
      else if packet_id = 9 then 0x10
      else if packet_id = 10 then 0x20
      else if packet_id = 11 then 0x40
      else if packet_id = 12 then 0x80
      else if packet_id = 13 then 0x100
      else if packet_id = 14 then 0x200
      else 0)"

definition merge_create_sensor_flags :: "u8 \<Rightarrow> u32 \<Rightarrow> u32 \<Rightarrow> u32" where
  "merge_create_sensor_flags packet_id old_flags packet_flags =
     (let mask = packet_flag_mask packet_id in
      (old_flags AND NOT mask) OR (packet_flags AND mask))"

text \<open>The group packet 0 carries every field; otherwise a field has its own packet.\<close>

definition packet_has :: "u8 \<Rightarrow> u8 \<Rightarrow> bool" where
  "packet_has field packet_id \<longleftrightarrow> packet_id = 0 \<or> packet_id = field"

definition battery_percent :: "u16 \<Rightarrow> u16 \<Rightarrow> u8 option" where
  "battery_percent charge capacity =
     (if capacity = 0 then None
      else Some (of_nat (min (unat charge * 100 div unat capacity) 100)))"

definition changed :: "u32 \<Rightarrow> u32 \<Rightarrow> nat \<Rightarrow> bool" where
  "changed old_flags new_flags i \<longleftrightarrow> old_flags AND push_bit i 1 \<noteq> new_flags AND push_bit i 1"

section \<open>Edge events\<close>

definition emit_when :: "bool \<Rightarrow> public_event_kind \<Rightarrow> u32 \<Rightarrow> status \<Rightarrow> status" where
  [status_defs]: "emit_when b kind a s = (if b then emit kind a 0 0 s else s)"

definition record_battery_edge :: "u8 option \<Rightarrow> u8 option \<Rightarrow> status \<Rightarrow> status" where
  [status_defs]: "record_battery_edge old_percent new_percent s =
     (case new_percent of
        None \<Rightarrow> s
      | Some percent \<Rightarrow>
          (let old_low = (case old_percent of None \<Rightarrow> False | Some v \<Rightarrow> v \<le> 20);
               new_low = percent \<le> 20;
               latched = rs_battery_low_latched (st_run s) \<noteq> 0 in
           if new_low \<and> (\<not> old_low \<or> \<not> latched)
           then (emit KBatteryLow (ucast percent) 0 0 s)\<lparr>st_run := (st_run s)\<lparr>rs_battery_low_latched := 1\<rparr>\<rparr>
           else if \<not> new_low then s\<lparr>st_run := (st_run s)\<lparr>rs_battery_low_latched := 0\<rparr>\<rparr>
           else s))"

definition record_sensor_edge_events ::
  "u8 \<Rightarrow> sensor_status \<Rightarrow> u32 \<Rightarrow> create_sensor_packet \<Rightarrow> u16 \<Rightarrow> u16 \<Rightarrow> status \<Rightarrow> status" where
  [status_defs]: "record_sensor_edge_events packet_id old new_flags sensors new_charge new_capacity s =
     (let s = emit_when (changed (sn_flags old) new_flags 3) KWallChanged (b32 (flag_bit 3 new_flags)) s;
          s = emit_when (changed (sn_flags old) new_flags 8) KVirtualWallChanged
                (b32 (flag_bit 8 new_flags)) s;
          s = emit_when (packet_has 21 packet_id \<and> sn_charging_state old \<noteq> pk_charging_state sensors)
                KChargingStateChanged (ucast (pk_charging_state sensors)) s;
          s = emit_when (packet_has 18 packet_id \<and> sn_buttons old \<noteq> pk_buttons sensors)
                KButtonsChanged (ucast (pk_buttons sensors)) s;
          s = emit_when (packet_has 17 packet_id \<and> sn_ir_byte old \<noteq> pk_ir_byte sensors)
                KIrChanged (ucast (pk_ir_byte sensors)) s
      in record_battery_edge
           (battery_percent (ucast (sn_charge_mah old)) (ucast (sn_capacity_mah old)))
           (battery_percent new_charge new_capacity) s)"

section \<open>Odometry\<close>

definition bump_sequence :: "odometry_status \<Rightarrow> odometry_status" where
  "bump_sequence o' = o'\<lparr>od_sequence := od_sequence o' + 1\<rparr>"

definition mark_odometry_reset :: "status \<Rightarrow> status" where
  [status_defs]: "mark_odometry_reset s =
     (let od = bump_sequence (st_odo s);
          od = od\<lparr>od_reset_count := saturating_inc (od_reset_count od), od_distance_mm := 0,
                  od_x_q10 := 0, od_y_q10 := 0, od_heading_mrad := 0\<rparr>
      in s\<lparr>st_odo := bump_sequence od, st_imu := (st_imu s)\<lparr>iu_yaw := 0\<rparr>\<rparr>)"

definition integrate_odometry_delta :: "platform \<Rightarrow> int \<Rightarrow> int \<Rightarrow> status \<Rightarrow> status" where
  [status_defs]: "integrate_odometry_delta pf distance_mm angle_mrad s =
     (let od = bump_sequence (st_odo s);
          heading = decode_signed_i32 (od_heading_mrad od);
          (dx, dy) = pf_displacement_q10 pf distance_mm heading angle_mrad;
          od = od\<lparr>od_x_q10 := add_signed dx (od_x_q10 od), od_y_q10 := add_signed dy (od_y_q10 od),
                  od_distance_mm := add_signed distance_mm (od_distance_mm od),
                  od_heading_mrad := add_signed angle_mrad (od_heading_mrad od)\<rparr>
      in s\<lparr>st_odo := bump_sequence od\<rparr>)"

text \<open>\<open>coherent_odometry_snapshot\<close> when no write is in progress: reset count, distance, x, y and
  heading.\<close>

definition odometry_snapshot :: "status \<Rightarrow> u32 \<times> int \<times> int \<times> int \<times> int" where
  "odometry_snapshot s =
     (let od = st_odo s in
      (od_reset_count od, decode_signed_i32 (od_distance_mm od),
       trunc_div (decode_signed_i32 (od_x_q10 od)) 1024,
       trunc_div (decode_signed_i32 (od_y_q10 od)) 1024,
       decode_signed_i32 (od_heading_mrad od)))"

section \<open>A decoded Create packet\<close>

definition merge_sensor_fields :: "u8 \<Rightarrow> create_sensor_packet \<Rightarrow> u32 \<Rightarrow> sensor_status \<Rightarrow> sensor_status" where
  "merge_sensor_fields packet_id sensors new_flags sn =
     sn\<lparr>sn_last_packet_id := packet_id,
        sn_flags := new_flags,
        sn_distance_mm := encode_signed_i16 (pk_distance_mm sensors),
        sn_angle_mrad := encode_signed_i16 (pk_angle_mrad sensors),
        sn_ir_byte := (if packet_has 17 packet_id then pk_ir_byte sensors else sn_ir_byte sn),
        sn_buttons := (if packet_has 18 packet_id then pk_buttons sensors else sn_buttons sn),
        sn_charging_state :=
          (if packet_has 21 packet_id then pk_charging_state sensors else sn_charging_state sn),
        sn_charging_sources :=
          (if packet_id = 34 then pk_charging_sources sensors else sn_charging_sources sn),
        sn_voltage_mv := (if packet_has 22 packet_id then ucast (pk_voltage_mv sensors) else sn_voltage_mv sn),
        sn_current_ma :=
          (if packet_has 23 packet_id then encode_signed_i16 (pk_current_ma sensors) else sn_current_ma sn),
        sn_temperature_c :=
          (if packet_has 24 packet_id then ucast (pk_temperature_c sensors) else sn_temperature_c sn),
        sn_charge_mah := (if packet_has 25 packet_id then ucast (pk_charge_mah sensors) else sn_charge_mah sn),
        sn_capacity_mah :=
          (if packet_has 26 packet_id then ucast (pk_capacity_mah sensors) else sn_capacity_mah sn),
        sn_cliff_left := (if packet_id = 28 then ucast (pk_cliff_left_signal sensors) else sn_cliff_left sn),
        sn_cliff_front_left :=
          (if packet_id = 29 then ucast (pk_cliff_front_left_signal sensors) else sn_cliff_front_left sn),
        sn_cliff_front_right :=
          (if packet_id = 30 then ucast (pk_cliff_front_right_signal sensors) else sn_cliff_front_right sn),
        sn_cliff_right :=
          (if packet_id = 31 then ucast (pk_cliff_right_signal sensors) else sn_cliff_right sn)\<rparr>"

definition mark_create_sensor_packet :: "platform \<Rightarrow> u8 \<Rightarrow> create_sensor_packet \<Rightarrow> status \<Rightarrow> status" where
  [status_defs]: "mark_create_sensor_packet pf packet_id sensors s =
     (let s = (if packet_id = 0
               then s\<lparr>st_sensor := (st_sensor s)\<lparr>
                        sn_complete_count := saturating_inc (sn_complete_count (st_sensor s)),
                        sn_last_complete_ms := us_last_packet_ms (st_uart s)\<rparr>\<rparr>
               else s);
          old = st_sensor s;
          new_flags = merge_create_sensor_flags packet_id (sn_flags old) (create_sensor_flags_bits sensors);
          new_charge = (if packet_has 25 packet_id then pk_charge_mah sensors else ucast (sn_charge_mah old));
          new_capacity =
            (if packet_has 26 packet_id then pk_capacity_mah sensors else ucast (sn_capacity_mah old));
          s = (if packet_id = 35 then s\<lparr>st_run := (st_run s)\<lparr>rs_oi_mode := pk_oi_mode sensors\<rparr>\<rparr> else s);
          s = s\<lparr>st_sensor := merge_sensor_fields packet_id sensors new_flags old\<rparr>;
          distance = (if packet_has 19 packet_id then sint (pk_distance_mm sensors) else 0);
          angle = (if packet_has 20 packet_id then sint (pk_angle_mrad sensors) else 0);
          s = (if distance \<noteq> 0 \<or> angle \<noteq> 0 then integrate_odometry_delta pf distance angle s else s)
      in record_sensor_edge_events packet_id old new_flags sensors new_charge new_capacity s)"

section \<open>Inertial samples\<close>

definition gyro_bias_required :: u32 where "gyro_bias_required = 50"

definition imu_gyro_bias_calibrated :: "imu_calibration_status \<Rightarrow> bool" where
  "imu_gyro_bias_calibrated c \<longleftrightarrow> gyro_bias_required \<le> ic_bias_count c"

text \<open>\<open>i16::abs\<close> as the release build computes it.\<close>

definition abs_i16 :: "i16 \<Rightarrow> int" where
  "abs_i16 v = sint (if sint v < 0 then - v else v)"

definition bias_average :: "u32 \<Rightarrow> u32" where
  "bias_average acc = encode_signed_i16 (word_of_int (trunc_div (decode_signed_i32 acc) 50))"

definition plausible_gravity :: "imu_sample \<Rightarrow> bool" where
  "plausible_gravity sample \<longleftrightarrow>
     (let x = sint (im_accel_x sample); y = sint (im_accel_y sample); z = sint (im_accel_z sample);
          square = sat_i32 (sat_i32 (sat_i32 (x * x) + sat_i32 (y * y)) + sat_i32 (z * z))
      in sat_i32 (9200 * 9200) \<le> square \<and> square \<le> sat_i32 (10400 * 10400))"

definition gyro_quiet :: "imu_sample \<Rightarrow> bool" where
  "gyro_quiet sample \<longleftrightarrow>
     abs_i16 (im_gyro_x sample) \<le> 80 \<and> abs_i16 (im_gyro_y sample) \<le> 80 \<and> abs_i16 (im_gyro_z sample) \<le> 80"

definition update_stationary_gyro_bias :: "imu_sample \<Rightarrow> imu_calibration_status \<Rightarrow> imu_calibration_status" where
  "update_stationary_gyro_bias sample c =
     (if imu_gyro_bias_calibrated c then c
      else if \<not> plausible_gravity sample \<or> \<not> gyro_quiet sample then c
      else
        (let c = c\<lparr>ic_bias_sum_x := add_signed (sint (im_gyro_x sample)) (ic_bias_sum_x c),
                   ic_bias_sum_y := add_signed (sint (im_gyro_y sample)) (ic_bias_sum_y c),
                   ic_bias_sum_z := add_signed (sint (im_gyro_z sample)) (ic_bias_sum_z c)\<rparr>;
             count = saturating_inc (ic_bias_count c);
             c = c\<lparr>ic_bias_count := count\<rparr>
         in if count = gyro_bias_required
            then c\<lparr>ic_bias_x := bias_average (ic_bias_sum_x c), ic_bias_y := bias_average (ic_bias_sum_y c),
                   ic_bias_z := bias_average (ic_bias_sum_z c)\<rparr>
            else c))"

definition sat_sub_i16 :: "i16 \<Rightarrow> i16 \<Rightarrow> i16" where
  "sat_sub_i16 a b = clamp_i16 (sint a - sint b)"

definition unbias :: "imu_calibration_status \<Rightarrow> imu_sample \<Rightarrow> imu_sample" where
  "unbias c sample =
     (if imu_gyro_bias_calibrated c
      then sample\<lparr>im_gyro_x := sat_sub_i16 (im_gyro_x sample) (decode_signed_i16 (ic_bias_x c)),
                  im_gyro_y := sat_sub_i16 (im_gyro_y sample) (decode_signed_i16 (ic_bias_y c)),
                  im_gyro_z := sat_sub_i16 (im_gyro_z sample) (decode_signed_i16 (ic_bias_z c))\<rparr>
      else sample)"

definition stored_gravity_calibration :: "imu_calibration_status \<Rightarrow> imu_gravity_calibration option" where
  "stored_gravity_calibration c =
     (if ic_gravity_calibrated c = 0 then None
      else if (ucast (ic_ref_magnitude c) :: u16) = 0 then None
      else Some \<lparr>cal_reference = \<lparr>vec_x = decode_signed_i16 (ic_ref_x c), vec_y = decode_signed_i16 (ic_ref_y c),
                   vec_z = decode_signed_i16 (ic_ref_z c)\<rparr>,
                 cal_magnitude = ucast (ic_ref_magnitude c)\<rparr>)"

definition store_derived :: "imu_sample \<Rightarrow> imu_derived \<Rightarrow> bool \<Rightarrow> bool \<Rightarrow> imu_status \<Rightarrow> imu_status" where
  "store_derived sample d calibrated tilt iu =
     iu\<lparr>iu_present := ON, iu_health := imu_health_code HOk, iu_last_ms := im_timestamp_ms sample,
        iu_gyro_x := encode_signed_i16 (im_gyro_x sample), iu_gyro_y := encode_signed_i16 (im_gyro_y sample),
        iu_gyro_z := encode_signed_i16 (im_gyro_z sample), iu_accel_x := encode_signed_i16 (im_accel_x sample),
        iu_accel_y := encode_signed_i16 (im_accel_y sample), iu_accel_z := encode_signed_i16 (im_accel_z sample),
        iu_yaw := encode_signed_i32 (dv_yaw d), iu_pitch := encode_signed_i16 (dv_pitch d),
        iu_roll := encode_signed_i16 (dv_roll d), iu_accel_magnitude := ucast (dv_accel_magnitude d),
        iu_tilt_magnitude := ucast (dv_tilt_magnitude d), iu_roughness := ucast (dv_roughness d),
        iu_impact_score := ucast (dv_impact_score d),
        iu_calibration_state := (if calibrated then 3 else 0),
        iu_motion_consistency := 1,
        iu_tilt_active := (if tilt then 1 else 0),
        iu_count := saturating_inc (iu_count iu)\<rparr>"

definition mark_imu_sample :: "platform \<Rightarrow> imu_sample \<Rightarrow> status \<Rightarrow> status" where
  [status_defs]: "mark_imu_sample pf sample s =
     (let s = s\<lparr>st_cal := update_stationary_gyro_bias sample (st_cal s)\<rparr>;
          sample = unbias (st_cal s) sample;
          iu = st_imu s;
          calibration = stored_gravity_calibration (st_cal s);
          d = derive_sample_inner (decode_signed_i32 (iu_yaw iu)) (iu_last_ms iu)
                (ucast (iu_accel_magnitude iu)) sample calibration;
          old_health = iu_health iu;
          old_tilt = iu_tilt_active iu \<noteq> 0;
          new_tilt = tilt_exceeds pf (dv_tilt_magnitude d);
          s = s\<lparr>st_imu := store_derived sample d (calibration \<noteq> None) new_tilt iu\<rparr>;
          s = emit_when (old_health \<noteq> imu_health_code HOk) KImuFault (ucast (imu_health_code HOk)) s;
          s = (if old_tilt \<noteq> new_tilt
               then emit KTiltChanged (b32 new_tilt) (ucast (dv_tilt_magnitude d)) 0 s else s)
      in if pf_imu_impact_stop_mm_s2 pf \<le> dv_impact_score d
         then emit KImpactDetected (ucast (dv_impact_score d)) (ucast (dv_accel_magnitude d)) 0 s
         else s)"

definition mark_imu_health :: "imu_health \<Rightarrow> status \<Rightarrow> status" where
  [status_defs]: "mark_imu_health health s =
     (let old = iu_health (st_imu s);
          s = s\<lparr>st_imu := (st_imu s)\<lparr>iu_health := imu_health_code health,
                 iu_present := (if health = HAbsent then OFF else ON)\<rparr>\<rparr>
      in emit_when (old \<noteq> imu_health_code health) KImuFault (ucast (imu_health_code health)) s)"

definition mark_motion_inconsistency :: "i16 \<Rightarrow> i16 \<Rightarrow> status \<Rightarrow> status" where
  [status_defs]: "mark_motion_inconsistency expected observed s =
     emit KMotionInconsistencyDetected (ucast expected) (ucast observed) 0
       (s\<lparr>st_imu := (st_imu s)\<lparr>iu_motion_consistency := 2\<rparr>\<rparr>)"

definition stored_sample :: "imu_status \<Rightarrow> imu_sample" where
  "stored_sample iu =
     \<lparr>im_timestamp_ms = iu_last_ms iu,
      im_gyro_x = decode_signed_i16 (iu_gyro_x iu), im_gyro_y = decode_signed_i16 (iu_gyro_y iu),
      im_gyro_z = decode_signed_i16 (iu_gyro_z iu), im_accel_x = decode_signed_i16 (iu_accel_x iu),
      im_accel_y = decode_signed_i16 (iu_accel_y iu), im_accel_z = decode_signed_i16 (iu_accel_z iu)\<rparr>"

definition zero_imu_orientation_from_gravity :: "status \<Rightarrow> status \<times> bool" where
  "zero_imu_orientation_from_gravity s =
     (let iu = st_imu s in
      if iu_count iu = 0 then (s, False)
      else (case from_stationary_sample (stored_sample iu) of
              None \<Rightarrow> (s\<lparr>st_imu := iu\<lparr>iu_calibration_state := 0\<rparr>\<rparr>, False)
            | Some calibration \<Rightarrow>
                (emit KImuCalibrationChanged 3 (ucast (cal_magnitude calibration)) (iu_count iu)
                   (s\<lparr>st_cal := (st_cal s)\<lparr>ic_ref_x := encode_signed_i16 (vec_x (cal_reference calibration)),
                         ic_ref_y := encode_signed_i16 (vec_y (cal_reference calibration)),
                         ic_ref_z := encode_signed_i16 (vec_z (cal_reference calibration)),
                         ic_ref_magnitude := ucast (cal_magnitude calibration),
                         ic_gravity_calibrated := 1\<rparr>,
                      st_imu := iu\<lparr>iu_yaw := 0, iu_pitch := 0, iu_roll := 0, iu_tilt_magnitude := 0,
                         iu_tilt_active := 0, iu_calibration_state := 3\<rparr>\<rparr>),
                 True)))"

definition clear_imu_orientation_calibration :: "status \<Rightarrow> status" where
  [status_defs]: "clear_imu_orientation_calibration s =
     emit KImuCalibrationChanged 0 0 (iu_count (st_imu s))
       (s\<lparr>st_cal := initial_imu_calibration_status,
          st_imu := (st_imu s)\<lparr>iu_calibration_state := 0\<rparr>\<rparr>)"

section \<open>Flags\<close>

lemma flag_bit_iff: "i < 32 \<Longrightarrow> flag_bit i flags \<longleftrightarrow> bit flags i"
proof -
  assume i: "i < 32"
  have "bit (flags AND push_bit i 1) j \<longleftrightarrow> bit flags i \<and> j = i" for j
    using i by (auto simp: bit_and_iff bit_exp_iff)
  then show ?thesis
    unfolding flag_bit_def bit_eq_iff [of "flags AND push_bit i 1" 0] using i by simp
qed

lemma merge_bit:
  "bit (merge_create_sensor_flags p old new) i \<longleftrightarrow>
     (if bit (packet_flag_mask p) i then bit new i else i < 32 \<and> bit old i)"
  by (auto simp: merge_create_sensor_flags_def Let_def bit_or_iff bit_and_iff bit_not_iff
      dest: bit_imp_le_length)

text \<open>A packet writes the bits of its mask and no other.\<close>

lemma merge_outside_mask:
  "i < 32 \<Longrightarrow> \<not> bit (packet_flag_mask p) i \<Longrightarrow>
   flag_bit i (merge_create_sensor_flags p old new) = flag_bit i old"
  by (simp add: flag_bit_iff merge_bit)

lemma bit_b32 [simp]: "bit (b32 b) n \<longleftrightarrow> b \<and> n = 0"
  by (simp add: b32_def bit_1_iff)

lemma bit_bit_of: "i < 32 \<Longrightarrow> bit (bit_of i b) n \<longleftrightarrow> b \<and> n = i"
  by (auto simp: bit_of_def bit_push_bit_iff)

lemma packet_bits:
  "bit (create_sensor_flags_bits p) 0 \<longleftrightarrow> fl_bump_left (pk_flags p)"
  "bit (create_sensor_flags_bits p) (Suc 0) \<longleftrightarrow> fl_bump_right (pk_flags p)"
  "bit (create_sensor_flags_bits p) 2 \<longleftrightarrow> fl_wheel_drop (pk_flags p)"
  "bit (create_sensor_flags_bits p) 4 \<longleftrightarrow> fl_cliff_left (pk_flags p)"
  "bit (create_sensor_flags_bits p) 5 \<longleftrightarrow> fl_cliff_front_left (pk_flags p)"
  "bit (create_sensor_flags_bits p) 6 \<longleftrightarrow> fl_cliff_front_right (pk_flags p)"
  "bit (create_sensor_flags_bits p) 7 \<longleftrightarrow> fl_cliff_right (pk_flags p)"
  by (simp_all add: create_sensor_flags_bits_def Let_def bit_or_iff bit_bit_of)

section \<open>Frame facts\<close>

lemma emit_when_frame [simp]:
  "st_odo (emit_when b k a s) = st_odo s" "st_sensor (emit_when b k a s) = st_sensor s"
  "st_safety (emit_when b k a s) = st_safety s" "st_imu (emit_when b k a s) = st_imu s"
  "st_cal (emit_when b k a s) = st_cal s" "st_auth (emit_when b k a s) = st_auth s"
  "st_mail (emit_when b k a s) = st_mail s" "st_session (emit_when b k a s) = st_session s"
  "st_run (emit_when b k a s) = st_run s" "st_uart (emit_when b k a s) = st_uart s"
  by (simp_all add: emit_when_def)

lemma record_battery_edge_frame [simp]:
  "st_odo (record_battery_edge o' n s) = st_odo s" "st_sensor (record_battery_edge o' n s) = st_sensor s"
  "st_safety (record_battery_edge o' n s) = st_safety s" "st_imu (record_battery_edge o' n s) = st_imu s"
  "st_cal (record_battery_edge o' n s) = st_cal s" "st_auth (record_battery_edge o' n s) = st_auth s"
  "st_mail (record_battery_edge o' n s) = st_mail s" "st_session (record_battery_edge o' n s) = st_session s"
  "st_uart (record_battery_edge o' n s) = st_uart s"
  by (simp_all add: record_battery_edge_def Let_def split: option.splits)

lemma record_sensor_edge_frame [simp]:
  "st_odo (record_sensor_edge_events p o' f k c d s) = st_odo s"
  "st_sensor (record_sensor_edge_events p o' f k c d s) = st_sensor s"
  "st_safety (record_sensor_edge_events p o' f k c d s) = st_safety s"
  "st_imu (record_sensor_edge_events p o' f k c d s) = st_imu s"
  "st_cal (record_sensor_edge_events p o' f k c d s) = st_cal s"
  "st_auth (record_sensor_edge_events p o' f k c d s) = st_auth s"
  "st_mail (record_sensor_edge_events p o' f k c d s) = st_mail s"
  "st_session (record_sensor_edge_events p o' f k c d s) = st_session s"
  by (simp_all add: record_sensor_edge_events_def Let_def)

lemma integrate_odometry_frame [simp]:
  "st_sensor (integrate_odometry_delta pf d a s) = st_sensor s"
  "st_safety (integrate_odometry_delta pf d a s) = st_safety s"
  "st_auth (integrate_odometry_delta pf d a s) = st_auth s"
  "st_mail (integrate_odometry_delta pf d a s) = st_mail s"
  "st_session (integrate_odometry_delta pf d a s) = st_session s"
  "st_imu (integrate_odometry_delta pf d a s) = st_imu s"
  "st_cal (integrate_odometry_delta pf d a s) = st_cal s"
  by (simp_all add: integrate_odometry_delta_def Let_def split: prod.splits)

lemma mark_packet_frame [simp]:
  "st_safety (mark_create_sensor_packet pf p k s) = st_safety s"
  "st_auth (mark_create_sensor_packet pf p k s) = st_auth s"
  "st_mail (mark_create_sensor_packet pf p k s) = st_mail s"
  "st_session (mark_create_sensor_packet pf p k s) = st_session s"
  by (simp_all add: mark_create_sensor_packet_def Let_def)

lemma mark_packet_flags:
  "sn_flags (st_sensor (mark_create_sensor_packet pf p k s)) =
     merge_create_sensor_flags p (sn_flags (st_sensor s)) (create_sensor_flags_bits k)"
  by (simp add: mark_create_sensor_packet_def Let_def merge_sensor_fields_def)

lemma packet_without_deltas_keeps_odometry:
  assumes "p \<noteq> 0" "p \<noteq> 19" "p \<noteq> 20"
  shows "st_odo (mark_create_sensor_packet pf p k s) = st_odo s"
  using assms by (simp add: mark_create_sensor_packet_def packet_has_def Let_def)

lemma packet_odometry:
  "st_odo (mark_create_sensor_packet pf p k s) =
     (let d = (if packet_has 19 p then sint (pk_distance_mm k) else 0);
          a = (if packet_has 20 p then sint (pk_angle_mrad k) else 0)
      in if d \<noteq> 0 \<or> a \<noteq> 0 then st_odo (integrate_odometry_delta pf d a s) else st_odo s)"
  by (simp add: mark_create_sensor_packet_def integrate_odometry_delta_def Let_def split: prod.splits)

text \<open>Odometry distance and heading are the saturating sums of the reported deltas.\<close>

lemma sint_add_signed: "sint (add_signed a w) = sat_i32 (sint w + a)"
proof -
  have "- 2147483648 \<le> sat_i32 (sint w + a)" "sat_i32 (sint w + a) < 2147483648"
    by (auto simp: sat_i32_def)
  then have "signed_take_bit 31 (sat_i32 (sint w + a)) = sat_i32 (sint w + a)"
    by (intro signed_take_bit_int_eq_self) simp_all
  then show ?thesis by (simp add: add_signed_def sint_sbintrunc')
qed

lemma integrate_distance:
  "sint (od_distance_mm (st_odo (integrate_odometry_delta pf d a s))) =
     sat_i32 (sint (od_distance_mm (st_odo s)) + d)"
  "sint (od_heading_mrad (st_odo (integrate_odometry_delta pf d a s))) =
     sat_i32 (sint (od_heading_mrad (st_odo s)) + a)"
  by (simp_all add: integrate_odometry_delta_def Let_def bump_sequence_def sint_add_signed
      split: prod.splits)

section \<open>Gyro bias\<close>

text \<open>While samples are collected every sum is bounded by 80 per sample, and the bias that the
  fiftieth sample freezes is at most 80 mrad/s.\<close>

definition bias_ok :: "imu_calibration_status \<Rightarrow> bool" where
  "bias_ok c \<longleftrightarrow> ic_bias_count c \<le> 50 \<and>
     (\<forall>w \<in> {ic_bias_sum_x c, ic_bias_sum_y c, ic_bias_sum_z c}. \<bar>sint w\<bar> \<le> 80 * int (unat (ic_bias_count c))) \<and>
     (\<forall>w \<in> {ic_bias_x c, ic_bias_y c, ic_bias_z c}. \<bar>sint (decode_signed_i16 w)\<bar> \<le> 80)"

lemma abs_i16_small:
  assumes "abs_i16 v \<le> 80" and "sint v \<noteq> - 32768"
  shows "\<bar>sint v\<bar> \<le> 80"
proof (cases "sint v < 0")
  case True
  have r: "- 32768 \<le> sint v" "sint v < 32768"
    using sint_greater_eq [of v] sint_less [of v] by simp_all
  have "sint (- v) = - sint v"
  proof -
    have "signed_take_bit 15 (- sint v) = - sint v"
      by (rule signed_take_bit_int_eq_self) (use r assms(2) True in auto)
    then show ?thesis by (simp add: sint_word_ariths)
  qed
  with True assms(1) show ?thesis by (simp add: abs_i16_def)
next
  case False
  with assms(1) show ?thesis by (simp add: abs_i16_def)
qed

lemma bias_average_bound:
  assumes "\<bar>sint w\<bar> \<le> 4000"
  shows "\<bar>sint (decode_signed_i16 (bias_average w))\<bar> \<le> 80"
proof -
  have b: "\<bar>trunc_div (sint w) 50\<bar> \<le> 80"
    using assms by (auto simp: trunc_div_def abs_mult abs_sgn_eq)
  then have "signed_take_bit 15 (trunc_div (sint w) 50) = trunc_div (sint w) 50"
    by (intro signed_take_bit_int_eq_self) auto
  then show ?thesis using b
    by (simp add: bias_average_def decode_signed_i32_def sint_sbintrunc')
qed

lemma sum_step_bound:
  assumes "\<bar>sint w\<bar> \<le> 80 * int n" and "\<bar>a\<bar> \<le> 80" and "n < 50"
  shows "\<bar>sint (add_signed a w)\<bar> \<le> 80 * int (Suc n)"
proof -
  have "\<bar>sint w + a\<bar> \<le> 80 * int (Suc n)" using assms by auto
  moreover have "sat_i32 (sint w + a) = sint w + a" using calculation assms(3) by (intro sat_i32_id) auto
  ultimately show ?thesis by (simp add: sint_add_signed)
qed

lemma bias_ok_update:
  assumes "bias_ok c" and "sint (im_gyro_x m) \<noteq> - 32768" "sint (im_gyro_y m) \<noteq> - 32768"
    "sint (im_gyro_z m) \<noteq> - 32768"
  shows "bias_ok (update_stationary_gyro_bias m c)"
proof (cases "imu_gyro_bias_calibrated c \<or> \<not> plausible_gravity m \<or> \<not> gyro_quiet m")
  case True
  with assms(1) show ?thesis by (auto simp: update_stationary_gyro_bias_def)
next
  case False
  let ?n = "unat (ic_bias_count c)"
  have n: "?n < 50"
    using False by (simp add: imu_gyro_bias_calibrated_def gyro_bias_required_def word_le_nat_alt)
  then have count: "unat (saturating_inc (ic_bias_count c)) = Suc ?n"
    by (simp add: saturating_inc_def unat_sat_add)
  have g: "\<bar>sint (im_gyro_x m)\<bar> \<le> 80" "\<bar>sint (im_gyro_y m)\<bar> \<le> 80" "\<bar>sint (im_gyro_z m)\<bar> \<le> 80"
    using False assms(2-) by (auto simp: gyro_quiet_def intro: abs_i16_small)
  have sums: "\<bar>sint (add_signed (sint (im_gyro_x m)) (ic_bias_sum_x c))\<bar> \<le> 80 * int (Suc ?n)"
    "\<bar>sint (add_signed (sint (im_gyro_y m)) (ic_bias_sum_y c))\<bar> \<le> 80 * int (Suc ?n)"
    "\<bar>sint (add_signed (sint (im_gyro_z m)) (ic_bias_sum_z c))\<bar> \<le> 80 * int (Suc ?n)"
    by (rule sum_step_bound [OF _ g(1) n] sum_step_bound [OF _ g(2) n] sum_step_bound [OF _ g(3) n],
        use assms(1) in \<open>simp add: bias_ok_def\<close>)+
  have "saturating_inc (ic_bias_count c) \<le> 50"
    using count n by (simp add: word_le_nat_alt)
  moreover have "\<bar>sint (decode_signed_i16 (bias_average w))\<bar> \<le> 80" if "\<bar>sint w\<bar> \<le> 80 * int (Suc ?n)" for w
  proof (rule bias_average_bound)
    have "int (Suc ?n) \<le> 50" using n by linarith
    then have "80 * int (Suc ?n) \<le> 4000" by simp
    with that show "\<bar>sint w\<bar> \<le> 4000" by (rule order_trans)
  qed
  moreover have "uint (saturating_inc (ic_bias_count c)) = uint (ic_bias_count c) + 1"
    using arg_cong [OF count, of int] by simp
  ultimately show ?thesis
    using False assms(1) sums
    by (auto simp: update_stationary_gyro_bias_def bias_ok_def Let_def)
qed

lemma calibrated_bias_frozen:
  "imu_gyro_bias_calibrated c \<Longrightarrow> update_stationary_gyro_bias m c = c"
  by (simp add: update_stationary_gyro_bias_def)

section \<open>Tilt\<close>

text \<open>
  The tilt test reads the magnitude as a signed word, so magnitudes from 32768 on count as no
  tilt at all.
\<close>

lemma tilt_exceeds_iff:
  assumes "0 < sint (pf_imu_tilt_stop_mrad pf)"
  shows "tilt_exceeds pf t \<longleftrightarrow> sint (pf_imu_tilt_stop_mrad pf) \<le> uint t \<and> uint t < 32768"
proof (cases "uint t < 32768")
  case True
  have "signed_take_bit 15 (uint t) = uint t"
    by (rule signed_take_bit_int_eq_self) (rule order_trans [OF _ uint_ge_0], use True in simp_all)
  then have "sint t = uint t" by (simp add: sint_uint)
  with True show ?thesis by (simp add: tilt_exceeds_def)
next
  case False
  have "sint t < 0"
  proof (rule ccontr)
    assume "\<not> sint t < 0"
    then have "uint t = sint t"
      using sint_less [of t] by (simp add: uint_sint take_bit_int_eq_self)
    with False sint_less [of t] show False by simp
  qed
  with False assms show ?thesis by (simp add: tilt_exceeds_def)
qed

section \<open>Properties\<close>

lemma merged_flag:
  "i < 32 \<Longrightarrow> flag_bit i (merge_create_sensor_flags p old new) \<longleftrightarrow>
     (if bit (packet_flag_mask p) i then bit new i else flag_bit i old)"
  by (simp add: flag_bit_iff merge_bit)

lemma mask_bits:
  "bit (packet_flag_mask p) 2 \<longleftrightarrow> p = 0 \<or> p = 7" "bit (packet_flag_mask p) 4 \<longleftrightarrow> p = 0 \<or> p = 9"
  "bit (packet_flag_mask p) 5 \<longleftrightarrow> p = 0 \<or> p = 10" "bit (packet_flag_mask p) 6 \<longleftrightarrow> p = 0 \<or> p = 11"
  "bit (packet_flag_mask p) 7 \<longleftrightarrow> p = 0 \<or> p = 12"
  by (simp_all add: packet_flag_mask_def)

text \<open>Safety flags: the wheel-drop flag follows packets 0 and 7, each cliff flag follows packet 0
  and its own packet, and no other packet moves any of them.\<close>

theorem safety_flags_follow_their_packets:
  "flag_bit 2 (sn_flags (st_sensor (mark_create_sensor_packet pf p k s))) =
     (if p = 0 \<or> p = 7 then fl_wheel_drop (pk_flags k) else flag_bit 2 (sn_flags (st_sensor s))) \<and>
   flag_bit 4 (sn_flags (st_sensor (mark_create_sensor_packet pf p k s))) =
     (if p = 0 \<or> p = 9 then fl_cliff_left (pk_flags k) else flag_bit 4 (sn_flags (st_sensor s))) \<and>
   flag_bit 5 (sn_flags (st_sensor (mark_create_sensor_packet pf p k s))) =
     (if p = 0 \<or> p = 10 then fl_cliff_front_left (pk_flags k) else flag_bit 5 (sn_flags (st_sensor s))) \<and>
   flag_bit 6 (sn_flags (st_sensor (mark_create_sensor_packet pf p k s))) =
     (if p = 0 \<or> p = 11 then fl_cliff_front_right (pk_flags k) else flag_bit 6 (sn_flags (st_sensor s))) \<and>
   flag_bit 7 (sn_flags (st_sensor (mark_create_sensor_packet pf p k s))) =
     (if p = 0 \<or> p = 12 then fl_cliff_right (pk_flags k) else flag_bit 7 (sn_flags (st_sensor s)))"
  by (simp add: mark_packet_flags merged_flag mask_bits packet_bits)

text \<open>Odometry: distance and heading are the saturating sums of the deltas of the packets that
  carry them, and no other packet touches the odometry.\<close>

theorem odometry_accumulates:
  "sint (od_distance_mm (st_odo (mark_create_sensor_packet pf p k s))) =
     sat_i32 (sint (od_distance_mm (st_odo s)) + (if p = 0 \<or> p = 19 then sint (pk_distance_mm k) else 0)) \<and>
   sint (od_heading_mrad (st_odo (mark_create_sensor_packet pf p k s))) =
     sat_i32 (sint (od_heading_mrad (st_odo s)) + (if p = 0 \<or> p = 20 then sint (pk_angle_mrad k) else 0)) \<and>
   (p \<noteq> 0 \<and> p \<noteq> 19 \<and> p \<noteq> 20 \<longrightarrow> st_odo (mark_create_sensor_packet pf p k s) = st_odo s)"
proof -
  have id: "sat_i32 (sint (w :: u32)) = sint w" for w
    using sint_greater_eq [of w] sint_less [of w] by (intro sat_i32_id) simp_all
  show ?thesis
    by (auto simp: packet_odometry packet_has_def integrate_distance id Let_def)
qed

theorem odometry_accumulates_witness:
  "st_odo (mark_create_sensor_packet example_platform 7 default_packet initial_status) = st_odo initial_status \<and>
   sint (od_distance_mm (st_odo (mark_create_sensor_packet example_platform 19
     (default_packet\<lparr>pk_distance_mm := - 12\<rparr>) initial_status))) = - 12"
  using odometry_accumulates [of example_platform 7 default_packet initial_status]
    odometry_accumulates [of example_platform 19 "default_packet\<lparr>pk_distance_mm := - 12\<rparr>" initial_status]
  by (simp add: initial_status_def initial_odometry_status_def sat_i32_def)

text \<open>Gyro bias: however many stationary samples arrive, the stored bias of each axis stays
  within 80 mrad/s, and it never changes again once fifty samples have been taken.\<close>

theorem gyro_bias_bounded:
  assumes "\<forall>m \<in> set samples. sint (im_gyro_x m) \<noteq> - 32768 \<and> sint (im_gyro_y m) \<noteq> - 32768 \<and>
      sint (im_gyro_z m) \<noteq> - 32768"
    and "c = fold update_stationary_gyro_bias samples initial_imu_calibration_status"
  shows "\<bar>sint (decode_signed_i16 (ic_bias_x c))\<bar> \<le> 80 \<and> \<bar>sint (decode_signed_i16 (ic_bias_y c))\<bar> \<le> 80 \<and>
    \<bar>sint (decode_signed_i16 (ic_bias_z c))\<bar> \<le> 80 \<and>
    (ic_bias_count c = 50 \<longrightarrow> update_stationary_gyro_bias m c = c)"
proof -
  have "bias_ok (fold update_stationary_gyro_bias samples c0)" if "bias_ok c0" for c0
    using assms(1) that by (induction samples arbitrary: c0) (simp_all add: bias_ok_update)
  moreover have "bias_ok initial_imu_calibration_status"
    by (simp add: bias_ok_def initial_imu_calibration_status_def decode_signed_i16_def)
  ultimately have "bias_ok c" by (simp add: assms(2))
  then show ?thesis
    by (simp add: bias_ok_def calibrated_bias_frozen imu_gyro_bias_calibrated_def gyro_bias_required_def)
qed

text \<open>Tilt window: with a healthy IMU the tilt stop sees a stored magnitude exactly when it is at
  least the threshold and below 32768; a larger one, up to the saturated 65535 that a robot lying on
  its side reports, reads as no tilt at all.\<close>

theorem tilt_seen_below_wrap:
  assumes "imu_ok pf s" and "0 < sint (pf_imu_tilt_stop_mrad pf)" and "uint (iu_tilt_magnitude (st_imu s)) < 65536"
  shows "tilt_sensed pf s \<longleftrightarrow> sint (pf_imu_tilt_stop_mrad pf) \<le> uint (iu_tilt_magnitude (st_imu s)) \<and>
    uint (iu_tilt_magnitude (st_imu s)) < 32768"
proof -
  have "uint (ucast (iu_tilt_magnitude (st_imu s)) :: u16) = uint (iu_tilt_magnitude (st_imu s))"
    using assms(3) by (simp add: unsigned_ucast_eq take_bit_int_eq_self)
  then show ?thesis
    using assms(1) tilt_exceeds_iff [OF assms(2)] by (simp add: tilt_sensed_def)
qed

theorem gyro_bias_bounded_witness:
  "\<bar>sint (decode_signed_i16 (ic_bias_x (fold update_stationary_gyro_bias
     (replicate 50 (stationary_sample 7)) initial_imu_calibration_status)))\<bar> \<le> 80"
  using gyro_bias_bounded [of "replicate 50 (stationary_sample 7)", OF _ refl]
  by (simp add: stationary_sample_def)

text \<open>A robot calibrated upright that comes to lie on its side: gravity is at right angles to the
  reference, so the quotient that approximates the tilt saturates.\<close>

definition upright_calibration :: imu_gravity_calibration where
  "upright_calibration = \<lparr>cal_reference = \<lparr>vec_x = 0, vec_y = 0, vec_z = 9807\<rparr>, cal_magnitude = 9807\<rparr>"

definition sideways_sample :: imu_sample where
  "sideways_sample = (stationary_sample 40)\<lparr>im_accel_x := 9807, im_accel_z := 0\<rparr>"

lemma sideways_tilt: "snd (snd (calibrated_tilt sideways_sample upright_calibration)) = 65535"
proof -
  have sat: "sat_i32 0 = 0" "sat_i32 96177249 = 96177249" "abs_i32 0 = 0" "sat_i32 (- 96177249) = - 96177249"
    by (simp_all add: sat_i32_def abs_i32_def)
  have s: "sint (im_accel_x sideways_sample) = 9807" "sint (im_accel_y sideways_sample) = 0"
    "sint (im_accel_z sideways_sample) = 0" "sint (9807 :: i16) = 9807"
    by (simp_all add: sideways_sample_def stationary_sample_def)
  show ?thesis
    unfolding calibrated_tilt_def upright_calibration_def Let_def gravity_vector_def snd_conv
      imu_vector.simps imu_gravity_calibration.simps s
    by (simp add: sat sideways_magnitude)
qed

theorem tilt_seen_below_wrap_witness:
  "(\<lambda>s. imu_ok example_platform s \<and> \<not> tilt_sensed example_platform s)
     (initial_status\<lparr>st_imu := (st_imu initial_status)\<lparr>iu_health := imu_health_code HOk,
     iu_tilt_magnitude := ucast (snd (snd (calibrated_tilt sideways_sample upright_calibration)))\<rparr>\<rparr>)"
  using tilt_seen_below_wrap [of example_platform "initial_status\<lparr>st_imu := (st_imu initial_status)\<lparr>
      iu_health := imu_health_code HOk,
      iu_tilt_magnitude := ucast (snd (snd (calibrated_tilt sideways_sample upright_calibration)))\<rparr>\<rparr>"]
  unfolding sideways_tilt by (simp add: imu_ok_def example_platform_def)

end
