(* ===== verification/Create_Uart.thy ===== *)
theory Create_Uart
  imports Hardware Sensor_Packets Telemetry
begin

text \<open>
  The Create serial driver \<open>drivers/create_uart.rs\<close>: command frames, the stream parser and the
  promotion of a checked frame to a sensor sample. Its state, the hardware, the shared status
  and the event queue form the record \<open>link\<close>, on which every driver operation works.
\<close>

section \<open>The link\<close>

datatype stream_state = StreamHeader | StreamLength | StreamPacketId | StreamData | StreamChecksum

record create_uart =
  cu_pending :: "u8 option"
  cu_bytes :: "u8 list"
  cu_state :: stream_state
  cu_sum :: u8
  cu_invalid_reported :: bool

definition new_create_uart :: create_uart where
  "new_create_uart = \<lparr>cu_pending = None, cu_bytes = [], cu_state = StreamHeader, cu_sum = 0,
     cu_invalid_reported = False\<rparr>"

record link =
  ln_platform :: platform
  ln_hw :: hardware
  ln_status :: status
  ln_uart :: create_uart
  ln_events :: "brainstem_event list"

definition event_queue_capacity :: nat where
  "event_queue_capacity = 16"

definition on_status :: "(status \<Rightarrow> status) \<Rightarrow> link \<Rightarrow> link" where
  "on_status f l = l\<lparr>ln_status := f (ln_status l)\<rparr>"

definition on_uart :: "(create_uart \<Rightarrow> create_uart) \<Rightarrow> link \<Rightarrow> link" where
  "on_uart f l = l\<lparr>ln_uart := f (ln_uart l)\<rparr>"

definition on_hw :: "(hardware \<Rightarrow> hardware) \<Rightarrow> link \<Rightarrow> link" where
  "on_hw f l = l\<lparr>ln_hw := f (ln_hw l)\<rparr>"

text \<open>\<open>status::signal_event(&event); let _ = events.push_back(event);\<close>\<close>

definition publish :: "brainstem_event \<Rightarrow> link \<Rightarrow> link" where
  "publish event l =
     l\<lparr>ln_status := signal_event event (ln_status l),
       ln_events := push_back event_queue_capacity (ln_events l) event\<rparr>"

lemma on_simps [simp]:
  "ln_status (on_status f l) = f (ln_status l)" "ln_hw (on_status f l) = ln_hw l"
  "ln_uart (on_status f l) = ln_uart l" "ln_events (on_status f l) = ln_events l"
  "ln_platform (on_status f l) = ln_platform l"
  "ln_uart (on_uart g l) = g (ln_uart l)" "ln_hw (on_uart g l) = ln_hw l"
  "ln_status (on_uart g l) = ln_status l" "ln_events (on_uart g l) = ln_events l"
  "ln_platform (on_uart g l) = ln_platform l"
  "ln_hw (on_hw h l) = h (ln_hw l)" "ln_uart (on_hw h l) = ln_uart l"
  "ln_status (on_hw h l) = ln_status l" "ln_events (on_hw h l) = ln_events l"
  "ln_platform (on_hw h l) = ln_platform l"
  by (simp_all add: on_status_def on_uart_def on_hw_def)

lemma publish_simps [simp]:
  "ln_status (publish e l) = signal_event e (ln_status l)" "ln_hw (publish e l) = ln_hw l"
  "ln_uart (publish e l) = ln_uart l" "ln_platform (publish e l) = ln_platform l"
  "ln_events (publish e l) = push_back event_queue_capacity (ln_events l) e"
  by (simp_all add: publish_def)

section \<open>Sending\<close>

type_synonym link_outcome = "(link, brainstem_error) outcome"

fun write_all :: "u8 list \<Rightarrow> link \<Rightarrow> link_outcome" where
  "write_all [] l = ok l"
| "write_all (b # bs) l =
     (case write_byte b (ln_hw l) of
        (h, good) \<Rightarrow>
          if \<not> good then fail UartFraming (l\<lparr>ln_hw := h\<rparr>)
          else (case hw_now_ms h of
                  (h, t) \<Rightarrow> write_all bs
                    (l\<lparr>ln_hw := h, ln_status := mark_uart_tx_byte b t (ln_status l)\<rparr>)))"

definition flush_link :: "link \<Rightarrow> link_outcome" where
  "flush_link l =
     (case flush_uart (ln_hw l) of
        (h, good) \<Rightarrow> if good then ok (l\<lparr>ln_hw := h\<rparr>) else fail UartFraming (l\<lparr>ln_hw := h\<rparr>))"

definition send_bytes :: "u8 list \<Rightarrow> link \<Rightarrow> link_outcome" where
  "send_bytes bytes l = and_then (write_all bytes l) flush_link"

definition send_byte :: "u8 \<Rightarrow> link \<Rightarrow> link_outcome" where
  "send_byte b l = send_bytes [b] l"

section \<open>Command frames\<close>

abbreviation OI_START :: u8 where "OI_START \<equiv> 128"
abbreviation OI_SAFE :: u8 where "OI_SAFE \<equiv> 131"
abbreviation OI_FULL :: u8 where "OI_FULL \<equiv> 132"
abbreviation OI_DRIVE :: u8 where "OI_DRIVE \<equiv> 137"
abbreviation OI_LEDS :: u8 where "OI_LEDS \<equiv> 139"
abbreviation OI_DEFINE_SONG :: u8 where "OI_DEFINE_SONG \<equiv> 140"
abbreviation OI_PLAY_SONG :: u8 where "OI_PLAY_SONG \<equiv> 141"
abbreviation OI_SEEK_DOCK :: u8 where "OI_SEEK_DOCK \<equiv> 143"
abbreviation OI_DRIVE_DIRECT :: u8 where "OI_DRIVE_DIRECT \<equiv> 145"
abbreviation OI_STREAM :: u8 where "OI_STREAM \<equiv> 148"
abbreviation OI_PAUSE_RESUME_STREAM :: u8 where "OI_PAUSE_RESUME_STREAM \<equiv> 150"
abbreviation OI_STREAM_HEADER :: u8 where "OI_STREAM_HEADER \<equiv> 19"

definition discard_pending_response :: "create_uart \<Rightarrow> create_uart" where
  "discard_pending_response u = u\<lparr>cu_pending := None, cu_bytes := []\<rparr>"

definition reset_stream_parser :: "create_uart \<Rightarrow> create_uart" where
  "reset_stream_parser u = u\<lparr>cu_state := StreamHeader, cu_sum := 0, cu_bytes := []\<rparr>"

definition request_sensor_packet :: "u8 \<Rightarrow> link \<Rightarrow> link_outcome" where
  "request_sensor_packet packet_id l =
     (if sensor_packet_length packet_id = None then fail InvalidPacket l
      else
        (let l = on_uart (\<lambda>u. reset_stream_parser (u\<lparr>cu_bytes := [], cu_pending := Some packet_id\<rparr>)) l;
             sent = send_bytes [OI_STREAM, 1, packet_id] l in
         case snd sent of
           None \<Rightarrow> sent
         | Some error \<Rightarrow> fail error (on_uart discard_pending_response (fst sent))))"

definition flush_rx :: "link \<Rightarrow> link" where
  "flush_rx l = on_uart (\<lambda>u. reset_stream_parser (discard_pending_response u)) (on_hw drain_uart_rx l)"

definition start_mode_stream :: "link \<Rightarrow> link_outcome" where
  "start_mode_stream l = request_sensor_packet 35 l"

definition uart_start_oi :: "link \<Rightarrow> link_outcome" where
  "uart_start_oi l = send_byte OI_START (publish EvCreateOiStartRequested l)"

definition uart_set_mode :: "create_oi_mode \<Rightarrow> link \<Rightarrow> link_outcome" where
  "uart_set_mode mode l =
     (let l = publish (EvCreateOiModeRequested mode) l in
      case mode of
        Passive \<Rightarrow> ok l
      | Safe \<Rightarrow> send_byte OI_SAFE l
      | Full \<Rightarrow> send_byte OI_FULL l)"

definition refresh_full_mode :: "link \<Rightarrow> link_outcome" where
  "refresh_full_mode l = send_byte OI_FULL l"

definition drive_direct :: "i16 \<Rightarrow> i16 \<Rightarrow> u32 \<Rightarrow> link \<Rightarrow> link_outcome" where
  "drive_direct left right duration l =
     send_bytes (OI_DRIVE_DIRECT # to_be right @ to_be left)
       (publish (EvDriveRequested left right duration) l)"

definition uart_drive :: "i16 \<Rightarrow> i16 \<Rightarrow> link \<Rightarrow> link_outcome" where
  "uart_drive velocity radius l = send_bytes (OI_DRIVE # to_be velocity @ to_be radius) l"

definition drive_arc :: "i16 \<Rightarrow> i16 \<Rightarrow> link \<Rightarrow> link_outcome" where
  "drive_arc velocity radius l = uart_drive velocity radius (publish (EvDriveRequested velocity radius 0) l)"

definition uart_stop :: "link \<Rightarrow> link_outcome" where
  "uart_stop l = and_then (uart_drive 0 0 l) (\<lambda>l. ok (publish EvDriveStopped l))"

definition play_song :: "u8 \<Rightarrow> link \<Rightarrow> link_outcome" where
  "play_song sid l =
     (let sid = min sid 15 in
      and_then (send_bytes [OI_PLAY_SONG, sid] l) (\<lambda>l. ok (on_status (mark_song_played sid) l)))"

definition song_bytes :: "u8 \<Rightarrow> tones \<Rightarrow> u8 \<Rightarrow> u8 list" where
  "song_bytes sid tones tone_count =
     [OI_DEFINE_SONG, sid, tone_count] @
     concat (map (\<lambda>t. [clamp_word 31 127 (tone_note t), max (duration_64ths t) 1])
       (take (unat tone_count) tones))"

definition define_song :: "u8 \<Rightarrow> tones \<Rightarrow> u8 \<Rightarrow> link \<Rightarrow> link_outcome" where
  "define_song sid tones tone_count l =
     (let sid = min sid 15; tone_count = min tone_count 16 in
      if tone_count = 0 then ok l
      else and_then (send_bytes (song_bytes sid tones tone_count) l)
             (\<lambda>l. ok (on_status (mark_song_defined sid tone_count) l)))"

definition seek_dock :: "link \<Rightarrow> link_outcome" where
  "seek_dock l = send_byte OI_SEEK_DOCK l"

definition uart_set_lights :: "u8 \<Rightarrow> u8 \<Rightarrow> u8 \<Rightarrow> link \<Rightarrow> link_outcome" where
  "uart_set_lights led_bits color intensity l =
     send_bytes [OI_LEDS, led_bits AND 0x0F, color, intensity] l"

definition set_supervision_lights :: "u8 \<Rightarrow> u8 \<Rightarrow> u8 \<Rightarrow> link \<Rightarrow> link_outcome" where
  "set_supervision_lights led_bits color intensity l =
     send_bytes [OI_LEDS, led_bits AND 0x0A, color, intensity] l"

section \<open>Receiving\<close>

definition push_packet :: "link \<Rightarrow> link" where
  "push_packet l =
     (let u = ln_uart l in
      if cu_bytes u = [] then l
      else
        (let packet_id = (case cu_pending u of None \<Rightarrow> 0 | Some p \<Rightarrow> p);
             raw = cu_bytes u;
             l = on_uart (\<lambda>u. u\<lparr>cu_pending := None, cu_bytes := []\<rparr>) l in
         case decode_sensor_packet packet_id raw of
           Some sensors \<Rightarrow>
             (let l = on_uart (\<lambda>u. u\<lparr>cu_invalid_reported := False\<rparr>) l;
                  l = on_status (mark_uart_packet (length raw)) l;
                  l = on_status (mark_create_sensor_packet (ln_platform l) packet_id sensors) l;
                  l = publish (EvCreateSensorPacketDecoded packet_id sensors) l
              in publish (EvCreatePacketReceived packet_id raw) l)
         | None \<Rightarrow>
             if sensor_packet_is_decoded packet_id then
               (let l = on_status mark_uart_rx_error l in
                if cu_invalid_reported (ln_uart l) then l
                else on_uart (\<lambda>u. u\<lparr>cu_invalid_reported := True\<rparr>) (publish (EvError InvalidPacket) l))
             else publish (EvCreatePacketReceived packet_id raw) l))"

definition restart_stream_from :: "u8 \<Rightarrow> create_uart \<Rightarrow> create_uart" where
  "restart_stream_from b u =
     (if b = OI_STREAM_HEADER then u\<lparr>cu_bytes := [], cu_sum := b, cu_state := StreamLength\<rparr>
      else u\<lparr>cu_bytes := [], cu_sum := 0, cu_state := StreamHeader\<rparr>)"

text \<open>The parser step on the driver's own state; \<open>True\<close> when the byte completes a frame whose
  sum is zero.\<close>

definition stream_step :: "u8 \<Rightarrow> nat \<Rightarrow> u8 \<Rightarrow> create_uart \<Rightarrow> create_uart \<times> bool" where
  "stream_step packet_id expected b u =
     (case cu_state u of
        StreamHeader \<Rightarrow>
          (if b = OI_STREAM_HEADER then u\<lparr>cu_sum := b, cu_state := StreamLength\<rparr> else u, False)
      | StreamLength \<Rightarrow>
          (if unat b = expected + 1 then u\<lparr>cu_sum := cu_sum u + b, cu_state := StreamPacketId\<rparr>
           else restart_stream_from b u, False)
      | StreamPacketId \<Rightarrow>
          (if b = packet_id then u\<lparr>cu_sum := cu_sum u + b, cu_bytes := [], cu_state := StreamData\<rparr>
           else restart_stream_from b u, False)
      | StreamData \<Rightarrow>
          (let u = u\<lparr>cu_sum := cu_sum u + b\<rparr> in
           if length (cu_bytes u) \<ge> 32 then (restart_stream_from b u, False)
           else
             (let u = u\<lparr>cu_bytes := cu_bytes u @ [b]\<rparr> in
              (if length (cu_bytes u) = expected then u\<lparr>cu_state := StreamChecksum\<rparr> else u, False)))
      | StreamChecksum \<Rightarrow>
          (if cu_sum u + b = 0 then (u, True) else (restart_stream_from b u, False)))"

definition process_stream_byte :: "u8 \<Rightarrow> link \<Rightarrow> link" where
  "process_stream_byte b l =
     (case cu_pending (ln_uart l) of
        None \<Rightarrow> l
      | Some packet_id \<Rightarrow>
          (case sensor_packet_length packet_id of
             None \<Rightarrow> on_uart discard_pending_response l
           | Some expected \<Rightarrow>
               (let stepped = stream_step packet_id expected b (ln_uart l);
                    l = l\<lparr>ln_uart := fst stepped\<rparr>
                in if snd stepped
                   then on_uart reset_stream_parser
                          (push_packet (fst (send_bytes [OI_PAUSE_RESUME_STREAM, 0] l)))
                   else l)))"

definition uart_drain_limit :: nat where
  "uart_drain_limit = 128"

text \<open>The loop of \<open>poll\<close>; the counter is what is left of the drain limit.\<close>

fun poll_loop :: "nat \<Rightarrow> link \<Rightarrow> link" where
  "poll_loop 0 l = l"
| "poll_loop (Suc n) l =
     (case read_byte (ln_hw l) of
        (h, RxWouldBlock) \<Rightarrow> l\<lparr>ln_hw := h\<rparr>
      | (h, RxByte b) \<Rightarrow>
          (case hw_now_ms h of
             (h, t) \<Rightarrow>
               (let l = l\<lparr>ln_hw := h, ln_status := mark_uart_rx_byte b t (ln_status l)\<rparr>;
                    l = (if cu_pending (ln_uart l) \<noteq> None then process_stream_byte b l else l)
                in poll_loop n l))
      | (h, RxError UOverrun) \<Rightarrow>
          poll_loop n (on_uart reset_stream_parser
            (l\<lparr>ln_hw := h, ln_status := mark_uart_rx_error_detail UOverrun (ln_status l)\<rparr>))
      | (h, RxError e) \<Rightarrow>
          on_uart reset_stream_parser
            (l\<lparr>ln_hw := h, ln_status := mark_uart_rx_error_detail e (ln_status l)\<rparr>))"

definition uart_poll :: "link \<Rightarrow> link" where
  "uart_poll l = poll_loop uart_drain_limit l"

section \<open>What is transmitted\<close>

text \<open>
  The bytes an operation appends to the line are a sequence of prefixes of frames of some class.
  A write that fails in the middle leaves a proper prefix behind.
\<close>

definition frame_prefix :: "(u8 list \<Rightarrow> bool) \<Rightarrow> u8 list \<Rightarrow> bool" where
  "frame_prefix P f \<longleftrightarrow> (\<exists>g n. P g \<and> f = take n g)"

definition emits :: "(u8 list \<Rightarrow> bool) \<Rightarrow> link \<Rightarrow> link \<Rightarrow> bool" where
  "emits P l l' \<longleftrightarrow>
     (\<exists>fs. hw_tx (ln_hw l') = hw_tx (ln_hw l) @ concat fs \<and> list_all (frame_prefix P) fs)"

interpretation tx: transition "emits P" for P
proof
  show "emits P l l" for l unfolding emits_def by (rule exI [of _ "[]"]) simp
  show "emits P l l' \<Longrightarrow> emits P l' l'' \<Longrightarrow> emits P l l''" for l l' l''
  proof -
    assume "emits P l l'" "emits P l' l''"
    then obtain fs gs where "hw_tx (ln_hw l') = hw_tx (ln_hw l) @ concat fs" "list_all (frame_prefix P) fs"
      and "hw_tx (ln_hw l'') = hw_tx (ln_hw l') @ concat gs" "list_all (frame_prefix P) gs"
      by (auto simp: emits_def)
    then show "emits P l l''" unfolding emits_def by (intro exI [of _ "fs @ gs"]) simp
  qed
qed

lemma emits_same_tx: "hw_tx (ln_hw l') = hw_tx (ln_hw l) \<Longrightarrow> emits P l l'"
  unfolding emits_def by (rule exI [of _ "[]"]) simp

lemma emits_mono: "emits P l l' \<Longrightarrow> (\<And>f. P f \<Longrightarrow> Q f) \<Longrightarrow> emits Q l l'"
  unfolding emits_def frame_prefix_def list_all_iff by blast

lemma write_byte_tx: "hw_tx (fst (write_byte b h)) = (if snd (write_byte b h) then hw_tx h @ [b] else hw_tx h)"
  by (simp add: write_byte_def Let_def)

lemma hw_now_ms_frame [simp]:
  "hw_tx (fst (hw_now_ms h)) = hw_tx h" "hw_rx (fst (hw_now_ms h)) = hw_rx h"
  "hw_power_toggle (fst (hw_now_ms h)) = hw_power_toggle h"
  "hw_motherbrain_reset (fst (hw_now_ms h)) = hw_motherbrain_reset h"
  "hw_clock_us (fst (hw_now_ms h)) = hw_clock_us h"
  by (simp_all add: hw_now_ms_def now_us_def)

text \<open>A transmission appends a prefix of the frame, all of it when it succeeds.\<close>

lemma write_all_tx:
  "\<exists>n. hw_tx (ln_hw (fst (write_all bs l))) = hw_tx (ln_hw l) @ take n bs \<and>
     (snd (write_all bs l) = None \<longrightarrow> n = length bs)"
proof (induction bs arbitrary: l)
  case Nil
  show ?case by simp
next
  case (Cons b bs)
  obtain h good where w: "write_byte b (ln_hw l) = (h, good)" by fastforce
  obtain h' t where c: "hw_now_ms h = (h', t)" by fastforce
  have tx: "hw_tx h = (if good then hw_tx (ln_hw l) @ [b] else hw_tx (ln_hw l))"
    using write_byte_tx [of b "ln_hw l"] by (simp add: w)
  have tx': "hw_tx h' = hw_tx h" using hw_now_ms_frame(1) [of h] by (simp add: c)
  show ?case
  proof (cases good)
    case False
    with tx show ?thesis by (intro exI [of _ 0]) (simp add: w)
  next
    case True
    let ?l = "l\<lparr>ln_hw := h', ln_status := mark_uart_tx_byte b t (ln_status l)\<rparr>"
    from Cons.IH [of ?l] obtain n where "hw_tx (ln_hw (fst (write_all bs ?l))) = hw_tx (ln_hw ?l) @ take n bs"
      and "snd (write_all bs ?l) = None \<longrightarrow> n = length bs"
      by (elim exE conjE)
    moreover have "write_all (b # bs) l = write_all bs ?l" using True by (simp add: w c)
    ultimately show ?thesis using True tx tx' by (intro exI [of _ "Suc n"]) simp
  qed
qed

lemma flush_link_tx [simp]: "hw_tx (ln_hw (fst (flush_link l))) = hw_tx (ln_hw l)"
  by (simp add: flush_link_def flush_uart_def)

lemma send_bytes_tx:
  "\<exists>n. hw_tx (ln_hw (fst (send_bytes bs l))) = hw_tx (ln_hw l) @ take n bs \<and>
     (snd (send_bytes bs l) = None \<longrightarrow> n = length bs)"
  using write_all_tx [of bs l]
  by (auto simp: send_bytes_def and_then_def split: option.splits)

lemma send_bytes_emits: "P bs \<Longrightarrow> emits P l (fst (send_bytes bs l))"
proof -
  assume "P bs"
  obtain n where "hw_tx (ln_hw (fst (send_bytes bs l))) = hw_tx (ln_hw l) @ take n bs"
    using send_bytes_tx by blast
  with \<open>P bs\<close> show ?thesis
    unfolding emits_def frame_prefix_def by (intro exI [of _ "[take n bs]"]) auto
qed

lemma send_bytes_ok_tx:
  "snd (send_bytes bs l) = None \<Longrightarrow> hw_tx (ln_hw (fst (send_bytes bs l))) = hw_tx (ln_hw l) @ bs"
  using send_bytes_tx [of bs l] by auto

text \<open>Only the counters of the status change while sending.\<close>

lemma write_all_frame [simp]:
  "ln_uart (fst (write_all bs l)) = ln_uart l" "ln_events (fst (write_all bs l)) = ln_events l"
  "ln_platform (fst (write_all bs l)) = ln_platform l"
  "hw_rx (ln_hw (fst (write_all bs l))) = hw_rx (ln_hw l)"
  "hw_power_toggle (ln_hw (fst (write_all bs l))) = hw_power_toggle (ln_hw l)"
  "hw_motherbrain_reset (ln_hw (fst (write_all bs l))) = hw_motherbrain_reset (ln_hw l)"
  by (induction bs arbitrary: l)
    (simp_all add: write_byte_def hw_now_ms_def now_us_def Let_def)

lemma write_all_status:
  "ln_status (fst (write_all bs l)) = (ln_status l)\<lparr>st_uart := st_uart (ln_status (fst (write_all bs l)))\<rparr>"
proof (induction bs arbitrary: l)
  case Nil
  show ?case by simp
next
  case (Cons b bs)
  obtain h good where w: "write_byte b (ln_hw l) = (h, good)" by fastforce
  obtain h' t where c: "hw_now_ms h = (h', t)" by fastforce
  let ?l = "l\<lparr>ln_hw := h', ln_status := mark_uart_tx_byte b t (ln_status l)\<rparr>"
  show ?case
  proof (cases good)
    case False
    then show ?thesis by (simp add: w)
  next
    case True
    then have "fst (write_all (b # bs) l) = fst (write_all bs ?l)" by (simp add: w c)
    then show ?thesis
      using arg_cong [OF Cons.IH [of ?l], of "\<lambda>s. s"] by (simp add: mark_uart_tx_byte_def)
  qed
qed

lemma send_bytes_frame [simp]:
  "ln_uart (fst (send_bytes bs l)) = ln_uart l" "ln_events (fst (send_bytes bs l)) = ln_events l"
  "ln_platform (fst (send_bytes bs l)) = ln_platform l"
  "hw_rx (ln_hw (fst (send_bytes bs l))) = hw_rx (ln_hw l)"
  "hw_power_toggle (ln_hw (fst (send_bytes bs l))) = hw_power_toggle (ln_hw l)"
  "hw_motherbrain_reset (ln_hw (fst (send_bytes bs l))) = hw_motherbrain_reset (ln_hw l)"
  by (simp_all add: send_bytes_def and_then_def flush_link_def flush_uart_def split: option.splits)

lemma send_bytes_status: "\<exists>u. ln_status (fst (send_bytes bs l)) = (ln_status l)\<lparr>st_uart := u\<rparr>"
proof -
  have "ln_status (fst (send_bytes bs l)) = ln_status (fst (write_all bs l))"
    by (simp add: send_bytes_def and_then_def flush_link_def flush_uart_def split: option.splits)
  then show ?thesis using write_all_status [of bs l] by (intro exI) simp
qed

lemma send_bytes_domains [simp]:
  "st_log (ln_status (fst (send_bytes bs l))) = st_log (ln_status l)"
  "st_cmd (ln_status (fst (send_bytes bs l))) = st_cmd (ln_status l)"
  "st_mail (ln_status (fst (send_bytes bs l))) = st_mail (ln_status l)"
  "st_session (ln_status (fst (send_bytes bs l))) = st_session (ln_status l)"
  "st_auth (ln_status (fst (send_bytes bs l))) = st_auth (ln_status l)"
  "st_safety (ln_status (fst (send_bytes bs l))) = st_safety (ln_status l)"
  "st_sensor (ln_status (fst (send_bytes bs l))) = st_sensor (ln_status l)"
  "st_audio (ln_status (fst (send_bytes bs l))) = st_audio (ln_status l)"
  "st_odo (ln_status (fst (send_bytes bs l))) = st_odo (ln_status l)"
  "st_imu (ln_status (fst (send_bytes bs l))) = st_imu (ln_status l)"
  "st_cal (ln_status (fst (send_bytes bs l))) = st_cal (ln_status l)"
  "st_run (ln_status (fst (send_bytes bs l))) = st_run (ln_status l)"
  using send_bytes_status [of bs l] by auto

section \<open>Motion frames\<close>

text \<open>
  The frames that can move the robot: a drive with a non-zero velocity or radius, a direct
  drive, and seek-dock. Everything else, the stop frame included, is quiet.
\<close>

definition stop_frame :: "u8 list" where
  "stop_frame = [OI_DRIVE, 0, 0, 0, 0]"

definition quiet_frame :: "u8 list \<Rightarrow> bool" where
  "quiet_frame f \<longleftrightarrow> f = stop_frame \<or> f \<noteq> [] \<and> hd f \<notin> {OI_DRIVE, OI_DRIVE_DIRECT, OI_SEEK_DOCK}"

abbreviation quiet :: "link \<Rightarrow> link \<Rightarrow> bool" where
  "quiet \<equiv> emits quiet_frame"

lemma quiet_refl [simp]: "quiet l l"
  by (rule tx.refl)

lemma quiet_local [simp]:
  "quiet l (on_status f l') = quiet l l'" "quiet l (on_uart g l') = quiet l l'"
  "quiet l (publish e l') = quiet l l'" "quiet (publish e l) l' = quiet l l'"
  "quiet (on_status f l) l' = quiet l l'" "quiet (on_uart g l) l' = quiet l l'"
  by (simp_all add: emits_def)

lemma to_be_zero [simp]: "to_be 0 = [0, 0]"
  by (simp add: to_be_def)

lemma quiet_send: "quiet_frame bs \<Longrightarrow> quiet l (fst (send_bytes bs l))"
  by (rule send_bytes_emits)

lemma quiet_driver_ops [simp]:
  "quiet l (fst (request_sensor_packet p l))" "quiet l (fst (uart_start_oi l))"
  "quiet l (fst (uart_set_mode m l))" "quiet l (fst (refresh_full_mode l))"
  "quiet l (fst (uart_stop l))" "quiet l (fst (play_song sid l))"
  "quiet l (fst (define_song sid ts n l))" "quiet l (fst (uart_set_lights b c i l))"
  "quiet l (fst (set_supervision_lights b c i l))" "quiet l (flush_rx l)"
proof -
  have q: "quiet_frame f \<Longrightarrow> quiet l (fst (send_bytes f (on_uart g l)))" for f g
    using quiet_send [of f "on_uart g l"] by simp
  have q': "quiet_frame f \<Longrightarrow> quiet l (fst (send_bytes f (publish e l)))" for f e
    using quiet_send [of f "publish e l"] by simp
  note qf = quiet_frame_def stop_frame_def
  show "quiet l (fst (request_sensor_packet p l))"
    using q [of "[OI_STREAM, 1, p]"]
    by (simp add: request_sensor_packet_def Let_def qf split: option.split)
  show "quiet l (fst (uart_start_oi l))"
    by (simp add: uart_start_oi_def send_byte_def q' qf)
  show "quiet l (fst (uart_set_mode m l))"
    by (cases m) (simp_all add: uart_set_mode_def send_byte_def q' qf)
  show "quiet l (fst (refresh_full_mode l))"
    by (simp add: refresh_full_mode_def send_byte_def quiet_send qf)
  show "quiet l (fst (uart_stop l))"
    by (simp add: uart_stop_def uart_drive_def fst_and_then quiet_send qf)
  show "quiet l (fst (play_song sid l))"
    by (simp add: play_song_def fst_and_then quiet_send qf Let_def)
  show "quiet l (fst (define_song sid ts n l))"
    by (simp add: define_song_def song_bytes_def fst_and_then quiet_send qf Let_def)
  show "quiet l (fst (uart_set_lights b c i l))"
    by (simp add: uart_set_lights_def quiet_send qf)
  show "quiet l (fst (set_supervision_lights b c i l))"
    by (simp add: set_supervision_lights_def quiet_send qf)
  show "quiet l (flush_rx l)"
    by (simp add: flush_rx_def emits_same_tx drain_uart_rx_def)
qed

text \<open>A successful stop ends with the stop frame on the line.\<close>

lemma uart_stop_ok:
  "snd (uart_stop l) = None \<Longrightarrow> hw_tx (ln_hw (fst (uart_stop l))) = hw_tx (ln_hw l) @ stop_frame"
  using send_bytes_ok_tx [of stop_frame l]
  by (simp add: uart_stop_def uart_drive_def stop_frame_def fst_and_then snd_and_then_None_iff)

section \<open>Properties\<close>

text \<open>Sending: whatever is sent, the line receives a prefix of it, and all of it when the send
  reports success; a stop that reports success has put the zero-velocity drive frame on the line.\<close>

theorem sends_transmit_a_prefix:
  "(\<exists>n. hw_tx (ln_hw (fst (send_bytes bs l))) = hw_tx (ln_hw l) @ take n bs \<and>
      (snd (send_bytes bs l) = None \<longrightarrow> n = length bs)) \<and>
   (snd (uart_stop l) = None \<longrightarrow> hw_tx (ln_hw (fst (uart_stop l))) = hw_tx (ln_hw l) @ [OI_DRIVE, 0, 0, 0, 0])"
  using send_bytes_tx uart_stop_ok by (simp add: stop_frame_def)

end
