(* ===== verification/Stream_Parser.thy ===== *)
theory Stream_Parser
  imports Create_Uart "HOL-Library.Sublist"
begin

text \<open>
  Correctness of the stream parser of \<open>drivers/create_uart.rs\<close>: a frame fed to it in any
  idle state is promoted with its payload; whatever was fed before, a promoted payload has
  the announced length and the frame around it sums to zero; and a poll delivers a complete
  frame to the sensor snapshot.
\<close>

section \<open>Parser invariant\<close>

definition frame_sum :: "u8 \<Rightarrow> nat \<Rightarrow> u8 list \<Rightarrow> u8" where
  "frame_sum p e bytes = OI_STREAM_HEADER + of_nat (e + 1) + p + sum_list bytes"

definition parser_ok :: "u8 \<Rightarrow> nat \<Rightarrow> create_uart \<Rightarrow> bool" where
  "parser_ok p e u \<longleftrightarrow>
     (case cu_state u of
        StreamHeader \<Rightarrow> True
      | StreamLength \<Rightarrow> cu_sum u = OI_STREAM_HEADER
      | StreamPacketId \<Rightarrow> cu_sum u = OI_STREAM_HEADER + of_nat (e + 1)
      | StreamData \<Rightarrow> cu_sum u = frame_sum p e (cu_bytes u) \<and> length (cu_bytes u) < e
      | StreamChecksum \<Rightarrow> cu_sum u = frame_sum p e (cu_bytes u) \<and> length (cu_bytes u) = e)"

lemma byte_of_unat: "unat (b :: u8) = n \<Longrightarrow> b = of_nat n"
  by auto

lemma restart_parser_ok [simp]: "parser_ok p e (restart_stream_from b u)"
  by (simp add: parser_ok_def restart_stream_from_def)

lemma reset_parser_ok [simp]: "parser_ok p e (reset_stream_parser u)"
  by (simp add: parser_ok_def reset_stream_parser_def)

lemma stream_step_ok:
  assumes "parser_ok p e u" and "1 \<le> e" "e \<le> 32"
  shows "parser_ok p e (fst (stream_step p e b u))"
proof (cases "cu_state u")
  case StreamHeader
  then show ?thesis by (simp add: stream_step_def parser_ok_def)
next
  case StreamLength
  show ?thesis
  proof (cases "unat b = e + 1")
    case True
    then have "b = of_nat (e + 1)" by (rule byte_of_unat)
    moreover have "fst (stream_step p e b u) = u\<lparr>cu_sum := cu_sum u + b, cu_state := StreamPacketId\<rparr>"
      using StreamLength True by (simp add: stream_step_def)
    ultimately show ?thesis using assms(1) StreamLength by (simp add: parser_ok_def)
  next
    case False
    with StreamLength show ?thesis by (simp add: stream_step_def)
  qed
next
  case StreamPacketId
  show ?thesis
  proof (cases "b = p")
    case True
    with StreamPacketId assms show ?thesis by (simp add: stream_step_def parser_ok_def frame_sum_def)
  next
    case False
    with StreamPacketId show ?thesis by (simp add: stream_step_def)
  qed
next
  case StreamData
  with assms have "cu_sum u = frame_sum p e (cu_bytes u)" "length (cu_bytes u) < e"
    by (simp_all add: parser_ok_def)
  with StreamData assms(3) show ?thesis
    by (auto simp: stream_step_def parser_ok_def frame_sum_def Let_def)
next
  case StreamChecksum
  with assms(1) show ?thesis by (auto simp: stream_step_def)
qed

text \<open>A completed frame has the right length and a zero sum.\<close>

lemma stream_step_complete:
  assumes "parser_ok p e u" and "snd (stream_step p e b u)"
  shows "fst (stream_step p e b u) = u" and "length (cu_bytes u) = e"
    and "frame_sum p e (cu_bytes u) + b = 0"
  using assms
  by (auto simp: stream_step_def parser_ok_def Let_def split: stream_state.splits if_splits)

lemma stream_step_pending [simp]: "cu_pending (fst (stream_step p e b u)) = cu_pending u"
  by (auto simp: stream_step_def restart_stream_from_def Let_def split: stream_state.splits)

section \<open>Promotion\<close>

text \<open>The parser invariant on the link: vacuous while no answer is awaited.\<close>

definition link_parser_ok :: "link \<Rightarrow> bool" where
  "link_parser_ok l \<longleftrightarrow>
     (case cu_pending (ln_uart l) of
        None \<Rightarrow> True
      | Some p \<Rightarrow> (case sensor_packet_length p of None \<Rightarrow> True | Some e \<Rightarrow> parser_ok p e (ln_uart l)))"

lemma push_packet_uart:
  "cu_bytes (ln_uart l) \<noteq> [] \<Longrightarrow> cu_pending (ln_uart (push_packet l)) = None"
  by (auto simp: push_packet_def Let_def split: option.splits)

lemma process_awaited:
  assumes "cu_pending (ln_uart l) = Some p" and "sensor_packet_length p = Some e"
  shows "\<not> snd (stream_step p e b (ln_uart l)) \<Longrightarrow>
           process_stream_byte b l = l\<lparr>ln_uart := fst (stream_step p e b (ln_uart l))\<rparr>"
    and "snd (stream_step p e b (ln_uart l)) \<Longrightarrow>
           process_stream_byte b l = on_uart reset_stream_parser (push_packet
             (fst (send_bytes [OI_PAUSE_RESUME_STREAM, 0] (l\<lparr>ln_uart := fst (stream_step p e b (ln_uart l))\<rparr>))))"
  using assms by (simp_all add: process_stream_byte_def Let_def)

lemma process_keeps_parser:
  assumes "link_parser_ok l"
  shows "link_parser_ok (process_stream_byte b l)"
proof (cases "cu_pending (ln_uart l)")
  case None
  with assms show ?thesis by (simp add: process_stream_byte_def)
next
  case (Some p)
  show ?thesis
  proof (cases "sensor_packet_length p")
    case None
    with Some show ?thesis
      by (simp add: process_stream_byte_def link_parser_ok_def discard_pending_response_def)
  next
    case e: (Some e)
    have ok: "parser_ok p e (ln_uart l)" using assms Some e by (simp add: link_parser_ok_def)
    have len: "1 \<le> e" "e \<le> 32" using sensor_length_bound [OF e] by simp_all
    show ?thesis
    proof (cases "snd (stream_step p e b (ln_uart l))")
      case False
      with Some e stream_step_ok [OF ok len, of b] show ?thesis
        by (simp add: process_awaited(1) [OF Some e] link_parser_ok_def)
    next
      case True
      then show ?thesis
        by (simp add: process_awaited(2) [OF Some e] link_parser_ok_def split: option.split)
    qed
  qed
qed

text \<open>
  A byte changes the sensor snapshot only by completing a frame for the awaited packet: one
  whose payload has the announced length, decodes, and whose bytes sum to zero.
\<close>

theorem promotion_needs_valid_frame:
  assumes "link_parser_ok l"
    and "st_sensor (ln_status (process_stream_byte b l)) \<noteq> st_sensor (ln_status l)"
  shows "\<exists>p e k. cu_pending (ln_uart l) = Some p \<and> sensor_packet_length p = Some e \<and>
    length (cu_bytes (ln_uart l)) = e \<and> frame_sum p e (cu_bytes (ln_uart l)) + b = 0 \<and>
    decode_sensor_packet p (cu_bytes (ln_uart l)) = Some k"
proof (cases "cu_pending (ln_uart l)")
  case None
  with assms show ?thesis by (simp add: process_stream_byte_def)
next
  case (Some p)
  show ?thesis
  proof (cases "sensor_packet_length p")
    case None
    with Some assms show ?thesis by (simp add: process_stream_byte_def)
  next
    case e: (Some e)
    have ok: "parser_ok p e (ln_uart l)" using assms(1) Some e by (simp add: link_parser_ok_def)
    have complete: "snd (stream_step p e b (ln_uart l))"
      using assms(2) by (rule contrapos_np) (simp add: process_awaited(1) [OF Some e])
    note finished = stream_step_complete [OF ok complete]
    have "decode_sensor_packet p (cu_bytes (ln_uart l)) \<noteq> None"
    proof
      assume "decode_sensor_packet p (cu_bytes (ln_uart l)) = None"
      then have "st_sensor (ln_status (process_stream_byte b l)) = st_sensor (ln_status l)"
        unfolding process_awaited(2) [OF Some e complete] finished(1)
        by (simp add: push_packet_def mark_uart_rx_error_def Let_def Some)
      with assms(2) show False by simp
    qed
    with Some e finished show ?thesis by blast
  qed
qed

section \<open>Only whole frames are promoted\<close>

definition stream_frame :: "u8 \<Rightarrow> u8 list \<Rightarrow> u8 list" where
  "stream_frame p payload =
     [OI_STREAM_HEADER, of_nat (length payload + 1), p] @ payload @ [- frame_sum p (length payload) payload]"

text \<open>What the parser has heard: the bytes so far end in the part of a frame its state claims.\<close>

definition heard :: "u8 \<Rightarrow> nat \<Rightarrow> u8 list \<Rightarrow> create_uart \<Rightarrow> bool" where
  "heard p e bs u \<longleftrightarrow>
     (case cu_state u of
        StreamHeader \<Rightarrow> True
      | StreamLength \<Rightarrow> suffix [OI_STREAM_HEADER] bs
      | StreamPacketId \<Rightarrow> suffix [OI_STREAM_HEADER, of_nat (e + 1)] bs
      | StreamData \<Rightarrow> suffix ([OI_STREAM_HEADER, of_nat (e + 1), p] @ cu_bytes u) bs
      | StreamChecksum \<Rightarrow> suffix ([OI_STREAM_HEADER, of_nat (e + 1), p] @ cu_bytes u) bs)"

lemma suffix_snoc_one: "suffix [x] (bs @ [x])" and suffix_snoc: "suffix xs bs \<Longrightarrow> suffix (xs @ [x]) (bs @ [x])"
  by (auto simp: suffix_def)

lemma heard_restart: "heard p e (bs @ [b]) (restart_stream_from b u)"
  by (simp add: heard_def restart_stream_from_def suffix_snoc_one)

lemma heard_header [simp]: "cu_state u = StreamHeader \<Longrightarrow> heard p e bs u"
  by (simp add: heard_def)

lemma heard_step:
  assumes "heard p e bs u" and "\<not> snd (stream_step p e b u)"
  shows "heard p e (bs @ [b]) (fst (stream_step p e b u))"
proof (cases "cu_state u")
  case StreamHeader
  then show ?thesis by (simp add: stream_step_def heard_def suffix_snoc_one)
next
  case StreamLength
  show ?thesis
  proof (cases "unat b = e + 1")
    case True
    then have b: "b = of_nat (e + 1)" by (rule byte_of_unat)
    have "heard p e (bs @ [b]) (u\<lparr>cu_sum := cu_sum u + b, cu_state := StreamPacketId\<rparr>)"
      using assms(1) StreamLength suffix_snoc [of "[OI_STREAM_HEADER]" bs b]
      unfolding b by (simp add: heard_def)
    with StreamLength True show ?thesis by (simp add: stream_step_def)
  next
    case False
    with StreamLength show ?thesis by (simp add: stream_step_def heard_restart)
  qed
next
  case StreamPacketId
  then show ?thesis
    using assms(1) suffix_snoc [of "[OI_STREAM_HEADER, of_nat (e + 1)]" bs b]
    by (simp add: stream_step_def heard_restart) (simp add: heard_def)
next
  case StreamData
  then show ?thesis
    using assms(1) suffix_snoc [of "[OI_STREAM_HEADER, of_nat (e + 1), p] @ cu_bytes u" bs b]
    by (simp add: stream_step_def heard_restart Let_def) (simp add: heard_def)
next
  case StreamChecksum
  with assms(2) show ?thesis by (simp add: stream_step_def heard_restart split: if_splits)
qed

text \<open>The two invariants along a run of bytes, while the answer is awaited.\<close>

definition hearing :: "u8 \<Rightarrow> nat \<Rightarrow> u8 list \<Rightarrow> link \<Rightarrow> bool" where
  "hearing p e bs l \<longleftrightarrow>
     cu_pending (ln_uart l) = None \<or>
     cu_pending (ln_uart l) = Some p \<and> parser_ok p e (ln_uart l) \<and> heard p e bs (ln_uart l)"

lemma hearing_step:
  assumes "hearing p e bs l" and "sensor_packet_length p = Some e"
  shows "hearing p e (bs @ [b]) (process_stream_byte b l)"
proof (cases "cu_pending (ln_uart l)")
  case None
  then show ?thesis by (simp add: hearing_def process_stream_byte_def)
next
  case (Some q)
  with assms(1) have p: "cu_pending (ln_uart l) = Some p" and inv: "parser_ok p e (ln_uart l)" "heard p e bs (ln_uart l)"
    by (auto simp: hearing_def)
  have len: "1 \<le> e" "e \<le> 32" using sensor_length_bound [OF assms(2)] by simp_all
  show ?thesis
  proof (cases "snd (stream_step p e b (ln_uart l))")
    case False
    then show ?thesis
      using stream_step_ok [OF inv(1) len, of b] heard_step [OF inv(2) False] p
      by (simp add: process_awaited(1) [OF p assms(2)] hearing_def)
  next
    case True
    then have "cu_bytes (ln_uart l) \<noteq> []"
      using stream_step_complete(2) [OF inv(1) True] len by auto
    then show ?thesis
      using True stream_step_complete(1) [OF inv(1) True]
        push_packet_uart [of "fst (send_bytes [OI_PAUSE_RESUME_STREAM, 0] (l\<lparr>ln_uart := ln_uart l\<rparr>))"]
      by (simp add: process_awaited(2) [OF p assms(2)] hearing_def reset_stream_parser_def)
  qed
qed

lemma hearing_run:
  assumes "hearing p e [] l" and "sensor_packet_length p = Some e"
  shows "hearing p e bs (fold process_stream_byte bs l)"
  using assms by (induction bs rule: rev_induct) (simp_all add: hearing_step)

lemma hearing_link_ok:
  "hearing p e bs l \<Longrightarrow> sensor_packet_length p = Some e \<Longrightarrow> link_parser_ok l"
  by (auto simp: hearing_def link_parser_ok_def)

lemma promotion_ends_frame:
  assumes "cu_pending (ln_uart l) = Some p" and "sensor_packet_length p = Some e"
    and "cu_state (ln_uart l) = StreamHeader"
    and "st_sensor (ln_status (process_stream_byte b (fold process_stream_byte bs l)))
      \<noteq> st_sensor (ln_status (fold process_stream_byte bs l))"
  shows "\<exists>payload k. suffix (stream_frame p payload) (bs @ [b]) \<and> decode_sensor_packet p payload = Some k"
proof -
  let ?l = "fold process_stream_byte bs l"
  have h: "hearing p e bs ?l"
    by (rule hearing_run [OF _ assms(2)]) (simp add: hearing_def assms(1,3) parser_ok_def)
  obtain p' e' k where w: "cu_pending (ln_uart ?l) = Some p'" "sensor_packet_length p' = Some e'"
    "length (cu_bytes (ln_uart ?l)) = e'" "frame_sum p' e' (cu_bytes (ln_uart ?l)) + b = 0"
    "decode_sensor_packet p' (cu_bytes (ln_uart ?l)) = Some k"
    using promotion_needs_valid_frame [OF hearing_link_ok [OF h assms(2)] assms(4)] by blast
  have p': "p' = p" "e' = e" using h w(1,2) assms(2) by (auto simp: hearing_def)
  have inv: "heard p e bs (ln_uart ?l)" using h w(1) by (simp add: hearing_def)
  have "snd (stream_step p e b (ln_uart ?l))"
    using assms(4) by (rule contrapos_np) (simp add: process_awaited(1) [OF w(1) w(2)] p')
  then have "cu_state (ln_uart ?l) = StreamChecksum"
    by (auto simp: stream_step_def Let_def split: stream_state.splits if_splits)
  then have "suffix ([OI_STREAM_HEADER, of_nat (e + 1), p] @ cu_bytes (ln_uart ?l)) bs"
    using inv by (simp add: heard_def)
  then have "suffix (([OI_STREAM_HEADER, of_nat (e + 1), p] @ cu_bytes (ln_uart ?l)) @ [b]) (bs @ [b])"
    by (rule suffix_snoc)
  moreover have "b = - frame_sum p e (cu_bytes (ln_uart ?l))"
    using w(4) by (simp add: p' add_eq_0_iff)
  ultimately have "suffix (stream_frame p (cu_bytes (ln_uart ?l))) (bs @ [b])"
    using w(3) by (simp add: stream_frame_def p')
  with w(5) show ?thesis by (auto simp: p')
qed

section \<open>Delivery of a frame\<close>

text \<open>What a poll of bytes preserves while no frame completes.\<close>

definition polled :: "link \<Rightarrow> create_uart \<Rightarrow> serial_read list \<Rightarrow> link \<Rightarrow> bool" where
  "polled l u rx l' \<longleftrightarrow>
     ln_uart l' = u \<and> hw_rx (ln_hw l') = rx \<and> ln_platform l' = ln_platform l \<and>
     st_sensor (ln_status l') = st_sensor (ln_status l) \<and> st_odo (ln_status l') = st_odo (ln_status l)"

lemma poll_one:
  assumes "hw_rx (ln_hw l) = RxByte b # rx" and "cu_pending (ln_uart l) = Some p"
    and "sensor_packet_length p = Some e" and "\<not> snd (stream_step p e b (ln_uart l))"
  obtains l' where "poll_loop (Suc n) l = poll_loop n l'"
    and "polled l (fst (stream_step p e b (ln_uart l))) rx l'"
proof -
  obtain h t where c: "hw_now_ms ((ln_hw l)\<lparr>hw_rx := rx\<rparr>) = (h, t)" by fastforce
  have rx: "hw_rx h = rx" using hw_now_ms_frame(2) [of "(ln_hw l)\<lparr>hw_rx := rx\<rparr>"] by (simp add: c)
  let ?l = "l\<lparr>ln_hw := h, ln_status := mark_uart_rx_byte b t (ln_status l)\<rparr>"
  have "poll_loop (Suc n) l = poll_loop n (process_stream_byte b ?l)"
    using assms(1,2) by (simp add: read_byte_def c)
  moreover have "process_stream_byte b ?l = ?l\<lparr>ln_uart := fst (stream_step p e b (ln_uart l))\<rparr>"
    using assms by (subst process_awaited(1) [of _ p e]) simp_all
  ultimately show thesis
    using that [of "?l\<lparr>ln_uart := fst (stream_step p e b (ln_uart l))\<rparr>"] rx
    by (simp add: polled_def mark_uart_rx_byte_def)
qed

lemma polled_trans: "polled l u rx l' \<Longrightarrow> polled l' u' rx' l'' \<Longrightarrow> polled l u' rx' l''"
  by (simp add: polled_def)

lemma poll_payload:
  assumes "hw_rx (ln_hw l) = map RxByte ys @ rx" and "cu_pending (ln_uart l) = Some p"
    and "sensor_packet_length p = Some e" and "cu_state (ln_uart l) = StreamData"
    and "length (cu_bytes (ln_uart l)) + length ys = e" and "ys \<noteq> []" and "length ys \<le> n"
  shows "\<exists>l'. poll_loop n l = poll_loop (n - length ys) l' \<and>
    polled l ((ln_uart l)\<lparr>cu_sum := cu_sum (ln_uart l) + sum_list ys,
      cu_bytes := cu_bytes (ln_uart l) @ ys, cu_state := StreamChecksum\<rparr>) rx l'"
  using assms
proof (induction ys arbitrary: l n)
  case Nil
  then show ?case by simp
next
  case (Cons y ys)
  have e: "e \<le> 26" using sensor_length_bound [OF Cons.prems(3)] by simp
  obtain m where n: "n = Suc m" using Cons.prems(7) by (cases n) auto
  let ?u = "(ln_uart l)\<lparr>cu_sum := cu_sum (ln_uart l) + y, cu_bytes := cu_bytes (ln_uart l) @ [y]\<rparr>"
  have step: "stream_step p e y (ln_uart l) =
      (if ys = [] then ?u\<lparr>cu_state := StreamChecksum\<rparr> else ?u, False)"
    using Cons.prems(4,5) e by (auto simp: stream_step_def Let_def)
  obtain l' where l': "poll_loop (Suc m) l = poll_loop m l'"
    and p1: "polled l (fst (stream_step p e y (ln_uart l))) (map RxByte ys @ rx) l'"
    using poll_one [of l y "map RxByte ys @ rx" p e m] Cons.prems step by auto
  show ?case
  proof (cases "ys = []")
    case True
    with l' p1 step n show ?thesis by (intro exI [of _ l']) simp
  next
    case False
    have u: "ln_uart l' = ?u" "hw_rx (ln_hw l') = map RxByte ys @ rx"
      using p1 step False by (simp_all add: polled_def)
    have "\<exists>l''. poll_loop m l' = poll_loop (m - length ys) l'' \<and>
      polled l' ((ln_uart l')\<lparr>cu_sum := cu_sum (ln_uart l') + sum_list ys,
        cu_bytes := cu_bytes (ln_uart l') @ ys, cu_state := StreamChecksum\<rparr>) rx l''"
      using Cons.prems False n by (intro Cons.IH) (simp_all add: u)
    then obtain l'' where "poll_loop m l' = poll_loop (m - length ys) l''"
      and "polled l' ((ln_uart l')\<lparr>cu_sum := cu_sum (ln_uart l') + sum_list ys,
        cu_bytes := cu_bytes (ln_uart l') @ ys, cu_state := StreamChecksum\<rparr>) rx l''"
      by blast
    with l' n show ?thesis
      using polled_trans [OF p1] by (intro exI [of _ l'']) (simp add: u add.assoc)
  qed
qed

text \<open>The link when the checksum byte of a frame is next.\<close>

lemma poll_until_checksum:
  assumes "hw_rx (ln_hw l) = map RxByte (stream_frame p payload) @ rx"
    and "cu_pending (ln_uart l) = Some p" and "cu_state (ln_uart l) = StreamHeader"
    and "sensor_packet_length p = Some (length payload)" and "length payload + 4 \<le> n"
  shows "\<exists>l' u. poll_loop n l = poll_loop (n - length payload - 3) l' \<and>
    polled l u (RxByte (- frame_sum p (length payload) payload) # rx) l' \<and>
    cu_pending u = Some p \<and> cu_bytes u = payload \<and> cu_state u = StreamChecksum \<and>
    cu_sum u = frame_sum p (length payload) payload \<and> cu_invalid_reported u = cu_invalid_reported (ln_uart l)"
proof -
  let ?e = "length payload" and ?c = "- frame_sum p (length payload) payload"
  have e: "1 \<le> ?e" "?e \<le> 26" using sensor_length_bound [OF assms(4)] by simp_all
  define m where "m = n - 3"
  then have n: "n = Suc (Suc (Suc m))" and m: "?e + 1 \<le> m"
    using assms(5) by simp_all
  let ?r2 = "map RxByte payload @ RxByte ?c # rx"
  let ?r1 = "RxByte p # ?r2" and ?r0 = "RxByte (of_nat (?e + 1)) # RxByte p # ?r2"
  have rx0: "hw_rx (ln_hw l) = RxByte OI_STREAM_HEADER # ?r0"
    using assms(1) by (simp add: stream_frame_def)
  have s1: "stream_step p ?e OI_STREAM_HEADER (ln_uart l) =
      ((ln_uart l)\<lparr>cu_sum := OI_STREAM_HEADER, cu_state := StreamLength\<rparr>, False)"
    using assms(3) by (simp add: stream_step_def)
  obtain l1 where l1: "poll_loop n l = poll_loop (Suc (Suc m)) l1"
    and p1: "polled l ((ln_uart l)\<lparr>cu_sum := OI_STREAM_HEADER, cu_state := StreamLength\<rparr>) ?r0 l1"
    using poll_one [OF rx0 assms(2,4), of "Suc (Suc m)"] s1 n by auto
  have u1: "ln_uart l1 = (ln_uart l)\<lparr>cu_sum := OI_STREAM_HEADER, cu_state := StreamLength\<rparr>"
    and rx1: "hw_rx (ln_hw l1) = ?r0" using p1 by (simp_all add: polled_def)
  have len: "unat (of_nat (?e + 1) :: u8) = ?e + 1"
    by (subst unat_of_nat) (use e in simp)
  have s2: "stream_step p ?e (of_nat (?e + 1)) (ln_uart l1) =
      ((ln_uart l1)\<lparr>cu_sum := cu_sum (ln_uart l1) + of_nat (?e + 1), cu_state := StreamPacketId\<rparr>, False)"
    unfolding stream_step_def using len by (simp add: u1)
  have pend1: "cu_pending (ln_uart l1) = Some p" using u1 assms(2) by simp
  obtain l2 where l2: "poll_loop (Suc (Suc m)) l1 = poll_loop (Suc m) l2"
    and p2: "polled l1 ((ln_uart l1)\<lparr>cu_sum := cu_sum (ln_uart l1) + of_nat (?e + 1), cu_state := StreamPacketId\<rparr>) ?r1 l2"
    using poll_one [OF rx1 pend1 assms(4), of "Suc m"] s2 by auto
  have u2: "ln_uart l2 = (ln_uart l)\<lparr>cu_sum := OI_STREAM_HEADER + of_nat (?e + 1), cu_state := StreamPacketId\<rparr>"
    and rx2: "hw_rx (ln_hw l2) = ?r1" using p2 by (simp_all add: polled_def u1)
  have s3: "stream_step p ?e p (ln_uart l2) =
      ((ln_uart l2)\<lparr>cu_sum := cu_sum (ln_uart l2) + p, cu_bytes := [], cu_state := StreamData\<rparr>, False)"
    by (simp add: stream_step_def u2)
  have pend2: "cu_pending (ln_uart l2) = Some p" using u2 assms(2) by simp
  obtain l3 where l3: "poll_loop (Suc m) l2 = poll_loop m l3"
    and p3: "polled l2 ((ln_uart l2)\<lparr>cu_sum := cu_sum (ln_uart l2) + p, cu_bytes := [], cu_state := StreamData\<rparr>) ?r2 l3"
    using poll_one [OF rx2 pend2 assms(4), of m] s3 by auto
  have u3: "ln_uart l3 = (ln_uart l)\<lparr>cu_sum := OI_STREAM_HEADER + of_nat (?e + 1) + p, cu_bytes := [], cu_state := StreamData\<rparr>"
    and rx3: "hw_rx (ln_hw l3) = ?r2" using p3 by (simp_all add: polled_def u2)
  have "\<exists>l'. poll_loop m l3 = poll_loop (m - ?e) l' \<and>
    polled l3 ((ln_uart l3)\<lparr>cu_sum := cu_sum (ln_uart l3) + sum_list payload,
      cu_bytes := cu_bytes (ln_uart l3) @ payload, cu_state := StreamChecksum\<rparr>) (RxByte ?c # rx) l'"
    using assms(2,4) e m by (intro poll_payload [of _ _ _ p ?e]) (auto simp: u3 rx3)
  then obtain l4 where l4: "poll_loop m l3 = poll_loop (m - ?e) l4"
    and p4: "polled l3 ((ln_uart l3)\<lparr>cu_sum := cu_sum (ln_uart l3) + sum_list payload,
      cu_bytes := cu_bytes (ln_uart l3) @ payload, cu_state := StreamChecksum\<rparr>) (RxByte ?c # rx) l4"
    by blast
  show ?thesis
  proof (intro exI conjI)
    show "poll_loop n l = poll_loop (n - ?e - 3) l4"
      using l1 l2 l3 l4 n by simp
    show "polled l ((ln_uart l3)\<lparr>cu_sum := cu_sum (ln_uart l3) + sum_list payload,
      cu_bytes := cu_bytes (ln_uart l3) @ payload, cu_state := StreamChecksum\<rparr>) (RxByte ?c # rx) l4"
      using polled_trans [OF polled_trans [OF polled_trans [OF p1 p2] p3] p4] .
  qed (simp_all add: u3 frame_sum_def assms(2))
qed

lemma push_packet_decoded:
  assumes "cu_pending (ln_uart l) = Some p" and "cu_bytes (ln_uart l) = payload" and "payload \<noteq> []"
    and "decode_sensor_packet p payload = Some k"
  shows "sn_flags (st_sensor (ln_status (push_packet l))) =
      merge_create_sensor_flags p (sn_flags (st_sensor (ln_status l))) (create_sensor_flags_bits k)"
  using assms by (simp add: push_packet_def Let_def mark_packet_flags mark_uart_packet_def)

lemma on_uart_status: "ln_status (on_uart f l) = ln_status l"
  by (simp add: on_uart_def)

lemma poll_loop_byte:
  assumes "hw_rx (ln_hw l) = RxByte b # rs"
    and "hw_now_ms ((ln_hw l)\<lparr>hw_rx := rs\<rparr>) = (h, t)"
    and "cu_pending (ln_uart l) = Some p"
  shows "poll_loop (Suc n) l =
    poll_loop n (process_stream_byte b (l\<lparr>ln_hw := h, ln_status := mark_uart_rx_byte b t (ln_status l)\<rparr>))"
  using assms by (simp add: read_byte_def)

lemma poll_loop_idle: "hw_rx (ln_hw l) = [] \<Longrightarrow> poll_loop n l = l"
  by (cases n) (simp_all add: read_byte_def)

text \<open>
  A poll that finds a complete frame for the awaited packet on the line, and nothing after it,
  merges the decoded payload into the snapshot and ends the wait.
\<close>

theorem poll_delivers_frame:
  assumes "hw_rx (ln_hw l) = map RxByte (stream_frame p payload)"
    and "cu_pending (ln_uart l) = Some p" and "cu_state (ln_uart l) = StreamHeader"
    and "decode_sensor_packet p payload = Some k"
  shows "sn_flags (st_sensor (ln_status (uart_poll l))) =
      merge_create_sensor_flags p (sn_flags (st_sensor (ln_status l))) (create_sensor_flags_bits k)"
    and "cu_pending (ln_uart (uart_poll l)) = None"
    and "cu_state (ln_uart (uart_poll l)) = StreamHeader"
    and "hw_rx (ln_hw (uart_poll l)) = []"
proof -
  have e: "sensor_packet_length p = Some (length payload)"
    using decoded_packet_length [OF assms(4)] by simp
  then have len: "1 \<le> length payload" "length payload \<le> 26" using sensor_length_bound by auto
  let ?c = "- frame_sum p (length payload) payload" and ?m = "uart_drain_limit - length payload - 3"
  obtain l' u where poll: "uart_poll l = poll_loop ?m l'"
    and l': "polled l u [RxByte ?c] l'" and u: "cu_pending u = Some p" "cu_bytes u = payload"
      "cu_state u = StreamChecksum" "cu_sum u = frame_sum p (length payload) payload"
    using poll_until_checksum [of l p payload "[]" uart_drain_limit] assms e len
    by (auto simp: uart_poll_def uart_drain_limit_def)
  obtain j where j: "?m = Suc j" using len by (cases ?m) (auto simp: uart_drain_limit_def)
  have uart: "ln_uart l' = u" and rx: "hw_rx (ln_hw l') = [RxByte ?c]"
    and sensor: "st_sensor (ln_status l') = st_sensor (ln_status l)"
    using l' by (simp_all add: polled_def)
  obtain h t where c: "hw_now_ms ((ln_hw l')\<lparr>hw_rx := []\<rparr>) = (h, t)" by fastforce
  have hrx: "hw_rx h = []" using hw_now_ms_frame(2) [of "(ln_hw l')\<lparr>hw_rx := []\<rparr>"] by (simp add: c)
  let ?l = "l'\<lparr>ln_hw := h, ln_status := mark_uart_rx_byte ?c t (ln_status l')\<rparr>"
  let ?sent = "fst (send_bytes [OI_PAUSE_RESUME_STREAM, 0] ?l)"
  have "payload \<noteq> []" using len by auto
  have step: "stream_step p (length payload) ?c u = (u, True)"
    using u by (simp add: stream_step_def)
  define l'' where "l'' = ?l"
  have uart'': "ln_uart l'' = u" by (simp add: l''_def uart)
  have same: "l''\<lparr>ln_uart := u\<rparr> = l''" using uart'' by (cases l'') simp
  have next_uart: "l''\<lparr>ln_uart := fst (stream_step p (length payload) ?c (ln_uart l''))\<rparr> = l''"
    by (simp only: uart'' step fst_conv same)
  have "process_stream_byte ?c l'' = on_uart reset_stream_parser (push_packet
             (fst (send_bytes [OI_PAUSE_RESUME_STREAM, 0]
               (l''\<lparr>ln_uart := fst (stream_step p (length payload) ?c (ln_uart l''))\<rparr>))))"
    by (rule process_awaited(2)) (simp_all add: uart'' u(1) e step)
  then have "process_stream_byte ?c l'' = on_uart reset_stream_parser (push_packet
             (fst (send_bytes [OI_PAUSE_RESUME_STREAM, 0] l'')))"
    unfolding next_uart .
  then have proc: "process_stream_byte ?c ?l = on_uart reset_stream_parser (push_packet ?sent)"
    by (simp only: l''_def)
  have "poll_loop ?m l' = poll_loop j (process_stream_byte ?c ?l)"
    unfolding j by (rule poll_loop_byte [OF rx c]) (simp add: uart u(1))
  also have "\<dots> = on_uart reset_stream_parser (push_packet ?sent)"
    unfolding proc
    by (rule poll_loop_idle) (auto simp: push_packet_def Let_def hrx split: option.splits)
  finally have final: "uart_poll l = on_uart reset_stream_parser (push_packet ?sent)"
    by (simp add: poll)
  have bytes: "cu_bytes (ln_uart ?sent) = payload" "cu_pending (ln_uart ?sent) = Some p"
    by (simp_all add: uart u)
  have flags_sent: "sn_flags (st_sensor (ln_status ?sent)) = sn_flags (st_sensor (ln_status l))"
    by (simp add: mark_uart_rx_byte_def sensor)
  show "sn_flags (st_sensor (ln_status (uart_poll l))) =
      merge_create_sensor_flags p (sn_flags (st_sensor (ln_status l))) (create_sensor_flags_bits k)"
    using push_packet_decoded [OF bytes(2,1) \<open>payload \<noteq> []\<close> assms(4)] flags_sent
    by (simp only: final on_uart_status)
  show "cu_pending (ln_uart (uart_poll l)) = None"
    using push_packet_uart [of ?sent, unfolded bytes, OF \<open>payload \<noteq> []\<close>]
    by (simp add: final reset_stream_parser_def)
  show "cu_state (ln_uart (uart_poll l)) = StreamHeader"
    by (simp add: final reset_stream_parser_def)
  show "hw_rx (ln_hw (uart_poll l)) = []"
    by (auto simp: final push_packet_def Let_def hrx split: option.splits)
qed

text \<open>The receiving side only ever transmits the pause frame.\<close>

lemma quiet_push_packet [simp]: "quiet l (push_packet l') = quiet l l'"
  by (auto simp: push_packet_def Let_def split: option.splits)

lemma quiet_process [simp]: "quiet l (process_stream_byte b l)"
proof -
  have "quiet (l\<lparr>ln_uart := u\<rparr>) (fst (send_bytes [OI_PAUSE_RESUME_STREAM, 0] (l\<lparr>ln_uart := u\<rparr>)))" for u
    by (rule quiet_send) (simp add: quiet_frame_def)
  then have "quiet l (fst (send_bytes [OI_PAUSE_RESUME_STREAM, 0] (l\<lparr>ln_uart := u\<rparr>)))" for u
    by (simp add: emits_def)
  moreover have "quiet l (l\<lparr>ln_uart := u\<rparr>)" for u by (simp add: emits_same_tx)
  ultimately show ?thesis
    by (simp add: process_stream_byte_def Let_def split: option.split)
qed

lemma quiet_poll_loop: "quiet l (poll_loop n l)"
proof (induction n arbitrary: l)
  case 0
  show ?case by simp
next
  case (Suc n)
  have step: "quiet l l' \<Longrightarrow> quiet l (poll_loop n l')" for l'
    using Suc.IH tx.trans by blast
  show ?case
  proof (cases "hw_rx (ln_hw l)")
    case Nil
    then show ?thesis by (simp add: read_byte_def emits_same_tx)
  next
    case (Cons r rs)
    have same: "quiet l (l\<lparr>ln_hw := (ln_hw l)\<lparr>hw_rx := rs\<rparr>, ln_status := s\<rparr>)" for s
      by (simp add: emits_same_tx)
    show ?thesis
    proof (cases r)
      case (RxByte b)
      obtain h t where c: "hw_now_ms ((ln_hw l)\<lparr>hw_rx := rs\<rparr>) = (h, t)" by fastforce
      let ?l = "l\<lparr>ln_hw := h, ln_status := mark_uart_rx_byte b t (ln_status l)\<rparr>"
      have "hw_tx h = hw_tx (ln_hw l)"
        using hw_now_ms_frame(1) [of "(ln_hw l)\<lparr>hw_rx := rs\<rparr>"] by (simp add: c)
      then have q: "quiet l ?l" by (simp add: emits_same_tx)
      then have "quiet l (process_stream_byte b ?l)" using quiet_process tx.trans by blast
      with q show ?thesis
        using Cons RxByte by (simp add: read_byte_def c step Let_def)
    next
      case RxWouldBlock
      with Cons show ?thesis by (simp add: read_byte_def emits_same_tx)
    next
      case (RxError e)
      with Cons show ?thesis
        by (cases e) (simp_all add: read_byte_def step same)
    qed
  qed
qed

lemma quiet_poll [simp]: "quiet l (uart_poll l)"
  by (simp add: uart_poll_def quiet_poll_loop)

section \<open>Properties\<close>

text \<open>C21. A complete frame is delivered: a poll that finds the whole frame of the awaited packet on
  the line merges the decoded payload into the sensor flags, ends the wait, leaves the parser idle
  and the line empty.\<close>

theorem whole_frame_is_delivered:
  assumes "hw_rx (ln_hw l) = map RxByte (stream_frame p payload)"
    and "cu_pending (ln_uart l) = Some p" and "cu_state (ln_uart l) = StreamHeader"
    and "decode_sensor_packet p payload = Some k"
  shows "sn_flags (st_sensor (ln_status (uart_poll l))) =
      merge_create_sensor_flags p (sn_flags (st_sensor (ln_status l))) (create_sensor_flags_bits k) \<and>
    cu_pending (ln_uart (uart_poll l)) = None \<and> cu_state (ln_uart (uart_poll l)) = StreamHeader \<and>
    hw_rx (ln_hw (uart_poll l)) = []"
  using poll_delivers_frame [OF assms] by simp

text \<open>A link that awaits packet 7 with its frame on the line.\<close>

definition idle_hardware :: hardware where
  "idle_hardware = \<lparr>hw_clock_us = (\<lambda>n. 0), hw_clock_reads = 0, hw_rx = [], hw_write_ok = (\<lambda>n. True),
     hw_writes = 0, hw_flush_ok = (\<lambda>n. True), hw_flushes = 0, hw_tx = [], hw_baud_ok = (\<lambda>b. True),
     hw_baud = 57600, hw_imu = [], hw_charging_pin = None, hw_power_toggle = [], hw_indicators = False,
     hw_motherbrain_reset = [], hw_watchdog_feeds = 0, hw_delayed_ms = 0\<rparr>"

definition awaiting_bumps :: link where
  "awaiting_bumps = \<lparr>ln_platform = example_platform,
     ln_hw = idle_hardware\<lparr>hw_rx := map RxByte (stream_frame 7 [3])\<rparr>, ln_status = initial_status,
     ln_uart = new_create_uart\<lparr>cu_pending := Some 7\<rparr>, ln_events = []\<rparr>"

theorem whole_frame_is_delivered_witness:
  "hw_rx (ln_hw (uart_poll awaiting_bumps)) = [] \<and> cu_pending (ln_uart (uart_poll awaiting_bumps)) = None"
proof -
  obtain k where k: "decode_sensor_packet 7 [3] = Some k"
    by (simp add: decode_sensor_packet_def guarded_def valid_bumps_wheel_drops_def)
  show ?thesis
    using whole_frame_is_delivered [of awaiting_bumps 7 "[3]", OF _ _ _ k]
    by (simp add: awaiting_bumps_def new_create_uart_def)
qed

text \<open>C20. Only whole frames are promoted: whatever bytes arrive while a packet is awaited, the byte
  that changes the sensor snapshot is the last byte of a complete frame for that packet, with a zero
  sum and a payload that decodes. A partial or corrupt frame never becomes a sample.\<close>

theorem only_whole_frames_are_promoted:
  assumes "cu_pending (ln_uart l) = Some p" and "sensor_packet_length p = Some e"
    and "cu_state (ln_uart l) = StreamHeader"
    and "st_sensor (ln_status (process_stream_byte b (fold process_stream_byte bs l)))
      \<noteq> st_sensor (ln_status (fold process_stream_byte bs l))"
  shows "\<exists>payload k. suffix (stream_frame p payload) (bs @ [b]) \<and> decode_sensor_packet p payload = Some k"
  by (rule promotion_ends_frame [OF assms])

lemma bump_frame_bytes: "stream_frame 7 [3] = [19, 2, 7, 3, 225]"
  by (simp add: stream_frame_def frame_sum_def)

definition after_payload :: link where
  "after_payload = awaiting_bumps\<lparr>ln_uart := new_create_uart\<lparr>cu_pending := Some 7, cu_bytes := [3],
     cu_state := StreamChecksum, cu_sum := 31\<rparr>\<rparr>"

lemma bump_payload_heard: "fold process_stream_byte [19, 2, 7, 3] awaiting_bumps = after_payload"
  by (simp add: awaiting_bumps_def after_payload_def new_create_uart_def process_stream_byte_def
      sensor_packet_length_def stream_step_def Let_def)

lemma bump_frame_heard:
  "st_sensor (ln_status (process_stream_byte 225 (fold process_stream_byte [19, 2, 7, 3] awaiting_bumps)))
     \<noteq> st_sensor (ln_status (fold process_stream_byte [19, 2, 7, 3] awaiting_bumps))"
proof -
  obtain k where k: "decode_sensor_packet 7 [3] = Some k" and bump: "fl_bump_left (pk_flags k)"
    by (simp add: decode_sensor_packet_def guarded_def valid_bumps_wheel_drops_def
        apply_bumps_wheel_drops_def set_flag_def)
  let ?paused = "fst (send_bytes [OI_PAUSE_RESUME_STREAM, 0] after_payload)"
  have step: "stream_step 7 1 225 (ln_uart after_payload) = (ln_uart after_payload, True)"
    by (simp add: after_payload_def stream_step_def)
  have "process_stream_byte 225 after_payload = on_uart reset_stream_parser (push_packet
      (fst (send_bytes [OI_PAUSE_RESUME_STREAM, 0] (after_payload\<lparr>ln_uart := ln_uart after_payload\<rparr>))))"
    using process_awaited(2) [of after_payload 7 1 225, unfolded step]
    by (simp add: after_payload_def new_create_uart_def sensor_packet_length_def)
  then have "sn_flags (st_sensor (ln_status (process_stream_byte 225 after_payload))) =
      merge_create_sensor_flags 7 (sn_flags (st_sensor (ln_status ?paused))) (create_sensor_flags_bits k)"
    using push_packet_decoded [of ?paused 7 "[3]" k] k
    by (simp add: after_payload_def new_create_uart_def)
  then have "bit (sn_flags (st_sensor (ln_status (process_stream_byte 225 after_payload)))) 0"
    by (simp add: merge_bit packet_bits bump packet_flag_mask_def)
  moreover have "\<not> bit (sn_flags (st_sensor (ln_status after_payload))) 0"
    by (simp add: after_payload_def awaiting_bumps_def initial_status_def cleared_sensor_status_def)
  ultimately show ?thesis unfolding bump_payload_heard by metis
qed

theorem only_whole_frames_are_promoted_witness:
  "\<exists>payload k. suffix (stream_frame 7 payload) ([19, 2, 7, 3] @ [225]) \<and> decode_sensor_packet 7 payload = Some k"
  by (rule only_whole_frames_are_promoted [OF _ _ _ bump_frame_heard, where e = 1])
    (simp_all add: awaiting_bumps_def new_create_uart_def sensor_packet_length_def)

end
