(* ===== verification/Command_Codec.thy ===== *)
theory Command_Codec
  imports Status_Marks Protocol
begin

text \<open>
  The command codec of \<open>status/commands.rs\<close>: an ingress command becomes a control code, four
  argument words and an optional duration, stored in the mailbox statics and decoded by the
  runtime lane. Song tones travel through the sixteen words of \<open>PENDING_SONG_TONES\<close>.
  The lemmas give the exact set of commands that survive the trip.
\<close>

section \<open>Control codes\<close>

datatype (plugins only: code size) control_code =
    CcNone | CcPing | CcArm | CcDisarm | CcEStop | CcClearEStop | CcCmdVel | CcStop | CcStatus
  | CcSongPlay | CcDock | CcSetLights | CcSetMode | CcHeartbeatStop | CcSongDefine
  | CcDriveDirect | CcDriveArc | CcRequestSensors | CcStreamSensors | CcClearMotionQueue
  | CcDefineChirp | CcPlayFeedback | CcPowerState | CcCalibrateTurn | CcResetOdometry
  | CcGetCapabilities | CcGetEvents | CcZeroImuOrientation | CcClearImuOrientation
  | CcOrientationProbe | CcRestartCreate | CcResetMotherbrain | CcClearSafetyLatch
  | CcCarefulMode | CcEscapeMotion | CcSetAudioSilent

text \<open>The retired codes (13 to 17, 19 to 28 and 34) name no constructor here: no command
  encodes to them and the decoder maps them to \<open>Unsupported\<close>.\<close>

fun control_value :: "control_code \<Rightarrow> u8" where
  "control_value CcNone = 0"
| "control_value CcPing = 1"
| "control_value CcArm = 2"
| "control_value CcDisarm = 3"
| "control_value CcEStop = 4"
| "control_value CcClearEStop = 5"
| "control_value CcCmdVel = 6"
| "control_value CcStop = 7"
| "control_value CcStatus = 8"
| "control_value CcSongPlay = 9"
| "control_value CcDock = 10"
| "control_value CcSetLights = 11"
| "control_value CcSetMode = 12"
| "control_value CcHeartbeatStop = 18"
| "control_value CcSongDefine = 29"
| "control_value CcDriveDirect = 30"
| "control_value CcDriveArc = 31"
| "control_value CcRequestSensors = 32"
| "control_value CcStreamSensors = 33"
| "control_value CcClearMotionQueue = 35"
| "control_value CcDefineChirp = 36"
| "control_value CcPlayFeedback = 37"
| "control_value CcPowerState = 38"
| "control_value CcCalibrateTurn = 39"
| "control_value CcResetOdometry = 40"
| "control_value CcGetCapabilities = 41"
| "control_value CcGetEvents = 42"
| "control_value CcZeroImuOrientation = 43"
| "control_value CcClearImuOrientation = 44"
| "control_value CcOrientationProbe = 45"
| "control_value CcRestartCreate = 46"
| "control_value CcResetMotherbrain = 47"
| "control_value CcClearSafetyLatch = 48"
| "control_value CcCarefulMode = 49"
| "control_value CcEscapeMotion = 50"
| "control_value CcSetAudioSilent = 51"

definition is_retired_control_code :: "u8 \<Rightarrow> bool" where
  "is_retired_control_code kind \<longleftrightarrow>
     kind \<in> {13, 14, 15, 16, 17, 19, 20, 21, 22, 23, 24, 25, 26, 27, 28, 34}"

section \<open>Field codes\<close>

fun encode_safety_latch_kind :: "safety_latch_kind \<Rightarrow> u8" where
  "encode_safety_latch_kind LBump = 1"
| "encode_safety_latch_kind LCliff = 2"
| "encode_safety_latch_kind LWheelDrop = 3"
| "encode_safety_latch_kind LHeartbeat = 5"
| "encode_safety_latch_kind LTilt = 6"
| "encode_safety_latch_kind LImpact = 7"
| "encode_safety_latch_kind LCharging = 8"

definition decode_safety_latch_kind :: "u8 \<Rightarrow> safety_latch_kind option" where
  "decode_safety_latch_kind value =
     (if value = 1 then Some LBump
      else if value = 2 then Some LCliff
      else if value = 3 then Some LWheelDrop
      else if value = 5 then Some LHeartbeat
      else if value = 6 then Some LTilt
      else if value = 7 then Some LImpact
      else if value = 8 then Some LCharging
      else None)"

interpretation latch_wire: exact_wire_code encode_safety_latch_kind decode_safety_latch_kind
proof
  show "decode_safety_latch_kind (encode_safety_latch_kind x) = Some x" for x
    by (cases x) (simp_all add: decode_safety_latch_kind_def)
  show "decode_safety_latch_kind w = Some x \<Longrightarrow> encode_safety_latch_kind x = w" for w x
    by (auto simp: decode_safety_latch_kind_def split: if_splits)
qed

fun encode_feedback_kind :: "feedback_kind \<Rightarrow> u8" where
  "encode_feedback_kind FOk = 0"
| "encode_feedback_kind FError = 1"
| "encode_feedback_kind FArmed = 2"
| "encode_feedback_kind FLostTarget = 3"
| "encode_feedback_kind FDockSeen = 4"
| "encode_feedback_kind FDanger = 5"

definition decode_feedback_kind :: "u8 \<Rightarrow> feedback_kind option" where
  "decode_feedback_kind value =
     (if value = 0 then Some FOk
      else if value = 1 then Some FError
      else if value = 2 then Some FArmed
      else if value = 3 then Some FLostTarget
      else if value = 4 then Some FDockSeen
      else if value = 5 then Some FDanger
      else None)"

interpretation feedback_wire: exact_wire_code encode_feedback_kind decode_feedback_kind
proof
  show "decode_feedback_kind (encode_feedback_kind x) = Some x" for x
    by (cases x) (simp_all add: decode_feedback_kind_def)
  show "decode_feedback_kind w = Some x \<Longrightarrow> encode_feedback_kind x = w" for w x
    by (auto simp: decode_feedback_kind_def split: if_splits)
qed

fun encode_power_request :: "power_state_request \<Rightarrow> u8" where
  "encode_power_request PWake = 1"
| "encode_power_request PSleep = 2"
| "encode_power_request PStartOi = 4"
| "encode_power_request PDebugBaud19200 = 5"
| "encode_power_request PDebugBaud57600 = 6"
| "encode_power_request PDebugBaud115200 = 7"

definition decode_power_request :: "u8 \<Rightarrow> power_state_request option" where
  "decode_power_request value =
     (if value = 1 then Some PWake
      else if value = 2 then Some PSleep
      else if value = 4 then Some PStartOi
      else if value = 5 then Some PDebugBaud19200
      else if value = 6 then Some PDebugBaud57600
      else if value = 7 then Some PDebugBaud115200
      else None)"

interpretation power_wire: exact_wire_code encode_power_request decode_power_request
proof
  show "decode_power_request (encode_power_request x) = Some x" for x
    by (cases x) (simp_all add: decode_power_request_def)
  show "decode_power_request w = Some x \<Longrightarrow> encode_power_request x = w" for w x
    by (auto simp: decode_power_request_def split: if_splits)
qed

fun encode_oi_mode :: "create_oi_mode \<Rightarrow> u32" where
  "encode_oi_mode Passive = 1"
| "encode_oi_mode Safe = 2"
| "encode_oi_mode Full = 3"

definition decode_oi_mode :: "u32 \<Rightarrow> create_oi_mode option" where
  "decode_oi_mode a =
     (if a = 1 then Some Passive else if a = 2 then Some Safe else if a = 3 then Some Full else None)"

interpretation mode_wire: exact_wire_code encode_oi_mode decode_oi_mode
proof
  show "decode_oi_mode (encode_oi_mode x) = Some x" for x
    by (cases x) (simp_all add: decode_oi_mode_def)
  show "decode_oi_mode w = Some x \<Longrightarrow> encode_oi_mode x = w" for w x
    by (auto simp: decode_oi_mode_def split: if_splits)
qed

lemmas field_codes [simp] =
  latch_wire.dec_enc feedback_wire.dec_enc power_wire.dec_enc mode_wire.dec_enc

definition encode_i16 :: "i16 \<Rightarrow> u32" where
  "encode_i16 value = ucast value"

definition decode_i16 :: "u32 \<Rightarrow> i16" where
  "decode_i16 value = ucast value"

interpretation i16_wire: wire_code encode_i16 "\<lambda>w. Some (decode_i16 w)"
proof
  show "Some (decode_i16 (encode_i16 x)) = Some x" for x
    by (simp add: encode_i16_def decode_i16_def) (rule bit_word_eqI, simp add: bit_unsigned_iff)
qed

lemma decode_i16_encode [simp]: "decode_i16 (encode_i16 x) = x"
  using i16_wire.dec_enc [of x] by simp

lemma u8_through_u32 [simp]: "(ucast (ucast (x :: u8) :: u32) :: u8) = x"
  by (rule bit_word_eqI) (simp add: bit_unsigned_iff)

section \<open>Song tones\<close>

definition pack_song_tone :: "song_tone \<Rightarrow> u32" where
  "pack_song_tone tone = push_bit 8 (ucast (tone_note tone)) OR ucast (duration_64ths tone)"

definition unpack_song_tone :: "u32 \<Rightarrow> song_tone" where
  "unpack_song_tone value =
     \<lparr>tone_note = ucast (drop_bit 8 value), duration_64ths = ucast value\<rparr>"

interpretation tone_wire: wire_code pack_song_tone "\<lambda>w. Some (unpack_song_tone w)"
proof
  show "Some (unpack_song_tone (pack_song_tone t)) = Some t" for t
  proof (cases t)
    case (fields n d)
    have "ucast (drop_bit 8 (push_bit 8 (ucast n) OR ucast d :: u32)) = n"
      by (rule bit_word_eqI)
        (auto simp: bit_unsigned_iff bit_drop_bit_eq bit_or_iff bit_push_bit_iff
          dest: bit_imp_le_length)
    moreover have "ucast (push_bit 8 (ucast n) OR ucast d :: u32) = d"
      by (rule bit_word_eqI)
        (auto simp: bit_unsigned_iff bit_or_iff bit_push_bit_iff dest: bit_imp_le_length)
    ultimately show ?thesis using fields by (simp add: unpack_song_tone_def pack_song_tone_def)
  qed
qed

definition clamp_tone_count :: "u8 \<Rightarrow> u8" where
  "clamp_tone_count n = min n 16"

definition store_pending_song_tones :: "tones \<Rightarrow> u8 \<Rightarrow> mailbox \<Rightarrow> mailbox" where
  "store_pending_song_tones tones tone_count m =
     m\<lparr>mb_song_tones :=
        map (\<lambda>i. if i < unat (clamp_tone_count tone_count) then pack_song_tone (tones ! i) else 0)
          [0 ..< max_song_tones]\<rparr>"

definition load_pending_song_tones :: "u8 \<Rightarrow> mailbox \<Rightarrow> tones" where
  "load_pending_song_tones tone_count m =
     map (\<lambda>i. if i < unat (clamp_tone_count tone_count) then unpack_song_tone (mb_song_tones m ! i)
              else silent_tone)
       [0 ..< max_song_tones]"

text \<open>What arrives of a tone array: its first \<open>tone_count\<close> tones.\<close>

definition delivered_tones :: "tones \<Rightarrow> u8 \<Rightarrow> tones" where
  "delivered_tones tones tone_count =
     map (\<lambda>i. if i < unat (clamp_tone_count tone_count) then tones ! i else silent_tone)
       [0 ..< max_song_tones]"

lemma load_stored_tones:
  "load_pending_song_tones n (store_pending_song_tones tones n m) = delivered_tones tones n"
  using tone_wire.dec_enc
  by (auto simp: load_pending_song_tones_def store_pending_song_tones_def delivered_tones_def)

lemma clamp_tone_count_idem [simp]: "clamp_tone_count (clamp_tone_count n) = clamp_tone_count n"
  by (simp add: clamp_tone_count_def)

lemma tones_of_clamped [simp]:
  "delivered_tones tones (clamp_tone_count n) = delivered_tones tones n"
  "store_pending_song_tones tones (clamp_tone_count n) m = store_pending_song_tones tones n m"
  "load_pending_song_tones (clamp_tone_count n) m = load_pending_song_tones n m"
  by (simp_all add: delivered_tones_def store_pending_song_tones_def load_pending_song_tones_def)

section \<open>Encoding\<close>

type_synonym encoded = "control_code \<times> u32 \<times> u32 \<times> u32 \<times> u32 \<times> u32 option"

definition plain :: "control_code \<Rightarrow> encoded" where
  "plain k = (k, 0, 0, 0, 0, None)"

text \<open>Defining a song stores its tones while it encodes, so encoding returns the mailbox too.\<close>

definition encode_control_command :: "brainstem_command \<Rightarrow> mailbox \<Rightarrow> mailbox \<times> encoded option" where
  "encode_control_command command m =
     (case command of
        BPing \<Rightarrow> (m, Some (plain CcPing))
      | BArm \<Rightarrow> (m, Some (plain CcArm))
      | BDisarm \<Rightarrow> (m, Some (plain CcDisarm))
      | BEStop \<Rightarrow> (m, Some (plain CcEStop))
      | BClearEStop \<Rightarrow> (m, Some (plain CcClearEStop))
      | BStop \<Rightarrow> (m, Some (plain CcStop))
      | BStatus \<Rightarrow> (m, Some (plain CcStatus))
      | BBootsel \<Rightarrow> (m, None)
      | BSetMode mode \<Rightarrow> (m, Some (CcSetMode, encode_oi_mode mode, 0, 0, 0, None))
      | BCmdVel lin ang ttl _ \<Rightarrow> (m, Some (CcCmdVel, encode_i16 lin, encode_i16 ang, 0, 0, Some ttl))
      | BDriveDirect l r ttl _ \<Rightarrow> (m, Some (CcDriveDirect, encode_i16 l, encode_i16 r, 0, 0, Some ttl))
      | BDriveArc v rad ttl _ \<Rightarrow> (m, Some (CcDriveArc, encode_i16 v, encode_i16 rad, 0, 0, Some ttl))
      | BSongPlay sid \<Rightarrow> (m, Some (CcSongPlay, ucast sid, 0, 0, 0, None))
      | BSongDefine sid tones n _ \<Rightarrow>
          (let n = clamp_tone_count n in
           (store_pending_song_tones tones n m, Some (CcSongDefine, ucast sid, ucast n, 0, 0, None)))
      | BDock \<Rightarrow> (m, Some (plain CcDock))
      | BSetLights bits color intensity \<Rightarrow>
          (m, Some (CcSetLights, ucast bits, ucast color, ucast intensity, 0, None))
      | BUnsupported _ \<Rightarrow> (m, None)
      | BHeartbeatStop timeout _ \<Rightarrow> (m, Some (CcHeartbeatStop, 0, 0, 0, 0, Some timeout))
      | BClearSafetyLatch kind _ \<Rightarrow>
          (m, Some (CcClearSafetyLatch, ucast (encode_safety_latch_kind kind), 0, 0, 0, None))
      | BCarefulMode ttl _ \<Rightarrow> (m, Some (CcCarefulMode, 0, 0, 0, 0, Some ttl))
      | BEscapeMotion kind gen lin ang ttl _ \<Rightarrow>
          (m, Some (CcEscapeMotion, ucast (encode_safety_latch_kind kind), gen, encode_i16 lin,
                    encode_i16 ang, Some ttl))
      | BRequestSensors pid _ \<Rightarrow> (m, Some (CcRequestSensors, ucast pid, 0, 0, 0, None))
      | BStreamSensors enabled pid period _ \<Rightarrow>
          (m, Some (CcStreamSensors, b32 enabled, ucast pid, 0, 0, Some period))
      | BClearMotionQueue _ \<Rightarrow> (m, Some (plain CcClearMotionQueue))
      | BDefineChirp kind tones n _ \<Rightarrow>
          (let n = clamp_tone_count n in
           (store_pending_song_tones tones n m,
            Some (CcDefineChirp, ucast (encode_feedback_kind kind), ucast n, 0, 0, None)))
      | BPlayFeedback kind _ \<Rightarrow>
          (m, Some (CcPlayFeedback, ucast (encode_feedback_kind kind), 0, 0, 0, None))
      | BSetAudioSilent silent _ \<Rightarrow> (m, Some (CcSetAudioSilent, b32 silent, 0, 0, 0, None))
      | BPowerState request _ \<Rightarrow>
          (m, Some (CcPowerState, ucast (encode_power_request request), 0, 0, 0, None))
      | BCalibrateTurn ang duration _ \<Rightarrow>
          (m, Some (CcCalibrateTurn, encode_i16 ang, 0, 0, 0, Some duration))
      | BOrientationProbe ang duration _ \<Rightarrow>
          (m, Some (CcOrientationProbe, encode_i16 ang, 0, 0, 0, Some duration))
      | BResetOdometry _ \<Rightarrow> (m, Some (plain CcResetOdometry))
      | BZeroImuOrientation _ \<Rightarrow> (m, Some (plain CcZeroImuOrientation))
      | BClearImuOrientation _ \<Rightarrow> (m, Some (plain CcClearImuOrientation))
      | BRestartCreate \<Rightarrow> (m, Some (plain CcRestartCreate))
      | BResetMotherbrain \<Rightarrow> (m, Some (plain CcResetMotherbrain))
      | BGetCapabilities \<Rightarrow> (m, Some (plain CcGetCapabilities))
      | BGetEvents since \<Rightarrow> (m, Some (CcGetEvents, since, 0, 0, 0, None)))"

definition command_seq :: "brainstem_command \<Rightarrow> u32" where
  "command_seq command =
     (case command of
        BCmdVel _ _ _ seq \<Rightarrow> seq
      | BDriveDirect _ _ _ seq \<Rightarrow> seq
      | BDriveArc _ _ _ seq \<Rightarrow> seq
      | BUnsupported seq \<Rightarrow> seq
      | BClearSafetyLatch _ seq \<Rightarrow> seq
      | BCarefulMode _ seq \<Rightarrow> seq
      | BEscapeMotion _ _ _ _ _ seq \<Rightarrow> seq
      | BSongDefine _ _ _ seq \<Rightarrow> seq
      | BRequestSensors _ seq \<Rightarrow> seq
      | BStreamSensors _ _ _ seq \<Rightarrow> seq
      | BClearMotionQueue seq \<Rightarrow> seq
      | BDefineChirp _ _ _ seq \<Rightarrow> seq
      | BPlayFeedback _ seq \<Rightarrow> seq
      | BSetAudioSilent _ seq \<Rightarrow> seq
      | BPowerState _ seq \<Rightarrow> seq
      | BCalibrateTurn _ _ seq \<Rightarrow> seq
      | BOrientationProbe _ _ seq \<Rightarrow> seq
      | BResetOdometry seq \<Rightarrow> seq
      | BZeroImuOrientation seq \<Rightarrow> seq
      | BClearImuOrientation seq \<Rightarrow> seq
      | BHeartbeatStop _ seq \<Rightarrow> seq
      | _ \<Rightarrow> 0)"

section \<open>Decoding\<close>

definition decode_control_command ::
  "u8 \<Rightarrow> u32 \<Rightarrow> u32 \<Rightarrow> u32 \<Rightarrow> u32 \<Rightarrow> u32 option \<Rightarrow> u32 \<Rightarrow> mailbox \<Rightarrow> brainstem_command option" where
  "decode_control_command kind a b c d duration seq m =
     (if is_retired_control_code kind then Some (BUnsupported seq)
      else if kind = control_value CcPing then Some BPing
      else if kind = control_value CcArm then Some BArm
      else if kind = control_value CcDisarm then Some BDisarm
      else if kind = control_value CcStop then Some BStop
      else if kind = control_value CcEStop then Some BEStop
      else if kind = control_value CcClearEStop then Some BClearEStop
      else if kind = control_value CcStatus then Some BStatus
      else if kind = control_value CcSetMode then map_option BSetMode (decode_oi_mode a)
      else if kind = control_value CcCmdVel then
        map_option (\<lambda>ttl. BCmdVel (decode_i16 a) (decode_i16 b) ttl seq) duration
      else if kind = control_value CcDriveDirect then
        map_option (\<lambda>ttl. BDriveDirect (decode_i16 a) (decode_i16 b) ttl seq) duration
      else if kind = control_value CcDriveArc then
        map_option (\<lambda>ttl. BDriveArc (decode_i16 a) (decode_i16 b) ttl seq) duration
      else if kind = control_value CcSongPlay then Some (BSongPlay (ucast a))
      else if kind = control_value CcSongDefine then
        (let n = clamp_tone_count (ucast b) in
         Some (BSongDefine (ucast a) (load_pending_song_tones n m) n seq))
      else if kind = control_value CcDock then Some BDock
      else if kind = control_value CcSetLights then Some (BSetLights (ucast a) (ucast b) (ucast c))
      else if kind = control_value CcHeartbeatStop then
        map_option (\<lambda>timeout. BHeartbeatStop timeout seq) duration
      else if kind = control_value CcClearSafetyLatch then
        map_option (\<lambda>k. BClearSafetyLatch k seq) (decode_safety_latch_kind (ucast a))
      else if kind = control_value CcCarefulMode then
        map_option (\<lambda>ttl. BCarefulMode ttl seq) duration
      else if kind = control_value CcEscapeMotion then
        (case decode_safety_latch_kind (ucast a) of
           None \<Rightarrow> None
         | Some k \<Rightarrow> map_option (\<lambda>ttl. BEscapeMotion k b (decode_i16 c) (decode_i16 d) ttl seq) duration)
      else if kind = control_value CcRequestSensors then Some (BRequestSensors (ucast a) seq)
      else if kind = control_value CcStreamSensors then
        map_option (\<lambda>period. BStreamSensors (a \<noteq> 0) (ucast b) period seq) duration
      else if kind = control_value CcClearMotionQueue then Some (BClearMotionQueue seq)
      else if kind = control_value CcDefineChirp then
        (let n = clamp_tone_count (ucast b) in
         map_option (\<lambda>k. BDefineChirp k (load_pending_song_tones n m) n seq)
           (decode_feedback_kind (ucast a)))
      else if kind = control_value CcPlayFeedback then
        map_option (\<lambda>k. BPlayFeedback k seq) (decode_feedback_kind (ucast a))
      else if kind = control_value CcSetAudioSilent then Some (BSetAudioSilent (a \<noteq> 0) seq)
      else if kind = control_value CcPowerState then
        map_option (\<lambda>r. BPowerState r seq) (decode_power_request (ucast a))
      else if kind = control_value CcCalibrateTurn then
        map_option (\<lambda>t. BCalibrateTurn (decode_i16 a) t seq) duration
      else if kind = control_value CcOrientationProbe then
        map_option (\<lambda>t. BOrientationProbe (decode_i16 a) t seq) duration
      else if kind = control_value CcResetOdometry then Some (BResetOdometry seq)
      else if kind = control_value CcZeroImuOrientation then Some (BZeroImuOrientation seq)
      else if kind = control_value CcClearImuOrientation then Some (BClearImuOrientation seq)
      else if kind = control_value CcRestartCreate then Some BRestartCreate
      else if kind = control_value CcGetCapabilities then Some BGetCapabilities
      else if kind = control_value CcGetEvents then Some (BGetEvents a)
      else None)"

end
