(* ===== verification/Mailbox.thy ===== *)
theory Mailbox
  imports Command_Codec Escape
begin

text \<open>
  The command mailbox between the transport lanes and the runtime lane,
  \<open>submit_control_command\<close> and \<open>take_control_command\<close> of \<open>status/commands.rs\<close>: one slot for
  commands, one for the latest velocity, a stop that preempts both, and the velocity stream
  whose renewals are recognised.
\<close>

section \<open>The velocity stream\<close>

definition mark_velocity_stream_active :: "u32 \<Rightarrow> i16 \<Rightarrow> i16 \<Rightarrow> status \<Rightarrow> status" where
  [status_defs]: "mark_velocity_stream_active command_id linear angular s =
     s\<lparr>st_mail := (st_mail s)\<lparr>mb_stream_id := command_id, mb_stream_a := encode_i16 linear,
        mb_stream_b := encode_i16 angular, mb_stream := ON\<rparr>\<rparr>"

definition clear_velocity_stream :: "status \<Rightarrow> status" where
  [status_defs]: "clear_velocity_stream s =
     s\<lparr>st_mail := (st_mail s)\<lparr>mb_stream := OFF, mb_stream_id := 0\<rparr>\<rparr>"

definition matching_velocity_stream :: "u32 \<Rightarrow> u32 \<Rightarrow> mailbox \<Rightarrow> u32 option" where
  "matching_velocity_stream a b m =
     (if mb_stream m = ON \<and> mb_stream_a m = a \<and> mb_stream_b m = b \<and> mb_stream_id m \<noteq> 0
      then Some (mb_stream_id m) else None)"

definition seq_is_current_or_newer :: "u32 \<Rightarrow> u32 \<Rightarrow> bool" where
  "seq_is_current_or_newer seq latest \<longleftrightarrow> seq = latest \<or> seq - latest < 2147483647"

section \<open>Submitting\<close>

type_synonym submission = "(status, command_reject_reason) outcome"

definition velocity_pending :: "mailbox \<Rightarrow> bool" where
  "velocity_pending m \<longleftrightarrow> mb_vel_kind m = control_value CcCmdVel"

definition preempt_pending_commands_for_safety ::
  "u32 \<Rightarrow> status \<Rightarrow> status \<times> u32 option \<times> u32 option" where
  "preempt_pending_commands_for_safety command_id s =
     (let m = st_mail s;
          replaced_velocity = (if velocity_pending m \<and> mb_vel_renewal m \<noteq> ON \<and> mb_vel_id m \<noteq> command_id
                               then Some (mb_vel_id m) else None);
          replaced_command = (if mb_kind m \<noteq> 0 \<and> mb_id m \<noteq> command_id then Some (mb_id m) else None)
      in (s\<lparr>st_mail := m\<lparr>mb_vel_kind := 0, mb_vel_renewal := OFF\<rparr>\<rparr>,
          replaced_command, replaced_velocity))"

definition reject_control_command ::
  "u32 \<Rightarrow> u32 \<Rightarrow> control_code \<Rightarrow> command_reject_reason \<Rightarrow> status \<Rightarrow> submission" where
  "reject_control_command command_id seq kind reason s =
     fail reason
       (emit KCommandRejected command_id seq
          (push_bit 8 (ucast (control_value kind)) OR ucast (reject_code reason))
          (s\<lparr>st_cmd := (st_cmd s)\<lparr>cs_last_rejected := command_id\<rparr>\<rparr>))"

definition interrupt_opt :: "u32 option \<Rightarrow> status \<Rightarrow> status" where
  "interrupt_opt replaced s =
     (case replaced of None \<Rightarrow> s | Some command_id \<Rightarrow> mark_command_interrupted command_id s)"

definition accept_immediately :: "u32 \<Rightarrow> status \<Rightarrow> submission" where
  "accept_immediately command_id s =
     ok (emit KCommandAccepted command_id 0 0
           (s\<lparr>st_cmd := (st_cmd s)\<lparr>cs_last_accepted := command_id\<rparr>\<rparr>))"

definition submit_velocity :: "u32 \<Rightarrow> u32 \<Rightarrow> encoded \<Rightarrow> status \<Rightarrow> submission" where
  "submit_velocity command_id seq e s =
     (case e of (kind, a, b, c, d, duration) \<Rightarrow>
       (let m = st_mail s;
            renewed = matching_velocity_stream a b m in
        if velocity_pending m \<and> \<not> seq_is_current_or_newer seq (mb_vel_seq m)
        then reject_control_command command_id seq kind RejStaleSequence s
        else
          (let replaced = (if velocity_pending m \<and> mb_vel_id m \<noteq> command_id \<and> mb_vel_renewal m \<noteq> ON
                           then Some (mb_vel_id m) else None);
               s = s\<lparr>st_mail := m\<lparr>mb_vel_id := command_id, mb_vel_a := a, mb_vel_b := b,
                        mb_vel_ttl := (case duration of None \<Rightarrow> 0 | Some t \<Rightarrow> t), mb_vel_seq := seq,
                        mb_vel_renewal := on_off (renewed \<noteq> None),
                        mb_vel_kind := control_value CcCmdVel\<rparr>,
                     st_cmd := (st_cmd s)\<lparr>cs_last_accepted := command_id\<rparr>\<rparr>;
               s = (case renewed of
                      Some stream_id \<Rightarrow> emit KCommandRenewed command_id stream_id seq s
                    | None \<Rightarrow> emit KCommandAccepted command_id seq 0 s)
           in ok (interrupt_opt replaced s))))"

definition store_pending ::
  "u32 \<Rightarrow> u32 \<Rightarrow> u32 \<Rightarrow> u32 \<Rightarrow> encoded \<Rightarrow> status \<Rightarrow> status" where
  "store_pending command_id seq service_session service_lease e s =
     (case e of (kind, a, b, c, d, duration) \<Rightarrow>
        emit KCommandAccepted command_id seq (ucast (control_value kind))
          (s\<lparr>st_mail := (st_mail s)\<lparr>mb_id := command_id, mb_a := a, mb_b := b, mb_c := c, mb_d := d,
                mb_duration := (case duration of None \<Rightarrow> 0 | Some t \<Rightarrow> t), mb_seq := seq,
                mb_service_session := service_session, mb_service_lease := service_lease,
                mb_kind := control_value kind\<rparr>,
             st_cmd := (st_cmd s)\<lparr>cs_last_accepted := command_id\<rparr>\<rparr>))"

definition submit_slot ::
  "u32 \<Rightarrow> u32 \<Rightarrow> u32 \<Rightarrow> u32 \<Rightarrow> encoded \<Rightarrow> status \<Rightarrow> submission" where
  "submit_slot command_id seq service_session service_lease e s =
     (let kind = fst e in
      if kind = CcStop \<or> kind = CcEStop then
        (case preempt_pending_commands_for_safety command_id s of
           (s, replaced_command, replaced_velocity) \<Rightarrow>
             (let s = store_pending command_id seq service_session service_lease e s;
                  s = interrupt_opt replaced_command s
              in ok (if replaced_velocity = replaced_command then s
                     else interrupt_opt replaced_velocity s)))
      else
        (let m = st_mail s;
             replaces_heartbeat = (kind = CcHeartbeatStop \<and> mb_kind m = control_value CcHeartbeatStop) in
         if mb_kind m \<noteq> 0 \<and> \<not> replaces_heartbeat
         then reject_control_command command_id seq kind RejBusy s
         else
           (let replaced = (if replaces_heartbeat \<and> mb_id m \<noteq> command_id then Some (mb_id m) else None);
                s = store_pending command_id seq service_session service_lease e s
            in ok (interrupt_opt replaced s))))"

definition submit_control_command ::
  "platform \<Rightarrow> u32 \<Rightarrow> brainstem_command \<Rightarrow> u32 \<Rightarrow> u32 \<Rightarrow> status \<Rightarrow> submission" where
  "submit_control_command pf command_id command service_session service_lease s =
     (case command of
        BUnsupported _ \<Rightarrow> reject_control_command command_id (command_seq command) CcNone RejUnsupported s
      | BStatus \<Rightarrow> accept_immediately command_id s
      | BPing \<Rightarrow> accept_immediately command_id s
      | BGetEvents _ \<Rightarrow> accept_immediately command_id s
      | BGetCapabilities \<Rightarrow> accept_immediately command_id s
      | _ \<Rightarrow>
        (let refusal = (case command of
               BEscapeMotion kind generation linear angular ttl _ \<Rightarrow>
                 validate_escape_motion pf kind generation linear angular ttl s
             | _ \<Rightarrow> None) in
         case refusal of
           Some reason \<Rightarrow> fail reason s
         | None \<Rightarrow>
             (case encode_control_command command (st_mail s) of
                (m, None) \<Rightarrow>
                  reject_control_command command_id (command_seq command) CcNone RejUnsupported
                    (s\<lparr>st_mail := m\<rparr>)
              | (m, Some e) \<Rightarrow>
                  if fst e = CcCmdVel
                  then submit_velocity command_id (command_seq command) e (s\<lparr>st_mail := m\<rparr>)
                  else submit_slot command_id (command_seq command) service_session service_lease e
                         (s\<lparr>st_mail := m\<rparr>))))"

section \<open>Taking\<close>

definition take_control_command :: "status \<Rightarrow> status \<times> brainstem_command option" where
  "take_control_command s =
     (let m = st_mail s in
      if mb_kind m \<noteq> 0 then
        (s\<lparr>st_mail := m\<lparr>mb_kind := 0\<rparr>,
           st_cmd := (st_cmd s)\<lparr>cs_last_dispatched := mb_id m,
              cs_dispatched_session := mb_service_session m,
              cs_dispatched_lease := mb_service_lease m\<rparr>\<rparr>,
         decode_control_command (mb_kind m) (mb_a m) (mb_b m) (mb_c m) (mb_d m)
           (if mb_duration m = 0 then None else Some (mb_duration m)) (mb_seq m) m)
      else if \<not> velocity_pending m then (s, None)
      else
        (s\<lparr>st_mail := m\<lparr>mb_vel_kind := 0, mb_vel_renewal := OFF\<rparr>,
           st_cmd := (st_cmd s)\<lparr>cs_last_dispatched := mb_vel_id m, cs_dispatched_session := 0,
              cs_dispatched_lease := 0\<rparr>\<rparr>,
         Some (BCmdVel (decode_i16 (mb_vel_a m)) (decode_i16 (mb_vel_b m)) (mb_vel_ttl m) (mb_vel_seq m))))"

section \<open>What arrives\<close>

text \<open>
  The command a submission delivers: song tones are cut to their count, a command whose
  duration is zero and \<open>ResetMotherbrain\<close> are not decoded at all.
\<close>

definition nonzero_duration :: "u32 \<Rightarrow> brainstem_command \<Rightarrow> brainstem_command option" where
  "nonzero_duration t c = (if t = 0 then None else Some c)"

definition delivered :: "brainstem_command \<Rightarrow> brainstem_command option" where
  "delivered command =
     (case command of
        BDriveDirect _ _ ttl _ \<Rightarrow> nonzero_duration ttl command
      | BDriveArc _ _ ttl _ \<Rightarrow> nonzero_duration ttl command
      | BCarefulMode ttl _ \<Rightarrow> nonzero_duration ttl command
      | BEscapeMotion _ _ _ _ ttl _ \<Rightarrow> nonzero_duration ttl command
      | BHeartbeatStop timeout _ \<Rightarrow> nonzero_duration timeout command
      | BStreamSensors _ _ period _ \<Rightarrow> nonzero_duration period command
      | BCalibrateTurn _ duration _ \<Rightarrow> nonzero_duration duration command
      | BOrientationProbe _ duration _ \<Rightarrow> nonzero_duration duration command
      | BSongDefine sid tones n seq \<Rightarrow>
          Some (BSongDefine sid (delivered_tones tones n) (clamp_tone_count n) seq)
      | BDefineChirp kind tones n seq \<Rightarrow>
          Some (BDefineChirp kind (delivered_tones tones n) (clamp_tone_count n) seq)
      | BResetMotherbrain \<Rightarrow> None
      | _ \<Rightarrow> Some command)"

definition stored_duration :: "u32 option \<Rightarrow> u32" where
  "stored_duration duration = (case duration of None \<Rightarrow> 0 | Some t \<Rightarrow> t)"

lemma codec_roundtrip:
  assumes "encode_control_command command m = (m', Some (k, a, b, c, d, duration))"
    and "k \<noteq> CcCmdVel"
  shows "decode_control_command (control_value k) a b c d
      (if stored_duration duration = 0 then None else Some (stored_duration duration))
      (command_seq command) m' = delivered command"
  using assms
  by (cases command)
    (auto simp: encode_control_command_def decode_control_command_def plain_def stored_duration_def
      delivered_def nonzero_duration_def command_seq_def is_retired_control_code_def Let_def b32_def
      load_stored_tones split: if_splits)


section \<open>Frame facts\<close>

lemma interrupt_opt_frame [simp]:
  "st_mail (interrupt_opt r s) = st_mail s" "st_safety (interrupt_opt r s) = st_safety s"
  "st_auth (interrupt_opt r s) = st_auth s" "st_session (interrupt_opt r s) = st_session s"
  by (simp_all add: interrupt_opt_def mark_command_interrupted_def split: option.splits)

lemma reject_control_command_simps [simp]:
  "st_mail (fst (reject_control_command i q k r s)) = st_mail s"
  "snd (reject_control_command i q k r s) = Some r"
  by (simp_all add: reject_control_command_def)

lemma accept_immediately_simps [simp]:
  "st_mail (fst (accept_immediately i s)) = st_mail s" "snd (accept_immediately i s) = None"
  by (simp_all add: accept_immediately_def)

lemma store_pending_mail [simp]:
  "st_mail (store_pending i q ss sl (k, a, b, c, d, duration) s) = (st_mail s)\<lparr>mb_id := i, mb_a := a,
     mb_b := b, mb_c := c, mb_d := d, mb_duration := stored_duration duration, mb_seq := q,
     mb_service_session := ss, mb_service_lease := sl, mb_kind := control_value k\<rparr>"
  by (simp add: store_pending_def stored_duration_def)

lemma control_value_zero_iff: "control_value k = 0 \<longleftrightarrow> k = CcNone"
  by (cases k) simp_all

lemma encode_code_not_none: "encode_control_command c m = (m', Some (k, e)) \<Longrightarrow> k \<noteq> CcNone"
  by (cases c) (auto simp: encode_control_command_def plain_def Let_def)

lemma encode_velocity_iff:
  "encode_control_command c m = (m', Some (CcCmdVel, e)) \<Longrightarrow> \<exists>lin ang ttl seq. c = BCmdVel lin ang ttl seq"
  by (cases c) (auto simp: encode_control_command_def plain_def Let_def)

text \<open>Encoding only writes the song tones.\<close>

lemma encode_mailbox: "\<exists>w. fst (encode_control_command c m) = m\<lparr>mb_song_tones := w\<rparr>"
proof (cases c)
  case (BDefineChirp k ts n q)
  then show ?thesis
    by (intro exI) (auto simp: encode_control_command_def Let_def store_pending_song_tones_def)
next
  case (BSongDefine i ts n q)
  then show ?thesis
    by (intro exI) (auto simp: encode_control_command_def Let_def store_pending_song_tones_def)
qed (rule exI [of _ "mb_song_tones m"], simp add: encode_control_command_def)+

lemma load_ignores_slot [simp]:
  "load_pending_song_tones n (m\<lparr>mb_id := i, mb_a := a, mb_b := b, mb_c := c, mb_d := d,
     mb_duration := t, mb_seq := q, mb_service_session := ss, mb_service_lease := sl,
     mb_kind := k\<rparr>) = load_pending_song_tones n m"
  by (simp add: load_pending_song_tones_def)

lemma decode_ignores_slot:
  assumes "mb_song_tones m = mb_song_tones m'"
  shows "decode_control_command k a b c d t q m = decode_control_command k a b c d t q m'"
proof -
  have "load_pending_song_tones n m = load_pending_song_tones n m'" for n
    using assms by (simp add: load_pending_song_tones_def)
  then show ?thesis by (simp only: decode_control_command_def)
qed

section \<open>The slot\<close>

definition is_query :: "brainstem_command \<Rightarrow> bool" where
  "is_query c = (case c of BStatus \<Rightarrow> True | BPing \<Rightarrow> True | BGetEvents _ \<Rightarrow> True
     | BGetCapabilities \<Rightarrow> True | _ \<Rightarrow> False)"

definition is_velocity :: "brainstem_command \<Rightarrow> bool" where
  "is_velocity c = (case c of BCmdVel _ _ _ _ \<Rightarrow> True | _ \<Rightarrow> False)"

definition is_stop :: "brainstem_command \<Rightarrow> bool" where
  "is_stop c = (case c of BStop \<Rightarrow> True | BEStop \<Rightarrow> True | _ \<Rightarrow> False)"

text \<open>An accepted command that is neither a query nor a velocity went through the slot.\<close>

lemma encode_none: "encode_control_command c m = (m', None) \<Longrightarrow> c = BBootsel \<or> (\<exists>q. c = BUnsupported q)"
  by (cases c) (simp_all add: encode_control_command_def plain_def Let_def)

lemma submit_dispatch:
  assumes "\<not> is_query c" and "\<And>q. c \<noteq> BUnsupported q"
    and "encode_control_command c (st_mail s) = (m, Some e)"
    and "snd (submit_control_command pf i c ss sl s) = None"
  shows "submit_control_command pf i c ss sl s =
     (if fst e = CcCmdVel then submit_velocity i (command_seq c) e (s\<lparr>st_mail := m\<rparr>)
      else submit_slot i (command_seq c) ss sl e (s\<lparr>st_mail := m\<rparr>))"
  using assms
  by (cases c) (simp_all add: submit_control_command_def is_query_def split: option.split_asm)

lemma accepted_in_slot:
  assumes acc: "snd (submit_control_command pf i c ss sl s) = None" and "\<not> is_query c" "\<not> is_velocity c"
  obtains m k e where "encode_control_command c (st_mail s) = (m, Some (k, e))" and "k \<noteq> CcCmdVel"
    and "submit_control_command pf i c ss sl s
         = submit_slot i (command_seq c) ss sl (k, e) (s\<lparr>st_mail := m\<rparr>)"
proof -
  obtain m r where e: "encode_control_command c (st_mail s) = (m, r)" by fastforce
  have unsupported: "c \<noteq> BUnsupported q" for q
    using acc by (auto simp: submit_control_command_def)
  have "c \<noteq> BBootsel"
    using acc by (auto simp: submit_control_command_def encode_control_command_def)
  with encode_none [of c "st_mail s" m] e unsupported obtain k e' where r: "r = Some (k, e')"
    by (cases r) auto
  moreover have "k \<noteq> CcCmdVel"
    using encode_velocity_iff [of c "st_mail s" m e'] e r assms(3) by (auto simp: is_velocity_def)
  ultimately show thesis
    using that e submit_dispatch [OF assms(2) unsupported e [unfolded r] acc] by simp
qed

text \<open>The slot after an acceptance.\<close>

definition slot_holds :: "mailbox \<Rightarrow> u32 \<Rightarrow> encoded \<Rightarrow> u32 \<Rightarrow> u32 \<Rightarrow> u32 \<Rightarrow> bool" where
  "slot_holds m i e q ss sl \<longleftrightarrow>
     (case e of (k, a, b, c, d, t) \<Rightarrow>
        mb_kind m = control_value k \<and> mb_id m = i \<and> mb_a m = a \<and> mb_b m = b \<and> mb_c m = c \<and>
        mb_d m = d \<and> mb_duration m = stored_duration t \<and> mb_seq m = q \<and>
        mb_service_session m = ss \<and> mb_service_lease m = sl)"

lemma store_pending_slot:
  "slot_holds (st_mail (store_pending i q ss sl e s)) i e q ss sl"
  "mb_song_tones (st_mail (store_pending i q ss sl e s)) = mb_song_tones (st_mail s)"
  "mb_vel_kind (st_mail (store_pending i q ss sl e s)) = mb_vel_kind (st_mail s)"
  by (cases e, simp add: slot_holds_def)+

lemma preempt_frame:
  "preempt_pending_commands_for_safety i s = (s', r, v) \<Longrightarrow>
   mb_song_tones (st_mail s') = mb_song_tones (st_mail s) \<and> mb_vel_kind (st_mail s') = 0"
  by (auto simp: preempt_pending_commands_for_safety_def Let_def)

lemma submit_slot_accepted:
  assumes "snd (submit_slot i q ss sl e s) = None"
  defines "m \<equiv> st_mail (fst (submit_slot i q ss sl e s))"
  shows "slot_holds m i e q ss sl" and "mb_song_tones m = mb_song_tones (st_mail s)"
    and "fst e = CcStop \<or> fst e = CcEStop \<Longrightarrow> mb_vel_kind m = 0"
proof -
  have "slot_holds m i e q ss sl \<and> mb_song_tones m = mb_song_tones (st_mail s) \<and>
      (fst e = CcStop \<or> fst e = CcEStop \<longrightarrow> mb_vel_kind m = 0)"
  proof (cases "fst e = CcStop \<or> fst e = CcEStop")
    case True
    obtain s' r v where p: "preempt_pending_commands_for_safety i s = (s', r, v)"
      by (cases "preempt_pending_commands_for_safety i s") auto
    have "m = st_mail (store_pending i q ss sl e s')"
      using True by (simp add: m_def submit_slot_def p Let_def)
    then show ?thesis using preempt_frame [OF p] by (simp add: store_pending_slot)
  next
    case False
    then have "m = st_mail (store_pending i q ss sl e s)"
      using assms(1) by (auto simp: m_def submit_slot_def Let_def split: if_splits)
    with False show ?thesis by (simp add: store_pending_slot)
  qed
  then show "slot_holds m i e q ss sl" "mb_song_tones m = mb_song_tones (st_mail s)"
    "fst e = CcStop \<or> fst e = CcEStop \<Longrightarrow> mb_vel_kind m = 0" by blast+
qed

lemma take_from_slot:
  assumes "slot_holds (st_mail s) i (k, a, b, c, d, t) q ss sl" and "k \<noteq> CcNone"
  shows "take_control_command s =
     (s\<lparr>st_mail := (st_mail s)\<lparr>mb_kind := 0\<rparr>,
        st_cmd := (st_cmd s)\<lparr>cs_last_dispatched := i, cs_dispatched_session := ss, cs_dispatched_lease := sl\<rparr>\<rparr>,
      decode_control_command (control_value k) a b c d
        (if stored_duration t = 0 then None else Some (stored_duration t)) q (st_mail s))"
proof -
  have "mb_kind (st_mail s) \<noteq> 0" using assms by (simp add: slot_holds_def control_value_zero_iff)
  then show ?thesis using assms(1) unfolding take_control_command_def Let_def
    by (simp only: slot_holds_def prod.case if_False not_False_eq_True if_True simp_thms)
qed

theorem accepted_command_is_delivered:
  assumes "snd (submit_control_command pf i c ss sl s) = None" and "\<not> is_query c" "\<not> is_velocity c"
  defines "taken \<equiv> take_control_command (fst (submit_control_command pf i c ss sl s))"
  shows "snd taken = delivered c" and "cs_last_dispatched (st_cmd (fst taken)) = i"
    and "is_stop c \<Longrightarrow> snd (take_control_command (fst taken)) = None"
proof -
  let ?s = "fst (submit_control_command pf i c ss sl s)"
  obtain m k e where enc: "encode_control_command c (st_mail s) = (m, Some (k, e))" "k \<noteq> CcCmdVel"
    and sub: "submit_control_command pf i c ss sl s
              = submit_slot i (command_seq c) ss sl (k, e) (s\<lparr>st_mail := m\<rparr>)"
    by (rule accepted_in_slot [OF assms(1-3)])
  obtain a b c' d t where e: "e = (a, b, c', d, t)" by (cases e) auto
  have acc: "snd (submit_slot i (command_seq c) ss sl (k, a, b, c', d, t) (s\<lparr>st_mail := m\<rparr>)) = None"
    using assms(1) by (simp add: sub e)
  note slot = submit_slot_accepted [OF acc, folded e, folded sub]
  have take: "taken = (?s\<lparr>st_mail := (st_mail ?s)\<lparr>mb_kind := 0\<rparr>,
        st_cmd := (st_cmd ?s)\<lparr>cs_last_dispatched := i, cs_dispatched_session := ss, cs_dispatched_lease := sl\<rparr>\<rparr>,
      decode_control_command (control_value k) a b c' d
        (if stored_duration t = 0 then None else Some (stored_duration t)) (command_seq c) (st_mail ?s))"
    unfolding taken_def using slot(1) encode_code_not_none [OF enc(1)]
    by (intro take_from_slot) (simp_all add: e)
  have "mb_song_tones (st_mail ?s) = mb_song_tones m" using slot(2) by simp
  then show "snd taken = delivered c"
    using codec_roundtrip [OF enc(1) [unfolded e] enc(2)]
    by (simp only: take snd_conv decode_ignores_slot [of "st_mail ?s" m])
  show "cs_last_dispatched (st_cmd (fst taken)) = i" by (simp add: take)
  assume "is_stop c"
  then have "k = CcStop \<or> k = CcEStop"
    using enc(1) by (auto simp: is_stop_def encode_control_command_def plain_def split: brainstem_command.splits)
  then have "mb_vel_kind (st_mail ?s) = 0" using slot(3) by simp
  then show "snd (take_control_command (fst taken)) = None"
    by (simp add: take take_control_command_def velocity_pending_def Let_def)
qed

text \<open>A stop is never refused.\<close>

lemma stop_always_accepted: "is_stop c \<Longrightarrow> snd (submit_control_command pf i c ss sl s) = None"
  by (cases c)
    (simp_all add: is_stop_def submit_control_command_def encode_control_command_def plain_def
      submit_slot_def Let_def split: prod.splits)

section \<open>Velocities and refusals\<close>

lemma submit_velocity_command:
  "submit_control_command pf i (BCmdVel lin ang ttl q) ss sl s =
     submit_velocity i q (CcCmdVel, encode_i16 lin, encode_i16 ang, 0, 0, Some ttl) s"
  by (simp add: submit_control_command_def encode_control_command_def command_seq_def)

text \<open>The latest accepted velocity is the one taken, after any pending command.\<close>

theorem accepted_velocity_is_taken:
  assumes "snd (submit_control_command pf i (BCmdVel lin ang ttl q) ss sl s) = None"
    and "mb_kind (st_mail s) = 0"
  shows "snd (take_control_command (fst (submit_control_command pf i (BCmdVel lin ang ttl q) ss sl s)))
    = Some (BCmdVel lin ang ttl q)"
  using assms
  by (auto simp: submit_velocity_command submit_velocity_def take_control_command_def Let_def
      velocity_pending_def split: if_splits option.splits)

lemma velocity_leaves_slot:
  assumes "submit_control_command pf i (BCmdVel lin ang ttl q) ss sl s = (s', r)"
  shows "mb_kind (st_mail s') = mb_kind (st_mail s)" "mb_id (st_mail s') = mb_id (st_mail s)"
    "mb_song_tones (st_mail s') = mb_song_tones (st_mail s)"
  using arg_cong [OF assms, of fst]
  by (auto simp: submit_velocity_command submit_velocity_def Let_def split: option.splits if_splits)

lemma velocity_refused_only_when_stale:
  "snd (submit_control_command pf i (BCmdVel lin ang ttl q) ss sl s) =
     (if velocity_pending (st_mail s) \<and> \<not> seq_is_current_or_newer q (mb_vel_seq (st_mail s))
      then Some RejStaleSequence else None)"
  by (simp add: submit_velocity_command submit_velocity_def Let_def split: option.splits)

text \<open>A refusal leaves every word of the mailbox as it was, the song tones apart.\<close>

lemma submit_slot_refused:
  "snd (submit_slot i q ss sl e s) = Some r \<Longrightarrow> r = RejBusy \<and> st_mail (fst (submit_slot i q ss sl e s)) = st_mail s"
  by (auto simp: submit_slot_def Let_def split: if_splits prod.splits)

lemma submit_velocity_refused:
  "snd (submit_velocity i q e s) = Some r \<Longrightarrow>
   r = RejStaleSequence \<and> st_mail (fst (submit_velocity i q e s)) = st_mail s"
  by (auto simp: submit_velocity_def Let_def split: if_splits prod.splits)

lemma submit_cases:
  obtains "is_query c" | q where "c = BUnsupported q"
  | r where "submit_control_command pf i c ss sl s = fail r s"
  | m where "submit_control_command pf i c ss sl s
        = reject_control_command i (command_seq c) CcNone RejUnsupported (s\<lparr>st_mail := m\<rparr>)"
      and "encode_control_command c (st_mail s) = (m, None)"
  | m e where "encode_control_command c (st_mail s) = (m, Some e)"
      and "submit_control_command pf i c ss sl s =
        (if fst e = CcCmdVel then submit_velocity i (command_seq c) e (s\<lparr>st_mail := m\<rparr>)
         else submit_slot i (command_seq c) ss sl e (s\<lparr>st_mail := m\<rparr>))"
proof -
  obtain m r where e: "encode_control_command c (st_mail s) = (m, r)" by fastforce
  have "is_query c \<or> (\<exists>q. c = BUnsupported q) \<or>
    (\<exists>r. submit_control_command pf i c ss sl s = fail r s) \<or>
    submit_control_command pf i c ss sl s =
      (case r of
         None \<Rightarrow> reject_control_command i (command_seq c) CcNone RejUnsupported (s\<lparr>st_mail := m\<rparr>)
       | Some e \<Rightarrow>
           if fst e = CcCmdVel then submit_velocity i (command_seq c) e (s\<lparr>st_mail := m\<rparr>)
           else submit_slot i (command_seq c) ss sl e (s\<lparr>st_mail := m\<rparr>))"
    using e
  proof (cases c)
    case (BEscapeMotion k g lin ang ttl q)
    then show ?thesis using e
      by (cases "validate_escape_motion pf k g lin ang ttl s"; cases r)
        (auto simp: submit_control_command_def is_query_def)
  qed (simp_all add: submit_control_command_def is_query_def split: option.splits)
  with e that show thesis by (cases r) auto
qed

lemma refusal_mailbox:
  assumes "snd (submit_control_command pf i c ss sl s) = Some r"
  shows "st_mail (fst (submit_control_command pf i c ss sl s)) = st_mail s \<or>
    st_mail (fst (submit_control_command pf i c ss sl s)) = fst (encode_control_command c (st_mail s))"
proof (cases rule: submit_cases [where c = c and pf = pf and i = i and ss = ss and sl = sl and s = s])
  case 1
  then show ?thesis using assms
    by (cases c) (simp_all add: is_query_def submit_control_command_def)
next
  case (2 q)
  then show ?thesis by (simp add: submit_control_command_def)
next
  case (5 m e)
  then show ?thesis
    using assms submit_slot_refused [of i "command_seq c" ss sl e "s\<lparr>st_mail := m\<rparr>"]
      submit_velocity_refused [of i "command_seq c" e "s\<lparr>st_mail := m\<rparr>"]
    by (auto split: if_splits)
qed simp_all

theorem refusal_keeps_mailbox:
  assumes "snd (submit_control_command pf i c ss sl s) = Some r"
  shows "\<exists>w. st_mail (fst (submit_control_command pf i c ss sl s)) = (st_mail s)\<lparr>mb_song_tones := w\<rparr>"
proof -
  have "\<exists>w. st_mail s = (st_mail s)\<lparr>mb_song_tones := w\<rparr>"
    by (rule exI [of _ "mb_song_tones (st_mail s)"]) simp
  with refusal_mailbox [OF assms] encode_mailbox [of c "st_mail s"] show ?thesis by auto
qed

section \<open>Properties\<close>

text \<open>C2. Stop and emergency stop are never refused, and preempt: the next command taken is the
  stop itself, under its own identifier, and nothing that was waiting is delivered after it.\<close>

theorem stop_preempts_mailbox:
  assumes "c = BStop \<or> c = BEStop"
    and "submitted = submit_control_command pf i c ss sl s"
    and "taken = take_control_command (fst submitted)"
  shows "snd submitted = None \<and> snd taken = Some c \<and> cs_last_dispatched (st_cmd (fst taken)) = i \<and>
    snd (take_control_command (fst taken)) = None"
proof -
  have c: "is_stop c" "\<not> is_query c" "\<not> is_velocity c" "delivered c = Some c"
    using assms(1) by (auto simp: is_stop_def is_query_def is_velocity_def delivered_def)
  have acc: "snd (submit_control_command pf i c ss sl s) = None" by (rule stop_always_accepted [OF c(1)])
  show ?thesis
    using accepted_command_is_delivered [OF acc c(2,3)] acc c by (simp add: assms(2,3))
qed

theorem stop_preempts_mailbox_witness:
  "snd (take_control_command (fst (submit_control_command example_platform 8 BEStop 0 0
     (fst (submit_control_command example_platform 7 BDock 0 0 initial_status))))) = Some BEStop"
  using stop_preempts_mailbox [of BEStop _ example_platform 8 0 0
      "fst (submit_control_command example_platform 7 BDock 0 0 initial_status)", OF _ refl refl]
  by simp



text \<open>The latest velocity wins: of two accepted velocities the second is the one taken when no
  other command waits, and then no velocity is left; a velocity is refused only as stale.\<close>

theorem latest_velocity_wins:
  assumes "mb_kind (st_mail s) = 0"
    and "s1 = fst (submit_control_command pf i (BCmdVel lin ang ttl q) ss sl s)"
    and "r = submit_control_command pf i' (BCmdVel lin' ang' ttl' q') ss sl s1"
    and "taken = take_control_command (fst r)"
  shows "(snd r = None \<or> snd r = Some RejStaleSequence) \<and>
    (snd r = None \<longrightarrow> snd taken = Some (BCmdVel lin' ang' ttl' q') \<and>
      snd (take_control_command (fst taken)) = None)"
proof -
  have kind: "mb_kind (st_mail s1) = 0"
    using velocity_leaves_slot(1) [of pf i lin ang ttl q ss sl s] assms(1)
    by (cases "submit_control_command pf i (BCmdVel lin ang ttl q) ss sl s") (simp add: assms(2))
  have kind': "mb_kind (st_mail (fst r)) = 0"
    using velocity_leaves_slot(1) [of pf i' lin' ang' ttl' q' ss sl s1 "fst r" "snd r"] kind
    by (simp add: assms(3))
  have "snd (take_control_command (fst taken)) = None" if "snd r = None"
    using kind' by (simp add: assms(4) take_control_command_def velocity_pending_def Let_def)
  moreover have "snd r = None \<Longrightarrow> snd taken = Some (BCmdVel lin' ang' ttl' q')"
    using accepted_velocity_is_taken [of pf i' lin' ang' ttl' q' ss sl s1] kind
    by (simp add: assms(3,4))
  moreover have "snd r = None \<or> snd r = Some RejStaleSequence"
    by (simp add: assms(3) velocity_refused_only_when_stale)
  ultimately show ?thesis by blast
qed

theorem latest_velocity_wins_witness:
  "snd (take_control_command (fst (submit_control_command example_platform 2 (BCmdVel 20 0 300 6) 0 0
     (fst (submit_control_command example_platform 1 (BCmdVel 10 0 300 5) 0 0 initial_status))))) =
   Some (BCmdVel 20 0 300 6)"
proof -
  have "seq_is_current_or_newer 6 5" by (simp add: seq_is_current_or_newer_def)
  then have "snd (submit_control_command example_platform 2 (BCmdVel 20 0 300 6) 0 0
     (fst (submit_control_command example_platform 1 (BCmdVel 10 0 300 5) 0 0 initial_status))) = None"
    by (simp add: velocity_refused_only_when_stale submit_velocity_command submit_velocity_def
        matching_velocity_stream_def velocity_pending_def initial_status_def initial_mailbox_def Let_def)
  then show ?thesis
    using latest_velocity_wins [of initial_status _ example_platform 1 10 0 300 5 0 0 _ 2 20 0 300 6,
        OF _ refl refl refl]
    by (simp add: initial_status_def initial_mailbox_def)
qed

lemma encode_keeps_mailbox:
  "\<not> (\<exists>sid kind tones n q. c = BSongDefine sid tones n q \<or> c = BDefineChirp kind tones n q) \<Longrightarrow>
   fst (encode_control_command c m) = m"
  by (cases c) (simp_all add: encode_control_command_def)

text \<open>A refusal is no command: it changes neither the pending command nor the pending velocity.
  Only the stored song tones may change, and only a song or chirp definition changes them.\<close>

theorem refused_command_leaves_no_trace:
  assumes "snd (submit_control_command pf i c ss sl s) = Some reason"
  shows "st_mail (fst (submit_control_command pf i c ss sl s)) = st_mail s \<or>
    ((\<exists>w. st_mail (fst (submit_control_command pf i c ss sl s)) = (st_mail s)\<lparr>mb_song_tones := w\<rparr>) \<and>
     (\<exists>sid kind tones n q. c = BSongDefine sid tones n q \<or> c = BDefineChirp kind tones n q))"
proof (cases "\<exists>sid kind tones n q. c = BSongDefine sid tones n q \<or> c = BDefineChirp kind tones n q")
  case True
  with refusal_keeps_mailbox [OF assms] show ?thesis by blast
next
  case False
  then have "fst (encode_control_command c (st_mail s)) = st_mail s" by (rule encode_keeps_mailbox)
  with refusal_mailbox [OF assms] show ?thesis by simp
qed

theorem refused_command_leaves_no_trace_witness:
  "st_mail (fst (submit_control_command example_platform 1 (BUnsupported 4) 0 0 initial_status)) =
     st_mail initial_status"
  using refused_command_leaves_no_trace [of example_platform 1 "BUnsupported 4" 0 0 initial_status RejUnsupported]
  by (simp add: submit_control_command_def)

text \<open>\<open>ResetMotherbrain\<close> and commands of zero duration are accepted but never delivered: the
  submitter is told the command was taken, and the runtime never sees it.\<close>

theorem reset_motherbrain_is_lost:
  assumes "mb_kind (st_mail s) = 0"
    and "c = BResetMotherbrain \<or> c = BHeartbeatStop 0 q \<or> c = BDriveDirect left right 0 q"
    and "submitted = submit_control_command pf i c ss sl s"
  shows "snd submitted = None \<and> snd (take_control_command (fst submitted)) = None"
proof -
  have c: "\<not> is_query c" "\<not> is_velocity c" "delivered c = None"
    using assms(2) by (auto simp: is_query_def is_velocity_def delivered_def nonzero_duration_def)
  have acc: "snd (submit_control_command pf i c ss sl s) = None"
    using assms(1,2)
    by (auto simp: submit_control_command_def encode_control_command_def submit_slot_def plain_def Let_def)
  then show ?thesis
    using accepted_command_is_delivered(1) [OF acc c(1,2)] c(3) by (simp add: assms(3))
qed

theorem reset_motherbrain_is_lost_witness:
  "snd (submit_control_command example_platform 3 BResetMotherbrain 1 2 initial_status) = None \<and>
   snd (take_control_command (fst (submit_control_command example_platform 3 BResetMotherbrain 1 2
     initial_status))) = None"
  by (rule reset_motherbrain_is_lost [OF _ _ refl])
    (simp_all add: initial_status_def initial_mailbox_def)

end
