(* ===== verification/Authority.thy ===== *)
theory Authority
  imports Status_Marks Protocol
begin

text \<open>
  Sessions and authority leases of \<open>status/commands.rs\<close>: the session-replacement handshake
  between the network lane (request) and the runtime lane (acknowledge), diagnostic
  sessions, the control lease with its transition, match, expiry and revocation, and the
  service lease.
\<close>

section \<open>Session replacement\<close>

definition request_session_replace :: "u32 \<Rightarrow> u32 \<Rightarrow> u32 \<Rightarrow> u32 \<Rightarrow> status \<Rightarrow> status" where
  [status_defs]: "request_session_replace generation session_hash peer boot s =
     s\<lparr>st_session := (st_session s)\<lparr>ss_pending_hash := session_hash, ss_pending_peer := peer,
        ss_pending_boot := boot, ss_replace_request := max generation 1\<rparr>\<rparr>"

definition pending_session_replace :: "status \<Rightarrow> u32 option" where
  "pending_session_replace s =
     (let request = ss_replace_request (st_session s) in
      if request \<noteq> 0 \<and> request \<noteq> ss_replace_ack (st_session s) then Some request else None)"

definition pending_session_hash :: "status \<Rightarrow> u32" where
  "pending_session_hash s = ss_pending_hash (st_session s)"

definition revoke_service_authority :: "status \<Rightarrow> status" where
  [status_defs]: "revoke_service_authority s =
     s\<lparr>st_auth := (st_auth s)\<lparr>as_service_lease := 0, as_service_session := 0,
        as_service_expires_ms := 0, as_service_scope := 0\<rparr>\<rparr>"

definition acknowledge_session_replace :: "u32 \<Rightarrow> u32 \<Rightarrow> status \<Rightarrow> status" where
  [status_defs]: "acknowledge_session_replace generation session_hash s =
     (let ss = st_session s;
          previous = ss_active_hash ss;
          previous_device = ss_active_peer ss;
          previous_boot = ss_active_boot ss;
          peer_device = ss_pending_peer ss;
          peer_boot = ss_pending_boot ss;
          s = s\<lparr>st_session := ss\<lparr>ss_active_hash := session_hash, ss_active_generation := generation,
                 ss_active_peer := peer_device, ss_active_boot := peer_boot,
                 ss_replace_ack := generation\<rparr>,
                st_auth := (st_auth s)\<lparr>as_lease := 0, as_session := 0, as_expires_ms := 0\<rparr>\<rparr>;
          s = revoke_service_authority s;
          s = emit (if previous = 0 then KSessionOpened else KSessionReplaced) generation previous
                session_hash s
      in if previous_device = peer_device \<and> previous_boot \<noteq> 0 \<and> previous_boot \<noteq> peer_boot
         then emit KPeerRebootDetected previous_boot peer_boot 0 s else s)"

definition session_replace_acked :: "u32 \<Rightarrow> status \<Rightarrow> bool" where
  "session_replace_acked generation s \<longleftrightarrow> ss_replace_ack (st_session s) = generation"

section \<open>Session lookup\<close>

text \<open>\<open>position\<close> over the four slots.\<close>

fun find_index :: "('a \<Rightarrow> bool) \<Rightarrow> 'a list \<Rightarrow> nat option" where
  "find_index P [] = None"
| "find_index P (x # xs) = (if P x then Some 0 else map_option Suc (find_index P xs))"

definition active_session_matches :: "u32 \<Rightarrow> status \<Rightarrow> bool" where
  "active_session_matches session_hash s \<longleftrightarrow>
     session_hash \<noteq> 0 \<and>
     (ss_active_hash (st_session s) = session_hash \<or>
      list_ex (\<lambda>d. dg_session_hash d = session_hash) (ss_diagnostic (st_session s)))"

definition active_peer_matches :: "u32 \<Rightarrow> status \<Rightarrow> bool" where
  "active_peer_matches device_hash s \<longleftrightarrow> device_hash \<noteq> 0 \<and> ss_active_peer (st_session s) = device_hash"

definition session_peer_matches :: "u32 \<Rightarrow> u32 \<Rightarrow> status \<Rightarrow> bool" where
  "session_peer_matches session_hash peer_hash s =
     (if ss_active_hash (st_session s) = session_hash then ss_active_peer (st_session s) = peer_hash
      else (case find_index (\<lambda>d. dg_session_hash d = session_hash) (ss_diagnostic (st_session s)) of
              None \<Rightarrow> False
            | Some slot \<Rightarrow> dg_peer_hash (ss_diagnostic (st_session s) ! slot) = peer_hash))"

definition register_diagnostic_session ::
  "u32 \<Rightarrow> u32 \<Rightarrow> u32 \<Rightarrow> u8 \<Rightarrow> u8 \<Rightarrow> u8 \<Rightarrow> status \<Rightarrow> status" where
  [status_defs]: "register_diagnostic_session session_hash peer boot role purpose transport s =
     (let ds = ss_diagnostic (st_session s);
          slot = (case find_index (\<lambda>d. dg_session_hash d = session_hash) ds of
                    Some i \<Rightarrow> i
                  | None \<Rightarrow>
                      (case find_index (\<lambda>d. dg_session_hash d = 0) ds of
                         Some i \<Rightarrow> i
                       | None \<Rightarrow> unat session_hash mod diagnostic_session_capacity));
          entry = \<lparr>dg_session_hash = session_hash, dg_peer_hash = peer, dg_peer_boot_hash = boot,
                    dg_role = role, dg_purpose = purpose, dg_transport = transport\<rparr>
      in emit KSessionOpened (ucast role) peer session_hash
           (s\<lparr>st_session := (st_session s)\<lparr>ss_diagnostic := ds[slot := entry]\<rparr>\<rparr>))"

record session_identity =
  si_peer_device :: u32
  si_peer_boot :: u32
  si_role :: u8
  si_purpose :: u8
  si_transport :: u8

definition session_identity_of :: "u32 \<Rightarrow> status \<Rightarrow> session_identity option" where
  "session_identity_of session_hash s =
     (let ss = st_session s in
      if ss_active_hash ss = session_hash
      then Some \<lparr>si_peer_device = ss_active_peer ss, si_peer_boot = ss_active_boot ss, si_role = 1,
             si_purpose = 1, si_transport = ss_transport ss\<rparr>
      else map_option (\<lambda>slot. let d = ss_diagnostic ss ! slot in
             \<lparr>si_peer_device = dg_peer_hash d, si_peer_boot = dg_peer_boot_hash d, si_role = dg_role d,
              si_purpose = dg_purpose d, si_transport = dg_transport d\<rparr>)
             (find_index (\<lambda>d. dg_session_hash d = session_hash) (ss_diagnostic ss)))"

definition session_role :: "u32 \<Rightarrow> status \<Rightarrow> u8 option" where
  "session_role session_hash s =
     (let ss = st_session s in
      if ss_active_hash ss = session_hash then Some 1
      else map_option (\<lambda>slot. dg_role (ss_diagnostic ss ! slot))
             (find_index (\<lambda>d. dg_session_hash d = session_hash) (ss_diagnostic ss)))"

definition mark_transport_changed :: "u8 \<Rightarrow> status \<Rightarrow> status" where
  [status_defs]: "mark_transport_changed transport s =
     (let previous = ss_transport (st_session s);
          s = s\<lparr>st_session := (st_session s)\<lparr>ss_transport := transport\<rparr>\<rparr>
      in if previous \<noteq> 0 \<and> previous \<noteq> transport
         then emit KTransportChanged (ucast previous) (ucast transport) 0 s else s)"

section \<open>Control authority\<close>

definition request_authority_transition :: "u32 \<Rightarrow> u32 \<Rightarrow> u32 \<Rightarrow> u32 \<Rightarrow> status \<Rightarrow> status" where
  [status_defs]: "request_authority_transition generation lease_hash session_hash expires_ms s =
     s\<lparr>st_auth := (st_auth s)\<lparr>as_pending_lease := lease_hash, as_pending_session := session_hash,
        as_expires_ms := expires_ms, as_request := max generation 1\<rparr>\<rparr>"

definition pending_authority_transition :: "status \<Rightarrow> u32 option" where
  "pending_authority_transition s =
     (let request = as_request (st_auth s) in
      if request \<noteq> 0 \<and> request \<noteq> as_ack (st_auth s) then Some request else None)"

text \<open>\<open>now_ms.wrapping_sub(deadline) < u32::MAX / 2\<close> is \<^const>\<open>time_reached\<close>.\<close>

definition authority_expired :: "u32 \<Rightarrow> status \<Rightarrow> bool" where
  "authority_expired now_ms s \<longleftrightarrow>
     (let deadline = as_expires_ms (st_auth s) in deadline = 0 \<or> time_reached now_ms deadline)"

definition pending_authority_continues_owner :: "u32 \<Rightarrow> status \<Rightarrow> bool" where
  "pending_authority_continues_owner now_ms s \<longleftrightarrow>
     \<not> authority_expired now_ms s \<and> as_session (st_auth s) \<noteq> 0 \<and>
     as_session (st_auth s) = as_pending_session (st_auth s)"

definition acknowledge_authority_transition :: "u32 \<Rightarrow> status \<Rightarrow> status" where
  [status_defs]: "acknowledge_authority_transition generation s =
     (let s = revoke_service_authority s;
          s = s\<lparr>st_auth := (st_auth s)\<lparr>as_lease := as_pending_lease (st_auth s),
                 as_session := as_pending_session (st_auth s), as_ack := generation\<rparr>\<rparr>
      in emit KAuthorityChanged generation (as_session (st_auth s)) (as_lease (st_auth s)) s)"

definition authority_transition_acked :: "u32 \<Rightarrow> status \<Rightarrow> bool" where
  "authority_transition_acked generation s \<longleftrightarrow> as_ack (st_auth s) = generation"

definition has_active_authority :: "u32 \<Rightarrow> status \<Rightarrow> bool" where
  "has_active_authority now_ms s \<longleftrightarrow> as_lease (st_auth s) \<noteq> 0 \<and> \<not> authority_expired now_ms s"

definition active_authority_matches :: "u32 \<Rightarrow> u32 \<Rightarrow> u32 \<Rightarrow> status \<Rightarrow> bool" where
  "active_authority_matches session_hash lease_hash now_ms s \<longleftrightarrow>
     \<not> authority_expired now_ms s \<and> as_lease (st_auth s) = lease_hash \<and>
     as_session (st_auth s) = session_hash"

definition authority_heartbeat_valid :: "u32 \<Rightarrow> u32 \<Rightarrow> u32 \<Rightarrow> status \<Rightarrow> bool" where
  "authority_heartbeat_valid session_hash lease_hash now_ms s =
     active_authority_matches session_hash lease_hash now_ms s"

definition revoke_authority :: "status \<Rightarrow> status" where
  [status_defs]: "revoke_authority s =
     (let previous = as_lease (st_auth s);
          s = s\<lparr>st_auth := (st_auth s)\<lparr>as_lease := 0, as_session := 0, as_expires_ms := 0\<rparr>\<rparr>
      in if previous \<noteq> 0 then emit KAuthorityChanged 0 previous 0 s else s)"

definition take_expired_authority :: "u32 \<Rightarrow> status \<Rightarrow> status \<times> bool" where
  "take_expired_authority now_ms s =
     (if as_lease (st_auth s) \<noteq> 0 \<and> authority_expired now_ms s
      then (revoke_authority s, True) else (s, False))"

section \<open>Service authority\<close>

definition install_service_authority :: "u32 \<Rightarrow> u32 \<Rightarrow> u32 \<Rightarrow> u8 \<Rightarrow> status \<Rightarrow> status" where
  [status_defs]: "install_service_authority session_hash lease_hash expires_ms scope s =
     s\<lparr>st_auth := (st_auth s)\<lparr>as_service_session := session_hash, as_service_lease := lease_hash,
        as_service_expires_ms := expires_ms, as_service_scope := scope\<rparr>\<rparr>"

definition active_service_authority_matches :: "u32 \<Rightarrow> u32 \<Rightarrow> u32 \<Rightarrow> u8 \<Rightarrow> status \<Rightarrow> bool" where
  "active_service_authority_matches session_hash lease_hash now_ms scope s \<longleftrightarrow>
     (let deadline = as_service_expires_ms (st_auth s) in
      deadline \<noteq> 0 \<and> \<not> time_reached now_ms deadline \<and>
      as_service_session (st_auth s) = session_hash \<and> as_service_lease (st_auth s) = lease_hash \<and>
      as_service_scope (st_auth s) = scope)"

definition active_service_identity :: "status \<Rightarrow> u32 \<times> u32" where
  "active_service_identity s = (as_service_session (st_auth s), as_service_lease (st_auth s))"

record session_diagnostics =
  sd_generation :: u32
  sd_diagnostic_sessions :: nat
  sd_authority_generation :: u32
  sd_authority_active :: bool
  sd_session_hash :: u32
  sd_owner_role :: u8
  sd_owner_device :: u32
  sd_owner_boot :: u32
  sd_remaining_ms :: u32
  sd_service_active :: bool

definition session_diagnostics :: "u32 \<Rightarrow> status \<Rightarrow> session_diagnostics" where
  "session_diagnostics now_ms s =
     (let active = \<not> authority_expired now_ms s;
          session_hash = (if active then as_session (st_auth s) else 0);
          owner = session_identity_of session_hash s
      in \<lparr>sd_generation = ss_active_generation (st_session s),
          sd_diagnostic_sessions =
            length (filter (\<lambda>d. dg_session_hash d \<noteq> 0) (ss_diagnostic (st_session s))),
          sd_authority_generation = as_ack (st_auth s),
          sd_authority_active = active,
          sd_session_hash = session_hash,
          sd_owner_role = (case owner of None \<Rightarrow> 0 | Some i \<Rightarrow> si_role i),
          sd_owner_device = (case owner of None \<Rightarrow> 0 | Some i \<Rightarrow> si_peer_device i),
          sd_owner_boot = (case owner of None \<Rightarrow> 0 | Some i \<Rightarrow> si_peer_boot i),
          sd_remaining_ms = (if active then as_expires_ms (st_auth s) - now_ms else 0),
          sd_service_active = as_service_lease (st_auth s) \<noteq> 0 \<and>
            active_service_authority_matches (as_service_session (st_auth s))
              (as_service_lease (st_auth s)) now_ms (as_service_scope (st_auth s)) s\<rparr>)"

section \<open>The handshake\<close>

lemma replace_is_pending:
  "ss_replace_ack (st_session s) \<noteq> max generation 1 \<Longrightarrow>
   pending_session_replace (request_session_replace generation h p b s) = Some (max generation 1)"
  by (auto simp: pending_session_replace_def request_session_replace_def Let_def max_def)

lemma replace_acknowledged:
  "pending_session_replace s = Some generation \<Longrightarrow>
   pending_session_replace (acknowledge_session_replace generation h s) = None \<and>
   session_replace_acked generation (acknowledge_session_replace generation h s)"
  by (auto simp: pending_session_replace_def acknowledge_session_replace_def session_replace_acked_def
      revoke_service_authority_def Let_def split: if_splits)

text \<open>Nothing granted to the previous session survives a replacement.\<close>

lemma replace_revokes:
  "\<not> active_authority_matches h l now_ms (acknowledge_session_replace generation h' s)"
  "\<not> active_service_authority_matches h l now_ms scope (acknowledge_session_replace generation h' s)"
  "\<not> has_active_authority now_ms (acknowledge_session_replace generation h' s)"
  by (simp_all add: active_authority_matches_def active_service_authority_matches_def
      has_active_authority_def authority_expired_def acknowledge_session_replace_def
      revoke_service_authority_def Let_def)

lemma replaced_session_is_active:
  "h \<noteq> 0 \<Longrightarrow> active_session_matches h (acknowledge_session_replace generation h s)"
  by (simp add: active_session_matches_def acknowledge_session_replace_def
      revoke_service_authority_def Let_def)

section \<open>Leases\<close>

text \<open>From the acknowledgement on the lease is held exactly until its deadline.\<close>

lemma lease_granted:
  assumes "deadline_span ttl" and "now_ms + ttl \<noteq> 0"
  shows "active_authority_matches h l now_ms
    (acknowledge_authority_transition (max g 1) (request_authority_transition g l h (now_ms + ttl) s))"
  using ms.pending [OF assms(1), of now_ms] assms(2)
  by (simp add: active_authority_matches_def authority_expired_def acknowledge_authority_transition_def
      request_authority_transition_def revoke_service_authority_def Let_def)

lemma lease_expires_exactly:
  assumes "deadline_span ttl" and "deadline_span e" and "now_ms + ttl \<noteq> 0"
  shows "active_authority_matches h l (now_ms + e)
      (acknowledge_authority_transition (max g 1) (request_authority_transition g l h (now_ms + ttl) s))
    \<longleftrightarrow> \<not> span_elapsed ttl e"
  using ms.reached_iff_elapsed [OF assms(1,2), of now_ms] assms(3)
  by (simp add: active_authority_matches_def authority_expired_def
      acknowledge_authority_transition_def request_authority_transition_def
      revoke_service_authority_def Let_def)

lemma lease_identity_unique:
  "active_authority_matches h l now_ms s \<Longrightarrow> active_authority_matches h' l' now_ms s \<Longrightarrow> h = h' \<and> l = l'"
  by (simp add: active_authority_matches_def)

lemma transition_revokes_service:
  "\<not> active_service_authority_matches h l now_ms scope (acknowledge_authority_transition g s)"
  by (simp add: active_service_authority_matches_def acknowledge_authority_transition_def
      revoke_service_authority_def Let_def)

lemma revoke_authority_revokes: "\<not> has_active_authority now_ms (revoke_authority s)"
  by (simp add: has_active_authority_def revoke_authority_def Let_def)

lemma take_expired_iff:
  "snd (take_expired_authority now_ms s) \<longleftrightarrow> as_lease (st_auth s) \<noteq> 0 \<and> authority_expired now_ms s"
  "\<not> has_active_authority now_ms s \<Longrightarrow> as_lease (st_auth (fst (take_expired_authority now_ms s))) = 0"
  by (auto simp: take_expired_authority_def revoke_authority_def has_active_authority_def Let_def)

section \<open>Diagnostic sessions\<close>

lemma find_index_Some: "find_index P xs = Some i \<Longrightarrow> i < length xs \<and> P (xs ! i)"
  by (induction xs arbitrary: i) (auto split: if_splits)

lemma find_index_None: "find_index P xs = None \<longleftrightarrow> (\<forall>x \<in> set xs. \<not> P x)"
  by (induction xs) auto

definition sessions_ok :: "status \<Rightarrow> bool" where
  "sessions_ok s \<longleftrightarrow> length (ss_diagnostic (st_session s)) = diagnostic_session_capacity"

lemma diagnostic_slot_bound:
  "sessions_ok s \<Longrightarrow>
   (case find_index (\<lambda>d. dg_session_hash d = h) (ss_diagnostic (st_session s)) of
      Some i \<Rightarrow> i
    | None \<Rightarrow> (case find_index (\<lambda>d. dg_session_hash d = 0) (ss_diagnostic (st_session s)) of
        Some i \<Rightarrow> i | None \<Rightarrow> unat h mod diagnostic_session_capacity))
   < length (ss_diagnostic (st_session s))"
  by (auto simp: sessions_ok_def diagnostic_session_capacity_def dest: find_index_Some split: option.splits)

lemma list_ex_update: "i < length xs \<Longrightarrow> P y \<Longrightarrow> list_ex P (xs[i := y])"
  by (auto simp: list_ex_iff intro!: bexI [of _ y] set_update_memI)

lemma registered_session_matches:
  assumes "sessions_ok s" and "h \<noteq> 0"
  shows "active_session_matches h (register_diagnostic_session h p b r q t s)"
  using diagnostic_slot_bound [OF assms(1), of h] assms(2)
  by (simp add: active_session_matches_def register_diagnostic_session_def Let_def list_ex_update)

lemma register_keeps_authority:
  "st_auth (register_diagnostic_session h p b r q t s) = st_auth s"
  "ss_active_hash (st_session (register_diagnostic_session h p b r q t s)) = ss_active_hash (st_session s)"
  "sessions_ok s \<Longrightarrow> sessions_ok (register_diagnostic_session h p b r q t s)"
  by (simp_all add: register_diagnostic_session_def sessions_ok_def Let_def)

section \<open>Properties\<close>

text \<open>C38. Lease lifetime: a control lease requested and acknowledged at \<open>now_ms\<close> for \<open>ttl\<close>
  milliseconds matches its own session and lease exactly until \<open>ttl\<close> has passed, matches no
  other session or lease at any time, and leaves no service lease valid.\<close>

theorem lease_lifetime:
  assumes "deadline_span ttl" and "deadline_span e" and "now_ms + ttl \<noteq> 0"
    and "s' = acknowledge_authority_transition (max g 1)
           (request_authority_transition g lease session (now_ms + ttl) s)"
  shows "(active_authority_matches session' lease' (now_ms + e) s' \<longleftrightarrow>
      session' = session \<and> lease' = lease \<and> e < ttl) \<and>
    \<not> active_service_authority_matches session' lease' (now_ms + e) scope s'"
proof -
  have own: "active_authority_matches session lease (now_ms + e) s' \<longleftrightarrow> e < ttl"
    using lease_expires_exactly [OF assms(1-3)] span_elapsed_iff [OF assms(2)] by (simp add: assms(4))
  have "session' = session \<and> lease' = lease" if "active_authority_matches session' lease' (now_ms + e) s'"
    using that by (simp add: assms(4) active_authority_matches_def acknowledge_authority_transition_def
        request_authority_transition_def revoke_service_authority_def Let_def)
  then show ?thesis using own transition_revokes_service by (auto simp: assms(4))
qed

theorem lease_lifetime_witness:
  "active_authority_matches 7 9 (1000 + 4999) (acknowledge_authority_transition (max 3 1)
     (request_authority_transition 3 9 7 (1000 + 5000) initial_status)) \<and>
   \<not> active_authority_matches 7 9 (1000 + 5000) (acknowledge_authority_transition (max 3 1)
     (request_authority_transition 3 9 7 (1000 + 5000) initial_status))"
  using lease_lifetime [of 5000 4999 1000 _ 3 9 7 initial_status 7 9 0, OF _ _ _ refl]
    lease_lifetime [of 5000 5000 1000 _ 3 9 7 initial_status 7 9 0, OF _ _ _ refl]
  by (simp add: deadline_span_def)

text \<open>Replacing the primary session acknowledges the request that was pending, makes the new
  session the active one and revokes the control and the service lease of the old one, whatever
  they were.\<close>

theorem session_replacement_revokes:
  assumes "pending_session_replace s = Some generation" and "h \<noteq> 0"
    and "s' = acknowledge_session_replace generation h s"
  shows "pending_session_replace s' = None \<and> session_replace_acked generation s' \<and>
    active_session_matches h s' \<and> \<not> has_active_authority now_ms s' \<and>
    (\<forall>h' l scope. \<not> active_authority_matches h' l now_ms s' \<and>
      \<not> active_service_authority_matches h' l now_ms scope s')"
  using replace_acknowledged [OF assms(1)] replaced_session_is_active [OF assms(2)]
  by (simp add: assms(3) replace_revokes)

theorem session_replacement_revokes_witness:
  "\<not> has_active_authority 10 (acknowledge_session_replace 4 77
     (request_session_replace 4 77 5 6 (install_service_authority 1 2 3 4 initial_status)))"
  using session_replacement_revokes [of "request_session_replace 4 77 5 6
      (install_service_authority 1 2 3 4 initial_status)" 4 77 _ 10, OF _ _ refl]
  by (simp add: pending_session_replace_def request_session_replace_def install_service_authority_def
      initial_status_def initial_session_status_def)

text \<open>Diagnostic sessions: registering one makes its hash match an active session, keeps the
  table at its four entries, and changes neither the primary session nor any lease.\<close>

theorem diagnostic_registration:
  assumes "sessions_ok s" and "h \<noteq> 0" and "s' = register_diagnostic_session h p b r q t s"
  shows "active_session_matches h s' \<and> sessions_ok s' \<and> st_auth s' = st_auth s \<and>
    ss_active_hash (st_session s') = ss_active_hash (st_session s)"
  using registered_session_matches [OF assms(1,2)] register_keeps_authority assms(1)
  by (simp add: assms(3))

theorem diagnostic_registration_witness:
  "active_session_matches 99 (register_diagnostic_session 99 1 2 3 4 5 initial_status)"
  using diagnostic_registration [of initial_status 99 _ 1 2 3 4 5, OF _ _ refl]
  by (simp add: sessions_ok_def initial_status_def initial_session_status_def diagnostic_session_capacity_def)

end
