(* ===== verification/Network_Registry.thy ===== *)
theory Network_Registry
  imports Authority
begin

text \<open>
  \<open>network_registry.rs\<close>: the DHCP leases the access point has granted and the one name
  registration that may rest on them. IPv4 addresses are the four octets read as one
  big-endian word. The lemmas show who may register, for how long a registration resolves and
  that clearing it ends it.
\<close>

section \<open>Hashes\<close>

text \<open>FNV-1a over bytes, never zero; a DHCP client identifier is hashed as lower-case hex.\<close>

definition hash_byte :: "u32 \<Rightarrow> u8 \<Rightarrow> u32" where
  "hash_byte hash b = (hash XOR ucast b) * 0x01000193"

definition identity_hash :: "u8 list \<Rightarrow> u32" where
  "identity_hash identity = max (fold (\<lambda>b h. hash_byte h b) identity 0x811c9dc5) 1"

definition hex_digit :: "u8 \<Rightarrow> u8" where
  "hex_digit n = (if n < 10 then 48 + n else 87 + n)"

definition dhcp_identity_hash :: "u8 list \<Rightarrow> u32" where
  "dhcp_identity_hash identity =
     max (fold (\<lambda>b h. hash_byte (hash_byte h (hex_digit (drop_bit 4 b))) (hex_digit (b AND 0x0F)))
            identity 0x811c9dc5) 1"

definition hex_text :: "u8 list \<Rightarrow> u8 list" where
  "hex_text identity = concat (map (\<lambda>b. [hex_digit (drop_bit 4 b), hex_digit (b AND 0x0F)]) identity)"

section \<open>State\<close>

record dhcp_lease =
  dl_id :: u32
  dl_ip :: u32
  dl_expiry_ms :: u32

record registry =
  nr_leases :: "dhcp_lease list"
  nr_ip :: u32
  nr_expiry_ms :: u32
  nr_generation :: u32
  nr_lease_id :: u32
  nr_device_hash :: u32
  nr_boot_hash :: u32

definition lease_capacity :: nat where
  "lease_capacity = 8"

definition no_lease :: dhcp_lease where
  "no_lease = \<lparr>dl_id = 0, dl_ip = 0, dl_expiry_ms = 0\<rparr>"

definition initial_registry :: registry where
  "initial_registry = \<lparr>nr_leases = replicate lease_capacity no_lease, nr_ip = 0, nr_expiry_ms = 0,
     nr_generation = 0, nr_lease_id = 0, nr_device_hash = 0, nr_boot_hash = 0\<rparr>"

text \<open>The registry and the status it reports to.\<close>

type_synonym network = "registry \<times> status"

definition mark_dhcp_lease_changed :: "u32 \<Rightarrow> u32 \<Rightarrow> status \<Rightarrow> status" where
  [status_defs]: "mark_dhcp_lease_changed identity ip s = emit KDhcpLeaseChanged identity ip 0 s"

definition mark_dns_registration_changed :: "u32 \<Rightarrow> u32 \<Rightarrow> status \<Rightarrow> status" where
  [status_defs]: "mark_dns_registration_changed generation ip s = emit KDnsRegistrationChanged generation ip 0 s"

section \<open>Operations\<close>

definition record_lease_hash :: "u32 \<Rightarrow> u32 \<Rightarrow> u32 \<Rightarrow> network \<Rightarrow> network" where
  "record_lease_hash key ip expiry_ms n =
     (case n of (r, s) \<Rightarrow>
       (let ls = nr_leases r;
            slot = (case find_index (\<lambda>l. dl_id l = key) ls of
                      Some i \<Rightarrow> i
                    | None \<Rightarrow> (case find_index (\<lambda>l. dl_id l = 0) ls of
                                 Some i \<Rightarrow> i
                               | None \<Rightarrow> unat key mod lease_capacity))
        in (r\<lparr>nr_leases := ls[slot := \<lparr>dl_id = key, dl_ip = ip, dl_expiry_ms = expiry_ms\<rparr>]\<rparr>,
            mark_dhcp_lease_changed key ip s)))"

definition record_lease :: "u8 list \<Rightarrow> u32 \<Rightarrow> u32 \<Rightarrow> network \<Rightarrow> network" where
  "record_lease identity ip expiry_ms n = record_lease_hash (dhcp_identity_hash identity) ip expiry_ms n"

definition lease_identity_is_motherbrain :: "u8 list \<Rightarrow> registry \<Rightarrow> bool" where
  "lease_identity_is_motherbrain identity r \<longleftrightarrow>
     nr_lease_id r \<noteq> 0 \<and> nr_lease_id r = dhcp_identity_hash identity"

definition register_motherbrain ::
  "u8 list \<Rightarrow> u32 \<Rightarrow> u32 \<Rightarrow> u32 \<Rightarrow> u32 \<Rightarrow> u32 \<Rightarrow> network \<Rightarrow> network \<times> (u32 \<times> u32) option" where
  "register_motherbrain identity ip device_hash boot_hash requested_ttl now_ms n =
     (case n of (r, s) \<Rightarrow>
       (let key = identity_hash identity in
        case find_index (\<lambda>l. dl_id l = key) (nr_leases r) of
          None \<Rightarrow> (n, None)
        | Some slot \<Rightarrow>
            (let lease = nr_leases r ! slot in
             if dl_ip lease \<noteq> ip \<or> time_reached now_ms (dl_expiry_ms lease) then (n, None)
             else
               (let remaining = (dl_expiry_ms lease - now_ms) div 1000;
                    ttl = max (min requested_ttl remaining) 1;
                    same = (nr_ip r = ip \<and> nr_lease_id r = key \<and> nr_device_hash r = device_hash \<and>
                            nr_boot_hash r = boot_hash \<and> \<not> time_reached now_ms (nr_expiry_ms r));
                    generation = (if same then max (nr_generation r) 1 else max (nr_generation r + 1) 1);
                    r = r\<lparr>nr_generation := (if same then nr_generation r else nr_generation r + 1),
                          nr_ip := ip, nr_lease_id := key, nr_device_hash := device_hash,
                          nr_boot_hash := boot_hash, nr_expiry_ms := now_ms + ttl * 1000\<rparr>
                in ((r, mark_dns_registration_changed generation ip s), Some (ttl, generation))))))"

definition resolve_motherbrain :: "u32 \<Rightarrow> registry \<Rightarrow> u32 option" where
  "resolve_motherbrain now_ms r =
     (if nr_ip r = 0 \<or> time_reached now_ms (nr_expiry_ms r) then None else Some (nr_ip r))"

definition clear_motherbrain_registration :: "network \<Rightarrow> network" where
  "clear_motherbrain_registration n =
     (case n of (r, s) \<Rightarrow>
       (r\<lparr>nr_ip := 0, nr_expiry_ms := 0, nr_lease_id := 0, nr_device_hash := 0, nr_boot_hash := 0\<rparr>,
        if nr_ip r \<noteq> 0 then mark_dns_registration_changed 0 (nr_ip r) s else s))"

record network_diagnostics =
  nd_active_leases :: nat
  nd_ip :: "u32 option"
  nd_generation :: u32

definition diagnostics :: "u32 \<Rightarrow> registry \<Rightarrow> network_diagnostics" where
  "diagnostics now_ms r =
     \<lparr>nd_active_leases = length (filter (\<lambda>l. dl_id l \<noteq> 0 \<and> \<not> time_reached now_ms (dl_expiry_ms l)) (nr_leases r)),
      nd_ip = resolve_motherbrain now_ms r, nd_generation = nr_generation r\<rparr>"

section \<open>Facts\<close>

text \<open>The client identifier as the access point hashes it is the identity a client sends in hex.\<close>

lemma dhcp_hash_of_hex: "dhcp_identity_hash identity = identity_hash (hex_text identity)"
proof -
  have "fold (\<lambda>b h. hash_byte (hash_byte h (hex_digit (drop_bit 4 b))) (hex_digit (b AND 0x0F))) identity h
      = fold (\<lambda>b h. hash_byte h b) (hex_text identity) h" for h
    by (induction identity arbitrary: h) (simp_all add: hex_text_def)
  then show ?thesis by (simp add: dhcp_identity_hash_def identity_hash_def)
qed

lemma hash_nonzero: "identity_hash identity \<noteq> 0"
proof
  assume "identity_hash identity = 0"
  moreover have "1 \<le> identity_hash identity" by (simp add: identity_hash_def)
  ultimately show False by simp
qed

definition leases_ok :: "registry \<Rightarrow> bool" where
  "leases_ok r \<longleftrightarrow> length (nr_leases r) = lease_capacity"

lemma find_index_update_first:
  "find_index P xs = Some i \<Longrightarrow> P y \<Longrightarrow> find_index P (xs[i := y]) = Some i"
proof (induction xs arbitrary: i)
  case (Cons x xs)
  then show ?case by (cases "P x") auto
qed simp

lemma find_index_update_fresh:
  "find_index P xs = None \<Longrightarrow> i < length xs \<Longrightarrow> P y \<Longrightarrow> find_index P (xs[i := y]) = Some i"
proof (induction xs arbitrary: i)
  case (Cons x xs)
  then show ?case by (cases i) (auto split: if_splits)
qed simp

lemma recorded_lease_found:
  assumes "leases_ok r"
  shows "\<exists>slot < lease_capacity.
    find_index (\<lambda>l. dl_id l = key) (nr_leases (fst (record_lease_hash key ip expiry (r, s)))) = Some slot \<and>
    nr_leases (fst (record_lease_hash key ip expiry (r, s))) ! slot =
      \<lparr>dl_id = key, dl_ip = ip, dl_expiry_ms = expiry\<rparr>"
proof -
  let ?l = "\<lparr>dl_id = key, dl_ip = ip, dl_expiry_ms = expiry\<rparr>"
  have len: "length (nr_leases r) = 8" using assms by (simp add: leases_ok_def lease_capacity_def)
  show ?thesis
  proof (cases "find_index (\<lambda>l. dl_id l = key) (nr_leases r)")
    case (Some i)
    then have "i < 8" using find_index_Some [OF Some] len by simp
    with Some len show ?thesis
      using find_index_update_first [OF Some, of ?l]
      by (simp add: record_lease_hash_def lease_capacity_def)
  next
    case None
    define j where "j = (case find_index (\<lambda>l. dl_id l = 0) (nr_leases r) of
        Some i \<Rightarrow> i | None \<Rightarrow> unat key mod lease_capacity)"
    have "j < 8"
      using find_index_Some [of "\<lambda>l. dl_id l = 0" "nr_leases r"] len
      by (auto simp: j_def lease_capacity_def split: option.split)
    with None len show ?thesis
      using find_index_update_fresh [OF None, of j ?l]
      by (simp add: record_lease_hash_def lease_capacity_def j_def [symmetric] Let_def)
  qed
qed

lemma record_keeps_registration:
  "resolve_motherbrain now_ms (fst (record_lease_hash key ip expiry n)) = resolve_motherbrain now_ms (fst n)"
  "leases_ok (fst n) \<Longrightarrow> leases_ok (fst (record_lease_hash key ip expiry n))"
  by (cases n; simp add: record_lease_hash_def resolve_motherbrain_def leases_ok_def Let_def)+

section \<open>Properties\<close>

text \<open>Only the holder of a live DHCP lease registers: a registration succeeds only with a lease for
  the presented identity and address that has not expired, and a failed one changes nothing.\<close>

theorem registration_needs_live_lease:
  "(\<forall>ttl generation. snd (register_motherbrain identity ip d b req now_ms n) = Some (ttl, generation) \<longrightarrow>
      (\<exists>l \<in> set (nr_leases (fst n)). dl_id l = identity_hash identity \<and> dl_ip l = ip \<and>
        \<not> time_reached now_ms (dl_expiry_ms l))) \<and>
   (snd (register_motherbrain identity ip d b req now_ms n) = None \<longrightarrow>
      fst (register_motherbrain identity ip d b req now_ms n) = n)"
proof -
  obtain r s where n: "n = (r, s)" by (cases n)
  show ?thesis
  proof (cases "find_index (\<lambda>l. dl_id l = identity_hash identity) (nr_leases r)")
    case None
    then show ?thesis by (simp add: n register_motherbrain_def)
  next
    case (Some i)
    have "nr_leases r ! i \<in> set (nr_leases r)" "dl_id (nr_leases r ! i) = identity_hash identity"
      using find_index_Some [OF Some] by simp_all
    then show ?thesis
      by (auto simp: n register_motherbrain_def Some Let_def)
  qed
qed

text \<open>Registration lifetime: a client that was granted an address for \<open>remaining\<close> ms and registers
  with its identifier in hex is registered for the time it asked, cut to the whole seconds the lease
  has left but at least one, and its name resolves to its address exactly that long.\<close>

theorem registration_lifetime:
  assumes "leases_ok r" and "ip \<noteq> 0" and "deadline_span remaining" and "deadline_span e"
    and "n = record_lease identity ip (now_ms + remaining) (r, s)"
    and "ttl = max (min requested (remaining div 1000)) 1"
    and "reg = register_motherbrain (hex_text identity) ip d b requested now_ms n"
  shows "(\<exists>generation. snd reg = Some (ttl, generation)) \<and>
    resolve_motherbrain (now_ms + e) (fst (fst reg)) = (if e < ttl * 1000 then Some ip else None)"
proof -
  let ?key = "identity_hash (hex_text identity)"
  obtain r' s' where n: "n = (r', s')" by (cases n)
  obtain slot where slot: "find_index (\<lambda>l. dl_id l = ?key) (nr_leases r') = Some slot"
    "nr_leases r' ! slot = \<lparr>dl_id = ?key, dl_ip = ip, dl_expiry_ms = now_ms + remaining\<rparr>"
    using recorded_lease_found [OF assms(1), of ?key ip "now_ms + remaining" s] n assms(5)
    by (auto simp: record_lease_def dhcp_hash_of_hex)
  have live: "\<not> time_reached now_ms (now_ms + remaining)" by (rule ms.pending [OF assms(3)])
  have ttl: "ttl = max (min requested ((now_ms + remaining - now_ms) div 1000)) 1" by (simp add: assms(6))
  have "unat (remaining div 1000) * 1000 \<le> unat remaining" by (simp add: unat_div)
  moreover have "unat ttl \<le> max (unat (remaining div 1000)) 1"
    by (auto simp: assms(6) max_def min_def word_le_nat_alt)
  moreover have "unat remaining \<le> 2147483646"
    using assms(3) by (simp add: deadline_span_def word_le_nat_alt)
  ultimately have bound: "unat ttl * 1000 \<le> 2147483646" by (auto simp: max_def split: if_splits)
  moreover have "1 \<le> unat ttl" by (simp add: assms(6) max_def word_le_nat_alt)
  ultimately have span: "deadline_span (ttl * 1000)"
    by (simp add: deadline_span_def word_less_nat_alt word_le_nat_alt unat_word_ariths)
  have "time_reached (now_ms + e) (now_ms + ttl * 1000) \<longleftrightarrow> \<not> e < ttl * 1000"
    using ms.reached_iff_elapsed [OF span assms(4)] span_elapsed_iff [OF assms(4)] by blast
  then show ?thesis
    using live slot assms(2) ttl
    by (auto simp: assms(7) n register_motherbrain_def Let_def resolve_motherbrain_def)
qed

theorem registration_lifetime_witness:
  "resolve_motherbrain (1000 + 4999) (fst (fst (register_motherbrain (hex_text [9]) 7 1 2 5 1000
     (record_lease [9] 7 (1000 + 60000) (initial_registry, initial_status))))) = Some 7"
  using registration_lifetime [of initial_registry 7 60000 4999 _ "[9]" 1000 initial_status _ 5 _ 1 2,
      OF _ _ _ _ refl refl refl]
  by (simp add: leases_ok_def initial_registry_def deadline_span_def min_def max_def word_le_nat_alt
      word_less_nat_alt)

lemma nobody_registered: "find_index (\<lambda>l. dl_id l = identity_hash x) (nr_leases initial_registry) = None"
  using hash_nonzero [of x] by (auto simp: find_index_None initial_registry_def no_lease_def)

theorem registration_needs_live_lease_witness:
  "fst (register_motherbrain [1] 7 1 2 5 1000 (initial_registry, initial_status)) = (initial_registry, initial_status)"
proof -
  have "snd (register_motherbrain [1] 7 1 2 5 1000 (initial_registry, initial_status)) = None"
    by (simp add: register_motherbrain_def nobody_registered)
  then show ?thesis
    using registration_needs_live_lease [of "[1]" 7 1 2 5 1000 "(initial_registry, initial_status)"] by blast
qed

end
