(* ===== verification/Runtime_State.thy ===== *)
theory Runtime_State
  imports Stream_Parser Mailbox Escape Network_Registry
begin

text \<open>
  The runtime \<open>Runtime<H>\<close> of \<open>runtime.rs\<close>: its state, grouped by responsibility into nested
  records under \<open>sys\<close>, and the helpers of \<open>runtime/state.rs\<close> with the two operations all
  others rest on, \<open>stop_drive\<close> (\<open>runtime/execution.rs\<close>) and \<open>request_audio\<close>
  (\<open>runtime/safety.rs\<close>). Every \<open>now_ms()\<close> of the source is one reading of the clock.
\<close>

section \<open>Constants\<close>

definition command_queue_capacity :: nat where "command_queue_capacity = 16"
definition runtime_tick_ms :: u32 where "runtime_tick_ms = 10"
definition contact_repeat_window_ms :: u32 where "contact_repeat_window_ms = 2000"
definition contact_withdrawal_duration_ms :: u32 where "contact_withdrawal_duration_ms = 300"
definition contact_withdrawal_speed_mm_s :: i16 where "contact_withdrawal_speed_mm_s = 80"
definition motherbrain_reset_history_capacity :: nat where "motherbrain_reset_history_capacity = 16"

section \<open>State\<close>

datatype runtime_mode = MRunning | MIdle | MError

datatype safety_response = RespondStop | RespondContactWithdrawal

text \<open>Arguments in the order of the fields of the source.\<close>

datatype active_action =
    ANone
  | APowerPulse u32 "u32 option" bool
  | AWakeSettle u32
  | AWaitForCreate u32 u32 u8 bool bool
  | ASettle u32
  | ADriving u32
  | ADockDeparture u32

record sensor_stream =
  sm_packet_id :: u8
  sm_period_ms :: u32
  sm_next_request_ms :: u32

record queued_command =
  q_id :: u32
  q_command :: runtime_command
  q_recovery :: bool

definition queued :: "u32 \<Rightarrow> runtime_command \<Rightarrow> queued_command" where
  "queued i c = \<lparr>q_id = i, q_command = c, q_recovery = False\<rparr>"

definition queued_recovery :: "u32 \<Rightarrow> runtime_command \<Rightarrow> queued_command" where
  "queued_recovery i c = \<lparr>q_id = i, q_command = c, q_recovery = True\<rparr>"

record reset_identity =
  ri_session_hash :: u32
  ri_lease_hash :: u32
  ri_command_id :: u32

datatype reset_outcome = ResetRefused motherbrain_reset_refusal | ResetAsserted | ResetCompleted

record reset_record =
  rr_identity :: reset_identity
  rr_outcome :: reset_outcome

record active_reset =
  ar_identity :: reset_identity
  ar_release_at_ms :: u32

record active_withdrawal =
  aw_started_at_ms :: u32
  aw_baseline_mm :: u32

record active_velocity =
  av_linear :: i16
  av_angular :: i16

record active_escape =
  ae_kind :: safety_latch_kind
  ae_generation :: u32
  ae_linear :: i16
  ae_angular :: i16
  ae_ttl_ms :: u32

text \<open>The command lane and what it is doing.\<close>

record run_state =
  rn_commands :: "queued_command list"
  rn_mode :: runtime_mode
  rn_active :: active_action
  rn_command_id :: "u32 option"
  rn_velocity :: "active_velocity option"
  rn_escape :: "active_escape option"
  rn_stop_sent :: bool
  rn_heartbeat_at :: "u32 option"
  rn_careful_until :: "u32 option"
  rn_recovery_motion :: bool

text \<open>The latches and observations that gate motion.\<close>

record gate_state =
  gt_latched :: bool
  gt_kind :: "safety_event_kind option"
  gt_dock_departure :: bool
  gt_charging :: bool
  gt_estop :: bool
  gt_last_bump :: bool
  gt_last_cliff :: bool
  gt_last_wheel_drop :: bool
  gt_observed :: bool
  gt_tilt_since :: "u32 option"
  gt_withdrawal :: "active_withdrawal option"
  gt_last_withdrawal_at :: "u32 option"
  gt_repeated_contacts :: u8

text \<open>The link to the Create: its freshness and the periodic work on it.\<close>

record create_state =
  cr_responsive :: bool
  cr_observed_packets :: u32
  cr_last_packet_at :: "u32 option"
  cr_stream :: "sensor_stream option"
  cr_next_sources_ms :: u32
  cr_next_complete_ms :: u32
  cr_next_imu_ms :: u32
  cr_next_full_ms :: u32
  cr_next_light_ms :: u32
  cr_light_phase :: u8
  cr_last_tick_ms :: u32

text \<open>Sound, and the edges it announces.\<close>

record voice_state =
  vo_chirps :: "tones list"
  vo_chirp_counts :: "u8 list"
  vo_audio :: annunciator
  vo_durations :: "u32 list"
  vo_low_battery :: bool
  vo_charging :: bool
  vo_imu_recovery_since :: "u32 option"
  vo_inconsistency_until :: u32
  vo_docking :: bool
  vo_last_ir :: u8
  vo_restart_pending :: bool
  vo_full_ready :: bool
  vo_ever_full_ready :: bool
  vo_imu_fault :: bool
  vo_inconsistent :: bool

record blink_state =
  bl_error_next_ms :: u32
  bl_error_on :: bool
  bl_error_count :: u8
  bl_idle_next_ms :: u32
  bl_idle_on :: bool

record reset_state =
  mr_active :: "active_reset option"
  mr_cooldown_until :: u32
  mr_enabled :: bool
  mr_history :: "reset_record option list"
  mr_next :: nat

text \<open>The whole: the driver's link (hardware, status, UART, event queue), the groups above and
  the network registry the session barrier clears.\<close>

record sys =
  sy_link :: link
  sy_run :: run_state
  sy_gate :: gate_state
  sy_create :: create_state
  sy_voice :: voice_state
  sy_blink :: blink_state
  sy_reset :: reset_state
  sy_registry :: registry

type_synonym sys_outcome = "(sys, brainstem_error) outcome"

definition on_link :: "(link \<Rightarrow> link) \<Rightarrow> sys \<Rightarrow> sys" where
  "on_link f y = y\<lparr>sy_link := f (sy_link y)\<rparr>"

definition on_run :: "(run_state \<Rightarrow> run_state) \<Rightarrow> sys \<Rightarrow> sys" where
  "on_run f y = y\<lparr>sy_run := f (sy_run y)\<rparr>"

definition on_gate :: "(gate_state \<Rightarrow> gate_state) \<Rightarrow> sys \<Rightarrow> sys" where
  "on_gate f y = y\<lparr>sy_gate := f (sy_gate y)\<rparr>"

definition on_create :: "(create_state \<Rightarrow> create_state) \<Rightarrow> sys \<Rightarrow> sys" where
  "on_create f y = y\<lparr>sy_create := f (sy_create y)\<rparr>"

definition on_voice :: "(voice_state \<Rightarrow> voice_state) \<Rightarrow> sys \<Rightarrow> sys" where
  "on_voice f y = y\<lparr>sy_voice := f (sy_voice y)\<rparr>"

definition on_blink :: "(blink_state \<Rightarrow> blink_state) \<Rightarrow> sys \<Rightarrow> sys" where
  "on_blink f y = y\<lparr>sy_blink := f (sy_blink y)\<rparr>"

definition on_reset :: "(reset_state \<Rightarrow> reset_state) \<Rightarrow> sys \<Rightarrow> sys" where
  "on_reset f y = y\<lparr>sy_reset := f (sy_reset y)\<rparr>"

definition on_registry :: "(registry \<Rightarrow> registry) \<Rightarrow> sys \<Rightarrow> sys" where
  "on_registry f y = y\<lparr>sy_registry := f (sy_registry y)\<rparr>"

lemma on_group_simps [simp]:
  "sy_link (on_link f_link y) = f_link (sy_link y)" "sy_run (on_link f_link y) = sy_run y" "sy_gate (on_link f_link y) = sy_gate y" "sy_create (on_link f_link y) = sy_create y" "sy_voice (on_link f_link y) = sy_voice y" "sy_blink (on_link f_link y) = sy_blink y" "sy_reset (on_link f_link y) = sy_reset y" "sy_registry (on_link f_link y) = sy_registry y"
  "sy_link (on_run f_run y) = sy_link y" "sy_run (on_run f_run y) = f_run (sy_run y)" "sy_gate (on_run f_run y) = sy_gate y" "sy_create (on_run f_run y) = sy_create y" "sy_voice (on_run f_run y) = sy_voice y" "sy_blink (on_run f_run y) = sy_blink y" "sy_reset (on_run f_run y) = sy_reset y" "sy_registry (on_run f_run y) = sy_registry y"
  "sy_link (on_gate f_gate y) = sy_link y" "sy_run (on_gate f_gate y) = sy_run y" "sy_gate (on_gate f_gate y) = f_gate (sy_gate y)" "sy_create (on_gate f_gate y) = sy_create y" "sy_voice (on_gate f_gate y) = sy_voice y" "sy_blink (on_gate f_gate y) = sy_blink y" "sy_reset (on_gate f_gate y) = sy_reset y" "sy_registry (on_gate f_gate y) = sy_registry y"
  "sy_link (on_create f_create y) = sy_link y" "sy_run (on_create f_create y) = sy_run y" "sy_gate (on_create f_create y) = sy_gate y" "sy_create (on_create f_create y) = f_create (sy_create y)" "sy_voice (on_create f_create y) = sy_voice y" "sy_blink (on_create f_create y) = sy_blink y" "sy_reset (on_create f_create y) = sy_reset y" "sy_registry (on_create f_create y) = sy_registry y"
  "sy_link (on_voice f_voice y) = sy_link y" "sy_run (on_voice f_voice y) = sy_run y" "sy_gate (on_voice f_voice y) = sy_gate y" "sy_create (on_voice f_voice y) = sy_create y" "sy_voice (on_voice f_voice y) = f_voice (sy_voice y)" "sy_blink (on_voice f_voice y) = sy_blink y" "sy_reset (on_voice f_voice y) = sy_reset y" "sy_registry (on_voice f_voice y) = sy_registry y"
  "sy_link (on_blink f_blink y) = sy_link y" "sy_run (on_blink f_blink y) = sy_run y" "sy_gate (on_blink f_blink y) = sy_gate y" "sy_create (on_blink f_blink y) = sy_create y" "sy_voice (on_blink f_blink y) = sy_voice y" "sy_blink (on_blink f_blink y) = f_blink (sy_blink y)" "sy_reset (on_blink f_blink y) = sy_reset y" "sy_registry (on_blink f_blink y) = sy_registry y"
  "sy_link (on_reset f_reset y) = sy_link y" "sy_run (on_reset f_reset y) = sy_run y" "sy_gate (on_reset f_reset y) = sy_gate y" "sy_create (on_reset f_reset y) = sy_create y" "sy_voice (on_reset f_reset y) = sy_voice y" "sy_blink (on_reset f_reset y) = sy_blink y" "sy_reset (on_reset f_reset y) = f_reset (sy_reset y)" "sy_registry (on_reset f_reset y) = sy_registry y"
  "sy_link (on_registry f_registry y) = sy_link y" "sy_run (on_registry f_registry y) = sy_run y" "sy_gate (on_registry f_registry y) = sy_gate y" "sy_create (on_registry f_registry y) = sy_create y" "sy_voice (on_registry f_registry y) = sy_voice y" "sy_blink (on_registry f_registry y) = sy_blink y" "sy_reset (on_registry f_registry y) = sy_reset y" "sy_registry (on_registry f_registry y) = f_registry (sy_registry y)"
  by (simp_all add: on_link_def on_run_def on_gate_def on_create_def on_voice_def on_blink_def on_reset_def on_registry_def)

abbreviation on_st :: "(status \<Rightarrow> status) \<Rightarrow> sys \<Rightarrow> sys" where "on_st f \<equiv> on_link (on_status f)"
abbreviation st_of :: "sys \<Rightarrow> status" where "st_of y \<equiv> ln_status (sy_link y)"
abbreviation pf_of :: "sys \<Rightarrow> platform" where "pf_of y \<equiv> ln_platform (sy_link y)"
abbreviation set_active :: "active_action \<Rightarrow> sys \<Rightarrow> sys" where
  "set_active a \<equiv> on_run (\<lambda>r. r\<lparr>rn_active := a\<rparr>)"
abbreviation clear_commands :: "sys \<Rightarrow> sys" where
  "clear_commands \<equiv> on_run (\<lambda>r. r\<lparr>rn_commands := []\<rparr>)"

text \<open>\<open>let now_ms = self.now_ms()\<close>: the reading and the state after it.\<close>

definition clock_ms :: "sys \<Rightarrow> u32" where
  "clock_ms y = snd (hw_now_ms (ln_hw (sy_link y)))"

definition clock_read :: "sys \<Rightarrow> sys" where
  "clock_read y = on_link (on_hw (\<lambda>h. fst (hw_now_ms h))) y"

definition with_now :: "(u32 \<Rightarrow> sys \<Rightarrow> 'r) \<Rightarrow> sys \<Rightarrow> 'r" where
  "with_now f y = f (clock_ms y) (clock_read y)"

text \<open>A driver operation inside the runtime.\<close>

definition lift_link :: "(link \<Rightarrow> link_outcome) \<Rightarrow> sys \<Rightarrow> sys_outcome" where
  "lift_link f y = (on_link (\<lambda>_. fst (f (sy_link y))) y, snd (f (sy_link y)))"

section \<open>Marks\<close>

definition mark_bump_changed :: "bool \<Rightarrow> status \<Rightarrow> status" where
  "mark_bump_changed active s = emit KBumpChanged (b32 active) 0 0 s"

definition mark_cliff_changed :: "bool \<Rightarrow> status \<Rightarrow> status" where
  "mark_cliff_changed active s = emit KCliffChanged (b32 active) 0 0 s"

definition mark_wheel_drop_latched :: "status \<Rightarrow> status" where
  "mark_wheel_drop_latched s = emit KWheelDropLatched 1 0 0 s"

definition mark_wheel_drop_cleared :: "status \<Rightarrow> status" where
  "mark_wheel_drop_cleared s = emit KWheelDropCleared 0 0 0 s"

definition mark_heartbeat_expired :: "status \<Rightarrow> status" where
  "mark_heartbeat_expired s = emit KHeartbeatExpired 0 0 0 s"

definition mark_estop_latched :: "status \<Rightarrow> status" where
  "mark_estop_latched s = emit KEStopLatched 1 0 0 s"

definition mark_estop_cleared :: "status \<Rightarrow> status" where
  "mark_estop_cleared s = emit KEStopCleared 0 0 0 s"

definition mark_motherbrain_reset_requested :: "u32 \<Rightarrow> u32 \<Rightarrow> u32 \<Rightarrow> status \<Rightarrow> status" where
  "mark_motherbrain_reset_requested command_id session_hash lease_hash s =
     emit KMotherbrainResetRequested command_id session_hash lease_hash s"

definition mark_motherbrain_reset_asserted :: "u32 \<Rightarrow> u32 \<Rightarrow> u32 \<Rightarrow> status \<Rightarrow> status" where
  "mark_motherbrain_reset_asserted command_id session_hash lease_hash s =
     emit KMotherbrainResetAsserted command_id session_hash lease_hash s"

definition mark_motherbrain_reset_completed :: "u32 \<Rightarrow> u32 \<Rightarrow> u32 \<Rightarrow> status \<Rightarrow> status" where
  "mark_motherbrain_reset_completed command_id session_hash lease_hash s =
     emit KMotherbrainResetCompleted command_id session_hash lease_hash s"

definition mark_motherbrain_reset_refused :: "motherbrain_reset_refusal \<Rightarrow> u32 \<Rightarrow> u32 \<Rightarrow> status \<Rightarrow> status" where
  "mark_motherbrain_reset_refused reason session_hash lease_hash s =
     emit KMotherbrainResetRefused (reset_refusal_code reason) session_hash lease_hash s"

lemmas runtime_mark_defs =
  mark_bump_changed_def mark_cliff_changed_def mark_wheel_drop_latched_def mark_wheel_drop_cleared_def
  mark_heartbeat_expired_def mark_estop_latched_def mark_estop_cleared_def
  mark_motherbrain_reset_requested_def mark_motherbrain_reset_asserted_def
  mark_motherbrain_reset_completed_def mark_motherbrain_reset_refused_def

section \<open>Operations of \<open>runtime/state.rs\<close>\<close>

fun active_action_code :: "active_action \<Rightarrow> runtime_action_code" where
  "active_action_code ANone = ActNone"
| "active_action_code (APowerPulse _ _ _) = ActPowerPulse"
| "active_action_code (AWakeSettle _) = ActWakeSettle"
| "active_action_code (AWaitForCreate _ _ _ _ _) = ActWaitForCreate"
| "active_action_code (ASettle _) = ActSettle"
| "active_action_code (ADriving _) = ActDriving"
| "active_action_code (ADockDeparture _) = ActDriving"

fun is_power_pulse :: "active_action \<Rightarrow> bool" where
  "is_power_pulse (APowerPulse _ _ _) = True"
| "is_power_pulse _ = False"

fun is_driving :: "active_action \<Rightarrow> bool" where
  "is_driving (ADriving _) = True"
| "is_driving _ = False"

fun is_dock_departure :: "active_action \<Rightarrow> bool" where
  "is_dock_departure (ADockDeparture _) = True"
| "is_dock_departure _ = False"

definition push_event :: "brainstem_event \<Rightarrow> sys \<Rightarrow> sys" where
  "push_event event y = on_link (publish event) y"

text \<open>\<open>if let Some(id) = self.active_command_id.take() { mark(id) }\<close>\<close>

definition close_command :: "(u32 \<Rightarrow> status \<Rightarrow> status) \<Rightarrow> sys \<Rightarrow> sys" where
  "close_command mark y =
     (case rn_command_id (sy_run y) of
        None \<Rightarrow> y
      | Some i \<Rightarrow> on_st (mark i) (on_run (\<lambda>r. r\<lparr>rn_command_id := None\<rparr>) y))"

definition complete_active_command :: "sys \<Rightarrow> sys" where
  "complete_active_command y =
     close_command mark_command_completed
       (on_st clear_velocity_stream (on_run (\<lambda>r. r\<lparr>rn_recovery_motion := False\<rparr>) y))"

definition refuse_active_command :: "sys \<Rightarrow> sys" where
  "refuse_active_command y =
     close_command mark_command_interrupted
       (on_st clear_velocity_stream (on_run (\<lambda>r. r\<lparr>rn_recovery_motion := False\<rparr>) y))"

definition interrupt_active_command :: "sys \<Rightarrow> sys" where
  "interrupt_active_command y =
     (let y = (if is_power_pulse (rn_active (sy_run y)) then on_link (on_hw end_power_toggle_pulse) y else y);
          y = on_run (\<lambda>r. r\<lparr>rn_recovery_motion := False, rn_velocity := None, rn_escape := None\<rparr>) y
      in close_command mark_command_interrupted (on_st clear_velocity_stream y))"

definition fail_active_command :: "brainstem_error \<Rightarrow> sys \<Rightarrow> sys" where
  "fail_active_command error y =
     close_command
       (case error of
          CreateNoResponse \<Rightarrow> mark_command_timed_out
        | Timeout \<Rightarrow> mark_command_timed_out
        | UartFraming \<Rightarrow> mark_command_interrupted
        | InvalidPacket \<Rightarrow> mark_command_interrupted)
       (on_st clear_velocity_stream (on_run (\<lambda>r. r\<lparr>rn_recovery_motion := False\<rparr>) y))"

definition request_audio :: "auditory_cue \<Rightarrow> sys \<Rightarrow> sys" where
  "request_audio cue = with_now (\<lambda>now_ms y.
     (let y = on_st (mark_audio_cue_requested (cue_code cue)) y in
      case au_request cue now_ms (vo_audio (sy_voice y)) of
        (a, result) \<Rightarrow>
          (let y = on_voice (\<lambda>v. v\<lparr>vo_audio := a\<rparr>) y in
           case result of
             CueSuppressed \<Rightarrow> on_st increment_audio_suppressed_by_silent y
           | CueDropped \<Rightarrow> on_st (increment_audio_dropped_or_replaced 1) y
           | CueReady \<Rightarrow> y
           | CueQueued \<Rightarrow> y)))"

definition stop_drive :: "sys \<Rightarrow> sys_outcome" where
  "stop_drive y =
     and_then (lift_link uart_stop y) (\<lambda>y.
       ok (on_run (\<lambda>r. r\<lparr>rn_heartbeat_at := None\<rparr>)
            (on_st clear_velocity_stream
              (on_run (\<lambda>r. r\<lparr>rn_stop_sent := True, rn_velocity := None, rn_escape := None\<rparr>) y))))"

definition odometry_distance :: "sys \<Rightarrow> u32" where
  "odometry_distance y = od_distance_mm (st_odo (st_of y))"

definition start_contact_withdrawal :: "u8 \<Rightarrow> u32 \<Rightarrow> u32 \<Rightarrow> sys \<Rightarrow> sys" where
  "start_contact_withdrawal contact_bits preempted baseline = with_now (\<lambda>now_ms y.
     (let repeated = (case gt_last_withdrawal_at (sy_gate y) of
                        Some previous \<Rightarrow>
                          if now_ms - previous \<le> contact_repeat_window_ms
                          then max (sat_add (gt_repeated_contacts (sy_gate y)) 1) 1 else 1
                      | None \<Rightarrow> 1);
          y = on_gate (\<lambda>g. g\<lparr>gt_repeated_contacts := repeated, gt_last_withdrawal_at := Some now_ms,
                 gt_withdrawal := Some \<lparr>aw_started_at_ms = now_ms, aw_baseline_mm = baseline\<rparr>\<rparr>) y
      in on_st (mark_contact_withdrawal_started contact_bits repeated preempted
                  contact_withdrawal_speed_mm_s (ucast (min contact_withdrawal_duration_ms 65535))) y))"

definition finish_contact_withdrawal ::
  "contact_withdrawal_outcome \<Rightarrow> safety_event_kind option \<Rightarrow> bool \<Rightarrow> sys \<Rightarrow> sys" where
  "finish_contact_withdrawal outcome dominating final_stopped y =
     (case gt_withdrawal (sy_gate y) of
        None \<Rightarrow> y
      | Some active \<Rightarrow>
          with_now (\<lambda>now_ms y.
            (let y = on_st (mark_contact_withdrawal_completed outcome dominating final_stopped
                              (odometry_distance y - aw_baseline_mm active)
                              (now_ms - aw_started_at_ms active)) y
             in if outcome = WithdrawalSafetyPreempted \<or> outcome = WithdrawalFailed
                then request_audio CueServiceFailure y else y))
            (on_gate (\<lambda>g. g\<lparr>gt_withdrawal := None\<rparr>) y))"

definition update_safety_edges :: "bool \<Rightarrow> bool \<Rightarrow> bool \<Rightarrow> sys \<Rightarrow> sys" where
  "update_safety_edges bump cliff wheel_drop y =
     (let y = (if bump \<noteq> gt_last_bump (sy_gate y)
               then on_gate (\<lambda>g. g\<lparr>gt_last_bump := bump\<rparr>) (on_st (mark_bump_changed bump) y) else y);
          y = (if cliff \<noteq> gt_last_cliff (sy_gate y)
               then on_gate (\<lambda>g. g\<lparr>gt_last_cliff := cliff\<rparr>) (on_st (mark_cliff_changed cliff) y) else y)
      in if wheel_drop \<noteq> gt_last_wheel_drop (sy_gate y)
         then on_gate (\<lambda>g. g\<lparr>gt_last_wheel_drop := wheel_drop\<rparr>)
                (if \<not> wheel_drop then on_st mark_wheel_drop_cleared y else y)
         else y)"

section \<open>Frame facts\<close>

lemma driver_platform [simp]:
  "ln_platform (fst (request_sensor_packet p l)) = ln_platform l" "ln_platform (fst (uart_start_oi l)) = ln_platform l"
  "ln_platform (fst (uart_set_mode m l)) = ln_platform l" "ln_platform (fst (refresh_full_mode l)) = ln_platform l"
  "ln_platform (fst (uart_stop l)) = ln_platform l" "ln_platform (fst (play_song sid l)) = ln_platform l"
  "ln_platform (fst (define_song sid ts n l)) = ln_platform l"
  "ln_platform (fst (uart_set_lights b c i l)) = ln_platform l"
  "ln_platform (fst (set_supervision_lights b c i l)) = ln_platform l" "ln_platform (flush_rx l) = ln_platform l"
  "ln_platform (fst (drive_direct a d u l)) = ln_platform l" "ln_platform (fst (drive_arc a d l)) = ln_platform l"
  "ln_platform (fst (seek_dock l)) = ln_platform l"
  by (simp_all add: request_sensor_packet_def uart_start_oi_def uart_set_mode_def refresh_full_mode_def
      uart_stop_def uart_drive_def play_song_def define_song_def uart_set_lights_def set_supervision_lights_def
      flush_rx_def send_byte_def fst_and_then Let_def drive_direct_def drive_arc_def seek_dock_def
      split: option.split create_oi_mode.split)

lemma hw_local [simp]:
  "hw_tx (begin_power_toggle_pulse h) = hw_tx h" "hw_tx (end_power_toggle_pulse h) = hw_tx h"
  "hw_tx (set_indicators on h) = hw_tx h" "hw_tx (set_motherbrain_reset b h) = hw_tx h"
  "hw_tx (feed_watchdog h) = hw_tx h" "hw_tx (delay_ms ms h) = hw_tx h"
  "hw_tx (fst (poll_imu_sample h)) = hw_tx h" "hw_tx (fst (set_create_uart_baud baud h)) = hw_tx h"
  by (simp_all add: begin_power_toggle_pulse_def end_power_toggle_pulse_def set_indicators_def
      set_motherbrain_reset_def feed_watchdog_def delay_ms_def poll_imu_sample_def
      set_create_uart_baud_def split: list.split)

lemma status_mark_frames [simp]:
  "st_cmd (mark_audio_cue_requested c s) = st_cmd s" "st_mail (mark_audio_cue_requested c s) = st_mail s" "st_session (mark_audio_cue_requested c s) = st_session s" "st_auth (mark_audio_cue_requested c s) = st_auth s" "st_safety (mark_audio_cue_requested c s) = st_safety s" "st_sensor (mark_audio_cue_requested c s) = st_sensor s" "st_odo (mark_audio_cue_requested c s) = st_odo s" "st_imu (mark_audio_cue_requested c s) = st_imu s" "st_cal (mark_audio_cue_requested c s) = st_cal s" "st_uart (mark_audio_cue_requested c s) = st_uart s" "st_run (mark_audio_cue_requested c s) = st_run s"
  "st_cmd (increment_audio_suppressed_by_silent s) = st_cmd s" "st_mail (increment_audio_suppressed_by_silent s) = st_mail s" "st_session (increment_audio_suppressed_by_silent s) = st_session s" "st_auth (increment_audio_suppressed_by_silent s) = st_auth s" "st_safety (increment_audio_suppressed_by_silent s) = st_safety s" "st_sensor (increment_audio_suppressed_by_silent s) = st_sensor s" "st_odo (increment_audio_suppressed_by_silent s) = st_odo s" "st_imu (increment_audio_suppressed_by_silent s) = st_imu s" "st_cal (increment_audio_suppressed_by_silent s) = st_cal s" "st_uart (increment_audio_suppressed_by_silent s) = st_uart s" "st_run (increment_audio_suppressed_by_silent s) = st_run s"
  "st_cmd (increment_audio_dropped_or_replaced n s) = st_cmd s" "st_mail (increment_audio_dropped_or_replaced n s) = st_mail s" "st_session (increment_audio_dropped_or_replaced n s) = st_session s" "st_auth (increment_audio_dropped_or_replaced n s) = st_auth s" "st_safety (increment_audio_dropped_or_replaced n s) = st_safety s" "st_sensor (increment_audio_dropped_or_replaced n s) = st_sensor s" "st_odo (increment_audio_dropped_or_replaced n s) = st_odo s" "st_imu (increment_audio_dropped_or_replaced n s) = st_imu s" "st_cal (increment_audio_dropped_or_replaced n s) = st_cal s" "st_uart (increment_audio_dropped_or_replaced n s) = st_uart s" "st_run (increment_audio_dropped_or_replaced n s) = st_run s"
  by (simp_all add: mark_audio_cue_requested_def increment_audio_suppressed_by_silent_def increment_audio_dropped_or_replaced_def)

lemma clock_read_frame [simp]:
  "sy_run (clock_read y) = sy_run y" "sy_gate (clock_read y) = sy_gate y" "sy_create (clock_read y) = sy_create y" "sy_voice (clock_read y) = sy_voice y" "sy_blink (clock_read y) = sy_blink y" "sy_reset (clock_read y) = sy_reset y" "sy_registry (clock_read y) = sy_registry y"
  "ln_status (sy_link (clock_read y)) = ln_status (sy_link y)" "ln_uart (sy_link (clock_read y)) = ln_uart (sy_link y)" "ln_events (sy_link (clock_read y)) = ln_events (sy_link y)" "hw_tx (ln_hw (sy_link (clock_read y))) = hw_tx (ln_hw (sy_link y))" "ln_platform (sy_link (clock_read y)) = ln_platform (sy_link y)"
  by (simp_all add: clock_read_def)

lemma request_audio_frame [simp]:
  "sy_run (request_audio c y) = sy_run y" "sy_gate (request_audio c y) = sy_gate y" "sy_create (request_audio c y) = sy_create y" "sy_blink (request_audio c y) = sy_blink y" "sy_reset (request_audio c y) = sy_reset y" "sy_registry (request_audio c y) = sy_registry y"
  "st_cmd (ln_status (sy_link (request_audio c y))) = st_cmd (ln_status (sy_link y))" "st_mail (ln_status (sy_link (request_audio c y))) = st_mail (ln_status (sy_link y))" "st_session (ln_status (sy_link (request_audio c y))) = st_session (ln_status (sy_link y))" "st_auth (ln_status (sy_link (request_audio c y))) = st_auth (ln_status (sy_link y))" "st_safety (ln_status (sy_link (request_audio c y))) = st_safety (ln_status (sy_link y))" "st_sensor (ln_status (sy_link (request_audio c y))) = st_sensor (ln_status (sy_link y))" "st_odo (ln_status (sy_link (request_audio c y))) = st_odo (ln_status (sy_link y))" "st_imu (ln_status (sy_link (request_audio c y))) = st_imu (ln_status (sy_link y))" "st_cal (ln_status (sy_link (request_audio c y))) = st_cal (ln_status (sy_link y))" "st_uart (ln_status (sy_link (request_audio c y))) = st_uart (ln_status (sy_link y))" "st_run (ln_status (sy_link (request_audio c y))) = st_run (ln_status (sy_link y))"
  "hw_tx (ln_hw (sy_link (request_audio c y))) = hw_tx (ln_hw (sy_link y))" "ln_platform (sy_link (request_audio c y)) = ln_platform (sy_link y)" "ln_uart (sy_link (request_audio c y)) = ln_uart (sy_link y)" "ln_events (sy_link (request_audio c y)) = ln_events (sy_link y)"
  by (simp_all add: request_audio_def with_now_def Let_def split: prod.split cue_request_result.split)

lemma close_command_frame [simp]:
  "sy_gate (close_command m y) = sy_gate y" "sy_create (close_command m y) = sy_create y" "sy_voice (close_command m y) = sy_voice y" "sy_blink (close_command m y) = sy_blink y" "sy_reset (close_command m y) = sy_reset y" "sy_registry (close_command m y) = sy_registry y"
  "hw_tx (ln_hw (sy_link (close_command m y))) = hw_tx (ln_hw (sy_link y))" "ln_platform (sy_link (close_command m y)) = ln_platform (sy_link y)" "rn_command_id (sy_run (close_command m y)) = None" "rn_commands (sy_run (close_command m y)) = rn_commands (sy_run y)" "rn_mode (sy_run (close_command m y)) = rn_mode (sy_run y)" "rn_active (sy_run (close_command m y)) = rn_active (sy_run y)" "rn_velocity (sy_run (close_command m y)) = rn_velocity (sy_run y)" "rn_escape (sy_run (close_command m y)) = rn_escape (sy_run y)" "rn_stop_sent (sy_run (close_command m y)) = rn_stop_sent (sy_run y)" "rn_heartbeat_at (sy_run (close_command m y)) = rn_heartbeat_at (sy_run y)" "rn_careful_until (sy_run (close_command m y)) = rn_careful_until (sy_run y)" "rn_recovery_motion (sy_run (close_command m y)) = rn_recovery_motion (sy_run y)"
  by (simp_all add: close_command_def split: option.split)

lemma interrupted_frame [simp]:
  "st_session (mark_command_interrupted i s) = st_session s" "st_session (clear_velocity_stream s) = st_session s" "st_auth (mark_command_interrupted i s) = st_auth s" "st_auth (clear_velocity_stream s) = st_auth s" "st_safety (mark_command_interrupted i s) = st_safety s" "st_safety (clear_velocity_stream s) = st_safety s" "st_sensor (mark_command_interrupted i s) = st_sensor s" "st_sensor (clear_velocity_stream s) = st_sensor s" "st_odo (mark_command_interrupted i s) = st_odo s" "st_odo (clear_velocity_stream s) = st_odo s" "st_imu (mark_command_interrupted i s) = st_imu s" "st_imu (clear_velocity_stream s) = st_imu s" "st_cal (mark_command_interrupted i s) = st_cal s" "st_cal (clear_velocity_stream s) = st_cal s" "st_uart (mark_command_interrupted i s) = st_uart s" "st_uart (clear_velocity_stream s) = st_uart s" "st_run (mark_command_interrupted i s) = st_run s" "st_run (clear_velocity_stream s) = st_run s"
  by (simp_all add: mark_command_interrupted_def clear_velocity_stream_def)

lemma interrupt_active_command_frame [simp]:
  "sy_gate (interrupt_active_command y) = sy_gate y" "sy_create (interrupt_active_command y) = sy_create y" "sy_voice (interrupt_active_command y) = sy_voice y" "sy_blink (interrupt_active_command y) = sy_blink y" "sy_reset (interrupt_active_command y) = sy_reset y" "sy_registry (interrupt_active_command y) = sy_registry y"
  "st_session (ln_status (sy_link (interrupt_active_command y))) = st_session (ln_status (sy_link y))" "st_auth (ln_status (sy_link (interrupt_active_command y))) = st_auth (ln_status (sy_link y))" "st_safety (ln_status (sy_link (interrupt_active_command y))) = st_safety (ln_status (sy_link y))" "st_sensor (ln_status (sy_link (interrupt_active_command y))) = st_sensor (ln_status (sy_link y))" "st_odo (ln_status (sy_link (interrupt_active_command y))) = st_odo (ln_status (sy_link y))" "st_imu (ln_status (sy_link (interrupt_active_command y))) = st_imu (ln_status (sy_link y))" "st_cal (ln_status (sy_link (interrupt_active_command y))) = st_cal (ln_status (sy_link y))" "st_uart (ln_status (sy_link (interrupt_active_command y))) = st_uart (ln_status (sy_link y))" "st_run (ln_status (sy_link (interrupt_active_command y))) = st_run (ln_status (sy_link y))"
  "hw_tx (ln_hw (sy_link (interrupt_active_command y))) = hw_tx (ln_hw (sy_link y))" "ln_platform (sy_link (interrupt_active_command y)) = ln_platform (sy_link y)" "rn_command_id (sy_run (interrupt_active_command y)) = None" "rn_velocity (sy_run (interrupt_active_command y)) = None" "rn_escape (sy_run (interrupt_active_command y)) = None" "rn_recovery_motion (sy_run (interrupt_active_command y)) = False" "rn_commands (sy_run (interrupt_active_command y)) = rn_commands (sy_run y)" "rn_mode (sy_run (interrupt_active_command y)) = rn_mode (sy_run y)" "rn_active (sy_run (interrupt_active_command y)) = rn_active (sy_run y)" "rn_stop_sent (sy_run (interrupt_active_command y)) = rn_stop_sent (sy_run y)" "rn_heartbeat_at (sy_run (interrupt_active_command y)) = rn_heartbeat_at (sy_run y)" "rn_careful_until (sy_run (interrupt_active_command y)) = rn_careful_until (sy_run y)"
  by (simp_all add: interrupt_active_command_def close_command_def Let_def split: option.split)

lemma uart_stop_domains [simp]:
  "st_session (ln_status (fst (uart_stop l))) = st_session (ln_status l)" "st_auth (ln_status (fst (uart_stop l))) = st_auth (ln_status l)" "st_safety (ln_status (fst (uart_stop l))) = st_safety (ln_status l)" "st_sensor (ln_status (fst (uart_stop l))) = st_sensor (ln_status l)" "st_odo (ln_status (fst (uart_stop l))) = st_odo (ln_status l)" "st_imu (ln_status (fst (uart_stop l))) = st_imu (ln_status l)" "st_cal (ln_status (fst (uart_stop l))) = st_cal (ln_status l)"
  by (simp_all add: uart_stop_def uart_drive_def fst_and_then)

lemma stop_drive_frame [simp]:
  "sy_gate (fst (stop_drive y)) = sy_gate y" "sy_create (fst (stop_drive y)) = sy_create y" "sy_voice (fst (stop_drive y)) = sy_voice y" "sy_blink (fst (stop_drive y)) = sy_blink y" "sy_reset (fst (stop_drive y)) = sy_reset y" "sy_registry (fst (stop_drive y)) = sy_registry y"
  "st_session (ln_status (sy_link (fst (stop_drive y)))) = st_session (ln_status (sy_link y))" "st_auth (ln_status (sy_link (fst (stop_drive y)))) = st_auth (ln_status (sy_link y))" "st_safety (ln_status (sy_link (fst (stop_drive y)))) = st_safety (ln_status (sy_link y))" "st_sensor (ln_status (sy_link (fst (stop_drive y)))) = st_sensor (ln_status (sy_link y))" "st_odo (ln_status (sy_link (fst (stop_drive y)))) = st_odo (ln_status (sy_link y))" "st_imu (ln_status (sy_link (fst (stop_drive y)))) = st_imu (ln_status (sy_link y))" "st_cal (ln_status (sy_link (fst (stop_drive y)))) = st_cal (ln_status (sy_link y))"
  "ln_platform (sy_link (fst (stop_drive y))) = ln_platform (sy_link y)" "rn_commands (sy_run (fst (stop_drive y))) = rn_commands (sy_run y)" "rn_mode (sy_run (fst (stop_drive y))) = rn_mode (sy_run y)" "rn_active (sy_run (fst (stop_drive y))) = rn_active (sy_run y)" "rn_command_id (sy_run (fst (stop_drive y))) = rn_command_id (sy_run y)" "rn_careful_until (sy_run (fst (stop_drive y))) = rn_careful_until (sy_run y)" "rn_recovery_motion (sy_run (fst (stop_drive y))) = rn_recovery_motion (sy_run y)"
  by (simp_all add: stop_drive_def lift_link_def fst_and_then)

text \<open>A stop that succeeds leaves the stop frame on the line and no motion behind.\<close>

lemma stop_drive_ok:
  assumes "snd (stop_drive y) = None"
  shows "hw_tx (ln_hw (sy_link (fst (stop_drive y)))) = hw_tx (ln_hw (sy_link y)) @ stop_frame"
    and "rn_velocity (sy_run (fst (stop_drive y))) = None" and "rn_escape (sy_run (fst (stop_drive y))) = None"
    and "rn_heartbeat_at (sy_run (fst (stop_drive y))) = None" and "rn_stop_sent (sy_run (fst (stop_drive y)))"
  using assms uart_stop_ok [of "sy_link y"]
  by (simp_all add: stop_drive_def lift_link_def fst_and_then snd_and_then_None_iff)

lemma finish_contact_withdrawal_frame [simp]:
  "sy_run (finish_contact_withdrawal a b c y) = sy_run y" "sy_create (finish_contact_withdrawal a b c y) = sy_create y" "sy_blink (finish_contact_withdrawal a b c y) = sy_blink y" "sy_reset (finish_contact_withdrawal a b c y) = sy_reset y" "sy_registry (finish_contact_withdrawal a b c y) = sy_registry y"
  "gt_latched (sy_gate (finish_contact_withdrawal a b c y)) = gt_latched (sy_gate y)" "gt_kind (sy_gate (finish_contact_withdrawal a b c y)) = gt_kind (sy_gate y)" "gt_dock_departure (sy_gate (finish_contact_withdrawal a b c y)) = gt_dock_departure (sy_gate y)" "gt_charging (sy_gate (finish_contact_withdrawal a b c y)) = gt_charging (sy_gate y)" "gt_estop (sy_gate (finish_contact_withdrawal a b c y)) = gt_estop (sy_gate y)" "gt_last_bump (sy_gate (finish_contact_withdrawal a b c y)) = gt_last_bump (sy_gate y)" "gt_last_cliff (sy_gate (finish_contact_withdrawal a b c y)) = gt_last_cliff (sy_gate y)" "gt_last_wheel_drop (sy_gate (finish_contact_withdrawal a b c y)) = gt_last_wheel_drop (sy_gate y)" "gt_observed (sy_gate (finish_contact_withdrawal a b c y)) = gt_observed (sy_gate y)" "gt_tilt_since (sy_gate (finish_contact_withdrawal a b c y)) = gt_tilt_since (sy_gate y)" "gt_last_withdrawal_at (sy_gate (finish_contact_withdrawal a b c y)) = gt_last_withdrawal_at (sy_gate y)" "gt_repeated_contacts (sy_gate (finish_contact_withdrawal a b c y)) = gt_repeated_contacts (sy_gate y)"
  "gt_withdrawal (sy_gate (finish_contact_withdrawal a b c y)) = None" "st_auth (ln_status (sy_link (finish_contact_withdrawal a b c y))) = st_auth (ln_status (sy_link y))" "st_safety (ln_status (sy_link (finish_contact_withdrawal a b c y))) = st_safety (ln_status (sy_link y))" "st_sensor (ln_status (sy_link (finish_contact_withdrawal a b c y))) = st_sensor (ln_status (sy_link y))" "st_imu (ln_status (sy_link (finish_contact_withdrawal a b c y))) = st_imu (ln_status (sy_link y))"
  "hw_tx (ln_hw (sy_link (finish_contact_withdrawal a b c y))) = hw_tx (ln_hw (sy_link y))" "ln_platform (sy_link (finish_contact_withdrawal a b c y)) = ln_platform (sy_link y)"
  by (simp_all add: finish_contact_withdrawal_def with_now_def mark_contact_withdrawal_completed_def Let_def split: option.split)

lemma update_safety_edges_frame [simp]:
  "sy_run (update_safety_edges a b c y) = sy_run y" "sy_create (update_safety_edges a b c y) = sy_create y" "sy_voice (update_safety_edges a b c y) = sy_voice y" "sy_blink (update_safety_edges a b c y) = sy_blink y" "sy_reset (update_safety_edges a b c y) = sy_reset y" "sy_registry (update_safety_edges a b c y) = sy_registry y"
  "gt_latched (sy_gate (update_safety_edges a b c y)) = gt_latched (sy_gate y)" "gt_kind (sy_gate (update_safety_edges a b c y)) = gt_kind (sy_gate y)" "gt_dock_departure (sy_gate (update_safety_edges a b c y)) = gt_dock_departure (sy_gate y)" "gt_charging (sy_gate (update_safety_edges a b c y)) = gt_charging (sy_gate y)" "gt_estop (sy_gate (update_safety_edges a b c y)) = gt_estop (sy_gate y)" "gt_observed (sy_gate (update_safety_edges a b c y)) = gt_observed (sy_gate y)" "gt_tilt_since (sy_gate (update_safety_edges a b c y)) = gt_tilt_since (sy_gate y)" "gt_withdrawal (sy_gate (update_safety_edges a b c y)) = gt_withdrawal (sy_gate y)" "gt_last_withdrawal_at (sy_gate (update_safety_edges a b c y)) = gt_last_withdrawal_at (sy_gate y)" "gt_repeated_contacts (sy_gate (update_safety_edges a b c y)) = gt_repeated_contacts (sy_gate y)"
  "st_auth (ln_status (sy_link (update_safety_edges a b c y))) = st_auth (ln_status (sy_link y))" "st_safety (ln_status (sy_link (update_safety_edges a b c y))) = st_safety (ln_status (sy_link y))" "st_sensor (ln_status (sy_link (update_safety_edges a b c y))) = st_sensor (ln_status (sy_link y))" "st_imu (ln_status (sy_link (update_safety_edges a b c y))) = st_imu (ln_status (sy_link y))" "st_run (ln_status (sy_link (update_safety_edges a b c y))) = st_run (ln_status (sy_link y))" "st_odo (ln_status (sy_link (update_safety_edges a b c y))) = st_odo (ln_status (sy_link y))"
  "hw_tx (ln_hw (sy_link (update_safety_edges a b c y))) = hw_tx (ln_hw (sy_link y))" "ln_platform (sy_link (update_safety_edges a b c y)) = ln_platform (sy_link y)"
  by (simp_all add: update_safety_edges_def mark_bump_changed_def mark_cliff_changed_def mark_wheel_drop_cleared_def Let_def)

lemma refusing [simp]: "snd (and_then r (fail e)) = None \<longleftrightarrow> False"
  by (simp add: snd_and_then_None_iff)

section \<open>Construction\<close>

text \<open>\<open>Runtime::new\<close>: a fresh driver and event queue over the given hardware and status.\<close>

definition new_runtime :: "link \<Rightarrow> registry \<Rightarrow> sys" where
  "new_runtime l registry =
     (let observed = us_rx_packets (st_uart (ln_status l));
          l = publish EvBoot (l\<lparr>ln_uart := new_create_uart, ln_events := []\<rparr>);
          s = set_body_state BodyNotStarted (set_runtime_state Booting (ln_status l));
          s = set_audio_silent False (set_careful_mode_until None s)
      in \<lparr>sy_link = l\<lparr>ln_status := s\<rparr>,
          sy_run = \<lparr>rn_commands = [], rn_mode = MRunning, rn_active = ANone, rn_command_id = None,
            rn_velocity = None, rn_escape = None, rn_stop_sent = False, rn_heartbeat_at = None,
            rn_careful_until = None, rn_recovery_motion = False\<rparr>,
          sy_gate = \<lparr>gt_latched = False, gt_kind = None, gt_dock_departure = False, gt_charging = False,
            gt_estop = False, gt_last_bump = False, gt_last_cliff = False, gt_last_wheel_drop = False,
            gt_observed = False, gt_tilt_since = None, gt_withdrawal = None, gt_last_withdrawal_at = None,
            gt_repeated_contacts = 0\<rparr>,
          sy_create = \<lparr>cr_responsive = False, cr_observed_packets = observed, cr_last_packet_at = None,
            cr_stream = None, cr_next_sources_ms = 0, cr_next_complete_ms = 0, cr_next_imu_ms = 0,
            cr_next_full_ms = 0, cr_next_light_ms = 0, cr_light_phase = 0, cr_last_tick_ms = 0\<rparr>,
          sy_voice = \<lparr>vo_chirps = replicate 6 no_tones, vo_chirp_counts = replicate 6 0,
            vo_audio = new_annunciator, vo_durations = replicate 16 0, vo_low_battery = False,
            vo_charging = False, vo_imu_recovery_since = None, vo_inconsistency_until = 0,
            vo_docking = False, vo_last_ir = 0, vo_restart_pending = False, vo_full_ready = False,
            vo_ever_full_ready = False, vo_imu_fault = False, vo_inconsistent = False\<rparr>,
          sy_blink = \<lparr>bl_error_next_ms = 0, bl_error_on = False, bl_error_count = 0,
            bl_idle_next_ms = 0, bl_idle_on = False\<rparr>,
          sy_reset = \<lparr>mr_active = None, mr_cooldown_until = 0,
            mr_enabled = pf_motherbrain_reset_enabled (ln_platform l),
            mr_history = replicate motherbrain_reset_history_capacity None, mr_next = 0\<rparr>,
          sy_registry = registry\<rparr>)"

text \<open>A freshly constructed runtime on a line that is silent and accepts everything.\<close>

definition resting :: sys where
  "resting = new_runtime \<lparr>ln_platform = example_platform, ln_hw = idle_hardware,
     ln_status = initial_status, ln_uart = new_create_uart, ln_events = []\<rparr> initial_registry"

section \<open>A line that accepts everything\<close>

definition line_up :: "link \<Rightarrow> bool" where
  "line_up l \<longleftrightarrow> hw_write_ok (ln_hw l) = (\<lambda>_. True) \<and> hw_flush_ok (ln_hw l) = (\<lambda>_. True)"

lemma write_all_up: "line_up l \<Longrightarrow> snd (write_all bs l) = None \<and> line_up (fst (write_all bs l))"
proof (induction bs arbitrary: l)
  case Nil
  then show ?case by simp
next
  case (Cons b bs)
  let ?h = "fst (hw_now_ms (fst (write_byte b (ln_hw l))))"
  let ?l = "l\<lparr>ln_hw := ?h, ln_status := mark_uart_tx_byte b (snd (hw_now_ms (fst (write_byte b (ln_hw l))))) (ln_status l)\<rparr>"
  have "line_up ?l" using Cons.prems
    by (simp add: line_up_def write_byte_def hw_now_ms_def now_us_def Let_def)
  moreover have "write_all (b # bs) l = write_all bs ?l" using Cons.prems
    by (simp add: line_up_def write_byte_def Let_def split: prod.split)
  ultimately show ?case using Cons.IH [of ?l] by simp
qed

lemma send_bytes_up: "line_up l \<Longrightarrow> snd (send_bytes bs l) = None \<and> line_up (fst (send_bytes bs l))"
  using write_all_up [of l bs]
  by (auto simp: send_bytes_def and_then_def flush_link_def flush_uart_def line_up_def)

lemma line_up_local [simp]:
  "line_up (on_status f l) = line_up l" "line_up (on_uart g l) = line_up l" "line_up (publish e l) = line_up l"
  by (simp_all add: line_up_def)

lemma line_up_hw [simp]:
  "line_up (on_hw (\<lambda>h. fst (hw_now_ms h)) l) = line_up l" "line_up (on_hw end_power_toggle_pulse l) = line_up l"
  by (simp_all add: line_up_def hw_now_ms_def now_us_def end_power_toggle_pulse_def)

lemma uart_stop_up: "line_up l \<Longrightarrow> snd (uart_stop l) = None \<and> line_up (fst (uart_stop l))"
  using send_bytes_up [of l stop_frame]
  by (simp add: uart_stop_def uart_drive_def stop_frame_def snd_and_then_None_iff fst_and_then)

lemma runtime_up [simp]:
  "line_up (sy_link (clock_read y)) = line_up (sy_link y)"
  "line_up (sy_link (request_audio c y)) = line_up (sy_link y)"
  "line_up (sy_link (interrupt_active_command y)) = line_up (sy_link y)"
  by (simp_all add: clock_read_def request_audio_def with_now_def interrupt_active_command_def
      close_command_def Let_def split: prod.split cue_request_result.split option.split)

lemma stop_drive_up:
  "line_up (sy_link y) \<Longrightarrow> snd (stop_drive y) = None \<and> line_up (sy_link (fst (stop_drive y)))"
  using uart_stop_up [of "sy_link y"]
  by (simp add: stop_drive_def lift_link_def snd_and_then_None_iff fst_and_then)

lemma resting_up [simp]: "line_up (sy_link resting)"
  by (simp add: resting_def new_runtime_def Let_def line_up_def idle_hardware_def publish_def)

section \<open>What the phases of the runtime keep\<close>

text \<open>
  Most of the runtime never starts a motion and never touches the emergency-stop latch. The
  locale \<open>steady\<close> names the changes such an operation makes to each group of the state, and
  proves once for each operation that a predicate closed under those changes is kept; it is
  interpreted below on ``nothing but quiet frames were sent since \<open>y\<close> and the emergency stop is
  what it was''. Its extensions are for predicates that survive more, such as the invariant of the state.
\<close>

definition run_change :: "run_state \<Rightarrow> run_state \<Rightarrow> bool" where
  "run_change r r' \<longleftrightarrow>
     (length (rn_commands r) \<le> command_queue_capacity \<longrightarrow> length (rn_commands r') \<le> command_queue_capacity)"

definition voice_ok :: "voice_state \<Rightarrow> bool" where
  "voice_ok v \<longleftrightarrow> length (vo_chirps v) = 6 \<and> length (vo_chirp_counts v) = 6 \<and>
     length (vo_durations v) = 16 \<and> annunciator_ok (vo_audio v)"

definition identities :: "reset_state \<Rightarrow> reset_identity list" where
  "identities m = map rr_identity (map the (filter (\<lambda>r. r \<noteq> None) (mr_history m)))"

definition reset_ok :: "reset_state \<Rightarrow> bool" where
  "reset_ok m \<longleftrightarrow> length (mr_history m) = motherbrain_reset_history_capacity \<and>
     mr_next m < motherbrain_reset_history_capacity \<and> distinct (identities m)"

definition link_change :: "link \<Rightarrow> link \<Rightarrow> bool" where
  "link_change l l' \<longleftrightarrow> quiet l l' \<and> ln_platform l' = ln_platform l"

interpretation linkc: transition link_change
proof
  show "link_change l l" for l by (simp add: link_change_def)
  show "link_change l l' \<Longrightarrow> link_change l' l'' \<Longrightarrow> link_change l l''" for l l' l''
    using tx.trans by (auto simp: link_change_def)
qed

named_theorems keeps \<open>operations that keep a steady predicate\<close>

lemma requested_annunciator_ok:
  "au_request cue t a = (a', r) \<Longrightarrow> annunciator_ok a \<Longrightarrow> annunciator_ok a'"
  using annunciator_ok_step(2) [of a cue t] by simp

lemma link_change_local [simp]:
  "link_change l (on_status f l)" "link_change l (on_uart g l)" "link_change l (publish e l)"
  by (simp_all add: link_change_def)

lemma link_change_hw [simp]: "hw_tx (f (ln_hw l)) = hw_tx (ln_hw l) \<Longrightarrow> link_change l (on_hw f l)"
  by (simp add: link_change_def emits_same_tx)

lemma driver_link_change [simp]:
  "link_change l (fst (request_sensor_packet p l))" "link_change l (fst (uart_start_oi l))"
  "link_change l (fst (uart_set_mode m l))" "link_change l (fst (refresh_full_mode l))"
  "link_change l (fst (uart_stop l))" "link_change l (fst (play_song sid l))"
  "link_change l (fst (define_song sid ts n l))" "link_change l (fst (uart_set_lights b c i l))"
  "link_change l (fst (set_supervision_lights b c i l))" "link_change l (flush_rx l)"
  by (simp_all add: link_change_def)

locale steady =
  fixes K :: "sys \<Rightarrow> bool"
  assumes k_link: "K y \<Longrightarrow> link_change (sy_link y) (f (sy_link y)) \<Longrightarrow> K (on_link f y)"
    and k_run: "K y \<Longrightarrow> run_change (sy_run y) (r (sy_run y)) \<Longrightarrow> K (on_run r y)"
    and k_gate: "K y \<Longrightarrow> gt_estop (g (sy_gate y)) = gt_estop (sy_gate y) \<Longrightarrow> K (on_gate g y)"
    and k_create: "K y \<Longrightarrow> K (on_create c y)"
    and k_voice: "K y \<Longrightarrow> (voice_ok (sy_voice y) \<Longrightarrow> voice_ok (v (sy_voice y))) \<Longrightarrow> K (on_voice v y)"
    and k_blink: "K y \<Longrightarrow> K (on_blink b y)"
    and k_reset: "K y \<Longrightarrow> (reset_ok (sy_reset y) \<Longrightarrow> reset_ok (m (sy_reset y))) \<Longrightarrow> K (on_reset m y)"
    and k_registry: "K y \<Longrightarrow> (leases_ok (sy_registry y) \<Longrightarrow> leases_ok (n (sy_registry y))) \<Longrightarrow> K (on_registry n y)"
begin

lemmas groups [keeps] = k_create k_blink

lemma on_st_keeps [keeps]: "K y \<Longrightarrow> K (on_st s y)"
  by (rule k_link) simp_all

lemma push_event_keeps [keeps]: "K y \<Longrightarrow> K (push_event e y)"
  unfolding push_event_def by (rule k_link) simp_all

lemma run_keeps [keeps]: "K y \<Longrightarrow> (\<And>r. rn_commands (f r) = rn_commands r) \<Longrightarrow> K (on_run f y)"
  by (rule k_run) (simp_all add: run_change_def)

lemma clear_keeps [keeps]: "K y \<Longrightarrow> K (clear_commands y)"
  by (rule k_run) (simp_all add: run_change_def command_queue_capacity_def)

lemma gate_keeps [keeps]: "K y \<Longrightarrow> (\<And>g. gt_estop (f g) = gt_estop g) \<Longrightarrow> K (on_gate f y)"
  by (rule k_gate) simp_all

lemma hw_keeps [keeps]: "K y \<Longrightarrow> (\<And>h. hw_tx (f h) = hw_tx h) \<Longrightarrow> K (on_link (on_hw f) y)"
  by (rule k_link) simp_all

lemma with_now_keeps [keeps]: "K y \<Longrightarrow> (\<And>t z. K z \<Longrightarrow> K (f t z)) \<Longrightarrow> K (with_now f y)"
  by (simp add: with_now_def clock_read_def hw_keeps)

lemma with_now_fst_keeps [keeps]:
  "K y \<Longrightarrow> (\<And>t z. K z \<Longrightarrow> K (fst (f t z))) \<Longrightarrow> K (fst (with_now f y))"
  by (simp add: with_now_def clock_read_def hw_keeps)

lemma and_then_fst_keeps [keeps]:
  "K (fst r) \<Longrightarrow> (\<And>z. K z \<Longrightarrow> K (fst (f z))) \<Longrightarrow> K (fst (and_then r f))"
  by (rule and_then_keeps)

lemma lift_link_keeps [keeps]:
  "K y \<Longrightarrow> (\<And>l. link_change l (fst (f l))) \<Longrightarrow> K (fst (lift_link f y))"
  unfolding lift_link_def using k_link [of y "\<lambda>_. fst (f (sy_link y))"] by simp

lemma close_command_keeps [keeps]: "K y \<Longrightarrow> K (close_command mark y)"
  by (auto simp: close_command_def intro!: keeps split: option.split)

lemma command_ends_keep [keeps]:
  "K y \<Longrightarrow> K (complete_active_command y)" "K y \<Longrightarrow> K (refuse_active_command y)"
  "K y \<Longrightarrow> K (fail_active_command e y)" "K y \<Longrightarrow> K (interrupt_active_command y)"
  by (auto simp: complete_active_command_def refuse_active_command_def fail_active_command_def
      interrupt_active_command_def Let_def intro!: keeps)

lemma request_audio_keeps [keeps]: "K y \<Longrightarrow> K (request_audio cue y)"
  unfolding request_audio_def Let_def
  by (auto intro!: keeps k_voice simp: voice_ok_def elim!: requested_annunciator_ok
      split: prod.split cue_request_result.split)

lemma stop_drive_keeps [keeps]: "K y \<Longrightarrow> K (fst (stop_drive y))"
  unfolding stop_drive_def by (auto intro!: keeps)

lemma withdrawal_keeps [keeps]:
  "K y \<Longrightarrow> K (start_contact_withdrawal bits preempted baseline y)"
  "K y \<Longrightarrow> K (finish_contact_withdrawal outcome dominating stopped y)"
  by (auto simp: start_contact_withdrawal_def finish_contact_withdrawal_def Let_def intro!: keeps
      split: option.split)

lemma edges_keep [keeps]: "K y \<Longrightarrow> K (update_safety_edges bump cliff dropped y)"
  by (auto simp: update_safety_edges_def Let_def intro!: keeps)

end

text \<open>\<open>mobile\<close> is for predicates that survive motion as well, \<open>thorough\<close> for those that survive changes of
  the emergency-stop latch too.\<close>

locale mobile = steady +
  assumes k_any_link: "K y \<Longrightarrow> ln_platform (f (sy_link y)) = ln_platform (sy_link y) \<Longrightarrow> K (on_link f y)"
begin

lemma any_lift_link_keeps:
  "K y \<Longrightarrow> (\<And>l. ln_platform (fst (f l)) = ln_platform l) \<Longrightarrow> K (fst (lift_link f y))"
  unfolding lift_link_def using k_any_link [of y "\<lambda>_. fst (f (sy_link y))"] by simp

end

locale thorough = mobile +
  assumes k_any_gate: "K y \<Longrightarrow> K (on_gate g y)"

text \<open>Since \<open>y\<close> only quiet frames were sent, and the emergency stop and the platform are those of \<open>y\<close>.\<close>

definition calm :: "sys \<Rightarrow> sys \<Rightarrow> bool" where
  "calm y z \<longleftrightarrow> link_change (sy_link y) (sy_link z) \<and> gt_estop (sy_gate z) = gt_estop (sy_gate y)"

interpretation calm: steady "calm y" for y
  by unfold_locales (auto simp: calm_def intro: linkc.trans)

interpretation estop: mobile "\<lambda>z. gt_estop (sy_gate z) = e" for e
  by unfold_locales simp_all

interpretation hush: steady "\<lambda>z. quiet l (sy_link z)" for l
  by unfold_locales (auto simp: link_change_def intro: tx.trans)

text \<open>The invariant of the state.\<close>

definition sys_ok :: "sys \<Rightarrow> bool" where
  "sys_ok y \<longleftrightarrow> length (rn_commands (sy_run y)) \<le> command_queue_capacity \<and> voice_ok (sy_voice y) \<and>
     reset_ok (sy_reset y) \<and> leases_ok (sy_registry y)"

interpretation sysok: thorough sys_ok
  by unfold_locales (auto simp: sys_ok_def run_change_def)

lemma calm_refl [simp]: "calm y y"
  by (simp add: calm_def linkc.refl)

lemma calm_trans: "calm x y \<Longrightarrow> calm y z \<Longrightarrow> calm x z"
  by (auto simp: calm_def intro: linkc.trans)

lemma new_runtime_ok: "leases_ok registry \<Longrightarrow> sys_ok (new_runtime l registry)"
  by (simp add: sys_ok_def new_runtime_def Let_def voice_ok_def reset_ok_def identities_def
      command_queue_capacity_def motherbrain_reset_history_capacity_def annunciator_ok_new)

lemma resting_ok: "sys_ok resting"
  unfolding resting_def by (rule new_runtime_ok) (simp add: leases_ok_def initial_registry_def)

end
