(* ===== verification/Runtime_Motion.thy ===== *)
theory Runtime_Motion
  imports Runtime_State
begin

text \<open>
  \<open>runtime/motion.rs\<close>: starting a wheel motion, the gate every commanded motion passes, the
  heartbeat watchdog, and the idle and error modes with their blinking.
\<close>

section \<open>The gate\<close>

definition create_link_freshness_timeout_ms :: u32 where "create_link_freshness_timeout_ms = 1000"

fun recoverable_safety_latch :: "safety_event_kind option \<Rightarrow> bool" where
  "recoverable_safety_latch (Some SBump) = True"
| "recoverable_safety_latch (Some SCliff) = True"
| "recoverable_safety_latch _ = False"

definition ensure_create_responsive :: "sys \<Rightarrow> sys_outcome" where
  "ensure_create_responsive y =
     (let y = (case cr_last_packet_at (sy_create y) of
                 None \<Rightarrow> y
               | Some last_packet_ms \<Rightarrow>
                   with_now (\<lambda>now_ms y.
                     if now_ms - last_packet_ms > create_link_freshness_timeout_ms
                     then on_st set_oi_mode_unknown (on_create (\<lambda>c. c\<lparr>cr_responsive := False\<rparr>) y)
                     else y) y)
      in if \<not> cr_responsive (sy_create y) then fail CreateNoResponse y else ok y)"

definition safety_recovery_latch_allows_motion :: "sys \<Rightarrow> bool" where
  "safety_recovery_latch_allows_motion y \<longleftrightarrow>
     rn_recovery_motion (sy_run y) \<and> recoverable_safety_latch (gt_kind (sy_gate y))"

definition ensure_motion_allowed :: "sys \<Rightarrow> sys_outcome" where
  "ensure_motion_allowed y =
     (if gt_estop (sy_gate y) \<or> gt_dock_departure (sy_gate y) \<or> gt_charging (sy_gate y)
         \<or> (gt_latched (sy_gate y) \<and> \<not> safety_recovery_latch_allows_motion y)
      then and_then (stop_drive y) (fail CreateNoResponse)
      else ensure_create_responsive y)"

section \<open>Starting a motion\<close>

definition start_drive_direct :: "i16 \<Rightarrow> i16 \<Rightarrow> u32 option \<Rightarrow> u32 \<Rightarrow> sys \<Rightarrow> sys_outcome" where
  "start_drive_direct left right duration now_ms y =
     (case duration of
        None \<Rightarrow> and_then (stop_drive y) (fail Timeout)
      | Some duration_ms \<Rightarrow>
          if left = 0 \<and> right = 0 then and_then (stop_drive y) (\<lambda>y. ok (set_active ANone y))
          else
            and_then (ensure_motion_allowed y) (\<lambda>y.
            and_then (lift_link (drive_direct left right duration_ms)
                       (on_run (\<lambda>r. r\<lparr>rn_stop_sent := False\<rparr>)
                         (on_st (set_body_state BodyMoving)
                           (on_run (\<lambda>r. r\<lparr>rn_velocity := None\<rparr>) y)))) (\<lambda>y.
            ok (set_active (ADriving (now_ms + duration_ms)) y))))"

definition start_drive_arc :: "i16 \<Rightarrow> i16 \<Rightarrow> u32 option \<Rightarrow> u32 \<Rightarrow> sys \<Rightarrow> sys_outcome" where
  "start_drive_arc velocity radius duration now_ms y =
     (case duration of
        None \<Rightarrow> and_then (stop_drive y) (fail Timeout)
      | Some duration_ms \<Rightarrow>
          if velocity = 0 then and_then (stop_drive y) (\<lambda>y. ok (set_active ANone y))
          else
            and_then (ensure_motion_allowed y) (\<lambda>y.
            and_then (lift_link (drive_arc velocity radius)
                       (on_run (\<lambda>r. r\<lparr>rn_stop_sent := False\<rparr>) (on_st (set_body_state BodyMoving) y))) (\<lambda>y.
            ok (set_active (ADriving (now_ms + duration_ms)) y))))"

section \<open>The heartbeat watchdog\<close>

definition cancel_careful_mode :: "sys \<Rightarrow> sys" where
  "cancel_careful_mode y =
     on_st (set_careful_mode_until None) (on_run (\<lambda>r. r\<lparr>rn_careful_until := None\<rparr>) y)"

text \<open>The prologue shared by the watchdogs and barriers: interrupt, empty the queue, forget the
  action.\<close>

definition abandon_commands :: "sys \<Rightarrow> sys" where
  "abandon_commands y = set_active ANone (clear_commands (interrupt_active_command y))"

definition enforce_heartbeat_stop :: "sys \<Rightarrow> sys_outcome" where
  "enforce_heartbeat_stop y =
     (case rn_heartbeat_at (sy_run y) of
        None \<Rightarrow> ok y
      | Some deadline_ms \<Rightarrow>
          with_now (\<lambda>now_ms y.
            if time_reached now_ms deadline_ms then
              (let y = cancel_careful_mode (on_run (\<lambda>r. r\<lparr>rn_heartbeat_at := None\<rparr>) y);
                   y = on_st (mark_safety_tripped SHeartbeat) (on_st mark_heartbeat_expired (on_st revoke_authority y));
                   y = request_audio CueHeartbeatLost y
               in if gt_withdrawal (sy_gate y) = None
                  then and_then (stop_drive (abandon_commands y)) ok
                  else ok y)
            else ok y) y)"

section \<open>Idle and error modes\<close>

definition enter_idle :: "sys \<Rightarrow> sys" where
  "enter_idle y =
     (let y = complete_active_command (fst (stop_drive y));
          y = set_active ANone (on_run (\<lambda>r. r\<lparr>rn_mode := MIdle\<rparr>) y);
          y = on_st (set_command None) (on_st (set_body_state BodyIdle) (on_st (set_runtime_state Idle) y));
          y = on_link (on_hw (set_indicators False)) y
      in with_now (\<lambda>now_ms. on_blink (\<lambda>b. b\<lparr>bl_idle_next_ms := now_ms\<rparr>)) y)"

definition idle_tick :: "sys \<Rightarrow> sys" where
  "idle_tick = with_now (\<lambda>now_ms y.
     if time_reached now_ms (bl_idle_next_ms (sy_blink y)) then
       (let y = on_blink (\<lambda>b. b\<lparr>bl_idle_on := \<not> bl_idle_on b\<rparr>) y;
            y = on_link (on_hw (set_indicators (bl_idle_on (sy_blink y)))) y
        in on_blink (\<lambda>b. b\<lparr>bl_idle_next_ms := now_ms + pf_idle_blink_ms (pf_of y)\<rparr>) y)
     else y)"

definition enter_error :: "brainstem_error \<Rightarrow> sys \<Rightarrow> sys" where
  "enter_error error y =
     (let y = fail_active_command error (push_event (EvError error) (on_st (set_error error) y));
          stopped = stop_drive y;
          y = finish_contact_withdrawal WithdrawalFailed None (is_ok stopped) (fst stopped);
          y = set_active ANone (on_run (\<lambda>r. r\<lparr>rn_mode := MError\<rparr>) y);
          y = with_now (\<lambda>now_ms. on_blink (\<lambda>b. b\<lparr>bl_error_next_ms := now_ms, bl_error_count := 0,
                 bl_error_on := False\<rparr>)) y
      in if cr_responsive (sy_create y) then request_audio CueRuntimeError y else y)"

definition error_tick :: "sys \<Rightarrow> sys" where
  "error_tick = with_now (\<lambda>now_ms y.
     if \<not> time_reached now_ms (bl_error_next_ms (sy_blink y)) then y
     else if bl_error_count (sy_blink y) \<ge> 6 then
       on_blink (\<lambda>b. b\<lparr>bl_error_on := False, bl_error_count := 0,
           bl_error_next_ms := now_ms + pf_error_pause_ms (pf_of y)\<rparr>)
         (on_link (on_hw (set_indicators False)) y)
     else
       (let y = on_blink (\<lambda>b. b\<lparr>bl_error_on := \<not> bl_error_on b\<rparr>) y;
            y = on_link (on_hw (set_indicators (bl_error_on (sy_blink y)))) y
        in on_blink (\<lambda>b. b\<lparr>bl_error_count := sat_add (bl_error_count b) 1,
             bl_error_next_ms := now_ms + pf_error_blink_ms (pf_of y)\<rparr>) y))"

section \<open>What is kept\<close>

context steady begin

lemma motion_gate_keeps [keeps]:
  "K y \<Longrightarrow> K (fst (ensure_create_responsive y))" "K y \<Longrightarrow> K (fst (ensure_motion_allowed y))"
  by (auto simp: ensure_create_responsive_def ensure_motion_allowed_def Let_def intro!: keeps
      split: option.split)

lemma abandon_keeps [keeps]: "K y \<Longrightarrow> K (abandon_commands y)" "K y \<Longrightarrow> K (cancel_careful_mode y)"
  by (auto simp: abandon_commands_def cancel_careful_mode_def intro!: keeps)

lemma heartbeat_keeps [keeps]: "K y \<Longrightarrow> K (fst (enforce_heartbeat_stop y))"
  by (auto simp: enforce_heartbeat_stop_def Let_def intro!: keeps split: option.split)

lemma modes_keep [keeps]:
  "K y \<Longrightarrow> K (enter_idle y)" "K y \<Longrightarrow> K (idle_tick y)"
  "K y \<Longrightarrow> K (enter_error e y)" "K y \<Longrightarrow> K (error_tick y)"
  by (auto simp: enter_idle_def idle_tick_def enter_error_def error_tick_def Let_def intro!: keeps)

end

context mobile begin

lemma drive_keeps [keeps]:
  "K y \<Longrightarrow> K (fst (start_drive_direct left right duration now_ms y))"
  "K y \<Longrightarrow> K (fst (start_drive_arc velocity radius duration now_ms y))"
  by (auto simp: start_drive_direct_def start_drive_arc_def intro!: keeps any_lift_link_keeps
      split: option.split)

end

text \<open>Outside the gate, and for an absent duration or a zero motion, only quiet frames leave.\<close>

definition gate_open :: "sys \<Rightarrow> bool" where
  "gate_open y \<longleftrightarrow> \<not> gt_estop (sy_gate y) \<and> \<not> gt_dock_departure (sy_gate y) \<and> \<not> gt_charging (sy_gate y)
     \<and> (gt_latched (sy_gate y) \<longrightarrow> safety_recovery_latch_allows_motion y)"

lemma closed_gate_refuses: "\<not> gate_open y \<Longrightarrow> snd (ensure_motion_allowed y) \<noteq> None"
  by (auto simp: gate_open_def ensure_motion_allowed_def simp del: not_None_eq)

lemma and_then_failed: "snd r \<noteq> None \<Longrightarrow> and_then r f = r"
  by (cases r) (auto simp: and_then_def)

lemma closed_gate_is_calm:
  "\<not> gate_open y \<Longrightarrow> calm y (fst (start_drive_direct left right duration now_ms y))"
  "\<not> gate_open y \<Longrightarrow> calm y (fst (start_drive_arc velocity radius duration now_ms y))"
  by (auto simp: start_drive_direct_def start_drive_arc_def closed_gate_refuses and_then_failed
      intro!: keeps split: option.split)

text \<open>A dead link refuses as well.\<close>

lemma dead_link_refuses: "\<not> cr_responsive (sy_create y) \<Longrightarrow> snd (ensure_create_responsive y) \<noteq> None"
  by (auto simp: ensure_create_responsive_def with_now_def clock_read_def Let_def split: option.split)

lemma stale_link_refuses:
  "cr_last_packet_at (sy_create y) = Some t \<Longrightarrow> clock_ms y - t > create_link_freshness_timeout_ms \<Longrightarrow>
   snd (ensure_create_responsive y) = Some CreateNoResponse"
  by (simp add: ensure_create_responsive_def with_now_def Let_def)

lemma refused_link_is_calm:
  assumes "snd (ensure_create_responsive y) \<noteq> None"
  shows "calm y (fst (start_drive_direct left right duration now_ms y))"
    and "calm y (fst (start_drive_arc velocity radius duration now_ms y))"
proof -
  have "snd (ensure_motion_allowed y) \<noteq> None"
    using assms by (simp add: ensure_motion_allowed_def del: not_None_eq)
  then show "calm y (fst (start_drive_direct left right duration now_ms y))"
    and "calm y (fst (start_drive_arc velocity radius duration now_ms y))"
    by (auto simp: start_drive_direct_def start_drive_arc_def and_then_failed intro!: keeps split: option.split)
qed

section \<open>Properties\<close>

text \<open>C6. The heartbeat: when its deadline is reached and no contact withdrawal runs, the watchdog that
  reports success has revoked the control authority, emptied the queue, forgotten the motion and
  put the stop frame on the line.\<close>

theorem heartbeat_expiry_stops:
  assumes "rn_heartbeat_at (sy_run y) = Some d" and "time_reached (clock_ms y) d"
    and "gt_withdrawal (sy_gate y) = None" and "snd (enforce_heartbeat_stop y) = None"
  defines "z \<equiv> fst (enforce_heartbeat_stop y)"
  shows "hw_tx (ln_hw (sy_link z)) = hw_tx (ln_hw (sy_link y)) @ stop_frame
    \<and> rn_commands (sy_run z) = [] \<and> rn_active (sy_run z) = ANone \<and> rn_velocity (sy_run z) = None
    \<and> rn_escape (sy_run z) = None \<and> rn_heartbeat_at (sy_run z) = None \<and> rn_careful_until (sy_run z) = None
    \<and> (\<forall>now. \<not> has_active_authority now (st_of z))"
proof -
  let ?r = "request_audio CueHeartbeatLost (on_st (mark_safety_tripped SHeartbeat) (on_st mark_heartbeat_expired
    (on_st revoke_authority (cancel_careful_mode (on_run (\<lambda>r. r\<lparr>rn_heartbeat_at := None\<rparr>) (clock_read y))))))"
  let ?w = "abandon_commands ?r"
  have step: "enforce_heartbeat_stop y = and_then (stop_drive ?w) ok"
    using assms(1-3) by (simp add: enforce_heartbeat_stop_def with_now_def Let_def cancel_careful_mode_def)
  then have good: "snd (stop_drive ?w) = None" and z: "z = fst (stop_drive ?w)"
    using assms(4) by (simp_all add: z_def snd_and_then_None_iff fst_and_then)
  have w: "hw_tx (ln_hw (sy_link ?w)) = hw_tx (ln_hw (sy_link y))" "rn_commands (sy_run ?w) = []"
    "rn_active (sy_run ?w) = ANone" "rn_careful_until (sy_run ?w) = None" "as_lease (st_auth (st_of ?w)) = 0"
    by (simp_all add: abandon_commands_def cancel_careful_mode_def mark_heartbeat_expired_def
        mark_safety_tripped_def revoke_authority_def Let_def split: prod.split)
  show ?thesis using stop_drive_ok [OF good] w by (simp add: z has_active_authority_def)
qed

text \<open>A runtime whose heartbeat is due.\<close>

definition overdue :: sys where
  "overdue = on_run (\<lambda>r. r\<lparr>rn_heartbeat_at := Some 0\<rparr>) resting"

lemma overdue_clock: "clock_ms overdue = 0"
  by (simp add: overdue_def clock_ms_def resting_def new_runtime_def Let_def publish_def idle_hardware_def
      hw_now_ms_def now_us_def)

lemma overdue_unlatched: "gt_withdrawal (sy_gate overdue) = None"
  by (simp add: overdue_def resting_def new_runtime_def Let_def)

theorem heartbeat_expiry_stops_witness:
  "rn_commands (sy_run (fst (enforce_heartbeat_stop overdue))) = [] \<and>
   hw_tx (ln_hw (sy_link (fst (enforce_heartbeat_stop overdue)))) = hw_tx (ln_hw (sy_link overdue)) @ stop_frame"
proof -
  have beat: "rn_heartbeat_at (sy_run overdue) = Some 0" by (simp add: overdue_def)
  moreover have "snd (enforce_heartbeat_stop overdue) = None"
    by (simp add: beat enforce_heartbeat_stop_def with_now_def Let_def snd_and_then_None_iff
        abandon_commands_def cancel_careful_mode_def overdue_clock overdue_unlatched stop_drive_up overdue_def)
  ultimately show ?thesis
    using heartbeat_expiry_stops [of overdue 0] overdue_clock overdue_unlatched by simp
qed

end
