(* ===== verification/Runtime_Safety.thy ===== *)
theory Runtime_Safety
  imports Runtime_Motion
begin

text \<open>
  \<open>runtime/safety.rs\<close>: what the runtime does about the sensed hazards at every tick, the latches
  and how they are cleared, careful mode, and the sound service; with the queue filtering
  of \<open>clear_motion_queue\<close> (\<open>runtime/execution.rs\<close>) that the dock handling uses.
\<close>

section \<open>Filtering the queue\<close>

text \<open>The rotation loops \<open>for _ in 0..pending\<close> over the queue: pop the front, then push it back
  when it stays, or do something about its removal.\<close>

fun rotate_queue :: "nat \<Rightarrow> (queued_command \<Rightarrow> bool) \<Rightarrow> (queued_command \<Rightarrow> sys \<Rightarrow> sys) \<Rightarrow> sys \<Rightarrow> sys" where
  "rotate_queue 0 stays removed y = y"
| "rotate_queue (Suc n) stays removed y =
     (case rn_commands (sy_run y) of
        [] \<Rightarrow> y
      | c # cs \<Rightarrow>
          (let y = on_run (\<lambda>r. r\<lparr>rn_commands := cs\<rparr>) y in
           rotate_queue n stays removed
             (if stays c
              then on_run (\<lambda>r. r\<lparr>rn_commands := push_back command_queue_capacity (rn_commands r) c\<rparr>) y
              else removed c y)))"

definition clear_motion_queue :: "sys \<Rightarrow> sys_outcome" where
  "clear_motion_queue y =
     (let y = rotate_queue (length (rn_commands (sy_run y))) (\<lambda>c. \<not> is_motion_command (q_command c))
                (\<lambda>_ y. y) y
      in if is_driving (rn_active (sy_run y)) \<or> is_dock_departure (rn_active (sy_run y))
         then and_then (stop_drive (interrupt_active_command y)) (\<lambda>y. ok (set_active ANone y))
         else ok y)"

section \<open>Latches\<close>

fun safety_auditory_cue :: "safety_event_kind \<Rightarrow> auditory_cue" where
  "safety_auditory_cue SEStop = CueEStop"
| "safety_auditory_cue SBump = CueBumpContact"
| "safety_auditory_cue SCliff = CueCliff"
| "safety_auditory_cue SWheelDrop = CueWheelDrop"
| "safety_auditory_cue SHeartbeat = CueHeartbeatLost"
| "safety_auditory_cue STilt = CueTilt"
| "safety_auditory_cue SImpact = CueImpact"
| "safety_auditory_cue SCharging = CueDockContact"

definition latch_safety :: "safety_event_kind \<Rightarrow> sys \<Rightarrow> sys" where
  "latch_safety kind y = on_gate (\<lambda>g. g\<lparr>gt_latched := True, gt_kind := Some kind\<rparr>) y"

definition clear_dock_contact_latch :: "sys \<Rightarrow> sys" where
  "clear_dock_contact_latch y =
     (case gt_kind (sy_gate y) of
        Some kind \<Rightarrow>
          if kind = SBump \<or> kind = SCliff
          then on_gate (\<lambda>g. g\<lparr>gt_latched := False, gt_kind := None\<rparr>)
                 (request_audio CueSafetyClear (on_st (mark_safety_cleared kind) y))
          else y
      | None \<Rightarrow> y)"

definition bump_flags :: "u32 \<Rightarrow> bool" where
  "bump_flags flags \<longleftrightarrow> flags AND 3 \<noteq> 0"

text \<open>The condition that keeps a latch of the kind from being cleared.\<close>

fun physical_condition_active :: "safety_event_kind \<Rightarrow> sys \<Rightarrow> bool" where
  "physical_condition_active SBump y \<longleftrightarrow> bump_flags (sn_flags (st_sensor (st_of y)))"
| "physical_condition_active SWheelDrop y \<longleftrightarrow> flag_bit 2 (sn_flags (st_sensor (st_of y)))"
| "physical_condition_active SCliff y \<longleftrightarrow> cliff_flags (sn_flags (st_sensor (st_of y)))"
| "physical_condition_active STilt y \<longleftrightarrow>
     iu_health (st_imu (st_of y)) = imu_health_code HOk \<and>
     tilt_exceeds (pf_of y) (ucast (iu_tilt_magnitude (st_imu (st_of y))))"
| "physical_condition_active SImpact y \<longleftrightarrow>
     iu_health (st_imu (st_of y)) = imu_health_code HOk \<and>
     (ucast (iu_impact_score (st_imu (st_of y))) :: u16) \<ge> pf_imu_impact_stop_mm_s2 (pf_of y)"
| "physical_condition_active SCharging y \<longleftrightarrow> charging_interlock_active (st_of y)"
| "physical_condition_active _ y \<longleftrightarrow> False"

definition clear_safety_latch :: "safety_event_kind option \<Rightarrow> sys \<Rightarrow> sys" where
  "clear_safety_latch expected y =
     (if expected = Some SCharging \<and> gt_charging (sy_gate y)
      then on_gate (\<lambda>g. g\<lparr>gt_charging := False\<rparr>) y
      else
        (case gt_kind (sy_gate y) of
           None \<Rightarrow> on_gate (\<lambda>g. g\<lparr>gt_latched := False\<rparr>) y
         | Some kind \<Rightarrow>
             if expected \<noteq> None \<and> expected \<noteq> Some kind then y
             else
               (let y = clock_read y in
                if physical_condition_active kind y then y
                else
                  (let y = request_audio CueSafetyClear (on_st (mark_safety_cleared kind) y);
                       y = (if kind = SWheelDrop then on_st mark_wheel_drop_cleared y else y)
                   in on_gate (\<lambda>g. g\<lparr>gt_latched := False, gt_kind := None\<rparr>) y))))"

section \<open>Careful mode\<close>

definition careful_mode_min_ttl_ms :: u32 where "careful_mode_min_ttl_ms = 250"
definition careful_mode_max_ttl_ms :: u32 where "careful_mode_max_ttl_ms = 15000"

definition careful_mode_active :: "u32 \<Rightarrow> sys \<Rightarrow> bool" where
  "careful_mode_active now_ms y \<longleftrightarrow>
     (case rn_careful_until (sy_run y) of None \<Rightarrow> False | Some deadline_ms \<Rightarrow> \<not> time_reached now_ms deadline_ms)"

definition clear_sensor_gates_for_careful :: "sys \<Rightarrow> sys" where
  "clear_sensor_gates_for_careful y =
     (let y = (case gt_kind (sy_gate y) of
                 None \<Rightarrow> y
               | Some kind \<Rightarrow>
                   (let y = request_audio CueSafetyClear
                              (on_st (mark_safety_cleared kind) (on_gate (\<lambda>g. g\<lparr>gt_kind := None\<rparr>) y))
                    in if kind = SWheelDrop then on_st mark_wheel_drop_cleared y else y))
      in on_gate (\<lambda>g. g\<lparr>gt_latched := False, gt_charging := False, gt_dock_departure := False,
           gt_tilt_since := None\<rparr>) y)"

definition enter_careful_mode :: "u32 \<Rightarrow> sys \<Rightarrow> sys_outcome" where
  "enter_careful_mode requested_ttl_ms y =
     and_then (ensure_create_responsive y) (\<lambda>y.
       if gt_estop (sy_gate y) then fail CreateNoResponse y
       else with_now (\<lambda>now_ms y.
         (let ttl_ms = clamp_word careful_mode_min_ttl_ms careful_mode_max_ttl_ms requested_ttl_ms;
              y = clear_sensor_gates_for_careful y;
              y = on_run (\<lambda>r. r\<lparr>rn_careful_until := Some (now_ms + ttl_ms)\<rparr>) y
          in ok (on_st (set_careful_mode_until (rn_careful_until (sy_run y))) y))) y)"

definition relatch_kind :: "sys \<Rightarrow> safety_event_kind option" where
  "relatch_kind y =
     (let flags = sn_flags (st_sensor (st_of y)) in
      if flag_bit 2 flags then Some SWheelDrop
      else if cliff_flags flags then Some SCliff
      else if tilt_sensed (pf_of y) (st_of y) then Some STilt
      else if impact_sensed (pf_of y) (st_of y) then Some SImpact
      else if bump_flags flags then Some SBump
      else None)"

definition relatch_current_sensor_gate :: "sys \<Rightarrow> sys" where
  "relatch_current_sensor_gate y =
     (let y = clock_read y in
      case relatch_kind y of
        Some kind \<Rightarrow>
          (let y = on_st (mark_safety_tripped kind) y;
               y = (if kind = SWheelDrop then on_st mark_wheel_drop_latched y else y)
           in latch_safety kind y)
      | None \<Rightarrow>
          if charging_interlock_active (st_of y) then on_gate (\<lambda>g. g\<lparr>gt_charging := True\<rparr>) y else y)"

definition enforce_careful_mode_timeout :: "sys \<Rightarrow> sys_outcome" where
  "enforce_careful_mode_timeout y =
     (case rn_careful_until (sy_run y) of
        None \<Rightarrow> ok y
      | Some deadline_ms \<Rightarrow>
          with_now (\<lambda>now_ms y.
            if \<not> time_reached now_ms deadline_ms then ok y
            else and_then (stop_drive (abandon_commands (cancel_careful_mode y)))
                   (\<lambda>y. ok (relatch_current_sensor_gate y))) y)"

section \<open>The response to a hazard\<close>

definition unsafe_forward_output :: "sys \<Rightarrow> bool" where
  "unsafe_forward_output y \<longleftrightarrow>
     (case rn_velocity (sy_run y) of None \<Rightarrow> False | Some v \<Rightarrow> 0 < sint (av_linear v))"

definition withdrawal_command :: queued_command where
  "withdrawal_command = queued_recovery 0
     (RCmdVel (- contact_withdrawal_speed_mm_s) 0 (Some contact_withdrawal_duration_ms))"

definition apply_safety_response :: "safety_event_kind \<Rightarrow> safety_response \<Rightarrow> sys \<Rightarrow> sys_outcome" where
  "apply_safety_response kind response y =
     (case response of
        RespondStop \<Rightarrow>
          and_then (stop_drive (clear_commands (interrupt_active_command (latch_safety kind y)))) (\<lambda>y.
            ok (finish_contact_withdrawal WithdrawalSafetyPreempted (Some kind) True (set_active ANone y)))
      | RespondContactWithdrawal \<Rightarrow>
          (let y = latch_safety kind y;
               command_id = (case rn_command_id (sy_run y) of None \<Rightarrow> 0 | Some i \<Rightarrow> i)
           in and_then (stop_drive (abandon_commands y)) (\<lambda>y.
              (let y = (if kind = SBump then
                          (let y = clock_read y;
                               y = start_contact_withdrawal (ucast (sn_flags (st_sensor (st_of y)) AND 3))
                                     command_id (odometry_distance y) y;
                               y = on_run (\<lambda>r. r\<lparr>rn_mode := MRunning\<rparr>) y
                           in on_st (set_runtime_state Running) y)
                        else y)
               in ok (on_run (\<lambda>r. r\<lparr>rn_commands :=
                      push_front command_queue_capacity (rn_commands r) withdrawal_command\<rparr>) y)))))"

section \<open>The policy\<close>

definition imu_tilt_latch_hold_ms :: u32 where "imu_tilt_latch_hold_ms = 100"

text \<open>Tilt counts once it has been sensed for \<open>imu_tilt_latch_hold_ms\<close>.\<close>

definition observe_tilt :: "u32 \<Rightarrow> sys \<Rightarrow> sys \<times> bool" where
  "observe_tilt now_ms y =
     (if tilt_sensed (pf_of y) (st_of y) then
        (case gt_tilt_since (sy_gate y) of
           Some started \<Rightarrow> (y, time_reached now_ms (started + imu_tilt_latch_hold_ms))
         | None \<Rightarrow> (on_gate (\<lambda>g. g\<lparr>gt_tilt_since := Some now_ms\<rparr>) y, False))
      else (on_gate (\<lambda>g. g\<lparr>gt_tilt_since := None\<rparr>) y, False))"

text \<open>The hazards of one tick, as sensed at its start.\<close>

record hazards =
  hz_bump :: bool
  hz_cliff :: bool
  hz_wheel_drop :: bool
  hz_tilt :: bool
  hz_impact :: bool
  hz_charging :: bool
  hz_home_base :: bool

definition home_base_sensed :: "status \<Rightarrow> bool" where
  "home_base_sensed s \<longleftrightarrow> sn_charging_sources (st_sensor s) AND 2 \<noteq> 0"

definition sense_hazards :: "bool \<Rightarrow> platform \<Rightarrow> status \<Rightarrow> hazards" where
  "sense_hazards tilt pf s =
     (let flags = sn_flags (st_sensor s) in
      \<lparr>hz_bump = bump_flags flags, hz_cliff = cliff_flags flags, hz_wheel_drop = flag_bit 2 flags,
       hz_tilt = tilt, hz_impact = impact_sensed pf s, hz_charging = charging_interlock_active s,
       hz_home_base = home_base_sensed s\<rparr>)"

definition note_edges :: "hazards \<Rightarrow> sys \<Rightarrow> sys" where
  "note_edges h y = update_safety_edges (hz_bump h) (hz_cliff h) (hz_wheel_drop h) y"

definition dominating_hazard :: "safety_latch_kind \<Rightarrow> hazards \<Rightarrow> safety_event_kind option" where
  "dominating_hazard kind h =
     (if hz_wheel_drop h then Some SWheelDrop
      else if hz_tilt h then Some STilt
      else if hz_impact h then Some SImpact
      else if hz_charging h \<or> hz_home_base h then Some SCharging
      else if kind = LBump \<and> hz_cliff h then Some SCliff
      else if kind = LCliff \<and> hz_bump h then Some SBump
      else None)"

text \<open>While an escape runs: a hazard that dominates it stops it, as does the end of its validity.\<close>

definition police_escape :: "active_escape \<Rightarrow> hazards \<Rightarrow> sys \<Rightarrow> sys_outcome" where
  "police_escape e h y =
     (case dominating_hazard (ae_kind e) h of
        Some kind \<Rightarrow>
          and_then (apply_safety_response kind RespondStop (on_st (mark_safety_tripped kind) y)) (\<lambda>y.
            ok (note_edges h (request_audio (safety_auditory_cue kind) y)))
      | None \<Rightarrow>
          if validate_escape_motion (pf_of y) (ae_kind e) (ae_generation e) (ae_linear e) (ae_angular e)
               (ae_ttl_ms e) (st_of y) \<noteq> None
          then and_then (stop_drive (abandon_commands y)) (\<lambda>y. ok (note_edges h y))
          else ok (note_edges h y))"

text \<open>The shared response to a charge: no motion stays queued or active.\<close>

definition yield_to_charge :: "(gate_state \<Rightarrow> gate_state) \<Rightarrow> sys \<Rightarrow> sys_outcome" where
  "yield_to_charge mark y =
     and_then (clear_motion_queue y) (\<lambda>y. and_then (stop_drive y) (\<lambda>y.
       ok (on_gate mark (finish_contact_withdrawal WithdrawalSafetyPreempted (Some SCharging) True y))))"

definition police_home_base :: "sys \<Rightarrow> sys_outcome" where
  "police_home_base y =
     (let y = clear_dock_contact_latch y in
      and_then
        (if \<not> is_dock_departure (rn_active (sy_run y)) \<and> \<not> gt_dock_departure (sy_gate y)
         then yield_to_charge (\<lambda>g. g\<lparr>gt_dock_departure := True\<rparr>) y else ok y)
        (\<lambda>y. ok (on_gate (\<lambda>g. g\<lparr>gt_charging := False\<rparr>) y)))"

definition police_charging :: "sys \<Rightarrow> sys_outcome" where
  "police_charging y =
     (if \<not> gt_charging (sy_gate y) then yield_to_charge (\<lambda>g. g\<lparr>gt_charging := True\<rparr>) y else ok y)"

definition police_wheel_drop :: "sys \<Rightarrow> sys_outcome" where
  "police_wheel_drop y =
     (if gt_kind (sy_gate y) \<noteq> Some SWheelDrop then
        and_then (stop_drive (clear_commands (interrupt_active_command
            (latch_safety SWheelDrop (on_st mark_wheel_drop_latched (on_st (mark_safety_tripped SWheelDrop) y))))))
          (\<lambda>y. ok (request_audio CueWheelDrop
             (finish_contact_withdrawal WithdrawalSafetyPreempted (Some SWheelDrop) True (set_active ANone y))))
      else ok y)"

text \<open>The kind and the response; every branch but the last marks the trip. The last two are
  unreachable from the policy.\<close>

definition choose_response :: "bool \<Rightarrow> hazards \<Rightarrow> sys \<Rightarrow> safety_event_kind \<times> safety_response \<times> bool" where
  "choose_response fresh_bump h y =
     (if hz_tilt h then (STilt, RespondStop, True)
      else if hz_impact h then (SImpact, RespondStop, True)
      else if hz_cliff h then (SCliff, RespondStop, True)
      else if hz_bump h \<and> fresh_bump \<and> unsafe_forward_output y then (SBump, RespondContactWithdrawal, True)
      else if hz_bump h then (SBump, RespondStop, True)
      else if hz_wheel_drop h then (SWheelDrop, RespondStop, True)
      else (SBump, RespondStop, False))"

definition police_hazard :: "bool \<Rightarrow> hazards \<Rightarrow> sys \<Rightarrow> sys_outcome" where
  "police_hazard fresh_bump h y =
     (case choose_response fresh_bump h y of
        (kind, response, trips) \<Rightarrow>
          and_then (apply_safety_response kind response (if trips then on_st (mark_safety_tripped kind) y else y))
            (\<lambda>y. ok (request_audio (safety_auditory_cue kind) y)))"

definition police :: "u32 \<Rightarrow> bool \<Rightarrow> hazards \<Rightarrow> sys \<Rightarrow> sys_outcome" where
  "police now_ms fresh_bump h y =
     (case rn_escape (sy_run y) of
        Some e \<Rightarrow> police_escape e h y
      | None \<Rightarrow>
          if careful_mode_active now_ms y then ok (clear_sensor_gates_for_careful (note_edges h y))
          else if hz_home_base h \<and> \<not> hz_wheel_drop h \<and> \<not> hz_tilt h \<and> \<not> hz_impact h then police_home_base y
          else if hz_charging h \<and> \<not> hz_wheel_drop h \<and> \<not> hz_tilt h \<and> \<not> hz_impact h then police_charging y
          else if \<not> hz_bump h \<and> \<not> hz_cliff h \<and> \<not> hz_wheel_drop h \<and> \<not> hz_tilt h \<and> \<not> hz_impact h \<and> \<not> hz_charging h
          then ok (note_edges h y)
          else
            (let y = note_edges h y in
             if hz_wheel_drop h then police_wheel_drop y
             else if gt_latched (sy_gate y) \<and>
               \<not> (gt_withdrawal (sy_gate y) \<noteq> None \<and> (hz_tilt h \<or> hz_impact h \<or> hz_cliff h)) then ok y
             else police_hazard fresh_bump h y))"

text \<open>What precedes the decision: a departure is forgotten off the dock, and the first observation is
  the baseline of the edges.\<close>

definition settle_observation :: "hazards \<Rightarrow> sys \<Rightarrow> sys" where
  "settle_observation h y =
     (let y = (if \<not> hz_home_base h \<and> gt_dock_departure (sy_gate y)
               then on_gate (\<lambda>g. g\<lparr>gt_dock_departure := False\<rparr>) y else y)
      in if \<not> gt_observed (sy_gate y)
         then on_gate (\<lambda>g. g\<lparr>gt_last_bump := hz_bump h, gt_last_cliff := hz_cliff h,
                gt_last_wheel_drop := hz_wheel_drop h, gt_observed := True\<rparr>) y
         else y)"

definition enforce_safety_policy :: "sys \<Rightarrow> sys_outcome" where
  "enforce_safety_policy = with_now (\<lambda>now_ms y.
     (case observe_tilt now_ms y of (y, tilt) \<Rightarrow>
       (let h = sense_hazards tilt (pf_of y) (st_of y);
            y = settle_observation h y
        in police now_ms (hz_bump h \<and> \<not> gt_last_bump (sy_gate y)) h y)))"

section \<open>Sound\<close>

definition automatic_cue_slot :: u8 where "automatic_cue_slot = 9"

definition feedback_tones :: "feedback_kind \<Rightarrow> sys \<Rightarrow> tones \<times> u8" where
  "feedback_tones kind y =
     (let index = feedback_index kind in
      if 0 < vo_chirp_counts (sy_voice y) ! index
      then (vo_chirps (sy_voice y) ! index, vo_chirp_counts (sy_voice y) ! index)
      else default_feedback_tones kind)"

definition runtime_set_audio_silent :: "bool \<Rightarrow> sys \<Rightarrow> sys" where
  "runtime_set_audio_silent silent y =
     (case au_set_silent silent (vo_audio (sy_voice y)) of
        (a, dropped) \<Rightarrow>
          on_st (set_audio_silent silent)
            (on_st (increment_audio_dropped_or_replaced dropped) (on_voice (\<lambda>v. v\<lparr>vo_audio := a\<rparr>) y)))"

text \<open>\<open>define_song(..).and_then(|()| play_song(..))\<close>\<close>

definition define_and_play :: "u8 \<Rightarrow> tones \<Rightarrow> u8 \<Rightarrow> sys \<Rightarrow> sys_outcome" where
  "define_and_play slot tones tone_count y =
     and_then (lift_link (define_song slot tones tone_count) y) (lift_link (play_song slot))"

definition poll_audio :: "sys \<Rightarrow> sys" where
  "poll_audio = with_now (\<lambda>now_ms y.
     if \<not> cr_responsive (sy_create y) then y
     else
       (case au_take_ready now_ms (vo_audio (sy_voice y)) of
          (a, ready) \<Rightarrow>
            (let y = on_voice (\<lambda>v. v\<lparr>vo_audio := a\<rparr>) y in
             case ready of
               None \<Rightarrow> y
             | Some cue \<Rightarrow>
                 (case cue_tones cue of
                    (tones, tone_count) \<Rightarrow>
                      (let played = define_and_play automatic_cue_slot tones tone_count y in
                       if is_ok played
                       then on_st (mark_audio_cue_played (cue_code cue) now_ms)
                              (on_voice (\<lambda>v. v\<lparr>vo_audio := au_mark_played cue now_ms (vo_audio v)\<rparr>) (fst played))
                       else on_st (increment_audio_dropped_or_replaced 1) (fst played))))))"

section \<open>What is kept\<close>

lemma annunciator_ok_pair:
  "au_set_silent b a = (a', n) \<Longrightarrow> annunciator_ok a \<Longrightarrow> annunciator_ok a'"
  "au_take_ready t a = (a', c) \<Longrightarrow> annunciator_ok a \<Longrightarrow> annunciator_ok a'"
  using annunciator_ok_step(1) [of a b] annunciator_ok_step(3) [of a t] by auto

context steady begin

lemma rotate_keeps:
  "K y \<Longrightarrow> (\<And>c z. K z \<Longrightarrow> K (removed c z)) \<Longrightarrow> K (rotate_queue n stays removed y)"
proof (induction n arbitrary: y)
  case (Suc n)
  show ?case
  proof (cases "rn_commands (sy_run y)")
    case Nil
    with Suc.prems show ?thesis by simp
  next
    case (Cons c cs)
    have popped: "K (on_run (\<lambda>r. r\<lparr>rn_commands := cs\<rparr>) y)"
      by (rule k_run) (use Suc.prems Cons in \<open>simp_all add: run_change_def\<close>)
    moreover have "K (on_run (\<lambda>r. r\<lparr>rn_commands := push_back command_queue_capacity (rn_commands r) c\<rparr>) z)"
      if "K z" for z
      by (rule k_run) (use that in \<open>simp_all add: run_change_def\<close>)
    ultimately show ?thesis using Cons Suc by (simp add: Let_def)
  qed
qed simp

lemma clear_motion_queue_keeps [keeps]: "K y \<Longrightarrow> K (fst (clear_motion_queue y))"
  unfolding clear_motion_queue_def Let_def by (auto intro!: keeps rotate_keeps)

lemma latches_keep [keeps]:
  "K y \<Longrightarrow> K (latch_safety kind y)" "K y \<Longrightarrow> K (clear_dock_contact_latch y)"
  "K y \<Longrightarrow> K (clock_read y)" "K y \<Longrightarrow> K (clear_sensor_gates_for_careful y)"
  by (auto simp: latch_safety_def clear_dock_contact_latch_def clock_read_def
      clear_sensor_gates_for_careful_def Let_def intro!: keeps split: option.split)

lemma clear_safety_latch_keeps [keeps]: "K y \<Longrightarrow> K (clear_safety_latch expected y)"
  unfolding clear_safety_latch_def Let_def by (auto intro!: keeps split: option.split)

lemma careful_keeps [keeps]:
  "K y \<Longrightarrow> K (fst (enter_careful_mode ttl y))" "K y \<Longrightarrow> K (relatch_current_sensor_gate y)"
  by (auto simp: enter_careful_mode_def relatch_current_sensor_gate_def Let_def intro!: keeps
      split: option.split)

lemma careful_timeout_keeps [keeps]: "K y \<Longrightarrow> K (fst (enforce_careful_mode_timeout y))"
  by (auto simp: enforce_careful_mode_timeout_def intro!: keeps split: option.split)

lemma push_front_keeps [keeps]:
  "K y \<Longrightarrow> K (on_run (\<lambda>r. r\<lparr>rn_commands := push_front command_queue_capacity (rn_commands r) c\<rparr>) y)"
  by (rule k_run) (simp_all add: run_change_def)

lemma apply_safety_response_keeps [keeps]: "K y \<Longrightarrow> K (fst (apply_safety_response kind response y))"
  unfolding apply_safety_response_def Let_def by (auto intro!: keeps split: safety_response.split)

lemma police_parts_keep [keeps]:
  "K y \<Longrightarrow> K (note_edges h y)" "K y \<Longrightarrow> K (settle_observation h y)" "K y \<Longrightarrow> K (fst (observe_tilt t y))"
  "K y \<Longrightarrow> K (fst (police_home_base y))" "K y \<Longrightarrow> K (fst (police_charging y))"
  "K y \<Longrightarrow> K (fst (police_wheel_drop y))" "K y \<Longrightarrow> K (fst (police_hazard fresh_bump h y))"
  "K y \<Longrightarrow> K (fst (police_escape e h y))"
  by (auto simp: note_edges_def settle_observation_def observe_tilt_def police_home_base_def
      police_charging_def police_wheel_drop_def police_hazard_def police_escape_def yield_to_charge_def Let_def
      intro!: keeps split: option.split prod.split)

lemma police_keeps [keeps]: "K y \<Longrightarrow> K (fst (police now_ms fresh_bump h y))"
  unfolding police_def Let_def by (auto intro!: keeps split: option.split)

lemma safety_policy_keeps [keeps]: "K y \<Longrightarrow> K (fst (enforce_safety_policy y))"
proof -
  have "K (fst (case observe_tilt t z of (y, tilt) \<Rightarrow>
      let h = sense_hazards tilt (pf_of y) (st_of y); y = settle_observation h y
      in police t (hz_bump h \<and> \<not> gt_last_bump (sy_gate y)) h y))" if "K z" for t z
    using police_parts_keep(3) [OF that, of t]
    by (cases "observe_tilt t z") (auto simp: Let_def intro!: keeps)
  then show "K y \<Longrightarrow> K (fst (enforce_safety_policy y))"
    unfolding enforce_safety_policy_def by (auto intro!: keeps)
qed

lemma set_silent_keeps [keeps]: "K y \<Longrightarrow> K (runtime_set_audio_silent silent y)"
  by (auto simp: runtime_set_audio_silent_def voice_ok_def intro!: keeps k_voice elim!: annunciator_ok_pair
      split: prod.split)

lemma define_and_play_keeps [keeps]: "K y \<Longrightarrow> K (fst (define_and_play slot tones n y))"
  by (auto simp: define_and_play_def intro!: keeps)

lemma poll_audio_keeps [keeps]: "K y \<Longrightarrow> K (poll_audio y)"
  unfolding poll_audio_def Let_def
  by (auto simp: voice_ok_def annunciator_ok_step intro!: keeps k_voice elim!: annunciator_ok_pair
      split: prod.split option.split)

end

end
