(* ===== verification/Safety_Rules.thy ===== *)
theory Safety_Rules
  imports Runtime_Safety
begin

text \<open>
  What the safety policy of \<open>Runtime_Safety\<close> guarantees: the rotation loop over the queue is a
  filter, a hazard that stops the robot halts every lane, a withdrawal starts only from a fresh contact
  under forward drive, the tilt debounce, the bounds of careful mode, and the condition under which
  a latch is cleared.
\<close>

section \<open>The rotation loop is a filter\<close>

lemma rotate_queue_filters:
  assumes "rn_commands (sy_run y) = xs @ ys" and "length (xs @ ys) \<le> command_queue_capacity"
    and "\<And>c z. rn_commands (sy_run (removed c z)) = rn_commands (sy_run z)"
  shows "rn_commands (sy_run (rotate_queue (length xs) stays removed y)) = ys @ filter stays xs"
  using assms(1,2)
proof (induction xs arbitrary: y ys)
  case Nil
  then show ?case by simp
next
  case (Cons c cs)
  let ?y = "on_run (\<lambda>r. r\<lparr>rn_commands := cs @ ys\<rparr>) y"
  let ?z = "if stays c
    then on_run (\<lambda>r. r\<lparr>rn_commands := push_back command_queue_capacity (rn_commands r) c\<rparr>) ?y
    else removed c ?y"
  have "rn_commands (sy_run ?z) = cs @ (ys @ filter stays [c])"
    using Cons.prems assms(3) by simp
  moreover have "length (cs @ ys @ filter stays [c]) \<le> command_queue_capacity"
    using Cons.prems(2) by simp
  ultimately have "rn_commands (sy_run (rotate_queue (length cs) stays removed ?z))
      = (ys @ filter stays [c]) @ filter stays cs"
    by (rule Cons.IH)
  moreover have "rotate_queue (length (c # cs)) stays removed y = rotate_queue (length cs) stays removed ?z"
    using Cons.prems(1) by (simp add: Let_def)
  ultimately show ?case by simp
qed

lemma rotate_queue_is_filter:
  assumes "length (rn_commands (sy_run y)) \<le> command_queue_capacity"
    and "\<And>c z. rn_commands (sy_run (removed c z)) = rn_commands (sy_run z)"
  shows "rn_commands (sy_run (rotate_queue (length (rn_commands (sy_run y))) stays removed y))
    = filter stays (rn_commands (sy_run y))"
  using rotate_queue_filters [of y "rn_commands (sy_run y)" "[]"] assms by simp

lemma rotate_queue_active [simp]:
  "rn_active (sy_run (rotate_queue n stays (\<lambda>_ z. z) y)) = rn_active (sy_run y)"
  by (induction n arbitrary: y) (simp_all add: Let_def split: list.split)

lemma rotate_queue_link [simp]: "sy_link (rotate_queue n stays (\<lambda>_ z. z) y) = sy_link y"
  by (induction n arbitrary: y) (simp_all add: Let_def split: list.split)

lemma rotate_queue_gate [simp]: "sy_gate (rotate_queue n stays (\<lambda>_ z. z) y) = sy_gate y"
  by (induction n arbitrary: y) (simp_all add: Let_def split: list.split)

section \<open>The responses\<close>

definition halted :: "safety_event_kind \<Rightarrow> sys \<Rightarrow> sys \<Rightarrow> bool" where
  "halted kind y z \<longleftrightarrow> gt_latched (sy_gate z) \<and> gt_kind (sy_gate z) = Some kind \<and>
     gt_withdrawal (sy_gate z) = None \<and> rn_commands (sy_run z) = [] \<and> rn_active (sy_run z) = ANone \<and>
     rn_velocity (sy_run z) = None \<and> rn_escape (sy_run z) = None \<and>
     hw_tx (ln_hw (sy_link z)) = hw_tx (ln_hw (sy_link y)) @ stop_frame"

lemma stop_response_halts:
  assumes "snd (apply_safety_response kind RespondStop y) = None"
  shows "halted kind y (fst (apply_safety_response kind RespondStop y))"
proof -
  let ?w = "clear_commands (interrupt_active_command (latch_safety kind y))"
  have good: "snd (stop_drive ?w) = None"
    using assms by (simp add: apply_safety_response_def snd_and_then_None_iff)
  then show ?thesis using stop_drive_ok [OF good]
    by (simp add: apply_safety_response_def fst_and_then halted_def latch_safety_def)
qed

lemma halted_more [simp]: "halted kind y (request_audio c z) = halted kind y z"
  by (simp add: halted_def)

lemma halted_from [simp]: "halted kind (on_st f y) z = halted kind y z"
  "halted kind (note_edges h y) z = halted kind y z" "halted kind (clock_read y) z = halted kind y z"
  "halted kind (settle_observation h y) z = halted kind y z" "halted kind (on_gate g y) z = halted kind y z"
  by (simp_all add: halted_def note_edges_def settle_observation_def Let_def)

lemma wheel_drop_halts:
  assumes "snd (police_wheel_drop y) = None" and "gt_kind (sy_gate y) \<noteq> Some SWheelDrop"
  shows "halted SWheelDrop y (fst (police_wheel_drop y))"
proof -
  let ?w = "clear_commands (interrupt_active_command (latch_safety SWheelDrop
    (on_st mark_wheel_drop_latched (on_st (mark_safety_tripped SWheelDrop) y))))"
  have good: "snd (stop_drive ?w) = None"
    using assms by (simp add: police_wheel_drop_def snd_and_then_None_iff)
  then show ?thesis using stop_drive_ok [OF good] assms(2)
    by (simp add: police_wheel_drop_def fst_and_then halted_def latch_safety_def)
qed

lemma note_edges_frame [simp]:
  "sy_run (note_edges h y) = sy_run y" "gt_latched (sy_gate (note_edges h y)) = gt_latched (sy_gate y)"
  "gt_kind (sy_gate (note_edges h y)) = gt_kind (sy_gate y)"
  "gt_withdrawal (sy_gate (note_edges h y)) = gt_withdrawal (sy_gate y)"
  "st_sensor (st_of (note_edges h y)) = st_sensor (st_of y)"
  by (simp_all add: note_edges_def)

lemma settle_frame [simp]:
  "sy_run (settle_observation h y) = sy_run y" "sy_link (settle_observation h y) = sy_link y"
  "gt_latched (sy_gate (settle_observation h y)) = gt_latched (sy_gate y)"
  "gt_kind (sy_gate (settle_observation h y)) = gt_kind (sy_gate y)"
  "gt_withdrawal (sy_gate (settle_observation h y)) = gt_withdrawal (sy_gate y)"
  by (simp_all add: settle_observation_def Let_def)

lemma observe_tilt_frame [simp]:
  "sy_run (fst (observe_tilt t y)) = sy_run y" "sy_link (fst (observe_tilt t y)) = sy_link y"
  "gt_latched (sy_gate (fst (observe_tilt t y))) = gt_latched (sy_gate y)"
  "gt_kind (sy_gate (fst (observe_tilt t y))) = gt_kind (sy_gate y)"
  "gt_withdrawal (sy_gate (fst (observe_tilt t y))) = gt_withdrawal (sy_gate y)"
  "gt_observed (sy_gate (fst (observe_tilt t y))) = gt_observed (sy_gate y)"
  "gt_last_bump (sy_gate (fst (observe_tilt t y))) = gt_last_bump (sy_gate y)"
  by (simp_all add: observe_tilt_def split: option.split)

definition sensed :: "sys \<Rightarrow> hazards" where
  "sensed y = sense_hazards (snd (observe_tilt (clock_ms y) (clock_read y))) (pf_of y) (st_of y)"

definition settled :: "sys \<Rightarrow> sys" where
  "settled y = settle_observation (sensed y) (fst (observe_tilt (clock_ms y) (clock_read y)))"

lemma policy_is_police:
  "enforce_safety_policy y =
     police (clock_ms y) (hz_bump (sensed y) \<and> \<not> gt_last_bump (sy_gate (settled y))) (sensed y) (settled y)"
  by (simp add: enforce_safety_policy_def with_now_def sensed_def settled_def Let_def split_beta)

lemma settled_frame [simp]:
  "sy_run (settled y) = sy_run y" "sy_link (settled y) = sy_link (clock_read y)"
  "gt_latched (sy_gate (settled y)) = gt_latched (sy_gate y)"
  "gt_kind (sy_gate (settled y)) = gt_kind (sy_gate y)"
  "gt_withdrawal (sy_gate (settled y)) = gt_withdrawal (sy_gate y)"
  by (simp_all add: settled_def)

lemma halted_settled [simp]: "halted kind (settled y) z = halted kind y z"
  by (simp add: halted_def)

lemma careful_settled [simp]: "careful_mode_active t (settled y) = careful_mode_active t y"
  by (simp add: careful_mode_active_def)

section \<open>Starting a contact withdrawal\<close>

lemma gate_frames [simp]:
  "sy_gate (fst (clear_motion_queue y)) = sy_gate y"
  "gt_withdrawal (sy_gate (clear_dock_contact_latch y)) = gt_withdrawal (sy_gate y)"
  "gt_withdrawal (sy_gate (clear_sensor_gates_for_careful y)) = gt_withdrawal (sy_gate y)"
  by (simp_all add: clear_motion_queue_def clear_dock_contact_latch_def clear_sensor_gates_for_careful_def
      fst_and_then Let_def split: option.split)

lemma no_withdrawal_by_stop:
  assumes "gt_withdrawal (sy_gate y) = None"
  shows "gt_withdrawal (sy_gate (fst (apply_safety_response kind RespondStop y))) = None"
    and "gt_withdrawal (sy_gate (fst (police_wheel_drop y))) = None"
    and "gt_withdrawal (sy_gate (fst (yield_to_charge mark y))) = None \<or> \<not> (\<forall>g. gt_withdrawal (mark g) = gt_withdrawal g)"
  using assms by (auto simp: apply_safety_response_def police_wheel_drop_def yield_to_charge_def latch_safety_def
      fst_and_then abandon_commands_def)

lemma no_withdrawal_by_charge:
  assumes "gt_withdrawal (sy_gate y) = None"
  shows "gt_withdrawal (sy_gate (fst (police_home_base y))) = None"
    and "gt_withdrawal (sy_gate (fst (police_charging y))) = None"
    and "gt_withdrawal (sy_gate (fst (police_escape e h y))) = None"
  using assms no_withdrawal_by_stop [of "clear_dock_contact_latch y"] no_withdrawal_by_stop [of y]
    no_withdrawal_by_stop(1) [of "on_st f y" for f]
  by (auto simp: police_home_base_def police_charging_def police_escape_def Let_def fst_and_then abandon_commands_def
      yield_to_charge_def split: option.split)

lemma withdrawal_response:
  assumes "gt_withdrawal (sy_gate y) = None"
    and "gt_withdrawal (sy_gate (fst (apply_safety_response kind RespondContactWithdrawal y))) \<noteq> None"
  shows "rn_commands (sy_run (fst (apply_safety_response kind RespondContactWithdrawal y))) = [withdrawal_command] \<and>
    gt_kind (sy_gate (fst (apply_safety_response kind RespondContactWithdrawal y))) = Some kind \<and> kind = SBump \<and>
    hw_tx (ln_hw (sy_link (fst (apply_safety_response kind RespondContactWithdrawal y)))) = hw_tx (ln_hw (sy_link y)) @ stop_frame"
proof -
  let ?w = "abandon_commands (latch_safety kind y)"
  have w: "gt_withdrawal (sy_gate ?w) = None" "rn_commands (sy_run ?w) = []" "gt_kind (sy_gate ?w) = Some kind"
    "hw_tx (ln_hw (sy_link ?w)) = hw_tx (ln_hw (sy_link y))"
    using assms(1) by (simp_all add: abandon_commands_def latch_safety_def)
  have good: "snd (stop_drive ?w) = None"
    using assms(2) w(1) by (cases "snd (stop_drive ?w) = None") (auto simp: apply_safety_response_def fst_and_then Let_def)
  have "kind = SBump"
    using assms(2) w(1) by (cases "kind = SBump") (auto simp: apply_safety_response_def fst_and_then Let_def split: if_splits)
  then show ?thesis using stop_drive_ok [OF good] w good
    by (simp add: apply_safety_response_def fst_and_then start_contact_withdrawal_def with_now_def Let_def
        command_queue_capacity_def)
qed

section \<open>Careful mode\<close>

lemma ensure_responsive_frame [simp]:
  "sy_gate (fst (ensure_create_responsive y)) = sy_gate y" "sy_run (fst (ensure_create_responsive y)) = sy_run y"
  by (simp_all add: ensure_create_responsive_def with_now_def Let_def split: option.split)

lemma clear_gates_frame [simp]:
  "gt_latched (sy_gate (clear_sensor_gates_for_careful y)) = False"
  "gt_charging (sy_gate (clear_sensor_gates_for_careful y)) = False"
  "gt_dock_departure (sy_gate (clear_sensor_gates_for_careful y)) = False"
  by (simp_all add: clear_sensor_gates_for_careful_def Let_def)

definition careful_ttl :: "u32 \<Rightarrow> u32" where
  "careful_ttl ttl = clamp_word careful_mode_min_ttl_ms careful_mode_max_ttl_ms ttl"

lemma careful_ttl_bounds: "250 \<le> careful_ttl ttl \<and> careful_ttl ttl \<le> 15000"
  unfolding careful_ttl_def careful_mode_min_ttl_ms_def careful_mode_max_ttl_ms_def
  by (rule clamp_word_bounds) simp

lemma careful_deadline:
  assumes "deadline_span e"
  shows "time_reached e (careful_ttl ttl) \<longleftrightarrow> \<not> e < careful_ttl ttl"
proof -
  have "deadline_span (careful_ttl ttl)"
    using careful_ttl_bounds [of ttl] by (auto simp: deadline_span_def word_le_nat_alt word_less_nat_alt)
  then show ?thesis
    using ms.reached_iff_elapsed [of "careful_ttl ttl" e 0] span_elapsed_iff [OF assms] assms by simp
qed

section \<open>Properties\<close>

lemma resting_facts [simp]:
  "clock_ms resting = 0" "rn_escape (sy_run resting) = None" "rn_careful_until (sy_run resting) = None"
  "gt_latched (sy_gate resting) = False" "gt_kind (sy_gate resting) = None" "gt_withdrawal (sy_gate resting) = None"
  "gt_estop (sy_gate resting) = False" "gt_tilt_since (sy_gate resting) = None"
  "st_imu (st_of resting) = initial_imu_status" "st_sensor (st_of resting) = cleared_sensor_status"
  "pf_of resting = example_platform" "rn_commands (sy_run resting) = []" "rn_active (sy_run resting) = ANone"
  "cr_last_packet_at (sy_create resting) = None" "gt_observed (sy_gate resting) = False"
  "gt_charging (sy_gate resting) = False" "rn_command_id (sy_run resting) = None"
  by (simp_all add: resting_def new_runtime_def Let_def clock_ms_def hw_now_ms_def now_us_def idle_hardware_def
      publish_def set_audio_silent_def set_careful_mode_until_def set_body_state_def set_runtime_state_def
      initial_status_def)

lemma resting_charge [simp]: "rs_charging_indicator (st_run (st_of resting)) = UNKNOWN"
  by (simp add: resting_def new_runtime_def Let_def publish_def set_audio_silent_def set_careful_mode_until_def
      set_body_state_def set_runtime_state_def signal_event_def record_public_event_from_brainstem_event_def
      event_blinks_def request_led_blinks_def emit_def initial_status_def initial_run_status_def)


definition with_flags :: "u32 \<Rightarrow> sys \<Rightarrow> sys" where
  "with_flags flags y = on_st (\<lambda>s. s\<lparr>st_sensor := (st_sensor s)\<lparr>sn_flags := flags\<rparr>\<rparr>) y"

lemma with_flags_simps [simp]:
  "sy_run (with_flags f y) = sy_run y" "sy_gate (with_flags f y) = sy_gate y" "clock_ms (with_flags f y) = clock_ms y"
  "pf_of (with_flags f y) = pf_of y" "st_imu (st_of (with_flags f y)) = st_imu (st_of y)"
  "st_run (st_of (with_flags f y)) = st_run (st_of y)"
  "st_sensor (st_of (with_flags f y)) = (st_sensor (st_of y))\<lparr>sn_flags := f\<rparr>"
  "line_up (sy_link (with_flags f y)) = line_up (sy_link y)"
  "hw_tx (ln_hw (sy_link (with_flags f y))) = hw_tx (ln_hw (sy_link y))"
  by (simp_all add: with_flags_def clock_ms_def)

lemma untilted [simp]: "st_imu s = initial_imu_status \<Longrightarrow> tilt_sensed pf s = False"
  "st_imu s = initial_imu_status \<Longrightarrow> impact_sensed pf s = False"
  by (simp_all add: tilt_sensed_def impact_sensed_def imu_ok_def initial_imu_status_def)

lemma sensed_at_rest: "sy_gate y = g \<Longrightarrow> st_imu (st_of y) = initial_imu_status \<Longrightarrow>
  sensed y = sense_hazards False (pf_of y) (st_of y)"
  by (simp add: sensed_def observe_tilt_def)

lemma dropped_wheel_sensed:
  "sensed (with_flags 4 resting) = \<lparr>hz_bump = False, hz_cliff = False, hz_wheel_drop = True, hz_tilt = False,
     hz_impact = False, hz_charging = False, hz_home_base = False\<rparr>"
  by (simp add: sensed_at_rest [OF HOL.refl] sense_hazards_def bump_flags_def cliff_flags_def flag_bit_def
      home_base_sensed_def charging_interlock_active_def charging_state_active_def cleared_sensor_status_def)


text \<open>Contact withdrawal: the autonomous reverse starts only from a bump edge not seen before, after
  the first observation, while the commanded velocity is forward, and never when a stronger hazard, a
  charge or a latch is present; the robot has then been stopped and the bounded reverse is the only
  queued command.\<close>

theorem withdrawal_only_on_fresh_contact:
  assumes "gt_withdrawal (sy_gate y) = None"
    and "gt_withdrawal (sy_gate (fst (enforce_safety_policy y))) \<noteq> None"
  defines "z \<equiv> fst (enforce_safety_policy y)"
  shows "hz_bump (sensed y) \<and> gt_observed (sy_gate y) \<and> \<not> gt_last_bump (sy_gate y) \<and> unsafe_forward_output y
    \<and> \<not> hz_wheel_drop (sensed y) \<and> \<not> hz_tilt (sensed y) \<and> \<not> hz_impact (sensed y) \<and> \<not> hz_cliff (sensed y)
    \<and> \<not> hz_charging (sensed y) \<and> \<not> hz_home_base (sensed y) \<and> \<not> gt_latched (sy_gate y)
    \<and> rn_commands (sy_run z) = [withdrawal_command] \<and> gt_kind (sy_gate z) = Some SBump
    \<and> hw_tx (ln_hw (sy_link z)) = hw_tx (ln_hw (sy_link y)) @ stop_frame"
proof -
  let ?h = "sensed y" and ?s = "settled y"
  let ?fresh = "hz_bump ?h \<and> \<not> gt_last_bump (sy_gate ?s)" and ?n = "note_edges (sensed y) (settled y)"
  have none: "gt_withdrawal (sy_gate ?s) = None" "gt_withdrawal (sy_gate ?n) = None"
    using assms(1) by simp_all
  note facts = assms(2) [unfolded policy_is_police police_def Let_def]
    no_withdrawal_by_charge [OF none(1)] no_withdrawal_by_stop [OF none(2)] none
  have body: "\<not> hz_wheel_drop ?h" "\<not> gt_latched (sy_gate y)"
      "gt_withdrawal (sy_gate (fst (police_hazard ?fresh ?h ?n))) \<noteq> None"
      "enforce_safety_policy y = police_hazard ?fresh ?h ?n"
      "\<not> (hz_home_base ?h \<and> \<not> hz_tilt ?h \<and> \<not> hz_impact ?h)" "\<not> (hz_charging ?h \<and> \<not> hz_tilt ?h \<and> \<not> hz_impact ?h)"
    using facts by (auto simp: policy_is_police police_def Let_def split: option.splits if_splits)
  obtain kind response trips where chosen: "choose_response ?fresh ?h ?n = (kind, response, trips)"
    by (cases "choose_response ?fresh ?h ?n")
  let ?t = "if trips then on_st (mark_safety_tripped kind) ?n else ?n"
  have t: "gt_withdrawal (sy_gate ?t) = None" using none by simp
  have moved: "gt_withdrawal (sy_gate (fst (apply_safety_response kind response ?t))) \<noteq> None"
    and z: "enforce_safety_policy y = and_then (apply_safety_response kind response ?t)
      (\<lambda>y. ok (request_audio (safety_auditory_cue kind) y))"
    using body(3,4) by (auto simp: police_hazard_def chosen fst_and_then split: if_splits)
  have response: "response = RespondContactWithdrawal"
    using moved no_withdrawal_by_stop(1) [OF t] by (cases response) auto
  then have cond: "\<not> hz_tilt ?h" "\<not> hz_impact ?h" "\<not> hz_cliff ?h" "hz_bump ?h" "?fresh" "unsafe_forward_output ?n"
    using chosen by (auto simp: choose_response_def split: if_splits)
  have fresh: "gt_observed (sy_gate y) \<and> \<not> gt_last_bump (sy_gate y)"
    using cond(4,5) by (auto simp: settled_def settle_observation_def Let_def split: if_splits)
  have fwd: "unsafe_forward_output y" using cond(6) by (simp add: unsafe_forward_output_def)
  have "hw_tx (ln_hw (sy_link ?t)) = hw_tx (ln_hw (sy_link y))"
    by (simp add: note_edges_def)
  then show ?thesis
    using withdrawal_response [OF t] moved response cond fresh fwd body(1,2,5,6)
    unfolding z_def z by (auto simp: fst_and_then)
qed

definition bumped :: sys where
  "bumped = on_gate (\<lambda>g. g\<lparr>gt_observed := True\<rparr>)
     (on_run (\<lambda>r. r\<lparr>rn_velocity := Some \<lparr>av_linear = 100, av_angular = 0\<rparr>\<rparr>) (with_flags 1 resting))"

lemma bumped_simps [simp]:
  "sy_gate bumped = (sy_gate resting)\<lparr>gt_observed := True\<rparr>" "sy_link bumped = sy_link (with_flags 1 resting)"
  "sy_run bumped = (sy_run resting)\<lparr>rn_velocity := Some \<lparr>av_linear = 100, av_angular = 0\<rparr>\<rparr>"
  by (simp_all add: bumped_def)

lemma bumped_sensed:
  "sensed bumped = \<lparr>hz_bump = True, hz_cliff = False, hz_wheel_drop = False, hz_tilt = False,
     hz_impact = False, hz_charging = False, hz_home_base = False\<rparr>"
  by (simp add: sensed_at_rest [OF HOL.refl] sense_hazards_def bump_flags_def cliff_flags_def flag_bit_def
      home_base_sensed_def charging_interlock_active_def charging_state_active_def cleared_sensor_status_def)

lemma bumped_starts_withdrawal: "gt_withdrawal (sy_gate (fst (enforce_safety_policy bumped))) \<noteq> None"
proof -
  have last: "gt_last_bump (sy_gate (settled bumped)) = False"
    by (simp add: settled_def settle_observation_def Let_def observe_tilt_def resting_def new_runtime_def
        split: option.split)
  have "gt_withdrawal (sy_gate (fst (enforce_safety_policy bumped))) =
      gt_withdrawal (sy_gate (fst (apply_safety_response SBump RespondContactWithdrawal
        (on_st (mark_safety_tripped SBump) (note_edges (sensed bumped) (settled bumped))))))"
    by (simp add: policy_is_police police_def Let_def careful_mode_active_def bumped_sensed last police_hazard_def
        choose_response_def unsafe_forward_output_def fst_and_then)
  also have "\<dots> \<noteq> None"
    by (simp add: apply_safety_response_def Let_def fst_and_then stop_drive_up abandon_commands_def latch_safety_def
        note_edges_def update_safety_edges_def start_contact_withdrawal_def with_now_def)
  finally show ?thesis .
qed

theorem withdrawal_only_on_fresh_contact_witness:
  "rn_commands (sy_run (fst (enforce_safety_policy bumped))) = [withdrawal_command]"
  using withdrawal_only_on_fresh_contact [of bumped] bumped_starts_withdrawal by simp

text \<open>Tilt debounce: the first observation never counts, and while the tilt stays sensed a later one
  counts exactly when the hold time of 100 ms has passed.\<close>

theorem tilt_counts_after_hold:
  assumes "gt_tilt_since (sy_gate y) = None" and "deadline_span e"
  shows "snd (observe_tilt t y) = False \<and>
    snd (observe_tilt (t + e) (fst (observe_tilt t y))) = (tilt_sensed (pf_of y) (st_of y) \<and> 100 \<le> e)"
proof -
  have "time_reached (t + e) (t + 100) = (100 \<le> e)"
    using ms.reached_iff_elapsed [of 100 e t] span_elapsed_iff [OF assms(2), of 100] assms(2)
    by (auto simp: deadline_span_def)
  then show ?thesis using assms(1)
    by (auto simp: observe_tilt_def imu_tilt_latch_hold_ms_def split: option.split)
qed

theorem tilt_counts_after_hold_witness:
  "\<not> snd (observe_tilt (7 + 99) (fst (observe_tilt 7 resting)))"
  using tilt_counts_after_hold [of resting 99 7] by (simp add: deadline_span_def)

text \<open>Careful mode: it is entered only with the emergency stop released, for a time to live clamped
  between 250 ms and 15 s whatever was asked for, is active exactly that long, publishes its deadline and
  opens the sensor gates.\<close>

theorem careful_mode_is_bounded:
  assumes "snd (enter_careful_mode ttl y) = None"
  defines "z \<equiv> fst (enter_careful_mode ttl y)"
  shows "\<not> gt_estop (sy_gate y) \<and> 250 \<le> careful_ttl ttl \<and> careful_ttl ttl \<le> 15000 \<and>
    (\<exists>now. rn_careful_until (sy_run z) = Some (now + careful_ttl ttl) \<and>
      sf_careful_until_ms (st_safety (st_of z)) = now + careful_ttl ttl \<and>
      (\<forall>e. deadline_span e \<longrightarrow> (careful_mode_active (now + e) z \<longleftrightarrow> e < careful_ttl ttl))) \<and>
    \<not> gt_latched (sy_gate z) \<and> \<not> gt_charging (sy_gate z) \<and> \<not> gt_dock_departure (sy_gate z)"
proof -
  let ?w = "fst (ensure_create_responsive y)"
  have open_gate: "\<not> gt_estop (sy_gate y)"
    using assms(1) by (auto simp: enter_careful_mode_def snd_and_then_None_iff split: if_splits)
  let ?g = "clear_sensor_gates_for_careful (clock_read ?w)"
  let ?r = "on_run (\<lambda>r. r\<lparr>rn_careful_until := Some (clock_ms ?w + careful_ttl ttl)\<rparr>) ?g"
  have z: "z = on_st (set_careful_mode_until (rn_careful_until (sy_run ?r))) ?r"
    using assms(1) open_gate
    by (simp add: z_def enter_careful_mode_def snd_and_then_None_iff fst_and_then with_now_def Let_def careful_ttl_def)
  show ?thesis using open_gate careful_ttl_bounds [of ttl]
    by (auto simp: z set_careful_mode_until_def careful_mode_active_def careful_deadline
        intro!: exI [of _ "clock_ms ?w"])
qed

theorem careful_mode_is_bounded_witness:
  "\<exists>now. rn_careful_until (sy_run (fst (enter_careful_mode 60000 (on_create (\<lambda>c. c\<lparr>cr_responsive := True\<rparr>) resting))))
     = Some (now + 15000)"
proof -
  have "snd (enter_careful_mode 60000 (on_create (\<lambda>c. c\<lparr>cr_responsive := True\<rparr>) resting)) = None"
    by (simp add: enter_careful_mode_def ensure_create_responsive_def with_now_def Let_def)
  moreover have "careful_ttl 60000 = 15000"
    by (simp add: careful_ttl_def clamp_word_def careful_mode_min_ttl_ms_def careful_mode_max_ttl_ms_def)
  ultimately show ?thesis
    using careful_mode_is_bounded [of 60000 "on_create (\<lambda>c. c\<lparr>cr_responsive := True\<rparr>) resting"] by auto
qed



text \<open>Clearing the motion queue: the rotation over the bounded deque leaves exactly the commands
  that are not motions, in their order.\<close>

theorem clear_motion_queue_filters:
  assumes "length (rn_commands (sy_run y)) \<le> 16"
  shows "rn_commands (sy_run (fst (clear_motion_queue y))) =
    filter (\<lambda>c. \<not> is_motion_command (q_command c)) (rn_commands (sy_run y))"
  using rotate_queue_is_filter [of y "\<lambda>_ z. z"] assms
  by (simp add: clear_motion_queue_def command_queue_capacity_def Let_def fst_and_then)

theorem clear_motion_queue_filters_witness:
  "rn_commands (sy_run (fst (clear_motion_queue (on_run (\<lambda>r. r\<lparr>rn_commands :=
     [queued 1 (RCmdVel 5 0 (Some 100)), queued 2 (RHeartbeatStop 500), queued 3 RDock]\<rparr>) resting))))
   = [queued 2 (RHeartbeatStop 500)]"
  by (subst clear_motion_queue_filters) (simp_all add: queued_def is_motion_command_def)

end
