(* ===== verification/Runtime_Queue.thy ===== *)
theory Runtime_Queue
  imports Safety_Rules
begin

text \<open>
  \<open>runtime/command_queue.rs\<close>: taking a command from the mailbox into the queue of the runtime,
  with the preemption of a stop, the coalescing of velocities and the reset line of the
  motherbrain computer.
\<close>

section \<open>Resetting the motherbrain\<close>

definition motherbrain_reset_pulse_ms :: u32 where "motherbrain_reset_pulse_ms = 100"
definition motherbrain_reset_cooldown_ms :: u32 where "motherbrain_reset_cooldown_ms = 30000"
definition motherbrain_reset_service_scope :: u8 where "motherbrain_reset_service_scope = 4"

definition record_of :: "reset_identity \<Rightarrow> reset_record option \<Rightarrow> bool" where
  "record_of identity slot \<longleftrightarrow> (case slot of None \<Rightarrow> False | Some r \<Rightarrow> rr_identity r = identity)"

definition store_record :: "reset_record \<Rightarrow> reset_state \<Rightarrow> reset_state" where
  "store_record r m =
     (case find_index (record_of (rr_identity r)) (mr_history m) of
        Some i \<Rightarrow> m\<lparr>mr_history := (mr_history m)[i := Some r]\<rparr>
      | None \<Rightarrow> m\<lparr>mr_history := (mr_history m)[mr_next m := Some r],
                  mr_next := (mr_next m + 1) mod motherbrain_reset_history_capacity\<rparr>)"

definition remember_motherbrain_reset :: "reset_record \<Rightarrow> sys \<Rightarrow> sys" where
  "remember_motherbrain_reset r = on_reset (store_record r)"

definition replay_motherbrain_reset_outcome :: "reset_record \<Rightarrow> sys \<Rightarrow> sys" where
  "replay_motherbrain_reset_outcome r =
     (let i = rr_identity r in
      case rr_outcome r of
        ResetRefused reason \<Rightarrow> on_st (mark_motherbrain_reset_refused reason (ri_session_hash i) (ri_lease_hash i))
      | ResetAsserted \<Rightarrow>
          on_st (mark_motherbrain_reset_asserted (ri_command_id i) (ri_session_hash i) (ri_lease_hash i))
      | ResetCompleted \<Rightarrow>
          on_st (mark_motherbrain_reset_completed (ri_command_id i) (ri_session_hash i) (ri_lease_hash i)))"

definition reset_refusal :: "reset_identity \<Rightarrow> u32 \<Rightarrow> sys \<Rightarrow> motherbrain_reset_refusal option" where
  "reset_refusal identity now_ms y =
     (if ri_command_id identity = 0 then Some RefusedInvalidCommandId
      else if \<not> mr_enabled (sy_reset y) then Some RefusedHardwareDisabled
      else if \<not> active_service_authority_matches (ri_session_hash identity) (ri_lease_hash identity) now_ms
                 motherbrain_reset_service_scope (st_of y)
      then Some RefusedInvalidServiceAuthority
      else if mr_active (sy_reset y) \<noteq> None \<or> \<not> time_reached now_ms (mr_cooldown_until (sy_reset y))
      then Some RefusedCooldown
      else
        (let stopped = rs_body_state (st_run (st_of y)) = body_state_code BodyIdle \<and>
               rn_active (sy_run y) = ANone \<and> rn_commands (sy_run y) = [] \<and> rn_heartbeat_at (sy_run y) = None;
             disarmed = rs_oi_mode (st_run (st_of y)) = 1
         in if \<not> stopped \<or> \<not> disarmed then Some RefusedUnsafeState else None))"

definition request_motherbrain_reset :: "reset_identity \<Rightarrow> sys \<Rightarrow> sys" where
  "request_motherbrain_reset identity = with_now (\<lambda>now_ms y.
     (let y = on_st (mark_motherbrain_reset_requested (ri_command_id identity) (ri_session_hash identity)
                (ri_lease_hash identity)) y
      in case find (record_of identity) (mr_history (sy_reset y)) of
           Some (Some r) \<Rightarrow> replay_motherbrain_reset_outcome r y
         | _ \<Rightarrow>
             (case reset_refusal identity now_ms y of
                Some reason \<Rightarrow>
                  (let r = \<lparr>rr_identity = identity, rr_outcome = ResetRefused reason\<rparr> in
                   request_audio CueServiceFailure
                     (replay_motherbrain_reset_outcome r (remember_motherbrain_reset r y)))
              | None \<Rightarrow>
                  (let y = on_link (on_hw (set_motherbrain_reset True)) y;
                       y = on_reset (\<lambda>m. m\<lparr>mr_active := Some \<lparr>ar_identity = identity,
                                ar_release_at_ms = now_ms + motherbrain_reset_pulse_ms\<rparr>,
                              mr_cooldown_until := now_ms + motherbrain_reset_cooldown_ms\<rparr>) y;
                       r = \<lparr>rr_identity = identity, rr_outcome = ResetAsserted\<rparr>
                   in replay_motherbrain_reset_outcome r (remember_motherbrain_reset r y)))))"

definition poll_motherbrain_reset :: "sys \<Rightarrow> sys" where
  "poll_motherbrain_reset y =
     (case mr_active (sy_reset y) of
        None \<Rightarrow> y
      | Some active \<Rightarrow>
          with_now (\<lambda>now_ms y.
            if time_reached now_ms (ar_release_at_ms active) then
              (let y = on_link (on_hw (set_motherbrain_reset False)) y;
                   y = on_reset (\<lambda>m. m\<lparr>mr_active := None\<rparr>) y;
                   r = \<lparr>rr_identity = ar_identity active, rr_outcome = ResetCompleted\<rparr>
               in request_audio CueServiceComplete
                    (replay_motherbrain_reset_outcome r (remember_motherbrain_reset r y)))
            else y) y)"

section \<open>Queueing\<close>

definition enqueue_back :: "queued_command \<Rightarrow> sys \<Rightarrow> sys" where
  "enqueue_back c = on_run (\<lambda>r. r\<lparr>rn_commands := push_back command_queue_capacity (rn_commands r) c\<rparr>)"

definition enqueue_front :: "queued_command \<Rightarrow> sys \<Rightarrow> sys" where
  "enqueue_front c = on_run (\<lambda>r. r\<lparr>rn_commands := push_front command_queue_capacity (rn_commands r) c\<rparr>)"

text \<open>\<open>for command in SCRIPT.iter().rev() { push_front }\<close>\<close>

definition enqueue_script_front :: "u32 \<Rightarrow> runtime_command list \<Rightarrow> sys \<Rightarrow> sys" where
  "enqueue_script_front i script y = fold (\<lambda>c. enqueue_front (queued i c)) (rev script) y"

definition queue_create_acquisition :: "u32 \<Rightarrow> sys \<Rightarrow> sys" where
  "queue_create_acquisition i y =
     on_run (\<lambda>r. r\<lparr>rn_mode := MRunning\<rparr>) (fold (\<lambda>c. enqueue_back (queued i c)) acquire_create_script y)"

definition wake_lane :: "sys \<Rightarrow> sys" where
  "wake_lane y =
     (if rn_mode (sy_run y) = MIdle \<or> rn_mode (sy_run y) = MError
      then on_st (set_runtime_state Running) (on_run (\<lambda>r. r\<lparr>rn_mode := MRunning\<rparr>) y) else y)"

definition enqueue_latest_velocity :: "u32 \<Rightarrow> runtime_command \<Rightarrow> sys \<Rightarrow> sys" where
  "enqueue_latest_velocity i command y =
     (case command of
        RCmdVel linear angular (Some duration) \<Rightarrow>
          (let y = rotate_queue (length (rn_commands (sy_run y))) (\<lambda>c. \<not> is_cmd_vel (q_command c))
                     (\<lambda>c. if q_id c \<noteq> i then on_st (mark_command_interrupted (q_id c)) else (\<lambda>y. y)) y;
               velocity = \<lparr>av_linear = linear, av_angular = angular\<rparr>
           in if is_driving (rn_active (sy_run y)) \<and> rn_velocity (sy_run y) = Some velocity
              then with_now (\<lambda>now_ms. set_active (ADriving (now_ms + duration))) y
              else if is_driving (rn_active (sy_run y))
              then enqueue_front (queued i (RCmdVel linear angular (Some duration)))
                     (set_active ANone (interrupt_active_command y))
              else enqueue_back (queued i (RCmdVel linear angular (Some duration))) y)
      | _ \<Rightarrow> enqueue_back (queued i command) y)"

definition enqueue_escape :: "u32 \<Rightarrow> runtime_command \<Rightarrow> sys \<Rightarrow> sys" where
  "enqueue_escape i command y =
     enqueue_back (queued_recovery i command)
       (rotate_queue (length (rn_commands (sy_run y))) (\<lambda>c. \<not> is_escape_motion (q_command c))
          (\<lambda>c. on_st (mark_command_interrupted (q_id c))) y)"

definition translated :: "brainstem_command \<Rightarrow> (runtime_command \<Rightarrow> sys \<Rightarrow> sys) \<Rightarrow> sys \<Rightarrow> sys" where
  "translated command f y =
     (case runtime_command_from_forebrain command of None \<Rightarrow> y | Some c \<Rightarrow> f c y)"

definition stop_lane :: "brainstem_command \<Rightarrow> u32 \<Rightarrow> sys \<Rightarrow> sys" where
  "stop_lane command i y =
     (let y = on_voice (\<lambda>v. v\<lparr>vo_docking := False\<rparr>) y;
          y = on_run (\<lambda>r. r\<lparr>rn_heartbeat_at := None\<rparr>) (abandon_commands y);
          y = (if command = BEStop then cancel_careful_mode y else y);
          y = enqueue_front (queued i (if command = BEStop then REStop else RStop)) y
      in on_run (\<lambda>r. r\<lparr>rn_mode := MRunning\<rparr>) y)"

definition disarm_lane :: "u32 \<Rightarrow> sys \<Rightarrow> sys" where
  "disarm_lane i y =
     (let y = on_run (\<lambda>r. r\<lparr>rn_heartbeat_at := None\<rparr>) (abandon_commands y);
          y = enqueue_script_front i disarm_script (cancel_careful_mode y)
      in on_run (\<lambda>r. r\<lparr>rn_mode := MRunning\<rparr>) y)"

definition restart_lane :: "u32 \<Rightarrow> sys \<Rightarrow> sys" where
  "restart_lane i y =
     (let y = on_voice (\<lambda>v. v\<lparr>vo_restart_pending := True\<rparr>) y;
          y = on_run (\<lambda>r. r\<lparr>rn_heartbeat_at := None\<rparr>) (abandon_commands y);
          y = enqueue_script_front i restart_create_script (cancel_careful_mode y)
      in on_st (set_runtime_state Running) (on_run (\<lambda>r. r\<lparr>rn_mode := MRunning\<rparr>) y))"

text \<open>The match over the command.\<close>

definition accept_command :: "brainstem_command \<Rightarrow> u32 \<Rightarrow> u32 \<Rightarrow> u32 \<Rightarrow> sys \<Rightarrow> sys" where
  "accept_command command i session_hash lease_hash y =
     (case command of
        BStop \<Rightarrow> stop_lane command i y
      | BEStop \<Rightarrow> stop_lane command i y
      | BArm \<Rightarrow> wake_lane (queue_create_acquisition i y)
      | BDisarm \<Rightarrow> disarm_lane i y
      | BRestartCreate \<Rightarrow> restart_lane i y
      | BResetMotherbrain \<Rightarrow>
          request_motherbrain_reset
            \<lparr>ri_session_hash = session_hash, ri_lease_hash = lease_hash, ri_command_id = i\<rparr> y
      | BCmdVel _ _ _ _ \<Rightarrow> wake_lane (translated command (enqueue_latest_velocity i) y)
      | BEscapeMotion _ _ _ _ _ _ \<Rightarrow> wake_lane (translated command (enqueue_escape i) y)
      | _ \<Rightarrow> wake_lane (translated command (\<lambda>c. enqueue_back (queued i c)) y))"

definition dispatch_command :: "brainstem_command \<Rightarrow> sys \<Rightarrow> sys" where
  "dispatch_command command y =
     (let i = cs_last_dispatched (st_cmd (st_of y));
          session_hash = cs_dispatched_session (st_cmd (st_of y));
          lease_hash = cs_dispatched_lease (st_cmd (st_of y));
          withdrawing = gt_withdrawal (sy_gate y) \<noteq> None;
          preempts = command_preempts_contact_withdrawal command
      in if withdrawing \<and> \<not> preempts then on_st (mark_command_interrupted i) y
         else
           (let y = (if withdrawing \<and> preempts then
                       (let stopped = stop_drive y in
                        finish_contact_withdrawal WithdrawalSafetyPreempted
                          (if command = BEStop then Some SEStop else None) (is_ok stopped) (fst stopped))
                     else y)
            in accept_command command i session_hash lease_hash y))"

definition poll_control_command :: "sys \<Rightarrow> sys" where
  "poll_control_command y =
     (let y' = on_st (\<lambda>s. fst (take_control_command s)) y in
      case snd (take_control_command (st_of y)) of
        None \<Rightarrow> y'
      | Some command \<Rightarrow> dispatch_command command y')"

section \<open>What is kept\<close>

definition ids :: "reset_record option list \<Rightarrow> reset_identity list" where
  "ids h = map rr_identity (map the (filter (\<lambda>r. r \<noteq> None) h))"

lemma identities_ids: "identities m = ids (mr_history m)"
  by (simp add: identities_def ids_def)

lemma ids_append: "ids (xs @ ys) = ids xs @ ids ys" and ids_Some: "ids (Some r # h) = rr_identity r # ids h"
  and ids_None: "ids (None # h) = ids h" and ids_Nil: "ids [] = []"
  by (simp_all add: ids_def)

lemma ids_split: "i < length h \<Longrightarrow> ids h = ids (take i h) @ ids [h ! i] @ ids (drop (Suc i) h)"
  using id_take_nth_drop [of i h] by (metis ids_append append_Cons append_Nil)

lemma ids_update: "i < length h \<Longrightarrow> ids (h[i := Some r]) = ids (take i h) @ rr_identity r # ids (drop (Suc i) h)"
  by (simp add: upd_conv_take_nth_drop ids_append ids_Some)

lemma record_of_iff: "(\<exists>x \<in> set h. record_of identity x) \<longleftrightarrow> identity \<in> set (ids h)"
  by (induction h) (auto simp: record_of_def ids_def split: option.splits)

lemma store_record_ok:
  assumes "reset_ok m"
  shows "reset_ok (store_record r m) \<and> rr_identity r \<in> set (identities (store_record r m))"
proof (cases "find_index (record_of (rr_identity r)) (mr_history m)")
  case (Some i)
  then have i: "i < length (mr_history m)" "record_of (rr_identity r) (mr_history m ! i)"
    using find_index_Some by blast+
  then have "ids [mr_history m ! i] = [rr_identity r]"
    by (auto simp: record_of_def ids_def split: option.splits)
  with i Some show ?thesis using assms(1) ids_split [OF i(1)]
    by (simp add: store_record_def reset_ok_def identities_ids ids_update)
next
  case None
  let ?n = "mr_next m"
  have n: "?n < length (mr_history m)" using assms(1) by (simp add: reset_ok_def)
  have fresh: "rr_identity r \<notin> set (ids (mr_history m))"
    using None record_of_iff by (auto simp: find_index_None)
  have "distinct (ids (mr_history m))" using assms(1) by (simp add: reset_ok_def identities_ids)
  then have "distinct (ids ((mr_history m)[?n := Some r]))"
    using fresh unfolding ids_split [OF n] ids_update [OF n] by auto
  moreover have "rr_identity r \<in> set (ids ((mr_history m)[?n := Some r]))" by (simp add: ids_update [OF n])
  ultimately show ?thesis using None assms(1)
    by (simp add: store_record_def reset_ok_def identities_ids motherbrain_reset_history_capacity_def)
qed

context steady begin

lemma remember_keeps [keeps]: "K y \<Longrightarrow> K (remember_motherbrain_reset r y)"
  unfolding remember_motherbrain_reset_def by (rule k_reset) (simp_all add: store_record_ok)

lemma replay_keeps [keeps]: "K y \<Longrightarrow> K (replay_motherbrain_reset_outcome r y)"
  by (auto simp: replay_motherbrain_reset_outcome_def Let_def intro!: keeps split: reset_outcome.split)

lemma reset_fields_keep [keeps]:
  "K y \<Longrightarrow> (\<And>m. mr_history (f m) = mr_history m) \<Longrightarrow> (\<And>m. mr_next (f m) = mr_next m) \<Longrightarrow> K (on_reset f y)"
  by (rule k_reset) (simp_all add: reset_ok_def identities_def)

lemma request_reset_keeps [keeps]: "K y \<Longrightarrow> K (request_motherbrain_reset identity y)"
  unfolding request_motherbrain_reset_def Let_def by (auto intro!: keeps split: option.split)

lemma poll_reset_keeps [keeps]: "K y \<Longrightarrow> K (poll_motherbrain_reset y)"
  unfolding poll_motherbrain_reset_def Let_def by (auto intro!: keeps split: option.split)

lemma enqueue_keeps [keeps]: "K y \<Longrightarrow> K (enqueue_back c y)" "K y \<Longrightarrow> K (enqueue_front c y)"
  unfolding enqueue_back_def enqueue_front_def by (rule k_run; simp add: run_change_def)+

lemma fold_keeps: "K y \<Longrightarrow> (\<And>x z. K z \<Longrightarrow> K (f x z)) \<Longrightarrow> K (fold f xs y)"
  by (induction xs arbitrary: y) auto

lemma scripts_keep [keeps]: "K y \<Longrightarrow> K (enqueue_script_front i script y)" "K y \<Longrightarrow> K (queue_create_acquisition i y)"
  by (auto simp: enqueue_script_front_def queue_create_acquisition_def intro!: keeps fold_keeps)

lemma lanes_keep [keeps]:
  "K y \<Longrightarrow> K (wake_lane y)" "K y \<Longrightarrow> K (enqueue_escape i c y)" "K y \<Longrightarrow> K (enqueue_latest_velocity i c y)"
  by (auto simp: wake_lane_def enqueue_escape_def enqueue_latest_velocity_def Let_def intro!: keeps rotate_keeps
      split: runtime_command.split option.split)

lemma voice_fields_keep [keeps]:
  "K y \<Longrightarrow> (\<And>v. voice_ok v \<Longrightarrow> voice_ok (f v)) \<Longrightarrow> K (on_voice f y)"
  by (rule k_voice)

lemma stop_lanes_keep [keeps]:
  "K y \<Longrightarrow> K (stop_lane c i y)" "K y \<Longrightarrow> K (disarm_lane i y)" "K y \<Longrightarrow> K (restart_lane i y)"
  by (auto simp: stop_lane_def disarm_lane_def restart_lane_def Let_def voice_ok_def intro!: keeps)

lemma accept_keeps [keeps]: "K y \<Longrightarrow> K (accept_command c i s l y)"
  unfolding accept_command_def translated_def
  by (auto intro!: keeps split: brainstem_command.split option.split)

lemma dispatch_keeps [keeps]: "K y \<Longrightarrow> K (dispatch_command c y)"
  unfolding dispatch_command_def Let_def by (auto intro!: keeps)

lemma poll_control_keeps [keeps]: "K y \<Longrightarrow> K (poll_control_command y)"
  unfolding poll_control_command_def Let_def by (auto intro!: keeps split: option.split)

end

section \<open>The reset line\<close>

lemma replay_frame [simp]:
  "sy_run (replay_motherbrain_reset_outcome r y) = sy_run y" "sy_reset (replay_motherbrain_reset_outcome r y) = sy_reset y"
  "ln_hw (sy_link (replay_motherbrain_reset_outcome r y)) = ln_hw (sy_link y)"
  by (simp_all add: replay_motherbrain_reset_outcome_def Let_def split: reset_outcome.split)

lemma remember_frame [simp]:
  "sy_run (remember_motherbrain_reset r y) = sy_run y" "sy_link (remember_motherbrain_reset r y) = sy_link y"
  "sy_reset (remember_motherbrain_reset r y) = store_record r (sy_reset y)"
  by (simp_all add: remember_motherbrain_reset_def)

lemma store_record_frame [simp]:
  "mr_active (store_record r m) = mr_active m" "mr_cooldown_until (store_record r m) = mr_cooldown_until m"
  "mr_enabled (store_record r m) = mr_enabled m"
  by (simp_all add: store_record_def split: option.split)

lemma request_audio_reset_line [simp]:
  "hw_motherbrain_reset (ln_hw (sy_link (request_audio c y))) = hw_motherbrain_reset (ln_hw (sy_link y))"
  by (simp add: request_audio_def with_now_def clock_read_def Let_def split: prod.split cue_request_result.split)

lemma clock_read_reset_line [simp]:
  "hw_motherbrain_reset (ln_hw (sy_link (clock_read y))) = hw_motherbrain_reset (ln_hw (sy_link y))"
  by (simp add: clock_read_def)

abbreviation reset_line :: "sys \<Rightarrow> bool list" where
  "reset_line y \<equiv> hw_motherbrain_reset (ln_hw (sy_link y))"

definition remembered :: "reset_identity \<Rightarrow> sys \<Rightarrow> bool" where
  "remembered identity y \<longleftrightarrow> identity \<in> set (identities (sy_reset y))"

lemma find_record: "find (record_of identity) h = Some slot \<Longrightarrow> \<exists>r. slot = Some r"
  by (induction h) (auto simp: record_of_def split: if_splits option.splits)

lemma find_eq_None_ids: "find (record_of identity) h = None \<longleftrightarrow> identity \<notin> set (ids h)"
  unfolding find_None_iff record_of_iff [symmetric] by blast

lemma remembered_iff_found: "remembered identity y \<longleftrightarrow> find (record_of identity) (mr_history (sy_reset y)) \<noteq> None"
  unfolding remembered_def identities_ids find_eq_None_ids by blast

lemma remembered_replays:
  assumes "remembered identity y"
  shows "sy_reset (request_motherbrain_reset identity y) = sy_reset y"
    and "reset_line (request_motherbrain_reset identity y) = reset_line y"
    and "sy_run (request_motherbrain_reset identity y) = sy_run y"
proof -
  obtain r where "find (record_of identity) (mr_history (sy_reset y)) = Some (Some r)"
    using assms find_record unfolding remembered_iff_found by blast
  then show "sy_reset (request_motherbrain_reset identity y) = sy_reset y"
    and "reset_line (request_motherbrain_reset identity y) = reset_line y"
    and "sy_run (request_motherbrain_reset identity y) = sy_run y"
    by (simp_all add: request_motherbrain_reset_def with_now_def Let_def)
qed

lemma stored_identity: "reset_ok m \<Longrightarrow> rr_identity r = i \<Longrightarrow> i \<in> set (identities (store_record r m))"
  using store_record_ok by blast

lemma armed_ok: "reset_ok m \<Longrightarrow> reset_ok (m\<lparr>mr_active := a, mr_cooldown_until := c\<rparr>)"
  by (simp add: reset_ok_def identities_def)

lemma new_request:
  assumes "\<not> remembered identity y"
  shows "request_motherbrain_reset identity y =
    (let z = on_st (mark_motherbrain_reset_requested (ri_command_id identity) (ri_session_hash identity)
                (ri_lease_hash identity)) (clock_read y) in
     case reset_refusal identity (clock_ms y) z of
        Some reason \<Rightarrow> request_audio CueServiceFailure
            (replay_motherbrain_reset_outcome \<lparr>rr_identity = identity, rr_outcome = ResetRefused reason\<rparr>
              (remember_motherbrain_reset \<lparr>rr_identity = identity, rr_outcome = ResetRefused reason\<rparr> z))
      | None \<Rightarrow> replay_motherbrain_reset_outcome \<lparr>rr_identity = identity, rr_outcome = ResetAsserted\<rparr>
            (remember_motherbrain_reset \<lparr>rr_identity = identity, rr_outcome = ResetAsserted\<rparr>
              (on_reset (\<lambda>m. m\<lparr>mr_active := Some \<lparr>ar_identity = identity,
                    ar_release_at_ms = clock_ms y + motherbrain_reset_pulse_ms\<rparr>,
                  mr_cooldown_until := clock_ms y + motherbrain_reset_cooldown_ms\<rparr>)
                (on_link (on_hw (set_motherbrain_reset True)) z))))"
proof -
  have "find (record_of identity) (mr_history (sy_reset y)) = None"
    using assms unfolding remembered_iff_found by blast
  then show ?thesis
    unfolding request_motherbrain_reset_def with_now_def Let_def on_group_simps clock_read_frame by simp
qed

lemma emit_refusal [simp]:
  "reset_refusal identity t (on_st (mark_motherbrain_reset_requested a b c) y) = reset_refusal identity t y"
  "reset_refusal identity t (clock_read y) = reset_refusal identity t y"
  by (simp_all add: reset_refusal_def mark_motherbrain_reset_requested_def active_service_authority_matches_def Let_def)

lemma not_refused_iff:
  "reset_refusal identity now y = None \<longleftrightarrow>
     ri_command_id identity \<noteq> 0 \<and> mr_enabled (sy_reset y) \<and>
     active_service_authority_matches (ri_session_hash identity) (ri_lease_hash identity) now 4 (st_of y) \<and>
     mr_active (sy_reset y) = None \<and> time_reached now (mr_cooldown_until (sy_reset y)) \<and>
     rs_body_state (st_run (st_of y)) = body_state_code BodyIdle \<and> rn_active (sy_run y) = ANone \<and>
     rn_commands (sy_run y) = [] \<and> rn_heartbeat_at (sy_run y) = None \<and> rs_oi_mode (st_run (st_of y)) = 1"
  by (auto simp: reset_refusal_def motherbrain_reset_service_scope_def)

section \<open>Properties\<close>

text \<open>C19. The motherbrain reset: the line is asserted exactly for a request that was not seen before, names
  a command, holds the service lease, and finds the robot stopped, disarmed and out of cooldown; the
  pulse and the cooldown are then armed. Every request is remembered, and repeating a remembered
  request never touches the line again.\<close>

theorem reset_pulse_only_when_safe:
  fixes identity :: reset_identity
  assumes "reset_ok (sy_reset y)"
  defines "z \<equiv> request_motherbrain_reset identity y"
  shows "(reset_line z \<noteq> reset_line y \<longleftrightarrow>
      \<not> remembered identity y \<and> ri_command_id identity \<noteq> 0 \<and> mr_enabled (sy_reset y) \<and>
      active_service_authority_matches (ri_session_hash identity) (ri_lease_hash identity) (clock_ms y) 4 (st_of y) \<and>
      mr_active (sy_reset y) = None \<and> time_reached (clock_ms y) (mr_cooldown_until (sy_reset y)) \<and>
      rs_body_state (st_run (st_of y)) = body_state_code BodyIdle \<and> rn_active (sy_run y) = ANone \<and>
      rn_commands (sy_run y) = [] \<and> rn_heartbeat_at (sy_run y) = None \<and> rs_oi_mode (st_run (st_of y)) = 1)
    \<and> (reset_line z \<noteq> reset_line y \<longrightarrow> reset_line z = reset_line y @ [True] \<and>
        mr_active (sy_reset z) = Some \<lparr>ar_identity = identity, ar_release_at_ms = clock_ms y + 100\<rparr> \<and>
        mr_cooldown_until (sy_reset z) = clock_ms y + 30000)
    \<and> remembered identity z
    \<and> reset_line (request_motherbrain_reset identity z) = reset_line z"
proof (cases "remembered identity y")
  case True
  then have again: "remembered identity z"
    by (simp add: z_def remembered_def remembered_replays(1) [OF True])
  show ?thesis using remembered_replays(2) [OF True] remembered_replays(2) [OF again] True again
    by (simp add: z_def)
next
  case False
  have rem: "remembered identity z"
    by (auto simp: z_def new_request [OF False] remembered_def Let_def assms(1)
        intro!: stored_identity armed_ok split: option.split)
  then have again: "reset_line (request_motherbrain_reset identity z) = reset_line z"
    by (rule remembered_replays(2))
  show ?thesis
  proof (cases "reset_refusal identity (clock_ms y) y")
    case None
    then have "reset_line z = reset_line y @ [True]"
      "mr_active (sy_reset z) = Some \<lparr>ar_identity = identity, ar_release_at_ms = clock_ms y + 100\<rparr>"
      "mr_cooldown_until (sy_reset z) = clock_ms y + 30000"
      by (simp_all add: z_def new_request [OF False] Let_def set_motherbrain_reset_def on_hw_def
          motherbrain_reset_pulse_ms_def motherbrain_reset_cooldown_ms_def)
    then show ?thesis using False rem again None by (simp add: not_refused_iff)
  next
    case (Some reason)
    then have "reset_line z = reset_line y"
      by (simp add: z_def new_request [OF False] Let_def)
    then show ?thesis using rem again Some not_refused_iff [of identity "clock_ms y" y] by auto
  qed
qed

definition serviceable :: sys where
  "serviceable = on_st (\<lambda>s. set_oi_mode Passive (set_body_state BodyIdle (install_service_authority 7 8 100 4 s))) resting"

lemma serviceable_facts [simp]:
  "sy_reset serviceable = sy_reset resting" "sy_run serviceable = sy_run resting" "clock_ms serviceable = 0"
  "rs_body_state (st_run (st_of serviceable)) = 6" "rs_oi_mode (st_run (st_of serviceable)) = 1"
  "active_service_authority_matches 7 8 0 4 (st_of serviceable)"
  using resting_facts(1)
  by (simp_all add: serviceable_def set_oi_mode_def set_body_state_def install_service_authority_def clock_ms_def
      active_service_authority_matches_def time_reached_def)

lemma resting_reset [simp]:
  "mr_active (sy_reset resting) = None" "mr_cooldown_until (sy_reset resting) = 0" "mr_enabled (sy_reset resting)"
  "\<not> remembered identity serviceable" "rn_heartbeat_at (sy_run resting) = None"
  by (simp_all add: resting_def new_runtime_def Let_def remembered_def serviceable_def identities_def example_platform_def
      motherbrain_reset_history_capacity_def publish_def)

theorem reset_pulse_only_when_safe_witness:
  "reset_line (request_motherbrain_reset \<lparr>ri_session_hash = 7, ri_lease_hash = 8, ri_command_id = 5\<rparr> serviceable)
     = reset_line serviceable @ [True]"
proof -
  have "reset_ok (sy_reset serviceable)" using resting_ok by (simp add: sys_ok_def)
  then show ?thesis
    using reset_pulse_only_when_safe [of serviceable "\<lparr>ri_session_hash = 7, ri_lease_hash = 8, ri_command_id = 5\<rparr>"]
    by simp
qed

text \<open>A stop taken from the mailbox empties the lane: it becomes the only queued command, nothing is
  active, no velocity, escape, heartbeat or contact withdrawal is left and the lane runs.\<close>

theorem stop_clears_the_lane:
  assumes "snd (take_control_command (st_of y)) = Some command" and "command = BStop \<or> command = BEStop"
  defines "z \<equiv> poll_control_command y"
  shows "rn_commands (sy_run z) = [queued (cs_last_dispatched (st_cmd (fst (take_control_command (st_of y)))))
        (if command = BEStop then REStop else RStop)]
    \<and> rn_active (sy_run z) = ANone \<and> rn_mode (sy_run z) = MRunning \<and> rn_velocity (sy_run z) = None
    \<and> rn_escape (sy_run z) = None \<and> rn_heartbeat_at (sy_run z) = None \<and> rn_command_id (sy_run z) = None
    \<and> gt_withdrawal (sy_gate z) = None"
  using assms(1,2)
  by (auto simp: z_def poll_control_command_def dispatch_command_def accept_command_def stop_lane_def
      command_preempts_contact_withdrawal_def abandon_commands_def cancel_careful_mode_def enqueue_front_def
      command_queue_capacity_def Let_def)

definition stop_waiting :: sys where
  "stop_waiting = on_run (\<lambda>r. r\<lparr>rn_commands := [queued 1 RDock], rn_active := ADriving 9\<rparr>)
     (on_st (\<lambda>s. s\<lparr>st_mail := (st_mail s)\<lparr>mb_kind := control_value CcEStop, mb_id := 5\<rparr>\<rparr>) resting)"

lemma stop_is_taken: "take_control_command (st_of stop_waiting) =
  ((st_of stop_waiting)\<lparr>st_mail := (st_mail (st_of stop_waiting))\<lparr>mb_kind := 0\<rparr>,
     st_cmd := (st_cmd (st_of stop_waiting))\<lparr>cs_last_dispatched := 5,
       cs_dispatched_session := mb_service_session (st_mail (st_of stop_waiting)),
       cs_dispatched_lease := mb_service_lease (st_mail (st_of stop_waiting))\<rparr>\<rparr>, Some BEStop)"
  by (simp add: stop_waiting_def take_control_command_def decode_control_command_def
      is_retired_control_code_def Let_def)

theorem stop_clears_the_lane_witness:
  "rn_commands (sy_run (poll_control_command stop_waiting)) = [queued 5 REStop]"
  using stop_clears_the_lane [of stop_waiting BEStop] by (simp add: stop_is_taken)

text \<open>Velocity coalescing: whatever the bounded queue holds, after a velocity arrives at most one
  velocity is queued and the other commands keep their order; the velocity already driven only has its deadline
  renewed, a different one preempts the drive, and nothing is sent to the motors here.\<close>

theorem velocity_coalesces:
  fixes i :: u32 and linear angular :: i16 and duration :: u32
  assumes "length (rn_commands (sy_run y)) \<le> 16"
  defines "others \<equiv> filter (\<lambda>c. \<not> is_cmd_vel (q_command c)) (rn_commands (sy_run y))"
    and "new \<equiv> queued i (RCmdVel linear angular (Some duration))"
    and "z \<equiv> enqueue_latest_velocity i (RCmdVel linear angular (Some duration)) y"
  shows "rn_commands (sy_run z) =
      (if \<not> is_driving (rn_active (sy_run y)) then push_back 16 others new
       else if rn_velocity (sy_run y) = Some \<lparr>av_linear = linear, av_angular = angular\<rparr> then others
       else push_front 16 others new)
    \<and> (is_driving (rn_active (sy_run y)) \<and> rn_velocity (sy_run y) = Some \<lparr>av_linear = linear, av_angular = angular\<rparr> \<longrightarrow>
        (\<exists>now. rn_active (sy_run z) = ADriving (now + duration)) \<and> rn_velocity (sy_run z) = rn_velocity (sy_run y)
        \<and> rn_command_id (sy_run z) = rn_command_id (sy_run y))
    \<and> (is_driving (rn_active (sy_run y)) \<and> rn_velocity (sy_run y) \<noteq> Some \<lparr>av_linear = linear, av_angular = angular\<rparr> \<longrightarrow>
        rn_active (sy_run z) = ANone)
    \<and> length (filter (\<lambda>c. is_cmd_vel (q_command c)) (rn_commands (sy_run z))) \<le> 1
    \<and> hw_tx (ln_hw (sy_link z)) = hw_tx (ln_hw (sy_link y))"
proof -
  let ?m = "\<lambda>c. if q_id c \<noteq> i then on_st (mark_command_interrupted (q_id c)) else (\<lambda>y. y)"
  let ?r = "rotate_queue (length (rn_commands (sy_run y))) (\<lambda>c. \<not> is_cmd_vel (q_command c)) ?m y"
  have cmds: "rn_commands (sy_run ?r) = others"
    unfolding others_def by (rule rotate_queue_is_filter) (use assms(1) in \<open>simp_all add: command_queue_capacity_def\<close>)
  have run: "rn_active (sy_run (rotate_queue n s ?m w)) = rn_active (sy_run w) \<and>
      rn_velocity (sy_run (rotate_queue n s ?m w)) = rn_velocity (sy_run w) \<and>
      rn_command_id (sy_run (rotate_queue n s ?m w)) = rn_command_id (sy_run w) \<and>
      hw_tx (ln_hw (sy_link (rotate_queue n s ?m w))) = hw_tx (ln_hw (sy_link w))" for n s w
    by (induction n arbitrary: w) (simp_all add: Let_def split: list.split)
  have none: "filter (\<lambda>c. is_cmd_vel (q_command c)) others = []"
    by (simp add: others_def filter_empty_conv)
  show ?thesis using cmds run none
    by (auto simp: z_def new_def enqueue_latest_velocity_def enqueue_back_def enqueue_front_def with_now_def
        command_queue_capacity_def push_back_def push_front_def Let_def)
qed

theorem velocity_coalesces_witness:
  "rn_commands (sy_run (enqueue_latest_velocity 3 (RCmdVel 20 0 (Some 300))
     (on_run (\<lambda>r. r\<lparr>rn_commands := [queued 1 (RCmdVel 10 0 (Some 300)), queued 2 RDock]\<rparr>) resting)))
   = [queued 2 RDock, queued 3 (RCmdVel 20 0 (Some 300))]"
  using velocity_coalesces [of "on_run (\<lambda>r. r\<lparr>rn_commands := [queued 1 (RCmdVel 10 0 (Some 300)), queued 2 RDock]\<rparr>) resting"
      3 20 0 300]
  by (simp add: queued_def is_cmd_vel_def)

end
