(* ===== verification/Runtime_Execution.thy ===== *)
theory Runtime_Execution
  imports Runtime_Queue
begin

text \<open>
  \<open>runtime/execution.rs\<close>: starting the next queued command, one branch per command, and
  advancing the action in progress: power pulses, the wake probe, timed drives and the departure
  from the dock.
\<close>

section \<open>Wheel motion\<close>

definition create_axle_track_mm :: int where "create_axle_track_mm = 258"
definition dock_departure_speed_mm_s :: i16 where "dock_departure_speed_mm_s = - 200"
definition dock_departure_duration_ms :: u32 where "dock_departure_duration_ms = 1500"

definition start_dock_departure :: "u32 \<Rightarrow> sys \<Rightarrow> sys_outcome" where
  "start_dock_departure now_ms y =
     and_then (ensure_create_responsive y) (\<lambda>y.
       (let y = on_gate (\<lambda>g. g\<lparr>gt_dock_departure := False\<rparr>) y;
            y = on_run (\<lambda>r. r\<lparr>rn_heartbeat_at := None, rn_velocity := None\<rparr>) y;
            y = on_run (\<lambda>r. r\<lparr>rn_stop_sent := False\<rparr>) (on_st (set_body_state BodyMoving) y)
        in and_then (lift_link (drive_direct dock_departure_speed_mm_s dock_departure_speed_mm_s
               dock_departure_duration_ms) y)
             (\<lambda>y. ok (set_active (ADockDeparture (now_ms + dock_departure_duration_ms)) y))))"

text \<open>The wheel speeds of a velocity: \<open>angular * axle / 2000\<close> is truncated.\<close>

definition half_delta :: "i16 \<Rightarrow> int" where
  "half_delta angular = trunc_div (sint angular * create_axle_track_mm) 2000"

definition left_wheel :: "i16 \<Rightarrow> i16 \<Rightarrow> i16" where
  "left_wheel linear angular = clamp_i16 (sint linear - half_delta angular)"

definition right_wheel :: "i16 \<Rightarrow> i16 \<Rightarrow> i16" where
  "right_wheel linear angular = clamp_i16 (sint linear + half_delta angular)"

definition start_cmd_vel :: "i16 \<Rightarrow> i16 \<Rightarrow> u32 option \<Rightarrow> u32 \<Rightarrow> sys \<Rightarrow> sys_outcome" where
  "start_cmd_vel linear angular duration now_ms y =
     (if linear = 0 \<and> angular = 0 then and_then (stop_drive y) (\<lambda>y. ok (set_active ANone y))
      else
        and_then (start_drive_direct (left_wheel linear angular) (right_wheel linear angular) duration now_ms y)
          (\<lambda>y. ok (on_run (\<lambda>r. r\<lparr>rn_velocity := Some \<lparr>av_linear = linear, av_angular = angular\<rparr>\<rparr>) y)))"

section \<open>The orientation probe\<close>

definition orientation_probe_min_accel :: u16 where "orientation_probe_min_accel = 7000"
definition orientation_probe_max_accel :: u16 where "orientation_probe_max_accel = 13000"

definition elapsed_since :: "u32 \<Rightarrow> u32 \<Rightarrow> u32" where
  "elapsed_since now_ms timestamp_ms = (if timestamp_ms = 0 then 0 else now_ms - timestamp_ms)"

definition probe_imu_ready :: "u32 \<Rightarrow> sys \<Rightarrow> bool" where
  "probe_imu_ready now_ms y \<longleftrightarrow>
     (let imu = st_imu (st_of y); accel = (ucast (iu_accel_magnitude imu) :: u16) in
      imu_ok (pf_of y) (st_of y) \<and> 0 < iu_count imu \<and>
      elapsed_since now_ms (iu_last_ms imu) \<le> pf_imu_poll_period_ms (pf_of y) * 5 \<and>
      orientation_probe_min_accel \<le> accel \<and> accel \<le> orientation_probe_max_accel)"

definition ensure_orientation_probe_allowed :: "u32 \<Rightarrow> sys \<Rightarrow> sys_outcome" where
  "ensure_orientation_probe_allowed now_ms y =
     (if gt_estop (sy_gate y) \<or> gt_dock_departure (sy_gate y) \<or> gt_charging (sy_gate y)
         \<or> (gt_latched (sy_gate y) \<and> gt_kind (sy_gate y) \<noteq> Some STilt)
      then and_then (stop_drive y) (fail CreateNoResponse)
      else
        and_then (ensure_create_responsive y) (\<lambda>y.
          (let s = st_of y; flags = sn_flags (st_sensor s);
               still_tilted = tilt_exceeds (pf_of y) (ucast (iu_tilt_magnitude (st_imu s)));
               impact = (ucast (iu_impact_score (st_imu s)) :: u16) \<ge> pf_imu_impact_stop_mm_s2 (pf_of y)
           in if flag_bit 2 flags \<or> cliff_flags flags \<or> charging_interlock_active s
                 \<or> \<not> probe_imu_ready now_ms y \<or> impact
                 \<or> (still_tilted \<and> gt_kind (sy_gate y) \<noteq> Some STilt)
              then and_then (stop_drive y) (fail CreateNoResponse)
              else ok y)))"

definition start_orientation_probe :: "i16 \<Rightarrow> u32 \<Rightarrow> u32 \<Rightarrow> sys \<Rightarrow> sys_outcome" where
  "start_orientation_probe angular duration_ms now_ms y =
     (let angular_abs = abs_i32 (sint angular) in
      if angular_abs = 0 \<or> duration_ms = 0 then and_then (stop_drive y) (\<lambda>y. ok (set_active ANone y))
      else
        and_then (ensure_orientation_probe_allowed now_ms y) (\<lambda>y.
        (let zeroed = zero_imu_orientation_from_gravity (st_of y);
             y = on_st (\<lambda>_. fst zeroed) y
         in if \<not> snd zeroed then and_then (stop_drive y) (fail CreateNoResponse)
            else
              (let y = (if gt_kind (sy_gate y) = Some STilt then clear_safety_latch (Some STilt) y else y) in
               and_then (ensure_orientation_probe_allowed now_ms y) (\<lambda>y.
                 start_cmd_vel 0 (clamp_i16 angular_abs) (Some duration_ms) now_ms
                   (on_st mark_odometry_reset y))))))"

section \<open>Commands\<close>

definition begin_power_pulse :: "brainstem_event \<Rightarrow> u32 \<Rightarrow> u32 option \<Rightarrow> bool \<Rightarrow> sys \<Rightarrow> sys" where
  "begin_power_pulse event now_ms wake_wait power_on y =
     set_active (APowerPulse (now_ms + pf_power_toggle_pulse_ms (pf_of y)) wake_wait power_on)
       (on_link (on_hw begin_power_toggle_pulse) (push_event event y))"

definition known_power :: "sys \<Rightarrow> bool option" where
  "known_power y = known_create_power_state (rs_create_power (st_run (st_of y)))"

definition wake_create :: "u32 \<Rightarrow> sys \<Rightarrow> sys" where
  "wake_create now_ms y =
     (let y = on_create (\<lambda>c. c\<lparr>cr_responsive := False\<rparr>) y;
          y = on_st (set_body_state BodyWaitingForCreate) (on_st set_oi_mode_unknown y)
      in if known_power y = Some False
         then begin_power_pulse EvCreatePowerOnRequested now_ms (Some (now_ms + pf_wake_wait_ms (pf_of y))) True y
         else set_active (AWaitForCreate (now_ms + pf_responsive_timeout_ms (pf_of y)) now_ms 0 False
                (known_power y = None)) y)"

definition sleep_create :: "u32 \<Rightarrow> sys \<Rightarrow> sys_outcome" where
  "sleep_create now_ms y =
     (let y = on_st set_oi_mode_unknown (on_create (\<lambda>c. c\<lparr>cr_responsive := False\<rparr>) y) in
      and_then (stop_drive y) (\<lambda>y. ok
        (case known_power y of
           Some False \<Rightarrow> set_active ANone (on_st (set_body_state BodyIdle) y)
         | Some True \<Rightarrow>
             begin_power_pulse EvCreatePowerOffRequested now_ms None False (on_st (set_body_state BodyPowerCycling) y)
         | None \<Rightarrow> set_active ANone (refuse_active_command (on_st (set_body_state BodyIdle) y)))))"

definition estop_command :: "sys \<Rightarrow> sys_outcome" where
  "estop_command y =
     and_then (stop_drive y) (\<lambda>y.
       (let y = on_gate (\<lambda>g. g\<lparr>gt_estop := True\<rparr>) y;
            y = on_st (mark_safety_tripped SEStop) (on_st mark_estop_latched y)
        in ok (set_active ANone (request_audio CueEStop y))))"

definition clear_estop_command :: "sys \<Rightarrow> sys" where
  "clear_estop_command y =
     request_audio CueSafetyClear
       (on_st (mark_safety_cleared SEStop) (on_st mark_estop_cleared (on_gate (\<lambda>g. g\<lparr>gt_estop := False\<rparr>) y)))"

definition count_drop :: "sys_outcome \<Rightarrow> sys" where
  "count_drop r = (if is_ok r then fst r else on_st (increment_audio_dropped_or_replaced 1) (fst r))"

definition define_chirp :: "feedback_kind \<Rightarrow> tones \<Rightarrow> u8 \<Rightarrow> sys \<Rightarrow> sys" where
  "define_chirp kind tones tone_count y =
     (let index = feedback_index kind; slot = feedback_slot kind; count = min tone_count 16;
          y = on_voice (\<lambda>v. v\<lparr>vo_chirps := (vo_chirps v)[index := tones],
                vo_chirp_counts := (vo_chirp_counts v)[index := count],
                vo_durations := (vo_durations v)[unat slot := tone_duration_ms tones count]\<rparr>) y
      in if cr_responsive (sy_create y)
         then count_drop (lift_link (define_song slot (vo_chirps (sy_voice y) ! index)
                (vo_chirp_counts (sy_voice y) ! index)) y)
         else y)"

text \<open>\<open>PlayFeedback\<close> returns early, having completed the command, when nothing can be played; on
  the other path the command is completed as every other one that leaves no action.\<close>

definition settle_start :: "sys \<Rightarrow> sys" where
  "settle_start y = (if rn_active (sy_run y) = ANone then complete_active_command y else y)"

definition play_feedback :: "feedback_kind \<Rightarrow> u32 \<Rightarrow> sys \<Rightarrow> sys" where
  "play_feedback kind now_ms y =
     (if au_silent (vo_audio (sy_voice y))
      then complete_active_command (set_active ANone (on_st increment_audio_suppressed_by_silent y))
      else if \<not> cr_responsive (sy_create y) then complete_active_command (set_active ANone y)
      else
        settle_start
          (case feedback_tones kind y of
             (tones, tone_count) \<Rightarrow>
               if \<not> au_playback_available now_ms (vo_audio (sy_voice y))
               then on_st (increment_audio_dropped_or_replaced 1) y
               else
                 (let played = define_and_play (feedback_slot kind) tones tone_count y in
                  if \<not> is_ok played then on_st (increment_audio_dropped_or_replaced 1) (fst played)
                  else on_voice (\<lambda>v. v\<lparr>vo_audio := au_mark_manual_played now_ms
                         (tone_duration_ms tones tone_count) (vo_audio v)\<rparr>) (fst played))))"

definition song_play :: "u8 \<Rightarrow> u32 \<Rightarrow> sys \<Rightarrow> sys" where
  "song_play sid now_ms y =
     (if au_silent (vo_audio (sy_voice y)) then on_st increment_audio_suppressed_by_silent y
      else if \<not> au_playback_available now_ms (vo_audio (sy_voice y))
      then on_st (increment_audio_dropped_or_replaced 1) y
      else if \<not> cr_responsive (sy_create y) then y
      else
        (let played = lift_link (play_song sid) y in
         if \<not> is_ok played then on_st (increment_audio_dropped_or_replaced 1) (fst played)
         else
           (let duration = (if unat sid < length (vo_durations (sy_voice y))
                            then vo_durations (sy_voice y) ! unat sid else 0)
            in on_voice (\<lambda>v. v\<lparr>vo_audio := au_mark_manual_played now_ms (max duration 1000) (vo_audio v)\<rparr>)
                 (fst played))))"

definition song_define :: "u8 \<Rightarrow> tones \<Rightarrow> u8 \<Rightarrow> sys \<Rightarrow> sys" where
  "song_define sid tones tone_count y =
     (let y = (if unat sid < length (vo_durations (sy_voice y))
               then on_voice (\<lambda>v. v\<lparr>vo_durations := (vo_durations v)[unat sid := tone_duration_ms tones tone_count]\<rparr>) y
               else y)
      in if cr_responsive (sy_create y) then count_drop (lift_link (define_song sid tones tone_count) y) else y)"

definition stream_sensors :: "bool \<Rightarrow> u8 \<Rightarrow> u32 \<Rightarrow> u32 \<Rightarrow> sys \<Rightarrow> sys" where
  "stream_sensors enabled packet_id period_ms now_ms y =
     on_create (\<lambda>c. c\<lparr>cr_stream :=
       (if enabled then Some \<lparr>sm_packet_id = packet_id, sm_period_ms = max period_ms runtime_tick_ms,
                               sm_next_request_ms = now_ms\<rparr>
        else None)\<rparr>) y"

definition full_mode_refresh_period_ms :: u32 where "full_mode_refresh_period_ms = 1000"

definition set_mode_command :: "create_oi_mode \<Rightarrow> u32 \<Rightarrow> sys \<Rightarrow> sys_outcome" where
  "set_mode_command mode now_ms y =
     and_then (lift_link (uart_set_mode mode) y) (\<lambda>y.
       (let y = (if mode = Full
                 then on_create (\<lambda>c. c\<lparr>cr_next_full_ms := now_ms + full_mode_refresh_period_ms\<rparr>) y else y)
        in ok (set_active (ASettle (now_ms + pf_post_mode_settle_ms (pf_of y))) y)))"

definition start_oi_command :: "u32 \<Rightarrow> sys \<Rightarrow> sys_outcome" where
  "start_oi_command now_ms y =
     and_then (lift_link uart_start_oi y) (\<lambda>y.
       ok (set_active (ASettle (now_ms + pf_post_start_settle_ms (pf_of y)))
             (on_st (set_body_state BodyOiStarted) y)))"

definition set_baud_command :: "u32 \<Rightarrow> u32 \<Rightarrow> sys \<Rightarrow> sys_outcome" where
  "set_baud_command baud now_ms y =
     (let y = on_link flush_rx y;
          good = snd (set_create_uart_baud baud (ln_hw (sy_link y)));
          y = on_link (on_hw (\<lambda>h. fst (set_create_uart_baud baud h))) y
      in if \<not> good then fail UartFraming y
         else ok (on_create (\<lambda>c. c\<lparr>cr_next_full_ms := now_ms\<rparr>)
                (on_st set_oi_mode_unknown (on_create (\<lambda>c. c\<lparr>cr_responsive := False\<rparr>) y))))"

definition dock_command :: "u32 \<Rightarrow> sys \<Rightarrow> sys_outcome" where
  "dock_command now_ms y =
     and_then (ensure_create_responsive y) (\<lambda>y.
     and_then (lift_link seek_dock y) (\<lambda>y.
       ok (on_voice (\<lambda>v. v\<lparr>vo_docking := True, vo_last_ir := sn_ir_byte (st_sensor (st_of y))\<rparr>) y)))"

definition escape_command ::
  "safety_latch_kind \<Rightarrow> u32 \<Rightarrow> i16 \<Rightarrow> i16 \<Rightarrow> u32 \<Rightarrow> u32 \<Rightarrow> sys \<Rightarrow> sys_outcome" where
  "escape_command kind generation linear angular ttl_ms now_ms y =
     (if validate_escape_motion (pf_of y) kind generation linear angular ttl_ms (st_of y) \<noteq> None
      then fail CreateNoResponse y
      else start_cmd_vel linear angular (Some ttl_ms) now_ms
             (on_run (\<lambda>r. r\<lparr>rn_escape := Some \<lparr>ae_kind = kind, ae_generation = generation, ae_linear = linear,
                ae_angular = angular, ae_ttl_ms = ttl_ms\<rparr>\<rparr>) y))"

definition velocity_command :: "u32 \<Rightarrow> i16 \<Rightarrow> i16 \<Rightarrow> u32 option \<Rightarrow> u32 \<Rightarrow> sys \<Rightarrow> sys_outcome" where
  "velocity_command i linear angular duration now_ms y =
     and_then (start_cmd_vel linear angular duration now_ms y) (\<lambda>y.
       ok (if linear \<noteq> 0 \<or> angular \<noteq> 0 then on_st (mark_velocity_stream_active i linear angular) y else y))"

definition zero_orientation_command :: "sys \<Rightarrow> sys" where
  "zero_orientation_command y =
     (let zeroed = zero_imu_orientation_from_gravity (st_of y);
          y = on_st (\<lambda>_. fst zeroed) y
      in if snd zeroed \<and> gt_kind (sy_gate y) = Some STilt then clear_safety_latch (Some STilt) y else y)"

text \<open>The match of \<open>start_next_command\<close>.\<close>

definition perform_command :: "u32 \<Rightarrow> runtime_command \<Rightarrow> u32 \<Rightarrow> sys \<Rightarrow> sys_outcome" where
  "perform_command i command now_ms y =
     (case command of
        RStop \<Rightarrow> and_then (stop_drive y) (\<lambda>y. ok (set_active ANone y))
      | RStopDrive \<Rightarrow> and_then (stop_drive y) (\<lambda>y. ok (set_active ANone y))
      | REStop \<Rightarrow> estop_command y
      | RClearEStop \<Rightarrow> ok (clear_estop_command y)
      | RWakeCreate \<Rightarrow> ok (wake_create now_ms y)
      | RSleepCreate \<Rightarrow> sleep_create now_ms y
      | RStartOi \<Rightarrow> start_oi_command now_ms y
      | RSetCreateBaud baud \<Rightarrow> set_baud_command baud now_ms y
      | RSetMode mode \<Rightarrow> set_mode_command mode now_ms y
      | RDrive left right duration \<Rightarrow> start_drive_direct left right (Some duration) now_ms y
      | RDriveDirect left right duration \<Rightarrow> start_drive_direct left right duration now_ms y
      | RCmdVel linear angular duration \<Rightarrow> velocity_command i linear angular duration now_ms y
      | RClearSafetyLatch kind \<Rightarrow> ok (clear_safety_latch (Some (safety_latch_kind_to_event kind)) y)
      | RCarefulMode ttl \<Rightarrow> enter_careful_mode ttl y
      | REscapeMotion kind generation linear angular ttl \<Rightarrow>
          escape_command kind generation linear angular ttl now_ms y
      | RHeartbeatStop timeout \<Rightarrow> ok (on_run (\<lambda>r. r\<lparr>rn_heartbeat_at := Some (now_ms + timeout)\<rparr>) y)
      | RDriveArc velocity radius duration \<Rightarrow> start_drive_arc velocity radius duration now_ms y
      | RRequestSensors packet_id \<Rightarrow> lift_link (request_sensor_packet packet_id) y
      | RStreamSensors enabled packet_id period \<Rightarrow> ok (stream_sensors enabled packet_id period now_ms y)
      | RClearMotionQueue \<Rightarrow> clear_motion_queue y
      | RDefineChirp kind tones tone_count \<Rightarrow> ok (define_chirp kind tones tone_count y)
      | RPlayFeedback kind \<Rightarrow> ok (play_feedback kind now_ms y)
      | RSetAudioSilent silent \<Rightarrow> ok (runtime_set_audio_silent silent y)
      | RCalibrateTurn angular duration \<Rightarrow> start_cmd_vel 0 angular (Some duration) now_ms y
      | ROrientationProbe angular duration \<Rightarrow> start_orientation_probe angular duration now_ms y
      | RResetOdometry \<Rightarrow> ok (on_st mark_odometry_reset y)
      | RZeroImuOrientation \<Rightarrow> ok (zero_orientation_command y)
      | RClearImuOrientation \<Rightarrow> ok (on_st clear_imu_orientation_calibration y)
      | RSongPlay sid \<Rightarrow> ok (song_play sid now_ms y)
      | RSongDefine sid tones tone_count \<Rightarrow> ok (song_define sid tones tone_count y)
      | RDock \<Rightarrow> dock_command now_ms y
      | RSetLights bits color intensity \<Rightarrow> lift_link (uart_set_lights bits color intensity) y)"

definition is_play_feedback :: "runtime_command \<Rightarrow> bool" where
  "is_play_feedback c = (case c of RPlayFeedback _ \<Rightarrow> True | _ \<Rightarrow> False)"

definition begin_command :: "queued_command \<Rightarrow> u32 \<Rightarrow> sys \<Rightarrow> sys_outcome" where
  "begin_command q now_ms y =
     (let y = on_st (set_command (Some (q_command q))) y;
          y = on_run (\<lambda>r. r\<lparr>rn_command_id := Some (q_id q), rn_recovery_motion := q_recovery q\<rparr>) y;
          y = on_st (mark_command_started (q_id q) (command_code (Some (q_command q)))) y
      in and_then (perform_command (q_id q) (q_command q) now_ms y)
           (\<lambda>y. ok (if is_play_feedback (q_command q) then y else settle_start y)))"

definition start_next_command :: "sys \<Rightarrow> sys_outcome" where
  "start_next_command y =
     (case rn_commands (sy_run y) of
        [] \<Rightarrow> ok (on_st (set_command None) y)
      | q # rest \<Rightarrow>
          with_now (\<lambda>now_ms y.
            if gt_dock_departure (sy_gate y) \<and> requires_dock_departure (q_command q) then
              (let kept = enqueue_front q y in
               if charging_interlock_active (st_of y) then ok kept else start_dock_departure now_ms kept)
            else begin_command q now_ms y)
            (on_run (\<lambda>r. r\<lparr>rn_commands := rest\<rparr>) y))"

section \<open>The action in progress\<close>

definition sensor_probe_period_ms :: u32 where "sensor_probe_period_ms = 100"

text \<open>The loop over the event queue: the bytes of received packets are counted, an error event ends
  the loop with the events behind it still queued.\<close>

fun drain_wake_events :: "brainstem_event list \<Rightarrow> u8 \<Rightarrow> brainstem_event list \<times> u8 \<times> brainstem_error option" where
  "drain_wake_events [] n = ([], n, None)"
| "drain_wake_events (e # es) n =
     (case e of
        EvCreatePacketReceived _ bytes \<Rightarrow> drain_wake_events es (sat_add n (of_nat (length bytes)))
      | EvError error \<Rightarrow> (es, n, Some error)
      | _ \<Rightarrow> drain_wake_events es n)"

definition wake_probe_required :: u8 where "wake_probe_required = 1"

definition advance_power_pulse :: "u32 \<Rightarrow> u32 \<Rightarrow> u32 option \<Rightarrow> bool \<Rightarrow> sys \<Rightarrow> sys" where
  "advance_power_pulse now_ms release_at wake_wait power_on y =
     (if time_reached now_ms release_at then
        (let y = push_event EvCreatePowerToggled (on_link (on_hw end_power_toggle_pulse) y) in
         case wake_wait of
           Some until \<Rightarrow> set_active (AWakeSettle until) y
         | None \<Rightarrow> complete_active_command (set_active ANone (on_st (set_create_power_on power_on) y)))
      else y)"

definition probe_create :: "u32 \<Rightarrow> u32 \<Rightarrow> u32 \<Rightarrow> u8 \<Rightarrow> bool \<Rightarrow> bool \<Rightarrow> sys \<Rightarrow> sys_outcome" where
  "probe_create now_ms deadline next_probe n oi_started allow y =
     (if n \<ge> wake_probe_required then
        ok (complete_active_command (set_active ANone
              (on_st (set_create_power_on True) (on_create (\<lambda>c. c\<lparr>cr_responsive := True\<rparr>) y))))
      else if time_reached now_ms deadline then
        (if allow then
           ok (begin_power_pulse EvCreatePowerOnRequested now_ms (Some (now_ms + pf_wake_wait_ms (pf_of y))) True y)
         else
           (let y = on_create (\<lambda>c. c\<lparr>cr_responsive := False\<rparr>) y;
                y = on_st mark_uart_rx_error (on_st set_oi_mode_unknown (on_st set_create_power_unknown y))
            in ok (fail_active_command Timeout (set_active ANone y))))
      else if time_reached now_ms next_probe then
        (if \<not> oi_started then
           and_then (lift_link uart_start_oi (on_link flush_rx y)) (\<lambda>y.
             ok (set_active (AWaitForCreate deadline (now_ms + pf_post_start_settle_ms (pf_of y)) 0 True allow) y))
         else
           (let y = on_st (set_wake_probe_progress 0 (ucast wake_probe_required)) (on_link flush_rx y) in
            and_then (lift_link (request_sensor_packet (pf_sensor_probe_packet (pf_of y))) y) (\<lambda>y.
              ok (set_active (AWaitForCreate deadline (now_ms + sensor_probe_period_ms) 0 oi_started allow) y))))
      else ok (set_active (AWaitForCreate deadline next_probe n oi_started allow) y))"

definition advance_wait_for_create :: "u32 \<Rightarrow> u32 \<Rightarrow> u32 \<Rightarrow> u8 \<Rightarrow> bool \<Rightarrow> bool \<Rightarrow> sys \<Rightarrow> sys_outcome" where
  "advance_wait_for_create now_ms deadline next_probe response oi_started allow y =
     (case drain_wake_events (ln_events (sy_link y)) response of
        (es, n, error) \<Rightarrow>
          (let y = on_link (\<lambda>l. l\<lparr>ln_events := es\<rparr>) y in
           case error of
             Some e \<Rightarrow> fail e y
           | None \<Rightarrow>
               probe_create now_ms deadline next_probe n oi_started allow
                 (on_st (set_wake_probe_progress (ucast n) (ucast wake_probe_required)) y)))"

definition advance_active_action :: "sys \<Rightarrow> sys_outcome" where
  "advance_active_action = with_now (\<lambda>now_ms y.
     (case rn_active (sy_run y) of
        ANone \<Rightarrow> ok y
      | APowerPulse release_at wake_wait power_on \<Rightarrow> ok (advance_power_pulse now_ms release_at wake_wait power_on y)
      | ASettle until \<Rightarrow>
          ok (if time_reached now_ms until then complete_active_command (set_active ANone y) else y)
      | AWakeSettle until \<Rightarrow>
          ok (if time_reached now_ms until
              then set_active (AWaitForCreate (now_ms + pf_responsive_timeout_ms (pf_of y)) now_ms 0 False False) y
              else y)
      | AWaitForCreate deadline next_probe response oi_started allow \<Rightarrow>
          advance_wait_for_create now_ms deadline next_probe response oi_started allow y
      | ADriving stop_at \<Rightarrow>
          if time_reached now_ms stop_at then
            and_then (stop_drive y) (\<lambda>y.
              ok (complete_active_command
                   (finish_contact_withdrawal WithdrawalCompleted None True (set_active ANone y))))
          else ok y
      | ADockDeparture stop_at \<Rightarrow>
          if time_reached now_ms stop_at then
            and_then (stop_drive y) (\<lambda>y. ok (on_st (set_body_state BodyIdle) (set_active ANone y)))
          else ok y))"

section \<open>What is kept\<close>

context steady begin

lemma power_keeps [keeps]:
  "K y \<Longrightarrow> K (begin_power_pulse e t w p y)" "K y \<Longrightarrow> K (wake_create t y)" "K y \<Longrightarrow> K (fst (sleep_create t y))"
  "K y \<Longrightarrow> K (advance_power_pulse t a w p y)"
  by (auto simp: begin_power_pulse_def wake_create_def sleep_create_def advance_power_pulse_def Let_def
      intro!: keeps split: option.split bool.split)

lemma count_drop_keeps [keeps]: "K (fst r) \<Longrightarrow> K (count_drop r)"
  by (auto simp: count_drop_def intro!: keeps)

lemma settle_start_keeps [keeps]: "K y \<Longrightarrow> K (settle_start y)"
  by (auto simp: settle_start_def intro!: keeps)

lemma sound_commands_keep [keeps]:
  "K y \<Longrightarrow> K (define_chirp kind ts n y)" "K y \<Longrightarrow> K (play_feedback kind t y)"
  "K y \<Longrightarrow> K (song_play sid t y)" "K y \<Longrightarrow> K (song_define sid ts n y)"
  by (auto simp: define_chirp_def play_feedback_def song_play_def song_define_def Let_def voice_ok_def
      annunciator_ok_step intro!: keeps split: prod.split)

lemma plain_commands_keep [keeps]:
  "K y \<Longrightarrow> K (stream_sensors en p period t y)" "K y \<Longrightarrow> K (fst (set_mode_command mode t y))"
  "K y \<Longrightarrow> K (fst (start_oi_command t y))" "K y \<Longrightarrow> K (zero_orientation_command y)"
  by (auto simp: stream_sensors_def set_mode_command_def start_oi_command_def zero_orientation_command_def Let_def
      intro!: keeps)

lemma set_baud_keeps [keeps]: "K y \<Longrightarrow> K (fst (set_baud_command baud t y))"
  unfolding set_baud_command_def Let_def by (auto intro!: keeps k_link)

lemma probe_allowed_keeps [keeps]: "K y \<Longrightarrow> K (fst (ensure_orientation_probe_allowed t y))"
  unfolding ensure_orientation_probe_allowed_def Let_def by (auto intro!: keeps)

lemma events_keep [keeps]: "K y \<Longrightarrow> K (on_link (\<lambda>l. l\<lparr>ln_events := es\<rparr>) y)"
  by (rule k_link) (simp_all add: link_change_def emits_same_tx)

lemma advance_keeps [keeps]: "K y \<Longrightarrow> K (fst (advance_active_action y))"
  unfolding advance_active_action_def advance_wait_for_create_def probe_create_def Let_def
  by (auto intro!: keeps k_link split: active_action.split prod.split option.split)

end

context mobile begin

lemma velocity_keeps [keeps]:
  "K y \<Longrightarrow> K (fst (start_cmd_vel linear angular duration t y))"
  by (auto simp: start_cmd_vel_def intro!: keeps)

lemma motion_commands_keep [keeps]:
  "K y \<Longrightarrow> K (fst (start_dock_departure t y))" "K y \<Longrightarrow> K (fst (start_orientation_probe angular duration_ms t y))"
  "K y \<Longrightarrow> K (fst (velocity_command i linear angular duration t y))"
  "K y \<Longrightarrow> K (fst (escape_command kind generation linear angular ttl t y))"
  by (auto simp: start_dock_departure_def start_orientation_probe_def velocity_command_def escape_command_def Let_def
      intro!: keeps any_lift_link_keeps)

lemma dock_command_keeps [keeps]: "K y \<Longrightarrow> K (fst (dock_command t y))"
  unfolding dock_command_def by (auto simp: voice_ok_def intro!: keeps any_lift_link_keeps)

lemma perform_keeps_unless_estop:
  "K y \<Longrightarrow> command \<noteq> REStop \<Longrightarrow> command \<noteq> RClearEStop \<Longrightarrow> K (fst (perform_command i command t y))"
  by (cases command) (auto simp: perform_command_def intro!: keeps)

lemma begin_keeps_if:
  assumes performs: "\<And>z. K z \<Longrightarrow> K (fst (perform_command (q_id q) (q_command q) t z))" and y: "K y"
  shows "K (fst (begin_command q t y))"
  unfolding begin_command_def Let_def by (auto intro!: and_then_fst_keeps performs keeps y)

lemma start_next_keeps_if:
  assumes y: "K y"
    and begins: "\<And>q rest t z. rn_commands (sy_run y) = q # rest \<Longrightarrow> K z \<Longrightarrow> K (fst (begin_command q t z))"
  shows "K (fst (start_next_command y))"
proof (cases "rn_commands (sy_run y)")
  case Nil
  then show ?thesis by (auto simp: start_next_command_def intro!: keeps y)
next
  case (Cons q rest)
  have "K (on_run (\<lambda>r. r\<lparr>rn_commands := rest\<rparr>) y)"
    by (rule k_run) (use y Cons in \<open>simp_all add: run_change_def\<close>)
  then show ?thesis
    using Cons unfolding start_next_command_def Let_def by (auto intro!: with_now_fst_keeps keeps begins)
qed

end

context thorough begin

lemma estop_commands_keep [keeps]: "K y \<Longrightarrow> K (fst (estop_command y))" "K y \<Longrightarrow> K (clear_estop_command y)"
  by (auto simp: estop_command_def clear_estop_command_def Let_def intro!: keeps k_any_gate)

lemma perform_keeps [keeps]: "K y \<Longrightarrow> K (fst (perform_command i command t y))"
  by (cases command) (auto simp: perform_command_def intro!: keeps)

lemma start_next_keeps [keeps]: "K y \<Longrightarrow> K (fst (start_next_command y))"
  by (erule start_next_keeps_if) (rule begin_keeps_if, rule perform_keeps)

end

end
