(* ===== verification/Execution_Rules.thy ===== *)
theory Execution_Rules
  imports Runtime_Execution
begin

text \<open>
  What starting and advancing commands guarantees: behind a latch no command but a dock search or a
  pending departure moves the robot, the emergency stop is released by one command only, velocities
  become wheel speeds, the power line is toggled only on known states, and what the wake probe takes
  for an answer.
\<close>

section \<open>Motion behind a latch\<close>

text \<open>What keeps a queued command from moving the robot.\<close>

definition blocked :: "queued_command \<Rightarrow> sys \<Rightarrow> bool" where
  "blocked q y \<longleftrightarrow> gt_estop (sy_gate y) \<or> gt_charging (sy_gate y) \<or>
     (gt_latched (sy_gate y) \<and> gt_kind (sy_gate y) \<noteq> Some STilt \<and>
      \<not> (q_recovery q \<and> recoverable_safety_latch (gt_kind (sy_gate y))))"

lemma closed_gate_hush:
  assumes "\<not> gate_open y"
  shows "quiet (sy_link y) (sy_link (fst (start_drive_direct left right duration t y)))"
    and "quiet (sy_link y) (sy_link (fst (start_drive_arc velocity radius duration t y)))"
    and "quiet (sy_link y) (sy_link (fst (start_cmd_vel linear angular duration t y)))"
proof -
  show direct: "quiet (sy_link y) (sy_link (fst (start_drive_direct left right duration t y)))" for left right duration
    using closed_gate_is_calm(1) [OF assms] by (simp add: calm_def link_change_def)
  show "quiet (sy_link y) (sy_link (fst (start_drive_arc velocity radius duration t y)))"
    using closed_gate_is_calm(2) [OF assms] by (simp add: calm_def link_change_def)
  show "quiet (sy_link y) (sy_link (fst (start_cmd_vel linear angular duration t y)))"
    unfolding start_cmd_vel_def
    by (auto intro!: hush.stop_drive_keeps hush.and_then_fst_keeps direct keeps)
qed

text \<open>The state in which \<open>begin_command\<close> performs the command.\<close>

definition begun :: "queued_command \<Rightarrow> sys \<Rightarrow> sys" where
  "begun q y = on_st (mark_command_started (q_id q) (command_code (Some (q_command q))))
     (on_run (\<lambda>r. r\<lparr>rn_command_id := Some (q_id q), rn_recovery_motion := q_recovery q\<rparr>)
       (on_st (set_command (Some (q_command q))) y))"

lemma begin_command_begun:
  "begin_command q t y = and_then (perform_command (q_id q) (q_command q) t (begun q y))
     (\<lambda>y. ok (if is_play_feedback (q_command q) then y else settle_start y))"
  by (simp add: begin_command_def begun_def)

lemma begun_frame [simp]:
  "sy_gate (begun q y) = sy_gate y" "quiet l (sy_link (begun q y)) = quiet l (sy_link y)"
  "quiet (sy_link (begun q y)) l' = quiet (sy_link y) l'" "rn_recovery_motion (sy_run (begun q y)) = q_recovery q"
  by (simp_all add: begun_def)

lemma blocked_closes_gate: "blocked q y \<Longrightarrow> gt_kind (sy_gate y) \<noteq> Some STilt \<or> gt_estop (sy_gate y) \<or> gt_charging (sy_gate y)
   \<Longrightarrow> sy_gate z = sy_gate y \<Longrightarrow> rn_recovery_motion (sy_run z) = q_recovery q \<Longrightarrow> \<not> gate_open z"
  by (auto simp: blocked_def gate_open_def safety_recovery_latch_allows_motion_def)

lemma blocked_refuses_probe:
  "blocked q y \<Longrightarrow> sy_gate z = sy_gate y \<Longrightarrow> snd (ensure_orientation_probe_allowed t z) \<noteq> None"
  by (auto simp: blocked_def ensure_orientation_probe_allowed_def simp del: not_None_eq)

lemma blocked_probe_is_quiet:
  assumes "blocked q y" and "sy_gate z = sy_gate y"
  shows "quiet (sy_link z) (sy_link (fst (start_orientation_probe angular duration t z)))"
  using and_then_failed [OF blocked_refuses_probe [OF assms, of t]]
  unfolding start_orientation_probe_def Let_def
  by (auto intro!: keeps)

lemma estop_commands_are_quiet:
  "quiet (sy_link y) (sy_link (fst (estop_command y)))" "quiet (sy_link y) (sy_link (clear_estop_command y))"
proof -
  have gate: "quiet l (sy_link z) \<Longrightarrow> quiet l (sy_link (on_gate g z))" for l z g by simp
  show "quiet (sy_link y) (sy_link (fst (estop_command y)))" "quiet (sy_link y) (sy_link (clear_estop_command y))"
    unfolding estop_command_def clear_estop_command_def Let_def by (auto intro!: gate keeps)
qed

lemma blocked_perform_is_quiet:
  assumes "blocked q y" and "sy_gate z = sy_gate y" and "rn_recovery_motion (sy_run z) = q_recovery q" and "command \<noteq> RDock"
  shows "quiet (sy_link z) (sy_link (fst (perform_command i command t z)))"
proof -
  have closed: "\<not> gate_open z"
    by (rule blocked_closes_gate [OF assms(1) _ assms(2,3)]) (use assms(1) in \<open>auto simp: blocked_def\<close>)
  have closed': "\<not> gate_open (on_run (\<lambda>r. r\<lparr>rn_escape := e\<rparr>) z)" for e
    using closed by (simp add: gate_open_def safety_recovery_latch_allows_motion_def)
  note drives = closed_gate_hush [OF closed]
  have escape: "quiet (sy_link z) (sy_link (fst (escape_command kind generation linear angular ttl t z)))"
    for kind generation linear angular ttl
    using closed_gate_hush(3) [OF closed'] by (simp add: escape_command_def)
  have velocity: "quiet (sy_link z) (sy_link (fst (velocity_command i linear angular duration t z)))"
    for linear angular duration
    unfolding velocity_command_def by (auto intro!: hush.and_then_fst_keeps drives keeps)
  show ?thesis using assms(4)
    by (cases command)
      (auto simp: perform_command_def drives escape velocity estop_commands_are_quiet
        blocked_probe_is_quiet [OF assms(1,2)] intro!: keeps)
qed

section \<open>The emergency stop\<close>

lemma perform_keeps_estop:
  "command \<noteq> REStop \<Longrightarrow> command \<noteq> RClearEStop \<Longrightarrow>
   gt_estop (sy_gate (fst (perform_command i command t y))) = gt_estop (sy_gate y)"
  by (rule estop.perform_keeps_unless_estop) simp_all

lemma begin_keeps_estop:
  assumes "q_command q \<noteq> REStop" and "q_command q \<noteq> RClearEStop"
  shows "gt_estop (sy_gate (fst (begin_command q t z))) = gt_estop (sy_gate z)"
  by (rule estop.begin_keeps_if) (simp_all add: perform_keeps_estop assms)

section \<open>Velocity\<close>

lemma loud_drive: "line_up l \<Longrightarrow> snd (drive_direct left right d l) = None \<and> line_up (fst (drive_direct left right d l)) \<and>
  hw_tx (ln_hw (fst (drive_direct left right d l))) = hw_tx (ln_hw l) @ OI_DRIVE_DIRECT # to_be right @ to_be left"
  using send_bytes_up [of "publish (EvDriveRequested left right d) l"]
    send_bytes_ok_tx [of "OI_DRIVE_DIRECT # to_be right @ to_be left" "publish (EvDriveRequested left right d) l"]
  by (simp add: drive_direct_def)

lemma ensure_responsive_line [simp]:
  "line_up (sy_link (fst (ensure_create_responsive y))) = line_up (sy_link y)"
  "hw_tx (ln_hw (sy_link (fst (ensure_create_responsive y)))) = hw_tx (ln_hw (sy_link y))"
  by (simp_all add: ensure_create_responsive_def with_now_def Let_def split: option.split)

section \<open>The power toggle\<close>

abbreviation toggle_line :: "sys \<Rightarrow> bool list" where
  "toggle_line y \<equiv> hw_power_toggle (ln_hw (sy_link y))"

lemma toggle_frames [simp]:
  "toggle_line (push_event e y) = toggle_line y" "toggle_line (clock_read y) = toggle_line y"
  "toggle_line (complete_active_command y) = toggle_line y" "toggle_line (refuse_active_command y) = toggle_line y"
  "toggle_line (fail_active_command err y) = toggle_line y" "toggle_line (fst (stop_drive y)) = toggle_line y"
  by (simp_all add: push_event_def clock_read_def complete_active_command_def refuse_active_command_def
      fail_active_command_def close_command_def stop_drive_def lift_link_def fst_and_then uart_stop_def uart_drive_def
      split: option.split)

lemma known_power_frames [simp]:
  "known_power (on_st (set_body_state b) y) = known_power y" "known_power (on_st set_oi_mode_unknown y) = known_power y"
  "known_power (on_create c y) = known_power y"
  by (simp_all add: known_power_def set_body_state_def set_oi_mode_unknown_def)

lemma stop_drive_power [simp]: "known_power (fst (stop_drive y)) = known_power y"
  by (simp add: known_power_def stop_drive_def lift_link_def fst_and_then uart_stop_def uart_drive_def
      clear_velocity_stream_def publish_def signal_event_def record_public_event_from_brainstem_event_def
      event_blinks_def request_led_blinks_def emit_def Let_def)

lemma refused_id [simp]: "rn_command_id (sy_run (refuse_active_command y)) = None"
  by (simp add: refuse_active_command_def)

lemma driver_toggle [simp]:
  "hw_power_toggle (ln_hw (fst (uart_start_oi l))) = hw_power_toggle (ln_hw l)"
  "hw_power_toggle (ln_hw (fst (request_sensor_packet p l))) = hw_power_toggle (ln_hw l)"
  "hw_power_toggle (ln_hw (flush_rx l)) = hw_power_toggle (ln_hw l)"
  by (simp_all add: uart_start_oi_def send_byte_def request_sensor_packet_def flush_rx_def drain_uart_rx_def Let_def
      split: option.split)

lemma stop_drive_ups: "line_up (sy_link y) \<Longrightarrow>
  snd (stop_drive (on_st set_oi_mode_unknown (on_create c y))) = None"
  by (simp add: stop_drive_up)

section \<open>The wake probe\<close>

lemma drain_to_error:
  "(\<forall>x \<in> set pre. \<not> (\<exists>e. x = EvError e)) \<Longrightarrow> \<exists>m. drain_wake_events (pre @ EvError e # post) n = (post, m, Some e)"
  by (induction pre arbitrary: n) (auto split: brainstem_event.split)

definition received :: "brainstem_event \<Rightarrow> nat" where
  "received e = (case e of EvCreatePacketReceived _ bytes \<Rightarrow> length bytes | _ \<Rightarrow> 0)"

lemma drain_counts:
  "\<forall>x \<in> set es. \<not> (\<exists>e. x = EvError e) \<and> received x \<le> 32 \<Longrightarrow>
   drain_wake_events es n = ([], of_nat (min 255 (unat n + sum_list (map received es))), None)"
proof (induction es arbitrary: n)
  case Nil
  have "unat n < 256" using unsigned_less [of n, where 'a = nat] by simp
  then show ?case by simp
next
  case (Cons e es)
  have small: "unat n < 256" using unsigned_less [of n, where 'a = nat] by simp
  then show ?case
  proof (cases "\<exists>p bytes. e = EvCreatePacketReceived p bytes")
    case True
    then obtain p bytes where e: "e = EvCreatePacketReceived p bytes" by blast
    have len: "length bytes \<le> 32" using Cons.prems by (auto simp: e received_def)
    then have u: "unat (of_nat (length bytes) :: u8) = length bytes"
      by (simp add: unat_of_nat)
    then have "unat (sat_add n (of_nat (length bytes))) = min (unat n + length bytes) 255"
      by (simp add: unat_sat_add)
    then show ?thesis using Cons by (simp add: e received_def min_def)
  next
    case False
    then show ?thesis using Cons by (cases e) (auto simp: received_def)
  qed
qed

text \<open>Starting a command behind a latch.\<close>

lemma latched_start_hush:
  assumes "rn_commands (sy_run y) = q # rest" and "blocked q y" and "q_command q \<noteq> RDock"
    and "\<not> (gt_dock_departure (sy_gate y) \<and> requires_dock_departure (q_command q))"
  shows "quiet (sy_link y) (sy_link (fst (start_next_command y)))"
proof -
  let ?y = "clock_read (on_run (\<lambda>r. r\<lparr>rn_commands := rest\<rparr>) y)"
  have q: "quiet (sy_link y) (sy_link (begun q ?y))"
    by (simp add: clock_read_def emits_same_tx)
  have "quiet (sy_link (begun q ?y)) (sy_link (fst (perform_command (q_id q) (q_command q) t (begun q ?y))))" for t
    by (rule blocked_perform_is_quiet [OF assms(2)]) (simp_all add: assms(3))
  then have "quiet (sy_link y) (sy_link (fst (perform_command (q_id q) (q_command q) t (begun q ?y))))" for t
    using q tx.trans by blast
  then show ?thesis using assms
    by (auto simp: start_next_command_def with_now_def begin_command_begun intro!: hush.and_then_fst_keeps keeps)
qed

text \<open>The emergency stop survives the start of every command but \<open>ClearEStop\<close>.\<close>

lemma estop_released_only_by_clear:
  assumes "gt_estop (sy_gate y)" and "\<not> gt_estop (sy_gate (fst (start_next_command y)))"
  shows "rn_commands (sy_run y) \<noteq> [] \<and> q_command (hd (rn_commands (sy_run y))) = RClearEStop"
proof (rule ccontr)
  assume other: "\<not> ?thesis"
  have stop: "gt_estop (sy_gate z) \<Longrightarrow> gt_estop (sy_gate (fst (perform_command i REStop t z)))" for i t z
    by (simp add: perform_command_def estop_command_def fst_and_then Let_def)
  have "gt_estop (sy_gate (fst (begin_command q t z))) = True"
    if "rn_commands (sy_run y) = q # rest" and "gt_estop (sy_gate z) = True" for q rest t z
  proof (rule estop.begin_keeps_if [OF _ that(2)])
    fix w :: sys assume "gt_estop (sy_gate w) = True"
    moreover have "q_command q \<noteq> RClearEStop" using other that(1) by simp
    ultimately show "gt_estop (sy_gate (fst (perform_command (q_id q) (q_command q) t w))) = True"
      using stop perform_keeps_estop by (cases "q_command q = REStop") auto
  qed
  then have "gt_estop (sy_gate (fst (start_next_command y))) = True"
    by (rule estop.start_next_keeps_if [rotated]) (use assms(1) in auto)
  with assms(2) show False by simp
qed

definition stopped_with :: "runtime_command \<Rightarrow> sys" where
  "stopped_with c = on_gate (\<lambda>g. g\<lparr>gt_estop := True\<rparr>) (on_run (\<lambda>r. r\<lparr>rn_commands := [queued 1 c]\<rparr>) resting)"

lemma clear_releases: "gt_estop (sy_gate (fst (start_next_command (stopped_with RClearEStop)))) = False"
  by (simp add: stopped_with_def start_next_command_def with_now_def queued_def requires_dock_departure_def
      is_motion_command_def begin_command_def perform_command_def clear_estop_command_def settle_start_def
      complete_active_command_def is_play_feedback_def resting_def new_runtime_def Let_def)

section \<open>Properties\<close>

text \<open>Behind a latch: while the emergency stop, the charging interlock or a safety latch that the
  queued command may not recover from is set, starting that command puts no motion frame on the
  line, unless it is a dock search or a pending dock departure precedes it.\<close>

theorem latched_start_is_quiet:
  assumes "rn_commands (sy_run y) = q # rest" and "blocked q y" and "q_command q \<noteq> RDock"
    and "\<not> (gt_dock_departure (sy_gate y) \<and> requires_dock_departure (q_command q))"
  shows "quiet (sy_link y) (sy_link (fst (start_next_command y)))"
  by (rule latched_start_hush [OF assms])

theorem latched_start_is_quiet_witness:
  "quiet (sy_link resting) (sy_link (fst (start_next_command (on_gate (\<lambda>g. g\<lparr>gt_estop := True\<rparr>)
     (on_run (\<lambda>r. r\<lparr>rn_commands := [queued 1 (RCmdVel 100 0 (Some 300))]\<rparr>) resting)))))"
  using latched_start_is_quiet [of "on_gate (\<lambda>g. g\<lparr>gt_estop := True\<rparr>)
     (on_run (\<lambda>r. r\<lparr>rn_commands := [queued 1 (RCmdVel 100 0 (Some 300))]\<rparr>) resting)"
      "queued 1 (RCmdVel 100 0 (Some 300))" "[]"]
  by (simp add: queued_def blocked_def resting_def new_runtime_def Let_def)

text \<open>Latching the emergency stop: it takes effect, with the stop frame on the line, exactly when the
  frame could be sent; a write error leaves the robot unlatched although the command was taken.\<close>

theorem estop_latches_with_the_stop_frame:
  "(snd (stop_drive y) = None \<longrightarrow> snd (estop_command y) = None \<and> gt_estop (sy_gate (fst (estop_command y))) \<and>
      rn_active (sy_run (fst (estop_command y))) = ANone \<and>
      hw_tx (ln_hw (sy_link (fst (estop_command y)))) = hw_tx (ln_hw (sy_link y)) @ [OI_DRIVE, 0, 0, 0, 0]) \<and>
   (snd (stop_drive y) \<noteq> None \<longrightarrow> snd (estop_command y) \<noteq> None \<and>
      gt_estop (sy_gate (fst (estop_command y))) = gt_estop (sy_gate y))"
  using stop_drive_ok [of y]
  by (auto simp: estop_command_def fst_and_then snd_and_then_None_iff Let_def stop_frame_def)

theorem estop_latches_with_the_stop_frame_witness:
  "gt_estop (sy_gate (fst (estop_command resting)))
   \<and> hw_tx (ln_hw (sy_link (fst (estop_command resting)))) = hw_tx (ln_hw (sy_link resting)) @ [OI_DRIVE, 0, 0, 0, 0]"
  using estop_latches_with_the_stop_frame [of resting] stop_drive_up [OF resting_up] by simp

text \<open>Velocities: through an open gate on a live line a velocity becomes one direct-drive frame with
  the wheel speeds \<open>linear\<close> minus and plus \<open>angular * 258 / 2000\<close> (right wheel first), a
  deadline and the recorded velocity.\<close>

theorem velocity_drives_wheels:
  fixes d t :: u32
  assumes "gate_open y" and "snd (ensure_create_responsive y) = None" and "line_up (sy_link y)"
    and "left_wheel linear angular \<noteq> 0 \<or> right_wheel linear angular \<noteq> 0"
  defines "z \<equiv> fst (start_cmd_vel linear angular (Some d) t y)"
  shows "snd (start_cmd_vel linear angular (Some d) t y) = None
    \<and> hw_tx (ln_hw (sy_link z)) = hw_tx (ln_hw (sy_link y))
        @ OI_DRIVE_DIRECT # to_be (right_wheel linear angular) @ to_be (left_wheel linear angular)
    \<and> rn_active (sy_run z) = ADriving (t + d)
    \<and> rn_velocity (sy_run z) = Some \<lparr>av_linear = linear, av_angular = angular\<rparr>"
proof -
  have moving: "\<not> (linear = 0 \<and> angular = 0)"
    using assms(4) by (auto simp: left_wheel_def right_wheel_def half_delta_def trunc_div_def clamp_i16_def sat_i16_def)
  have allowed: "ensure_motion_allowed y = ensure_create_responsive y"
    using assms(1) by (auto simp: ensure_motion_allowed_def gate_open_def)
  let ?y = "fst (ensure_create_responsive y)"
  let ?l = "sy_link (on_st (set_body_state BodyMoving) ?y)"
  have "line_up ?l" using assms(3) by simp
  from loud_drive [OF this, of "left_wheel linear angular" "right_wheel linear angular" d]
  show ?thesis using moving assms(2,4)
    by (auto simp: z_def start_cmd_vel_def start_drive_direct_def allowed lift_link_def fst_and_then
        snd_and_then_None_iff)
qed

theorem velocity_drives_wheels_witness:
  "hw_tx (ln_hw (sy_link (fst (start_cmd_vel 100 1000 (Some 300) 7 (on_create (\<lambda>c. c\<lparr>cr_responsive := True\<rparr>) resting)))))
   = hw_tx (ln_hw (sy_link resting)) @ [OI_DRIVE_DIRECT, 0, 229, 255, 227]"
proof -
  have wheels: "left_wheel 100 1000 = - 29" "right_wheel 100 1000 = 229"
    by (simp_all add: left_wheel_def right_wheel_def half_delta_def create_axle_track_mm_def trunc_div_def
        clamp_i16_def sat_i16_def)
  have "gate_open (on_create (\<lambda>c. c\<lparr>cr_responsive := True\<rparr>) resting)"
    by (simp add: gate_open_def resting_def new_runtime_def Let_def)
  moreover have "snd (ensure_create_responsive (on_create (\<lambda>c. c\<lparr>cr_responsive := True\<rparr>) resting)) = None"
    by (simp add: ensure_create_responsive_def)
  ultimately show ?thesis
    using velocity_drives_wheels [of "on_create (\<lambda>c. c\<lparr>cr_responsive := True\<rparr>) resting" 100 1000 300 7]
    by (simp add: wheels to_be_def)
qed

text \<open>The power line is a toggle: waking pulses it only when the Create is known to be off, sleeping
  only when it is known to be on (an unknown state refuses the command), and a wake probe that was
  not started on an unknown state never pulses it.\<close>

theorem power_toggle_rules:
  assumes "line_up (sy_link y)"
  shows "toggle_line (wake_create t y) = (if known_power y = Some False then toggle_line y @ [False, True] else toggle_line y)
   \<and> (known_power y \<noteq> Some False \<longrightarrow> rn_active (sy_run (wake_create t y)) =
        AWaitForCreate (t + pf_responsive_timeout_ms (pf_of y)) t 0 False (known_power y = None))
   \<and> toggle_line (fst (sleep_create t y)) =
       (if known_power y = Some True then toggle_line y @ [False, True] else toggle_line y)
   \<and> (known_power y = None \<longrightarrow> rn_command_id (sy_run (fst (sleep_create t y))) = None
        \<and> rn_active (sy_run (fst (sleep_create t y))) = ANone)
   \<and> (rn_active (sy_run y) = AWaitForCreate deadline probe n started False \<longrightarrow>
        toggle_line (fst (advance_active_action y)) = toggle_line y)"
proof (intro conjI impI)
  show "toggle_line (wake_create t y) = (if known_power y = Some False then toggle_line y @ [False, True] else toggle_line y)"
    by (simp add: wake_create_def begin_power_pulse_def begin_power_toggle_pulse_def on_hw_def push_event_def Let_def)
  show "rn_active (sy_run (wake_create t y)) =
        AWaitForCreate (t + pf_responsive_timeout_ms (pf_of y)) t 0 False (known_power y = None)"
    if "known_power y \<noteq> Some False"
    using that by (simp add: wake_create_def Let_def)
  show "toggle_line (fst (sleep_create t y)) =
       (if known_power y = Some True then toggle_line y @ [False, True] else toggle_line y)"
    using stop_drive_ups [OF assms]
    by (auto simp: sleep_create_def begin_power_pulse_def begin_power_toggle_pulse_def on_hw_def push_event_def
        fst_and_then Let_def split: option.split bool.split)
  show "rn_command_id (sy_run (fst (sleep_create t y))) = None" "rn_active (sy_run (fst (sleep_create t y))) = ANone"
    if "known_power y = None"
    using stop_drive_ups [OF assms] that
    by (simp_all add: sleep_create_def fst_and_then Let_def)
  show "toggle_line (fst (advance_active_action y)) = toggle_line y"
    if "rn_active (sy_run y) = AWaitForCreate deadline probe n started False"
    using that by (auto simp: advance_active_action_def with_now_def advance_wait_for_create_def probe_create_def
        lift_link_def fst_and_then clock_read_def Let_def split: prod.split option.split)
qed

theorem power_toggle_rules_witness:
  "toggle_line (wake_create 0 resting) = toggle_line resting \<and> rn_command_id (sy_run (fst (sleep_create 0 resting))) = None"
proof -
  have "known_power resting = None"
    by (simp add: known_power_def known_create_power_state_def resting_def new_runtime_def Let_def publish_def
        set_audio_silent_def set_careful_mode_until_def set_body_state_def set_runtime_state_def signal_event_def
        record_public_event_from_brainstem_event_def event_blinks_def request_led_blinks_def emit_def
        initial_status_def initial_run_status_def)
  then show ?thesis
    using power_toggle_rules [OF resting_up, of 0] by simp
qed

text \<open>The wake probe counts whatever the event queue holds, which is drained nowhere else: an old
  error event fails it with that error, and an old packet event alone makes the Create responsive and
  its power known, with nothing received since.\<close>

theorem wake_probe_hears_stale_events:
  assumes "rn_active (sy_run y) = AWaitForCreate deadline probe 0 started allow"
  shows "(\<forall>pre e post. ln_events (sy_link y) = pre @ EvError e # post \<and> (\<forall>x \<in> set pre. \<not> (\<exists>e. x = EvError e)) \<longrightarrow>
      snd (advance_active_action y) = Some e) \<and>
    ((\<forall>x \<in> set (ln_events (sy_link y)). \<not> (\<exists>e. x = EvError e) \<and> received x \<le> 32) \<and>
       (\<exists>x \<in> set (ln_events (sy_link y)). 0 < received x) \<longrightarrow>
      cr_responsive (sy_create (fst (advance_active_action y))) \<and> known_power (fst (advance_active_action y)) = Some True
      \<and> rn_active (sy_run (fst (advance_active_action y))) = ANone
      \<and> hw_rx (ln_hw (sy_link (fst (advance_active_action y)))) = hw_rx (ln_hw (sy_link y)))"
proof (intro conjI allI impI)
  fix pre e post
  assume "ln_events (sy_link y) = pre @ EvError e # post \<and> (\<forall>x \<in> set pre. \<not> (\<exists>e. x = EvError e))"
  then obtain m where "drain_wake_events (ln_events (sy_link y)) 0 = (post, m, Some e)"
    using drain_to_error by metis
  then show "snd (advance_active_action y) = Some e"
    using assms by (simp add: advance_active_action_def with_now_def advance_wait_for_create_def Let_def)
next
  let ?es = "ln_events (sy_link y)"
  let ?n = "of_nat (min 255 (sum_list (map received ?es))) :: u8"
  assume *: "(\<forall>x \<in> set ?es. \<not> (\<exists>e. x = EvError e) \<and> received x \<le> 32) \<and> (\<exists>x \<in> set ?es. 0 < received x)"
  then have drained: "drain_wake_events ?es 0 = ([], ?n, None)"
    using drain_counts [of ?es 0] by simp
  obtain x where "x \<in> set ?es" "0 < received x" using * by blast
  then have "0 < sum_list (map received ?es)"
    using member_le_sum_list [of "received x" "map received ?es"] by force
  then have "0 < unat ?n" by (simp add: unat_of_nat min_def)
  then have enough: "wake_probe_required \<le> ?n"
    by (simp add: wake_probe_required_def word_le_nat_alt)
  have step: "fst (advance_active_action y) = complete_active_command (set_active ANone (on_st (set_create_power_on True)
      (on_create (\<lambda>c. c\<lparr>cr_responsive := True\<rparr>) (on_st (set_wake_probe_progress (ucast ?n) (ucast wake_probe_required))
        (on_link (\<lambda>l. l\<lparr>ln_events := []\<rparr>) (clock_read y))))))"
    using assms drained enough
    by (simp add: advance_active_action_def with_now_def advance_wait_for_create_def probe_create_def Let_def)
  have complete: "sy_create (complete_active_command w) = sy_create w" "st_run (st_of (complete_active_command w)) = st_run (st_of w)"
    "rn_active (sy_run (complete_active_command w)) = rn_active (sy_run w)"
    "hw_rx (ln_hw (sy_link (complete_active_command w))) = hw_rx (ln_hw (sy_link w))" for w
    by (simp_all add: complete_active_command_def close_command_def mark_command_completed_def clear_velocity_stream_def
        split: option.split)
  show "cr_responsive (sy_create (fst (advance_active_action y)))" "rn_active (sy_run (fst (advance_active_action y))) = ANone"
    "hw_rx (ln_hw (sy_link (fst (advance_active_action y)))) = hw_rx (ln_hw (sy_link y))"
    unfolding step by (simp_all add: complete clock_read_def)
  show "known_power (fst (advance_active_action y)) = Some True"
    unfolding step by (simp add: complete known_power_def set_create_power_on_def known_create_power_state_def on_off_def)
qed

definition probing_with :: "brainstem_event list \<Rightarrow> sys" where
  "probing_with es = on_link (\<lambda>l. l\<lparr>ln_events := es\<rparr>) (set_active (AWaitForCreate 6000 0 0 False True) resting)"

theorem wake_probe_hears_stale_events_witness:
  "snd (advance_active_action (probing_with [EvTickMs 1, EvError UartFraming])) = Some UartFraming
   \<and> cr_responsive (sy_create (fst (advance_active_action (probing_with [EvCreatePacketReceived 35 [3]]))))"
proof -
  have waits: "rn_active (sy_run (probing_with es)) = AWaitForCreate 6000 0 0 False True"
    "ln_events (sy_link (probing_with es)) = es" for es
    by (simp_all add: probing_with_def)
  note stale = wake_probe_hears_stale_events [OF waits(1)]
  have "snd (advance_active_action (probing_with ([EvTickMs 1] @ EvError UartFraming # []))) = Some UartFraming"
    using stale [of "[EvTickMs 1] @ EvError UartFraming # []"] unfolding waits(2)
    by (auto dest!: spec [of _ "[EvTickMs 1]"])
  moreover have "cr_responsive (sy_create (fst (advance_active_action (probing_with [EvCreatePacketReceived 35 [3]]))))"
    using stale [of "[EvCreatePacketReceived 35 [3]]"] unfolding waits(2) by (simp add: received_def)
  ultimately show ?thesis by simp
qed

text \<open>The dock departure: with a departure pending and the charge gone, starting any motion command
  first drives the robot backwards for 1.5 s, keeping the command queued. The emergency stop and the
  safety latches are not consulted.\<close>

theorem dock_departure_ignores_estop:
  assumes "rn_commands (sy_run y) = q # rest" and "requires_dock_departure (q_command q)"
    and "gt_dock_departure (sy_gate y)" and "\<not> charging_interlock_active (st_of y)"
    and "cr_responsive (sy_create y)" and "cr_last_packet_at (sy_create y) = None" and "line_up (sy_link y)"
  defines "z \<equiv> fst (start_next_command y)"
  shows "hw_tx (ln_hw (sy_link z)) = hw_tx (ln_hw (sy_link y)) @ [OI_DRIVE_DIRECT, 255, 56, 255, 56]
    \<and> (\<exists>t. rn_active (sy_run z) = ADockDeparture (t + 1500)) \<and> gt_estop (sy_gate z) = gt_estop (sy_gate y)
    \<and> (length rest < 16 \<longrightarrow> rn_commands (sy_run z) = q # rest) \<and> \<not> gt_dock_departure (sy_gate z)
    \<and> rn_heartbeat_at (sy_run z) = None"
proof -
  let ?y = "enqueue_front q (clock_read (on_run (\<lambda>r. r\<lparr>rn_commands := rest\<rparr>) y))"
  have responsive: "ensure_create_responsive ?y = ok ?y"
    using assms(5,6) by (simp add: ensure_create_responsive_def enqueue_front_def)
  let ?l = "sy_link (on_st (set_body_state BodyMoving) ?y)"
  have "line_up ?l" using assms(7) by (simp add: enqueue_front_def clock_read_def)
  from loud_drive [OF this, of dock_departure_speed_mm_s dock_departure_speed_mm_s dock_departure_duration_ms]
  have sent: "snd (drive_direct (-200) (-200) 1500 ?l) = None"
    "hw_tx (ln_hw (fst (drive_direct (-200) (-200) 1500 ?l))) = hw_tx (ln_hw (sy_link y)) @ [OI_DRIVE_DIRECT, 255, 56, 255, 56]"
    by (simp_all add: dock_departure_speed_mm_s_def dock_departure_duration_ms_def to_be_def enqueue_front_def clock_read_def)
  let ?t = "clock_ms (on_run (\<lambda>r. r\<lparr>rn_commands := rest\<rparr>) y)"
  let ?w = "on_run (\<lambda>r. r\<lparr>rn_stop_sent := False\<rparr>) (on_st (set_body_state BodyMoving)
    (on_run (\<lambda>r. r\<lparr>rn_heartbeat_at := None, rn_velocity := None\<rparr>) (on_gate (\<lambda>g. g\<lparr>gt_dock_departure := False\<rparr>) ?y)))"
  have w: "sy_link ?w = ?l" by simp
  have "start_next_command y = start_dock_departure ?t ?y"
    using assms(1-4) by (simp add: start_next_command_def with_now_def Let_def)
  also have "\<dots> = ok (set_active (ADockDeparture (?t + 1500)) (fst (lift_link (drive_direct (-200) (-200) 1500) ?w)))"
    using sent(1) unfolding start_dock_departure_def responsive and_then_ok Let_def w [symmetric]
    by (simp add: and_then_def lift_link_def dock_departure_speed_mm_s_def dock_departure_duration_ms_def)
  finally have z: "z = set_active (ADockDeparture (?t + 1500)) (fst (lift_link (drive_direct (-200) (-200) 1500) ?w))"
    by (simp add: z_def)
  have tx: "hw_tx (ln_hw (sy_link z)) = hw_tx (ln_hw (sy_link y)) @ [OI_DRIVE_DIRECT, 255, 56, 255, 56]"
    using sent(2) unfolding z by (simp add: lift_link_def)
  have "rn_active (sy_run z) = ADockDeparture (?t + 1500)" "gt_estop (sy_gate z) = gt_estop (sy_gate y)"
    "\<not> gt_dock_departure (sy_gate z)" "rn_heartbeat_at (sy_run z) = None"
    "length rest < 16 \<longrightarrow> rn_commands (sy_run z) = q # rest"
    unfolding z by (simp_all add: lift_link_def enqueue_front_def command_queue_capacity_def)
  with tx show ?thesis by blast
qed

definition leaving_dock :: sys where
  "leaving_dock = on_create (\<lambda>c. c\<lparr>cr_responsive := True\<rparr>) (on_gate (\<lambda>g. g\<lparr>gt_dock_departure := True\<rparr>)
     (stopped_with (RCmdVel 100 0 (Some 300))))"

theorem dock_departure_ignores_estop_witness:
  "gt_estop (sy_gate (fst (start_next_command leaving_dock))) \<and>
   hw_tx (ln_hw (sy_link (fst (start_next_command leaving_dock)))) =
     hw_tx (ln_hw (sy_link leaving_dock)) @ [OI_DRIVE_DIRECT, 255, 56, 255, 56]"
  using dock_departure_ignores_estop [of leaving_dock "queued 1 (RCmdVel 100 0 (Some 300))" "[]"]
  by (simp add: leaving_dock_def stopped_with_def queued_def requires_dock_departure_def
      charging_interlock_active_def charging_state_active_def cleared_sensor_status_def)

end
