(* ===== verification/Runtime_Tick.thy ===== *)
theory Runtime_Tick
  imports Execution_Rules
begin

text \<open>
  \<open>runtime/lifecycle.rs\<close> and \<open>runtime/sensors.rs\<close>, with the two trivial drivers they use
  (\<open>drivers/timers.rs\<close>, \<open>drivers/leds.rs\<close>): start, tick and shutdown of the runtime, the barriers of
  session and authority, the supervision of the Create and the periodic sensing.
\<close>

section \<open>Sensing\<close>

definition create_charging_sources_poll_period_ms :: u32 where "create_charging_sources_poll_period_ms = 250"
definition create_complete_sensor_poll_period_ms :: u32 where "create_complete_sensor_poll_period_ms = 750"
definition create_charging_sources_packet :: u8 where "create_charging_sources_packet = 34"
definition create_complete_sensor_packet :: u8 where "create_complete_sensor_packet = 0"

definition poll_sensor_stream :: "sys \<Rightarrow> sys_outcome" where
  "poll_sensor_stream = with_now (\<lambda>now_ms y.
     if \<not> cr_responsive (sy_create y) then ok y
     else if time_reached now_ms (cr_next_sources_ms (sy_create y)) then
       and_then (lift_link (request_sensor_packet create_charging_sources_packet) y)
         (\<lambda>y. ok (on_create (\<lambda>c. c\<lparr>cr_next_sources_ms := now_ms + create_charging_sources_poll_period_ms\<rparr>) y))
     else if time_reached now_ms (cr_next_complete_ms (sy_create y)) then
       and_then (lift_link (request_sensor_packet create_complete_sensor_packet) y)
         (\<lambda>y. ok (on_create (\<lambda>c. c\<lparr>cr_next_complete_ms := now_ms + create_complete_sensor_poll_period_ms\<rparr>) y))
     else
       (case cr_stream (sy_create y) of
          None \<Rightarrow> ok y
        | Some stream \<Rightarrow>
            if time_reached now_ms (sm_next_request_ms stream) then
              and_then (lift_link (request_sensor_packet (sm_packet_id stream)) y)
                (\<lambda>y. ok (on_create (\<lambda>c. c\<lparr>cr_stream := Some (stream\<lparr>sm_next_request_ms :=
                       now_ms + sm_period_ms stream\<rparr>)\<rparr>) y))
            else ok (on_create (\<lambda>c. c\<lparr>cr_stream := Some stream\<rparr>) y)))"

definition poll_imu :: "sys \<Rightarrow> sys" where
  "poll_imu y =
     (if \<not> pf_imu_enabled (pf_of y) then on_st (mark_imu_health HAbsent) y
      else with_now (\<lambda>now_ms y.
        if \<not> time_reached now_ms (cr_next_imu_ms (sy_create y)) then y
        else
          (let y = on_create (\<lambda>c. c\<lparr>cr_next_imu_ms := now_ms + max (pf_imu_poll_period_ms (pf_of y)) 1\<rparr>) y;
               polled = snd (poll_imu_sample (ln_hw (sy_link y)));
               y = on_link (on_hw (\<lambda>h. fst (poll_imu_sample h))) y
           in case polled of
                Inr (Some sample) \<Rightarrow> on_st (mark_imu_sample (pf_of y) sample) y
              | Inr None \<Rightarrow> y
              | Inl health \<Rightarrow> on_st (mark_imu_health health) y)) y)"

definition poll_charging_indicator :: "sys \<Rightarrow> sys" where
  "poll_charging_indicator y =
     on_st (mark_create_charging_indicator
       (if pf_charging_indicator_enabled (pf_of y) then charging_indicator_pin (ln_hw (sy_link y)) else None)) y"

definition battery_at_most :: "nat \<Rightarrow> status \<Rightarrow> bool" where
  "battery_at_most percent s \<longleftrightarrow>
     (let capacity = (ucast (sn_capacity_mah (st_sensor s)) :: u16); charge = (ucast (sn_charge_mah (st_sensor s)) :: u16)
      in 0 < capacity \<and> unat charge * 100 \<le> unat capacity * percent)"

definition low_battery_percent :: nat where "low_battery_percent = 20"
definition low_battery_audio_clear_percent :: nat where "low_battery_audio_clear_percent = 25"

definition create_charging_active :: "status \<Rightarrow> bool" where
  "create_charging_active s \<longleftrightarrow>
     rs_charging_indicator (st_run s) = 2 \<or> charging_state_active (sn_charging_state (st_sensor s))"

definition low_battery_and_charging :: "status \<Rightarrow> bool" where
  "low_battery_and_charging s \<longleftrightarrow> create_charging_active s \<and> battery_at_most low_battery_percent s"

definition imu_recovery_stable_ms :: u32 where "imu_recovery_stable_ms = 500"
definition motion_inconsistency_cooldown_ms :: u32 where "motion_inconsistency_cooldown_ms = 5000"
definition motion_inconsistent_code :: u8 where "motion_inconsistent_code = 2"

definition observe_battery :: "sys \<Rightarrow> sys" where
  "observe_battery y =
     (let low = battery_at_most (if vo_low_battery (sy_voice y) then low_battery_audio_clear_percent
                                 else low_battery_percent) (st_of y);
          y = (if low \<and> \<not> vo_low_battery (sy_voice y) then request_audio CueLowBattery y else y)
      in on_voice (\<lambda>v. v\<lparr>vo_low_battery := low\<rparr>) y)"

definition observe_charging :: "sys \<Rightarrow> sys" where
  "observe_charging y =
     (let charging = charging_interlock_active (st_of y) \<or> home_base_sensed (st_of y);
          y = (if charging \<and> \<not> vo_charging (sy_voice y)
               then on_voice (\<lambda>v. v\<lparr>vo_docking := False\<rparr>) (request_audio CueDockContact y) else y)
      in on_voice (\<lambda>v. v\<lparr>vo_charging := charging\<rparr>) y)"

definition observe_imu_fault :: "u32 \<Rightarrow> sys \<Rightarrow> sys" where
  "observe_imu_fault now_ms y =
     (let health = iu_health (st_imu (st_of y));
          fault = (health = imu_health_code HFault \<or> health = imu_health_code HAbsent)
      in if fault \<and> \<not> vo_imu_fault (sy_voice y) then
           on_voice (\<lambda>v. v\<lparr>vo_imu_fault := True, vo_imu_recovery_since := None\<rparr>) (request_audio CueImuFault y)
         else if vo_imu_fault (sy_voice y) \<and> health = imu_health_code HOk then
           (let since = (case vo_imu_recovery_since (sy_voice y) of None \<Rightarrow> now_ms | Some t \<Rightarrow> t);
                y = on_voice (\<lambda>v. v\<lparr>vo_imu_recovery_since := Some since\<rparr>) y
            in if now_ms - since \<ge> imu_recovery_stable_ms
               then on_voice (\<lambda>v. v\<lparr>vo_imu_fault := False, vo_imu_recovery_since := None\<rparr>) (request_audio CueRecovery y)
               else y)
         else if vo_imu_fault (sy_voice y) then on_voice (\<lambda>v. v\<lparr>vo_imu_recovery_since := None\<rparr>) y
         else y)"

definition observe_inconsistency :: "u32 \<Rightarrow> sys \<Rightarrow> sys" where
  "observe_inconsistency now_ms y =
     (let inconsistent = iu_motion_consistency (st_imu (st_of y)) = motion_inconsistent_code;
          y = (if inconsistent \<and> \<not> vo_inconsistent (sy_voice y)
                  \<and> time_reached now_ms (vo_inconsistency_until (sy_voice y))
               then on_voice (\<lambda>v. v\<lparr>vo_inconsistency_until := now_ms + motion_inconsistency_cooldown_ms\<rparr>)
                      (request_audio CueMotionInconsistency y)
               else y)
      in on_voice (\<lambda>v. v\<lparr>vo_inconsistent := inconsistent\<rparr>) y)"

definition observe_dock_beam :: "sys \<Rightarrow> sys" where
  "observe_dock_beam y =
     (let ir = sn_ir_byte (st_sensor (st_of y));
          y = (if vo_docking (sy_voice y) \<and> ir \<noteq> 0 \<and> vo_last_ir (sy_voice y) = 0
               then request_audio CueDockSeen y else y)
      in on_voice (\<lambda>v. v\<lparr>vo_last_ir := ir\<rparr>) y)"

definition observe_full_mode :: "sys \<Rightarrow> sys" where
  "observe_full_mode y =
     (let full_ready = cr_responsive (sy_create y) \<and> rs_oi_mode (st_run (st_of y)) = 3;
          y = (if full_ready \<and> \<not> vo_full_ready (sy_voice y) then
                 (let cue = (if vo_restart_pending (sy_voice y) then CueServiceComplete
                             else if vo_ever_full_ready (sy_voice y) then CueRecovery else CueArmed);
                      y = request_audio cue (on_voice (\<lambda>v. v\<lparr>vo_restart_pending := False\<rparr>) y)
                  in on_voice (\<lambda>v. v\<lparr>vo_ever_full_ready := True\<rparr>) y)
               else y)
      in on_voice (\<lambda>v. v\<lparr>vo_full_ready := full_ready\<rparr>) y)"

text \<open>The snapshot of \<open>observe_audio_transitions\<close> is taken once; requesting a cue changes none of its fields.\<close>

definition observe_audio_transitions :: "sys \<Rightarrow> sys" where
  "observe_audio_transitions = with_now (\<lambda>now_ms y.
     observe_full_mode (observe_dock_beam (observe_inconsistency now_ms (observe_imu_fault now_ms
       (observe_charging (observe_battery y))))))"

section \<open>Barriers\<close>

definition publish_safety_snapshot :: "sys \<Rightarrow> sys" where
  "publish_safety_snapshot y =
     on_st (set_session_safety_snapshot (gt_estop (sy_gate y)) (gt_latched (sy_gate y)) (gt_charging (sy_gate y))
       (gt_kind (sy_gate y))) y"

definition on_network :: "(network \<Rightarrow> network) \<Rightarrow> sys \<Rightarrow> sys" where
  "on_network f y =
     (let n = f (sy_registry y, st_of y) in on_registry (\<lambda>_. fst n) (on_st (\<lambda>_. snd n) y))"

text \<open>\<open>if self.active_contact_withdrawal.is_none() { .. }\<close>, the part the two barriers share.\<close>

definition idle_lane :: "sys \<Rightarrow> sys" where
  "idle_lane y =
     (if gt_withdrawal (sy_gate y) = None then
        (let y = fst (stop_drive (abandon_commands y)) in
         on_st (set_body_state BodyIdle) (on_st (set_runtime_state Idle) (on_st (set_command None) y)))
      else y)"

definition poll_session_replace :: "sys \<Rightarrow> sys" where
  "poll_session_replace y =
     (case pending_session_replace (st_of y) of
        None \<Rightarrow> y
      | Some generation \<Rightarrow>
          (let y = cancel_careful_mode (on_run (\<lambda>r. r\<lparr>rn_heartbeat_at := None\<rparr>) y);
               y = on_create (\<lambda>c. c\<lparr>cr_stream := None\<rparr>) y;
               y = on_network clear_motherbrain_registration y;
               y = publish_safety_snapshot (idle_lane y)
           in on_st (acknowledge_session_replace generation (pending_session_hash (st_of y))) y))"

definition poll_authority_transition :: "sys \<Rightarrow> sys" where
  "poll_authority_transition y =
     (case pending_authority_transition (st_of y) of
        None \<Rightarrow> y
      | Some generation \<Rightarrow>
          with_now (\<lambda>now_ms y.
            if pending_authority_continues_owner now_ms (st_of y)
            then on_st (acknowledge_authority_transition generation) y
            else
              (let replacing = has_active_authority now_ms (st_of y);
                   y = cancel_careful_mode (on_run (\<lambda>r. r\<lparr>rn_heartbeat_at := None\<rparr>) y);
                   y = on_st (acknowledge_authority_transition generation) (idle_lane y)
               in request_audio (if replacing then CueAuthorityReplaced else CueAuthorityAcquired) y)) y)"

section \<open>Supervision of the Create\<close>

definition timers_poll :: "sys \<Rightarrow> sys" where
  "timers_poll = with_now (\<lambda>now_ms y.
     if now_ms \<noteq> cr_last_tick_ms (sy_create y)
     then on_link (\<lambda>l. l\<lparr>ln_events := push_back event_queue_capacity (ln_events l) (EvTickMs now_ms)\<rparr>)
            (on_create (\<lambda>c. c\<lparr>cr_last_tick_ms := now_ms\<rparr>) y)
     else y)"

definition link_fresh :: "u32 \<Rightarrow> sys \<Rightarrow> bool" where
  "link_fresh now_ms y \<longleftrightarrow>
     (case cr_last_packet_at (sy_create y) of
        None \<Rightarrow> False
      | Some seen \<Rightarrow> now_ms - seen \<le> create_link_freshness_timeout_ms)"

definition judge_link :: "u32 \<Rightarrow> sys \<Rightarrow> sys" where
  "judge_link now_ms y =
     (let was = cr_responsive (sy_create y);
          packets = us_rx_packets (st_uart (st_of y));
          mode = rs_oi_mode (st_run (st_of y));
          y = (if packets \<noteq> cr_observed_packets (sy_create y)
               then on_create (\<lambda>c. c\<lparr>cr_observed_packets := packets, cr_last_packet_at := Some now_ms\<rparr>) y else y);
          y = (if 1 \<le> mode \<and> mode \<le> 3 \<and> link_fresh now_ms y
               then on_st (set_create_power_on True) (on_create (\<lambda>c. c\<lparr>cr_responsive := True\<rparr>) y)
               else if cr_last_packet_at (sy_create y) \<noteq> None \<and> \<not> link_fresh now_ms y
               then on_st set_oi_mode_unknown
                      (cancel_careful_mode (on_create (\<lambda>c. c\<lparr>cr_responsive := False\<rparr>) y))
               else y)
      in if was \<and> \<not> cr_responsive (sy_create y)
         then request_audio CueCreateError (on_voice (\<lambda>v. v\<lparr>vo_full_ready := False\<rparr>) y) else y)"

definition poll_runtime :: "sys \<Rightarrow> sys" where
  "poll_runtime y =
     (let y = poll_authority_transition (poll_session_replace y);
          y = on_link uart_poll (timers_poll y)
      in poll_control_command (with_now judge_link y))"

definition maintain_full_mode :: "sys \<Rightarrow> sys_outcome" where
  "maintain_full_mode = with_now (\<lambda>now_ms y.
     (let mode = rs_oi_mode (st_run (st_of y));
          charging = low_battery_and_charging (st_of y);
          next = on_create (\<lambda>c. c\<lparr>cr_next_full_ms := now_ms + full_mode_refresh_period_ms\<rparr>)
      in if \<not> time_reached now_ms (cr_next_full_ms (sy_create y)) then ok y
         else if is_driving (rn_active (sy_run y)) \<or> is_dock_departure (rn_active (sy_run y)) then
           (if mode \<noteq> 3
            then and_then (stop_drive y) (\<lambda>y. fail CreateNoResponse (set_active ANone (interrupt_active_command y)))
            else ok (next y))
         else if charging \<and> mode = 3 then ok y
         else
           and_then (if \<not> cr_responsive (sy_create y) \<or> mode \<noteq> 3 then lift_link uart_start_oi y else ok y) (\<lambda>y.
           and_then (if mode = 3 then lift_link refresh_full_mode y else lift_link (uart_set_mode Full) y) (\<lambda>y.
           and_then (if mode = 0 then lift_link start_mode_stream y else ok y) (\<lambda>y. ok (next y))))))"

definition healthy_supervision_lights :: "u8 \<Rightarrow> u8 \<times> u8 \<times> u8 \<times> u32" where
  "healthy_supervision_lights phase = (if (phase div 8) AND 1 = 0 then 2 else 8, 128, 255, 100)"

definition supervision_lights :: "sys \<Rightarrow> u8 \<times> u8 \<times> u8 \<times> u32" where
  "supervision_lights y =
     (let phase = cr_light_phase (sy_create y) in
      if rn_mode (sy_run y) = MError then
        (let on = (phase AND 1 = 0) in (if on then 10 else 0, 255, if on then 255 else 0, 300))
      else if gt_estop (sy_gate y) \<or> gt_latched (sy_gate y) \<or> gt_charging (sy_gate y) then (10, 255, 255, 500)
      else healthy_supervision_lights phase)"

definition animate_supervision_lights :: "sys \<Rightarrow> sys_outcome" where
  "animate_supervision_lights = with_now (\<lambda>now_ms y.
     if \<not> cr_responsive (sy_create y) \<or> rs_oi_mode (st_run (st_of y)) \<noteq> 3
        \<or> \<not> time_reached now_ms (cr_next_light_ms (sy_create y)) then ok y
     else
       (case supervision_lights y of
          (bits, color, intensity, period) \<Rightarrow>
            and_then (lift_link (set_supervision_lights bits color intensity) y)
              (\<lambda>y. ok (on_create (\<lambda>c. c\<lparr>cr_light_phase := cr_light_phase c + 1,
                     cr_next_light_ms := now_ms + period\<rparr>) y))))"

section \<open>Ticks\<close>

text \<open>\<open>if let Err(error) = phase { self.enter_error(error); return; }\<close>\<close>

definition phase :: "(sys \<Rightarrow> sys_outcome) \<Rightarrow> (sys \<Rightarrow> sys) \<Rightarrow> sys \<Rightarrow> sys" where
  "phase f k y = (case f y of (z, None) \<Rightarrow> k z | (z, Some e) \<Rightarrow> enter_error e z)"

definition expire_authority :: "sys \<Rightarrow> sys" where
  "expire_authority = with_now (\<lambda>now_ms y.
     (let expired = snd (take_expired_authority now_ms (st_of y));
          y = on_st (\<lambda>s. fst (take_expired_authority now_ms s)) y
      in if expired then
           (let y = request_audio CueAuthorityLost y;
                y = cancel_careful_mode (on_run (\<lambda>r. r\<lparr>rn_heartbeat_at := None\<rparr>) y)
            in if gt_withdrawal (sy_gate y) = None then fst (stop_drive (abandon_commands y)) else y)
         else y))"

text \<open>The arm of the running mode; an error of the advance ends the tick before the sound is polled.\<close>

definition start_phase :: "sys \<Rightarrow> sys" where
  "start_phase y =
     (if rn_active (sy_run y) = ANone then
        (case start_next_command y of
           (z, Some e) \<Rightarrow> enter_error e z
         | (z, None) \<Rightarrow> if rn_commands (sy_run z) = [] \<and> rn_active (sy_run z) = ANone then enter_idle z else z)
      else y)"

definition run_lane :: "sys \<Rightarrow> sys" where
  "run_lane y =
     (case rn_mode (sy_run y) of
        MRunning \<Rightarrow> phase advance_active_action (\<lambda>y. poll_audio (start_phase y)) y
      | MIdle \<Rightarrow> poll_audio (idle_tick y)
      | MError \<Rightarrow> poll_audio (error_tick y))"

definition observe_tick :: "sys \<Rightarrow> sys" where
  "observe_tick y =
     (let y = on_st (set_runtime_action (active_action_code (rn_active (sy_run y)))) y;
          y = poll_motherbrain_reset (poll_runtime y);
          y = on_link (on_hw feed_watchdog) y
      in observe_audio_transitions (poll_imu (poll_charging_indicator y)))"

definition tick :: "sys \<Rightarrow> sys" where
  "tick y =
     phase poll_sensor_stream (phase enforce_careful_mode_timeout (phase enforce_safety_policy
       (phase enforce_heartbeat_stop (\<lambda>y. phase maintain_full_mode (phase animate_supervision_lights
         (\<lambda>y. run_lane (expire_authority y))) (publish_safety_snapshot y))))) (observe_tick y)"

section \<open>Lifecycle\<close>

definition boot_blink :: "hardware \<Rightarrow> hardware" where
  "boot_blink h = delay_ms 120 (set_indicators False (delay_ms 120 (set_indicators True h)))"

definition boot_indicator :: "hardware \<Rightarrow> hardware" where
  "boot_indicator h = delay_ms 250 (set_indicators True (boot_blink (boot_blink (boot_blink h))))"

definition start_runtime :: "sys \<Rightarrow> sys" where
  "start_runtime y =
     on_st (set_runtime_state Running) (queue_create_acquisition 0 (on_link (on_hw boot_indicator) y))"

definition shutdown :: "sys \<Rightarrow> sys" where
  "shutdown y =
     (let y = cancel_careful_mode (on_run (\<lambda>r. r\<lparr>rn_heartbeat_at := None\<rparr>) (abandon_commands y));
          y = fst (stop_drive y)
      in on_st (set_body_state BodyIdle) (on_st (set_runtime_state Idle) (on_st (set_command None) y)))"

text \<open>\<open>enqueue_command\<close>: the command comes back when the queue is full.\<close>

definition enqueue_command :: "runtime_command \<Rightarrow> sys \<Rightarrow> sys \<times> runtime_command option" where
  "enqueue_command command y =
     (enqueue_back (queued 0 command) y,
      if length (rn_commands (sy_run y)) < command_queue_capacity then None else Some command)"

text \<open>One turn of the endless loop of \<open>run\<close>.\<close>

definition turn :: "sys \<Rightarrow> sys" where
  "turn y = on_link (on_hw (delay_ms runtime_tick_ms)) (tick y)"

section \<open>What is kept\<close>

lemma process_stream_byte_platform [simp]: "ln_platform (process_stream_byte b l) = ln_platform l"
  by (simp add: process_stream_byte_def push_packet_def Let_def split: option.split)

lemma poll_loop_platform: "ln_platform (poll_loop n l) = ln_platform l"
  by (induction n arbitrary: l) (simp_all add: Let_def split: prod.split serial_read.split uart_read_error.split)

lemma uart_poll_change [simp]: "link_change l (uart_poll l)"
  by (simp add: link_change_def uart_poll_def poll_loop_platform quiet_poll_loop)

lemma mode_stream_change [simp]: "link_change l (fst (start_mode_stream l))"
  using driver_link_change(1) by (simp add: start_mode_stream_def)

lemma event_queue_change [simp]: "link_change l (l\<lparr>ln_events := es\<rparr>)"
  by (simp add: link_change_def emits_same_tx)

context steady begin

lemma sensing_keeps [keeps]:
  "K y \<Longrightarrow> K (fst (poll_sensor_stream y))" "K y \<Longrightarrow> K (poll_imu y)" "K y \<Longrightarrow> K (poll_charging_indicator y)"
  by (auto simp: poll_sensor_stream_def poll_imu_def poll_charging_indicator_def Let_def intro!: keeps
      split: option.split sum.split)

lemma observers_keep:
  "K y \<Longrightarrow> K (observe_battery y)" "K y \<Longrightarrow> K (observe_charging y)" "K y \<Longrightarrow> K (observe_imu_fault t y)"
  "K y \<Longrightarrow> K (observe_inconsistency t y)" "K y \<Longrightarrow> K (observe_dock_beam y)" "K y \<Longrightarrow> K (observe_full_mode y)"
  by (auto simp: observe_battery_def observe_charging_def observe_imu_fault_def observe_inconsistency_def
      observe_dock_beam_def observe_full_mode_def Let_def voice_ok_def intro!: keeps split: option.split)

lemma observe_transitions_keeps [keeps]: "K y \<Longrightarrow> K (observe_audio_transitions y)"
  unfolding observe_audio_transitions_def by (auto intro!: keeps observers_keep)

lemma network_keeps [keeps]: "K y \<Longrightarrow> K (on_network clear_motherbrain_registration y)"
  by (auto simp: on_network_def Let_def clear_motherbrain_registration_def leases_ok_def intro!: keeps k_registry)

lemma barriers_keep [keeps]:
  "K y \<Longrightarrow> K (publish_safety_snapshot y)" "K y \<Longrightarrow> K (idle_lane y)"
  "K y \<Longrightarrow> K (poll_session_replace y)" "K y \<Longrightarrow> K (poll_authority_transition y)"
proof -
  show snapshot: "K y \<Longrightarrow> K (publish_safety_snapshot y)" for y
    unfolding publish_safety_snapshot_def by (auto intro!: keeps)
  show idle: "K y \<Longrightarrow> K (idle_lane y)" for y
    unfolding idle_lane_def Let_def by (auto intro!: keeps)
  show "K y \<Longrightarrow> K (poll_session_replace y)"
    unfolding poll_session_replace_def Let_def by (auto intro!: keeps snapshot idle split: option.split)
  show "K y \<Longrightarrow> K (poll_authority_transition y)"
    unfolding poll_authority_transition_def Let_def by (auto intro!: keeps idle split: option.split)
qed

lemma link_phases_keep [keeps]: "K y \<Longrightarrow> K (timers_poll y)" "K y \<Longrightarrow> K (judge_link t y)" "K y \<Longrightarrow> K (poll_runtime y)"
proof -
  show timers: "K y \<Longrightarrow> K (timers_poll y)" for y
    unfolding timers_poll_def by (auto intro!: keeps k_link)
  show judged: "K y \<Longrightarrow> K (judge_link t y)" for t y
    unfolding judge_link_def Let_def by (auto simp: voice_ok_def intro!: keeps)
  show "K y \<Longrightarrow> K (poll_runtime y)"
    unfolding poll_runtime_def Let_def by (auto intro!: keeps timers judged k_link)
qed

lemma supervision_keeps [keeps]:
  "K y \<Longrightarrow> K (fst (maintain_full_mode y))" "K y \<Longrightarrow> K (fst (animate_supervision_lights y))"
  by (auto simp: maintain_full_mode_def animate_supervision_lights_def Let_def intro!: keeps split: prod.split)

lemma phase_keeps [keeps]:
  "K y \<Longrightarrow> (\<And>z. K z \<Longrightarrow> K (fst (f z))) \<Longrightarrow> (\<And>z. K z \<Longrightarrow> K (k z)) \<Longrightarrow> K (phase f k y)"
  by (cases "f y") (force simp: phase_def intro!: keeps split: option.split)

lemma expire_authority_keeps [keeps]: "K y \<Longrightarrow> K (expire_authority y)"
  unfolding expire_authority_def Let_def by (auto intro!: keeps)

lemma observe_tick_keeps [keeps]: "K y \<Longrightarrow> K (observe_tick y)"
  unfolding observe_tick_def Let_def by (auto intro!: keeps)

lemma start_runtime_keeps: "K y \<Longrightarrow> K (start_runtime y)"
  unfolding start_runtime_def by (auto intro!: keeps simp: boot_indicator_def boot_blink_def)

lemma shutdown_keeps: "K y \<Longrightarrow> K (shutdown y)"
  unfolding shutdown_def Let_def by (auto intro!: keeps)

lemma start_phase_keeps_if:
  "K y \<Longrightarrow> K (fst (start_next_command y)) \<Longrightarrow> K (start_phase y)"
  unfolding start_phase_def by (auto intro!: keeps split: prod.split option.split)

text \<open>A tick up to the running lane.\<close>

lemma tick_keeps_if:
  assumes "K y" and "\<And>z. K z \<Longrightarrow> K (run_lane z)"
  shows "K (tick y)"
  unfolding tick_def by (auto intro!: keeps assms)

end

context thorough begin

lemma run_lane_keeps [keeps]: "K y \<Longrightarrow> K (run_lane y)"
  unfolding run_lane_def by (auto intro!: keeps start_phase_keeps_if split: runtime_mode.split)

lemma tick_keeps: "K y \<Longrightarrow> K (tick y)"
  by (erule tick_keeps_if) (rule run_lane_keeps)

lemma turn_keeps: "K y \<Longrightarrow> K (turn y)"
  unfolding turn_def by (auto intro!: keeps tick_keeps)

end

end
