(* ===== verification/Tick_Rules.thy ===== *)
theory Tick_Rules
  imports Runtime_Tick
begin

text \<open>
  What whole ticks guarantee: the invariant of the state over any interleaving of ticks, other
  tasks and the outside world; the emergency stop across a tick; the barriers of session and
  authority; the supervision of the Create's mode and link; the reading of the serial line.
\<close>

section \<open>A tick and its lane\<close>

definition laned :: "sys \<Rightarrow> sys \<Rightarrow> bool" where
  "laned y w \<longleftrightarrow> calm y w \<or> (\<exists>z. calm y z \<and> w = run_lane z)"

lemma laned_intros: "calm y z \<Longrightarrow> laned y (run_lane z)" "calm y z \<Longrightarrow> laned y z"
  by (auto simp: laned_def)

lemma laned_phase:
  assumes z: "calm y z" and f: "\<And>z. calm y z \<Longrightarrow> calm y (fst (f z))" and k: "\<And>z. calm y z \<Longrightarrow> laned y (k z)"
  shows "laned y (phase f k z)"
proof (cases "f z")
  case (Pair z' e)
  then have "calm y z'" using f [OF z] by simp
  then show ?thesis using Pair k
    by (cases e) (auto simp: phase_def intro: laned_intros(2) calm.modes_keep)
qed

text \<open>A tick is calm up to its lane: what it sends and what it does to the emergency stop happens there.\<close>

lemma tick_laned: "laned y (tick y)"
  unfolding tick_def by (intro laned_phase laned_intros(1) keeps calm_refl)

text \<open>The state in which the lane starts its next command, if it does.\<close>

definition starting :: "sys \<Rightarrow> sys \<Rightarrow> bool" where
  "starting z w \<longleftrightarrow> rn_mode (sy_run z) = MRunning \<and> advance_active_action z = (w, None) \<and> rn_active (sy_run w) = ANone"

lemma lane_without_start:
  assumes "calm y z" and "\<And>w. \<not> starting z w"
  shows "calm y (run_lane z)"
proof (cases "rn_mode (sy_run z)")
  case MRunning
  have "calm y (fst (advance_active_action z))" using assms(1) by (rule calm.advance_keeps)
  with assms(2) MRunning show ?thesis
    by (cases "advance_active_action z")
      (force simp: run_lane_def phase_def starting_def start_phase_def intro!: keeps split: option.split)
qed (use assms(1) in \<open>auto simp: run_lane_def intro!: keeps\<close>)

lemma lane_with_start:
  assumes "starting z w"
  shows "calm (fst (start_next_command w)) (run_lane z)"
  using assms
  by (cases "start_next_command w")
    (auto simp: run_lane_def phase_def starting_def start_phase_def intro!: keeps split: option.split)

text \<open>Every tick is calm, or it starts the next command in a state reached calmly and is calm after that.\<close>

lemma tick_starts:
  "calm y (tick y) \<or> (\<exists>z w. tick y = run_lane z \<and> starting z w \<and> calm y w
     \<and> calm (fst (start_next_command w)) (tick y))"
proof -
  consider "calm y (tick y)" | z where "calm y z" "tick y = run_lane z"
    using tick_laned [of y] by (auto simp: laned_def)
  then show ?thesis
  proof cases
    case 2
    show ?thesis
    proof (cases "\<exists>w. starting z w")
      case True
      then obtain w where w: "starting z w" ..
      then have "calm y w" using calm.advance_keeps [OF 2(1)] by (simp add: starting_def)
      then show ?thesis using lane_with_start [OF w] w 2(2) by auto
    qed (use 2 lane_without_start in auto)
  qed simp
qed

section \<open>Barriers\<close>

lemma cancel_careful_frame [simp]:
  "sy_gate (cancel_careful_mode y) = sy_gate y" "sy_create (cancel_careful_mode y) = sy_create y"
  "sy_registry (cancel_careful_mode y) = sy_registry y" "line_up (sy_link (cancel_careful_mode y)) = line_up (sy_link y)"
  "hw_tx (ln_hw (sy_link (cancel_careful_mode y))) = hw_tx (ln_hw (sy_link y))"
  "rn_active (sy_run (cancel_careful_mode y)) = rn_active (sy_run y)"
  "rn_heartbeat_at (sy_run (cancel_careful_mode y)) = rn_heartbeat_at (sy_run y)"
  "rn_careful_until (sy_run (cancel_careful_mode y)) = None"
  "st_session (st_of (cancel_careful_mode y)) = st_session (st_of y)"
  "st_auth (st_of (cancel_careful_mode y)) = st_auth (st_of y)"
  by (simp_all add: cancel_careful_mode_def set_careful_mode_until_def)

lemma network_barrier_frame [simp]:
  "sy_run (on_network clear_motherbrain_registration y) = sy_run y"
  "sy_gate (on_network clear_motherbrain_registration y) = sy_gate y"
  "sy_create (on_network clear_motherbrain_registration y) = sy_create y"
  "sy_link (on_network clear_motherbrain_registration y) =
     on_status (\<lambda>s. snd (clear_motherbrain_registration (sy_registry y, s))) (sy_link y)"
  "resolve_motherbrain t (sy_registry (on_network clear_motherbrain_registration y)) = None"
  by (simp_all add: on_network_def clear_motherbrain_registration_def resolve_motherbrain_def Let_def on_status_def)

text \<open>Whatever idles the lane leaves nothing to run and, on a live line, the stop frame last.\<close>

definition idled :: "sys \<Rightarrow> sys \<Rightarrow> bool" where
  "idled y z \<longleftrightarrow> rn_commands (sy_run z) = [] \<and> rn_active (sy_run z) = ANone \<and> rn_command_id (sy_run z) = None \<and>
     (line_up (sy_link y) \<longrightarrow> hw_tx (ln_hw (sy_link z)) = hw_tx (ln_hw (sy_link y)) @ stop_frame \<and>
        rn_velocity (sy_run z) = None \<and> rn_escape (sy_run z) = None)"

lemma idle_lane_idles: "gt_withdrawal (sy_gate y) = None \<Longrightarrow> idled y (idle_lane y)"
  using stop_drive_up [of "abandon_commands y"] stop_drive_ok [of "abandon_commands y"]
  by (auto simp: idled_def idle_lane_def abandon_commands_def Let_def)

lemma idle_lane_frame [simp]:
  "sy_create (idle_lane y) = sy_create y" "sy_registry (idle_lane y) = sy_registry y" "sy_gate (idle_lane y) = sy_gate y"
  "rn_careful_until (sy_run (idle_lane y)) = rn_careful_until (sy_run y)"
  "st_session (st_of (idle_lane y)) = st_session (st_of y)"
  by (simp_all add: idle_lane_def abandon_commands_def set_command_def set_runtime_state_def set_body_state_def Let_def)

section \<open>Supervision\<close>

lemma reclaim_up:
  assumes "line_up l"
  shows "snd (uart_start_oi l) = None \<and> line_up (fst (uart_start_oi l)) \<and>
      hw_tx (ln_hw (fst (uart_start_oi l))) = hw_tx (ln_hw l) @ [OI_START]"
    and "snd (uart_set_mode Full l) = None \<and> line_up (fst (uart_set_mode Full l)) \<and>
      hw_tx (ln_hw (fst (uart_set_mode Full l))) = hw_tx (ln_hw l) @ [OI_FULL]"
proof -
  have send: "snd (send_byte b (publish e l)) = None \<and> line_up (fst (send_byte b (publish e l))) \<and>
      hw_tx (ln_hw (fst (send_byte b (publish e l)))) = hw_tx (ln_hw l) @ [b]" for b e
    using send_bytes_up [of "publish e l" "[b]"] send_bytes_ok_tx [of "[b]" "publish e l"] assms
    by (simp add: send_byte_def)
  show "snd (uart_start_oi l) = None \<and> line_up (fst (uart_start_oi l)) \<and>
      hw_tx (ln_hw (fst (uart_start_oi l))) = hw_tx (ln_hw l) @ [OI_START]"
    and "snd (uart_set_mode Full l) = None \<and> line_up (fst (uart_set_mode Full l)) \<and>
      hw_tx (ln_hw (fst (uart_set_mode Full l))) = hw_tx (ln_hw l) @ [OI_FULL]"
    using send by (simp_all add: uart_start_oi_def uart_set_mode_def)
qed

section \<open>Reading the line\<close>

lemma process_stream_byte_rx [simp]: "hw_rx (ln_hw (process_stream_byte b l)) = hw_rx (ln_hw l)"
  by (simp add: process_stream_byte_def push_packet_def Let_def split: option.split)

lemma poll_loop_reads:
  "hw_rx (ln_hw l) = map RxByte bs \<Longrightarrow> hw_rx (ln_hw (poll_loop n l)) = map RxByte (drop n bs)"
proof (induction n arbitrary: l bs)
  case (Suc n)
  show ?case
  proof (cases bs)
    case Nil
    then show ?thesis using Suc.prems by (simp add: read_byte_def)
  next
    case (Cons b rest)
    obtain h t where c: "hw_now_ms ((ln_hw l)\<lparr>hw_rx := map RxByte rest\<rparr>) = (h, t)" by fastforce
    then have "hw_rx h = map RxByte rest"
      using hw_now_ms_frame(2) [of "(ln_hw l)\<lparr>hw_rx := map RxByte rest\<rparr>"] by simp
    then show ?thesis using Suc Cons c by (simp add: read_byte_def Let_def)
  qed
qed simp

section \<open>The invariant of the state\<close>

text \<open>
  What can happen to the brainstem: a turn of the runtime's loop; a change of the hardware between
  turns (bytes arrive, time passes, pins move); a change of the shared status by another task (the
  command service, the log readers); a lease recorded by the access point; a name registered by a
  client. The first three are over-approximated by arbitrary functions.
\<close>

inductive moves :: "sys \<Rightarrow> sys \<Rightarrow> bool" where
  turns: "moves y (turn y)"
| world: "moves y (on_link (on_hw f) y)"
| tasks: "moves y (on_st f y)"
| granted: "moves y (on_network (record_lease identity ip expiry) y)"
| registered: "moves y (on_network (\<lambda>n. fst (register_motherbrain identity ip device boot req now_ms n)) y)"

lemma register_keeps_leases: "leases_ok (fst n) \<Longrightarrow> leases_ok (fst (fst (register_motherbrain identity ip d b req t n)))"
  by (cases n) (auto simp: register_motherbrain_def leases_ok_def Let_def split: option.split)

lemma network_ok: "sys_ok y \<Longrightarrow> (\<And>s. leases_ok (fst (f (sy_registry y, s)))) \<Longrightarrow> sys_ok (on_network f y)"
  by (simp add: on_network_def sys_ok_def Let_def)

lemma sys_ok_leases: "sys_ok y \<Longrightarrow> leases_ok (sy_registry y)"
  by (simp add: sys_ok_def)

lemma moves_ok: "moves y z \<Longrightarrow> sys_ok y \<Longrightarrow> sys_ok z"
proof (induction rule: moves.induct)
  case (turns y) then show ?case by (rule sysok.turn_keeps)
next
  case (world y f) then show ?case by (rule sysok.k_any_link) simp
next
  case (tasks y f) then show ?case by (rule sysok.on_st_keeps)
next
  case (granted y identity ip expiry) then show ?case
    by (intro network_ok) (auto simp: record_lease_def dest!: sys_ok_leases intro: record_keeps_registration(2))
next
  case (registered y identity ip device boot req now_ms) then show ?case
    by (intro network_ok) (auto dest!: sys_ok_leases intro: register_keeps_leases)
qed

lemma reachable_ok: "moves\<^sup>*\<^sup>* y z \<Longrightarrow> sys_ok y \<Longrightarrow> sys_ok z"
  by (induction rule: rtranclp_induct) (auto intro: moves_ok)

section \<open>Properties\<close>

text \<open>C8. The invariant of the state: whatever the runtime, the other tasks and the outside world do after
  the start, and in whatever order, the command queue holds at most sixteen commands, the reset
  history stays a ring of sixteen distinct requests, the sound tables and the lease table keep their
  sizes and the annunciator its invariant.\<close>

theorem state_invariant_always_holds:
  assumes "leases_ok registry" and "moves\<^sup>*\<^sup>* (start_runtime (new_runtime l registry)) y"
  shows "length (rn_commands (sy_run y)) \<le> 16 \<and> annunciator_ok (vo_audio (sy_voice y))
    \<and> length (vo_chirps (sy_voice y)) = 6 \<and> length (vo_durations (sy_voice y)) = 16
    \<and> length (mr_history (sy_reset y)) = 16 \<and> distinct (identities (sy_reset y))
    \<and> length (nr_leases (sy_registry y)) = 8"
proof -
  have "sys_ok y"
    by (rule reachable_ok [OF assms(2)]) (intro sysok.start_runtime_keeps new_runtime_ok assms(1))
  then show ?thesis
    by (simp add: sys_ok_def voice_ok_def reset_ok_def leases_ok_def command_queue_capacity_def
        motherbrain_reset_history_capacity_def lease_capacity_def)
qed

theorem state_invariant_always_holds_witness:
  "length (rn_commands (sy_run (turn (start_runtime (new_runtime (sy_link resting) initial_registry))))) \<le> 16"
proof -
  let ?y = "start_runtime (new_runtime (sy_link resting) initial_registry)"
  have "moves\<^sup>*\<^sup>* ?y (turn ?y)" by (rule r_into_rtranclp) (rule turns)
  then show ?thesis
    using state_invariant_always_holds [of initial_registry "sy_link resting" "turn ?y"]
    by (simp add: leases_ok_def initial_registry_def)
qed



text \<open>C5. The session barrier: a pending session replacement is carried out before anything else of the
  tick. It ends careful mode, the heartbeat and the sensor stream, takes the old session's name out
  of the registry, acknowledges the new session under its own generation, and, unless a contact
  withdrawal is running, empties the lane with the stop frame on the line.\<close>

theorem session_barrier_empties_the_lane:
  assumes "pending_session_replace (st_of y) = Some g"
  defines "z \<equiv> poll_session_replace y"
  shows "rn_careful_until (sy_run z) = None \<and> cr_stream (sy_create z) = None \<and>
    resolve_motherbrain t (sy_registry z) = None \<and> pending_session_replace (st_of z) = None \<and>
    ss_active_hash (st_session (st_of z)) = ss_pending_hash (st_session (st_of y)) \<and>
    \<not> has_active_authority t (st_of z) \<and> (gt_withdrawal (sy_gate y) = None \<longrightarrow> idled y z)"
proof -
  define p where "p = on_network clear_motherbrain_registration (on_create (\<lambda>c. c\<lparr>cr_stream := None\<rparr>)
    (cancel_careful_mode (on_run (\<lambda>r. r\<lparr>rn_heartbeat_at := None\<rparr>) y)))"
  define q where "q = publish_safety_snapshot (idle_lane p)"
  have z: "z = on_st (acknowledge_session_replace g (pending_session_hash (st_of q))) q"
    using assms(1) by (simp add: z_def q_def p_def poll_session_replace_def Let_def)
  have p: "rn_careful_until (sy_run p) = None" "cr_stream (sy_create p) = None"
    "resolve_motherbrain t (sy_registry p) = None" "sy_gate p = sy_gate y"
    "line_up (sy_link p) = line_up (sy_link y)" "hw_tx (ln_hw (sy_link p)) = hw_tx (ln_hw (sy_link y))"
    "st_session (st_of p) = st_session (st_of y)"
    by (simp_all add: p_def clear_motherbrain_registration_def mark_dns_registration_changed_def)
  have q: "sy_run q = sy_run (idle_lane p)" "sy_create q = sy_create p" "sy_registry q = sy_registry p"
    "hw_tx (ln_hw (sy_link q)) = hw_tx (ln_hw (sy_link (idle_lane p)))" "st_session (st_of q) = st_session (st_of y)"
    by (simp_all add: q_def publish_safety_snapshot_def set_session_safety_snapshot_def p)
  have pending: "pending_session_replace (st_of q) = Some g"
    using assms(1) q(5) by (simp add: pending_session_replace_def)
  have "idled y z" if "gt_withdrawal (sy_gate y) = None"
    using idle_lane_idles [of p] that p q(1,4) by (simp add: idled_def z)
  moreover have "ss_active_hash (st_session (st_of z)) = ss_pending_hash (st_session (st_of y))"
    using q(5) by (simp add: z acknowledge_session_replace_def revoke_service_authority_def pending_session_hash_def Let_def)
  ultimately show ?thesis
    using p q replace_acknowledged [OF pending] replace_revokes(3) by (simp add: z)
qed

text \<open>A runtime with a pending replacement and a queued drive.\<close>

definition replacing :: sys where
  "replacing = on_st (\<lambda>s. request_session_replace 3 9 8 7 (s\<lparr>st_session := initial_session_status\<rparr>)) (stopped_with (RCmdVel 100 0 (Some 300)))"

lemma replacing_pending: "pending_session_replace (st_of replacing) = Some 3"
  by (simp add: replacing_def pending_session_replace_def request_session_replace_def initial_session_status_def)

lemma replacing_up: "line_up (sy_link replacing)" "gt_withdrawal (sy_gate replacing) = None"
  using resting_up by (simp_all add: replacing_def stopped_with_def resting_def new_runtime_def Let_def)

theorem session_barrier_empties_the_lane_witness:
  "rn_commands (sy_run (poll_session_replace replacing)) = [] \<and>
   hw_tx (ln_hw (sy_link (poll_session_replace replacing))) = hw_tx (ln_hw (sy_link replacing)) @ stop_frame"
  using session_barrier_empties_the_lane [OF replacing_pending, of 0] replacing_up by (simp add: idled_def)

text \<open>Supervision of the mode: when the refresh is due while the wheels are driven, nothing is sent if the
  Create still reports Full mode (the refresh would stop the wheels), and otherwise, on a live line,
  the stop frame is sent, the action is dropped and the tick fails. While nothing is driven, a live
  Create in another known mode is brought back with START and FULL.\<close>

theorem supervision_spares_motion:
  assumes "time_reached (clock_ms y) (cr_next_full_ms (sy_create y))"
  defines "z \<equiv> maintain_full_mode y" and "mode \<equiv> rs_oi_mode (st_run (st_of y))"
    and "driven \<equiv> is_driving (rn_active (sy_run y)) \<or> is_dock_departure (rn_active (sy_run y))"
  shows "(driven \<and> mode = 3 \<longrightarrow> snd z = None \<and> hw_tx (ln_hw (sy_link (fst z))) = hw_tx (ln_hw (sy_link y))
      \<and> sy_run (fst z) = sy_run y) \<and>
    (driven \<and> mode \<noteq> 3 \<and> line_up (sy_link y) \<longrightarrow> snd z = Some CreateNoResponse
      \<and> hw_tx (ln_hw (sy_link (fst z))) = hw_tx (ln_hw (sy_link y)) @ stop_frame \<and> rn_active (sy_run (fst z)) = ANone) \<and>
    (\<not> driven \<and> mode \<noteq> 3 \<and> mode \<noteq> 0 \<and> line_up (sy_link y) \<longrightarrow> snd z = None
      \<and> hw_tx (ln_hw (sy_link (fst z))) = hw_tx (ln_hw (sy_link y)) @ [OI_START, OI_FULL])"
proof (intro conjI impI)
  have mode: "rs_oi_mode (st_run (st_of (clock_read y))) = mode" "sy_run (clock_read y) = sy_run y"
    "sy_create (clock_read y) = sy_create y"
    by (simp_all add: clock_read_def mode_def)
  { assume "driven \<and> mode = 3"
    then show "snd z = None" "hw_tx (ln_hw (sy_link (fst z))) = hw_tx (ln_hw (sy_link y))" "sy_run (fst z) = sy_run y"
      using assms(1) mode
      by (simp_all add: z_def driven_def maintain_full_mode_def with_now_def Let_def clock_read_def) }
  { assume a: "driven \<and> mode \<noteq> 3 \<and> line_up (sy_link y)"
    then have up: "snd (stop_drive (clock_read y)) = None" by (simp add: stop_drive_up)
    then show "snd z = Some CreateNoResponse"
      "hw_tx (ln_hw (sy_link (fst z))) = hw_tx (ln_hw (sy_link y)) @ stop_frame" "rn_active (sy_run (fst z)) = ANone"
      using a assms(1) mode stop_drive_ok [OF up]
      by (simp_all add: z_def driven_def maintain_full_mode_def with_now_def Let_def fst_and_then and_then_def fail_def) }
  { assume a: "\<not> driven \<and> mode \<noteq> 3 \<and> mode \<noteq> 0 \<and> line_up (sy_link y)"
    show "snd z = None" "hw_tx (ln_hw (sy_link (fst z))) = hw_tx (ln_hw (sy_link y)) @ [OI_START, OI_FULL]"
      using a assms(1) mode reclaim_up(1) [of "sy_link (clock_read y)"]
        reclaim_up(2) [of "fst (uart_start_oi (sy_link (clock_read y)))"]
      by (simp_all add: z_def driven_def maintain_full_mode_def with_now_def Let_def lift_link_def fst_and_then
          snd_and_then_None_iff) }
qed

text \<open>A driving runtime whose Create has fallen back to Passive mode.\<close>

definition astray :: sys where
  "astray = on_st (\<lambda>s. s\<lparr>st_run := (st_run s)\<lparr>rs_oi_mode := 1\<rparr>\<rparr>) (set_active (ADriving 500) resting)"

lemma astray_facts: "line_up (sy_link astray)" "time_reached (clock_ms astray) (cr_next_full_ms (sy_create astray))"
  "is_driving (rn_active (sy_run astray))" "rs_oi_mode (st_run (st_of astray)) = 1"
  using resting_up
  by (simp_all add: astray_def clock_ms_def resting_def new_runtime_def idle_hardware_def hw_now_ms_def now_us_def
      time_reached_def Let_def)

theorem supervision_spares_motion_witness:
  "snd (maintain_full_mode astray) = Some CreateNoResponse \<and>
   hw_tx (ln_hw (sy_link (fst (maintain_full_mode astray)))) = hw_tx (ln_hw (sy_link astray)) @ stop_frame"
  using supervision_spares_motion [OF astray_facts(2)] astray_facts by simp

text \<open>The link to the Create is judged by its packets: a Create that delivered nothing new and was last heard
  more than the freshness timeout ago becomes unresponsive with an unknown mode, careful mode ends,
  and no direct drive puts a motion frame on the line, whatever its deadline; a Create that delivers
  in a known mode is responsive and powered.\<close>

theorem silent_create_is_not_driven:
  fixes now_ms :: u32
  assumes "cr_last_packet_at (sy_create y) = Some t"
  defines "z \<equiv> judge_link now_ms y" and "fresh \<equiv> us_rx_packets (st_uart (st_of y)) \<noteq> cr_observed_packets (sy_create y)"
  shows "(\<not> fresh \<and> now_ms - t > create_link_freshness_timeout_ms \<longrightarrow>
      \<not> cr_responsive (sy_create z) \<and> rs_oi_mode (st_run (st_of z)) = 0 \<and> rn_careful_until (sy_run z) = None \<and>
      quiet (sy_link z) (sy_link (fst (start_drive_direct left right duration t' z)))) \<and>
    (fresh \<and> rs_oi_mode (st_run (st_of y)) \<in> {1, 2, 3} \<longrightarrow>
      cr_responsive (sy_create z) \<and> cr_last_packet_at (sy_create z) = Some now_ms)"
proof (intro conjI impI)
  assume stale: "\<not> fresh \<and> now_ms - t > create_link_freshness_timeout_ms"
  show dead: "\<not> cr_responsive (sy_create z)" "rs_oi_mode (st_run (st_of z)) = 0" "rn_careful_until (sy_run z) = None"
    using stale assms(1)
    by (auto simp: z_def fresh_def judge_link_def link_fresh_def set_oi_mode_unknown_def Let_def)
  have "calm z (fst (start_drive_direct left right duration t' z))"
    by (rule refused_link_is_calm(1)) (rule dead_link_refuses [OF dead(1)])
  then show "quiet (sy_link z) (sy_link (fst (start_drive_direct left right duration t' z)))"
    by (simp add: calm_def link_change_def)
next
  assume "fresh \<and> rs_oi_mode (st_run (st_of y)) \<in> {1, 2, 3}"
  then show "cr_responsive (sy_create z)" "cr_last_packet_at (sy_create z) = Some now_ms"
    by (auto simp: z_def fresh_def judge_link_def link_fresh_def create_link_freshness_timeout_ms_def Let_def)
qed

text \<open>Reading the line ends: one poll takes the bytes that have arrived, up to the drain limit of 128, and
  leaves the rest in order for the next poll, so that \<open>n\<close> polls read \<open>128 * n\<close> bytes.\<close>

theorem polls_drain_the_line:
  assumes "hw_rx (ln_hw l) = map RxByte bs"
  shows "hw_rx (ln_hw ((uart_poll ^^ n) l)) = map RxByte (drop (128 * n) bs)"
proof (induction n)
  case (Suc n)
  have "hw_rx (ln_hw (uart_poll ((uart_poll ^^ n) l))) = map RxByte (drop 128 (drop (128 * n) bs))"
    unfolding uart_poll_def [of "(uart_poll ^^ n) l"] uart_drain_limit_def
    by (rule poll_loop_reads) (rule Suc.IH)
  then show ?case by (simp add: add.commute)
qed (use assms in simp)

theorem polls_drain_the_line_witness:
  "hw_rx (ln_hw ((uart_poll ^^ 2) (on_hw (\<lambda>h. h\<lparr>hw_rx := map RxByte (replicate 200 5)\<rparr>) (sy_link resting)))) = []"
  using polls_drain_the_line [of "on_hw (\<lambda>h. h\<lparr>hw_rx := map RxByte (replicate 200 5)\<rparr>) (sy_link resting)"
      "replicate 200 5" 2] by (simp del: map_replicate)

definition heard :: sys where
  "heard = on_create (\<lambda>c. c\<lparr>cr_last_packet_at := Some 0, cr_responsive := True,
     cr_observed_packets := us_rx_packets (st_uart (st_of resting))\<rparr>) resting"

theorem silent_create_is_not_driven_witness:
  "\<not> cr_responsive (sy_create (judge_link 60000 heard))"
proof -
  have "us_rx_packets (st_uart (st_of heard)) = cr_observed_packets (sy_create heard)"
    by (simp add: heard_def)
  then show ?thesis
    using silent_create_is_not_driven [of heard 0 60000]
    by (simp add: heard_def create_link_freshness_timeout_ms_def)
qed

text \<open>Losing the control authority: a tick in which the lease has expired ends careful mode and the
  heartbeat and, unless a contact withdrawal runs, leaves nothing to run with the stop frame last on
  a live line; afterwards no authority is active, and while the lease is live nothing changes.\<close>

theorem expired_authority_stops:
  fixes y :: sys
  defines "z \<equiv> expire_authority y" and "expired \<equiv> snd (take_expired_authority (clock_ms y) (st_of y))"
  shows "(expired \<longrightarrow> rn_careful_until (sy_run z) = None \<and> \<not> has_active_authority now (st_of z) \<and>
      (gt_withdrawal (sy_gate y) = None \<longrightarrow> rn_commands (sy_run z) = [] \<and> rn_active (sy_run z) = ANone \<and>
        (line_up (sy_link y) \<longrightarrow> hw_tx (ln_hw (sy_link z)) = hw_tx (ln_hw (sy_link y)) @ stop_frame))) \<and>
    (\<not> expired \<longrightarrow> sy_run z = sy_run y \<and> hw_tx (ln_hw (sy_link z)) = hw_tx (ln_hw (sy_link y)))"
proof -
  let ?r = "clock_read y"
  have st: "st_of ?r = st_of y" by (simp add: clock_read_def)
  define p where "p = cancel_careful_mode (on_run (\<lambda>r. r\<lparr>rn_heartbeat_at := None\<rparr>)
    (request_audio CueAuthorityLost (on_st (\<lambda>s. fst (take_expired_authority (clock_ms y) s)) ?r)))"
  have z: "z = (if expired then if gt_withdrawal (sy_gate p) = None then fst (stop_drive (abandon_commands p)) else p
      else on_st (\<lambda>s. fst (take_expired_authority (clock_ms y) s)) ?r)"
    by (simp add: z_def expired_def p_def expire_authority_def with_now_def Let_def st)
  have p: "rn_careful_until (sy_run p) = None" "sy_gate p = sy_gate y" "line_up (sy_link p) = line_up (sy_link y)"
    "hw_tx (ln_hw (sy_link p)) = hw_tx (ln_hw (sy_link y))"
    by (simp_all add: p_def clock_read_def)
  have lost: "as_lease (st_auth (st_of p)) = 0" if expired
    using that by (auto simp: p_def expired_def take_expired_authority_def st revoke_authority_def Let_def
        split: if_splits)
  show ?thesis
  proof (cases expired)
    case True
    then show ?thesis
      using p lost stop_drive_up [of "abandon_commands p"] stop_drive_ok [of "abandon_commands p"]
      by (auto simp: z has_active_authority_def abandon_commands_def)
  next
    case False
    then show ?thesis by (simp add: z clock_read_def)
  qed
qed

text \<open>A driving runtime whose lease ran out at once.\<close>

definition lapsed :: sys where
  "lapsed = on_st (\<lambda>s. s\<lparr>st_auth := (st_auth s)\<lparr>as_lease := 5, as_expires_ms := 0\<rparr>\<rparr>) (stopped_with RDock)"

lemma lapsed_facts: "line_up (sy_link lapsed)" "snd (take_expired_authority (clock_ms lapsed) (st_of lapsed))"
  "gt_withdrawal (sy_gate lapsed) = None"
  using resting_up
  by (simp_all add: lapsed_def stopped_with_def take_expired_authority_def authority_expired_def resting_def
      new_runtime_def Let_def)

theorem expired_authority_stops_witness:
  "rn_commands (sy_run (expire_authority lapsed)) = [] \<and>
   hw_tx (ln_hw (sy_link (expire_authority lapsed))) = hw_tx (ln_hw (sy_link lapsed)) @ stop_frame"
  using expired_authority_stops [of lapsed] lapsed_facts by simp

end
