(* ===== verification/Session.thy ===== *)
theory Session
  imports Protocol
begin

text \<open>
  Sessions as \<open>session.rs\<close> makes them: the hash of a text, the checks on a client's hello and the cache of
  one hello that lets a retried handshake have its session again. Parsing the hello (\<open>serde_json_core\<close>)
  is outside the model, which starts from the parsed record.
\<close>

section \<open>Hashes and tokens\<close>

definition fnv :: "u32 \<Rightarrow> u8 list \<Rightarrow> u32" where
  "fnv hash bytes = fold (\<lambda>byte hash. (hash XOR ucast byte) * 0x01000193) bytes hash"

definition str_bytes :: "string \<Rightarrow> u8 list" where
  "str_bytes s = map of_char s"

definition token_hash :: "string \<Rightarrow> u32" where
  "token_hash token = max (fnv 0x811c9dc5 (str_bytes token)) 1"

definition hex_char :: "u32 \<Rightarrow> char" where
  "hex_char d = char_of (if d < 10 then 48 + unat d else 87 + unat d)"

text \<open>\<open>{:08x}\<close>\<close>

definition hex8 :: "u32 \<Rightarrow> string" where
  "hex8 w = map (\<lambda>i. hex_char (drop_bit (4 * i) w AND 15)) [7, 6, 5, 4, 3, 2, 1, 0]"

text \<open>\<open>to_le_bytes\<close>\<close>

definition le_bytes :: "u32 \<Rightarrow> u8 list" where
  "le_bytes w = map (\<lambda>i. ucast (drop_bit (8 * i) w)) [0, 1, 2, 3]"

section \<open>Hello\<close>

text \<open>The discriminants of \<open>EndpointRole\<close> and \<open>SessionPurpose\<close>.\<close>

primrec role_byte :: "endpoint_role \<Rightarrow> u8" where
  "role_byte RoleBrainstem = 0"
| "role_byte RoleMotherbrain = 1"
| "role_byte RoleForebrain = 2"
| "role_byte RoleOperator = 3"
| "role_byte RoleSimulator = 4"
| "role_byte RoleServiceTool = 5"

primrec purpose_byte :: "session_purpose \<Rightarrow> u8" where
  "purpose_byte PurposeControl = 0"
| "purpose_byte PurposeDiagnostic = 1"

record hello =
  he_role :: endpoint_role
  he_purpose :: session_purpose
  he_device_id :: string
  he_boot_id :: string
  he_nonce :: string
  he_protocol_major :: u16
  he_minor_min :: u16
  he_minor_max :: u16
  he_supported :: "string list"
  he_required :: "string list"
  he_heartbeat_ms :: u32

record accepted_hello =
  ah_generation :: u32
  ah_session_hash :: u32
  ah_session_id :: string
  ah_negotiated_minor :: u16

text \<open>The static cells \<open>GENERATION\<close>, \<open>LAST_HELLO_HASH\<close>, \<open>LAST_SESSION_HASH\<close> and \<open>LAST_GENERATION\<close>.\<close>

record session_cache =
  sc_generation :: u32
  sc_hello_hash :: u32
  sc_session_hash :: u32
  sc_last_generation :: u32

definition initial_session_cache :: session_cache where
  "initial_session_cache =
     \<lparr>sc_generation = 0, sc_hello_hash = 0, sc_session_hash = 0, sc_last_generation = 0\<rparr>"

definition max_id_len :: nat where
  "max_id_len = 64"

definition valid_token :: "string \<Rightarrow> bool" where
  "valid_token s \<longleftrightarrow> valid_identity_token (str_bytes s) max_id_len"

definition check_hello :: "hello \<Rightarrow> handshake_reject_reason + u16" where
  "check_hello h =
     (if \<not> brainstem_accepts_client_role (he_role h) then Inl WrongRole
      else if \<not> valid_token (he_device_id h) \<or> \<not> valid_token (he_boot_id h) \<or> \<not> valid_token (he_nonce h)
      then Inl InvalidIdentity
      else
        (case negotiate_minor (he_protocol_major h) (he_minor_min h) (he_minor_max h) of
           Inl reason \<Rightarrow> Inl reason
         | Inr minor \<Rightarrow>
             if \<not> list_ex (\<lambda>feature. feature = ''session_ids'') (he_supported h)
             then Inl MissingRequiredFeature
             else if \<not> list_all (\<lambda>feature. feature \<in> {''session_ids'', ''event_cursor'', ''heartbeat'',
                       ''transport_failover''}) (he_required h)
             then Inl MissingRequiredFeature
             else Inr minor))"

text \<open>The hash of the hello: role and purpose, then the five texts one after the other.\<close>

definition hello_fnv :: "hello \<Rightarrow> string \<Rightarrow> string \<Rightarrow> u32" where
  "hello_fnv h brainstem_device brainstem_boot =
     fold (\<lambda>value hash. fnv hash (str_bytes value))
       [he_device_id h, he_boot_id h, brainstem_device, brainstem_boot, he_nonce h]
       (fnv 0x811c9dc5 [role_byte (he_role h), purpose_byte (he_purpose h)])"

definition session_text :: "u32 \<Rightarrow> u32 \<Rightarrow> string" where
  "session_text hash generation = ''sess-'' @ hex8 hash @ ''-'' @ hex8 generation"

definition validate_hello ::
  "hello \<Rightarrow> string \<Rightarrow> string \<Rightarrow> session_cache \<Rightarrow> session_cache \<times> (handshake_reject_reason + accepted_hello)" where
  "validate_hello h brainstem_device brainstem_boot c =
     (case check_hello h of
        Inl reason \<Rightarrow> (c, Inl reason)
      | Inr minor \<Rightarrow>
          (let hash = hello_fnv h brainstem_device brainstem_boot;
               hello_hash = max hash 1 in
           if sc_hello_hash c = hello_hash \<and> sc_last_generation c \<noteq> 0 then
             (c, Inr \<lparr>ah_generation = sc_last_generation c, ah_session_hash = sc_session_hash c,
                      ah_session_id = session_text (sc_session_hash c) (sc_last_generation c),
                      ah_negotiated_minor = minor\<rparr>)
           else
             (let generation = max (sc_generation c + 1) 1;
                  session = fnv hash (le_bytes generation)
              in (c\<lparr>sc_generation := sc_generation c + 1, sc_session_hash := max session 1,
                    sc_last_generation := generation, sc_hello_hash := hello_hash\<rparr>,
                  Inr \<lparr>ah_generation = generation, ah_session_hash = max session 1,
                       ah_session_id = session_text session generation, ah_negotiated_minor = minor\<rparr>))))"

section \<open>Lemmas\<close>

lemma fnv_append: "fnv h (xs @ ys) = fnv (fnv h xs) ys"
  by (simp add: fnv_def)

lemma token_hash_nonzero [simp]: "token_hash s \<noteq> 0"
  by (auto simp: token_hash_def max_def)

lemma max_one_nonzero: "max (w :: u32) 1 \<noteq> 0"
  by (auto simp: max_def)

lemma rejected_hello_keeps_cache: "snd (validate_hello h d b c) = Inl e \<Longrightarrow> fst (validate_hello h d b c) = c"
  by (auto simp: validate_hello_def Let_def split: sum.splits if_splits)

lemma rejected_hello_iff: "(\<exists>e. snd (validate_hello h d b c) = Inl e) \<longleftrightarrow> (\<exists>e. check_hello h = Inl e)"
  by (auto simp: validate_hello_def Let_def split: sum.splits)

text \<open>Only the texts one after the other reach the hash.\<close>

lemma hello_fnv_concat:
  "hello_fnv h d b =
     fnv (fnv 0x811c9dc5 [role_byte (he_role h), purpose_byte (he_purpose h)])
       (str_bytes (he_device_id h @ he_boot_id h @ d @ b @ he_nonce h))"
  by (simp add: hello_fnv_def str_bytes_def fnv_append)

lemma validate_again:
  assumes "validate_hello h d b c = (c', Inr a)"
  shows "validate_hello h d b c' = (c', Inr (a\<lparr>ah_session_id := session_text (sc_session_hash c') (ah_generation a)\<rparr>))"
    and "ah_session_hash a = sc_session_hash c'"
  using assms max_one_nonzero
  by (auto simp: validate_hello_def Let_def split: sum.splits if_splits)

end
