(* ===== verification/Text_Fields.thy ===== *)
theory Text_Fields
  imports Commands Platform
begin

text \<open>
  The string operations of the network services: the parts of Rust's \<open>str\<close> they use, and the readers of
  numbers, JSON fields and enumerations in \<open>arch/pico_w/json.rs\<close> and \<open>arch/pico_w/authority.rs\<close>.
  A string is a list of characters, one for each byte; white space is that of ASCII, so texts with
  other white space around their fields are outside the model.
\<close>

section \<open>Strings\<close>

definition is_space :: "char \<Rightarrow> bool" where
  "is_space c \<longleftrightarrow> c \<in> {CHR 0x09, CHR 0x0A, CHR 0x0B, CHR 0x0C, CHR 0x0D, CHR '' ''}"

definition is_ascii_whitespace :: "char \<Rightarrow> bool" where
  "is_ascii_whitespace c \<longleftrightarrow> c \<in> {CHR 0x09, CHR 0x0A, CHR 0x0C, CHR 0x0D, CHR '' ''}"

definition trim_start :: "string \<Rightarrow> string" where
  "trim_start = dropWhile is_space"

definition trim :: "string \<Rightarrow> string" where
  "trim s = rev (trim_start (rev (trim_start s)))"

definition strip_prefix :: "string \<Rightarrow> string \<Rightarrow> string option" where
  "strip_prefix p s = (if take (length p) s = p then Some (drop (length p) s) else None)"

text \<open>\<open>split(sep)\<close> on one character, \<open>split_ascii_whitespace\<close>, \<open>split_once(':')\<close> and \<open>rsplit_once\<close>.\<close>

fun split_on :: "char \<Rightarrow> string \<Rightarrow> string list" where
  "split_on sep [] = [[]]"
| "split_on sep (c # cs) =
     (if c = sep then [] # split_on sep cs
      else (case split_on sep cs of [] \<Rightarrow> [[c]] | w # ws \<Rightarrow> (c # w) # ws))"

definition split_words :: "string \<Rightarrow> string list" where
  "split_words s =
     filter (\<lambda>w. w \<noteq> []) (split_on (CHR '' '') (map (\<lambda>c. if is_ascii_whitespace c then CHR '' '' else c) s))"

definition split_once :: "char \<Rightarrow> string \<Rightarrow> (string \<times> string) option" where
  "split_once sep s =
     (if sep \<in> set s then Some (takeWhile (\<lambda>c. c \<noteq> sep) s, tl (dropWhile (\<lambda>c. c \<noteq> sep) s)) else None)"

fun rsplit_once :: "string \<Rightarrow> string \<Rightarrow> (string \<times> string) option" where
  "rsplit_once sep [] = None"
| "rsplit_once sep (c # cs) =
     (case rsplit_once sep cs of
        Some (a, b) \<Rightarrow> Some (c # a, b)
      | None \<Rightarrow> map_option (\<lambda>rest. ([], rest)) (strip_prefix sep (c # cs)))"

section \<open>Numbers\<close>

definition digit_of :: "char \<Rightarrow> nat option" where
  "digit_of c =
     (let n = (of_char c :: nat) in if 48 \<le> n \<and> n \<le> 57 then Some (n - 48) else None)"

fun parse_digits :: "nat \<Rightarrow> string \<Rightarrow> nat option" where
  "parse_digits acc [] = Some acc"
| "parse_digits acc (c # cs) =
     (case digit_of c of None \<Rightarrow> None | Some d \<Rightarrow> parse_digits (10 * acc + d) cs)"

text \<open>\<open>str::parse\<close> of an unsigned type with the given largest value; a plus sign is allowed, an empty
  or overflowing number is not.\<close>

definition parse_unsigned :: "nat \<Rightarrow> string \<Rightarrow> nat option" where
  "parse_unsigned largest s =
     (let digits = (case s of c # cs \<Rightarrow> if c = CHR ''+'' then cs else s | [] \<Rightarrow> []) in
      if digits = [] then None
      else Option.bind (parse_digits 0 digits) (\<lambda>n. if n \<le> largest then Some n else None))"

text \<open>\<open>str::parse\<close> of a signed type with largest value \<open>largest\<close> and least value \<open>- largest - 1\<close>.\<close>

definition parse_signed :: "nat \<Rightarrow> string \<Rightarrow> int option" where
  "parse_signed largest s =
     (case s of
        c # cs \<Rightarrow>
          if c = CHR ''-'' then
            (if cs = [] then None
             else Option.bind (parse_digits 0 cs) (\<lambda>n. if n \<le> largest + 1 then Some (- int n) else None))
          else map_option int (parse_unsigned largest s)
      | [] \<Rightarrow> None)"

definition str_u8 :: "string \<Rightarrow> u8 option" where
  "str_u8 s = map_option of_nat (parse_unsigned 255 s)"

definition str_u32 :: "string \<Rightarrow> u32 option" where
  "str_u32 s = map_option of_nat (parse_unsigned 4294967295 s)"

definition str_i16 :: "string \<Rightarrow> i16 option" where
  "str_i16 s = map_option of_int (parse_signed 32767 s)"

definition parse_u32 :: "string option \<Rightarrow> u32 option" where
  "parse_u32 value = Option.bind value str_u32"

definition parse_i16 :: "string option \<Rightarrow> i16 option" where
  "parse_i16 value = Option.bind value str_i16"

definition parse_bool :: "string option \<Rightarrow> bool option" where
  "parse_bool value = Option.bind value (\<lambda>v.
     if v \<in> {''1'', ''true'', ''TRUE'', ''clear'', ''CLEAR'', ''on'', ''ON'', ''enable'', ''ENABLE''} then Some True
     else if v \<in> {''0'', ''false'', ''FALSE'', ''trip'', ''TRIP'', ''off'', ''OFF'', ''disable'', ''DISABLE''} then Some False
     else None)"

text \<open>\<open>parse_ipv4\<close>: four octets, nothing after them.\<close>

definition parse_ipv4 :: "string \<Rightarrow> (u8 \<times> u8 \<times> u8 \<times> u8) option" where
  "parse_ipv4 value =
     (case split_on (CHR ''.'') value of
        [a, b, c, d] \<Rightarrow>
          Option.bind (str_u8 a) (\<lambda>a. Option.bind (str_u8 b) (\<lambda>b. Option.bind (str_u8 c) (\<lambda>c.
            Option.bind (str_u8 d) (\<lambda>d. Some (a, b, c, d)))))
      | _ \<Rightarrow> None)"

section \<open>JSON fields\<close>

text \<open>The search of \<open>json_value\<close>: the first occurrence of the key between two quotes, tried from left to right
  without overlap; the result is what follows the closing quote.\<close>

function find_key :: "string \<Rightarrow> char option \<Rightarrow> string \<Rightarrow> string option" where
  "find_key key before s =
     (if key = [] \<or> s = [] then None
      else if take (length key) s = key then
        (let rest = drop (length key) s in
         if before = Some (CHR 0x22) \<and> rest \<noteq> [] \<and> hd rest = CHR 0x22 then Some (tl rest)
         else find_key key (Some (last key)) rest)
      else find_key key (Some (hd s)) (tl s))"
  by pat_completeness auto
termination by (relation "measure (\<lambda>(key, before, s). length s)") auto

declare find_key.simps [simp del]

definition json_value :: "string \<Rightarrow> string \<Rightarrow> string option" where
  "json_value body key =
     Option.bind (find_key key None body) (\<lambda>after_key.
       map_option trim_start (strip_prefix '':'' (trim_start after_key)))"

definition json_str :: "string \<Rightarrow> string \<Rightarrow> string option" where
  "json_str body key =
     Option.bind (json_value body key) (\<lambda>value. Option.bind (strip_prefix [CHR 0x22] value) (\<lambda>text.
       if CHR 0x22 \<in> set text then Some (takeWhile (\<lambda>c. c \<noteq> CHR 0x22) text) else None))"

definition json_scalar_terminated :: "string \<Rightarrow> bool" where
  "json_scalar_terminated rest \<longleftrightarrow>
     (case trim_start rest of [] \<Rightarrow> False | c # _ \<Rightarrow> c = CHR '','' \<or> c = CHR ''}'')"

definition numeric_char :: "char \<Rightarrow> bool" where
  "numeric_char c \<longleftrightarrow> c = CHR ''-'' \<or> digit_of c \<noteq> None"

definition json_i32 :: "string \<Rightarrow> string \<Rightarrow> int option" where
  "json_i32 body key =
     Option.bind (json_value body key) (\<lambda>value.
       if json_scalar_terminated (dropWhile numeric_char value)
       then parse_signed 2147483647 (takeWhile numeric_char value) else None)"

definition json_u32 :: "string \<Rightarrow> string \<Rightarrow> u32 option" where
  "json_u32 body key =
     Option.bind (json_i32 body key) (\<lambda>value. if 0 \<le> value then Some (of_int value) else None)"

definition json_i16 :: "string \<Rightarrow> string \<Rightarrow> i16 option" where
  "json_i16 body key =
     Option.bind (json_i32 body key) (\<lambda>value.
       if - 32768 \<le> value \<and> value \<le> 32767 then Some (of_int value) else None)"

definition json_bool :: "string \<Rightarrow> string \<Rightarrow> bool option" where
  "json_bool body key =
     Option.bind (json_value body key) (\<lambda>value.
       case strip_prefix ''true'' value of
         Some rest \<Rightarrow> if json_scalar_terminated rest then Some True else None
       | None \<Rightarrow>
           (case strip_prefix ''false'' value of
              Some rest \<Rightarrow> if json_scalar_terminated rest then Some False else None
            | None \<Rightarrow> None))"

section \<open>Enumerations\<close>

definition parse_safety_latch_kind :: "string \<Rightarrow> safety_latch_kind option" where
  "parse_safety_latch_kind kind =
     (if kind \<in> {''bump'', ''BUMP''} then Some LBump
      else if kind \<in> {''cliff'', ''CLIFF''} then Some LCliff
      else if kind \<in> {''wheel_drop'', ''WHEEL_DROP''} then Some LWheelDrop
      else if kind \<in> {''heartbeat'', ''HEARTBEAT''} then Some LHeartbeat
      else if kind \<in> {''tilt'', ''TILT''} then Some LTilt
      else if kind \<in> {''impact'', ''IMPACT''} then Some LImpact
      else if kind \<in> {''charging'', ''CHARGING''} then Some LCharging
      else None)"

definition parse_feedback_kind :: "string \<Rightarrow> feedback_kind option" where
  "parse_feedback_kind kind =
     (if kind \<in> {''ok'', ''OK''} then Some FOk
      else if kind \<in> {''error'', ''ERROR''} then Some FError
      else if kind \<in> {''armed'', ''ARMED''} then Some FArmed
      else if kind \<in> {''lost_target'', ''LOST_TARGET''} then Some FLostTarget
      else if kind \<in> {''dock_seen'', ''DOCK_SEEN''} then Some FDockSeen
      else if kind \<in> {''danger'', ''DANGER''} then Some FDanger
      else None)"

definition parse_power_request :: "string \<Rightarrow> power_state_request option" where
  "parse_power_request request =
     (if request \<in> {''wake'', ''WAKE''} then Some PWake
      else if request \<in> {''sleep'', ''SLEEP''} then Some PSleep
      else if request \<in> {''start_oi'', ''START_OI''} then Some PStartOi
      else if request \<in> {''debug_baud_19200'', ''DEBUG_BAUD_19200''} then Some PDebugBaud19200
      else if request \<in> {''debug_baud_57600'', ''DEBUG_BAUD_57600''} then Some PDebugBaud57600
      else if request \<in> {''debug_baud_115200'', ''DEBUG_BAUD_115200''} then Some PDebugBaud115200
      else None)"

definition parse_oi_mode :: "string \<Rightarrow> create_oi_mode option" where
  "parse_oi_mode mode =
     (if mode \<in> {''passive'', ''PASSIVE''} then Some Passive
      else if mode \<in> {''safe'', ''SAFE''} then Some Safe
      else if mode \<in> {''full'', ''FULL''} then Some Full
      else None)"

text \<open>\<open>parse_song_tones\<close>: pairs \<open>note:duration\<close> between commas, empty ones skipped, at most sixteen. The
  accumulator holds the tones read so far.\<close>

definition parse_tone :: "string \<Rightarrow> song_tone option" where
  "parse_tone pair =
     Option.bind (split_once (CHR '':'') pair) (\<lambda>(note, duration).
       Option.bind (str_u8 (trim note)) (\<lambda>n. Option.bind (str_u8 (trim duration)) (\<lambda>d.
         Some \<lparr>tone_note = n, duration_64ths = d\<rparr>)))"

fun read_tones :: "string list \<Rightarrow> song_tone list \<Rightarrow> song_tone list option" where
  "read_tones [] acc = Some acc"
| "read_tones (pair # pairs) acc =
     (if length acc \<ge> max_song_tones then None
      else if trim pair = [] then read_tones pairs acc
      else (case parse_tone (trim pair) of None \<Rightarrow> None | Some t \<Rightarrow> read_tones pairs (acc @ [t])))"

text \<open>The tones in their array of sixteen with their number.\<close>

definition tone_table :: "song_tone list \<Rightarrow> tones \<times> u8" where
  "tone_table ts = (ts @ replicate (max_song_tones - length ts) silent_tone, of_nat (length ts))"

definition parse_song_tones :: "string \<Rightarrow> (tones \<times> u8) option" where
  "parse_song_tones value =
     Option.bind (read_tones (split_on (CHR '','') value) []) (\<lambda>ts. if ts = [] then None else Some (tone_table ts))"

end
