(* ===== verification/Command_Text.thy ===== *)
theory Command_Text
  imports Text_Fields "HOL-Library.Monad_Syntax"
begin

text \<open>
  The two texts of a command: the JSON object of the web services (\<open>parse_command\<close> in
  \<open>arch/pico_w/json.rs\<close>) and the line of the forebrain's serial port (\<open>parse_forebrain_uart_command\<close> and
  \<open>compact_envelope\<close> in \<open>arch/pico_w/commands.rs\<close>).
\<close>

section \<open>JSON\<close>

text \<open>\<open>json_u32(body, key).or_else(|| json_u32(body, other))\<close> and \<open>json_u32(body, "seq").unwrap_or(command_id)\<close>.\<close>

definition json_u32_or :: "string \<Rightarrow> string \<Rightarrow> string \<Rightarrow> u32 option" where
  "json_u32_or body key other =
     (case json_u32 body key of Some v \<Rightarrow> Some v | None \<Rightarrow> json_u32 body other)"

definition or_default :: "'a \<Rightarrow> 'a option \<Rightarrow> 'a" where
  "or_default d v = (case v of Some x \<Rightarrow> x | None \<Rightarrow> d)"

definition unsupported_json_kinds :: "string list" where
  "unsupported_json_kinds =
     [''face_bearing'', ''track_bearing'', ''turn_by'', ''drive_for'', ''bump_escape'', ''hold_heading'',
      ''turn_to_heading'', ''arc_for'', ''creep_until'', ''scan_arc'', ''dock_align'', ''wall_follow'',
      ''wiggle_align'', ''unstick'', ''cliff_guard'', ''set_safety_policy'']"

definition parse_lights :: "u32 \<Rightarrow> u32 \<Rightarrow> u32 \<Rightarrow> brainstem_command option" where
  "parse_lights led_bits color intensity =
     (if led_bits > 0x0F \<or> color > 255 \<or> intensity > 255 then None
      else Some (BSetLights (ucast led_bits) (ucast color) (ucast intensity)))"

text \<open>The motions, then everything else.\<close>

definition parse_json_motion :: "string \<Rightarrow> string \<Rightarrow> u32 \<Rightarrow> brainstem_command option" where
  "parse_json_motion kind body seq =
     (let ttl = json_u32_or body ''ttl_ms'' ''duration_ms'' in
      if kind = ''cmd_vel'' then do {
        linear \<leftarrow> json_i16 body ''linear_mm_s''; angular \<leftarrow> json_i16 body ''angular_mrad_s''; t \<leftarrow> ttl;
        Some (BCmdVel linear angular t seq) }
      else if kind = ''drive_direct'' then do {
        left \<leftarrow> json_i16 body ''left_mm_s''; right \<leftarrow> json_i16 body ''right_mm_s''; t \<leftarrow> ttl;
        Some (BDriveDirect left right t seq) }
      else if kind = ''drive_arc'' then do {
        velocity \<leftarrow> json_i16 body ''velocity_mm_s''; radius \<leftarrow> json_i16 body ''radius_mm''; t \<leftarrow> ttl;
        Some (BDriveArc velocity radius t seq) }
      else if kind = ''escape_motion'' then do {
        hazard \<leftarrow> json_str body ''hazard''; latch \<leftarrow> parse_safety_latch_kind hazard;
        generation \<leftarrow> json_u32 body ''hazard_generation''; linear \<leftarrow> json_i16 body ''linear_mm_s'';
        angular \<leftarrow> json_i16 body ''angular_mrad_s''; t \<leftarrow> ttl;
        Some (BEscapeMotion latch generation linear angular t seq) }
      else if kind = ''calibrate_turn'' then do {
        angular \<leftarrow> json_i16 body ''angular_mrad_s''; duration \<leftarrow> json_u32 body ''duration_ms'';
        Some (BCalibrateTurn angular duration seq) }
      else if kind = ''orientation_probe'' then
        Some (BOrientationProbe (or_default 250 (json_i16 body ''angular_mrad_s''))
                (or_default 400 (json_u32 body ''duration_ms'')) seq)
      else None)"

definition json_motion_kinds :: "string list" where
  "json_motion_kinds =
     [''cmd_vel'', ''drive_direct'', ''drive_arc'', ''escape_motion'', ''calibrate_turn'', ''orientation_probe'']"

definition parse_json_safety :: "string \<Rightarrow> string \<Rightarrow> u32 \<Rightarrow> brainstem_command option" where
  "parse_json_safety kind body seq =
     (if kind = ''clear_safety_latch'' then do {
        latch \<leftarrow> json_str body ''latch''; k \<leftarrow> parse_safety_latch_kind latch; Some (BClearSafetyLatch k seq) }
      else if kind = ''careful_mode'' then
        map_option (\<lambda>t. BCarefulMode t seq) (json_u32_or body ''ttl_ms'' ''duration_ms'')
      else if kind = ''heartbeat_stop'' then
        map_option (\<lambda>t. BHeartbeatStop t seq) (json_u32_or body ''timeout_ms'' ''ttl_ms'')
      else if kind = ''clear_motion_queue'' then Some (BClearMotionQueue seq)
      else None)"

definition json_safety_kinds :: "string list" where
  "json_safety_kinds = [''clear_safety_latch'', ''careful_mode'', ''heartbeat_stop'', ''clear_motion_queue'']"

definition parse_json_body :: "platform \<Rightarrow> string \<Rightarrow> string \<Rightarrow> u32 \<Rightarrow> brainstem_command option" where
  "parse_json_body pf kind body seq =
     (if kind = ''set_mode'' then do { m \<leftarrow> json_str body ''mode''; mode \<leftarrow> parse_oi_mode m; Some (BSetMode mode) }
      else if kind = ''request_sensors'' then map_option (\<lambda>p. BRequestSensors (ucast p) seq) (json_u32 body ''packet_id'')
      else if kind = ''stream_sensors'' then
        Some (BStreamSensors (or_default True (json_bool body ''enabled''))
                (ucast (or_default (ucast (pf_sensor_probe_packet pf)) (json_u32 body ''packet_id'')))
                (or_default 250 (json_u32 body ''period_ms'')) seq)
      else if kind = ''define_chirp'' then do {
        text \<leftarrow> json_str body ''tones''; ts \<leftarrow> parse_song_tones text;
        f \<leftarrow> json_str body ''feedback''; feedback \<leftarrow> parse_feedback_kind f;
        Some (BDefineChirp feedback (fst ts) (snd ts) seq) }
      else if kind = ''play_feedback'' then do {
        f \<leftarrow> json_str body ''feedback''; feedback \<leftarrow> parse_feedback_kind f; Some (BPlayFeedback feedback seq) }
      else if kind = ''set_silent'' \<or> kind = ''set_audio_silent'' then
        map_option (\<lambda>silent. BSetAudioSilent silent seq) (json_bool body ''silent'')
      else if kind = ''power_state'' then do {
        r \<leftarrow> json_str body ''request''; request \<leftarrow> parse_power_request r; Some (BPowerState request seq) }
      else if kind = ''create_power_on'' then Some (BPowerState PWake seq)
      else if kind = ''create_power_off'' then Some (BPowerState PSleep seq)
      else if kind = ''reset_odometry'' then Some (BResetOdometry seq)
      else if kind = ''zero_imu_orientation'' then Some (BZeroImuOrientation seq)
      else if kind = ''clear_imu_orientation'' then Some (BClearImuOrientation seq)
      else if kind = ''get_events'' then map_option BGetEvents (json_u32 body ''since_seq'')
      else if kind = ''song_play'' then map_option (\<lambda>i. BSongPlay (ucast i)) (json_u32 body ''id'')
      else if kind = ''song_define'' then do {
        text \<leftarrow> json_str body ''tones''; ts \<leftarrow> parse_song_tones text; i \<leftarrow> json_u32 body ''id'';
        Some (BSongDefine (ucast i) (fst ts) (snd ts) seq) }
      else if kind = ''set_lights'' then do {
        led_bits \<leftarrow> json_u32 body ''led_bits''; color \<leftarrow> json_u32 body ''color'';
        intensity \<leftarrow> json_u32 body ''intensity''; parse_lights led_bits color intensity }
      else None)"

text \<open>The kinds without fields.\<close>

definition plain_json_kinds :: "(string \<times> brainstem_command) list" where
  "plain_json_kinds =
     [(''ping'', BPing), (''bootsel'', BBootsel), (''arm'', BArm), (''disarm'', BDisarm), (''stop'', BStop),
      (''estop'', BEStop), (''clear_estop'', BClearEStop), (''restart_create'', BRestartCreate),
      (''reset_motherbrain'', BResetMotherbrain), (''get_capabilities'', BGetCapabilities),
      (''status'', BStatus), (''dock'', BDock)]"

definition parse_command :: "platform \<Rightarrow> u32 \<Rightarrow> string \<Rightarrow> brainstem_command option" where
  "parse_command pf command_id body =
     do { kind \<leftarrow> json_str body ''kind'';
          let seq = or_default command_id (json_u32 body ''seq'') in
          case map_of plain_json_kinds kind of
            Some command \<Rightarrow> Some command
          | None \<Rightarrow>
              if kind \<in> set unsupported_json_kinds then Some (BUnsupported seq)
              else if kind \<in> set json_motion_kinds then parse_json_motion kind body seq
              else if kind \<in> set json_safety_kinds then parse_json_safety kind body seq
              else parse_json_body pf kind body seq }"

section \<open>Lines\<close>

text \<open>\<open>parts.next()\<close> read with a parser: the value and the words left; \<open>None\<close> is the error.\<close>

definition arg :: "(string \<Rightarrow> 'a option) \<Rightarrow> string list \<Rightarrow> ('a \<times> string list) option" where
  "arg parse ws = (case ws of [] \<Rightarrow> None | w # rest \<Rightarrow> map_option (\<lambda>v. (v, rest)) (parse w))"

definition str_bool :: "string \<Rightarrow> bool option" where
  "str_bool w = parse_bool (Some w)"

fun compact_tones :: "nat \<Rightarrow> string list \<Rightarrow> song_tone list \<Rightarrow> (song_tone list \<times> string list) option" where
  "compact_tones 0 ws acc = Some (acc, ws)"
| "compact_tones (Suc n) [] acc = Some (acc, [])"
| "compact_tones (Suc n) [note] acc = None"
| "compact_tones (Suc n) (note # duration # ws) acc =
     (case (str_u32 note, str_u32 duration) of
        (Some a, Some b) \<Rightarrow> compact_tones n ws (acc @ [\<lparr>tone_note = ucast a, duration_64ths = ucast b\<rparr>])
      | _ \<Rightarrow> None)"

definition read_compact_tones :: "string list \<Rightarrow> ((tones \<times> u8) \<times> string list) option" where
  "read_compact_tones ws =
     do { (ts, ws) \<leftarrow> compact_tones max_song_tones ws []; if ts = [] then None else Some (tone_table ts, ws) }"

definition unsupported_words :: "string list" where
  "unsupported_words =
     [''FACE_BEARING'', ''TRACK_BEARING'', ''TURN_BY'', ''DRIVE_FOR'', ''BUMP_ESCAPE'', ''HOLD_HEADING'',
      ''TURN_TO_HEADING'', ''ARC_FOR'', ''CREEP_UNTIL'', ''SCAN_ARC'', ''DOCK_ALIGN'', ''WALL_FOLLOW'',
      ''WIGGLE_ALIGN'', ''UNSTICK'', ''CLIFF_GUARD'', ''SET_SAFETY_POLICY'']"

definition plain_words :: "(string \<times> brainstem_command) list" where
  "plain_words =
     [(''PING'', BPing), (''BOOTSEL'', BBootsel), (''RESET_MOTHERBRAIN'', BResetMotherbrain), (''ARM'', BArm),
      (''DISARM'', BDisarm), (''STOP'', BStop), (''ESTOP'', BEStop), (''CLEAR_ESTOP'', BClearEStop),
      (''GET_CAPABILITIES'', BGetCapabilities), (''STATUS'', BStatus), (''DOCK'', BDock)]"

type_synonym parsed_words = "(brainstem_command \<times> string list) option"

definition parse_motion_words :: "string \<Rightarrow> u32 \<Rightarrow> string list \<Rightarrow> parsed_words" where
  "parse_motion_words kind seq ws =
     (if kind = ''CMD_VEL'' then do {
        (linear, ws) \<leftarrow> arg str_i16 ws; (angular, ws) \<leftarrow> arg str_i16 ws; (t, ws) \<leftarrow> arg str_u32 ws;
        Some (BCmdVel linear angular t seq, ws) }
      else if kind = ''DRIVE_DIRECT'' then do {
        (left, ws) \<leftarrow> arg str_i16 ws; (right, ws) \<leftarrow> arg str_i16 ws; (t, ws) \<leftarrow> arg str_u32 ws;
        Some (BDriveDirect left right t seq, ws) }
      else if kind = ''DRIVE_ARC'' then do {
        (velocity, ws) \<leftarrow> arg str_i16 ws; (radius, ws) \<leftarrow> arg str_i16 ws; (t, ws) \<leftarrow> arg str_u32 ws;
        Some (BDriveArc velocity radius t seq, ws) }
      else if kind = ''ESCAPE_MOTION'' then do {
        (latch, ws) \<leftarrow> arg parse_safety_latch_kind ws; (generation, ws) \<leftarrow> arg str_u32 ws;
        (linear, ws) \<leftarrow> arg str_i16 ws; (angular, ws) \<leftarrow> arg str_i16 ws; (t, ws) \<leftarrow> arg str_u32 ws;
        Some (BEscapeMotion latch generation linear angular t seq, ws) }
      else if kind = ''CALIBRATE_TURN'' then do {
        (angular, ws) \<leftarrow> arg str_i16 ws; (duration, ws) \<leftarrow> arg str_u32 ws;
        Some (BCalibrateTurn angular duration seq, ws) }
      else if kind = ''ORIENTATION_PROBE'' then do {
        (angular, ws) \<leftarrow> arg str_i16 ws; (duration, ws) \<leftarrow> arg str_u32 ws;
        Some (BOrientationProbe angular duration seq, ws) }
      else None)"

definition motion_words :: "string list" where
  "motion_words =
     [''CMD_VEL'', ''DRIVE_DIRECT'', ''DRIVE_ARC'', ''ESCAPE_MOTION'', ''CALIBRATE_TURN'', ''ORIENTATION_PROBE'']"

definition parse_field_words :: "string \<Rightarrow> u32 \<Rightarrow> string list \<Rightarrow> parsed_words" where
  "parse_field_words kind seq ws =
     (if kind = ''SET_MODE'' then do { (mode, ws) \<leftarrow> arg parse_oi_mode ws; Some (BSetMode mode, ws) }
      else if kind = ''CLEAR_SAFETY_LATCH'' then do {
        (latch, ws) \<leftarrow> arg parse_safety_latch_kind ws; Some (BClearSafetyLatch latch seq, ws) }
      else if kind = ''CAREFUL_MODE'' then do { (t, ws) \<leftarrow> arg str_u32 ws; Some (BCarefulMode t seq, ws) }
      else if kind = ''HEARTBEAT_STOP'' then do { (t, ws) \<leftarrow> arg str_u32 ws; Some (BHeartbeatStop t seq, ws) }
      else if kind = ''REQUEST_SENSORS'' then do {
        (p, ws) \<leftarrow> arg str_u32 ws; Some (BRequestSensors (ucast p) seq, ws) }
      else if kind = ''STREAM_SENSORS'' then do {
        (enabled, ws) \<leftarrow> arg str_bool ws; (p, ws) \<leftarrow> arg str_u32 ws; (period, ws) \<leftarrow> arg str_u32 ws;
        Some (BStreamSensors enabled (ucast p) period seq, ws) }
      else if kind = ''CLEAR_MOTION_QUEUE'' then Some (BClearMotionQueue seq, ws)
      else if kind = ''DEFINE_CHIRP'' then do {
        (feedback, ws) \<leftarrow> arg parse_feedback_kind ws; (ts, ws) \<leftarrow> read_compact_tones ws;
        Some (BDefineChirp feedback (fst ts) (snd ts) seq, ws) }
      else if kind = ''PLAY_FEEDBACK'' then do {
        (feedback, ws) \<leftarrow> arg parse_feedback_kind ws; Some (BPlayFeedback feedback seq, ws) }
      else if kind = ''SET_SILENT'' then do {
        (silent, ws) \<leftarrow> arg str_bool ws; Some (BSetAudioSilent silent seq, ws) }
      else if kind = ''POWER_STATE'' then do {
        (request, ws) \<leftarrow> arg parse_power_request ws; Some (BPowerState request seq, ws) }
      else if kind = ''CREATE_POWER_ON'' then Some (BPowerState PWake seq, ws)
      else if kind = ''CREATE_POWER_OFF'' then Some (BPowerState PSleep seq, ws)
      else if kind = ''RESET_ODOMETRY'' then Some (BResetOdometry seq, ws)
      else if kind = ''ZERO_IMU_ORIENTATION'' then Some (BZeroImuOrientation seq, ws)
      else if kind = ''CLEAR_IMU_ORIENTATION'' then Some (BClearImuOrientation seq, ws)
      else if kind = ''GET_EVENTS'' then do { (since, ws) \<leftarrow> arg str_u32 ws; Some (BGetEvents since, ws) }
      else if kind = ''SONG_PLAY'' then do { (i, ws) \<leftarrow> arg str_u32 ws; Some (BSongPlay (ucast i), ws) }
      else if kind = ''SONG_DEFINE'' then do {
        (i, ws) \<leftarrow> arg str_u32 ws; (ts, ws) \<leftarrow> read_compact_tones ws;
        Some (BSongDefine (ucast i) (fst ts) (snd ts) seq, ws) }
      else if kind = ''SET_LIGHTS'' then do {
        (led_bits, ws) \<leftarrow> arg str_u32 ws; (color, ws) \<leftarrow> arg str_u32 ws; (intensity, ws) \<leftarrow> arg str_u32 ws;
        command \<leftarrow> parse_lights led_bits color intensity; Some (command, ws) }
      else None)"

text \<open>\<open>Inl\<close> carries the sequence number the error line names.\<close>

definition parse_words :: "string \<Rightarrow> u32 \<Rightarrow> string list \<Rightarrow> parsed_words" where
  "parse_words kind seq ws =
     (case map_of plain_words kind of
        Some command \<Rightarrow> Some (command, ws)
      | None \<Rightarrow>
          if kind \<in> set unsupported_words then Some (BUnsupported seq, [])
          else if kind \<in> set motion_words then parse_motion_words kind seq ws
          else parse_field_words kind seq ws)"

definition parse_line_words :: "string list \<Rightarrow> u32 + u32 \<times> brainstem_command" where
  "parse_line_words line_words =
     (case line_words of
        [] \<Rightarrow> Inl 0
      | kind # ws \<Rightarrow>
          (case arg str_u32 ws of
             None \<Rightarrow> Inl 0
           | Some (seq, ws) \<Rightarrow>
               if seq = 0 then Inl 0
               else
                 (case parse_words kind seq ws of
                    Some (command, []) \<Rightarrow> Inr (seq, command)
                  | _ \<Rightarrow> Inl seq)))"

definition parse_forebrain_uart_command :: "string \<Rightarrow> u32 + u32 \<times> brainstem_command" where
  "parse_forebrain_uart_command line = parse_line_words (split_words line)"

text \<open>\<open>compact_envelope\<close>: the identifiers at the end of a line, each without spaces, from the right.\<close>

definition peel :: "string \<Rightarrow> string \<Rightarrow> string \<times> string option" where
  "peel marker line =
     (case rsplit_once marker line of
        Some (command, v) \<Rightarrow> if CHR '' '' \<in> set v then (line, None) else (command, Some v)
      | None \<Rightarrow> (line, None))"

record envelope =
  ev_command :: string
  ev_session :: "string option"
  ev_lease :: "string option"
  ev_service :: "string option"

definition compact_envelope :: "string \<Rightarrow> envelope" where
  "compact_envelope line =
     (case peel '' service_lease_id='' line of (without_service, service_lease) \<Rightarrow>
       (case peel '' lease_id='' without_service of (without_lease, lease) \<Rightarrow>
         (case peel '' session_id='' without_lease of (command, session) \<Rightarrow>
           \<lparr>ev_command = command, ev_session = session, ev_lease = lease, ev_service = service_lease\<rparr>)))"

definition compact_session :: "string \<Rightarrow> string \<times> string option" where
  "compact_session line = (ev_command (compact_envelope line), ev_session (compact_envelope line))"

end
