(* ===== verification/Admission.thy ===== *)
theory Admission
  imports Session Command_Text Network_Registry Authority
begin

text \<open>
  Admission of clients: the handshake (\<open>arch/pico_w/handshake.rs\<close>) and the requests for a control lease, a
  service lease and a network name (\<open>arch/pico_w/authority.rs\<close>). A handler that needs the runtime's
  acknowledgement polls for it, at most 250 times a millisecond apart; what the runtime does to the shared
  status between two polls is the parameter \<open>world\<close>, and \<open>clock k\<close> is the time after \<open>k\<close> waits. Answers
  are values that carry what the printed line or object names.
\<close>

section \<open>State\<close>

record lane_config =
  lc_platform :: platform
  lc_service_mode :: bool
  lc_operator_debug :: bool
  lc_recovery_forebrain :: "string option"
  lc_device_id :: string
  lc_boot_id :: string
  lc_instance_known :: bool

record admission =
  ad_status :: status
  ad_registry :: registry
  ad_cache :: session_cache
  ad_authority_generation :: u32
  ad_service_generation :: u32

text \<open>What a handler answers.\<close>

datatype answer =
    AnsError u32 string
  | AnsLease u32 string string string string u32 u32
  | AnsServiceLease u32 string string string string u32 u32
  | AnsRegistered u32 string u32 u32 u32
  | AnsWelcome string u16
  | AnsReject string handshake_reject_reason

section \<open>Waiting for the runtime\<close>

fun await_ack ::
  "nat \<Rightarrow> (status \<Rightarrow> bool) \<Rightarrow> (nat \<Rightarrow> status \<Rightarrow> status) \<Rightarrow> nat \<Rightarrow> status \<Rightarrow> status \<times> nat \<times> bool" where
  "await_ack 0 acked world k s = (s, k, False)"
| "await_ack (Suc n) acked world k s =
     (if acked s then (s, k, True) else await_ack n acked world (Suc k) (world k s))"

text \<open>The loop, and the check after it that two of the three handlers make.\<close>

definition await_then_check ::
  "(status \<Rightarrow> bool) \<Rightarrow> (nat \<Rightarrow> status \<Rightarrow> status) \<Rightarrow> status \<Rightarrow> status \<times> nat \<times> bool" where
  "await_then_check acked world s =
     (case await_ack 250 acked world 0 s of (s, k, b) \<Rightarrow> (s, k, acked s))"

section \<open>Policies\<close>

definition endpoint_role_of :: "u8 \<Rightarrow> endpoint_role option" where
  "endpoint_role_of role =
     (if role = 1 then Some RoleMotherbrain
      else if role = 2 then Some RoleForebrain
      else if role = 3 then Some RoleOperator
      else if role = 4 then Some RoleServiceTool
      else None)"

definition service_scope_code :: "string \<Rightarrow> u8 option" where
  "service_scope_code scope =
     (if scope = ''bootsel'' then Some 1
      else if scope = ''restart_create'' then Some 3
      else if scope = ''reset_motherbrain'' then Some 4
      else None)"

definition role_name :: "u8 \<Rightarrow> string" where
  "role_name role =
     (if role = 1 then ''motherbrain''
      else if role = 2 then ''forebrain''
      else if role = 3 then ''operator''
      else if role = 4 then ''service_tool''
      else ''unknown'')"

definition purpose_of :: "u8 \<Rightarrow> session_purpose" where
  "purpose_of code = (if code = 1 then PurposeControl else PurposeDiagnostic)"

definition requested_authority :: "string \<Rightarrow> control_authority option" where
  "requested_authority authority =
     (if authority = ''motherbrain'' then Some AuthorityMotherbrain
      else if authority = ''operator_debug'' then Some AuthorityOperatorDebug
      else if authority = ''forebrain_recovery'' then Some AuthorityForebrainRecovery
      else None)"

definition authority_policy_allows :: "lane_config \<Rightarrow> u32 \<Rightarrow> string \<Rightarrow> u32 \<Rightarrow> status \<Rightarrow> bool" where
  "authority_policy_allows cf session_hash authority now_ms s =
     (case session_identity_of session_hash s of
        None \<Rightarrow> False
      | Some ident \<Rightarrow>
          (case endpoint_role_of (si_role ident) of
             None \<Rightarrow> False
           | Some role \<Rightarrow>
               (case requested_authority authority of
                  None \<Rightarrow> False
                | Some requested \<Rightarrow>
                    if \<not> role_can_request_control role (purpose_of (si_purpose ident)) requested then False
                    else
                      (case requested of
                         AuthorityMotherbrain \<Rightarrow> True
                       | AuthorityOperatorDebug \<Rightarrow> lc_operator_debug cf
                       | AuthorityForebrainRecovery \<Rightarrow>
                           authority_expired now_ms s \<and>
                           (case lc_recovery_forebrain cf of
                              None \<Rightarrow> False
                            | Some device_id \<Rightarrow> session_peer_matches session_hash (token_hash device_id) s)))))"

definition service_transport :: "u8 \<Rightarrow> transport_kind option" where
  "service_transport code =
     (if code = transport_code TUsbCdc then Some TUsbCdc
      else if code = transport_code THardwareUart then Some THardwareUart
      else if code = transport_code THttp then Some THttp
      else if code = transport_code TWebSocket then Some TWebSocket
      else if code = transport_code TUdp then Some TUdp
      else None)"

definition service_policy_allows :: "lane_config \<Rightarrow> u32 \<Rightarrow> status \<Rightarrow> bool" where
  "service_policy_allows cf session_hash s =
     (if \<not> lc_service_mode cf then False
      else
        (case session_identity_of session_hash s of
           None \<Rightarrow> False
         | Some ident \<Rightarrow>
             (case endpoint_role_of (si_role ident) of
                None \<Rightarrow> False
              | Some role \<Rightarrow>
                  (case service_transport (si_transport ident) of
                     None \<Rightarrow> False
                   | Some transport \<Rightarrow>
                       role_can_request_service role (purpose_of (si_purpose ident)) transport))))"

section \<open>Granting\<close>

definition next_generation :: "u32 \<Rightarrow> u32" where
  "next_generation g = max (g + 1) 1"

definition install_authority ::
  "(nat \<Rightarrow> status \<Rightarrow> status) \<Rightarrow> u32 \<Rightarrow> u32 \<Rightarrow> u32 \<Rightarrow> admission \<Rightarrow> admission \<times> (string \<times> u32) option" where
  "install_authority world now_ms session_hash ttl_ms a =
     (let generation = next_generation (ad_authority_generation a);
          lease_id = ''lease-'' @ hex8 generation @ ''-'' @ hex8 session_hash;
          s = request_authority_transition generation (token_hash lease_id) session_hash (now_ms + ttl_ms)
                (ad_status a)
      in case await_ack 250 (authority_transition_acked generation) world 0 s of
           (s, k, acked) \<Rightarrow>
             (a\<lparr>ad_authority_generation := ad_authority_generation a + 1, ad_status := s\<rparr>,
              if acked then Some (lease_id, generation) else None))"

definition install_service_lease ::
  "(nat \<Rightarrow> status \<Rightarrow> status) \<Rightarrow> (nat \<Rightarrow> u32) \<Rightarrow> u32 \<Rightarrow> u32 \<Rightarrow> u8 \<Rightarrow> admission \<Rightarrow>
   admission \<times> (string \<times> u32) option" where
  "install_service_lease world clock session_hash ttl_ms scope a =
     (let barrier = next_generation (ad_authority_generation a);
          s = request_authority_transition barrier 0 0 0 (ad_status a);
          a = a\<lparr>ad_authority_generation := ad_authority_generation a + 1\<rparr>
      in case await_then_check (authority_transition_acked barrier) world s of
           (s, k, acked) \<Rightarrow>
             if \<not> acked then (a\<lparr>ad_status := s\<rparr>, None)
             else
               (let generation = next_generation (ad_service_generation a);
                    lease_id = ''service-'' @ hex8 generation @ ''-'' @ hex8 session_hash
                in (a\<lparr>ad_service_generation := ad_service_generation a + 1,
                      ad_status := install_service_authority session_hash (token_hash lease_id)
                        (clock k + ttl_ms) scope s\<rparr>,
                    Some (lease_id, generation))))"

section \<open>Requests on a line\<close>

definition word_or :: "string \<Rightarrow> nat \<Rightarrow> string list \<Rightarrow> string" where
  "word_or d i ws = (if i < length ws then ws ! i else d)"

definition number_or :: "u32 \<Rightarrow> nat \<Rightarrow> string list \<Rightarrow> u32" where
  "number_or d i ws = (if i < length ws then (case str_u32 (ws ! i) of None \<Rightarrow> d | Some v \<Rightarrow> v) else d)"

definition handle_authority_compact ::
  "lane_config \<Rightarrow> (nat \<Rightarrow> status \<Rightarrow> status) \<Rightarrow> u32 \<Rightarrow> string \<Rightarrow> admission \<Rightarrow> admission \<times> answer" where
  "handle_authority_compact cf world now_ms line a =
     (let fields = split_words (fst (compact_session line));
          seq = number_or 0 1 fields;
          authority = word_or [] 2 fields;
          ttl_ms = clamp_word 250 60000 (number_or 2000 3 fields)
      in case snd (compact_session line) of
           None \<Rightarrow> (a, AnsError seq ''invalid_session'')
         | Some session_id \<Rightarrow>
             (let session_hash = token_hash session_id in
              if word_or [] 0 fields \<noteq> ''ACQUIRE_CONTROL_LEASE'' \<or>
                 \<not> authority_policy_allows cf session_hash authority now_ms (ad_status a)
              then (a, AnsError seq ''authority_policy_rejected'')
              else
                (case install_authority world now_ms session_hash ttl_ms a of
                   (a, None) \<Rightarrow> (a, AnsError seq ''authority_transition_timeout'')
                 | (a, Some (lease_id, generation)) \<Rightarrow>
                     (a, AnsLease seq lease_id session_id
                           (role_name (case session_role session_hash (ad_status a) of None \<Rightarrow> 0 | Some r \<Rightarrow> r))
                           authority ttl_ms generation))))"

definition handle_service_authority_compact ::
  "lane_config \<Rightarrow> (nat \<Rightarrow> status \<Rightarrow> status) \<Rightarrow> (nat \<Rightarrow> u32) \<Rightarrow> string \<Rightarrow> admission \<Rightarrow> admission \<times> answer" where
  "handle_service_authority_compact cf world clock line a =
     (let fields = split_words (fst (compact_session line));
          seq = number_or 0 1 fields;
          scope = word_or [] 2 fields;
          ttl_ms = clamp_word 250 30000 (number_or 2000 3 fields)
      in case snd (compact_session line) of
           None \<Rightarrow> (a, AnsError seq ''invalid_session'')
         | Some session_id \<Rightarrow>
             (let session_hash = token_hash session_id in
              case service_scope_code scope of
                None \<Rightarrow> (a, AnsError seq ''service_scope_denied'')
              | Some scope_code \<Rightarrow>
                  if word_or [] 0 fields \<noteq> ''ACQUIRE_SERVICE_LEASE'' \<or>
                     \<not> service_policy_allows cf session_hash (ad_status a)
                  then (a, AnsError seq ''service_policy_rejected'')
                  else
                    (case install_service_lease world clock session_hash ttl_ms scope_code a of
                       (a, None) \<Rightarrow> (a, AnsError seq ''authority_transition_timeout'')
                     | (a, Some (lease_id, generation)) \<Rightarrow>
                         (a, AnsServiceLease seq lease_id session_id
                               (role_name (case session_role session_hash (ad_status a) of None \<Rightarrow> 0 | Some r \<Rightarrow> r))
                               scope ttl_ms generation))))"

definition compact_session_valid :: "string \<Rightarrow> status \<Rightarrow> bool" where
  "compact_session_valid session_id s \<longleftrightarrow> active_session_matches (token_hash session_id) s"

text \<open>An address is its four octets, most significant first.\<close>

definition ipv4_word :: "u8 \<times> u8 \<times> u8 \<times> u8 \<Rightarrow> u32" where
  "ipv4_word address =
     (case address of (a, b, c, d) \<Rightarrow>
        push_bit 24 (ucast a) OR push_bit 16 (ucast b) OR push_bit 8 (ucast c) OR ucast d)"

definition handle_network_registration_compact ::
  "u32 \<Rightarrow> string \<Rightarrow> admission \<Rightarrow> admission \<times> answer" where
  "handle_network_registration_compact now_ms line a =
     (let session = snd (compact_session line);
          fields = split_words (fst (compact_session line));
          seq = number_or 0 1 fields;
          ttl = number_or 60 6 fields;
          s = ad_status a
      in case (if 3 < length fields then parse_ipv4 (fields ! 3) else None) of
           None \<Rightarrow> (a, AnsError seq ''malformed_registration'')
         | Some address \<Rightarrow>
             if word_or [] 0 fields \<noteq> ''REGISTER_NETWORK_ENDPOINT'' \<or> word_or [] 4 fields \<noteq> ''motherbrain'' \<or>
                (case session of None \<Rightarrow> True | Some session_id \<Rightarrow> \<not> compact_session_valid session_id s)
             then (a, AnsError seq ''invalid_session_or_identity'')
             else
               (let session_id = (case session of None \<Rightarrow> [] | Some session_id \<Rightarrow> session_id) in
                if 5 < length fields then
                  (case session_identity_of (token_hash session_id) s of
                     None \<Rightarrow> (a, AnsError seq ''lease_mismatch'')
                   | Some peer \<Rightarrow>
                       if si_role peer \<noteq> 1 \<or> si_purpose peer \<noteq> 1 then (a, AnsError seq ''lease_mismatch'')
                       else
                         (case register_motherbrain (str_bytes (fields ! 5)) (ipv4_word address)
                                 (si_peer_device peer) (si_peer_boot peer) ttl now_ms (ad_registry a, s) of
                            ((r, s), None) \<Rightarrow>
                              (a\<lparr>ad_registry := r, ad_status := s\<rparr>, AnsError seq ''lease_mismatch'')
                          | ((r, s), Some (ttl, generation)) \<Rightarrow>
                              (a\<lparr>ad_registry := r, ad_status := s\<rparr>,
                               AnsRegistered seq session_id (ipv4_word address) ttl generation)))
                else (a, AnsError seq ''lease_mismatch'')))"

section \<open>Handshake\<close>

definition mark_session_rejected :: "u32 \<Rightarrow> status \<Rightarrow> status" where
  [status_defs]: "mark_session_rejected reason s = emit KSessionRejected reason 0 0 s"

definition reject_handshake ::
  "string \<Rightarrow> handshake_reject_reason \<Rightarrow> admission \<Rightarrow> admission \<times> answer option" where
  "reject_handshake nonce reason a =
     (a\<lparr>ad_status := mark_session_rejected (handshake_reject_code reason) (ad_status a)\<rparr>,
      Some (AnsReject nonce reason))"

definition diagnostic_role :: "endpoint_role \<Rightarrow> u8" where
  "diagnostic_role role =
     (case role of RoleMotherbrain \<Rightarrow> 1 | RoleForebrain \<Rightarrow> 2 | RoleOperator \<Rightarrow> 3 | RoleServiceTool \<Rightarrow> 4 | _ \<Rightarrow> 0)"

definition diagnostic_purpose :: "session_purpose \<Rightarrow> u8" where
  "diagnostic_purpose purpose = (case purpose of PurposeControl \<Rightarrow> 1 | PurposeDiagnostic \<Rightarrow> 2)"

definition wired_transport :: "u8 \<Rightarrow> bool" where
  "wired_transport transport \<longleftrightarrow> transport = transport_code THardwareUart \<or> transport = transport_code TUsbCdc"

text \<open>\<open>handle_handshake_json\<close> after the parse; \<open>None\<close> where the handler returns no answer.\<close>

definition handle_hello ::
  "lane_config \<Rightarrow> (nat \<Rightarrow> status \<Rightarrow> status) \<Rightarrow> hello + handshake_reject_reason \<Rightarrow> u8 \<Rightarrow> admission \<Rightarrow>
   admission \<times> answer option" where
  "handle_hello cf world parsed transport a =
     (case parsed of
        Inr reason \<Rightarrow> reject_handshake [] reason a
      | Inl h \<Rightarrow>
          if \<not> lc_instance_known cf then reject_handshake (he_nonce h) InvalidIdentity a
          else
            (case validate_hello h (lc_device_id cf) (lc_boot_id cf) (ad_cache a) of
               (c, Inl reason) \<Rightarrow> reject_handshake (he_nonce h) reason (a\<lparr>ad_cache := c\<rparr>)
             | (c, Inr accepted) \<Rightarrow>
                 (let a = a\<lparr>ad_cache := c\<rparr>;
                      session_hash = token_hash (ah_session_id accepted);
                      peer_hash = token_hash (he_device_id h);
                      boot_hash = token_hash (he_boot_id h);
                      welcome = AnsWelcome (ah_session_id accepted) (ah_negotiated_minor accepted)
                  in if he_role h = RoleMotherbrain \<and> he_purpose h = PurposeControl then
                       (if \<not> wired_transport transport \<and> \<not> active_peer_matches peer_hash (ad_status a)
                        then reject_handshake (he_nonce h) InvalidIdentity a
                        else
                          (case await_then_check (session_replace_acked (ah_generation accepted)) world
                                  (request_session_replace (ah_generation accepted) session_hash peer_hash
                                     boot_hash (ad_status a)) of
                             (s, k, acked) \<Rightarrow>
                               if \<not> acked then (a\<lparr>ad_status := s\<rparr>, None)
                               else (a\<lparr>ad_status := mark_transport_changed transport s\<rparr>, Some welcome)))
                     else
                       (a\<lparr>ad_status := register_diagnostic_session session_hash peer_hash boot_hash
                            (diagnostic_role (he_role h)) (diagnostic_purpose (he_purpose h)) transport
                            (ad_status a)\<rparr>,
                        Some welcome))))"

end
