(* ===== verification/Control_Lines.thy ===== *)
theory Control_Lines
  imports Admission Mailbox
begin

text \<open>
  The line protocol of the two serial ports: the forebrain's UART (\<open>handle_forebrain_uart_line\<close> and the byte
  loop of \<open>forebrain_uart_task\<close>) and the USB console (\<open>handle_compact_control_line\<close> and the byte loop of
  \<open>usb_cdc_task\<close>), from the bytes to the mailbox. Reading \<open>HELLO\<close> needs the JSON parser, the parameter
  \<open>read_hello\<close>; the texts of status, capabilities and events are values that name their request.
\<close>

section \<open>What a command needs\<close>

text \<open>\<open>if let BrainstemCommand::GetEvents { since_seq } = command\<close>\<close>

definition event_query :: "brainstem_command \<Rightarrow> u32 option" where
  "event_query c = (case c of BGetEvents since_seq \<Rightarrow> Some since_seq | _ \<Rightarrow> None)"

definition command_requires_session :: "brainstem_command \<Rightarrow> bool" where
  "command_requires_session c =
     (case c of BStatus \<Rightarrow> False | BPing \<Rightarrow> False | BGetCapabilities \<Rightarrow> False | BGetEvents _ \<Rightarrow> False
      | BStop \<Rightarrow> False | BEStop \<Rightarrow> False | BUnsupported _ \<Rightarrow> False | _ \<Rightarrow> True)"

definition command_requires_service_authority :: "brainstem_command \<Rightarrow> bool" where
  "command_requires_service_authority c =
     (case c of BBootsel \<Rightarrow> True | BRestartCreate \<Rightarrow> True | BResetMotherbrain \<Rightarrow> True | _ \<Rightarrow> False)"

definition command_requires_authority :: "brainstem_command \<Rightarrow> bool" where
  "command_requires_authority c \<longleftrightarrow>
     command_requires_session c \<and>
     \<not> (case c of BDisarm \<Rightarrow> True | BSetAudioSilent _ _ \<Rightarrow> True | _ \<Rightarrow> False) \<and>
     \<not> (case c of BRequestSensors _ _ \<Rightarrow> True | BStreamSensors _ _ _ _ \<Rightarrow> True | _ \<Rightarrow> False) \<and>
     \<not> command_requires_service_authority c"

definition compact_authority_valid ::
  "lane_config \<Rightarrow> u32 \<Rightarrow> brainstem_command \<Rightarrow> string option \<Rightarrow> string option \<Rightarrow> status \<Rightarrow> bool" where
  "compact_authority_valid cf now_ms c session_id lease_id s =
     (case (session_id, lease_id) of
        (Some session_id, Some lease) \<Rightarrow>
          (let session_hash = token_hash session_id; lease_hash = token_hash lease in
           if (case c of BCarefulMode _ _ \<Rightarrow> True | _ \<Rightarrow> False) \<and>
              (session_role session_hash s \<noteq> Some 3 \<or> \<not> lc_operator_debug cf)
           then False
           else if (case c of BHeartbeatStop _ _ \<Rightarrow> True | _ \<Rightarrow> False)
           then authority_heartbeat_valid session_hash lease_hash now_ms s
           else active_authority_matches session_hash lease_hash now_ms s)
      | _ \<Rightarrow> False)"

definition command_scope :: "brainstem_command \<Rightarrow> u8" where
  "command_scope c = (case c of BBootsel \<Rightarrow> 1 | BRestartCreate \<Rightarrow> 3 | BResetMotherbrain \<Rightarrow> 4 | _ \<Rightarrow> 0)"

definition compact_service_authority_valid ::
  "u32 \<Rightarrow> string option \<Rightarrow> string option \<Rightarrow> brainstem_command \<Rightarrow> status \<Rightarrow> bool" where
  "compact_service_authority_valid now_ms session_id lease_id c s =
     (case (session_id, lease_id) of
        (Some session_id, Some lease_id) \<Rightarrow>
          active_service_authority_matches (token_hash session_id) (token_hash lease_id) now_ms
            (command_scope c) s
      | _ \<Rightarrow> False)"

definition submit_compact_control_command ::
  "lane_config \<Rightarrow> u32 \<Rightarrow> brainstem_command \<Rightarrow> string option \<Rightarrow> string option \<Rightarrow> status \<Rightarrow> submission" where
  "submit_compact_control_command cf command_id c session_id service_lease_id s =
     (if command_requires_service_authority c then
        (case (session_id, service_lease_id) of
           (Some session_id, Some lease_id) \<Rightarrow>
             submit_control_command (lc_platform cf) command_id c (token_hash session_id) (token_hash lease_id) s
         | _ \<Rightarrow> fail RejUnsupported s)
      else submit_control_command (lc_platform cf) command_id c 0 0 s)"

text \<open>The three checks in the order both handlers make them: the reason of the first that fails.\<close>

definition refusal_reason ::
  "lane_config \<Rightarrow> u32 \<Rightarrow> brainstem_command \<Rightarrow> envelope \<Rightarrow> status \<Rightarrow> string option" where
  "refusal_reason cf now_ms c e s =
     (if command_requires_session c \<and>
         \<not> (case ev_session e of None \<Rightarrow> False | Some session_id \<Rightarrow> compact_session_valid session_id s)
      then Some ''invalid_session''
      else if command_requires_authority c \<and> \<not> compact_authority_valid cf now_ms c (ev_session e) (ev_lease e) s
      then Some ''invalid_control_lease''
      else if command_requires_service_authority c \<and>
              \<not> compact_service_authority_valid now_ms (ev_session e) (ev_service e) c s
      then Some ''invalid_service_lease''
      else None)"

section \<open>The forebrain's UART\<close>

datatype uart_error = UeNone | UeLineTooLong | UeUtf8 | UeParse | UeBusy | UeUart

text \<open>The counters \<open>FOREBRAIN_UART_*\<close>.\<close>

record uart_counters =
  uc_rx_bytes :: u32
  uc_last_rx_ms :: u32
  uc_rx_lines :: u32
  uc_last_seq :: u32
  uc_last_command_ms :: u32
  uc_last_error :: uart_error

record lane = admission +
  ln_uart :: uart_counters

datatype reply =
    RepOk u32
  | RepError u32 string
  | RepStatus u32
  | RepCapabilities u32
  | RepEvents u32 u32
  | RepAnswer answer
  | RepBootselAccepted u32

definition mark_forebrain_uart_rx_byte :: "u32 \<Rightarrow> lane \<Rightarrow> lane" where
  "mark_forebrain_uart_rx_byte uptime_ms l =
     l\<lparr>ln_uart := (ln_uart l)\<lparr>uc_rx_bytes := saturating_inc (uc_rx_bytes (ln_uart l)),
        uc_last_rx_ms := uptime_ms\<rparr>\<rparr>"

definition mark_forebrain_uart_command :: "u32 \<Rightarrow> u32 \<Rightarrow> lane \<Rightarrow> lane" where
  "mark_forebrain_uart_command seq uptime_ms l =
     l\<lparr>ln_uart := (ln_uart l)\<lparr>uc_rx_lines := saturating_inc (uc_rx_lines (ln_uart l)), uc_last_seq := seq,
        uc_last_command_ms := uptime_ms, uc_last_error := UeNone\<rparr>\<rparr>"

definition mark_forebrain_uart_error :: "uart_error \<Rightarrow> lane \<Rightarrow> lane" where
  "mark_forebrain_uart_error e l = l\<lparr>ln_uart := (ln_uart l)\<lparr>uc_last_error := e\<rparr>\<rparr>"

definition on_status :: "(status \<Rightarrow> status) \<Rightarrow> lane \<Rightarrow> lane" where
  "on_status f l = l\<lparr>ad_status := f (ad_status l)\<rparr>"

definition submit_forebrain_stop :: "lane_config \<Rightarrow> lane \<Rightarrow> lane" where
  "submit_forebrain_stop cf = on_status (\<lambda>s. fst (submit_control_command (lc_platform cf) 0 BStop 0 0 s))"

definition reject_text :: "command_reject_reason \<Rightarrow> string" where
  "reject_text reason =
     (case reason of
        RejBusy \<Rightarrow> ''busy''
      | RejCharging \<Rightarrow> ''charging_busy''
      | RejStaleSequence \<Rightarrow> ''stale_sequence''
      | RejUnsupported \<Rightarrow> ''unsupported''
      | RejHazardMismatch \<Rightarrow> ''hazard_mismatch''
      | RejEscapeEnvelope \<Rightarrow> ''escape_envelope''
      | RejAbsoluteHazard \<Rightarrow> ''absolute_hazard''
      | RejUnknown _ \<Rightarrow> ''unknown'')"

text \<open>A line that is a command, after the prefixes.\<close>

definition handle_uart_command :: "lane_config \<Rightarrow> u32 \<Rightarrow> string \<Rightarrow> lane \<Rightarrow> lane \<times> reply list" where
  "handle_uart_command cf now_ms line l =
     (let e = compact_envelope line in
      case parse_forebrain_uart_command (ev_command e) of
        Inl seq \<Rightarrow>
          (submit_forebrain_stop cf (mark_forebrain_uart_error UeParse l), [RepError seq ''parse''])
      | Inr (seq, c) \<Rightarrow>
          (let l = mark_forebrain_uart_command seq now_ms l; s = ad_status l in
           if c = BBootsel then
             (if \<not> compact_service_authority_valid now_ms (ev_session e) (ev_service e) c s
              then (l, [RepError seq ''service_authorization_required''])
              else (l, [RepError seq ''service_operation_disabled'']))
           else if c = BGetCapabilities then (l, [RepCapabilities seq])
           else
             (case event_query c of
                Some since_seq \<Rightarrow> (l, [RepEvents seq since_seq])
              | None \<Rightarrow>
                  (case refusal_reason cf now_ms c e s of
                     Some reason \<Rightarrow> (l, [RepError seq reason])
                   | None \<Rightarrow>
                       (case submit_compact_control_command cf seq c (ev_session e) (ev_service e) s of
                          (s, Some reason) \<Rightarrow>
                            (let l = mark_forebrain_uart_error UeBusy (l\<lparr>ad_status := s\<rparr>);
                                 l = (if is_velocity c then submit_forebrain_stop cf l else l)
                             in (l, [RepError seq (reject_text reason)]))
                        | (s, None) \<Rightarrow>
                            (l\<lparr>ad_status := s\<rparr>,
                             [if c = BStatus then RepStatus seq else RepOk seq]))))))"

text \<open>The admission handlers change the part of the state they share with the lanes.\<close>

definition on_admission :: "(admission \<Rightarrow> admission \<times> 'r) \<Rightarrow> lane \<Rightarrow> lane \<times> 'r" where
  "on_admission f l =
     (case f (admission.truncate l) of
        (a, r) \<Rightarrow>
          (l\<lparr>ad_status := ad_status a, ad_registry := ad_registry a, ad_cache := ad_cache a,
             ad_authority_generation := ad_authority_generation a,
             ad_service_generation := ad_service_generation a\<rparr>, r))"

record environment =
  en_world :: "nat \<Rightarrow> status \<Rightarrow> status"
  en_clock :: "nat \<Rightarrow> u32"
  en_read_hello :: "string \<Rightarrow> hello + handshake_reject_reason"

definition handle_forebrain_uart_text ::
  "lane_config \<Rightarrow> environment \<Rightarrow> string \<Rightarrow> lane \<Rightarrow> lane \<times> reply list" where
  "handle_forebrain_uart_text cf en line l =
     (case strip_prefix ''HELLO '' line of
        Some body \<Rightarrow>
          (case on_admission (handle_hello cf (en_world en) (en_read_hello en body) (transport_code THardwareUart)) l of
             (l, Some answer) \<Rightarrow> (l, [RepAnswer answer])
           | (l, None) \<Rightarrow> (l, [RepError 0 ''handshake'']))
      | None \<Rightarrow>
          if take 26 line = ''REGISTER_NETWORK_ENDPOINT '' then
            (case on_admission (handle_network_registration_compact (en_clock en 0) line) l of
               (l, answer) \<Rightarrow> (l, [RepAnswer answer]))
          else if take 22 line = ''ACQUIRE_CONTROL_LEASE '' then
            (case on_admission (handle_authority_compact cf (en_world en) (en_clock en 0) line) l of
               (l, answer) \<Rightarrow> (l, [RepAnswer answer]))
          else if take 22 line = ''ACQUIRE_SERVICE_LEASE '' then
            (case on_admission (handle_service_authority_compact cf (en_world en) (en_clock en) line) l of
               (l, answer) \<Rightarrow> (l, [RepAnswer answer]))
          else handle_uart_command cf (en_clock en 0) line l)"

text \<open>\<open>core::str::from_utf8\<close>: the well-formed byte sequences.\<close>

fun utf8_valid :: "u8 list \<Rightarrow> bool" where
  "utf8_valid [] \<longleftrightarrow> True"
| "utf8_valid (a # bs) \<longleftrightarrow>
     (let tail = (\<lambda>lo hi b. lo \<le> b \<and> b \<le> hi) in
      if a < 0x80 then utf8_valid bs
      else if 0xC2 \<le> a \<and> a \<le> 0xDF then
        (case bs of b # bs' \<Rightarrow> tail 0x80 0xBF b \<and> utf8_valid bs' | _ \<Rightarrow> False)
      else if 0xE0 \<le> a \<and> a \<le> 0xEF then
        (case bs of
           b # c # bs' \<Rightarrow>
             tail (if a = 0xE0 then 0xA0 else 0x80) (if a = 0xED then 0x9F else 0xBF) b \<and>
             tail 0x80 0xBF c \<and> utf8_valid bs'
         | _ \<Rightarrow> False)
      else if 0xF0 \<le> a \<and> a \<le> 0xF4 then
        (case bs of
           b # c # d # bs' \<Rightarrow>
             tail (if a = 0xF0 then 0x90 else 0x80) (if a = 0xF4 then 0x8F else 0xBF) b \<and>
             tail 0x80 0xBF c \<and> tail 0x80 0xBF d \<and> utf8_valid bs'
         | _ \<Rightarrow> False)
      else False)"

definition text_of :: "u8 list \<Rightarrow> string" where
  "text_of bytes = map (\<lambda>b. char_of (unat b)) bytes"

definition handle_forebrain_uart_line ::
  "lane_config \<Rightarrow> environment \<Rightarrow> u8 list \<Rightarrow> lane \<Rightarrow> lane \<times> reply list" where
  "handle_forebrain_uart_line cf en line l =
     (if line = [] then (l, [])
      else if \<not> utf8_valid line then
        (submit_forebrain_stop cf (mark_forebrain_uart_error UeUtf8 l), [RepError 0 ''utf8''])
      else handle_forebrain_uart_text cf en (text_of line) l)"

section \<open>The byte loop\<close>

definition forebrain_line_max :: nat where
  "forebrain_line_max = 1024"

datatype uart_read = ReadByte u8 | ReadWouldBlock | ReadError

record uart_task =
  ut_line :: "u8 list"
  ut_started_ms :: u32

definition idle_uart_task :: uart_task where
  "idle_uart_task = \<lparr>ut_line = [], ut_started_ms = 0\<rparr>"

text \<open>Dropping a line: the error is recorded, the robot stopped and the client told.\<close>

definition drop_line :: "lane_config \<Rightarrow> uart_error \<Rightarrow> string \<Rightarrow> lane \<Rightarrow> uart_task \<times> lane \<times> reply list" where
  "drop_line cf e reason l =
     (idle_uart_task, submit_forebrain_stop cf (mark_forebrain_uart_error e l), [RepError 0 reason])"

definition uart_task_step ::
  "lane_config \<Rightarrow> environment \<Rightarrow> uart_read \<Rightarrow> uart_task \<times> lane \<Rightarrow> uart_task \<times> lane \<times> reply list" where
  "uart_task_step cf en r st =
     (case st of (t, l) \<Rightarrow>
       (let now_ms = en_clock en 0 in
        case r of
          ReadByte byte \<Rightarrow>
            (let l = mark_forebrain_uart_rx_byte now_ms l;
                 t = (if ut_line t = [] then t\<lparr>ut_started_ms := now_ms\<rparr> else t)
             in if byte = 13 then (t, l, [])
                else if byte = 10 then
                  (case handle_forebrain_uart_line cf en (ut_line t) l of
                     (l, replies) \<Rightarrow> (idle_uart_task, l, replies))
                else if length (ut_line t) < forebrain_line_max
                then (t\<lparr>ut_line := ut_line t @ [byte]\<rparr>, l, [])
                else drop_line cf UeLineTooLong ''line_too_long'' l)
        | ReadWouldBlock \<Rightarrow>
            (if ut_line t \<noteq> [] \<and> now_ms - ut_started_ms t > 100
             then drop_line cf UeParse ''timeout'' l else (t, l, []))
        | ReadError \<Rightarrow> drop_line cf UeUart ''uart'' l))"

text \<open>Reads one after the other, each with what the rest of the firmware shows it.\<close>

fun uart_task_run ::
  "lane_config \<Rightarrow> (uart_read \<times> environment) list \<Rightarrow> uart_task \<times> lane \<Rightarrow> uart_task \<times> lane \<times> reply list" where
  "uart_task_run cf [] st = (case st of (t, l) \<Rightarrow> (t, l, []))"
| "uart_task_run cf ((r, en) # rs) st =
     (case uart_task_step cf en r st of
        (t, l, replies) \<Rightarrow>
          (case uart_task_run cf rs (t, l) of (t, l, later) \<Rightarrow> (t, l, replies @ later)))"

section \<open>The USB console\<close>

text \<open>\<open>None\<close> for the handshake that gives no answer; otherwise whether to reboot into the loader.\<close>

definition handle_compact_command ::
  "lane_config \<Rightarrow> u32 \<Rightarrow> string \<Rightarrow> lane \<Rightarrow> lane \<times> reply list \<times> bool option" where
  "handle_compact_command cf now_ms line l =
     (let e = compact_envelope line; s = ad_status l in
      case parse_forebrain_uart_command (ev_command e) of
        Inl seq \<Rightarrow> (l, [RepError seq ''parse''], Some False)
      | Inr (seq, c) \<Rightarrow>
          (if c = BStatus \<or> c = BPing then (l, [RepStatus seq], Some False)
           else if c = BGetCapabilities then (l, [RepCapabilities seq], Some False)
           else
             (case event_query c of
                Some since_seq \<Rightarrow> (l, [RepEvents seq since_seq], Some False)
              | None \<Rightarrow>
                  if c = BBootsel then
                    (if compact_service_authority_valid now_ms (ev_session e) (ev_service e) c s \<and>
                        lc_service_mode cf
                     then (l, [RepBootselAccepted seq], Some True)
                     else (l, [RepError seq (if lc_service_mode cf then ''service_authorization_required''
                                             else ''service_operation_disabled'')], Some False))
                  else
                    (case refusal_reason cf now_ms c e s of
                       Some reason \<Rightarrow> (l, [RepError seq reason], Some False)
                     | None \<Rightarrow>
                         (case submit_compact_control_command cf seq c (ev_session e) (ev_service e) s of
                            (s, Some reason) \<Rightarrow>
                              (l\<lparr>ad_status := s\<rparr>, [RepError seq (reject_text reason)], Some False)
                          | (s, None) \<Rightarrow> (l\<lparr>ad_status := s\<rparr>, [RepOk seq], Some False))))))"

definition handle_compact_control_line ::
  "lane_config \<Rightarrow> environment \<Rightarrow> u8 \<Rightarrow> string \<Rightarrow> lane \<Rightarrow> lane \<times> reply list \<times> bool option" where
  "handle_compact_control_line cf en transport line l =
     (case strip_prefix ''HELLO '' line of
        Some body \<Rightarrow>
          (case on_admission (handle_hello cf (en_world en) (en_read_hello en body) transport) l of
             (l, Some answer) \<Rightarrow> (l, [RepAnswer answer], Some False)
           | (l, None) \<Rightarrow> (l, [], None))
      | None \<Rightarrow>
          if take 26 line = ''REGISTER_NETWORK_ENDPOINT '' then
            (case on_admission (handle_network_registration_compact (en_clock en 0) line) l of
               (l, answer) \<Rightarrow> (l, [RepAnswer answer], Some False))
          else if take 22 line = ''ACQUIRE_CONTROL_LEASE '' then
            (case on_admission (handle_authority_compact cf (en_world en) (en_clock en 0) line) l of
               (l, answer) \<Rightarrow> (l, [RepAnswer answer], Some False))
          else if take 22 line = ''ACQUIRE_SERVICE_LEASE '' then
            (case on_admission (handle_service_authority_compact cf (en_world en) (en_clock en) line) l of
               (l, answer) \<Rightarrow> (l, [RepAnswer answer], Some False))
          else handle_compact_command cf (en_clock en 0) line l)"

text \<open>The bytes of a packet: the line so far, the lane, the replies and whether the device reboots.\<close>

fun usb_bytes ::
  "lane_config \<Rightarrow> environment \<Rightarrow> u8 list \<Rightarrow> u8 list \<times> lane \<Rightarrow> u8 list \<times> lane \<times> reply list \<times> bool" where
  "usb_bytes cf en [] (line, l) = (line, l, [], False)"
| "usb_bytes cf en (byte # bytes) (line, l) =
     (if byte = 13 then usb_bytes cf en bytes (line, l)
      else if byte = 10 then
        (if utf8_valid line then
           (case handle_compact_control_line cf en (transport_code TUsbCdc) (text_of line) l of
              (l, replies, boot) \<Rightarrow>
                if boot = Some True then ([], l, replies, True)
                else
                  (case usb_bytes cf en bytes ([], l) of
                     (line, l, later, reboot) \<Rightarrow> (line, l, replies @ later, reboot)))
         else usb_bytes cf en bytes ([], l))
      else if length line < forebrain_line_max then usb_bytes cf en bytes (line @ [byte], l)
      else
        (case usb_bytes cf en bytes ([], l) of
           (line, l, later, reboot) \<Rightarrow> (line, l, RepError 0 ''line_too_long'' # later, reboot)))"

end
