(* ===== verification/Cockpit_Request.thy ===== *)
theory Cockpit_Request
  imports Commands Protocol
begin

text \<open>
  The client's side of the command vocabulary, from \<open>pete-cockpit\<close>: the requests of
  \<open>cockpit/wire.rs\<close> with their authorization classes, verbs and durations, and the contract of
  \<open>cockpit/contract.rs\<close> that checks and clamps a request against the limits a brainstem advertises.
  The enumerations \<open>CreateOiMode\<close>, \<open>SafetyLatchKind\<close>, \<open>FeedbackKind\<close> and \<open>PowerStateRequest\<close> and the
  record \<open>SongTone\<close> have the constructors and fields of the firmware's and share its types here.
\<close>

section \<open>Requests\<close>

datatype escape_direction = DirLeft | DirRight | DirEither

datatype safety_action = ActNone | ActStop | ActBackoff | ActBumpEscape

record safety_policy =
  sp_bump :: safety_action
  sp_cliff :: safety_action
  sp_wheel_drop_latch :: bool

datatype light_pattern = LightOff | LightStatus | LightClean | LightDock | LightSpot | LightMax

datatype address_family = Ipv4 | Ipv6

record register_network_endpoint =
  ne_interface_id :: string
  ne_address_family :: address_family
  ne_address :: string
  ne_hostname :: string
  ne_lease_identity :: string
  ne_ttl_seconds :: u32

text \<open>Arguments in the order of the fields.\<close>

datatype (plugins only: code) cockpit_request =
    QPing | QBootsel | QRestartCreate | QResetMotherbrain | QGetStatus | QGetCapabilities
  | QGetEvents u32
  | QRegisterNetworkEndpoint register_network_endpoint
  | QAcquireControlLease control_authority u32
  | QAcquireServiceLease service_scope u32
  | QArm | QDisarm | QStop | QEStop | QClearEStop
  | QClearSafetyLatch safety_latch_kind
  | QCarefulMode u32
  | QEscapeMotion safety_latch_kind u32 i16 i16 u32
  | QCmdVel i16 i16 u32
  | QDriveDirect i16 i16 u32
  | QDriveArc i16 i16 u32
  | QFaceBearing i16 i16 i16 u32
  | QTrackBearing i16 u16 i16 i16 u16 u32
  | QTurnBy i16 i16 u32
  | QDriveFor i16 i16 u32
  | QBumpEscape escape_direction i16 i16
  | QHoldHeading i16 i16 i16 u32
  | QTurnToHeading i16 i16 i16 u32
  | QArcFor i16 i16 u32
  | QCreepUntil i16 i16 u32
  | QScanArc i16 i16 u32
  | QDockAlign i16 u16 i16 i16 u16 u32
  | QWallFollow i16 i16 i16 u32
  | QWiggleAlign i16 i16 u8
  | QUnstick escape_direction i16 i16
  | QCliffGuard bool
  | QHeartbeatStop u32
  | QRequestSensors u8
  | QStreamSensors bool u8 u32
  | QSetSafetyPolicy safety_policy
  | QClearMotionQueue
  | QDefineChirp feedback_kind "song_tone list"
  | QPlayFeedback feedback_kind
  | QSetAudioSilent bool
  | QPowerState power_state_request
  | QCreatePowerOn | QCreatePowerOff
  | QCalibrateTurn i16 u32
  | QOrientationProbe i16 u32
  | QResetOdometry | QZeroImuOrientation | QClearImuOrientation
  | QSetMode create_oi_mode
  | QSongDefine u8 "song_tone list"
  | QSongPlay u8
  | QDock
  | QSetLights light_pattern

section \<open>Authorization\<close>

definition required_service_scope :: "cockpit_request \<Rightarrow> service_scope option" where
  "required_service_scope r =
     (case r of QBootsel \<Rightarrow> Some ScopeBootsel
      | QRestartCreate \<Rightarrow> Some ScopeRestartCreate
      | QResetMotherbrain \<Rightarrow> Some ScopeResetMotherbrain
      | _ \<Rightarrow> None)"

definition requires_operator_debug :: "cockpit_request \<Rightarrow> bool" where
  "requires_operator_debug r = (case r of QCarefulMode _ \<Rightarrow> True | _ \<Rightarrow> False)"

definition authorization_class_of :: "cockpit_request \<Rightarrow> authorization_class" where
  "authorization_class_of r =
     (case r of
        QPing \<Rightarrow> AuthReadOnly | QGetStatus \<Rightarrow> AuthReadOnly | QGetCapabilities \<Rightarrow> AuthReadOnly
      | QGetEvents _ \<Rightarrow> AuthReadOnly
      | QStop \<Rightarrow> AuthEmergency | QEStop \<Rightarrow> AuthEmergency
      | QRegisterNetworkEndpoint _ \<Rightarrow> AuthSession
      | QAcquireControlLease _ _ \<Rightarrow> AuthSession
      | QAcquireServiceLease _ _ \<Rightarrow> AuthSession
      | QRequestSensors _ \<Rightarrow> AuthSession
      | QStreamSensors _ _ _ \<Rightarrow> AuthSession
      | QSetAudioSilent _ \<Rightarrow> AuthSession
      | QDisarm \<Rightarrow> AuthSession
      | QBootsel \<Rightarrow> AuthServiceLease | QRestartCreate \<Rightarrow> AuthServiceLease
      | QResetMotherbrain \<Rightarrow> AuthServiceLease
      | _ \<Rightarrow> AuthControlLease)"

definition requires_session :: "cockpit_request \<Rightarrow> bool" where
  "requires_session r \<longleftrightarrow> authorization_class_of r \<noteq> AuthReadOnly \<and> authorization_class_of r \<noteq> AuthEmergency"

definition requires_control_authority :: "cockpit_request \<Rightarrow> bool" where
  "requires_control_authority r \<longleftrightarrow> authorization_class_of r = AuthControlLease"

definition bypasses_closed_motor_gate :: "cockpit_request \<Rightarrow> bool" where
  "bypasses_closed_motor_gate r =
     (case r of
        QStop \<Rightarrow> True | QEStop \<Rightarrow> True | QClearEStop \<Rightarrow> True
      | QClearSafetyLatch _ \<Rightarrow> True
      | QCarefulMode _ \<Rightarrow> True
      | QEscapeMotion _ _ _ _ _ \<Rightarrow> True
      | QBumpEscape _ _ _ \<Rightarrow> True
      | QUnstick _ _ _ \<Rightarrow> True
      | QCliffGuard _ \<Rightarrow> True
      | QOrientationProbe _ _ \<Rightarrow> True
      | QZeroImuOrientation \<Rightarrow> True | QClearImuOrientation \<Rightarrow> True
      | _ \<Rightarrow> False)"

text \<open>The conveniences firmware no longer implements (\<open>simulator.rs\<close>).\<close>

definition removed_convenience :: "cockpit_request \<Rightarrow> bool" where
  "removed_convenience r =
     (case r of
        QFaceBearing _ _ _ _ \<Rightarrow> True
      | QTrackBearing _ _ _ _ _ _ \<Rightarrow> True
      | QTurnBy _ _ _ \<Rightarrow> True
      | QDriveFor _ _ _ \<Rightarrow> True
      | QBumpEscape _ _ _ \<Rightarrow> True
      | QHoldHeading _ _ _ _ \<Rightarrow> True
      | QTurnToHeading _ _ _ _ \<Rightarrow> True
      | QArcFor _ _ _ \<Rightarrow> True
      | QCreepUntil _ _ _ \<Rightarrow> True
      | QScanArc _ _ _ \<Rightarrow> True
      | QDockAlign _ _ _ _ _ _ \<Rightarrow> True
      | QWallFollow _ _ _ _ \<Rightarrow> True
      | QWiggleAlign _ _ _ \<Rightarrow> True
      | QUnstick _ _ _ \<Rightarrow> True
      | QCliffGuard _ \<Rightarrow> True
      | QSetSafetyPolicy _ \<Rightarrow> True
      | _ \<Rightarrow> False)"

section \<open>Verbs\<close>

primrec verb :: "cockpit_request \<Rightarrow> string" where
  "verb QPing = ''ping''"
| "verb QBootsel = ''bootsel''"
| "verb QRestartCreate = ''restart_create''"
| "verb QResetMotherbrain = ''reset_motherbrain''"
| "verb QGetStatus = ''status''"
| "verb QGetCapabilities = ''get_capabilities''"
| "verb (QGetEvents _) = ''get_events''"
| "verb (QRegisterNetworkEndpoint _) = ''register_network_endpoint''"
| "verb (QAcquireControlLease _ _) = ''acquire_control_lease''"
| "verb (QAcquireServiceLease _ _) = ''acquire_service_lease''"
| "verb QArm = ''arm''"
| "verb QDisarm = ''disarm''"
| "verb QStop = ''stop''"
| "verb QEStop = ''estop''"
| "verb QClearEStop = ''clear_estop''"
| "verb (QClearSafetyLatch _) = ''clear_safety_latch''"
| "verb (QCarefulMode _) = ''careful_mode''"
| "verb (QEscapeMotion _ _ _ _ _) = ''escape_motion''"
| "verb (QCmdVel _ _ _) = ''cmd_vel''"
| "verb (QDriveDirect _ _ _) = ''drive_direct''"
| "verb (QDriveArc _ _ _) = ''drive_arc''"
| "verb (QFaceBearing _ _ _ _) = ''face_bearing''"
| "verb (QTrackBearing _ _ _ _ _ _) = ''track_bearing''"
| "verb (QTurnBy _ _ _) = ''turn_by''"
| "verb (QDriveFor _ _ _) = ''drive_for''"
| "verb (QBumpEscape _ _ _) = ''bump_escape''"
| "verb (QHoldHeading _ _ _ _) = ''hold_heading''"
| "verb (QTurnToHeading _ _ _ _) = ''turn_to_heading''"
| "verb (QArcFor _ _ _) = ''arc_for''"
| "verb (QCreepUntil _ _ _) = ''creep_until''"
| "verb (QScanArc _ _ _) = ''scan_arc''"
| "verb (QDockAlign _ _ _ _ _ _) = ''dock_align''"
| "verb (QWallFollow _ _ _ _) = ''wall_follow''"
| "verb (QWiggleAlign _ _ _) = ''wiggle_align''"
| "verb (QUnstick _ _ _) = ''unstick''"
| "verb (QCliffGuard _) = ''cliff_guard''"
| "verb (QHeartbeatStop _) = ''heartbeat_stop''"
| "verb (QRequestSensors _) = ''request_sensors''"
| "verb (QStreamSensors _ _ _) = ''stream_sensors''"
| "verb (QSetSafetyPolicy _) = ''set_safety_policy''"
| "verb QClearMotionQueue = ''clear_motion_queue''"
| "verb (QDefineChirp _ _) = ''define_chirp''"
| "verb (QPlayFeedback _) = ''play_feedback''"
| "verb (QSetAudioSilent _) = ''set_silent''"
| "verb (QPowerState _) = ''power_state''"
| "verb QCreatePowerOn = ''create_power_on''"
| "verb QCreatePowerOff = ''create_power_off''"
| "verb (QCalibrateTurn _ _) = ''calibrate_turn''"
| "verb (QOrientationProbe _ _) = ''orientation_probe''"
| "verb QResetOdometry = ''reset_odometry''"
| "verb QZeroImuOrientation = ''zero_imu_orientation''"
| "verb QClearImuOrientation = ''clear_imu_orientation''"
| "verb (QSetMode _) = ''set_mode''"
| "verb (QSongDefine _ _) = ''song_define''"
| "verb (QSongPlay _) = ''song_play''"
| "verb QDock = ''dock''"
| "verb (QSetLights _) = ''set_lights''"

definition required_capability :: "cockpit_request \<Rightarrow> string option" where
  "required_capability r =
     (case r of
        QBootsel \<Rightarrow> None
      | QRegisterNetworkEndpoint _ \<Rightarrow> None
      | QAcquireControlLease _ _ \<Rightarrow> None
      | QAcquireServiceLease _ _ \<Rightarrow> None
      | other \<Rightarrow> Some (verb other))"

definition sample_cockpit_capability_verbs :: "string list" where
  "sample_cockpit_capability_verbs =
     [''ping'', ''status'', ''get_capabilities'', ''get_events'', ''bootsel'', ''restart_create'',
      ''reset_motherbrain'', ''arm'', ''disarm'', ''stop'', ''estop'', ''clear_estop'',
      ''clear_safety_latch'', ''careful_mode'', ''escape_motion'', ''clear_motion_queue'', ''cmd_vel'',
      ''drive_direct'', ''drive_arc'', ''heartbeat_stop'', ''request_sensors'', ''stream_sensors'',
      ''song_define'', ''song_play'', ''define_chirp'', ''play_feedback'', ''set_silent'',
      ''power_state'', ''create_power_on'', ''create_power_off'', ''calibrate_turn'',
      ''orientation_probe'', ''reset_odometry'', ''zero_imu_orientation'', ''clear_imu_orientation'',
      ''dock'', ''set_lights'', ''set_mode'']"

definition optional_cockpit_verbs :: "string list" where
  "optional_cockpit_verbs =
     [''bootsel'', ''reset_motherbrain'', ''careful_mode'', ''escape_motion'', ''set_silent'']"

definition legacy_brainstem_convenience_verbs :: "string list" where
  "legacy_brainstem_convenience_verbs =
     [''drive_for'', ''turn_by'', ''arc_for'', ''creep_until'', ''scan_arc'', ''face_bearing'',
      ''track_bearing'', ''hold_heading'', ''turn_to_heading'', ''dock_align'', ''wall_follow'',
      ''wiggle_align'', ''bump_escape'', ''unstick'', ''cliff_guard'', ''set_safety_policy'']"

definition tolerated_advertised_verbs :: "string list" where
  "tolerated_advertised_verbs = ''restart_mpu'' # legacy_brainstem_convenience_verbs"

definition ttl_or_timeout_ms :: "cockpit_request \<Rightarrow> u32 option" where
  "ttl_or_timeout_ms r =
     (case r of
        QCmdVel _ _ t \<Rightarrow> Some t
      | QDriveDirect _ _ t \<Rightarrow> Some t
      | QDriveArc _ _ t \<Rightarrow> Some t
      | QFaceBearing _ _ _ t \<Rightarrow> Some t
      | QTrackBearing _ _ _ _ _ t \<Rightarrow> Some t
      | QHoldHeading _ _ _ t \<Rightarrow> Some t
      | QDockAlign _ _ _ _ _ t \<Rightarrow> Some t
      | QWallFollow _ _ _ t \<Rightarrow> Some t
      | QTurnBy _ _ t \<Rightarrow> Some t
      | QDriveFor _ _ t \<Rightarrow> Some t
      | QCreepUntil _ _ t \<Rightarrow> Some t
      | QScanArc _ _ t \<Rightarrow> Some t
      | QTurnToHeading _ _ _ t \<Rightarrow> Some t
      | QArcFor _ _ t \<Rightarrow> Some t
      | QCalibrateTurn _ t \<Rightarrow> Some t
      | QOrientationProbe _ t \<Rightarrow> Some t
      | QHeartbeatStop t \<Rightarrow> Some t
      | QCarefulMode t \<Rightarrow> Some t
      | QEscapeMotion _ _ _ _ t \<Rightarrow> Some t
      | QStreamSensors _ _ t \<Rightarrow> Some t
      | _ \<Rightarrow> None)"

end
