(* ===== verification/Cockpit_Wire.thy ===== *)
theory Cockpit_Wire
  imports Cockpit_Request Command_Text
begin

text \<open>
  The client's encoder (\<open>to_compact_line\<close> and its envelopes in \<open>cockpit/wire.rs\<close>) beside the firmware's
  reader of the same lines (\<^const>\<open>parse_forebrain_uart_command\<close> and \<^const>\<open>compact_envelope\<close>). A formatted
  line is its words with one space between them, and a newline.
\<close>

section \<open>Printing\<close>

definition digit_char :: "nat \<Rightarrow> char" where
  "digit_char d = char_of (48 + d)"

fun show_nat :: "nat \<Rightarrow> string" where
  "show_nat n = (if n < 10 then [digit_char n] else show_nat (n div 10) @ [digit_char (n mod 10)])"

declare show_nat.simps [simp del]

definition show_unsigned :: "'a::len word \<Rightarrow> string" where
  "show_unsigned w = show_nat (unat w)"

definition show_signed :: "'a::len word \<Rightarrow> string" where
  "show_signed w = (if sint w < 0 then CHR ''-'' # show_nat (nat (- sint w)) else show_nat (nat (sint w)))"

definition show_bool :: "bool \<Rightarrow> string" where
  "show_bool b = (if b then ''true'' else ''false'')"

text \<open>The \<open>as_str\<close> of the enumerations in \<open>cockpit/contract.rs\<close>.\<close>

primrec oi_mode_str :: "create_oi_mode \<Rightarrow> string" where
  "oi_mode_str Passive = ''passive''"
| "oi_mode_str Safe = ''safe''"
| "oi_mode_str Full = ''full''"

primrec direction_str :: "escape_direction \<Rightarrow> string" where
  "direction_str DirLeft = ''left''"
| "direction_str DirRight = ''right''"
| "direction_str DirEither = ''either''"

primrec action_str :: "safety_action \<Rightarrow> string" where
  "action_str ActNone = ''none''"
| "action_str ActStop = ''stop''"
| "action_str ActBackoff = ''backoff''"
| "action_str ActBumpEscape = ''bump_escape''"

primrec latch_str :: "safety_latch_kind \<Rightarrow> string" where
  "latch_str LBump = ''bump''"
| "latch_str LCliff = ''cliff''"
| "latch_str LWheelDrop = ''wheel_drop''"
| "latch_str LHeartbeat = ''heartbeat''"
| "latch_str LTilt = ''tilt''"
| "latch_str LImpact = ''impact''"
| "latch_str LCharging = ''charging''"

primrec feedback_str :: "feedback_kind \<Rightarrow> string" where
  "feedback_str FOk = ''ok''"
| "feedback_str FError = ''error''"
| "feedback_str FArmed = ''armed''"
| "feedback_str FLostTarget = ''lost_target''"
| "feedback_str FDockSeen = ''dock_seen''"
| "feedback_str FDanger = ''danger''"

primrec power_str :: "power_state_request \<Rightarrow> string" where
  "power_str PWake = ''wake''"
| "power_str PSleep = ''sleep''"
| "power_str PStartOi = ''start_oi''"
| "power_str PDebugBaud19200 = ''debug_baud_19200''"
| "power_str PDebugBaud57600 = ''debug_baud_57600''"
| "power_str PDebugBaud115200 = ''debug_baud_115200''"

primrec light_str :: "light_pattern \<Rightarrow> string" where
  "light_str LightOff = ''off''"
| "light_str LightStatus = ''status''"
| "light_str LightClean = ''clean''"
| "light_str LightDock = ''dock''"
| "light_str LightSpot = ''spot''"
| "light_str LightMax = ''max''"

primrec authority_str :: "control_authority \<Rightarrow> string" where
  "authority_str AuthorityMotherbrain = ''motherbrain''"
| "authority_str AuthorityForebrainRecovery = ''forebrain_recovery''"
| "authority_str AuthorityOperatorDebug = ''operator_debug''"

primrec scope_str :: "service_scope \<Rightarrow> string" where
  "scope_str ScopeBootsel = ''bootsel''"
| "scope_str ScopeRestartCreate = ''restart_create''"
| "scope_str ScopeResetMotherbrain = ''reset_motherbrain''"

text \<open>\<open>compact_tones\<close> of \<open>possession/uart.rs\<close>: two words for each tone.\<close>

definition tone_words :: "song_tone list \<Rightarrow> string list" where
  "tone_words ts = concat (map (\<lambda>t. [show_unsigned (tone_note t), show_unsigned (duration_64ths t)]) ts)"

section \<open>Lines\<close>

text \<open>The first word and the words after the sequence number.\<close>

primrec line_word :: "cockpit_request \<Rightarrow> string" where
  "line_word QPing = ''PING''"
| "line_word QBootsel = ''BOOTSEL''"
| "line_word QRestartCreate = ''RESTART_CREATE''"
| "line_word QResetMotherbrain = ''RESET_MOTHERBRAIN''"
| "line_word QGetStatus = ''STATUS''"
| "line_word QGetCapabilities = ''GET_CAPABILITIES''"
| "line_word (QGetEvents _) = ''GET_EVENTS''"
| "line_word (QRegisterNetworkEndpoint _) = ''REGISTER_NETWORK_ENDPOINT''"
| "line_word (QAcquireControlLease _ _) = ''ACQUIRE_CONTROL_LEASE''"
| "line_word (QAcquireServiceLease _ _) = ''ACQUIRE_SERVICE_LEASE''"
| "line_word QArm = ''ARM''"
| "line_word QDisarm = ''DISARM''"
| "line_word QStop = ''STOP''"
| "line_word QEStop = ''ESTOP''"
| "line_word QClearEStop = ''CLEAR_ESTOP''"
| "line_word (QClearSafetyLatch _) = ''CLEAR_SAFETY_LATCH''"
| "line_word (QCarefulMode _) = ''CAREFUL_MODE''"
| "line_word (QEscapeMotion _ _ _ _ _) = ''ESCAPE_MOTION''"
| "line_word (QCmdVel _ _ _) = ''CMD_VEL''"
| "line_word (QDriveDirect _ _ _) = ''DRIVE_DIRECT''"
| "line_word (QDriveArc _ _ _) = ''DRIVE_ARC''"
| "line_word (QFaceBearing _ _ _ _) = ''FACE_BEARING''"
| "line_word (QTrackBearing _ _ _ _ _ _) = ''TRACK_BEARING''"
| "line_word (QTurnBy _ _ _) = ''TURN_BY''"
| "line_word (QDriveFor _ _ _) = ''DRIVE_FOR''"
| "line_word (QBumpEscape _ _ _) = ''BUMP_ESCAPE''"
| "line_word (QHoldHeading _ _ _ _) = ''HOLD_HEADING''"
| "line_word (QTurnToHeading _ _ _ _) = ''TURN_TO_HEADING''"
| "line_word (QArcFor _ _ _) = ''ARC_FOR''"
| "line_word (QCreepUntil _ _ _) = ''CREEP_UNTIL''"
| "line_word (QScanArc _ _ _) = ''SCAN_ARC''"
| "line_word (QDockAlign _ _ _ _ _ _) = ''DOCK_ALIGN''"
| "line_word (QWallFollow _ _ _ _) = ''WALL_FOLLOW''"
| "line_word (QWiggleAlign _ _ _) = ''WIGGLE_ALIGN''"
| "line_word (QUnstick _ _ _) = ''UNSTICK''"
| "line_word (QCliffGuard _) = ''CLIFF_GUARD''"
| "line_word (QHeartbeatStop _) = ''HEARTBEAT_STOP''"
| "line_word (QRequestSensors _) = ''REQUEST_SENSORS''"
| "line_word (QStreamSensors _ _ _) = ''STREAM_SENSORS''"
| "line_word (QSetSafetyPolicy _) = ''SET_SAFETY_POLICY''"
| "line_word QClearMotionQueue = ''CLEAR_MOTION_QUEUE''"
| "line_word (QDefineChirp _ _) = ''DEFINE_CHIRP''"
| "line_word (QPlayFeedback _) = ''PLAY_FEEDBACK''"
| "line_word (QSetAudioSilent _) = ''SET_SILENT''"
| "line_word (QPowerState _) = ''POWER_STATE''"
| "line_word QCreatePowerOn = ''CREATE_POWER_ON''"
| "line_word QCreatePowerOff = ''CREATE_POWER_OFF''"
| "line_word (QCalibrateTurn _ _) = ''CALIBRATE_TURN''"
| "line_word (QOrientationProbe _ _) = ''ORIENTATION_PROBE''"
| "line_word QResetOdometry = ''RESET_ODOMETRY''"
| "line_word QZeroImuOrientation = ''ZERO_IMU_ORIENTATION''"
| "line_word QClearImuOrientation = ''CLEAR_IMU_ORIENTATION''"
| "line_word (QSetMode _) = ''SET_MODE''"
| "line_word (QSongDefine _ _) = ''SONG_DEFINE''"
| "line_word (QSongPlay _) = ''SONG_PLAY''"
| "line_word QDock = ''DOCK''"
| "line_word (QSetLights _) = ''SET_LIGHTS''"

definition line_arguments :: "cockpit_request \<Rightarrow> string list" where
  "line_arguments r =
     (case r of
        QGetEvents since \<Rightarrow> [show_unsigned since]
      | QRegisterNetworkEndpoint e \<Rightarrow>
          [ne_interface_id e, ne_address e, ne_hostname e, ne_lease_identity e, show_unsigned (ne_ttl_seconds e)]
      | QAcquireControlLease authority ttl \<Rightarrow> [authority_str authority, show_unsigned ttl]
      | QAcquireServiceLease scope ttl \<Rightarrow> [scope_str scope, show_unsigned ttl]
      | QClearSafetyLatch latch \<Rightarrow> [latch_str latch]
      | QCarefulMode ttl \<Rightarrow> [show_unsigned ttl]
      | QEscapeMotion hazard generation linear angular ttl \<Rightarrow>
          [latch_str hazard, show_unsigned generation, show_signed linear, show_signed angular, show_unsigned ttl]
      | QCmdVel linear angular ttl \<Rightarrow> [show_signed linear, show_signed angular, show_unsigned ttl]
      | QDriveDirect left right ttl \<Rightarrow> [show_signed left, show_signed right, show_unsigned ttl]
      | QDriveArc velocity radius ttl \<Rightarrow> [show_signed velocity, show_signed radius, show_unsigned ttl]
      | QFaceBearing bearing angular tolerance ttl \<Rightarrow>
          [show_signed bearing, show_signed angular, show_signed tolerance, show_unsigned ttl]
      | QTrackBearing bearing away linear angular stop ttl \<Rightarrow>
          [show_signed bearing, show_unsigned away, show_signed linear, show_signed angular,
           show_unsigned stop, show_unsigned ttl]
      | QTurnBy angle angular timeout \<Rightarrow> [show_signed angle, show_signed angular, show_unsigned timeout]
      | QDriveFor distance velocity timeout \<Rightarrow>
          [show_signed distance, show_signed velocity, show_unsigned timeout]
      | QBumpEscape direction backoff turn \<Rightarrow> [direction_str direction, show_signed backoff, show_signed turn]
      | QHoldHeading heading velocity angular ttl \<Rightarrow>
          [show_signed heading, show_signed velocity, show_signed angular, show_unsigned ttl]
      | QTurnToHeading heading angular tolerance timeout \<Rightarrow>
          [show_signed heading, show_signed angular, show_signed tolerance, show_unsigned timeout]
      | QArcFor velocity radius duration \<Rightarrow>
          [show_signed velocity, show_signed radius, show_unsigned duration]
      | QCreepUntil velocity angular timeout \<Rightarrow>
          [show_signed velocity, show_signed angular, show_unsigned timeout]
      | QScanArc angle angular timeout \<Rightarrow> [show_signed angle, show_signed angular, show_unsigned timeout]
      | QDockAlign bearing away linear angular stop ttl \<Rightarrow>
          [show_signed bearing, show_unsigned away, show_signed linear, show_signed angular,
           show_unsigned stop, show_unsigned ttl]
      | QWallFollow distance velocity angular ttl \<Rightarrow>
          [show_signed distance, show_signed velocity, show_signed angular, show_unsigned ttl]
      | QWiggleAlign amplitude angular cycles \<Rightarrow>
          [show_signed amplitude, show_signed angular, show_unsigned cycles]
      | QUnstick direction backoff turn \<Rightarrow> [direction_str direction, show_signed backoff, show_signed turn]
      | QCliffGuard clear \<Rightarrow> [show_bool clear]
      | QHeartbeatStop timeout \<Rightarrow> [show_unsigned timeout]
      | QRequestSensors packet \<Rightarrow> [show_unsigned packet]
      | QStreamSensors enabled packet period \<Rightarrow>
          [show_bool enabled, show_unsigned packet, show_unsigned period]
      | QSetSafetyPolicy policy \<Rightarrow>
          [action_str (sp_bump policy), action_str (sp_cliff policy), show_bool (sp_wheel_drop_latch policy)]
      | QDefineChirp feedback tones \<Rightarrow> feedback_str feedback # tone_words tones
      | QPlayFeedback feedback \<Rightarrow> [feedback_str feedback]
      | QSetAudioSilent silent \<Rightarrow> [show_bool silent]
      | QPowerState request \<Rightarrow> [power_str request]
      | QCalibrateTurn angular duration \<Rightarrow> [show_signed angular, show_unsigned duration]
      | QOrientationProbe angular duration \<Rightarrow> [show_signed angular, show_unsigned duration]
      | QSetMode mode \<Rightarrow> [oi_mode_str mode]
      | QSongDefine i tones \<Rightarrow> show_unsigned i # tone_words tones
      | QSongPlay i \<Rightarrow> [show_unsigned i]
      | QSetLights pattern \<Rightarrow> [light_str pattern]
      | _ \<Rightarrow> [])"

fun join_words :: "string list \<Rightarrow> string" where
  "join_words [] = []"
| "join_words [w] = w"
| "join_words (w # ws) = w @ CHR '' '' # join_words ws"

definition compact_words :: "cockpit_request \<Rightarrow> u32 \<Rightarrow> string list" where
  "compact_words r seq = line_word r # show_unsigned seq # line_arguments r"

definition to_compact_line :: "cockpit_request \<Rightarrow> u32 \<Rightarrow> string" where
  "to_compact_line r seq = join_words (compact_words r seq) @ [CHR 0x0A]"

definition to_compact_line_with_session :: "cockpit_request \<Rightarrow> u32 \<Rightarrow> string \<Rightarrow> string" where
  "to_compact_line_with_session r seq session_id =
     butlast (to_compact_line r seq) @ '' session_id='' @ session_id @ [CHR 0x0A]"

definition to_compact_line_with_authority :: "cockpit_request \<Rightarrow> u32 \<Rightarrow> string \<Rightarrow> string \<Rightarrow> string" where
  "to_compact_line_with_authority r seq session_id lease_id =
     butlast (to_compact_line_with_session r seq session_id) @ '' lease_id='' @ lease_id @ [CHR 0x0A]"

definition to_compact_line_with_service_authority :: "cockpit_request \<Rightarrow> u32 \<Rightarrow> string \<Rightarrow> string \<Rightarrow> string" where
  "to_compact_line_with_service_authority r seq session_id lease_id =
     butlast (to_compact_line_with_session r seq session_id) @ '' service_lease_id='' @ lease_id @ [CHR 0x0A]"

end
