(* ===== verification/Wire_Rules.thy ===== *)
theory Wire_Rules
  imports Cockpit_Wire
begin

text \<open>
  What the client writes is what the firmware reads: numbers and enumerations survive printing and
  parsing, a line splits into the words it was joined from, and the envelope comes off as it was put on.
\<close>

section \<open>Words without blanks\<close>

text \<open>Printable, no blank and no equals sign: the words of a request.\<close>

definition plain_char :: "char \<Rightarrow> bool" where
  "plain_char c \<longleftrightarrow> \<not> is_ascii_whitespace c \<and> c \<noteq> CHR ''='' \<and> 32 < (of_char c :: nat) \<and> (of_char c :: nat) < 127"

definition plain_word :: "string \<Rightarrow> bool" where
  "plain_word w \<longleftrightarrow> w \<noteq> [] \<and> list_all plain_char w"

definition digit_text :: "string \<Rightarrow> bool" where
  "digit_text w \<longleftrightarrow> w \<noteq> [] \<and> list_all (\<lambda>c. digit_of c \<noteq> None) w"

lemma digit_of_char [simp]: "d < 10 \<Longrightarrow> digit_of (digit_char d) = Some d"
  by (simp add: digit_of_def digit_char_def)

lemma digit_not_blank: "digit_of c \<noteq> None \<Longrightarrow> plain_char c \<and> c \<noteq> CHR ''+'' \<and> c \<noteq> CHR ''-''"
  by (auto simp: digit_of_def plain_char_def is_ascii_whitespace_def Let_def split: if_splits)

lemma digit_text_plain_word: "digit_text w \<Longrightarrow> plain_word w"
  using digit_not_blank by (auto simp: digit_text_def plain_word_def list_all_iff)

lemma digit_text_show: "digit_text (show_nat n)"
proof (induction n rule: show_nat.induct)
  case (1 n)
  then show ?case
    by (subst show_nat.simps) (auto simp: digit_text_def)
qed

lemma parse_digits_append:
  "parse_digits a (xs @ ys) = Option.bind (parse_digits a xs) (\<lambda>b. parse_digits b ys)"
  by (induction xs arbitrary: a) (auto split: option.splits)

lemma parse_digits_show [simp]: "parse_digits 0 (show_nat n) = Some n"
proof (induction n rule: show_nat.induct)
  case (1 n)
  then show ?case
    by (subst show_nat.simps) (auto simp: parse_digits_append)
qed

lemma parse_unsigned_show: "n \<le> m \<Longrightarrow> parse_unsigned m (show_nat n) = Some n"
proof -
  assume "n \<le> m"
  obtain c cs where s: "show_nat n = c # cs" "digit_of c \<noteq> None"
    using digit_text_show [of n] by (cases "show_nat n") (auto simp: digit_text_def)
  then have "c \<noteq> CHR ''+''" using digit_not_blank by blast
  with \<open>n \<le> m\<close> s parse_digits_show [of n] show ?thesis
    by (simp add: parse_unsigned_def)
qed

lemma str_u32_show [simp]: "str_u32 (show_unsigned (w :: u32)) = Some w"
  using unsigned_less [where 'a = nat, of w] by (simp add: str_u32_def show_unsigned_def parse_unsigned_show)

lemma str_u32_show_u8 [simp]: "str_u32 (show_unsigned (w :: u8)) = Some (ucast w)"
proof -
  have "unat w < 256" using unsigned_less [where 'a = nat, of w] by simp
  then show ?thesis by (simp add: str_u32_def show_unsigned_def parse_unsigned_show unsigned_ucast_eq)
qed

lemma byte_through_u32 [simp]: "ucast (ucast (w :: u8) :: u32) = w"
  by (rule bit_word_eqI) (auto simp: bit_simps)

lemma str_i16_show [simp]: "str_i16 (show_signed (w :: i16)) = Some w"
proof -
  have r: "- 32768 \<le> sint w" "sint w < 32768"
    using sint_greater_eq [of w] sint_less [of w] by simp_all
  have d: "show_nat n \<noteq> []" "hd (show_nat n) \<noteq> CHR ''-''" for n
    using digit_text_show [of n] digit_not_blank
    by (cases "show_nat n"; force simp: digit_text_def)+
  show ?thesis
  proof (cases "sint w < 0")
    case True
    with r d [of "nat (- sint w)"] show ?thesis
      by (simp add: str_i16_def show_signed_def parse_signed_def)
  next
    case False
    have "parse_signed 32767 (show_nat n) = map_option int (parse_unsigned 32767 (show_nat n))" for n
      using d [of n] by (cases "show_nat n") (auto simp: parse_signed_def)
    then have "parse_signed 32767 (show_nat (nat (sint w))) = Some (sint w)"
      using r False by (simp add: parse_unsigned_show)
    with False show ?thesis by (simp add: str_i16_def show_signed_def)
  qed
qed

lemma parse_bool_show [simp]: "str_bool (show_bool b) = Some b"
  by (cases b) (simp_all add: str_bool_def parse_bool_def show_bool_def)

lemma parse_enums_show [simp]:
  "parse_safety_latch_kind (latch_str latch) = Some latch"
  "parse_feedback_kind (feedback_str feedback) = Some feedback"
  "parse_power_request (power_str req) = Some req"
  "parse_oi_mode (oi_mode_str mode) = Some mode"
     apply (cases latch; simp add: parse_safety_latch_kind_def)
    apply (cases feedback; simp add: parse_feedback_kind_def)
   apply (cases req; simp add: parse_power_request_def)
  apply (cases mode; simp add: parse_oi_mode_def)
  done

section \<open>Splitting a line\<close>

lemma split_on_append: "sep \<notin> set w \<Longrightarrow> split_on sep (w @ sep # rest) = w # split_on sep rest"
  by (induction w) auto

lemma split_on_word: "sep \<notin> set w \<Longrightarrow> split_on sep w = [w]"
  by (induction w) auto

definition blanked :: "string \<Rightarrow> string" where
  "blanked = map (\<lambda>c. if is_ascii_whitespace c then CHR '' '' else c)"

lemma blanked_word [simp]: "plain_word w \<Longrightarrow> blanked w = w"
  unfolding blanked_def plain_word_def by (rule map_idI) (auto simp: list_all_iff plain_char_def)

lemma plain_word_no_space: "plain_word w \<Longrightarrow> CHR '' '' \<notin> set w"
  by (auto simp: plain_word_def plain_char_def list_all_iff is_ascii_whitespace_def)

lemma blank_space [simp]: "is_ascii_whitespace (CHR '' '')" "is_ascii_whitespace (CHR 0x0A)"
  by (simp_all add: is_ascii_whitespace_def)

lemma split_words_word:
  assumes "plain_word w"
  shows "split_words (w @ CHR '' '' # s) = w # split_words s" "split_words w = [w]"
    "split_words (w @ [CHR 0x0A]) = [w]"
proof -
  have sp: "split_words s = filter (\<lambda>w. w \<noteq> []) (split_on (CHR '' '') (blanked s))" for s
    by (simp add: split_words_def blanked_def)
  have ne: "w \<noteq> []" "CHR '' '' \<notin> set w"
    using assms plain_word_no_space by (auto simp: plain_word_def)
  have bl: "blanked (w @ s) = w @ blanked s" "blanked (CHR '' '' # s) = CHR '' '' # blanked s"
    "blanked [CHR 0x0A] = [CHR '' '']" for s
    using blanked_word [OF assms] by (simp_all add: blanked_def)
  show "split_words (w @ CHR '' '' # s) = w # split_words s"
    using ne by (simp add: sp bl split_on_append)
  show "split_words w = [w]"
    using ne assms by (simp add: sp split_on_word)
  show "split_words (w @ [CHR 0x0A]) = [w]"
    using ne by (simp add: sp bl split_on_append)
qed

lemma split_join:
  "list_all plain_word ws \<Longrightarrow> ws \<noteq> [] \<Longrightarrow>
   split_words (join_words ws) = ws \<and> split_words (join_words ws @ [CHR 0x0A]) = ws"
  by (induction ws rule: join_words.induct) (auto simp: split_words_word)

section \<open>The words of a request\<close>

lemma plain_word_shown [simp]:
  "plain_word (show_unsigned u)" "plain_word (show_signed v)" "plain_word (show_bool b)"
  "plain_word (latch_str latch)" "plain_word (feedback_str feedback)" "plain_word (power_str req)"
  "plain_word (oi_mode_str mode)" "plain_word (direction_str direction)" "plain_word (action_str action)"
  "plain_word (light_str light)" "plain_word (authority_str authority)" "plain_word (scope_str scope)"
proof -
  have nat_ok: "plain_word (show_nat n)" for n
    by (rule digit_text_plain_word [OF digit_text_show])
  then show "plain_word (show_unsigned u)" by (simp add: show_unsigned_def)
  from nat_ok have "list_all plain_char (show_nat n)" for n
    by (simp add: plain_word_def)
  with nat_ok show "plain_word (show_signed v)"
    by (auto simp: show_signed_def) (simp add: plain_word_def plain_char_def is_ascii_whitespace_def)
  note d = plain_word_def plain_char_def is_ascii_whitespace_def
  show "plain_word (show_bool b)" by (simp add: d show_bool_def)
  show "plain_word (latch_str latch)" by (cases latch) (simp_all add: d)
  show "plain_word (feedback_str feedback)" by (cases feedback) (simp_all add: d)
  show "plain_word (power_str req)" by (cases req) (simp_all add: d)
  show "plain_word (oi_mode_str mode)" by (cases mode) (simp_all add: d)
  show "plain_word (direction_str direction)" by (cases direction) (simp_all add: d)
  show "plain_word (action_str action)" by (cases action) (simp_all add: d)
  show "plain_word (light_str light)" by (cases light) (simp_all add: d)
  show "plain_word (authority_str authority)" by (cases authority) (simp_all add: d)
  show "plain_word (scope_str scope)" by (cases scope) (simp_all add: d)
qed

lemma plain_word_tones [simp]: "list_all plain_word (tone_words ts)"
  by (induction ts) (simp_all add: tone_words_def)

lemma plain_word_line_word [simp]: "plain_word (line_word r)"
  by (cases r) (simp_all add: plain_word_def plain_char_def is_ascii_whitespace_def)

text \<open>Every argument but those of an endpoint registration is one word.\<close>

definition plain_arguments :: "cockpit_request \<Rightarrow> bool" where
  "plain_arguments r = (case r of QRegisterNetworkEndpoint _ \<Rightarrow> False | _ \<Rightarrow> True)"

lemma plain_word_arguments: "plain_arguments r \<Longrightarrow> list_all plain_word (line_arguments r)"
  by (cases r) (simp_all add: plain_arguments_def line_arguments_def)

lemma split_compact_line:
  assumes "plain_arguments r"
  shows "split_words (to_compact_line r seq) = compact_words r seq"
    "split_words (butlast (to_compact_line r seq)) = compact_words r seq"
proof -
  have ok: "list_all plain_word (compact_words r seq)" "compact_words r seq \<noteq> []"
    using plain_word_arguments [OF assms] by (simp_all add: compact_words_def)
  show "split_words (to_compact_line r seq) = compact_words r seq"
    "split_words (butlast (to_compact_line r seq)) = compact_words r seq"
    using split_join [OF ok] by (simp_all only: to_compact_line_def butlast_snoc)
qed

section \<open>Tones\<close>

lemma read_compact_tones_words:
  assumes "0 < length ts" "length ts \<le> 16"
  shows "read_compact_tones (tone_words ts) = Some (tone_table ts, [])"
proof -
  have "length ts \<le> n \<Longrightarrow> compact_tones n (tone_words ts) acc = Some (acc @ ts, [])" for n acc
  proof (induction ts arbitrary: n acc)
    case Nil
    then show ?case by (cases n) (simp_all add: tone_words_def)
  next
    case (Cons t ts)
    then obtain m where "n = Suc m" by (cases n) auto
    with Cons show ?case by (simp add: tone_words_def)
  qed
  with assms show ?thesis by (simp add: read_compact_tones_def max_song_tones_def)
qed

section \<open>Requests and commands\<close>

text \<open>The command a request means, where the line protocol has one; the conveniences mean that they
  are refused as unsupported.\<close>

definition meant_command :: "cockpit_request \<Rightarrow> u32 \<Rightarrow> brainstem_command option" where
  "meant_command r seq =
     (if removed_convenience r then Some (BUnsupported seq)
      else (case r of
        QPing \<Rightarrow> Some BPing | QBootsel \<Rightarrow> Some BBootsel
      | QResetMotherbrain \<Rightarrow> Some BResetMotherbrain | QGetStatus \<Rightarrow> Some BStatus
      | QGetCapabilities \<Rightarrow> Some BGetCapabilities
      | QGetEvents since \<Rightarrow> Some (BGetEvents since)
      | QArm \<Rightarrow> Some BArm | QDisarm \<Rightarrow> Some BDisarm | QStop \<Rightarrow> Some BStop | QEStop \<Rightarrow> Some BEStop
      | QClearEStop \<Rightarrow> Some BClearEStop
      | QClearSafetyLatch latch \<Rightarrow> Some (BClearSafetyLatch latch seq)
      | QCarefulMode ttl \<Rightarrow> Some (BCarefulMode ttl seq)
      | QEscapeMotion hazard generation linear angular ttl \<Rightarrow>
          Some (BEscapeMotion hazard generation linear angular ttl seq)
      | QCmdVel linear angular ttl \<Rightarrow> Some (BCmdVel linear angular ttl seq)
      | QDriveDirect left right ttl \<Rightarrow> Some (BDriveDirect left right ttl seq)
      | QDriveArc velocity radius ttl \<Rightarrow> Some (BDriveArc velocity radius ttl seq)
      | QHeartbeatStop timeout \<Rightarrow> Some (BHeartbeatStop timeout seq)
      | QRequestSensors packet \<Rightarrow> Some (BRequestSensors packet seq)
      | QStreamSensors enabled packet period \<Rightarrow> Some (BStreamSensors enabled packet period seq)
      | QClearMotionQueue \<Rightarrow> Some (BClearMotionQueue seq)
      | QDefineChirp feedback ts \<Rightarrow> Some (BDefineChirp feedback (fst (tone_table ts)) (snd (tone_table ts)) seq)
      | QPlayFeedback feedback \<Rightarrow> Some (BPlayFeedback feedback seq)
      | QSetAudioSilent silent \<Rightarrow> Some (BSetAudioSilent silent seq)
      | QPowerState request \<Rightarrow> Some (BPowerState request seq)
      | QCreatePowerOn \<Rightarrow> Some (BPowerState PWake seq) | QCreatePowerOff \<Rightarrow> Some (BPowerState PSleep seq)
      | QCalibrateTurn angular duration \<Rightarrow> Some (BCalibrateTurn angular duration seq)
      | QOrientationProbe angular duration \<Rightarrow> Some (BOrientationProbe angular duration seq)
      | QResetOdometry \<Rightarrow> Some (BResetOdometry seq) | QZeroImuOrientation \<Rightarrow> Some (BZeroImuOrientation seq)
      | QClearImuOrientation \<Rightarrow> Some (BClearImuOrientation seq)
      | QSetMode mode \<Rightarrow> Some (BSetMode mode)
      | QSongDefine i ts \<Rightarrow> Some (BSongDefine i (fst (tone_table ts)) (snd (tone_table ts)) seq)
      | QSongPlay i \<Rightarrow> Some (BSongPlay i)
      | QDock \<Rightarrow> Some BDock
      | _ \<Rightarrow> None))"

text \<open>A song or chirp of one to sixteen tones.\<close>

definition tones_fit :: "cockpit_request \<Rightarrow> bool" where
  "tones_fit r =
     (case r of
        QDefineChirp _ ts \<Rightarrow> 0 < length ts \<and> length ts \<le> 16
      | QSongDefine _ ts \<Rightarrow> 0 < length ts \<and> length ts \<le> 16
      | _ \<Rightarrow> True)"

lemma meant_plain: "meant_command r seq = Some c \<Longrightarrow> plain_arguments r"
  by (cases r) (simp_all add: meant_command_def removed_convenience_def plain_arguments_def)

lemma parse_line_words_seq:
  "seq \<noteq> 0 \<Longrightarrow> parse_line_words (kind # show_unsigned seq # ws) =
     (case parse_words kind seq ws of Some (command, []) \<Rightarrow> Inr (seq, command) | _ \<Rightarrow> Inl seq)"
  by (simp add: parse_line_words_def arg_def)

lemma parse_words_meant:
  assumes "meant_command r seq = Some c" and "tones_fit r"
  shows "\<exists>rest. parse_words (line_word r) seq (line_arguments r) = Some (c, rest) \<and> rest = []"
  using assms
  by (cases r)
    (simp_all add: meant_command_def removed_convenience_def tones_fit_def parse_words_def
      line_arguments_def plain_words_def unsupported_words_def motion_words_def parse_motion_words_def
      parse_field_words_def arg_def read_compact_tones_words)

section \<open>Envelopes\<close>

lemma strip_prefix_Some: "strip_prefix p s = Some r \<longleftrightarrow> s = p @ r"
  by (auto simp: strip_prefix_def) (metis append_take_drop_id)

lemma rsplit_no_space: "CHR '' '' \<notin> set w \<Longrightarrow> rsplit_once (CHR '' '' # t) w = None"
  by (induction w) (auto simp: strip_prefix_def split: option.splits)

lemma rsplit_marked:
  "CHR '' '' \<notin> set t \<Longrightarrow> CHR '' '' \<notin> set v \<Longrightarrow>
   rsplit_once (CHR '' '' # t) (u @ CHR '' '' # t @ v) = Some (u, v)"
  using rsplit_no_space [of "t @ v" t] by (induction u) (simp_all add: strip_prefix_def)

lemma rsplit_unmarked:
  assumes t: "CHR '' '' \<notin> set t" and w: "CHR '' '' \<notin> set w" "\<And>v. w \<noteq> t @ v"
  shows "rsplit_once (CHR '' '' # t) (u @ CHR '' '' # w) = Some (a, b) \<Longrightarrow> CHR '' '' \<in> set b"
proof (induction u arbitrary: a)
  case Nil
  have "strip_prefix (CHR '' '' # t) (CHR '' '' # w) = None"
    using w(2) strip_prefix_Some [of "CHR '' '' # t" "CHR '' '' # w"] by (cases "strip_prefix (CHR '' '' # t) (CHR '' '' # w)") auto
  with Nil show ?case by (simp add: rsplit_no_space [OF w(1)])
next
  case (Cons c u)
  show ?case
  proof (cases "rsplit_once (CHR '' '' # t) (u @ CHR '' '' # w)")
    case None
    with Cons.prems have "strip_prefix (CHR '' '' # t) (c # u @ CHR '' '' # w) = Some b"
      by (auto split: option.splits)
    then have "u @ CHR '' '' # w = t @ b" by (simp add: strip_prefix_Some)
    then have "CHR '' '' \<in> set (t @ b)" by (metis in_set_conv_decomp)
    with t show ?thesis by simp
  next
    case (Some p)
    with Cons show ?thesis by (cases p) auto
  qed
qed

lemma peel_marked:
  "CHR '' '' \<notin> set t \<Longrightarrow> CHR '' '' \<notin> set v \<Longrightarrow>
   peel (CHR '' '' # t) (u @ CHR '' '' # t @ v) = (u, Some v)"
  by (simp add: peel_def rsplit_marked)

lemma peel_unmarked:
  "CHR '' '' \<notin> set t \<Longrightarrow> CHR '' '' \<notin> set w \<Longrightarrow> (\<And>v. w \<noteq> t @ v) \<Longrightarrow>
   peel (CHR '' '' # t) (u @ CHR '' '' # w) = (u @ CHR '' '' # w, None)"
  using rsplit_unmarked [of t w u] by (auto simp: peel_def split: option.splits)

lemma join_words_last:
  "ws \<noteq> [] \<Longrightarrow> join_words (w # ws) = (let l = w # ws in join_words (butlast l) @ CHR '' '' # last l)"
proof (induction ws arbitrary: w)
  case (Cons x xs)
  then show ?case by (cases xs) (auto simp: Let_def)
qed simp

text \<open>The text of a request ends in a plain word after a space, so no marker is found in it.\<close>

lemma request_text:
  assumes "plain_arguments r"
  obtains u w where "join_words (compact_words r seq) = u @ CHR '' '' # w" "plain_word w"
proof -
  define ws where "ws = show_unsigned seq # line_arguments r"
  have "list_all plain_word ws" "ws \<noteq> []"
    using plain_word_arguments [OF assms] by (simp_all add: ws_def)
  then have "plain_word (last ws)" by (auto simp: list_all_iff)
  with that [of "join_words (butlast (line_word r # ws))" "last ws"] \<open>ws \<noteq> []\<close> show thesis
    using join_words_last [of ws "line_word r"] by (simp add: compact_words_def ws_def Let_def)
qed

definition spaceless :: "string \<Rightarrow> bool" where
  "spaceless s \<longleftrightarrow> CHR '' '' \<notin> set s"

lemma plain_word_unmarked:
  assumes "plain_word w" "CHR ''='' \<in> set t"
  shows "w \<noteq> t @ v"
proof
  assume "w = t @ v"
  with assms(2) have "CHR ''='' \<in> set w" by simp
  with assms(1) show False by (auto simp: plain_word_def plain_char_def list_all_iff)
qed

lemma peel_request_text:
  assumes "plain_arguments r" "CHR ''='' \<in> set t" "CHR '' '' \<notin> set t"
  shows "peel (CHR '' '' # t) (join_words (compact_words r seq)) = (join_words (compact_words r seq), None)"
proof -
  obtain u w where j: "join_words (compact_words r seq) = u @ CHR '' '' # w" and w: "plain_word w"
    using request_text [OF assms(1)] by blast
  show ?thesis
    unfolding j
    by (rule peel_unmarked [OF assms(3) plain_word_no_space [OF w]]) (rule plain_word_unmarked [OF w assms(2)])
qed

text \<open>The envelope a client puts around a line, without the newline the line reader takes off.\<close>

lemma session_envelope:
  assumes "plain_arguments r" "spaceless session_id"
  shows "compact_envelope (butlast (to_compact_line_with_session r seq session_id)) =
    \<lparr>ev_command = butlast (to_compact_line r seq), ev_session = Some session_id, ev_lease = None,
     ev_service = None\<rparr>"
proof -
  define c where "c = join_words (compact_words r seq)"
  have line: "butlast (to_compact_line_with_session r seq session_id) =
      c @ CHR '' '' # ''session_id='' @ session_id"
    by (simp add: to_compact_line_with_session_def to_compact_line_def c_def butlast_append)
  have no: "CHR '' '' \<notin> set (''session_id='' @ session_id)"
    using assms(2) by (simp add: spaceless_def)
  have a: "peel '' service_lease_id='' (c @ CHR '' '' # ''session_id='' @ session_id) =
      (c @ CHR '' '' # ''session_id='' @ session_id, None)"
    by (rule peel_unmarked [OF _ no]) simp_all
  have b: "peel '' lease_id='' (c @ CHR '' '' # ''session_id='' @ session_id) =
      (c @ CHR '' '' # ''session_id='' @ session_id, None)"
    by (rule peel_unmarked [OF _ no]) simp_all
  have d: "peel '' session_id='' (c @ CHR '' '' # ''session_id='' @ session_id) = (c, Some session_id)"
    using assms(2) by (intro peel_marked) (simp_all add: spaceless_def)
  have "butlast (to_compact_line r seq) = c" by (simp add: to_compact_line_def c_def butlast_append)
  with a b d show ?thesis unfolding line by (simp add: compact_envelope_def)
qed

lemma authority_envelope:
  assumes "plain_arguments r" "spaceless session_id" "spaceless lease_id"
  shows "compact_envelope (butlast (to_compact_line_with_authority r seq session_id lease_id)) =
    \<lparr>ev_command = butlast (to_compact_line r seq), ev_session = Some session_id, ev_lease = Some lease_id,
     ev_service = None\<rparr>"
proof -
  define c where "c = join_words (compact_words r seq)"
  define l where "l = c @ CHR '' '' # ''session_id='' @ session_id"
  have line: "butlast (to_compact_line_with_authority r seq session_id lease_id) =
      l @ CHR '' '' # ''lease_id='' @ lease_id"
    by (simp add: to_compact_line_with_authority_def to_compact_line_with_session_def
        to_compact_line_def c_def l_def butlast_append)
  have no: "CHR '' '' \<notin> set (''lease_id='' @ lease_id)"
    using assms(3) by (simp add: spaceless_def)
  have a: "peel '' service_lease_id='' (l @ CHR '' '' # ''lease_id='' @ lease_id) =
      (l @ CHR '' '' # ''lease_id='' @ lease_id, None)"
    by (rule peel_unmarked [OF _ no]) simp_all
  have b: "peel '' lease_id='' (l @ CHR '' '' # ''lease_id='' @ lease_id) = (l, Some lease_id)"
    using assms(3) by (intro peel_marked) (simp_all add: spaceless_def)
  have d: "peel '' session_id='' l = (c, Some session_id)"
    unfolding l_def using assms(2) by (intro peel_marked) (simp_all add: spaceless_def)
  have "butlast (to_compact_line r seq) = c" by (simp add: to_compact_line_def c_def butlast_append)
  with a b d show ?thesis unfolding line by (simp add: compact_envelope_def)
qed

lemma service_envelope:
  assumes "plain_arguments r" "spaceless session_id" "spaceless lease_id"
  shows "compact_envelope (butlast (to_compact_line_with_service_authority r seq session_id lease_id)) =
    \<lparr>ev_command = butlast (to_compact_line r seq), ev_session = Some session_id, ev_lease = None,
     ev_service = Some lease_id\<rparr>"
proof -
  define c where "c = join_words (compact_words r seq)"
  define l where "l = c @ CHR '' '' # ''session_id='' @ session_id"
  have line: "butlast (to_compact_line_with_service_authority r seq session_id lease_id) =
      l @ CHR '' '' # ''service_lease_id='' @ lease_id"
    by (simp add: to_compact_line_with_service_authority_def to_compact_line_with_session_def
        to_compact_line_def c_def l_def butlast_append)
  have no: "CHR '' '' \<notin> set (''session_id='' @ session_id)"
    using assms(2) by (simp add: spaceless_def)
  have a: "peel '' service_lease_id='' (l @ CHR '' '' # ''service_lease_id='' @ lease_id) = (l, Some lease_id)"
    using assms(3) by (intro peel_marked) (simp_all add: spaceless_def)
  have b: "peel '' lease_id='' l = (l, None)"
    unfolding l_def by (rule peel_unmarked [OF _ no]) simp_all
  have d: "peel '' session_id='' l = (c, Some session_id)"
    unfolding l_def using assms(2) by (intro peel_marked) (simp_all add: spaceless_def)
  have "butlast (to_compact_line r seq) = c" by (simp add: to_compact_line_def c_def butlast_append)
  with a b d show ?thesis unfolding line by (simp add: compact_envelope_def)
qed

lemma bare_envelope:
  assumes "plain_arguments r"
  shows "compact_envelope (butlast (to_compact_line r seq)) =
    \<lparr>ev_command = butlast (to_compact_line r seq), ev_session = None, ev_lease = None, ev_service = None\<rparr>"
  using peel_request_text [OF assms, of "''service_lease_id=''" seq]
    peel_request_text [OF assms, of "''lease_id=''" seq] peel_request_text [OF assms, of "''session_id=''" seq]
  by (simp add: compact_envelope_def to_compact_line_def butlast_append)

lemma parse_meant:
  assumes "meant_command r seq = Some c" "tones_fit r" "seq \<noteq> 0"
  shows "parse_forebrain_uart_command (to_compact_line r seq) = Inr (seq, c)"
    "parse_forebrain_uart_command (butlast (to_compact_line r seq)) = Inr (seq, c)"
  using parse_words_meant [OF assms(1,2)] split_compact_line [OF meant_plain [OF assms(1)]] assms(3)
  by (auto simp: parse_forebrain_uart_command_def compact_words_def parse_line_words_seq)

lemma light_pattern_not_a_number: "str_u32 (light_str p) = None"
  by (cases p) (simp_all add: str_u32_def parse_unsigned_def digit_of_def)

lemma parse_unmeant:
  assumes "meant_command r seq = None" "plain_arguments r" "seq \<noteq> 0"
  shows "parse_forebrain_uart_command (to_compact_line r seq) = Inl seq"
  using assms split_compact_line [OF assms(2)]
  by (cases r)
    (simp_all add: parse_forebrain_uart_command_def compact_words_def parse_line_words_seq
      meant_command_def removed_convenience_def parse_words_def plain_arguments_def
      line_arguments_def plain_words_def unsupported_words_def motion_words_def parse_motion_words_def
      parse_field_words_def arg_def light_pattern_not_a_number)

end
