(* ===== verification/Cockpit_Events.thy ===== *)
theory Cockpit_Events
  imports Status_Marks Commands Protocol
begin

text \<open>
  The events as the client reads them: the kinds of \<open>cockpit/events.rs\<close>, the event and batch records of
  \<open>cockpit/contract.rs\<close> with what the client unpacks from the three words of an event, and the text the
  firmware gives each kind (\<open>status/render.rs\<close>). The lemmas relate both ends: a kind, a rejection, a
  stop reason or a contact withdrawal the firmware records is what the client reads.
\<close>

section \<open>Kinds\<close>

datatype (plugins only: code) cockpit_event_kind =
    EBoot | ECommandAccepted | ECommandRejected | ECommandStarted | ECommandCompleted
  | ECommandInterrupted | ECommandTimedOut | ECommandRenewed | EBodyPowerRequested
  | EBodyPowerChanged | EBodyModeRequested | EBodyModeChanged | ETelemetryReceived
  | ESensorFrameDecoded | EMotionRequested | EMotionStopped | ESafetyTripped
  | ESafetyCleared | EBumpChanged | ECliffChanged | EWheelDropLatched | EWheelDropCleared
  | EWallChanged | EVirtualWallChanged | EBatteryLow | EChargingStateChanged
  | EButtonsChanged | EIrChanged | EHeartbeatExpired | EEStopLatched | EEStopCleared
  | EImuFrameReceived | EImuFault | ETiltChanged | EImuCalibrationChanged
  | EMotionInconsistencyDetected | EImpactDetected | ESessionOpened | ESessionReplaced
  | ESessionClosed | ESessionRejected | EPeerRebootDetected | ETransportChanged
  | EDhcpLeaseChanged | EDnsRegistrationChanged | EAuthorityChanged
  | EMotherbrainResetRequested | EMotherbrainResetAsserted | EMotherbrainResetCompleted
  | EMotherbrainResetRefused | EContactWithdrawalStarted | EContactWithdrawalCompleted
  | EAudioStateChanged | EError | EUnknown string

text \<open>\<open>From<&str>\<close>: a text that names no kind is kept.\<close>

definition event_table :: "(string \<times> cockpit_event_kind) list" where
  "event_table =
     [(''boot'', EBoot), (''command_accepted'', ECommandAccepted),
      (''command_rejected'', ECommandRejected), (''command_started'', ECommandStarted),
      (''command_completed'', ECommandCompleted), (''command_interrupted'', ECommandInterrupted),
      (''command_timed_out'', ECommandTimedOut), (''command_renewed'', ECommandRenewed),
      (''body_power_requested'', EBodyPowerRequested),
      (''body_power_changed'', EBodyPowerChanged), (''body_mode_requested'', EBodyModeRequested),
      (''body_mode_changed'', EBodyModeChanged), (''telemetry_received'', ETelemetryReceived),
      (''sensor_frame_decoded'', ESensorFrameDecoded), (''motion_requested'', EMotionRequested),
      (''motion_stopped'', EMotionStopped), (''safety_tripped'', ESafetyTripped),
      (''safety_cleared'', ESafetyCleared), (''bump_changed'', EBumpChanged),
      (''cliff_changed'', ECliffChanged), (''wheel_drop_latched'', EWheelDropLatched),
      (''wheel_drop_cleared'', EWheelDropCleared), (''wall_changed'', EWallChanged),
      (''virtual_wall_changed'', EVirtualWallChanged), (''battery_low'', EBatteryLow),
      (''charging_state_changed'', EChargingStateChanged), (''buttons_changed'', EButtonsChanged),
      (''ir_changed'', EIrChanged), (''heartbeat_expired'', EHeartbeatExpired),
      (''estop_latched'', EEStopLatched), (''estop_cleared'', EEStopCleared),
      (''imu_frame_received'', EImuFrameReceived), (''imu_fault'', EImuFault),
      (''tilt_changed'', ETiltChanged), (''imu_calibration_changed'', EImuCalibrationChanged),
      (''motion_inconsistency_detected'', EMotionInconsistencyDetected),
      (''impact_detected'', EImpactDetected), (''session_opened'', ESessionOpened),
      (''session_replaced'', ESessionReplaced), (''session_closed'', ESessionClosed),
      (''session_rejected'', ESessionRejected), (''peer_reboot_detected'', EPeerRebootDetected),
      (''transport_changed'', ETransportChanged), (''dhcp_lease_changed'', EDhcpLeaseChanged),
      (''dns_registration_changed'', EDnsRegistrationChanged),
      (''authority_changed'', EAuthorityChanged),
      (''motherbrain_reset_requested'', EMotherbrainResetRequested),
      (''motherbrain_reset_asserted'', EMotherbrainResetAsserted),
      (''motherbrain_reset_completed'', EMotherbrainResetCompleted),
      (''motherbrain_reset_refused'', EMotherbrainResetRefused),
      (''contact_withdrawal_started'', EContactWithdrawalStarted),
      (''contact_withdrawal_completed'', EContactWithdrawalCompleted),
      (''audio_state_changed'', EAudioStateChanged), (''error'', EError)]"

definition event_from_str :: "string \<Rightarrow> cockpit_event_kind" where
  "event_from_str kind = (case map_of event_table kind of Some k \<Rightarrow> k | None \<Rightarrow> EUnknown kind)"

primrec event_as_str :: "cockpit_event_kind \<Rightarrow> string" where
  "event_as_str EBoot = ''boot''"
| "event_as_str ECommandAccepted = ''command_accepted''"
| "event_as_str ECommandRejected = ''command_rejected''"
| "event_as_str ECommandStarted = ''command_started''"
| "event_as_str ECommandCompleted = ''command_completed''"
| "event_as_str ECommandInterrupted = ''command_interrupted''"
| "event_as_str ECommandTimedOut = ''command_timed_out''"
| "event_as_str ECommandRenewed = ''command_renewed''"
| "event_as_str EBodyPowerRequested = ''body_power_requested''"
| "event_as_str EBodyPowerChanged = ''body_power_changed''"
| "event_as_str EBodyModeRequested = ''body_mode_requested''"
| "event_as_str EBodyModeChanged = ''body_mode_changed''"
| "event_as_str ETelemetryReceived = ''telemetry_received''"
| "event_as_str ESensorFrameDecoded = ''sensor_frame_decoded''"
| "event_as_str EMotionRequested = ''motion_requested''"
| "event_as_str EMotionStopped = ''motion_stopped''"
| "event_as_str ESafetyTripped = ''safety_tripped''"
| "event_as_str ESafetyCleared = ''safety_cleared''"
| "event_as_str EBumpChanged = ''bump_changed''"
| "event_as_str ECliffChanged = ''cliff_changed''"
| "event_as_str EWheelDropLatched = ''wheel_drop_latched''"
| "event_as_str EWheelDropCleared = ''wheel_drop_cleared''"
| "event_as_str EWallChanged = ''wall_changed''"
| "event_as_str EVirtualWallChanged = ''virtual_wall_changed''"
| "event_as_str EBatteryLow = ''battery_low''"
| "event_as_str EChargingStateChanged = ''charging_state_changed''"
| "event_as_str EButtonsChanged = ''buttons_changed''"
| "event_as_str EIrChanged = ''ir_changed''"
| "event_as_str EHeartbeatExpired = ''heartbeat_expired''"
| "event_as_str EEStopLatched = ''estop_latched''"
| "event_as_str EEStopCleared = ''estop_cleared''"
| "event_as_str EImuFrameReceived = ''imu_frame_received''"
| "event_as_str EImuFault = ''imu_fault''"
| "event_as_str ETiltChanged = ''tilt_changed''"
| "event_as_str EImuCalibrationChanged = ''imu_calibration_changed''"
| "event_as_str EMotionInconsistencyDetected = ''motion_inconsistency_detected''"
| "event_as_str EImpactDetected = ''impact_detected''"
| "event_as_str ESessionOpened = ''session_opened''"
| "event_as_str ESessionReplaced = ''session_replaced''"
| "event_as_str ESessionClosed = ''session_closed''"
| "event_as_str ESessionRejected = ''session_rejected''"
| "event_as_str EPeerRebootDetected = ''peer_reboot_detected''"
| "event_as_str ETransportChanged = ''transport_changed''"
| "event_as_str EDhcpLeaseChanged = ''dhcp_lease_changed''"
| "event_as_str EDnsRegistrationChanged = ''dns_registration_changed''"
| "event_as_str EAuthorityChanged = ''authority_changed''"
| "event_as_str EMotherbrainResetRequested = ''motherbrain_reset_requested''"
| "event_as_str EMotherbrainResetAsserted = ''motherbrain_reset_asserted''"
| "event_as_str EMotherbrainResetCompleted = ''motherbrain_reset_completed''"
| "event_as_str EMotherbrainResetRefused = ''motherbrain_reset_refused''"
| "event_as_str EContactWithdrawalStarted = ''contact_withdrawal_started''"
| "event_as_str EContactWithdrawalCompleted = ''contact_withdrawal_completed''"
| "event_as_str EAudioStateChanged = ''audio_state_changed''"
| "event_as_str EError = ''error''"
| "event_as_str (EUnknown kind) = kind"

definition is_unknown_event :: "cockpit_event_kind \<Rightarrow> bool" where
  "is_unknown_event k = (case k of EUnknown _ \<Rightarrow> True | _ \<Rightarrow> False)"

text \<open>The firmware's texts.\<close>

definition public_event_kind_text :: "u8 \<Rightarrow> string" where
  "public_event_kind_text code =
     (if code = public_event_code KBoot then ''boot''
      else if code = public_event_code KCommandAccepted then ''command_accepted''
      else if code = public_event_code KCommandRejected then ''command_rejected''
      else if code = public_event_code KCommandStarted then ''command_started''
      else if code = public_event_code KCommandCompleted then ''command_completed''
      else if code = public_event_code KCommandInterrupted then ''command_interrupted''
      else if code = public_event_code KCommandTimedOut then ''command_timed_out''
      else if code = public_event_code KCommandRenewed then ''command_renewed''
      else if code = public_event_code KBodyPowerRequested then ''body_power_requested''
      else if code = public_event_code KBodyPowerChanged then ''body_power_changed''
      else if code = public_event_code KBodyModeRequested then ''body_mode_requested''
      else if code = public_event_code KBodyModeChanged then ''body_mode_changed''
      else if code = public_event_code KTelemetryReceived then ''telemetry_received''
      else if code = public_event_code KSensorFrameDecoded then ''sensor_frame_decoded''
      else if code = public_event_code KMotionRequested then ''motion_requested''
      else if code = public_event_code KMotionStopped then ''motion_stopped''
      else if code = public_event_code KSafetyTripped then ''safety_tripped''
      else if code = public_event_code KSafetyCleared then ''safety_cleared''
      else if code = public_event_code KBumpChanged then ''bump_changed''
      else if code = public_event_code KCliffChanged then ''cliff_changed''
      else if code = public_event_code KWheelDropLatched then ''wheel_drop_latched''
      else if code = public_event_code KWheelDropCleared then ''wheel_drop_cleared''
      else if code = public_event_code KWallChanged then ''wall_changed''
      else if code = public_event_code KVirtualWallChanged then ''virtual_wall_changed''
      else if code = public_event_code KBatteryLow then ''battery_low''
      else if code = public_event_code KChargingStateChanged then ''charging_state_changed''
      else if code = public_event_code KButtonsChanged then ''buttons_changed''
      else if code = public_event_code KIrChanged then ''ir_changed''
      else if code = public_event_code KHeartbeatExpired then ''heartbeat_expired''
      else if code = public_event_code KEStopLatched then ''estop_latched''
      else if code = public_event_code KEStopCleared then ''estop_cleared''
      else if code = public_event_code KImuFrameReceived then ''imu_frame_received''
      else if code = public_event_code KImuFault then ''imu_fault''
      else if code = public_event_code KTiltChanged then ''tilt_changed''
      else if code = public_event_code KImuCalibrationChanged then ''imu_calibration_changed''
      else if code = public_event_code KMotionInconsistencyDetected then ''motion_inconsistency_detected''
      else if code = public_event_code KImpactDetected then ''impact_detected''
      else if code = public_event_code KSessionOpened then ''session_opened''
      else if code = public_event_code KSessionReplaced then ''session_replaced''
      else if code = public_event_code KSessionRejected then ''session_rejected''
      else if code = public_event_code KTransportChanged then ''transport_changed''
      else if code = public_event_code KPeerRebootDetected then ''peer_reboot_detected''
      else if code = public_event_code KDhcpLeaseChanged then ''dhcp_lease_changed''
      else if code = public_event_code KDnsRegistrationChanged then ''dns_registration_changed''
      else if code = public_event_code KAuthorityChanged then ''authority_changed''
      else if code = public_event_code KMotherbrainResetRequested then ''motherbrain_reset_requested''
      else if code = public_event_code KMotherbrainResetAsserted then ''motherbrain_reset_asserted''
      else if code = public_event_code KMotherbrainResetCompleted then ''motherbrain_reset_completed''
      else if code = public_event_code KMotherbrainResetRefused then ''motherbrain_reset_refused''
      else if code = public_event_code KContactWithdrawalStarted then ''contact_withdrawal_started''
      else if code = public_event_code KContactWithdrawalCompleted then ''contact_withdrawal_completed''
      else if code = public_event_code KAudioStateChanged then ''audio_state_changed''
      else if code = public_event_code KError then ''error''
      else ''none'')"

section \<open>Events\<close>

record cockpit_event =
  ce_seq :: u32
  ce_kind :: cockpit_event_kind
  ce_a :: u32
  ce_b :: u32
  ce_c :: u32

record event_batch =
  eb_since_seq :: u32
  eb_oldest_seq :: u32
  eb_next_seq :: u32
  eb_dropped_before_seq :: u32
  eb_events :: "cockpit_event list"

text \<open>What the client makes of a record the firmware publishes: the kind goes over the wire as its
  text, the rest as numbers.\<close>

definition received_event :: "public_event_record \<Rightarrow> cockpit_event" where
  "received_event r =
     \<lparr>ce_seq = ev_seq r, ce_kind = event_from_str (public_event_kind_text (ev_kind r)),
      ce_a = ev_a r, ce_b = ev_b r, ce_c = ev_c r\<rparr>"

definition latch_from_event_code :: "u32 \<Rightarrow> safety_latch_kind option" where
  "latch_from_event_code code =
     (if code = 1 then Some LBump
      else if code = 2 then Some LCliff
      else if code = 3 then Some LWheelDrop
      else if code = 5 then Some LHeartbeat
      else if code = 6 then Some LTilt
      else if code = 7 then Some LImpact
      else if code = 8 then Some LCharging
      else None)"

primrec safety_latch_kind_code :: "safety_latch_kind \<Rightarrow> u32" where
  "safety_latch_kind_code LBump = 1"
| "safety_latch_kind_code LCliff = 2"
| "safety_latch_kind_code LWheelDrop = 3"
| "safety_latch_kind_code LHeartbeat = 5"
| "safety_latch_kind_code LTilt = 6"
| "safety_latch_kind_code LImpact = 7"
| "safety_latch_kind_code LCharging = 8"

datatype safe_stop_reason = StopSafetyTripped "safety_latch_kind option" | StopHeartbeatExpired | StopEStopLatched

definition stop_reason :: "cockpit_event \<Rightarrow> safe_stop_reason option" where
  "stop_reason e =
     (case ce_kind e of
        ESafetyTripped \<Rightarrow> Some (StopSafetyTripped (latch_from_event_code (ce_a e)))
      | EHeartbeatExpired \<Rightarrow> Some StopHeartbeatExpired
      | EEStopLatched \<Rightarrow> Some StopEStopLatched
      | _ \<Rightarrow> None)"

definition is_stop_reason :: "cockpit_event \<Rightarrow> bool" where
  "is_stop_reason e \<longleftrightarrow> (case stop_reason e of None \<Rightarrow> False | Some _ \<Rightarrow> True)"

definition has_stop_reason :: "event_batch \<Rightarrow> bool" where
  "has_stop_reason b \<longleftrightarrow> list_ex is_stop_reason (eb_events b)"

text \<open>The error is the sequence number before which events were lost.\<close>

definition ensure_no_missed_events :: "event_batch \<Rightarrow> u32 + unit" where
  "ensure_no_missed_events b =
     (if eb_dropped_before_seq b = 0 then Inr () else Inl (eb_dropped_before_seq b))"

record command_rejection =
  cr_command_id :: u32
  cr_command_seq :: u32
  cr_command_code :: u8
  cr_reason :: command_reject_reason

definition command_rejection_of :: "cockpit_event \<Rightarrow> command_rejection option" where
  "command_rejection_of e =
     (case ce_kind e of
        ECommandRejected \<Rightarrow>
          Some \<lparr>cr_command_id = ce_a e, cr_command_seq = ce_b e,
                cr_command_code = ucast (drop_bit 8 (ce_c e)),
                cr_reason = reject_from_code (ucast (ce_c e))\<rparr>
      | _ \<Rightarrow> None)"

datatype observed_outcome =
  ObservedCompleted | ObservedSafetyPreempted | ObservedFailed | ObservedUnknown u8

definition observed_outcome_of :: "u8 \<Rightarrow> observed_outcome" where
  "observed_outcome_of code =
     (if code = 1 then ObservedCompleted
      else if code = 2 then ObservedSafetyPreempted
      else if code = 3 then ObservedFailed
      else ObservedUnknown code)"

datatype contact_withdrawal_event =
    WithdrawalStartedEvent u8 u8 u32 u16 u16
  | WithdrawalCompletedEvent observed_outcome "safety_latch_kind option" bool i32 u32

definition contact_withdrawal_of :: "cockpit_event \<Rightarrow> contact_withdrawal_event option" where
  "contact_withdrawal_of e =
     (case ce_kind e of
        EContactWithdrawalStarted \<Rightarrow>
          Some (WithdrawalStartedEvent (ucast (ce_a e AND 3)) (ucast (drop_bit 8 (ce_a e) AND 255)) (ce_b e)
                  (ucast (ce_c e AND 65535)) (ucast (drop_bit 16 (ce_c e))))
      | EContactWithdrawalCompleted \<Rightarrow>
          Some (WithdrawalCompletedEvent (observed_outcome_of (ucast (ce_a e)))
                  (latch_from_event_code (drop_bit 8 (ce_a e) AND 255))
                  (ce_a e AND push_bit 16 1 \<noteq> 0) (ce_b e) (ce_c e))
      | _ \<Rightarrow> None)"

section \<open>The two vocabularies\<close>

lemma event_text_kept [simp]: "event_as_str (event_from_str s) = s"
proof (cases "map_of event_table s")
  case None
  then show ?thesis by (simp add: event_from_str_def)
next
  case (Some k)
  then have "(s, k) \<in> set event_table" by (rule map_of_SomeD)
  moreover have "list_all (\<lambda>(s, k). event_as_str k = s) event_table"
    by (simp add: event_table_def)
  ultimately have "event_as_str k = s" by (auto simp: list_all_iff)
  with Some show ?thesis by (simp add: event_from_str_def)
qed

text \<open>The kind of the same name on the client's side. The firmware never publishes the empty kind; the
  client also knows \<open>SessionClosed\<close>, which the firmware does not have.\<close>

primrec same_kind :: "public_event_kind \<Rightarrow> cockpit_event_kind" where
  "same_kind KNone = EUnknown ''none''"
| "same_kind KBoot = EBoot"
| "same_kind KCommandAccepted = ECommandAccepted"
| "same_kind KCommandRejected = ECommandRejected"
| "same_kind KCommandStarted = ECommandStarted"
| "same_kind KCommandCompleted = ECommandCompleted"
| "same_kind KCommandInterrupted = ECommandInterrupted"
| "same_kind KCommandTimedOut = ECommandTimedOut"
| "same_kind KBodyPowerRequested = EBodyPowerRequested"
| "same_kind KBodyPowerChanged = EBodyPowerChanged"
| "same_kind KBodyModeRequested = EBodyModeRequested"
| "same_kind KBodyModeChanged = EBodyModeChanged"
| "same_kind KTelemetryReceived = ETelemetryReceived"
| "same_kind KSensorFrameDecoded = ESensorFrameDecoded"
| "same_kind KMotionRequested = EMotionRequested"
| "same_kind KMotionStopped = EMotionStopped"
| "same_kind KSafetyTripped = ESafetyTripped"
| "same_kind KSafetyCleared = ESafetyCleared"
| "same_kind KBumpChanged = EBumpChanged"
| "same_kind KCliffChanged = ECliffChanged"
| "same_kind KWheelDropLatched = EWheelDropLatched"
| "same_kind KWheelDropCleared = EWheelDropCleared"
| "same_kind KWallChanged = EWallChanged"
| "same_kind KVirtualWallChanged = EVirtualWallChanged"
| "same_kind KBatteryLow = EBatteryLow"
| "same_kind KChargingStateChanged = EChargingStateChanged"
| "same_kind KButtonsChanged = EButtonsChanged"
| "same_kind KIrChanged = EIrChanged"
| "same_kind KHeartbeatExpired = EHeartbeatExpired"
| "same_kind KEStopLatched = EEStopLatched"
| "same_kind KEStopCleared = EEStopCleared"
| "same_kind KImuFrameReceived = EImuFrameReceived"
| "same_kind KImuFault = EImuFault"
| "same_kind KTiltChanged = ETiltChanged"
| "same_kind KMotionInconsistencyDetected = EMotionInconsistencyDetected"
| "same_kind KImpactDetected = EImpactDetected"
| "same_kind KImuCalibrationChanged = EImuCalibrationChanged"
| "same_kind KError = EError"
| "same_kind KSessionOpened = ESessionOpened"
| "same_kind KSessionReplaced = ESessionReplaced"
| "same_kind KSessionRejected = ESessionRejected"
| "same_kind KTransportChanged = ETransportChanged"
| "same_kind KPeerRebootDetected = EPeerRebootDetected"
| "same_kind KDhcpLeaseChanged = EDhcpLeaseChanged"
| "same_kind KDnsRegistrationChanged = EDnsRegistrationChanged"
| "same_kind KAuthorityChanged = EAuthorityChanged"
| "same_kind KMotherbrainResetRequested = EMotherbrainResetRequested"
| "same_kind KMotherbrainResetAsserted = EMotherbrainResetAsserted"
| "same_kind KMotherbrainResetCompleted = EMotherbrainResetCompleted"
| "same_kind KMotherbrainResetRefused = EMotherbrainResetRefused"
| "same_kind KContactWithdrawalStarted = EContactWithdrawalStarted"
| "same_kind KContactWithdrawalCompleted = EContactWithdrawalCompleted"
| "same_kind KCommandRenewed = ECommandRenewed"
| "same_kind KAudioStateChanged = EAudioStateChanged"

lemma firmware_kind_read: "event_from_str (public_event_kind_text (public_event_code k)) = same_kind k"
  by (cases k) (simp_all add: public_event_kind_text_def public_event_code_def event_from_str_def
      event_table_def)

lemma same_kind_known: "is_unknown_event (same_kind k) \<longleftrightarrow> k = KNone"
  by (cases k) (simp_all add: is_unknown_event_def)

lemma same_kind_stops:
  "same_kind k = ESafetyTripped \<longleftrightarrow> k = KSafetyTripped"
  "same_kind k = EHeartbeatExpired \<longleftrightarrow> k = KHeartbeatExpired"
  "same_kind k = EEStopLatched \<longleftrightarrow> k = KEStopLatched"
  by (cases k; simp)+

section \<open>Packed words\<close>

lemma byte_masks: "(3 :: 'a::len word) = mask 2" "(255 :: 'a word) = mask 8" "(65535 :: 'a word) = mask 16"
  by (simp_all add: mask_eq_decr_exp)

lemma packed_rejection:
  fixes a b :: u8
  shows "ucast (push_bit 8 (ucast b) OR ucast a :: u32) = a"
    "ucast (drop_bit 8 (push_bit 8 (ucast b) OR ucast a :: u32)) = b"
  by (rule bit_word_eqI; auto simp: bit_simps dest: bit_imp_le_length)+

lemma packed_start:
  fixes r :: u8 and v d :: u16
  shows "ucast ((ucast (c AND 3) OR push_bit 8 (ucast r) :: u32) AND 3) = c AND (3 :: u8)"
    "ucast (drop_bit 8 (ucast (c AND 3) OR push_bit 8 (ucast r) :: u32) AND 255) = r"
    "ucast ((ucast v OR push_bit 16 (ucast d) :: u32) AND 65535) = v"
    "ucast (drop_bit 16 (ucast v OR push_bit 16 (ucast d) :: u32)) = d"
  unfolding byte_masks
  by (rule bit_word_eqI; auto simp: bit_simps dest: bit_imp_le_length)+

lemma packed_end:
  fixes r s :: u8
  shows "ucast (ucast r OR push_bit 8 (ucast s) OR push_bit 16 (b32 b) :: u32) = r"
    "(drop_bit 8 (ucast r OR push_bit 8 (ucast s) OR push_bit 16 (b32 b)) AND 255 :: u32) = ucast s"
    "(ucast r OR push_bit 8 (ucast s) OR push_bit 16 (b32 b) :: u32) AND push_bit 16 1 \<noteq> 0 \<longleftrightarrow> b"
proof -
  show "ucast (ucast r OR push_bit 8 (ucast s) OR push_bit 16 (b32 b) :: u32) = r"
    by (rule bit_word_eqI) (auto simp: bit_simps dest: bit_imp_le_length)
  show "(drop_bit 8 (ucast r OR push_bit 8 (ucast s) OR push_bit 16 (b32 b)) AND 255 :: u32) = ucast s"
    unfolding byte_masks
    by (rule bit_word_eqI) (auto simp: b32_def bit_simps dest: bit_imp_le_length)
  have "(x :: u32) AND push_bit 16 1 \<noteq> 0 \<longleftrightarrow> bit x 16" for x
    by (simp only: bit_iff_and_push_bit_not_eq_0)
  then show "(ucast r OR push_bit 8 (ucast s) OR push_bit 16 (b32 b) :: u32) AND push_bit 16 1 \<noteq> 0 \<longleftrightarrow> b"
    by (auto simp: b32_def bit_simps dest: bit_imp_le_length)
qed

end
