(* ===== verification/Cockpit_Contract.thy ===== *)
theory Cockpit_Contract
  imports Cockpit_Request Cockpit_Events
begin

text \<open>
  The contract of \<open>cockpit/contract.rs\<close>: a request is checked against the verbs and limits a brainstem
  advertises, or clamped into them, before it is sent. Magnitudes are taken with \<open>i16::abs\<close> of a release
  build, which leaves the least value as it is; a \<open>clamp\<close> whose bounds are crossed panics, here \<open>None\<close>.
\<close>

section \<open>Capabilities\<close>

record cockpit_limits =
  li_max_linear_mm_s :: i16
  li_max_angular_mrad_s :: i16
  li_min_ttl_ms :: u32
  li_max_ttl_ms :: u32

definition default_limits :: cockpit_limits where
  "default_limits =
     \<lparr>li_max_linear_mm_s = 32767, li_max_angular_mrad_s = 32767, li_min_ttl_ms = 1, li_max_ttl_ms = 4294967295\<rparr>"

record cockpit_capabilities =
  ca_body_kind :: string
  ca_drive :: string
  ca_verbs :: "string list"
  ca_sensors :: "string list"
  ca_outputs :: "string list"
  ca_safety :: "string list"
  ca_events :: "string list"
  ca_independent_watchdog :: "bool option"
  ca_limits :: cockpit_limits

definition supports :: "cockpit_capabilities \<Rightarrow> string \<Rightarrow> bool" where
  "supports c v \<longleftrightarrow> list_ex (\<lambda>candidate. candidate = v) (ca_verbs c)"

text \<open>\<open>CockpitError::Policy\<close>, its formatted text kept as a constructor with the values it names.\<close>

datatype policy_error =
    UnsupportedVerb string
  | LinearExceeds string i16 i16
  | AngularExceeds string i16 i16
  | TtlOutside u32 u32 u32
  | UnknownEvents "string list"

section \<open>Limits\<close>

definition wrapping_abs :: "i16 \<Rightarrow> i16" where
  "wrapping_abs v = (if sint v < 0 then - v else v)"

definition check_linear :: "cockpit_limits \<Rightarrow> i16 \<Rightarrow> string \<Rightarrow> policy_error + unit" where
  "check_linear l v name =
     (let max_linear = wrapping_abs (li_max_linear_mm_s l) in
      if sint (wrapping_abs v) > sint max_linear then Inl (LinearExceeds name v max_linear) else Inr ())"

definition check_angular :: "cockpit_limits \<Rightarrow> i16 \<Rightarrow> string \<Rightarrow> policy_error + unit" where
  "check_angular l v name =
     (let max_angular = wrapping_abs (li_max_angular_mrad_s l) in
      if sint (wrapping_abs v) > sint max_angular then Inl (AngularExceeds name v max_angular) else Inr ())"

text \<open>The \<open>?\<close> between two checks.\<close>

definition both_checks :: "'e + unit \<Rightarrow> 'e + unit \<Rightarrow> 'e + unit" where
  "both_checks a b = (case a of Inl e \<Rightarrow> Inl e | Inr _ \<Rightarrow> b)"

definition validate_motion_limits :: "cockpit_limits \<Rightarrow> cockpit_request \<Rightarrow> policy_error + unit" where
  "validate_motion_limits l r =
     (case r of
        QCmdVel linear angular _ \<Rightarrow>
          both_checks (check_linear l linear ''linear_mm_s'') (check_angular l angular ''angular_mrad_s'')
      | QDriveDirect left right _ \<Rightarrow>
          both_checks (check_linear l left ''left_mm_s'') (check_linear l right ''right_mm_s'')
      | QDriveArc velocity _ _ \<Rightarrow> check_linear l velocity ''velocity_mm_s''
      | QArcFor velocity _ _ \<Rightarrow> check_linear l velocity ''velocity_mm_s''
      | QCreepUntil velocity _ _ \<Rightarrow> check_linear l velocity ''velocity_mm_s''
      | QHoldHeading _ velocity angular _ \<Rightarrow>
          both_checks (check_linear l velocity ''velocity_mm_s'') (check_angular l angular ''max_angular_mrad_s'')
      | QWallFollow _ velocity angular _ \<Rightarrow>
          both_checks (check_linear l velocity ''velocity_mm_s'') (check_angular l angular ''max_angular_mrad_s'')
      | QDriveFor _ velocity _ \<Rightarrow> check_linear l velocity ''velocity_mm_s''
      | QTrackBearing _ _ linear angular _ _ \<Rightarrow>
          both_checks (check_linear l linear ''max_linear_mm_s'') (check_angular l angular ''max_angular_mrad_s'')
      | QDockAlign _ _ linear angular _ _ \<Rightarrow>
          both_checks (check_linear l linear ''max_linear_mm_s'') (check_angular l angular ''max_angular_mrad_s'')
      | QFaceBearing _ angular _ _ \<Rightarrow> check_angular l angular ''max_angular_mrad_s''
      | QTurnBy _ angular _ \<Rightarrow> check_angular l angular ''angular_mrad_s''
      | QTurnToHeading _ angular _ _ \<Rightarrow> check_angular l angular ''angular_mrad_s''
      | QScanArc _ angular _ \<Rightarrow> check_angular l angular ''angular_mrad_s''
      | QWiggleAlign _ angular _ \<Rightarrow> check_angular l angular ''angular_mrad_s''
      | QCalibrateTurn angular _ \<Rightarrow> check_angular l angular ''angular_mrad_s''
      | QOrientationProbe angular _ \<Rightarrow> check_angular l angular ''angular_mrad_s''
      | QBumpEscape _ backoff turn \<Rightarrow>
          both_checks (check_linear l backoff ''backoff_mm_s'') (check_angular l turn ''turn_angular_mrad_s'')
      | QUnstick _ backoff turn \<Rightarrow>
          both_checks (check_linear l backoff ''backoff_mm_s'') (check_angular l turn ''turn_angular_mrad_s'')
      | _ \<Rightarrow> Inr ())"

definition validate_ttl_limits :: "cockpit_limits \<Rightarrow> cockpit_request \<Rightarrow> policy_error + unit" where
  "validate_ttl_limits l r =
     (case ttl_or_timeout_ms r of
        None \<Rightarrow> Inr ()
      | Some ttl_ms \<Rightarrow>
          if ttl_ms < li_min_ttl_ms l \<or> ttl_ms > li_max_ttl_ms l
          then Inl (TtlOutside ttl_ms (li_min_ttl_ms l) (li_max_ttl_ms l)) else Inr ())"

definition validate_request :: "cockpit_capabilities \<Rightarrow> cockpit_request \<Rightarrow> policy_error + unit" where
  "validate_request c r =
     both_checks (case required_capability r of
                 None \<Rightarrow> Inr ()
               | Some v \<Rightarrow> if supports c v then Inr () else Inl (UnsupportedVerb v))
       (both_checks (validate_motion_limits (ca_limits c) r) (validate_ttl_limits (ca_limits c) r))"

text \<open>\<open>i16::clamp\<close> and \<open>u32::clamp\<close>.\<close>

definition clamp_signed :: "i16 \<Rightarrow> i16 \<Rightarrow> i16 \<Rightarrow> i16 option" where
  "clamp_signed lo hi v =
     (if sint lo > sint hi then None
      else Some (if sint v < sint lo then lo else if sint v > sint hi then hi else v))"

definition clamp_u32 :: "u32 \<Rightarrow> u32 \<Rightarrow> u32 \<Rightarrow> u32 option" where
  "clamp_u32 lo hi v = (if lo > hi then None else Some (clamp_word lo hi v))"

definition clamp_motion_request :: "cockpit_limits \<Rightarrow> cockpit_request \<Rightarrow> cockpit_request option" where
  "clamp_motion_request l r =
     (let linear = wrapping_abs (li_max_linear_mm_s l);
          angular = wrapping_abs (li_max_angular_mrad_s l);
          clamp_ttl = clamp_u32 (li_min_ttl_ms l) (li_max_ttl_ms l) in
      case r of
        QCmdVel linear_mm_s angular_mrad_s ttl_ms \<Rightarrow>
          Option.bind (clamp_signed (- linear) linear linear_mm_s) (\<lambda>v.
            Option.bind (clamp_signed (- angular) angular angular_mrad_s) (\<lambda>w.
              Option.bind (clamp_ttl ttl_ms) (\<lambda>t. Some (QCmdVel v w t))))
      | QHeartbeatStop timeout_ms \<Rightarrow> Option.bind (clamp_ttl timeout_ms) (\<lambda>t. Some (QHeartbeatStop t))
      | other \<Rightarrow> Some other)"

section \<open>Vocabulary\<close>

definition unknown_events :: "cockpit_capabilities \<Rightarrow> string list" where
  "unknown_events c = filter (\<lambda>e. is_unknown_event (event_from_str e)) (ca_events c)"

definition validate_event_vocabulary :: "cockpit_capabilities \<Rightarrow> policy_error + unit" where
  "validate_event_vocabulary c =
     (if unknown_events c = [] then Inr () else Inl (UnknownEvents (unknown_events c)))"

record contract_report =
  rp_missing_verbs :: "string list"
  rp_extra_verbs :: "string list"
  rp_optional_absent_verbs :: "string list"
  rp_unknown_events :: "string list"

definition validate_local_model :: "cockpit_capabilities \<Rightarrow> contract_report" where
  "validate_local_model c =
     \<lparr>rp_missing_verbs = filter (\<lambda>v. v \<notin> set sample_cockpit_capability_verbs \<and>
        v \<notin> set tolerated_advertised_verbs) (ca_verbs c),
      rp_extra_verbs = filter (\<lambda>v. \<not> supports c v \<and> v \<notin> set optional_cockpit_verbs)
        sample_cockpit_capability_verbs,
      rp_optional_absent_verbs = filter (\<lambda>v. \<not> supports c v) optional_cockpit_verbs,
      rp_unknown_events = unknown_events c\<rparr>"

definition report_is_clean :: "contract_report \<Rightarrow> bool" where
  "report_is_clean r \<longleftrightarrow> rp_missing_verbs r = [] \<and> rp_extra_verbs r = [] \<and> rp_unknown_events r = []"

section \<open>Lemmas\<close>

lemma sint_wrapping_abs: "sint v \<noteq> - 32768 \<Longrightarrow> sint (wrapping_abs v) = \<bar>sint v\<bar>"
proof -
  assume "sint v \<noteq> - 32768"
  moreover have "- 32768 \<le> sint v" "sint v < 32768"
    using sint_greater_eq [of v] sint_less [of v] by simp_all
  ultimately have r: "- 32768 \<le> - sint v" "- sint v < 32768" by simp_all
  have "sint (- v) = signed_take_bit 15 (- sint v)" by (simp add: sint_word_ariths)
  also have "\<dots> = - sint v" using r by (intro signed_take_bit_int_eq_self) simp_all
  finally show ?thesis by (auto simp: wrapping_abs_def)
qed

lemma sint_neg_abs: "sint m \<noteq> - 32768 \<Longrightarrow> sint (- wrapping_abs m) = - \<bar>sint m\<bar>"
proof -
  assume a: "sint m \<noteq> - 32768"
  have r: "- 32768 \<le> sint m" "sint m < 32768"
    using sint_greater_eq [of m] sint_less [of m] by simp_all
  have "sint (- wrapping_abs m) = signed_take_bit 15 (- \<bar>sint m\<bar>)"
    by (simp add: sint_word_ariths sint_wrapping_abs [OF a])
  also have "\<dots> = - \<bar>sint m\<bar>" using r a by (intro signed_take_bit_int_eq_self) auto
  finally show ?thesis .
qed

lemma clamp_signed_symmetric:
  assumes "sint m \<noteq> - 32768"
  shows "\<exists>w. clamp_signed (- wrapping_abs m) (wrapping_abs m) v = Some w \<and>
    sint w = max (- \<bar>sint m\<bar>) (min \<bar>sint m\<bar> (sint v))"
  using assms by (auto simp: clamp_signed_def sint_wrapping_abs sint_neg_abs)

lemma clamp_signed_bound:
  assumes "sint m \<noteq> - 32768"
  shows "\<exists>w. clamp_signed (- wrapping_abs m) (wrapping_abs m) v = Some w \<and> \<bar>sint w\<bar> \<le> \<bar>sint m\<bar>"
proof -
  obtain w where w: "clamp_signed (- wrapping_abs m) (wrapping_abs m) v = Some w"
      "sint w = max (- \<bar>sint m\<bar>) (min \<bar>sint m\<bar> (sint v))"
    using clamp_signed_symmetric [OF assms] by blast
  have "\<bar>max (- \<bar>a\<bar>) (min \<bar>a\<bar> b)\<bar> \<le> \<bar>a\<bar>" for a b :: int by linarith
  with w show ?thesis by metis
qed

lemma both_checks_ok [simp]: "both_checks a b = Inr u \<longleftrightarrow> a = Inr () \<and> b = Inr ()"
  by (cases a) (auto simp: both_checks_def)

lemma check_linear_ok:
  "sint v \<noteq> - 32768 \<Longrightarrow> sint (li_max_linear_mm_s l) \<noteq> - 32768 \<Longrightarrow>
   check_linear l v n = Inr () \<longleftrightarrow> \<bar>sint v\<bar> \<le> \<bar>sint (li_max_linear_mm_s l)\<bar>"
  by (simp add: check_linear_def sint_wrapping_abs not_less)

lemma check_angular_ok:
  "sint v \<noteq> - 32768 \<Longrightarrow> sint (li_max_angular_mrad_s l) \<noteq> - 32768 \<Longrightarrow>
   check_angular l v n = Inr () \<longleftrightarrow> \<bar>sint v\<bar> \<le> \<bar>sint (li_max_angular_mrad_s l)\<bar>"
  by (simp add: check_angular_def sint_wrapping_abs not_less)

text \<open>The least value is its own magnitude, so it passes every check.\<close>

lemma least_value_passes:
  "sint (li_max_linear_mm_s l) \<noteq> - 32768 \<Longrightarrow> check_linear l 32768 n = Inr ()"
  "sint (li_max_angular_mrad_s l) \<noteq> - 32768 \<Longrightarrow> check_angular l 32768 n = Inr ()"
  by (simp_all add: check_linear_def check_angular_def sint_wrapping_abs, simp_all add: wrapping_abs_def)

text \<open>Limits a contract can be clamped to.\<close>

definition limits_ok :: "cockpit_limits \<Rightarrow> bool" where
  "limits_ok l \<longleftrightarrow> sint (li_max_linear_mm_s l) \<noteq> - 32768 \<and> sint (li_max_angular_mrad_s l) \<noteq> - 32768 \<and>
     li_min_ttl_ms l \<le> li_max_ttl_ms l"

definition within_limits :: "cockpit_limits \<Rightarrow> i16 \<Rightarrow> i16 \<Rightarrow> u32 \<Rightarrow> bool" where
  "within_limits l linear angular ttl \<longleftrightarrow>
     \<bar>sint linear\<bar> \<le> \<bar>sint (li_max_linear_mm_s l)\<bar> \<and> \<bar>sint angular\<bar> \<le> \<bar>sint (li_max_angular_mrad_s l)\<bar> \<and>
     li_min_ttl_ms l \<le> ttl \<and> ttl \<le> li_max_ttl_ms l"

lemma limits_ok_least: "limits_ok l \<Longrightarrow> within_limits l v w t \<Longrightarrow> sint v \<noteq> - 32768 \<and> sint w \<noteq> - 32768"
  using sint_greater_eq [of "li_max_linear_mm_s l"] sint_less [of "li_max_linear_mm_s l"]
    sint_greater_eq [of "li_max_angular_mrad_s l"] sint_less [of "li_max_angular_mrad_s l"]
  by (auto simp: limits_ok_def within_limits_def)

lemma clamp_cmd_vel:
  assumes "limits_ok l"
  shows "\<exists>v' w' t'. clamp_motion_request l (QCmdVel v w t) = Some (QCmdVel v' w' t') \<and> within_limits l v' w' t'"
proof -
  obtain v' where v: "clamp_signed (- wrapping_abs (li_max_linear_mm_s l)) (wrapping_abs (li_max_linear_mm_s l)) v = Some v'"
      "\<bar>sint v'\<bar> \<le> \<bar>sint (li_max_linear_mm_s l)\<bar>"
    using clamp_signed_bound [of "li_max_linear_mm_s l" v] assms by (auto simp: limits_ok_def)
  obtain w' where w: "clamp_signed (- wrapping_abs (li_max_angular_mrad_s l)) (wrapping_abs (li_max_angular_mrad_s l)) w = Some w'"
      "\<bar>sint w'\<bar> \<le> \<bar>sint (li_max_angular_mrad_s l)\<bar>"
    using clamp_signed_bound [of "li_max_angular_mrad_s l" w] assms by (auto simp: limits_ok_def)
  show ?thesis
    using assms v w clamp_word_bounds [of "li_min_ttl_ms l" "li_max_ttl_ms l" t]
    by (simp add: clamp_motion_request_def clamp_u32_def limits_ok_def within_limits_def not_less)
qed

lemma validate_cmd_vel:
  "limits_ok (ca_limits c) \<Longrightarrow> within_limits (ca_limits c) v w t \<Longrightarrow>
   validate_request c (QCmdVel v w t) = Inr () \<longleftrightarrow> supports c ''cmd_vel''"
  using limits_ok_least [of "ca_limits c" v w t]
  by (auto simp: validate_request_def required_capability_def validate_motion_limits_def
      validate_ttl_limits_def ttl_or_timeout_ms_def check_linear_ok check_angular_ok limits_ok_def
      within_limits_def not_less)

end
