(* ===== verification/Control_Rules.thy ===== *)
theory Control_Rules
  imports Control_Lines Wire_Rules Cockpit_Contract
begin

text \<open>
  The rules of the client and of the lanes it speaks to: what the client writes is what the firmware reads,
  both sides ask the same authority for a request, a line that needs a lease does nothing without one, and a
  line the forebrain's port cannot use stops the robot.
\<close>

section \<open>Both sides ask the same\<close>

definition scope_code :: "service_scope \<Rightarrow> u8" where
  "scope_code scope = (case scope of ScopeBootsel \<Rightarrow> 1 | ScopeRestartCreate \<Rightarrow> 3 | ScopeResetMotherbrain \<Rightarrow> 4)"

lemma requirements_agree:
  assumes "meant_command r seq = Some c" "\<not> removed_convenience r"
  shows "command_requires_session c = requires_session r"
    "command_requires_authority c = requires_control_authority r"
    "command_requires_service_authority c \<longleftrightarrow> required_service_scope r \<noteq> None"
    "required_service_scope r = Some scope \<Longrightarrow> command_scope c = scope_code scope"
  using assms
  by (cases r; force simp: meant_command_def removed_convenience_def command_requires_session_def
      requires_session_def authorization_class_of_def command_requires_authority_def
      requires_control_authority_def command_requires_service_authority_def required_service_scope_def
      command_scope_def scope_code_def)+

section \<open>Stops\<close>

text \<open>The next command taken is the stop, and nothing waits behind it.\<close>

definition only_stop_waits :: "lane \<Rightarrow> bool" where
  "only_stop_waits l \<longleftrightarrow>
     snd (take_control_command (ad_status l)) = Some BStop \<and>
     snd (take_control_command (fst (take_control_command (ad_status l)))) = None"

lemma submitted_stop_waits: "only_stop_waits (submit_forebrain_stop cf l)"
proof -
  have c: "is_stop BStop" "\<not> is_query BStop" "\<not> is_velocity BStop" "delivered BStop = Some BStop"
    by (simp_all add: is_stop_def is_query_def is_velocity_def delivered_def)
  note acc = stop_always_accepted [OF c(1), of "lc_platform cf" 0 0 0 "ad_status l"]
  show ?thesis
    using accepted_command_is_delivered [OF acc c(2,3)] c
    by (simp add: only_stop_waits_def submit_forebrain_stop_def on_status_def)
qed

lemma dropped_line_stops: "only_stop_waits (fst (snd (drop_line cf e reason l)))"
  by (simp add: drop_line_def submitted_stop_waits)

section \<open>Commands on a line\<close>

lemma no_refusal:
  assumes "refusal_reason cf now_ms c e s = None"
  shows "command_requires_session c \<Longrightarrow> \<exists>sid. ev_session e = Some sid \<and> active_session_matches (token_hash sid) s"
    and "command_requires_authority c \<Longrightarrow>
      \<exists>sid lid. ev_session e = Some sid \<and> ev_lease e = Some lid \<and>
        active_authority_matches (token_hash sid) (token_hash lid) now_ms s"
    and "command_requires_service_authority c \<Longrightarrow>
      \<exists>sid lid. ev_session e = Some sid \<and> ev_service e = Some lid \<and>
        active_service_authority_matches (token_hash sid) (token_hash lid) now_ms (command_scope c) s"
  using assms
  by (auto simp: refusal_reason_def compact_session_valid_def compact_authority_valid_def
      compact_service_authority_valid_def authority_heartbeat_valid_def Let_def
      split: if_splits option.splits)

lemma uart_command_changes:
  assumes "parse_forebrain_uart_command (ev_command (compact_envelope line)) = Inr (seq, c)"
    and "ad_status (fst (handle_uart_command cf now_ms line l)) \<noteq> ad_status l"
  shows "refusal_reason cf now_ms c (compact_envelope line) (ad_status l) = None"
  using assms
  by (auto simp: handle_uart_command_def Let_def mark_forebrain_uart_command_def
      split: if_splits option.splits prod.splits)

lemma usb_command_changes:
  assumes "parse_forebrain_uart_command (ev_command (compact_envelope line)) = Inr (seq, c)"
    and "ad_status (fst (handle_compact_command cf now_ms line l)) \<noteq> ad_status l"
  shows "refusal_reason cf now_ms c (compact_envelope line) (ad_status l) = None"
  using assms
  by (auto simp: handle_compact_command_def Let_def split: if_splits option.splits prod.splits)

section \<open>Bytes and texts\<close>

lemma byte_of_char [simp]: "unat (of_char c :: u8) = of_char c"
proof -
  have "(of_char c :: u8) = of_nat (of_char c)" by (simp only: of_nat_of_char)
  then have "unat (of_char c :: u8) = of_char c mod 256" by (simp only: unat_of_nat) simp
  then show ?thesis by simp
qed

lemma text_of_bytes [simp]: "text_of (str_bytes s) = s"
  by (simp add: text_of_def str_bytes_def comp_def)

definition printable :: "string \<Rightarrow> bool" where
  "printable s \<longleftrightarrow> (\<forall>c \<in> set s. 32 \<le> (of_char c :: nat) \<and> (of_char c :: nat) < 127)"

lemma printable_simps [simp]:
  "printable []" "printable (c # s) \<longleftrightarrow> 32 \<le> (of_char c :: nat) \<and> (of_char c :: nat) < 127 \<and> printable s"
  "printable (s @ t) \<longleftrightarrow> printable s \<and> printable t"
  by (auto simp: printable_def)

lemma utf8_ascii: "(\<And>b. b \<in> set bs \<Longrightarrow> b < 0x80) \<Longrightarrow> utf8_valid bs"
  by (induction bs) (simp_all add: Let_def)

lemma printable_utf8: "printable s \<Longrightarrow> utf8_valid (str_bytes s)"
  by (rule utf8_ascii) (auto simp: str_bytes_def printable_def word_less_nat_alt)

definition line_bytes :: "u8 list \<Rightarrow> bool" where
  "line_bytes bs \<longleftrightarrow> (\<forall>b \<in> set bs. b \<noteq> 10 \<and> b \<noteq> 13)"

lemma byte_not_control:
  assumes "32 \<le> (of_char c :: nat)" "unat w < 32"
  shows "(of_char c :: u8) \<noteq> w"
proof
  assume "(of_char c :: u8) = w"
  then have "unat w = of_char c" by (metis byte_of_char)
  with assms show False by simp
qed

lemma printable_line_bytes:
  assumes "printable s"
  shows "line_bytes (str_bytes s)"
  unfolding line_bytes_def
proof
  fix b assume "b \<in> set (str_bytes s)"
  then obtain c where c: "c \<in> set s" "b = of_char c" unfolding str_bytes_def by auto
  then have "32 \<le> (of_char c :: nat)" using assms by (simp add: printable_def)
  then show "b \<noteq> 10 \<and> b \<noteq> 13" using byte_not_control [of c 10] byte_not_control [of c 13] c(2) by simp
qed

lemma plain_word_printable:
  assumes "plain_word w"
  shows "printable w"
  unfolding printable_def
proof
  fix c assume "c \<in> set w"
  then have "plain_char c" using assms by (simp add: plain_word_def list_all_iff)
  then show "32 \<le> (of_char c :: nat) \<and> (of_char c :: nat) < 127" by (simp add: plain_char_def)
qed

lemma join_words_printable: "list_all plain_word ws \<Longrightarrow> printable (join_words ws)"
  by (induction ws rule: join_words.induct) (auto simp: plain_word_printable)

lemma request_line_printable:
  "plain_arguments r \<Longrightarrow> printable (butlast (to_compact_line r seq))"
  using plain_word_arguments [of r]
  by (simp add: to_compact_line_def butlast_append compact_words_def join_words_printable del: join_words.simps)

section \<open>The byte loop\<close>

lemma uart_task_run_append:
  "uart_task_run cf (xs @ ys) st =
     (case uart_task_run cf xs st of (t, l, replies) \<Rightarrow>
       (case uart_task_run cf ys (t, l) of (t, l, later) \<Rightarrow> (t, l, replies @ later)))"
  by (induction cf xs st rule: uart_task_run.induct) (auto split: prod.splits)

definition read_bytes :: "environment \<Rightarrow> u8 list \<Rightarrow> (uart_read \<times> environment) list" where
  "read_bytes en bs = map (\<lambda>b. (ReadByte b, en)) bs"

lemma read_bytes_append: "read_bytes en (xs @ ys) = read_bytes en xs @ read_bytes en ys"
  by (simp add: read_bytes_def)

text \<open>Bytes of a line are collected; only the counters move.\<close>

lemma collect_line:
  assumes "line_bytes bs" "length (ut_line t) + length bs \<le> forebrain_line_max"
  shows "\<exists>started u. uart_task_run cf (read_bytes en bs) (t, l) =
    (\<lparr>ut_line = ut_line t @ bs, ut_started_ms = started\<rparr>, l\<lparr>ln_uart := u\<rparr>, [])"
  using assms
proof (induction bs arbitrary: t l)
  case Nil
  have "l = l\<lparr>ln_uart := ln_uart l\<rparr>" "t = \<lparr>ut_line = ut_line t @ [], ut_started_ms = ut_started_ms t\<rparr>" by simp_all
  then show ?case
    by (intro exI [of _ "ut_started_ms t"] exI [of _ "ln_uart l"]) (simp add: read_bytes_def)
next
  case (Cons b bs)
  define t1 where "t1 = (if ut_line t = [] then t\<lparr>ut_started_ms := en_clock en 0\<rparr> else t)"
  have line1: "ut_line t1 = ut_line t" by (simp add: t1_def)
  define l1 where "l1 = mark_forebrain_uart_rx_byte (en_clock en 0) l"
  have step: "uart_task_step cf en (ReadByte b) (t, l) = (t1\<lparr>ut_line := ut_line t @ [b]\<rparr>, l1, [])"
    using Cons.prems by (simp add: uart_task_step_def line_bytes_def Let_def t1_def l1_def)
  obtain started u where "uart_task_run cf (read_bytes en bs) (t1\<lparr>ut_line := ut_line t @ [b]\<rparr>, l1) =
      (\<lparr>ut_line = ut_line t @ [b] @ bs, ut_started_ms = started\<rparr>, l1\<lparr>ln_uart := u\<rparr>, [])"
    using Cons.IH [of "t1\<lparr>ut_line := ut_line t @ [b]\<rparr>" l1] Cons.prems by (auto simp: line_bytes_def)
  moreover have "l1\<lparr>ln_uart := u\<rparr> = l\<lparr>ln_uart := u\<rparr>"
    by (simp add: l1_def mark_forebrain_uart_rx_byte_def)
  ultimately show ?case using step by (auto simp: read_bytes_def)
qed

text \<open>A whole line is handled as one, whatever the counters say.\<close>

lemma whole_line:
  assumes "printable line" "length line \<le> forebrain_line_max"
  shows "\<exists>u. uart_task_run cf (read_bytes en (str_bytes (line @ [CHR 0x0A]))) (idle_uart_task, l) =
    (case handle_forebrain_uart_line cf en (str_bytes line) (l\<lparr>ln_uart := u\<rparr>) of
       (l', replies) \<Rightarrow> (idle_uart_task, l', replies))"
proof -
  have b: "str_bytes (line @ [CHR 0x0A]) = str_bytes line @ [10]" by (simp add: str_bytes_def)
  have "length (str_bytes line) \<le> forebrain_line_max" using assms(2) by (simp add: str_bytes_def)
  with collect_line [OF printable_line_bytes [OF assms(1)], of idle_uart_task cf en l]
  obtain started u where c: "uart_task_run cf (read_bytes en (str_bytes line)) (idle_uart_task, l) =
      (\<lparr>ut_line = str_bytes line, ut_started_ms = started\<rparr>, l\<lparr>ln_uart := u\<rparr>, [])"
    by (auto simp: idle_uart_task_def)
  define l1 where "l1 = mark_forebrain_uart_rx_byte (en_clock en 0) (l\<lparr>ln_uart := u\<rparr>)"
  have "l1 = l\<lparr>ln_uart := ln_uart l1\<rparr>" by (simp add: l1_def mark_forebrain_uart_rx_byte_def)
  moreover have "uart_task_run cf (read_bytes en (str_bytes (line @ [CHR 0x0A]))) (idle_uart_task, l) =
      (case handle_forebrain_uart_line cf en (str_bytes line) l1 of
         (l', replies) \<Rightarrow> (idle_uart_task, l', replies))"
    unfolding b read_bytes_append uart_task_run_append c
    by (simp add: read_bytes_def uart_task_step_def Let_def l1_def split: prod.splits)
  ultimately show ?thesis by metis
qed

text \<open>One byte more than the buffer holds: the line is dropped and the robot stopped.\<close>

lemma overlong_line:
  assumes "line_bytes bs" "length bs = Suc forebrain_line_max"
  shows "\<exists>u. uart_task_run cf (read_bytes en bs) (idle_uart_task, l) =
    drop_line cf UeLineTooLong ''line_too_long'' (l\<lparr>ln_uart := u\<rparr>)"
proof -
  obtain front b where bs: "bs = front @ [b]" "length front = forebrain_line_max"
    using assms(2) by (metis append_butlast_last_id length_0_conv length_butlast nat.simps(3) diff_Suc_1)
  have "line_bytes front" using assms(1) by (simp add: bs line_bytes_def)
  with collect_line [of front idle_uart_task cf en l] bs(2)
  obtain started u where c: "uart_task_run cf (read_bytes en front) (idle_uart_task, l) =
      (\<lparr>ut_line = front, ut_started_ms = started\<rparr>, l\<lparr>ln_uart := u\<rparr>, [])"
    by (auto simp: idle_uart_task_def)
  define l1 where "l1 = mark_forebrain_uart_rx_byte (en_clock en 0) (l\<lparr>ln_uart := u\<rparr>)"
  have "b \<noteq> 10" "b \<noteq> 13" "front \<noteq> []"
    using assms(1) bs(2) by (auto simp: bs(1) line_bytes_def forebrain_line_max_def)
  then have "uart_task_run cf (read_bytes en bs) (idle_uart_task, l) =
      drop_line cf UeLineTooLong ''line_too_long'' l1"
    unfolding bs(1) read_bytes_append uart_task_run_append c
    using bs(2) by (simp add: read_bytes_def uart_task_step_def Let_def l1_def drop_line_def forebrain_line_max_def split: prod.splits)
  moreover have "l1 = l\<lparr>ln_uart := ln_uart l1\<rparr>" by (simp add: l1_def mark_forebrain_uart_rx_byte_def)
  ultimately show ?thesis by metis
qed

section \<open>First words\<close>

lemma first_word:
  assumes "CHR '' '' \<notin> set w" "CHR '' '' \<notin> set p"
    and "take (Suc (length p)) (w @ CHR '' '' # rest) = p @ [CHR '' '']"
  shows "w = p"
proof -
  have "w @ CHR '' '' # rest = p @ CHR '' '' # drop (Suc (length p)) (w @ CHR '' '' # rest)"
    by (metis append_take_drop_id assms(3) append_assoc append_Cons append_Nil)
  then have "takeWhile (\<lambda>c. c \<noteq> CHR '' '') (w @ CHR '' '' # rest) =
      takeWhile (\<lambda>c. c \<noteq> CHR '' '') (p @ CHR '' '' # drop (Suc (length p)) (w @ CHR '' '' # rest))" by metis
  moreover have "takeWhile (\<lambda>c. c \<noteq> CHR '' '') (v @ CHR '' '' # x) = v" if "CHR '' '' \<notin> set v" for v x
    using that by (subst takeWhile_append2) auto
  ultimately show ?thesis using assms(1,2) by metis
qed

definition handshake_words :: "string list" where
  "handshake_words =
     [''HELLO'', ''REGISTER_NETWORK_ENDPOINT'', ''ACQUIRE_CONTROL_LEASE'', ''ACQUIRE_SERVICE_LEASE'']"

lemma meant_word: "meant_command r seq = Some c \<Longrightarrow> line_word r \<notin> set handshake_words"
  by (cases r) (simp_all add: meant_command_def removed_convenience_def handshake_words_def)

lemma other_prefix:
  assumes "CHR '' '' \<notin> set w" "w \<notin> set handshake_words"
  shows "strip_prefix ''HELLO '' (w @ CHR '' '' # rest) = None"
    "take 26 (w @ CHR '' '' # rest) \<noteq> ''REGISTER_NETWORK_ENDPOINT ''"
    "take 22 (w @ CHR '' '' # rest) \<noteq> ''ACQUIRE_CONTROL_LEASE ''"
    "take 22 (w @ CHR '' '' # rest) \<noteq> ''ACQUIRE_SERVICE_LEASE ''"
proof -
  have no: "take n (w @ CHR '' '' # rest) \<noteq> p @ [CHR '' '']"
    if "p \<in> set handshake_words" "CHR '' '' \<notin> set p" "n = Suc (length p)" for p n
    using first_word [OF assms(1) that(2)] that(1,3) assms(2) by metis
  show "strip_prefix ''HELLO '' (w @ CHR '' '' # rest) = None"
    using no [of "''HELLO''" "length ''HELLO ''"] unfolding strip_prefix_def by (simp add: handshake_words_def del: take_append)
  show "take 26 (w @ CHR '' '' # rest) \<noteq> ''REGISTER_NETWORK_ENDPOINT ''"
    using no [of "''REGISTER_NETWORK_ENDPOINT''" 26] by (simp add: handshake_words_def del: take_append)
  show "take 22 (w @ CHR '' '' # rest) \<noteq> ''ACQUIRE_CONTROL_LEASE ''"
    using no [of "''ACQUIRE_CONTROL_LEASE''" 22] by (simp add: handshake_words_def del: take_append)
  show "take 22 (w @ CHR '' '' # rest) \<noteq> ''ACQUIRE_SERVICE_LEASE ''"
    using no [of "''ACQUIRE_SERVICE_LEASE''" 22] by (simp add: handshake_words_def del: take_append)
qed

text \<open>A line that starts with the text of a meant request goes to the command handler.\<close>

lemma request_goes_to_command:
  assumes "meant_command r seq = Some c"
  shows "handle_forebrain_uart_text cf en (butlast (to_compact_line r seq) @ tail) l =
    handle_uart_command cf (en_clock en 0) (butlast (to_compact_line r seq) @ tail) l"
proof -
  obtain rest where line: "butlast (to_compact_line r seq) = line_word r @ CHR '' '' # rest"
    by (simp add: to_compact_line_def butlast_append compact_words_def)
  show ?thesis
    unfolding line append.assoc append_Cons handle_forebrain_uart_text_def
    using other_prefix [OF plain_word_no_space [OF plain_word_line_word] meant_word [OF assms], of "rest @ tail"]
    by (simp del: take_append)
qed

text \<open>What a session and a control lease admit.\<close>

definition holds_lease :: "lane_config \<Rightarrow> u32 \<Rightarrow> string \<Rightarrow> string \<Rightarrow> status \<Rightarrow> bool" where
  "holds_lease cf now_ms session_id lease_id s \<longleftrightarrow>
     active_session_matches (token_hash session_id) s \<and>
     active_authority_matches (token_hash session_id) (token_hash lease_id) now_ms s"

definition careful_allowed :: "lane_config \<Rightarrow> brainstem_command \<Rightarrow> string \<Rightarrow> status \<Rightarrow> bool" where
  "careful_allowed cf c session_id s \<longleftrightarrow>
     \<not> (case c of BCarefulMode _ _ \<Rightarrow> True | _ \<Rightarrow> False) \<or>
     session_role (token_hash session_id) s = Some 3 \<and> lc_operator_debug cf"

lemma lease_admits:
  assumes "holds_lease cf now_ms sid lid s" "careful_allowed cf c sid s"
    and "command_requires_authority c" "ev_session e = Some sid" "ev_lease e = Some lid"
  shows "refusal_reason cf now_ms c e s = None"
  using assms
  by (simp add: refusal_reason_def holds_lease_def careful_allowed_def compact_session_valid_def
      compact_authority_valid_def authority_heartbeat_valid_def command_requires_authority_def Let_def)

lemma requires_authority_kind:
  "command_requires_authority c \<Longrightarrow>
   c \<noteq> BBootsel \<and> c \<noteq> BGetCapabilities \<and> c \<noteq> BStatus \<and> event_query c = None \<and>
   \<not> command_requires_service_authority c"
  by (cases c) (simp_all add: command_requires_authority_def command_requires_session_def
      command_requires_service_authority_def event_query_def)

lemma authority_line_submits:
  assumes m: "meant_command r seq = Some c" "tones_fit r" "seq \<noteq> 0"
    and a: "command_requires_authority c" "holds_lease cf (en_clock en 0) sid lid (ad_status l)"
      "careful_allowed cf c sid (ad_status l)"
    and p: "spaceless sid" "printable sid" "spaceless lid" "printable lid"
      "length (to_compact_line_with_authority r seq sid lid) \<le> 1025"
    and acc: "snd (submit_control_command (lc_platform cf) seq c 0 0 (ad_status l)) = None"
  shows "\<exists>u. uart_task_run cf (read_bytes en (str_bytes (to_compact_line_with_authority r seq sid lid)))
      (idle_uart_task, l) =
    (idle_uart_task,
     l\<lparr>ad_status := fst (submit_control_command (lc_platform cf) seq c 0 0 (ad_status l)), ln_uart := u\<rparr>,
     [RepOk seq])"
proof -
  define line where "line = butlast (to_compact_line r seq) @ '' session_id='' @ sid @ '' lease_id='' @ lid"
  have full: "to_compact_line_with_authority r seq sid lid = line @ [CHR 0x0A]"
    by (simp add: to_compact_line_with_authority_def to_compact_line_with_session_def line_def butlast_append)
  note plain = meant_plain [OF m(1)]
  have pr: "printable line"
    using request_line_printable [OF plain] p(2,4) by (simp add: line_def)
  have len: "length line \<le> forebrain_line_max" using p(5) by (simp add: full forebrain_line_max_def)
  have ne: "line \<noteq> []" by (simp add: line_def)
  have utf: "utf8_valid (str_bytes line)" by (rule printable_utf8 [OF pr])
  have env: "compact_envelope line = \<lparr>ev_command = butlast (to_compact_line r seq), ev_session = Some sid,
      ev_lease = Some lid, ev_service = None\<rparr>"
    using authority_envelope [OF plain p(1,3), of seq] by (simp add: full)
  note k = requires_authority_kind [OF a(1)]
  obtain s where sub: "submit_control_command (lc_platform cf) seq c 0 0 (ad_status l) = (s, None)"
    using acc by (cases "submit_control_command (lc_platform cf) seq c 0 0 (ad_status l)") auto
  have handled: "\<exists>v. handle_forebrain_uart_line cf en (str_bytes line) (l\<lparr>ln_uart := u\<rparr>) =
      (l\<lparr>ad_status := s, ln_uart := v\<rparr>, [RepOk seq])" for u
  proof -
    have ref: "refusal_reason cf (en_clock en 0) c (compact_envelope line) (ad_status l) = None"
      by (rule lease_admits [OF a(2,3,1)]) (simp_all add: env)
    have "handle_forebrain_uart_line cf en (str_bytes line) (l\<lparr>ln_uart := u\<rparr>) =
        handle_uart_command cf (en_clock en 0) line (l\<lparr>ln_uart := u\<rparr>)"
      using ne utf request_goes_to_command [OF m(1), of cf en "'' session_id='' @ sid @ '' lease_id='' @ lid"]
      by (simp add: handle_forebrain_uart_line_def line_def str_bytes_def [of "[]"]) (simp add: str_bytes_def)
    also have "\<dots> = ((mark_forebrain_uart_command seq (en_clock en 0) (l\<lparr>ln_uart := u\<rparr>))\<lparr>ad_status := s\<rparr>,
        [RepOk seq])"
      using k ref parse_meant(2) [OF m] sub
      by (simp add: handle_uart_command_def env Let_def submit_compact_control_command_def
          mark_forebrain_uart_command_def)
    finally show ?thesis
      by (intro exI [of _ "ln_uart (mark_forebrain_uart_command seq (en_clock en 0) (l\<lparr>ln_uart := u\<rparr>))"])
        (simp add: mark_forebrain_uart_command_def)
  qed
  obtain u where u: "uart_task_run cf (read_bytes en (str_bytes (line @ [CHR 0x0A]))) (idle_uart_task, l) =
      (case handle_forebrain_uart_line cf en (str_bytes line) (l\<lparr>ln_uart := u\<rparr>) of
         (l', replies) \<Rightarrow> (idle_uart_task, l', replies))"
    using whole_line [OF pr len] by blast
  obtain v where "handle_forebrain_uart_line cf en (str_bytes line) (l\<lparr>ln_uart := u\<rparr>) =
      (l\<lparr>ad_status := s, ln_uart := v\<rparr>, [RepOk seq])"
    using handled by blast
  then show ?thesis using u by (auto simp: full sub)
qed

end
