(* ===== verification/Client_Rules.thy ===== *)
theory Client_Rules
  imports Control_Rules
begin

text \<open>
  What holds between the cockpit client and the firmware's serial lanes: the client's lines mean what it
  meant, a lease stands behind every command that moves the robot, a line the forebrain's port cannot use
  stops it, leases are granted exactly when the runtime acknowledges in time, and the events the firmware
  publishes are read as they were recorded.
\<close>

section \<open>Waiting for the runtime\<close>

text \<open>The status after the first \<open>k\<close> waits.\<close>

primrec waited :: "(nat \<Rightarrow> status \<Rightarrow> status) \<Rightarrow> status \<Rightarrow> nat \<Rightarrow> status" where
  "waited world s 0 = s"
| "waited world s (Suc k) = world k (waited world s k)"

lemma waited_add: "waited (\<lambda>i. world (m + i)) (waited world s m) k = waited world s (m + k)"
  by (induction k) simp_all

lemma await_ack_result:
  "await_ack n acked world m (waited world s m) =
     (if \<exists>k<n. acked (waited world s (m + k))
      then let k = (LEAST k. acked (waited world s (m + k))) in (waited world s (m + k), m + k, True)
      else (waited world s (m + n), m + n, False))"
proof (induction n arbitrary: m)
  case 0
  then show ?case by simp
next
  case (Suc n)
  show ?case
  proof (cases "acked (waited world s m)")
    case True
    then have "(LEAST k. acked (waited world s (m + k))) = 0" by (intro Least_equality) simp_all
    moreover have "\<exists>k<Suc n. acked (waited world s (m + k))" using True by (intro exI [of _ 0]) simp
    ultimately show ?thesis using True by simp
  next
    case False
    have some: "(\<exists>k<Suc n. acked (waited world s (m + k))) \<longleftrightarrow> (\<exists>k<n. acked (waited world s (Suc m + k)))"
      using False by (metis (no_types, lifting) Suc_less_eq add_Suc_right add_Suc less_Suc_eq_0_disj add_0_right)
    have step: "await_ack (Suc n) acked world m (waited world s m) =
        await_ack n acked world (Suc m) (waited world s (Suc m))" using False by simp
    show ?thesis
    proof (cases "\<exists>k<n. acked (waited world s (Suc m + k))")
      case True
      then obtain k where k: "acked (waited world s (m + Suc k))" by auto
      have "(LEAST k. acked (waited world s (m + k))) = Suc (LEAST k. acked (waited world s (m + Suc k)))"
        using False by (intro Least_Suc [where P = "\<lambda>k. acked (waited world s (m + k))", OF k]) simp
      then show ?thesis unfolding step Suc.IH some using True by (simp add: Let_def)
    next
      case False
      then show ?thesis unfolding step Suc.IH some if_not_P [OF False] by simp
    qed
  qed
qed

lemma await_ack_start:
  "await_ack n acked world 0 s =
     (if \<exists>k<n. acked (waited world s k)
      then let k = (LEAST k. acked (waited world s k)) in (waited world s k, k, True)
      else (waited world s n, n, False))"
  using await_ack_result [of n acked world 0 s] by (simp only: waited.simps add_0)


text \<open>What \<open>install_authority\<close> asks the runtime for.\<close>

definition granted_lease :: "u32 \<Rightarrow> admission \<Rightarrow> string" where
  "granted_lease session_hash a =
     ''lease-'' @ hex8 (next_generation (ad_authority_generation a)) @ ''-'' @ hex8 session_hash"

definition requested :: "u32 \<Rightarrow> u32 \<Rightarrow> u32 \<Rightarrow> admission \<Rightarrow> status" where
  "requested now_ms session_hash ttl_ms a =
     request_authority_transition (next_generation (ad_authority_generation a))
       (token_hash (granted_lease session_hash a)) session_hash (now_ms + ttl_ms) (ad_status a)"

lemma next_generation_nonzero [simp]: "max (next_generation g) 1 = next_generation g"
  by (simp add: next_generation_def)

lemma install_authority_result:
  "install_authority world now_ms session_hash ttl_ms a =
     (case await_ack 250 (authority_transition_acked (next_generation (ad_authority_generation a))) world 0
             (requested now_ms session_hash ttl_ms a) of
        (s, k, acked) \<Rightarrow>
          (a\<lparr>ad_authority_generation := ad_authority_generation a + 1, ad_status := s\<rparr>,
           if acked then Some (granted_lease session_hash a, next_generation (ad_authority_generation a))
           else None))"
  unfolding install_authority_def requested_def granted_lease_def Let_def by (rule refl)

section \<open>A session and a lease to start from\<close>

text \<open>The status after a session was opened and a lease granted to it.\<close>

definition leased :: "string \<Rightarrow> string \<Rightarrow> status" where
  "leased session_id lease_id =
     acknowledge_authority_transition 1
       (request_authority_transition 1 (token_hash lease_id) (token_hash session_id) 5000
         (acknowledge_session_replace 1 (token_hash session_id) initial_status))"

lemma leased_facts:
  "st_mail (leased sid lid) = initial_mailbox"
  "active_session_matches (token_hash sid) (leased sid lid)"
  "active_authority_matches (token_hash sid) (token_hash lid) 0 (leased sid lid)"
proof -
  show "st_mail (leased sid lid) = initial_mailbox"
    by (simp add: leased_def acknowledge_authority_transition_def request_authority_transition_def
        acknowledge_session_replace_def revoke_service_authority_def emit_def initial_status_def Let_def)
  show "active_session_matches (token_hash sid) (leased sid lid)"
    by (simp add: leased_def active_session_matches_def acknowledge_authority_transition_def
        request_authority_transition_def acknowledge_session_replace_def revoke_service_authority_def
        emit_def Let_def)
  show "active_authority_matches (token_hash sid) (token_hash lid) 0 (leased sid lid)"
    using lease_granted [of 5000 0 "token_hash sid" "token_hash lid" 1] by (simp add: leased_def deadline_span_def)
qed

definition example_config :: lane_config where
  "example_config = \<lparr>lc_platform = example_platform, lc_service_mode = False, lc_operator_debug = False,
     lc_recovery_forebrain = None, lc_device_id = ''pete-brainstem-0001'', lc_boot_id = ''bsboot-00000001'',
     lc_instance_known = True\<rparr>"

definition example_lane :: "status \<Rightarrow> lane" where
  "example_lane s = \<lparr>ad_status = s, ad_registry = initial_registry, ad_cache = initial_session_cache,
     ad_authority_generation = 0, ad_service_generation = 0,
     ln_uart = \<lparr>uc_rx_bytes = 0, uc_last_rx_ms = 0, uc_rx_lines = 0, uc_last_seq = 0, uc_last_command_ms = 0,
       uc_last_error = UeNone\<rparr>\<rparr>"

definition still :: environment where
  "still = \<lparr>en_world = (\<lambda>k s. s), en_clock = (\<lambda>k. 0), en_read_hello = (\<lambda>body. Inr InvalidIdentity)\<rparr>"

lemma example_simps [simp]:
  "lc_platform example_config = example_platform" "ad_status (example_lane s) = s" "en_clock still k = 0"
  by (simp_all add: example_config_def example_lane_def still_def)

lemma arm_accepted:
  "snd (submit_control_command example_platform seq BArm 0 0 (leased sid lid)) = None"
  by (simp add: submit_control_command_def encode_control_command_def plain_def submit_slot_def leased_facts
      initial_mailbox_def Let_def)

lemma show_nat_digit: "n < 10 \<Longrightarrow> show_nat n = [digit_char n]"
  by (subst show_nat.simps) simp

lemma digit_char_seven: "digit_char 7 = CHR ''7''"
  by code_simp

lemmas line_text_defs = to_compact_line_with_authority_def to_compact_line_with_session_def
  to_compact_line_def compact_words_def line_arguments_def show_unsigned_def show_nat_digit digit_char_seven

section \<open>Lines\<close>





text \<open>C4. A line whose command needs a lease changes the status of the robot, over the forebrain's port or the
  USB console, only when it names a live session and the lease that session holds at that moment; a line
  that needs a service lease, only with the service lease of its scope.\<close>

theorem lease_stands_behind_commands:
  assumes "parse_forebrain_uart_command (ev_command (compact_envelope line)) = Inr (seq, c)"
    and "ad_status (fst (handle_uart_command cf now_ms line l)) \<noteq> ad_status l \<or>
      ad_status (fst (handle_compact_command cf now_ms line l)) \<noteq> ad_status l"
  defines "e \<equiv> compact_envelope line"
  shows "(command_requires_authority c \<longrightarrow>
      (\<exists>sid lid. ev_session e = Some sid \<and> ev_lease e = Some lid \<and>
        active_session_matches (token_hash sid) (ad_status l) \<and>
        active_authority_matches (token_hash sid) (token_hash lid) now_ms (ad_status l))) \<and>
    (command_requires_service_authority c \<longrightarrow>
      (\<exists>sid lid. ev_session e = Some sid \<and> ev_service e = Some lid \<and>
        active_session_matches (token_hash sid) (ad_status l) \<and>
        active_service_authority_matches (token_hash sid) (token_hash lid) now_ms (command_scope c) (ad_status l)))"
proof -
  have ref: "refusal_reason cf now_ms c e (ad_status l) = None"
    using assms(2) uart_command_changes [OF assms(1)] usb_command_changes [OF assms(1)] by (auto simp: e_def)
  have "command_requires_authority c \<Longrightarrow> command_requires_session c"
    "command_requires_service_authority c \<Longrightarrow> command_requires_session c"
    by (auto simp: command_requires_authority_def command_requires_service_authority_def
        command_requires_session_def split: brainstem_command.splits)
  then show ?thesis using no_refusal [OF ref] by fastforce
qed

theorem lease_stands_behind_commands_witness:
  "active_authority_matches (token_hash ''s'') (token_hash ''l'') 0 (leased ''s'' ''l'')"
proof -
  let ?line = "butlast (to_compact_line_with_authority QArm 5 ''s'' ''l'')"
  let ?s = "leased ''s'' ''l''"
  have env: "compact_envelope ?line = \<lparr>ev_command = butlast (to_compact_line QArm 5), ev_session = Some ''s'',
      ev_lease = Some ''l'', ev_service = None\<rparr>"
    using authority_envelope [of QArm "''s''" "''l''" 5] by (simp add: plain_arguments_def spaceless_def)
  have parsed: "parse_forebrain_uart_command (ev_command (compact_envelope ?line)) = Inr (5, BArm)"
    using parse_meant(2) [of QArm 5 BArm] by (simp add: env meant_command_def removed_convenience_def tones_fit_def)
  have ok: "refusal_reason example_config 0 BArm (compact_envelope ?line) ?s = None"
    using lease_admits [of example_config 0 "''s''" "''l''" ?s BArm "compact_envelope ?line"] leased_facts
    by (simp add: env holds_lease_def careful_allowed_def command_requires_authority_def
        command_requires_session_def command_requires_service_authority_def)
  let ?sub = "submit_control_command example_platform 5 BArm 0 0 ?s"
  note acc = arm_accepted [of 5 "''s''" "''l''"]
  have "snd (take_control_command (fst ?sub)) = Some BArm"
    using accepted_command_is_delivered(1) [OF acc] by (simp add: is_query_def is_velocity_def delivered_def)
  moreover have "snd (take_control_command ?s) = None"
    by (simp add: take_control_command_def leased_facts initial_mailbox_def Let_def velocity_pending_def)
  ultimately have "fst ?sub \<noteq> ?s" by auto
  then have "ad_status (fst (handle_compact_command example_config 0 ?line (example_lane ?s))) \<noteq> ?s"
    using parsed ok acc
    by (cases ?sub) (simp add: handle_compact_command_def event_query_def submit_compact_control_command_def
        command_requires_service_authority_def Let_def)
  with lease_stands_behind_commands [OF parsed, of example_config 0 "example_lane ?s"]
  show ?thesis
    by (simp add: env command_requires_authority_def command_requires_session_def
        command_requires_service_authority_def)
qed


definition unusable :: "string list" where
  "unusable = [''line_too_long'', ''timeout'', ''uart'', ''utf8'', ''parse'']"

lemma reply_not_unusable:
  "reject_text reason \<notin> set unusable"
  "refusal_reason cf now_ms c e s = Some why \<Longrightarrow> why \<notin> set unusable"
  by (auto simp: reject_text_def unusable_def refusal_reason_def split: command_reject_reason.splits if_splits)

lemma command_reply_unusable:
  assumes "handle_uart_command cf now_ms line l = (l', [RepError n why])" "why \<in> set unusable"
  shows "only_stop_waits l'"
  using assms reply_not_unusable
  by (auto simp: handle_uart_command_def Let_def submitted_stop_waits unusable_def
      split: sum.splits prod.splits if_splits option.splits)

lemma text_reply_unusable:
  assumes "handle_forebrain_uart_text cf en line l = (l', [RepError n why])" "why \<in> set unusable"
  shows "only_stop_waits l'"
  using assms command_reply_unusable [of cf "en_clock en 0" line l l' n why]
  by (auto simp: handle_forebrain_uart_text_def unusable_def split: option.splits prod.splits if_splits)

lemma line_reply_unusable:
  assumes "handle_forebrain_uart_line cf en bytes l = (l', [RepError n why])" "why \<in> set unusable"
  shows "only_stop_waits l'"
  using assms text_reply_unusable
  by (auto simp: handle_forebrain_uart_line_def submitted_stop_waits split: if_splits)

text \<open>C7. A line the forebrain's port cannot use stops the robot: after a reply that names an overlong line, a
  timeout, a read error, bytes that are no text or a line that is no command, the next command taken is the
  stop, nothing waits behind it and the port is ready for a new line.\<close>

theorem unusable_line_stops:
  assumes "uart_task_step cf en r (t, l) = (t', l', [RepError n why])" "why \<in> set unusable"
  shows "only_stop_waits l' \<and> t' = idle_uart_task"
  using assms line_reply_unusable
  by (auto simp: uart_task_step_def drop_line_def submitted_stop_waits Let_def
      split: uart_read.splits prod.splits if_splits)

theorem unusable_line_stops_witness:
  "only_stop_waits (fst (snd (uart_task_step example_config still ReadError (idle_uart_task, example_lane initial_status))))"
proof -
  obtain l where "uart_task_step example_config still ReadError (idle_uart_task, example_lane initial_status) =
      (idle_uart_task, l, [RepError 0 ''uart''])"
    by (simp add: uart_task_step_def drop_line_def)
  with unusable_line_stops [OF this] show ?thesis by (simp add: unusable_def)
qed

text \<open>C13. From the client's line to the mailbox: the bytes of a request sent with a session and the lease it
  holds are read by the port one by one, answered with OK and the sequence number, and leave exactly the
  command that was meant in the mailbox; a command other than a query or a velocity is the next one taken.\<close>

theorem client_line_reaches_mailbox:
  assumes m: "meant_command r seq = Some c" "tones_fit r" "seq \<noteq> 0"
    and a: "command_requires_authority c" "holds_lease cf (en_clock en 0) sid lid (ad_status l)"
      "careful_allowed cf c sid (ad_status l)"
    and p: "spaceless sid" "printable sid" "spaceless lid" "printable lid"
      "length (to_compact_line_with_authority r seq sid lid) \<le> 1025"
    and acc: "snd (submit_control_command (lc_platform cf) seq c 0 0 (ad_status l)) = None"
    and s: "s = fst (submit_control_command (lc_platform cf) seq c 0 0 (ad_status l))"
  shows "(\<exists>u. uart_task_run cf (read_bytes en (str_bytes (to_compact_line_with_authority r seq sid lid)))
        (idle_uart_task, l) = (idle_uart_task, l\<lparr>ad_status := s, ln_uart := u\<rparr>, [RepOk seq])) \<and>
    (\<not> is_query c \<and> \<not> is_velocity c \<longrightarrow> snd (take_control_command s) = delivered c)"
  using authority_line_submits [OF m a p acc] accepted_command_is_delivered(1) [OF acc] by (simp add: s)

theorem client_line_reaches_mailbox_witness:
  "snd (take_control_command (ad_status (fst (snd (uart_task_run example_config
     (read_bytes still (str_bytes (to_compact_line_with_authority QArm 5 ''s'' ''l'')))
     (idle_uart_task, example_lane (leased ''s'' ''l''))))))) = Some BArm"
proof -
  let ?l = "example_lane (leased ''s'' ''l'')"
  have lease: "holds_lease example_config 0 ''s'' ''l'' (leased ''s'' ''l'')"
    by (simp add: holds_lease_def leased_facts)
  have short: "length (to_compact_line_with_authority QArm 5 ''s'' ''l'') \<le> 1025"
    by (simp add: line_text_defs)
  obtain u where "uart_task_run example_config
      (read_bytes still (str_bytes (to_compact_line_with_authority QArm 5 ''s'' ''l''))) (idle_uart_task, ?l) =
      (idle_uart_task, ?l\<lparr>ad_status := fst (submit_control_command example_platform 5 BArm 0 0
        (leased ''s'' ''l'')), ln_uart := u\<rparr>, [RepOk 5]) \<and>
      snd (take_control_command (fst (submit_control_command example_platform 5 BArm 0 0
        (leased ''s'' ''l'')))) = Some BArm"
    using client_line_reaches_mailbox [of QArm 5 BArm example_config still "''s''" "''l''" ?l,
        OF _ _ _ _ _ _ _ _ _ _ short _ refl] lease arm_accepted [of 5 "''s''" "''l''"]
    by (auto simp: meant_command_def removed_convenience_def tones_fit_def command_requires_authority_def
        command_requires_session_def command_requires_service_authority_def careful_allowed_def spaceless_def
        is_query_def is_velocity_def delivered_def)
  then show ?thesis by simp
qed

text \<open>A line longer than 1024 bytes is dropped and the robot stopped, but the rest of it is not skipped: the
  bytes after the one that overflowed are read as a line of their own and handled as such.\<close>

theorem overlong_tail_is_a_line:
  assumes "line_bytes bs" "length bs = 1025" "printable rest" "length rest \<le> 1024"
  shows "\<exists>u v. uart_task_run cf (read_bytes en (bs @ str_bytes (rest @ [CHR 0x0A]))) (idle_uart_task, l) =
    (case handle_forebrain_uart_line cf en (str_bytes rest)
            ((submit_forebrain_stop cf (mark_forebrain_uart_error UeLineTooLong (l\<lparr>ln_uart := u\<rparr>)))\<lparr>ln_uart := v\<rparr>) of
       (l', replies) \<Rightarrow> (idle_uart_task, l', RepError 0 ''line_too_long'' # replies))"
proof -
  obtain u where u: "uart_task_run cf (read_bytes en bs) (idle_uart_task, l) =
      drop_line cf UeLineTooLong ''line_too_long'' (l\<lparr>ln_uart := u\<rparr>)"
    using overlong_line [of bs cf en l] assms(1,2) by (auto simp: forebrain_line_max_def)
  define m where "m = submit_forebrain_stop cf (mark_forebrain_uart_error UeLineTooLong (l\<lparr>ln_uart := u\<rparr>))"
  obtain v where "uart_task_run cf (read_bytes en (str_bytes (rest @ [CHR 0x0A]))) (idle_uart_task, m) =
      (case handle_forebrain_uart_line cf en (str_bytes rest) (m\<lparr>ln_uart := v\<rparr>) of
         (l', replies) \<Rightarrow> (idle_uart_task, l', replies))"
    using whole_line [OF assms(3), of cf en m] assms(4) by (auto simp: forebrain_line_max_def)
  then have "uart_task_run cf (read_bytes en (bs @ str_bytes (rest @ [CHR 0x0A]))) (idle_uart_task, l) =
      (case handle_forebrain_uart_line cf en (str_bytes rest) (m\<lparr>ln_uart := v\<rparr>) of
         (l', replies) \<Rightarrow> (idle_uart_task, l', RepError 0 ''line_too_long'' # replies))"
    by (simp add: read_bytes_append uart_task_run_append u drop_line_def m_def [symmetric] split: prod.splits)
  then show ?thesis unfolding m_def by blast
qed

theorem overlong_tail_is_a_line_witness:
  "snd (snd (uart_task_run example_config (read_bytes still (replicate 1025 65 @ str_bytes (''PING 7'' @ [CHR 0x0A])))
     (idle_uart_task, example_lane initial_status))) = [RepError 0 ''line_too_long'', RepOk 7]"
proof -
  have ping: "parse_forebrain_uart_command ''PING 7'' = Inr (7, BPing)"
    using parse_meant(2) [of QPing 7 BPing]
    by (simp add: meant_command_def removed_convenience_def tones_fit_def line_text_defs)
  have bare: "compact_envelope ''PING 7'' = \<lparr>ev_command = ''PING 7'', ev_session = None, ev_lease = None, ev_service = None\<rparr>"
    using bare_envelope [of QPing 7]
    by (simp add: plain_arguments_def line_text_defs)
  have "snd (handle_forebrain_uart_line example_config still (str_bytes ''PING 7'') m) = [RepOk 7]" for m
    using printable_utf8 [of "''PING 7''"]
    by (simp add: handle_forebrain_uart_line_def handle_forebrain_uart_text_def strip_prefix_def)
      (simp add: handle_uart_command_def bare ping event_query_def refusal_reason_def command_requires_session_def
        command_requires_authority_def command_requires_service_authority_def submit_compact_control_command_def
        submit_control_command_def accept_immediately_def Let_def mark_forebrain_uart_command_def str_bytes_def ok_def)
  then show ?thesis
    using overlong_tail_is_a_line [of "replicate 1025 65" "''PING 7''" example_config still "example_lane initial_status"]
    by (auto simp: line_bytes_def split_beta)
qed


section \<open>Leases\<close>

text \<open>A control lease is granted exactly when the runtime acknowledges the request at one of the 250 checks, a
  millisecond apart; the answer then carries the lease the request named, and the lane's generation moves on
  either way.\<close>

theorem lease_granted_iff_acknowledged:
  defines "acked \<equiv> \<lambda>world now_ms h ttl_ms a k. authority_transition_acked
      (next_generation (ad_authority_generation a)) (waited world (requested now_ms h ttl_ms a) k)"
  shows "snd (install_authority world now_ms h ttl_ms a) =
      (if \<exists>k<250. acked world now_ms h ttl_ms a k
       then Some (granted_lease h a, next_generation (ad_authority_generation a)) else None) \<and>
    ad_authority_generation (fst (install_authority world now_ms h ttl_ms a)) = ad_authority_generation a + 1"
  by (simp add: install_authority_result await_ack_start acked_def Let_def)

text \<open>An acknowledgement that arrives while the handler waits for the last time is not seen: the client is told
  that the transition timed out, but the lease it asked for is in force from then on and the previous one is
  gone.\<close>

theorem late_acknowledgement_is_lost:
  fixes now_ms ttl_ms h :: u32 and a :: admission
  defines "g \<equiv> next_generation (ad_authority_generation a)"
  assumes "as_ack (st_auth (ad_status a)) \<noteq> g" "deadline_span ttl_ms" "now_ms + ttl_ms \<noteq> 0"
    and "\<And>k s. world k s = (if k = 249 then acknowledge_authority_transition g s else s)"
  shows "snd (install_authority world now_ms h ttl_ms a) = None \<and>
    active_authority_matches h (token_hash (granted_lease h a)) now_ms
      (ad_status (fst (install_authority world now_ms h ttl_ms a)))"
proof -
  let ?s = "requested now_ms h ttl_ms a"
  have early: "k \<le> 249 \<Longrightarrow> waited world ?s k = ?s" for k
    by (induction k) (simp_all add: assms(5))
  have "\<not> (\<exists>k<250. authority_transition_acked g (waited world ?s k))"
    using early assms(2) by (auto simp: authority_transition_acked_def requested_def request_authority_transition_def)
  moreover have "waited world ?s 250 = acknowledge_authority_transition g ?s"
  proof -
    have "waited world ?s (Suc 249) = acknowledge_authority_transition g ?s"
      by (simp only: waited.simps early [OF order.refl]) (simp add: assms(5))
    then show ?thesis by simp
  qed
  moreover have held: "active_authority_matches h (token_hash (granted_lease h a)) now_ms (acknowledge_authority_transition g ?s)"
    using lease_granted [OF assms(3,4), of h "token_hash (granted_lease h a)" g "ad_status a"]
    by (simp add: requested_def g_def)
  ultimately have "await_ack 250 (authority_transition_acked g) world 0 ?s =
      (acknowledge_authority_transition g ?s, 250, False)"
    unfolding await_ack_start by (simp only: if_False)
  then show ?thesis using held by (simp add: install_authority_result g_def [symmetric])
qed

theorem late_acknowledgement_is_lost_witness:
  "snd (install_authority (\<lambda>k s. if k = 249 then acknowledge_authority_transition 1 s else s) 10 7 2000
     (admission.truncate (example_lane initial_status))) = None"
  using late_acknowledgement_is_lost [of "admission.truncate (example_lane initial_status)" 2000 10
      "\<lambda>k s. if k = 249 then acknowledge_authority_transition 1 s else s" 7]
  by (simp add: example_lane_def admission.truncate_def next_generation_def initial_status_def
      initial_authority_status_def deadline_span_def)

section \<open>Hellos\<close>

text \<open>A repeated hello keeps its session: the same hello validated again gets the same generation and session
  hash and changes nothing; the session id is the same text too unless the hash was zero, and a rejected
  hello changes nothing either.\<close>

theorem repeated_hello_keeps_session:
  "(\<forall>a. snd (validate_hello h d b c) = Inr a \<longrightarrow>
      (\<exists>a'. validate_hello h d b (fst (validate_hello h d b c)) = (fst (validate_hello h d b c), Inr a') \<and>
        ah_generation a' = ah_generation a \<and> ah_session_hash a' = ah_session_hash a \<and>
        (ah_session_hash a \<noteq> 1 \<longrightarrow> ah_session_id a' = ah_session_id a))) \<and>
   (\<forall>reason. snd (validate_hello h d b c) = Inl reason \<longrightarrow> fst (validate_hello h d b c) = c)"
proof (intro conjI allI impI)
  fix a assume a: "snd (validate_hello h d b c) = Inr a"
  define c' where "c' = fst (validate_hello h d b c)"
  have v: "validate_hello h d b c = (c', Inr a)" using a by (simp add: c'_def prod_eq_iff)
  let ?a = "a\<lparr>ah_session_id := session_text (sc_session_hash c') (ah_generation a)\<rparr>"
  have "ah_session_hash a \<noteq> 1 \<Longrightarrow> ah_session_id a = session_text (sc_session_hash c') (ah_generation a)"
    using v by (auto simp: validate_hello_def Let_def max_def split: sum.splits if_splits)
  then show "\<exists>a'. validate_hello h d b (fst (validate_hello h d b c)) = (fst (validate_hello h d b c), Inr a') \<and>
      ah_generation a' = ah_generation a \<and> ah_session_hash a' = ah_session_hash a \<and>
      (ah_session_hash a \<noteq> 1 \<longrightarrow> ah_session_id a' = ah_session_id a)"
    using validate_again(1) [OF v] unfolding c'_def [symmetric] by (intro exI [of _ ?a]) simp
qed (rule rejected_hello_keeps_cache)

definition example_hello :: "string \<Rightarrow> string \<Rightarrow> hello" where
  "example_hello device boot =
     \<lparr>he_role = RoleMotherbrain, he_purpose = PurposeControl, he_device_id = device, he_boot_id = boot,
      he_nonce = ''n'', he_protocol_major = 1, he_minor_min = 0, he_minor_max = 0,
      he_supported = [''session_ids''], he_required = [''session_ids''], he_heartbeat_ms = 500\<rparr>"

lemma example_hello_ok:
  "check_hello (example_hello ''a'' ''bc'') = Inr 0" "check_hello (example_hello ''ab'' ''c'') = Inr 0"
  by (simp_all add: check_hello_def example_hello_def brainstem_accepts_client_role_def valid_token_def
      valid_identity_token_def str_bytes_def max_id_len_def negotiate_minor_def is_ascii_alphanumeric_def)

theorem repeated_hello_keeps_session_witness:
  "\<exists>a. validate_hello (example_hello ''a'' ''bc'') ''p'' ''q''
     (fst (validate_hello (example_hello ''a'' ''bc'') ''p'' ''q'' initial_session_cache)) =
     (fst (validate_hello (example_hello ''a'' ''bc'') ''p'' ''q'' initial_session_cache), Inr a)"
  using repeated_hello_keeps_session [of "example_hello ''a'' ''bc''" "''p''" "''q''" initial_session_cache]
    rejected_hello_iff [of "example_hello ''a'' ''bc''" "''p''" "''q''" initial_session_cache] example_hello_ok
  by (cases "snd (validate_hello (example_hello ''a'' ''bc'') ''p'' ''q'' initial_session_cache)") auto

text \<open>Two identities share a session when their texts run together: a hello with the same role, purpose, nonce
  and device and boot ids that are the same text one after the other is taken for the first one's retry, with
  its session id and no replacement.\<close>

theorem split_identities_share_session:
  assumes "validate_hello h d b c = (c', Inr a)" "check_hello h' = Inr minor"
    and "he_role h' = he_role h" "he_purpose h' = he_purpose h" "he_nonce h' = he_nonce h"
    and "he_device_id h' @ he_boot_id h' = he_device_id h @ he_boot_id h"
  shows "\<exists>a'. validate_hello h' d b c' = (c', Inr a') \<and> ah_generation a' = ah_generation a \<and>
    ah_session_hash a' = ah_session_hash a"
proof -
  have same: "hello_fnv h' d b = hello_fnv h d b"
    using assms(3-6) by (simp add: hello_fnv_concat append_assoc [symmetric] del: append_assoc)
  have "sc_hello_hash c' = max (hello_fnv h d b) 1" "sc_last_generation c' = ah_generation a" "ah_generation a \<noteq> 0"
    "sc_session_hash c' = ah_session_hash a"
    using assms(1) max_one_nonzero by (auto simp: validate_hello_def Let_def split: sum.splits if_splits)
  then show ?thesis using assms(2) same by (simp add: validate_hello_def Let_def)
qed

theorem split_identities_share_session_witness:
  "\<exists>a a'. snd (validate_hello (example_hello ''a'' ''bc'') ''p'' ''q'' initial_session_cache) = Inr a \<and>
     snd (validate_hello (example_hello ''ab'' ''c'') ''p'' ''q''
       (fst (validate_hello (example_hello ''a'' ''bc'') ''p'' ''q'' initial_session_cache))) = Inr a' \<and>
     ah_generation a' = ah_generation a \<and> ah_session_hash a' = ah_session_hash a"
proof -
  obtain c' a where v: "validate_hello (example_hello ''a'' ''bc'') ''p'' ''q'' initial_session_cache = (c', Inr a)"
    using rejected_hello_iff [of "example_hello ''a'' ''bc''" "''p''" "''q''" initial_session_cache] example_hello_ok
    by (cases "validate_hello (example_hello ''a'' ''bc'') ''p'' ''q'' initial_session_cache";
        cases "snd (validate_hello (example_hello ''a'' ''bc'') ''p'' ''q'' initial_session_cache)") auto
  from split_identities_share_session [OF v example_hello_ok(2)]
  show ?thesis using v by (auto simp: example_hello_def)
qed


section \<open>Contract and events\<close>

text \<open>A velocity clamped to the limits a brainstem advertises is within them, whatever was asked, and passes
  the contract's check exactly when the verb is supported; the least speed value passes the magnitude check
  unclamped, as its own magnitude overflows.\<close>

theorem clamped_velocity_is_valid:
  assumes "limits_ok (ca_limits k)"
  shows "(\<exists>v' w' t'. clamp_motion_request (ca_limits k) (QCmdVel v w t) = Some (QCmdVel v' w' t') \<and>
      within_limits (ca_limits k) v' w' t' \<and>
      (validate_request k (QCmdVel v' w' t') = Inr () \<longleftrightarrow> supports k ''cmd_vel'')) \<and>
    validate_motion_limits (ca_limits k) (QCmdVel 32768 32768 t) = Inr ()"
proof -
  obtain v' w' t' where c: "clamp_motion_request (ca_limits k) (QCmdVel v w t) = Some (QCmdVel v' w' t')"
      "within_limits (ca_limits k) v' w' t'"
    using clamp_cmd_vel [OF assms] by blast
  have "sint (li_max_linear_mm_s (ca_limits k)) \<noteq> - 32768" "sint (li_max_angular_mrad_s (ca_limits k)) \<noteq> - 32768"
    using assms by (simp_all add: limits_ok_def)
  then show ?thesis using c validate_cmd_vel [OF assms c(2)]
    by (simp add: validate_motion_limits_def least_value_passes)
qed

definition example_capabilities :: cockpit_capabilities where
  "example_capabilities = \<lparr>ca_body_kind = ''create'', ca_drive = ''differential'', ca_verbs = [''cmd_vel''],
     ca_sensors = [], ca_outputs = [], ca_safety = [], ca_events = [], ca_independent_watchdog = Some True,
     ca_limits = default_limits\<rparr>"

theorem clamped_velocity_is_valid_witness:
  "\<exists>v w t. clamp_motion_request default_limits (QCmdVel 20000 (- 20000) 0) = Some (QCmdVel v w t) \<and>
     validate_request example_capabilities (QCmdVel v w t) = Inr ()"
  using clamped_velocity_is_valid [of example_capabilities 20000 "- 20000" 0]
  by (auto simp: example_capabilities_def default_limits_def limits_ok_def supports_def)

definition published :: "status \<Rightarrow> status \<Rightarrow> cockpit_event" where
  "published s s' = received_event (log_slots (st_log s') (event_index (log_next (st_log s))))"

lemma published_emit:
  "st_log s' = fst (record_public_event k a b c (st_log s)) \<Longrightarrow>
   published s s' = \<lparr>ce_seq = log_next (st_log s), ce_kind = same_kind k, ce_a = a, ce_b = b, ce_c = c\<rparr>"
  by (simp add: published_def received_event_def slot_after_record firmware_kind_read)

text \<open>The client understands every event the firmware publishes: it reads the kind of the same name, never as
  unknown, and takes it for a reason to stop exactly when the firmware stopped for safety, a missed heartbeat
  or the emergency stop.\<close>

theorem events_are_understood:
  assumes "k \<noteq> KNone"
  shows "\<not> is_unknown_event (ce_kind (published s (emit k a b c s))) \<and>
    event_as_str (ce_kind (published s (emit k a b c s))) = public_event_kind_text (public_event_code k) \<and>
    (is_stop_reason (published s (emit k a b c s)) \<longleftrightarrow> k \<in> {KSafetyTripped, KHeartbeatExpired, KEStopLatched})"
proof -
  have p: "published s (emit k a b c s) =
      \<lparr>ce_seq = log_next (st_log s), ce_kind = same_kind k, ce_a = a, ce_b = b, ce_c = c\<rparr>"
    by (rule published_emit) (simp add: emit_def)
  have "event_as_str (same_kind k) = public_event_kind_text (public_event_code k)"
    unfolding firmware_kind_read [symmetric] by simp
  moreover have "is_stop_reason e \<longleftrightarrow> ce_kind e \<in> {ESafetyTripped, EHeartbeatExpired, EEStopLatched}" for e
    by (simp add: is_stop_reason_def stop_reason_def split: cockpit_event_kind.split)
  ultimately show ?thesis using assms by (simp add: p same_kind_known same_kind_stops)
qed

theorem events_are_understood_witness:
  "is_stop_reason (published initial_status (emit KHeartbeatExpired 0 0 0 initial_status))"
  using events_are_understood [of KHeartbeatExpired initial_status 0 0 0] by simp

text \<open>Packed events are read as they were recorded: a rejection's command, code and reason, and the start and
  end of a contact withdrawal with every field; only an emergency stop as the dominating reason is lost.\<close>

theorem packed_events_are_read:
  assumes "\<And>w. reason \<noteq> RejUnknown w"
  shows "command_rejection_of (published s (fst (reject_control_command i q kind reason s))) =
      Some \<lparr>cr_command_id = i, cr_command_seq = q, cr_command_code = control_value kind, cr_reason = reason\<rparr> \<and>
    contact_withdrawal_of (published s (mark_contact_withdrawal_started bits repeated preempted speed duration s)) =
      Some (WithdrawalStartedEvent (bits AND 3) repeated preempted speed duration) \<and>
    contact_withdrawal_of (published s (mark_contact_withdrawal_completed outcome
        (map_option safety_latch_kind_to_event latch) stopped displacement elapsed s)) =
      Some (WithdrawalCompletedEvent (observed_outcome_of (withdrawal_outcome_code outcome)) latch stopped
        displacement elapsed) \<and>
    contact_withdrawal_of (published s (mark_contact_withdrawal_completed outcome
        (Some SEStop) stopped displacement elapsed s)) =
      Some (WithdrawalCompletedEvent (observed_outcome_of (withdrawal_outcome_code outcome)) None stopped
        displacement elapsed)"
proof (intro conjI)
  have "published s (fst (reject_control_command i q kind reason s)) =
      \<lparr>ce_seq = log_next (st_log s), ce_kind = ECommandRejected, ce_a = i, ce_b = q,
       ce_c = push_bit 8 (ucast (control_value kind)) OR ucast (reject_code reason)\<rparr>"
    by (subst published_emit [of _ KCommandRejected]) (simp_all add: reject_control_command_def emit_def)
  then show "command_rejection_of (published s (fst (reject_control_command i q kind reason s))) =
      Some \<lparr>cr_command_id = i, cr_command_seq = q, cr_command_code = control_value kind, cr_reason = reason\<rparr>"
    using reject_from_code_known [OF assms] by (simp add: command_rejection_of_def packed_rejection del: drop_bit_or)
  have "published s (mark_contact_withdrawal_started bits repeated preempted speed duration s) =
      \<lparr>ce_seq = log_next (st_log s), ce_kind = same_kind KContactWithdrawalStarted,
       ce_a = ucast (bits AND 3) OR push_bit 8 (ucast repeated), ce_b = preempted,
       ce_c = ucast speed OR push_bit 16 (ucast duration)\<rparr>"
    by (rule published_emit) (simp add: mark_contact_withdrawal_started_def emit_def)
  then show "contact_withdrawal_of (published s (mark_contact_withdrawal_started bits repeated preempted speed duration s)) =
      Some (WithdrawalStartedEvent (bits AND 3) repeated preempted speed duration)"
    by (simp only: contact_withdrawal_of_def same_kind.simps cockpit_event_kind.case cockpit_event.simps packed_start)
  have ended: "contact_withdrawal_of (published s (mark_contact_withdrawal_completed outcome dominating stopped
        displacement elapsed s)) =
      Some (WithdrawalCompletedEvent (observed_outcome_of (withdrawal_outcome_code outcome))
        (latch_from_event_code (ucast (case dominating of None \<Rightarrow> 0 | Some k \<Rightarrow> safety_event_code k)))
        stopped displacement elapsed)" for dominating
  proof -
    define code where "code = (case dominating of None \<Rightarrow> 0 | Some k \<Rightarrow> safety_event_code k)"
    have c: "(case dominating of None \<Rightarrow> 0 | Some k \<Rightarrow> ucast (safety_event_code k)) = (ucast code :: u32)"
      by (simp add: code_def split: option.split)
    have "published s (mark_contact_withdrawal_completed outcome dominating stopped displacement elapsed s) =
        \<lparr>ce_seq = log_next (st_log s), ce_kind = same_kind KContactWithdrawalCompleted,
         ce_a = ucast (withdrawal_outcome_code outcome) OR push_bit 8 (ucast code) OR push_bit 16 (b32 stopped),
         ce_b = displacement, ce_c = elapsed\<rparr>"
      by (rule published_emit) (simp add: mark_contact_withdrawal_completed_def emit_def c)
    then show ?thesis
      unfolding code_def [symmetric]
      by (simp only: contact_withdrawal_of_def same_kind.simps cockpit_event_kind.case cockpit_event.simps packed_end)
  qed
  show "contact_withdrawal_of (published s (mark_contact_withdrawal_completed outcome
        (map_option safety_latch_kind_to_event latch) stopped displacement elapsed s)) =
      Some (WithdrawalCompletedEvent (observed_outcome_of (withdrawal_outcome_code outcome)) latch stopped
        displacement elapsed)"
    unfolding ended
    by (cases latch; (simp add: latch_from_event_code_def)?)
      (rename_tac k, case_tac k; simp add: latch_from_event_code_def)
  show "contact_withdrawal_of (published s (mark_contact_withdrawal_completed outcome
        (Some SEStop) stopped displacement elapsed s)) =
      Some (WithdrawalCompletedEvent (observed_outcome_of (withdrawal_outcome_code outcome)) None stopped
        displacement elapsed)"
    unfolding ended by (simp add: latch_from_event_code_def)
qed

theorem packed_events_are_read_witness:
  "command_rejection_of (published initial_status (fst (reject_control_command 9 4 CcArm RejBusy initial_status))) =
     Some \<lparr>cr_command_id = 9, cr_command_seq = 4, cr_command_code = control_value CcArm, cr_reason = RejBusy\<rparr>"
  using packed_events_are_read [of RejBusy initial_status 9 4 CcArm] by simp

end
