(* ===== verification/Client_Handshake.thy ===== *)
theory Client_Handshake
  imports Cockpit_Contract Control_Lines
begin

text \<open>
  The client's handshake (\<open>src/crates/pete-cockpit/src/handshake.rs\<close>): hello, welcome and session, the
  negotiation the simulator uses, the client's validation of a welcome and the decoder of lines. The errors are
  those of \<open>cockpit/interface.rs\<close>; a panic of the thread is a result of its own. Random tokens
  (\<open>uuid\<close>) and the seeded hash behind a session's name are parameters.
\<close>

section \<open>Features\<close>

datatype handshake_feature =
    FeatSessionIds | FeatEventCursor | FeatHeartbeat | FeatTransportFailover | FeatCapabilityDigest
  | FeatUnknown string

primrec feature_as_str :: "handshake_feature \<Rightarrow> string" where
  "feature_as_str FeatSessionIds = ''session_ids''"
| "feature_as_str FeatEventCursor = ''event_cursor''"
| "feature_as_str FeatHeartbeat = ''heartbeat''"
| "feature_as_str FeatTransportFailover = ''transport_failover''"
| "feature_as_str FeatCapabilityDigest = ''capability_digest''"
| "feature_as_str (FeatUnknown value) = value"

definition feature_from_str :: "string \<Rightarrow> handshake_feature" where
  "feature_from_str value =
     (if value = ''session_ids'' then FeatSessionIds
      else if value = ''event_cursor'' then FeatEventCursor
      else if value = ''heartbeat'' then FeatHeartbeat
      else if value = ''transport_failover'' then FeatTransportFailover
      else if value = ''capability_digest'' then FeatCapabilityDigest
      else FeatUnknown value)"

definition default_features :: "handshake_feature list" where
  "default_features = [FeatSessionIds, FeatEventCursor, FeatHeartbeat, FeatTransportFailover]"

section \<open>Messages\<close>

record software_info =
  sw_software_name :: string
  sw_software_version :: string
  sw_build_id :: string

record handshake_hello =
  hh_role :: endpoint_role
  hh_session_purpose :: session_purpose
  hh_device_id :: string
  hh_boot_id :: string
  hh_handshake_nonce :: string
  hh_protocol_major :: u16
  hh_protocol_minor_min :: u16
  hh_protocol_minor_max :: u16
  hh_supported_features :: "handshake_feature list"
  hh_required_features :: "handshake_feature list"
  hh_preferred_heartbeat_ms :: u32
  hh_software :: software_info

record safety_snapshot =
  ss_armed :: bool
  ss_estop_latched :: bool
  ss_safety_tripped :: bool
  ss_active_motion :: bool
  ss_runtime_state :: string

record handshake_welcome =
  hw_role :: endpoint_role
  hw_device_id :: string
  hw_boot_id :: string
  hw_echoed_handshake_nonce :: string
  hw_session_id :: string
  hw_protocol_major :: u16
  hw_protocol_minor :: u16
  hw_supported_features :: "handshake_feature list"
  hw_required_features :: "handshake_feature list"
  hw_heartbeat_min_ms :: u32
  hw_heartbeat_max_ms :: u32
  hw_command_ttl_min_ms :: u32
  hw_command_ttl_max_ms :: u32
  hw_current_event_next_seq :: u32
  hw_capability_contract :: cockpit_capabilities
  hw_software :: software_info
  hw_safety_snapshot :: safety_snapshot

record handshake_reject =
  hr_echoed_handshake_nonce :: string
  hr_reason_code :: handshake_reject_reason
  hr_message :: string
  hr_supported_protocol_major :: u16
  hr_supported_minor_min :: u16
  hr_supported_minor_max :: u16

datatype handshake_response = HsWelcome handshake_welcome | HsReject handshake_reject

record cockpit_session =
  cs_session_id :: string
  cs_peer_device_id :: string
  cs_peer_boot_id :: string
  cs_local_device_id :: string
  cs_local_boot_id :: string
  cs_local_role :: endpoint_role
  cs_local_purpose :: session_purpose
  cs_protocol_major :: u16
  cs_protocol_minor :: u16
  cs_negotiated_features :: "handshake_feature list"
  cs_heartbeat_ms :: u32

record control_lease =
  cl_lease_id :: string
  cl_session_id :: string
  cl_owner_role :: endpoint_role
  cl_authority :: control_authority
  cl_ttl_ms :: u32
  cl_generation :: u32

record service_lease =
  sl_lease_id :: string
  sl_session_id :: string
  sl_owner_role :: endpoint_role
  sl_scope :: service_scope
  sl_ttl_ms :: u32
  sl_generation :: u32

datatype reconnect_classification = ClassInitial | ClassTransportReconnect | ClassBrainstemReboot | ClassReplacementBrainstem

record handshake_outcome =
  ho_welcome :: handshake_welcome
  ho_session :: cockpit_session
  ho_contract :: cockpit_capabilities
  ho_event_cursor :: u32
  ho_classification :: reconnect_classification

section \<open>Errors\<close>

text \<open>\<open>CockpitError\<close>: I/O, serial, websocket and JSON errors carry a value of their library and are one
  constructor here; a \<open>BadResponse\<close> that prints a value keeps the value.\<close>

datatype cockpit_error =
    CkTransport
  | CkBadResponse string
  | CkUnsupportedFeature handshake_feature
  | CkMissedEvents u32
  | CkMotionStopped "safe_stop_reason list"
  | CkRejected u32 string
  | CkPolicy string
  | CkContract policy_error
  | CkHandshakeRejected handshake_reject
  | CkStaleHandshake string string
  | CkUnsafeHandshake string
  | CkFrameTooLarge nat
  | CkSessionRequired
  | CkInvalidSession string

text \<open>How a call ends: with a value, with an error, or by a panic.\<close>

datatype 'a call = Returned 'a | Failed cockpit_error | Panicked

primrec call_bind :: "'a call \<Rightarrow> ('a \<Rightarrow> 'b call) \<Rightarrow> 'b call" where
  "call_bind (Returned v) f = f v"
| "call_bind (Failed e) f = Failed e"
| "call_bind Panicked f = Panicked"

section \<open>Validation of a welcome\<close>

definition required_unsupported :: "handshake_hello \<Rightarrow> handshake_welcome \<Rightarrow> handshake_feature option" where
  "required_unsupported h w = find (\<lambda>f. f \<notin> set (hh_supported_features h)) (hw_required_features w)"

definition outcome_session :: "handshake_hello \<Rightarrow> handshake_welcome \<Rightarrow> u32 \<Rightarrow> cockpit_session" where
  "outcome_session h w heartbeat_ms =
     \<lparr>cs_session_id = hw_session_id w, cs_peer_device_id = hw_device_id w, cs_peer_boot_id = hw_boot_id w,
      cs_local_device_id = hh_device_id h, cs_local_boot_id = hh_boot_id h, cs_local_role = hh_role h,
      cs_local_purpose = hh_session_purpose h, cs_protocol_major = hw_protocol_major w,
      cs_protocol_minor = hw_protocol_minor w,
      cs_negotiated_features = filter (\<lambda>f. f \<in> set (hh_supported_features h)) (hw_supported_features w),
      cs_heartbeat_ms = heartbeat_ms\<rparr>"

definition validate_outcome :: "handshake_hello \<Rightarrow> handshake_response \<Rightarrow> handshake_outcome call" where
  "validate_outcome h response =
     (case response of
        HsReject reject \<Rightarrow> Failed (CkHandshakeRejected reject)
      | HsWelcome w \<Rightarrow>
          if hw_echoed_handshake_nonce w \<noteq> hh_handshake_nonce h
          then Failed (CkStaleHandshake (hh_handshake_nonce h) (hw_echoed_handshake_nonce w))
          else if hw_role w \<noteq> RoleBrainstem \<or> hw_protocol_major w \<noteq> hh_protocol_major h
            \<or> hw_protocol_minor w < hh_protocol_minor_min h \<or> hw_protocol_minor w > hh_protocol_minor_max h
          then Failed (CkBadResponse ''welcome contains incompatible negotiated values'')
          else
            (case required_unsupported h w of
               Some f \<Rightarrow> Failed (CkUnsupportedFeature f)
             | None \<Rightarrow>
                 (case clamp_u32 (hw_heartbeat_min_ms w) (hw_heartbeat_max_ms w) (hh_preferred_heartbeat_ms h) of
                    None \<Rightarrow> Panicked
                  | Some heartbeat_ms \<Rightarrow>
                      Returned \<lparr>ho_welcome = w, ho_session = outcome_session h w heartbeat_ms,
                        ho_contract = hw_capability_contract w, ho_event_cursor = hw_current_event_next_seq w,
                        ho_classification = ClassInitial\<rparr>)))"

definition classify_against :: "cockpit_session option \<Rightarrow> handshake_outcome \<Rightarrow> handshake_outcome" where
  "classify_against prior out =
     out\<lparr>ho_classification :=
       (case prior of
          None \<Rightarrow> ClassInitial
        | Some p \<Rightarrow>
            if cs_peer_device_id p \<noteq> cs_peer_device_id (ho_session out) then ClassReplacementBrainstem
            else if cs_peer_boot_id p \<noteq> cs_peer_boot_id (ho_session out) then ClassBrainstemReboot
            else ClassTransportReconnect)\<rparr>"

section \<open>Negotiation\<close>

definition reject_hello :: "handshake_hello \<Rightarrow> handshake_reject_reason \<Rightarrow> string \<Rightarrow> handshake_response" where
  "reject_hello h reason message =
     HsReject \<lparr>hr_echoed_handshake_nonce = hh_handshake_nonce h, hr_reason_code = reason, hr_message = message,
       hr_supported_protocol_major = 1, hr_supported_minor_min = 0, hr_supported_minor_max = 0\<rparr>"

text \<open>\<open>derive_session_id\<close>: \<open>session_name\<close> is the name made from hello, peer and serial.\<close>

type_synonym session_name = "handshake_hello \<Rightarrow> string \<Rightarrow> string \<Rightarrow> nat \<Rightarrow> string"

definition negotiate ::
  "session_name \<Rightarrow> handshake_hello \<Rightarrow> string \<Rightarrow> string \<Rightarrow> cockpit_capabilities \<Rightarrow> safety_snapshot \<Rightarrow> u32 \<Rightarrow>
   software_info \<Rightarrow> nat \<Rightarrow> handshake_response" where
  "negotiate session_name h device boot capabilities snapshot next_seq software serial =
     (if \<not> brainstem_accepts_client_role (hh_role h) then
        reject_hello h WrongRole ''brainstem and simulator roles cannot claim a client session''
      else if \<not> valid_token (hh_device_id h) \<or> \<not> valid_token (hh_boot_id h)
        \<or> \<not> valid_token (hh_handshake_nonce h) then
        reject_hello h InvalidIdentity ''identity fields must be bounded printable tokens''
      else
        (case negotiate_minor (hh_protocol_major h) (hh_protocol_minor_min h) (hh_protocol_minor_max h) of
           Inl reason \<Rightarrow> reject_hello h reason ''protocol versions are incompatible''
         | Inr high \<Rightarrow>
             if list_ex (\<lambda>f. f \<notin> set default_features) (hh_required_features h) then
               reject_hello h MissingRequiredFeature ''required feature is unavailable''
             else
               HsWelcome \<lparr>hw_role = RoleBrainstem, hw_device_id = device, hw_boot_id = boot,
                 hw_echoed_handshake_nonce = hh_handshake_nonce h,
                 hw_session_id = session_name h device boot serial, hw_protocol_major = 1,
                 hw_protocol_minor = high, hw_supported_features = default_features,
                 hw_required_features = [FeatSessionIds], hw_heartbeat_min_ms = 250,
                 hw_heartbeat_max_ms = 2000, hw_command_ttl_min_ms = li_min_ttl_ms (ca_limits capabilities),
                 hw_command_ttl_max_ms = li_max_ttl_ms (ca_limits capabilities),
                 hw_current_event_next_seq = next_seq, hw_capability_contract = capabilities,
                 hw_software = software, hw_safety_snapshot = snapshot\<rparr>))"

section \<open>Hellos the client makes\<close>

definition motherbrain_hello :: "string \<Rightarrow> string \<Rightarrow> string \<Rightarrow> software_info \<Rightarrow> handshake_hello" where
  "motherbrain_hello device boot nonce software =
     \<lparr>hh_role = RoleMotherbrain, hh_session_purpose = PurposeControl, hh_device_id = device,
      hh_boot_id = boot, hh_handshake_nonce = nonce, hh_protocol_major = 1, hh_protocol_minor_min = 0,
      hh_protocol_minor_max = 0, hh_supported_features = default_features,
      hh_required_features = [FeatSessionIds], hh_preferred_heartbeat_ms = 500, hh_software = software\<rparr>"

definition forebrain_hello :: "handshake_hello \<Rightarrow> handshake_hello" where
  "forebrain_hello h = h\<lparr>hh_role := RoleForebrain, hh_session_purpose := PurposeDiagnostic,
     hh_software := (hh_software h)\<lparr>sw_software_name := ''pete-forebrain''\<rparr>\<rparr>"

definition operator_hello :: "handshake_hello \<Rightarrow> handshake_hello" where
  "operator_hello h = h\<lparr>hh_role := RoleOperator, hh_session_purpose := PurposeDiagnostic,
     hh_software := (hh_software h)\<lparr>sw_software_name := ''pete-operator''\<rparr>\<rparr>"

definition new_attempt :: "string \<Rightarrow> handshake_hello \<Rightarrow> handshake_hello" where
  "new_attempt nonce h = h\<lparr>hh_handshake_nonce := nonce\<rparr>"

section \<open>The line decoder\<close>

record line_decoder =
  ld_buffer :: "u8 list"
  ld_max_len :: nat

definition new_decoder :: "nat \<Rightarrow> line_decoder" where
  "new_decoder max_len = \<lparr>ld_buffer = [], ld_max_len = max_len\<rparr>"

fun push_bytes :: "u8 list \<Rightarrow> string list \<Rightarrow> line_decoder \<Rightarrow> line_decoder \<times> string list call" where
  "push_bytes [] lines d = (d, Returned lines)"
| "push_bytes (byte # bytes) lines d =
     (if byte = 13 then push_bytes bytes lines d
      else if byte = 10 then
        (if utf8_valid (ld_buffer d) then
           push_bytes bytes (if ld_buffer d = [] then lines else lines @ [text_of (ld_buffer d)]) (d\<lparr>ld_buffer := []\<rparr>)
         else (d, Failed (CkBadResponse ''compact frame was not utf-8'')))
      else if length (ld_buffer d) \<ge> ld_max_len d then
        (d\<lparr>ld_buffer := []\<rparr>, Failed (CkFrameTooLarge (ld_max_len d)))
      else push_bytes bytes lines (d\<lparr>ld_buffer := ld_buffer d @ [byte]\<rparr>))"

definition decoder_push :: "u8 list \<Rightarrow> line_decoder \<Rightarrow> line_decoder \<times> string list call" where
  "decoder_push bytes d = push_bytes bytes [] d"

section \<open>Lemmas\<close>

lemma feature_text_kept [simp]: "feature_as_str (feature_from_str s) = s"
  by (simp add: feature_from_str_def)

text \<open>A feature as it comes out of a message: an unknown one is not one of the known names.\<close>

definition feature_ok :: "handshake_feature \<Rightarrow> bool" where
  "feature_ok f \<longleftrightarrow> feature_from_str (feature_as_str f) = f"

lemma feature_ok_read [simp]: "feature_ok (feature_from_str s)"
  by (simp add: feature_ok_def)

lemma default_features_text:
  "feature_ok f \<Longrightarrow> f \<in> set default_features \<longleftrightarrow>
     feature_as_str f \<in> {''session_ids'', ''event_cursor'', ''heartbeat'', ''transport_failover''}"
  by (cases f) (auto simp: default_features_def feature_ok_def feature_from_str_def split: if_splits)

lemma session_ids_text: "feature_ok f \<Longrightarrow> feature_as_str f = ''session_ids'' \<longleftrightarrow> f = FeatSessionIds"
  by (cases f) (auto simp: feature_ok_def feature_from_str_def split: if_splits)

text \<open>The hello as the firmware reads it.\<close>

definition sent_hello :: "handshake_hello \<Rightarrow> hello" where
  "sent_hello h =
     \<lparr>he_role = hh_role h, he_purpose = hh_session_purpose h, he_device_id = hh_device_id h,
      he_boot_id = hh_boot_id h, he_nonce = hh_handshake_nonce h, he_protocol_major = hh_protocol_major h,
      he_minor_min = hh_protocol_minor_min h, he_minor_max = hh_protocol_minor_max h,
      he_supported = map feature_as_str (hh_supported_features h),
      he_required = map feature_as_str (hh_required_features h),
      he_heartbeat_ms = hh_preferred_heartbeat_ms h\<rparr>"

definition hello_ok :: "handshake_hello \<Rightarrow> bool" where
  "hello_ok h \<longleftrightarrow> list_all feature_ok (hh_supported_features h) \<and> list_all feature_ok (hh_required_features h)"

lemma sent_supported:
  assumes "hello_ok h"
  shows "list_ex (\<lambda>feature. feature = ''session_ids'') (he_supported (sent_hello h)) \<longleftrightarrow>
     FeatSessionIds \<in> set (hh_supported_features h)"
proof -
  have "feature_as_str f = ''session_ids'' \<longleftrightarrow> f = FeatSessionIds" if "f \<in> set (hh_supported_features h)" for f
    using assms that by (simp add: session_ids_text hello_ok_def list_all_iff)
  then have "(\<exists>f \<in> set (hh_supported_features h). feature_as_str f = ''session_ids'') \<longleftrightarrow>
      (\<exists>f \<in> set (hh_supported_features h). f = FeatSessionIds)" by blast
  then show ?thesis by (simp add: sent_hello_def list_ex_iff image_iff eq_commute [of "''session_ids''"])
qed

lemma sent_required:
  "hello_ok h \<Longrightarrow>
   list_all (\<lambda>feature. feature \<in> {''session_ids'', ''event_cursor'', ''heartbeat'', ''transport_failover''})
     (he_required (sent_hello h)) \<longleftrightarrow> \<not> list_ex (\<lambda>f. f \<notin> set default_features) (hh_required_features h)"
  by (simp add: sent_hello_def hello_ok_def list_ex_iff list_all_iff default_features_text)

lemma negotiated_iff:
  assumes "hello_ok h"
  shows "(\<exists>w. negotiate sn h d b ca sf n sw k = HsWelcome w) \<and> FeatSessionIds \<in> set (hh_supported_features h) \<longleftrightarrow>
     (\<exists>m. check_hello (sent_hello h) = Inr m)"
  using sent_supported [OF assms] sent_required [OF assms]
  by (auto simp: negotiate_def check_hello_def reject_hello_def sent_hello_def split: sum.splits)

lemma negotiated_minor:
  assumes "hello_ok h" "negotiate sn h d b ca sf n sw k = HsWelcome w" "check_hello (sent_hello h) = Inr m"
  shows "hw_protocol_minor w = m"
  using assms by (auto simp: negotiate_def check_hello_def reject_hello_def sent_hello_def split: sum.splits if_splits)

lemma refused_reason:
  assumes "hello_ok h" "negotiate sn h d b ca sf n sw k = HsReject r"
  shows "check_hello (sent_hello h) = Inl (hr_reason_code r)"
  using assms sent_required [OF assms(1)]
  by (auto simp: negotiate_def check_hello_def reject_hello_def sent_hello_def split: sum.splits if_splits)

lemma welcome_is_valid:
  assumes "negotiate sn h d b ca sf n sw k = HsWelcome w"
  shows "validate_outcome h (HsWelcome w) =
    (if FeatSessionIds \<in> set (hh_supported_features h)
     then Returned \<lparr>ho_welcome = w,
            ho_session = outcome_session h w (clamp_word 250 2000 (hh_preferred_heartbeat_ms h)),
            ho_contract = ca, ho_event_cursor = n, ho_classification = ClassInitial\<rparr>
     else Failed (CkUnsupportedFeature FeatSessionIds))"
  using assms
  by (auto simp: negotiate_def reject_hello_def negotiate_minor_iff validate_outcome_def required_unsupported_def
      clamp_u32_def split: sum.splits if_splits)

text \<open>Bytes in two pushes are bytes in one, as long as the first push succeeds.\<close>

lemma push_bytes_append:
  "push_bytes xs lines d = (d', Returned lines') \<Longrightarrow> push_bytes (xs @ ys) lines d = push_bytes ys lines' d'"
  by (induction xs lines d rule: push_bytes.induct) (auto split: if_splits)

text \<open>A line that is not UTF-8 stays in the buffer: the decoder reports it again at every line feed.\<close>

lemma decoder_stays_poisoned:
  "\<not> utf8_valid (ld_buffer d) \<Longrightarrow>
   decoder_push (10 # bytes) d = (d, Failed (CkBadResponse ''compact frame was not utf-8''))"
  by (simp add: decoder_push_def)

section \<open>Properties\<close>


definition example_software :: software_info where
  "example_software = \<lparr>sw_software_name = ''pete-motherbrain'', sw_software_version = ''0.1.0'', sw_build_id = ''b1''\<rparr>"

definition example_client_hello :: handshake_hello where
  "example_client_hello = motherbrain_hello ''mb-1'' ''boot-1'' ''n-1'' example_software"


end
