(* ===== verification/Cockpit_Answers.thy ===== *)
theory Cockpit_Answers
  imports Client_Handshake Cockpit_Wire
begin

text \<open>
  What the client makes of an answer: the readers of compact lines and of JSON objects in
  \<open>cockpit/possession/uart.rs\<close>, the responses of \<open>cockpit/wire.rs\<close> and the summary of a status in
  \<open>cockpit/contract.rs\<close>. JSON text is parsed by \<open>serde_json\<close>, the parameter \<open>read_json\<close>; what the client takes
  from the parsed value is modelled.
\<close>

section \<open>Fields of a line\<close>

text \<open>\<open>str::find\<close>: what follows the first occurrence.\<close>

fun after_first :: "string \<Rightarrow> string \<Rightarrow> string option" where
  "after_first p s =
     (case strip_prefix p s of
        Some rest \<Rightarrow> Some rest
      | None \<Rightarrow> (case s of [] \<Rightarrow> None | c # cs \<Rightarrow> after_first p cs))"

declare after_first.simps [simp del]

definition first_word :: "string \<Rightarrow> string option" where
  "first_word s =
     (let w = takeWhile (\<lambda>c. \<not> is_space c) (dropWhile is_space s) in if w = [] then None else Some w)"

definition value_for :: "string \<Rightarrow> string \<Rightarrow> string option" where
  "value_for line key =
     map_option (\<lambda>tail. case first_word tail of Some w \<Rightarrow> w | None \<Rightarrow> tail) (after_first (key @ ''='') line)"

definition csv_for :: "string \<Rightarrow> string \<Rightarrow> string list" where
  "csv_for line key =
     filter (\<lambda>v. v \<noteq> []) (split_on (CHR '','') (case value_for line key of None \<Rightarrow> [] | Some v \<Rightarrow> v))"

definition str_i32 :: "string \<Rightarrow> i32 option" where
  "str_i32 s = map_option of_int (parse_signed 2147483647 s)"

definition number_for :: "string \<Rightarrow> string \<Rightarrow> u32 option" where
  "number_for line key = Option.bind (value_for line key) str_u32"

definition signed_number_for :: "string \<Rightarrow> string \<Rightarrow> i32 option" where
  "signed_number_for line key = Option.bind (value_for line key) str_i32"

definition read_tri_state :: "string \<Rightarrow> bool option" where
  "read_tri_state v =
     (if v \<in> {''true'', ''1'', ''on'', ''yes''} then Some True
      else if v \<in> {''false'', ''0'', ''off'', ''no''} then Some False
      else None)"

definition bool_for :: "string \<Rightarrow> string \<Rightarrow> bool option" where
  "bool_for line key = Option.bind (value_for line key) read_tri_state"

text \<open>\<open>u8::try_from\<close> and \<open>u16::try_from\<close>.\<close>

definition as_u8 :: "u32 \<Rightarrow> u8 option" where
  "as_u8 v = (if v \<le> 255 then Some (ucast v) else None)"

definition as_u16 :: "u32 \<Rightarrow> u16 option" where
  "as_u16 v = (if v \<le> 65535 then Some (ucast v) else None)"

section \<open>JSON values\<close>

datatype json = JNull | JBool bool | JInt int | JFloat | JStr string | JArr "json list" | JObj "(string \<times> json) list"

definition json_get :: "json \<Rightarrow> string \<Rightarrow> json option" where
  "json_get v key = (case v of JObj kvs \<Rightarrow> map_of kvs key | _ \<Rightarrow> None)"

definition json_as_str :: "json \<Rightarrow> string option" where
  "json_as_str v = (case v of JStr s \<Rightarrow> Some s | _ \<Rightarrow> None)"

definition json_as_bool :: "json \<Rightarrow> bool option" where
  "json_as_bool v = (case v of JBool b \<Rightarrow> Some b | _ \<Rightarrow> None)"

text \<open>\<open>as_u64\<close> and \<open>as_i64\<close> with the conversion to the narrower type.\<close>

definition json_int_in :: "int \<Rightarrow> int \<Rightarrow> json \<Rightarrow> int option" where
  "json_int_in lo hi v = (case v of JInt n \<Rightarrow> if lo \<le> n \<and> n \<le> hi then Some n else None | _ \<Rightarrow> None)"

definition json_str_value :: "json \<Rightarrow> string \<Rightarrow> string option" where
  "json_str_value v key = Option.bind (json_get v key) json_as_str"

definition json_bool_value :: "json \<Rightarrow> string \<Rightarrow> bool option" where
  "json_bool_value v key = Option.bind (json_get v key) json_as_bool"

definition json_tri_state_value :: "json \<Rightarrow> string \<Rightarrow> bool option" where
  "json_tri_state_value v key =
     Option.bind (json_get v key) (\<lambda>w. case w of JBool b \<Rightarrow> Some b | JStr s \<Rightarrow> read_tri_state s | _ \<Rightarrow> None)"

definition json_u32_value :: "json \<Rightarrow> string \<Rightarrow> u32 option" where
  "json_u32_value v key = map_option of_int (Option.bind (json_get v key) (json_int_in 0 4294967295))"

definition json_i32_value :: "json \<Rightarrow> string \<Rightarrow> i32 option" where
  "json_i32_value v key =
     map_option of_int (Option.bind (json_get v key) (json_int_in (- 2147483648) 2147483647))"

definition json_i16_value :: "json \<Rightarrow> string \<Rightarrow> i16 option" where
  "json_i16_value v key = map_option of_int (Option.bind (json_get v key) (json_int_in (- 32768) 32767))"

definition json_elements :: "json \<Rightarrow> json list option" where
  "json_elements v = (case v of JArr vs \<Rightarrow> Some vs | _ \<Rightarrow> None)"

definition json_string_array :: "json \<Rightarrow> string \<Rightarrow> string list" where
  "json_string_array v key =
     (case Option.bind (json_get v key) json_elements of
        None \<Rightarrow> []
      | Some vs \<Rightarrow> List.map_filter json_as_str vs)"

section \<open>Responses\<close>

record network_endpoint_registered =
  nr_session_id :: string
  nr_fqdn :: string
  nr_address :: string
  nr_ttl_seconds :: u32
  nr_registration_generation :: u32

datatype cockpit_response =
    RsAccepted
  | RsRejected string
  | RsStatus string
  | RsCapabilities cockpit_capabilities
  | RsEvents event_batch
  | RsNetworkEndpointRegistered network_endpoint_registered
  | RsControlLeaseGranted control_lease
  | RsServiceLeaseGranted service_lease

text \<open>The text of a \<open>BadResponse\<close> that prints a response is not modelled.\<close>

definition unexpected_response :: cockpit_error where
  "unexpected_response = CkBadResponse ''unexpected response''"

definition expect_accepted :: "cockpit_response \<Rightarrow> unit call" where
  "expect_accepted r =
     (case r of
        RsAccepted \<Rightarrow> Returned ()
      | RsRejected message \<Rightarrow> Failed (CkRejected 0 message)
      | _ \<Rightarrow> Failed unexpected_response)"

section \<open>Compact answers\<close>

definition compact_rejection_reasons :: "string list" where
  "compact_rejection_reasons =
     [''busy'', ''charging_busy'', ''stale_sequence'', ''unsupported'', ''invalid_session'', ''session_required'',
      ''invalid_control_lease'', ''control_lease_required'', ''invalid_service_lease'',
      ''service_authorization_required'', ''service_operation_disabled'']"

definition is_compact_rejection_reason :: "string \<Rightarrow> bool" where
  "is_compact_rejection_reason reason \<longleftrightarrow> List.member compact_rejection_reasons reason"

definition expect_ok :: "u32 \<Rightarrow> string \<Rightarrow> unit call" where
  "expect_ok seq response =
     (case split_words response of
        a # b # rest \<Rightarrow>
          if a = ''OK'' \<and> str_u32 b = Some seq then Returned ()
          else if a = ''ERR'' \<and> str_u32 b = Some seq \<and> rest \<noteq> [] \<and> is_compact_rejection_reason (hd rest)
          then Failed (CkRejected seq (hd rest))
          else Failed (CkBadResponse response)
      | _ \<Rightarrow> Failed (CkBadResponse response))"

text \<open>One limit of the list \<open>key:value,...\<close>; a value that is no number is skipped.\<close>

definition read_limit :: "string \<Rightarrow> cockpit_limits \<Rightarrow> cockpit_limits" where
  "read_limit item l =
     (case split_once (CHR '':'') item of
        None \<Rightarrow> l
      | Some (key, v) \<Rightarrow>
          if key = ''max_linear_mm_s'' then (case str_i16 v of None \<Rightarrow> l | Some n \<Rightarrow> l\<lparr>li_max_linear_mm_s := n\<rparr>)
          else if key = ''max_angular_mrad_s''
          then (case str_i16 v of None \<Rightarrow> l | Some n \<Rightarrow> l\<lparr>li_max_angular_mrad_s := n\<rparr>)
          else if key = ''min_ttl_ms'' then (case str_u32 v of None \<Rightarrow> l | Some n \<Rightarrow> l\<lparr>li_min_ttl_ms := n\<rparr>)
          else if key = ''max_ttl_ms'' then (case str_u32 v of None \<Rightarrow> l | Some n \<Rightarrow> l\<lparr>li_max_ttl_ms := n\<rparr>)
          else l)"

definition parse_compact_limits :: "string \<Rightarrow> cockpit_limits" where
  "parse_compact_limits line =
     (case value_for line ''limits'' of
        None \<Rightarrow> default_limits
      | Some raw \<Rightarrow> fold read_limit (split_on (CHR '','') raw) default_limits)"

definition or_empty :: "string option \<Rightarrow> string" where
  "or_empty v = (case v of None \<Rightarrow> [] | Some s \<Rightarrow> s)"

definition parse_capabilities :: "u32 \<Rightarrow> string \<Rightarrow> cockpit_capabilities call" where
  "parse_capabilities seq response =
     call_bind (expect_ok seq response) (\<lambda>_.
       case strip_prefix (''OK '' @ show_unsigned seq @ '' CAPABILITIES '') response of
         None \<Rightarrow> Failed (CkBadResponse response)
       | Some rest \<Rightarrow>
           Returned
             \<lparr>ca_body_kind = or_empty (value_for rest ''body_kind''), ca_drive = or_empty (value_for rest ''drive''),
              ca_verbs = csv_for rest ''verbs'', ca_sensors = csv_for rest ''sensors'',
              ca_outputs = csv_for rest ''outputs'', ca_safety = csv_for rest ''safety'',
              ca_events = csv_for rest ''events'',
              ca_independent_watchdog =
                Option.bind (value_for rest ''independent_watchdog'')
                  (\<lambda>v. if v = ''true'' then Some True else if v = ''false'' then Some False else None),
              ca_limits = parse_compact_limits rest\<rparr>)"

text \<open>One event between two bars, \<open>seq:kind:a,b,c\<close>.\<close>

definition parse_event :: "string \<Rightarrow> cockpit_event option" where
  "parse_event chunk =
     Option.bind (split_once (CHR '':'') (trim chunk)) (\<lambda>(seq_text, tail).
       Option.bind (split_once (CHR '':'') tail) (\<lambda>(kind_text, nums).
         case split_on (CHR '','') nums of
           [a, b, c] \<Rightarrow>
             Option.bind (str_u32 seq_text) (\<lambda>seq. Option.bind (str_u32 a) (\<lambda>a.
               Option.bind (str_u32 b) (\<lambda>b. Option.bind (str_u32 c) (\<lambda>c.
                 Some \<lparr>ce_seq = seq, ce_kind = event_from_str kind_text, ce_a = a, ce_b = b, ce_c = c\<rparr>))))
         | _ \<Rightarrow> None))"

fun parse_event_list :: "string list \<Rightarrow> cockpit_event list option" where
  "parse_event_list [] = Some []"
| "parse_event_list (chunk # chunks) =
     (case parse_event chunk of
        None \<Rightarrow> None
      | Some e \<Rightarrow> map_option (\<lambda>es. e # es) (parse_event_list chunks))"

definition or_number :: "u32 \<Rightarrow> u32 option \<Rightarrow> u32" where
  "or_number d v = (case v of None \<Rightarrow> d | Some n \<Rightarrow> n)"

definition parse_events :: "u32 \<Rightarrow> u32 \<Rightarrow> string \<Rightarrow> event_batch call" where
  "parse_events seq since_seq response =
     call_bind (expect_ok seq response) (\<lambda>_.
       case strip_prefix (''OK '' @ show_unsigned seq @ '' EVENTS '') response of
         None \<Rightarrow> Failed (CkBadResponse response)
       | Some rest \<Rightarrow>
           (let chunks = split_on (CHR ''|'') rest; header = hd chunks in
            case parse_event_list (tl chunks) of
              None \<Rightarrow> Failed (CkBadResponse response)
            | Some events \<Rightarrow>
                (case number_for header ''count'' of
                   Some count \<Rightarrow>
                     if unat count \<noteq> length events then Failed (CkBadResponse response)
                     else Returned
                       \<lparr>eb_since_seq = since_seq, eb_oldest_seq = or_number 0 (number_for header ''oldest''),
                        eb_next_seq = or_number since_seq (number_for header ''next''),
                        eb_dropped_before_seq = or_number 0 (number_for header ''dropped_before''), eb_events = events\<rparr>
                 | None \<Rightarrow>
                     Returned
                       \<lparr>eb_since_seq = since_seq, eb_oldest_seq = or_number 0 (number_for header ''oldest''),
                        eb_next_seq = or_number since_seq (number_for header ''next''),
                        eb_dropped_before_seq = or_number 0 (number_for header ''dropped_before''), eb_events = events\<rparr>)))"

text \<open>The names \<open>serde\<close> gives the enumerations.\<close>

definition read_role :: "string \<Rightarrow> endpoint_role option" where
  "read_role v = map_of
     [(''brainstem'', RoleBrainstem), (''motherbrain'', RoleMotherbrain), (''forebrain'', RoleForebrain),
      (''operator'', RoleOperator), (''simulator'', RoleSimulator), (''service_tool'', RoleServiceTool)] v"

definition read_authority :: "string \<Rightarrow> control_authority option" where
  "read_authority v = map_of
     [(''motherbrain'', AuthorityMotherbrain), (''forebrain_recovery'', AuthorityForebrainRecovery),
      (''operator_debug'', AuthorityOperatorDebug)] v"

definition read_scope :: "string \<Rightarrow> service_scope option" where
  "read_scope v = map_of
     [(''bootsel'', ScopeBootsel), (''restart_create'', ScopeRestartCreate),
      (''reset_motherbrain'', ScopeResetMotherbrain)] v"

text \<open>A field that must be there; a name that must be known (else an error of \<open>serde_json\<close>).\<close>

definition must :: "string \<Rightarrow> 'a option \<Rightarrow> 'a call" where
  "must response v = (case v of None \<Rightarrow> Failed (CkBadResponse response) | Some x \<Rightarrow> Returned x)"

definition known :: "'a option \<Rightarrow> 'a call" where
  "known v = (case v of None \<Rightarrow> Failed CkTransport | Some x \<Rightarrow> Returned x)"

definition or_unknown :: "string option \<Rightarrow> string" where
  "or_unknown v = (case v of None \<Rightarrow> ''unknown'' | Some s \<Rightarrow> s)"

definition parse_control_lease :: "string \<Rightarrow> cockpit_response call" where
  "parse_control_lease r =
     call_bind (known (read_role (or_unknown (value_for r ''owner_role'')))) (\<lambda>role.
     call_bind (known (read_authority (or_unknown (value_for r ''authority'')))) (\<lambda>authority.
     call_bind (must r (value_for r ''lease_id'')) (\<lambda>lease_id.
     call_bind (must r (value_for r ''session_id'')) (\<lambda>session_id.
     call_bind (must r (number_for r ''ttl_ms'')) (\<lambda>ttl_ms.
     call_bind (must r (number_for r ''generation'')) (\<lambda>generation.
       Returned (RsControlLeaseGranted
         \<lparr>cl_lease_id = lease_id, cl_session_id = session_id, cl_owner_role = role, cl_authority = authority,
          cl_ttl_ms = ttl_ms, cl_generation = generation\<rparr>)))))))"

definition parse_service_lease :: "string \<Rightarrow> cockpit_response call" where
  "parse_service_lease r =
     call_bind (must r (value_for r ''lease_id'')) (\<lambda>lease_id.
     call_bind (must r (value_for r ''session_id'')) (\<lambda>session_id.
     call_bind (known (read_role (or_unknown (value_for r ''owner_role'')))) (\<lambda>role.
     call_bind (known (read_scope (or_unknown (value_for r ''scope'')))) (\<lambda>scope.
     call_bind (must r (number_for r ''ttl_ms'')) (\<lambda>ttl_ms.
     call_bind (must r (number_for r ''generation'')) (\<lambda>generation.
       Returned (RsServiceLeaseGranted
         \<lparr>sl_lease_id = lease_id, sl_session_id = session_id, sl_owner_role = role, sl_scope = scope,
          sl_ttl_ms = ttl_ms, sl_generation = generation\<rparr>)))))))"

definition parse_registration :: "string \<Rightarrow> cockpit_response call" where
  "parse_registration r =
     call_bind (must r (value_for r ''session_id'')) (\<lambda>session_id.
     call_bind (must r (value_for r ''fqdn'')) (\<lambda>fqdn.
     call_bind (must r (value_for r ''address'')) (\<lambda>address.
     call_bind (must r (number_for r ''ttl'')) (\<lambda>ttl_seconds.
     call_bind (must r (number_for r ''generation'')) (\<lambda>generation.
       Returned (RsNetworkEndpointRegistered
         \<lparr>nr_session_id = session_id, nr_fqdn = fqdn, nr_address = address, nr_ttl_seconds = ttl_seconds,
          nr_registration_generation = generation\<rparr>))))))"

definition parse_compact_cockpit_response :: "u32 \<Rightarrow> cockpit_request \<Rightarrow> string \<Rightarrow> cockpit_response call" where
  "parse_compact_cockpit_response seq request response =
     (case request of
        QGetStatus \<Rightarrow> call_bind (expect_ok seq response) (\<lambda>_. Returned (RsStatus response))
      | QGetCapabilities \<Rightarrow> call_bind (parse_capabilities seq response) (\<lambda>c. Returned (RsCapabilities c))
      | QGetEvents since_seq \<Rightarrow> call_bind (parse_events seq since_seq response) (\<lambda>b. Returned (RsEvents b))
      | QRegisterNetworkEndpoint _ \<Rightarrow> call_bind (expect_ok seq response) (\<lambda>_. parse_registration response)
      | QAcquireControlLease _ _ \<Rightarrow> call_bind (expect_ok seq response) (\<lambda>_. parse_control_lease response)
      | QAcquireServiceLease _ _ \<Rightarrow> call_bind (expect_ok seq response) (\<lambda>_. parse_service_lease response)
      | _ \<Rightarrow> call_bind (expect_ok seq response) (\<lambda>_. Returned RsAccepted))"

end
