(* ===== verification/Cockpit_Status.thy ===== *)
theory Cockpit_Status
  imports Cockpit_Answers
begin

text \<open>
  \<open>StatusSummary\<close> of \<open>cockpit/contract.rs\<close>: what the client reads out of a status, compact or JSON. A text that
  is JSON (the parameter \<open>read_json\<close>) is read as JSON, any other as a compact line.
\<close>

section \<open>Summaries\<close>

record contact_summary =
  co_bump_left :: "bool option"
  co_bump_right :: "bool option"
  co_wheel_drop :: "bool option"
  co_wall :: "bool option"
  co_virtual_wall :: "bool option"
  co_cliff_left :: "bool option"
  co_cliff_front_left :: "bool option"
  co_cliff_front_right :: "bool option"
  co_cliff_right :: "bool option"

record battery_summary =
  ba_voltage_mv :: "u32 option"
  ba_current_ma :: "i32 option"
  ba_charge_mah :: "u32 option"
  ba_capacity_mah :: "u32 option"
  ba_percent :: "u8 option"
  ba_charging_state :: "u8 option"
  ba_charging_sources :: "u8 option"
  ba_charging_indicator :: "bool option"
  ba_low :: "bool option"

record odometry_summary =
  od_reset_count :: "u32 option"
  od_distance_mm :: "i32 option"
  od_x_mm :: "i32 option"
  od_y_mm :: "i32 option"
  od_heading_mrad :: "i32 option"

record axis3_summary =
  ax_x :: "i32 option"
  ax_y :: "i32 option"
  ax_z :: "i32 option"

record imu_summary =
  is_present :: "string option"
  is_health :: "string option"
  is_sample_count :: "u32 option"
  is_sample_age_ms :: "u32 option"
  is_sample_timestamp_ms :: "u32 option"
  is_poll_period_ms :: "u32 option"
  is_yaw_mrad :: "i32 option"
  is_pitch_mrad :: "i32 option"
  is_roll_mrad :: "i32 option"
  is_yaw_rate_mrad_s :: "i32 option"
  is_angular_velocity_mrad_s :: axis3_summary
  is_linear_acceleration_mm_s2 :: axis3_summary
  is_accel_magnitude_mm_s2 :: "u32 option"
  is_tilt_magnitude_mrad :: "u32 option"
  is_roughness_mm_s2 :: "u32 option"
  is_impact_score_mm_s2 :: "u32 option"
  is_motion_consistency :: "string option"
  is_calibration :: "string option"
  is_orientation_confidence_permille :: "u16 option"
  is_gyro_bias_calibrated :: "bool option"
  is_mounting_calibrated :: "bool option"
  is_orientation_source :: "string option"

record status_summary =
  sm_raw :: string
  sm_uptime_ms :: "u32 option"
  sm_clock_epoch :: "u32 option"
  sm_runtime_state :: "string option"
  sm_armed :: "bool option"
  sm_estop_latched :: "bool option"
  sm_safety_tripped :: "bool option"
  sm_safety_latch_kind :: "safety_latch_kind option"
  sm_safety_hazard_generation :: "u32 option"
  sm_careful_mode_active :: "bool option"
  sm_careful_mode_remaining_ms :: "u32 option"
  sm_audio_silent :: "bool option"
  sm_audio_last_requested_cue :: "string option"
  sm_audio_last_played_cue :: "string option"
  sm_audio_last_playback_timestamp_ms :: "u32 option"
  sm_audio_suppressed_by_silent_count :: "u32 option"
  sm_audio_dropped_or_replaced_count :: "u32 option"
  sm_active_motion :: "bool option"
  sm_event_next_seq :: "u32 option"
  sm_body_packet_count :: "u32 option"
  sm_body_packet_timestamp_ms :: "u32 option"
  sm_body_packet_age_ms :: "u32 option"
  sm_body_packet_complete :: "bool option"
  sm_infrared_character :: "u8 option"
  sm_contact :: contact_summary
  sm_battery :: battery_summary
  sm_odometry :: odometry_summary
  sm_imu :: imu_summary

definition any_known_true :: "bool option list \<Rightarrow> bool option" where
  "any_known_true values =
     (if Some True \<in> set values then Some True
      else if Some False \<in> set values then Some False else None)"

definition any_contact :: "contact_summary \<Rightarrow> bool option" where
  "any_contact c = any_known_true [co_bump_left c, co_bump_right c, co_wall c, co_virtual_wall c]"

definition any_safety_stop :: "contact_summary \<Rightarrow> bool option" where
  "any_safety_stop c =
     any_known_true [co_wheel_drop c, co_cliff_left c, co_cliff_front_left c, co_cliff_front_right c, co_cliff_right c]"

text \<open>The product of a release build wraps.\<close>

definition client_battery_percent :: "u32 option \<Rightarrow> u32 option \<Rightarrow> u8 option" where
  "client_battery_percent charge_mah capacity_mah =
     (case (charge_mah, capacity_mah) of
        (Some charge, Some capacity) \<Rightarrow>
          if capacity = 0 then None else Some (ucast (min ((charge * 100) div capacity) 100))
      | _ \<Rightarrow> None)"

definition home_base :: "battery_summary \<Rightarrow> bool" where
  "home_base b = (case ba_charging_sources b of None \<Rightarrow> False | Some sources \<Rightarrow> sources AND 2 \<noteq> 0)"

definition inferred_imu_safety_latch :: "imu_summary \<Rightarrow> safety_latch_kind option" where
  "inferred_imu_safety_latch i =
     (if (case is_tilt_magnitude_mrad i of None \<Rightarrow> False | Some v \<Rightarrow> v \<ge> 650) then Some LTilt
      else if (case is_impact_score_mm_s2 i of None \<Rightarrow> False | Some v \<Rightarrow> v \<ge> 18000) then Some LImpact
      else None)"

definition latch_from_str :: "string \<Rightarrow> safety_latch_kind option" where
  "latch_from_str v = map_of
     [(''bump'', LBump), (''cliff'', LCliff), (''wheel_drop'', LWheelDrop), (''heartbeat'', LHeartbeat),
      (''tilt'', LTilt), (''impact'', LImpact), (''charging'', LCharging)] v"

text \<open>\<open>or\<close> and \<open>or_else\<close> of \<open>Option\<close>.\<close>

definition otherwise :: "'a option \<Rightarrow> 'a option \<Rightarrow> 'a option" where
  "otherwise a b = (case a of None \<Rightarrow> b | Some x \<Rightarrow> Some x)"

definition packet_age :: "u32 option \<Rightarrow> u32 option \<Rightarrow> u32 option \<Rightarrow> u32 option" where
  "packet_age uptime_ms packet_ms packet_count =
     (case (uptime_ms, packet_ms, packet_count) of
        (Some uptime, Some packet, Some n) \<Rightarrow> if n > 0 then Some (uptime - packet) else None
      | _ \<Rightarrow> None)"

section \<open>Compact lines\<close>

definition contact_from_raw :: "string \<Rightarrow> contact_summary" where
  "contact_from_raw raw =
     \<lparr>co_bump_left = bool_for raw ''bump_left'', co_bump_right = bool_for raw ''bump_right'',
      co_wheel_drop = bool_for raw ''wheel_drop'', co_wall = bool_for raw ''wall'',
      co_virtual_wall = bool_for raw ''virtual_wall'', co_cliff_left = bool_for raw ''cliff_left'',
      co_cliff_front_left = bool_for raw ''cliff_front_left'',
      co_cliff_front_right = bool_for raw ''cliff_front_right'', co_cliff_right = bool_for raw ''cliff_right''\<rparr>"

definition battery_from_raw :: "string \<Rightarrow> battery_summary" where
  "battery_from_raw raw =
     (let charge_mah = number_for raw ''charge_mah''; capacity_mah = number_for raw ''capacity_mah'';
          percent = client_battery_percent charge_mah capacity_mah in
      \<lparr>ba_voltage_mv = number_for raw ''voltage_mv'', ba_current_ma = signed_number_for raw ''current_ma'',
       ba_charge_mah = charge_mah, ba_capacity_mah = capacity_mah, ba_percent = percent,
       ba_charging_state = map_option ucast (number_for raw ''charging_state''),
       ba_charging_sources = map_option ucast (number_for raw ''charging_sources''),
       ba_charging_indicator = bool_for raw ''charging_indicator'', ba_low = map_option (\<lambda>v. v \<le> 20) percent\<rparr>)"

definition odometry_from_raw :: "string \<Rightarrow> odometry_summary" where
  "odometry_from_raw raw =
     \<lparr>od_reset_count = number_for raw ''odometry_resets'',
      od_distance_mm = signed_number_for raw ''odometry_distance_mm'',
      od_x_mm = signed_number_for raw ''odometry_x_mm'', od_y_mm = signed_number_for raw ''odometry_y_mm'',
      od_heading_mrad = signed_number_for raw ''odometry_heading_mrad''\<rparr>"

definition imu_from_raw :: "string \<Rightarrow> imu_summary" where
  "imu_from_raw raw =
     \<lparr>is_present = value_for raw ''imu_present'', is_health = value_for raw ''imu_health'',
      is_sample_count = otherwise (number_for raw ''imu_samples'') (number_for raw ''imu_sample_count''),
      is_sample_age_ms = number_for raw ''imu_age_ms'',
      is_sample_timestamp_ms = number_for raw ''imu_sample_ms'',
      is_poll_period_ms = number_for raw ''imu_poll_ms'', is_yaw_mrad = signed_number_for raw ''imu_yaw_mrad'',
      is_pitch_mrad = signed_number_for raw ''imu_pitch_mrad'',
      is_roll_mrad = signed_number_for raw ''imu_roll_mrad'',
      is_yaw_rate_mrad_s = signed_number_for raw ''imu_yaw_rate_mrad_s'',
      is_angular_velocity_mrad_s = \<lparr>ax_x = signed_number_for raw ''imu_gyro_x_mrad_s'', ax_y = signed_number_for raw ''imu_gyro_y_mrad_s'', ax_z = signed_number_for raw ''imu_gyro_z_mrad_s''\<rparr>,
      is_linear_acceleration_mm_s2 = \<lparr>ax_x = signed_number_for raw ''imu_accel_x_mm_s2'', ax_y = signed_number_for raw ''imu_accel_y_mm_s2'', ax_z = signed_number_for raw ''imu_accel_z_mm_s2''\<rparr>,
      is_accel_magnitude_mm_s2 = number_for raw ''imu_accel_mag_mm_s2'',
      is_tilt_magnitude_mrad = number_for raw ''imu_tilt_mrad'',
      is_roughness_mm_s2 = number_for raw ''imu_roughness_mm_s2'',
      is_impact_score_mm_s2 = number_for raw ''imu_impact_mm_s2'',
      is_motion_consistency = value_for raw ''imu_motion_consistency'',
      is_calibration = value_for raw ''imu_calibration'',
      is_orientation_confidence_permille = Option.bind (number_for raw ''imu_orientation_confidence'') as_u16,
      is_gyro_bias_calibrated = bool_for raw ''imu_gyro_bias_calibrated'',
      is_mounting_calibrated = bool_for raw ''imu_mounting_calibrated'',
      is_orientation_source = value_for raw ''imu_orientation_source''\<rparr>"

definition summary_from_line :: "string \<Rightarrow> status_summary" where
  "summary_from_line raw =
     (let packet_count = number_for raw ''create_body_packets''; imu = imu_from_raw raw;
          imu_latch = inferred_imu_safety_latch imu in
     \<lparr>sm_raw = raw, sm_uptime_ms = number_for raw ''uptime_ms'', sm_clock_epoch = number_for raw ''clock_epoch'',
      sm_runtime_state = value_for raw ''runtime'', sm_armed = bool_for raw ''armed'',
      sm_estop_latched = bool_for raw ''estop'',
      sm_safety_tripped = otherwise (bool_for raw ''safety_tripped'') (map_option (\<lambda>_. True) imu_latch),
      sm_safety_latch_kind = otherwise (Option.bind (value_for raw ''safety_latch_kind'') latch_from_str) imu_latch,
      sm_safety_hazard_generation = number_for raw ''safety_hazard_generation'',
      sm_careful_mode_active = bool_for raw ''careful_mode'',
      sm_careful_mode_remaining_ms = number_for raw ''careful_remaining_ms'',
      sm_audio_silent = bool_for raw ''audio_silent'',
      sm_audio_last_requested_cue = value_for raw ''audio_last_requested'',
      sm_audio_last_played_cue = value_for raw ''audio_last_played'',
      sm_audio_last_playback_timestamp_ms = number_for raw ''audio_last_playback_ms'',
      sm_audio_suppressed_by_silent_count = number_for raw ''audio_suppressed'',
      sm_audio_dropped_or_replaced_count = number_for raw ''audio_dropped'',
      sm_active_motion = bool_for raw ''active_cmd_vel'', sm_event_next_seq = number_for raw ''event_next_seq'',
      sm_body_packet_count = packet_count,
      sm_body_packet_timestamp_ms = number_for raw ''create_last_body_packet_ms'',
      sm_body_packet_age_ms = packet_age (number_for raw ''uptime_ms'') (number_for raw ''create_last_body_packet_ms'') packet_count,
      sm_body_packet_complete = Some (or_number 0 packet_count > 0),
      sm_infrared_character = Option.bind (number_for raw ''ir_byte'') as_u8, sm_contact = contact_from_raw raw,
      sm_battery = battery_from_raw raw, sm_odometry = odometry_from_raw raw, sm_imu = imu\<rparr>)"

section \<open>JSON\<close>

definition contact_from_json :: "json option \<Rightarrow> contact_summary" where
  "contact_from_json sensors =
     (case sensors of
        None \<Rightarrow> \<lparr>co_bump_left = None, co_bump_right = None, co_wheel_drop = None, co_wall = None, co_virtual_wall = None,
      co_cliff_left = None, co_cliff_front_left = None, co_cliff_front_right = None, co_cliff_right = None\<rparr>
      | Some v \<Rightarrow> \<lparr>co_bump_left = json_bool_value v ''bump_left'', co_bump_right = json_bool_value v ''bump_right'',
      co_wheel_drop = json_bool_value v ''wheel_drop'', co_wall = json_bool_value v ''wall'',
      co_virtual_wall = json_bool_value v ''virtual_wall'', co_cliff_left = json_bool_value v ''cliff_left'',
      co_cliff_front_left = json_bool_value v ''cliff_front_left'',
      co_cliff_front_right = json_bool_value v ''cliff_front_right'',
      co_cliff_right = json_bool_value v ''cliff_right''\<rparr>)"

definition battery_from_json :: "json option \<Rightarrow> battery_summary" where
  "battery_from_json sensors =
     (case sensors of
        None \<Rightarrow> \<lparr>ba_voltage_mv = None, ba_current_ma = None, ba_charge_mah = None, ba_capacity_mah = None,
      ba_percent = None, ba_charging_state = None, ba_charging_sources = None, ba_charging_indicator = None,
      ba_low = None\<rparr>
      | Some v \<Rightarrow>
          (let charge_mah = json_u32_value v ''charge_mah''; capacity_mah = json_u32_value v ''capacity_mah'';
               percent = client_battery_percent charge_mah capacity_mah in
           \<lparr>ba_voltage_mv = json_u32_value v ''voltage_mv'', ba_current_ma = json_i32_value v ''current_ma'',
            ba_charge_mah = charge_mah, ba_capacity_mah = capacity_mah, ba_percent = percent,
            ba_charging_state = map_option ucast (json_u32_value v ''charging_state''),
            ba_charging_sources = map_option ucast (json_u32_value v ''charging_sources''),
            ba_charging_indicator = json_tri_state_value v ''charging_indicator'',
            ba_low = map_option (\<lambda>p. p \<le> 20) percent\<rparr>))"

definition odometry_from_json :: "json option \<Rightarrow> odometry_summary" where
  "odometry_from_json odometry =
     (case odometry of
        None \<Rightarrow> \<lparr>od_reset_count = None, od_distance_mm = None, od_x_mm = None, od_y_mm = None, od_heading_mrad = None\<rparr>
      | Some v \<Rightarrow> \<lparr>od_reset_count = json_u32_value v ''reset_count'', od_distance_mm = json_i32_value v ''distance_mm'',
      od_x_mm = json_i32_value v ''x_mm'', od_y_mm = json_i32_value v ''y_mm'',
      od_heading_mrad = json_i32_value v ''heading_mrad''\<rparr>)"

definition axis3_from_json :: "json option \<Rightarrow> axis3_summary" where
  "axis3_from_json value =
     (case value of
        None \<Rightarrow> \<lparr>ax_x = None, ax_y = None, ax_z = None\<rparr>
      | Some v \<Rightarrow> \<lparr>ax_x = json_i32_value v ''x'', ax_y = json_i32_value v ''y'', ax_z = json_i32_value v ''z''\<rparr>)"

definition imu_from_json :: "json option \<Rightarrow> imu_summary" where
  "imu_from_json value =
     (case value of
        None \<Rightarrow> \<lparr>is_present = None, is_health = None, is_sample_count = None, is_sample_age_ms = None,
      is_sample_timestamp_ms = None, is_poll_period_ms = None, is_yaw_mrad = None, is_pitch_mrad = None,
      is_roll_mrad = None, is_yaw_rate_mrad_s = None,
      is_angular_velocity_mrad_s = \<lparr>ax_x = None, ax_y = None, ax_z = None\<rparr>,
      is_linear_acceleration_mm_s2 = \<lparr>ax_x = None, ax_y = None, ax_z = None\<rparr>,
      is_accel_magnitude_mm_s2 = None, is_tilt_magnitude_mrad = None, is_roughness_mm_s2 = None,
      is_impact_score_mm_s2 = None, is_motion_consistency = None, is_calibration = None,
      is_orientation_confidence_permille = None, is_gyro_bias_calibrated = None, is_mounting_calibrated = None,
      is_orientation_source = None\<rparr>
      | Some v \<Rightarrow> \<lparr>is_present = json_str_value v ''present'', is_health = json_str_value v ''health'',
      is_sample_count = json_u32_value v ''sample_count'', is_sample_age_ms = json_u32_value v ''sample_age_ms'',
      is_sample_timestamp_ms = json_u32_value v ''last_sample_timestamp_ms'',
      is_poll_period_ms = json_u32_value v ''poll_period_ms'', is_yaw_mrad = json_i32_value v ''yaw_mrad'',
      is_pitch_mrad = json_i32_value v ''pitch_mrad'', is_roll_mrad = json_i32_value v ''roll_mrad'',
      is_yaw_rate_mrad_s = json_i32_value v ''yaw_rate_mrad_s'',
      is_angular_velocity_mrad_s = axis3_from_json (json_get v ''angular_velocity_mrad_s''),
      is_linear_acceleration_mm_s2 = axis3_from_json (json_get v ''linear_acceleration_mm_s2''),
      is_accel_magnitude_mm_s2 = json_u32_value v ''accel_magnitude_mm_s2'',
      is_tilt_magnitude_mrad = json_u32_value v ''tilt_magnitude_mrad'',
      is_roughness_mm_s2 = json_u32_value v ''roughness_mm_s2'',
      is_impact_score_mm_s2 = json_u32_value v ''impact_score_mm_s2'',
      is_motion_consistency = json_str_value v ''motion_consistency'',
      is_calibration = json_str_value v ''calibration'',
      is_orientation_confidence_permille = Option.bind (json_u32_value v ''orientation_confidence_permille'') as_u16,
      is_gyro_bias_calibrated = json_bool_value v ''gyro_bias_calibrated'',
      is_mounting_calibrated = json_bool_value v ''mounting_calibrated'',
      is_orientation_source = json_str_value v ''orientation_source''\<rparr>)"

definition sensors_tripped :: "json \<Rightarrow> bool" where
  "sensors_tripped sensors \<longleftrightarrow>
     list_ex (\<lambda>key. json_bool_value sensors key = Some True)
       [''wheel_drop'', ''cliff_left'', ''cliff_front_left'', ''cliff_front_right'', ''cliff_right'']"

definition summary_from_json :: "string \<Rightarrow> json \<Rightarrow> status_summary" where
  "summary_from_json raw v =
     (let sensors = json_get v ''create_sensors''; audio = json_get v ''audio'';
          packet_count = Option.bind sensors (\<lambda>s. json_u32_value s ''complete_packet_count'');
          packet_ms = Option.bind sensors (\<lambda>s. json_u32_value s ''last_complete_packet_timestamp_ms'') in
     \<lparr>sm_raw = raw, sm_uptime_ms = json_u32_value v ''uptime_ms'',
      sm_clock_epoch = json_u32_value v ''clock_epoch'',
      sm_runtime_state = otherwise (json_str_value v ''current_runtime_state'') (json_str_value v ''runtime''),
      sm_armed = map_option (\<lambda>mode. mode = ''safe'' \<or> mode = ''full'') (json_str_value v ''oi_mode''),
      sm_estop_latched = json_bool_value v ''estop_latched'',
      sm_safety_tripped = otherwise (json_bool_value v ''safety_tripped'') (map_option sensors_tripped sensors),
      sm_safety_latch_kind = Option.bind (json_str_value v ''safety_latch_kind'') latch_from_str,
      sm_safety_hazard_generation = json_u32_value v ''safety_hazard_generation'',
      sm_careful_mode_active = json_bool_value v ''careful_mode_active'',
      sm_careful_mode_remaining_ms = json_u32_value v ''careful_mode_remaining_ms'',
      sm_audio_silent = otherwise (json_bool_value v ''audio_silent'') (Option.bind audio (\<lambda>a. json_bool_value a ''silent'')),
      sm_audio_last_requested_cue = Option.bind audio (\<lambda>a. json_str_value a ''last_requested_cue''),
      sm_audio_last_played_cue = Option.bind audio (\<lambda>a. json_str_value a ''last_played_cue''),
      sm_audio_last_playback_timestamp_ms = Option.bind audio (\<lambda>a. json_u32_value a ''last_playback_timestamp_ms''),
      sm_audio_suppressed_by_silent_count = Option.bind audio (\<lambda>a. json_u32_value a ''suppressed_by_silent_count''),
      sm_audio_dropped_or_replaced_count = Option.bind audio (\<lambda>a. json_u32_value a ''dropped_or_replaced_count''),
      sm_active_motion = map_option (\<lambda>command. command = ''drive'') (json_str_value v ''current_command''),
      sm_event_next_seq = json_u32_value v ''event_next_seq'', sm_body_packet_count = packet_count,
      sm_body_packet_timestamp_ms = packet_ms,
      sm_body_packet_age_ms = packet_age (json_u32_value v ''uptime_ms'') packet_ms packet_count,
      sm_body_packet_complete = Some (or_number 0 packet_count > 0),
      sm_infrared_character = Option.bind (Option.bind sensors (\<lambda>s. json_u32_value s ''ir_byte'')) as_u8,
      sm_contact = contact_from_json sensors, sm_battery = battery_from_json sensors,
      sm_odometry = odometry_from_json (json_get v ''odometry''), sm_imu = imu_from_json (json_get v ''imu'')\<rparr>)"

section \<open>Status\<close>

definition summary_from_raw :: "(string \<Rightarrow> json option) \<Rightarrow> string \<Rightarrow> status_summary" where
  "summary_from_raw read_json raw =
     (case read_json raw of Some v \<Rightarrow> summary_from_json raw v | None \<Rightarrow> summary_from_line raw)"

definition has_fresh_complete_body_packet :: "u32 \<Rightarrow> status_summary \<Rightarrow> bool" where
  "has_fresh_complete_body_packet max_age_ms s \<longleftrightarrow>
     sm_body_packet_complete s = Some True \<and>
     (case sm_body_packet_age_ms s of None \<Rightarrow> False | Some age_ms \<Rightarrow> age_ms \<le> max_age_ms)"

section \<open>Answers in JSON\<close>

definition parse_json_limits :: "json \<Rightarrow> cockpit_limits" where
  "parse_json_limits v =
     (case json_get v ''limits'' of
        None \<Rightarrow> default_limits
      | Some l \<Rightarrow>
          \<lparr>li_max_linear_mm_s = (case json_i16_value l ''max_linear_mm_s'' of None \<Rightarrow> 32767 | Some n \<Rightarrow> n),
           li_max_angular_mrad_s = (case json_i16_value l ''max_angular_mrad_s'' of None \<Rightarrow> 32767 | Some n \<Rightarrow> n),
           li_min_ttl_ms = or_number 1 (json_u32_value l ''min_ttl_ms''),
           li_max_ttl_ms = or_number 4294967295 (json_u32_value l ''max_ttl_ms'')\<rparr>)"

definition parse_json_capabilities :: "json \<Rightarrow> cockpit_capabilities" where
  "parse_json_capabilities v =
     \<lparr>ca_body_kind = or_empty (json_str_value v ''body_kind''), ca_drive = or_empty (json_str_value v ''drive''),
      ca_verbs = json_string_array v ''verbs'', ca_sensors = json_string_array v ''sensors'',
      ca_outputs = json_string_array v ''outputs'', ca_safety = json_string_array v ''safety'',
      ca_events = json_string_array v ''events'', ca_independent_watchdog = json_bool_value v ''independent_watchdog'',
      ca_limits = parse_json_limits v\<rparr>"

text \<open>The error prints the event that has no sequence number; its text is not modelled.\<close>

definition parse_json_event :: "json \<Rightarrow> cockpit_event option" where
  "parse_json_event event =
     map_option (\<lambda>seq.
       \<lparr>ce_seq = seq,
        ce_kind = event_from_str (case json_str_value event ''kind'' of None \<Rightarrow> ''unknown'' | Some k \<Rightarrow> k),
        ce_a = or_number 0 (json_u32_value event ''a''), ce_b = or_number 0 (json_u32_value event ''b''),
        ce_c = or_number 0 (json_u32_value event ''c'')\<rparr>)
       (json_u32_value event ''seq'')"

definition parse_json_events :: "u32 \<Rightarrow> json \<Rightarrow> event_batch call" where
  "parse_json_events since_seq v =
     (case Option.bind (json_get v ''events'') json_elements of
        None \<Rightarrow> Failed unexpected_response
      | Some events \<Rightarrow>
          (case those (map parse_json_event events) of
             None \<Rightarrow> Failed unexpected_response
           | Some es \<Rightarrow>
               Returned \<lparr>eb_since_seq = since_seq, eb_oldest_seq = or_number 0 (json_u32_value v ''oldest_seq''),
                 eb_next_seq = or_number since_seq (json_u32_value v ''next_seq''),
                 eb_dropped_before_seq = or_number 0 (json_u32_value v ''dropped_before_seq''), eb_events = es\<rparr>))"

definition json_rejection :: "json \<Rightarrow> string option" where
  "json_rejection v =
     (if Option.bind (json_get v ''accepted'') json_as_bool = Some False then
        Some (case otherwise (json_str_value v ''message'') (json_str_value v ''reason'') of
                None \<Rightarrow> ''rejected'' | Some reason \<Rightarrow> reason)
      else None)"

text \<open>An enumeration in a field: the field must be there, its name must be known.\<close>

definition json_enum :: "string \<Rightarrow> json \<Rightarrow> string \<Rightarrow> (string \<Rightarrow> 'a option) \<Rightarrow> 'a call" where
  "json_enum response v key read =
     call_bind (must response (json_get v key)) (\<lambda>w. known (Option.bind (json_as_str w) read))"

definition parse_json_control_lease :: "string \<Rightarrow> json \<Rightarrow> cockpit_response call" where
  "parse_json_control_lease r v =
     call_bind (must r (json_str_value v ''lease_id'')) (\<lambda>lease_id.
     call_bind (must r (json_str_value v ''session_id'')) (\<lambda>session_id.
     call_bind (json_enum r v ''owner_role'' read_role) (\<lambda>role.
     call_bind (json_enum r v ''authority'' read_authority) (\<lambda>authority.
     call_bind (must r (json_u32_value v ''ttl_ms'')) (\<lambda>ttl_ms.
     call_bind (must r (json_u32_value v ''generation'')) (\<lambda>generation.
       Returned (RsControlLeaseGranted
         \<lparr>cl_lease_id = lease_id, cl_session_id = session_id, cl_owner_role = role, cl_authority = authority,
          cl_ttl_ms = ttl_ms, cl_generation = generation\<rparr>)))))))"

definition parse_json_service_lease :: "string \<Rightarrow> json \<Rightarrow> cockpit_response call" where
  "parse_json_service_lease r v =
     call_bind (must r (json_str_value v ''lease_id'')) (\<lambda>lease_id.
     call_bind (must r (json_str_value v ''session_id'')) (\<lambda>session_id.
     call_bind (json_enum r v ''owner_role'' read_role) (\<lambda>role.
     call_bind (json_enum r v ''scope'' read_scope) (\<lambda>scope.
     call_bind (must r (json_u32_value v ''ttl_ms'')) (\<lambda>ttl_ms.
     call_bind (must r (json_u32_value v ''generation'')) (\<lambda>generation.
       Returned (RsServiceLeaseGranted
         \<lparr>sl_lease_id = lease_id, sl_session_id = session_id, sl_owner_role = role, sl_scope = scope,
          sl_ttl_ms = ttl_ms, sl_generation = generation\<rparr>)))))))"

definition parse_json_registration :: "string \<Rightarrow> json \<Rightarrow> cockpit_response call" where
  "parse_json_registration r v =
     call_bind (must r (json_str_value v ''session_id'')) (\<lambda>session_id.
     call_bind (must r (json_str_value v ''fqdn'')) (\<lambda>fqdn.
     call_bind (must r (json_str_value v ''address'')) (\<lambda>address.
     call_bind (must r (json_u32_value v ''ttl_seconds'')) (\<lambda>ttl_seconds.
     call_bind (must r (json_u32_value v ''registration_generation'')) (\<lambda>generation.
       Returned (RsNetworkEndpointRegistered
         \<lparr>nr_session_id = session_id, nr_fqdn = fqdn, nr_address = address, nr_ttl_seconds = ttl_seconds,
          nr_registration_generation = generation\<rparr>))))))"

definition parse_json_cockpit_response ::
  "(string \<Rightarrow> json option) \<Rightarrow> u32 \<Rightarrow> cockpit_request \<Rightarrow> string \<Rightarrow> cockpit_response call" where
  "parse_json_cockpit_response read_json command_id request response =
     (case read_json (trim response) of
        None \<Rightarrow> Failed CkTransport
      | Some v \<Rightarrow>
          (case json_rejection v of
             Some reason \<Rightarrow> Failed (CkRejected command_id reason)
           | None \<Rightarrow>
               (case request of
                  QGetStatus \<Rightarrow> Returned (RsStatus (trim response))
                | QGetCapabilities \<Rightarrow> Returned (RsCapabilities (parse_json_capabilities v))
                | QGetEvents since_seq \<Rightarrow> call_bind (parse_json_events since_seq v) (\<lambda>b. Returned (RsEvents b))
                | QRegisterNetworkEndpoint _ \<Rightarrow> parse_json_registration response v
                | QAcquireControlLease _ _ \<Rightarrow> parse_json_control_lease response v
                | QAcquireServiceLease _ _ \<Rightarrow> parse_json_service_lease response v
                | _ \<Rightarrow>
                    if Option.bind (json_get v ''accepted'') json_as_bool = Some True then Returned RsAccepted
                    else Failed (CkBadResponse response))))"

end
