(* ===== verification/Possession.thy ===== *)
theory Possession
  imports Cockpit_Status
begin

text \<open>
  The client above a transport: event cursor, session and the motherbrain's possession
  (\<open>cockpit/possession/session.rs\<close>), the narrow handles and the establishment of sessions
  (\<open>cockpit/possession/access.rs\<close>). A transport implements the trait \<open>Cockpit\<close> (\<open>cockpit/interface.rs\<close>): here
  it is a record of operations on a state \<open>'c\<close>, which also carries what lies outside the program (the clock,
  the sleep, the JSON parser, the text of an error). Floating-point velocities are kept as the integers they
  come from.
\<close>

section \<open>Connectors\<close>

type_synonym ('c, 'a) run = "'c \<times> 'a call"

record 'c connector =
  op_execute :: "cockpit_request \<Rightarrow> 'c \<Rightarrow> ('c, cockpit_response) run"
  op_handshake :: "handshake_hello \<Rightarrow> 'c \<Rightarrow> ('c, handshake_outcome) run"
  op_in_session :: "cockpit_session \<Rightarrow> cockpit_request \<Rightarrow> 'c \<Rightarrow> ('c, cockpit_response) run"
  op_with_lease :: "cockpit_session \<Rightarrow> control_lease \<Rightarrow> cockpit_request \<Rightarrow> 'c \<Rightarrow> ('c, cockpit_response) run"
  op_with_service :: "cockpit_session \<Rightarrow> service_lease \<Rightarrow> cockpit_request \<Rightarrow> 'c \<Rightarrow> ('c, cockpit_response) run"
  op_get_status :: "'c \<Rightarrow> ('c, string) run"
  op_get_capabilities :: "'c \<Rightarrow> ('c, cockpit_capabilities) run"
  op_get_events :: "u32 \<Rightarrow> 'c \<Rightarrow> ('c, event_batch) run"
  op_command :: "cockpit_request \<Rightarrow> 'c \<Rightarrow> ('c, unit) run"
  op_event_cursor_hint :: "'c \<Rightarrow> u32 option"
  op_manages_motion_heartbeat :: "'c \<Rightarrow> bool"
  op_sleep :: "nat \<Rightarrow> 'c \<Rightarrow> 'c"
  op_now :: "'c \<Rightarrow> nat"
  op_read_json :: "string \<Rightarrow> json option"
  op_show_error :: "cockpit_error \<Rightarrow> string"

text \<open>The question mark.\<close>

definition andthen :: "('s, 'a) run \<Rightarrow> ('a \<Rightarrow> 's \<Rightarrow> ('s, 'b) run) \<Rightarrow> ('s, 'b) run" where
  "andthen r f =
     (case r of (s, Returned v) \<Rightarrow> f v s | (s, Failed e) \<Rightarrow> (s, Failed e) | (s, Panicked) \<Rightarrow> (s, Panicked))"

text \<open>The trait's own queries and commands, for a connector that does not override them; \<open>op_command\<close> stands
  for the methods \<open>stop\<close>, \<open>cmd_vel\<close>, \<open>heartbeat_stop\<close> and their like.\<close>

definition default_get_status ::
  "(cockpit_request \<Rightarrow> 'c \<Rightarrow> ('c, cockpit_response) run) \<Rightarrow> 'c \<Rightarrow> ('c, string) run" where
  "default_get_status execute c =
     andthen (execute QGetStatus c)
       (\<lambda>r c. (c, case r of RsStatus raw \<Rightarrow> Returned raw | _ \<Rightarrow> Failed unexpected_response))"

definition default_get_capabilities ::
  "(cockpit_request \<Rightarrow> 'c \<Rightarrow> ('c, cockpit_response) run) \<Rightarrow> 'c \<Rightarrow> ('c, cockpit_capabilities) run" where
  "default_get_capabilities execute c =
     andthen (execute QGetCapabilities c)
       (\<lambda>r c. (c, case r of RsCapabilities caps \<Rightarrow> Returned caps | _ \<Rightarrow> Failed unexpected_response))"

definition default_command ::
  "(cockpit_request \<Rightarrow> 'c \<Rightarrow> ('c, cockpit_response) run) \<Rightarrow> cockpit_request \<Rightarrow> 'c \<Rightarrow> ('c, unit) run" where
  "default_command execute r c = andthen (execute r c) (\<lambda>response c. (c, expect_accepted response))"

definition default_get_events ::
  "(cockpit_request \<Rightarrow> 'c \<Rightarrow> ('c, cockpit_response) run) \<Rightarrow> u32 \<Rightarrow> 'c \<Rightarrow> ('c, event_batch) run" where
  "default_get_events execute since_seq c =
     andthen (execute (QGetEvents since_seq) c)
       (\<lambda>r c. (c, case r of RsEvents events \<Rightarrow> Returned events | _ \<Rightarrow> Failed unexpected_response))"

section \<open>The event cursor\<close>

definition cursor_from_next_seq :: "u32 \<Rightarrow> u32" where
  "cursor_from_next_seq next_seq = sat_sub next_seq 1"

definition cursor_poll :: "'c connector \<Rightarrow> u32 \<Rightarrow> 'c \<Rightarrow> ('c, event_batch) run \<times> u32" where
  "cursor_poll ops cursor c =
     (case op_get_events ops cursor c of
        (c, Returned batch) \<Rightarrow>
          (case ensure_no_missed_events batch of
             Inl dropped \<Rightarrow> ((c, Failed (CkMissedEvents dropped)), cursor)
           | Inr _ \<Rightarrow> ((c, Returned batch), sat_sub (eb_next_seq batch) 1))
      | (c, Failed e) \<Rightarrow> ((c, Failed e), cursor)
      | (c, Panicked) \<Rightarrow> ((c, Panicked), cursor))"

section \<open>Sessions\<close>

record 'c client_session =
  se_connector :: 'c
  se_outcome :: handshake_outcome
  se_cursor :: u32
  se_control_lease :: "control_lease option"
  se_service_lease :: "service_lease option"

definition on_connector :: "('c \<Rightarrow> ('c, 'a) run) \<Rightarrow> 'c client_session \<Rightarrow> ('c client_session, 'a) run" where
  "on_connector f s = (case f (se_connector s) of (c, r) \<Rightarrow> (s\<lparr>se_connector := c\<rparr>, r))"

definition checked :: "policy_error + unit \<Rightarrow> unit call" where
  "checked v = (case v of Inl e \<Rightarrow> Failed (CkContract e) | Inr _ \<Rightarrow> Returned ())"

text \<open>\<open>SessionCockpit::execute\<close> by authorization class.\<close>

definition execute_leased ::
  "'c connector \<Rightarrow> cockpit_request \<Rightarrow> 'c client_session \<Rightarrow> ('c client_session, cockpit_response) run" where
  "execute_leased ops r s =
     (case se_control_lease s of
        None \<Rightarrow> (s, Failed (CkPolicy ''no control lease has been acquired''))
      | Some lease \<Rightarrow>
          if requires_operator_debug r \<and> cl_authority lease \<noteq> AuthorityOperatorDebug
          then (s, Failed (CkPolicy ''attended operator-debug authority required''))
          else on_connector (op_with_lease ops (ho_session (se_outcome s)) lease r) s)"

definition execute_service ::
  "'c connector \<Rightarrow> cockpit_request \<Rightarrow> 'c client_session \<Rightarrow> ('c client_session, cockpit_response) run" where
  "execute_service ops r s =
     (case se_service_lease s of
        None \<Rightarrow> (s, Failed (CkPolicy ''no service lease has been acquired''))
      | Some lease \<Rightarrow>
          if required_service_scope r \<noteq> Some (sl_scope lease) then (s, Failed (CkPolicy ''service_scope_denied''))
          else on_connector (op_with_service ops (ho_session (se_outcome s)) lease r) s)"

definition session_execute ::
  "'c connector \<Rightarrow> cockpit_request \<Rightarrow> 'c client_session \<Rightarrow> ('c client_session, cockpit_response) run" where
  "session_execute ops r s =
     (case validate_request (ho_contract (se_outcome s)) r of
        Inl e \<Rightarrow> (s, Failed (CkContract e))
      | Inr _ \<Rightarrow>
          (case authorization_class_of r of
             AuthControlLease \<Rightarrow> execute_leased ops r s
           | AuthServiceLease \<Rightarrow> execute_service ops r s
           | _ \<Rightarrow> on_connector (op_in_session ops (ho_session (se_outcome s)) r) s))"

definition acquire_control ::
  "'c connector \<Rightarrow> control_authority \<Rightarrow> u32 \<Rightarrow> 'c client_session \<Rightarrow> ('c client_session, control_lease) run" where
  "acquire_control ops authority ttl_ms s =
     andthen (on_connector (op_in_session ops (ho_session (se_outcome s)) (QAcquireControlLease authority ttl_ms)) s)
       (\<lambda>r s. case r of
          RsControlLeaseGranted lease \<Rightarrow>
            (s\<lparr>se_service_lease := None, se_control_lease := Some lease\<rparr>, Returned lease)
        | _ \<Rightarrow> (s, Failed unexpected_response))"

definition acquire_service ::
  "'c connector \<Rightarrow> service_scope \<Rightarrow> u32 \<Rightarrow> 'c client_session \<Rightarrow> ('c client_session, service_lease) run" where
  "acquire_service ops scope ttl_ms s =
     andthen (on_connector (op_in_session ops (ho_session (se_outcome s)) (QAcquireServiceLease scope ttl_ms)) s)
       (\<lambda>r s. case r of
          RsServiceLeaseGranted lease \<Rightarrow>
            (s\<lparr>se_control_lease := None, se_service_lease := Some lease\<rparr>, Returned lease)
        | _ \<Rightarrow> (s, Failed unexpected_response))"

definition session_read_only ::
  "'c connector \<Rightarrow> cockpit_request \<Rightarrow> 'c client_session \<Rightarrow> ('c client_session, cockpit_response) run" where
  "session_read_only ops r s =
     (if requires_session r then (s, Failed (CkPolicy ''read_only accepts recovery requests only''))
      else on_connector (op_execute ops r) s)"

definition session_poll_events :: "'c connector \<Rightarrow> 'c client_session \<Rightarrow> ('c client_session, event_batch) run" where
  "session_poll_events ops s =
     (case cursor_poll ops (se_cursor s) (se_connector s) of
        ((c, r), cursor) \<Rightarrow> (s\<lparr>se_connector := c, se_cursor := cursor\<rparr>, r))"

section \<open>Narrow handles and establishment\<close>

definition control_execute ::
  "'c connector \<Rightarrow> cockpit_request \<Rightarrow> 'c client_session \<Rightarrow> ('c client_session, cockpit_response) run" where
  "control_execute ops r s =
     (if authorization_class_of r \<notin> {AuthControlLease, AuthEmergency, AuthSession}
         \<or> (case r of QAcquireControlLease _ _ \<Rightarrow> True | QAcquireServiceLease _ _ \<Rightarrow> True
            | QRegisterNetworkEndpoint _ \<Rightarrow> True | _ \<Rightarrow> False)
      then (s, Failed (CkPolicy ''request is outside control-lease authority''))
      else session_execute ops r s)"

definition service_execute ::
  "'c connector \<Rightarrow> cockpit_request \<Rightarrow> 'c client_session \<Rightarrow> ('c client_session, cockpit_response) run" where
  "service_execute ops r s =
     (if authorization_class_of r \<noteq> AuthServiceLease
      then (s, Failed (CkPolicy ''request is outside service-lease authority''))
      else session_execute ops r s)"

definition new_client_session :: "handshake_outcome \<Rightarrow> 'c \<Rightarrow> 'c client_session" where
  "new_client_session out c =
     \<lparr>se_connector = c, se_outcome = out, se_cursor = cursor_from_next_seq (ho_event_cursor out),
      se_control_lease = None, se_service_lease = None\<rparr>"

text \<open>The checks on the outcome; the error lists the verbs the client does not know.\<close>

definition check_outcome :: "handshake_outcome \<Rightarrow> unit call" where
  "check_outcome out =
     call_bind (checked (validate_event_vocabulary (ho_contract out))) (\<lambda>_.
       if rp_missing_verbs (validate_local_model (ho_contract out)) \<noteq> []
       then Failed (CkPolicy ''live capability contract contains unsupported verbs'')
       else if ss_armed (hw_safety_snapshot (ho_welcome out)) \<or> ss_active_motion (hw_safety_snapshot (ho_welcome out))
       then Failed (CkUnsafeHandshake ''brainstem is not ready-but-disarmed'')
       else Returned ())"

definition establish_session ::
  "'c connector \<Rightarrow> handshake_hello \<Rightarrow> cockpit_session option \<Rightarrow> 'c \<Rightarrow> ('c, 'c client_session) run" where
  "establish_session ops h prior c =
     andthen (op_handshake ops h c) (\<lambda>out c.
       let out = classify_against prior out in
       (c, call_bind (check_outcome out) (\<lambda>_. Returned (new_client_session out c))))"

definition establish_diagnostic_session ::
  "'c connector \<Rightarrow> handshake_hello \<Rightarrow> cockpit_session option \<Rightarrow> 'c \<Rightarrow> ('c, 'c client_session) run" where
  "establish_diagnostic_session ops h prior c =
     andthen (op_handshake ops (h\<lparr>hh_session_purpose := PurposeDiagnostic\<rparr>) c) (\<lambda>out c.
       let out = classify_against prior out in
       (c, call_bind (checked (validate_event_vocabulary (ho_contract out)))
             (\<lambda>_. Returned (new_client_session out c))))"

datatype replacement_policy = RejectReplacement | AcceptReplacement

text \<open>\<open>FailoverCockpit::failover\<close>: the active session and the one that was left, if the switch is made; the
  nonce of the new hello is given. What stop and disarm answer on the old lane does not matter.\<close>

definition failover ::
  "'c connector \<Rightarrow> string \<Rightarrow> 'c \<Rightarrow> handshake_hello \<Rightarrow> replacement_policy \<Rightarrow> 'c client_session \<Rightarrow>
   ('c client_session \<times> 'c client_session option, unit) run" where
  "failover ops nonce backup h policy active =
     (case establish_session ops (new_attempt nonce h) (Some (ho_session (se_outcome active))) backup of
        (_, Failed e) \<Rightarrow> ((active, None), Failed e)
      | (_, Panicked) \<Rightarrow> ((active, None), Panicked)
      | (_, Returned replacement) \<Rightarrow>
          if ho_classification (se_outcome replacement) = ClassReplacementBrainstem \<and> policy = RejectReplacement
          then ((active, None), Failed (CkPolicy ''replacement brainstem requires explicit acceptance''))
          else
            (case session_execute ops QStop active of
               (active, Panicked) \<Rightarrow> ((active, None), Panicked)
             | (active, _) \<Rightarrow>
                 (case session_execute ops QDisarm active of
                    (active, Panicked) \<Rightarrow> ((active, None), Panicked)
                  | (active, _) \<Rightarrow> ((replacement, Some active), Returned ()))))"

section \<open>Possession\<close>

record 'c possession =
  mp_session :: "'c client_session"
  mp_lease_acquired_at :: nat
  mp_lease_ttl_ms :: u32
  mp_renew_margin_ms :: u32
  mp_motion_ttl_ms :: u32
  mp_heartbeat_timeout_ms :: u32
  mp_max_linear_mm_s :: i16
  mp_max_angular_mrad_s :: i16
  mp_motor_gate_open :: bool
  mp_refusal_reason :: "string option"
  mp_last_applied_at :: "nat option"
  mp_last_applied_command :: "(i16 \<times> i16) option"
  mp_last_status :: "status_summary option"

definition possession_busy_retry_attempts :: nat where
  "possession_busy_retry_attempts = 300"

definition mp_now :: "'c connector \<Rightarrow> 'c possession \<Rightarrow> nat" where
  "mp_now ops p = op_now ops (se_connector (mp_session p))"

definition on_session ::
  "('c client_session \<Rightarrow> ('c client_session, 'a) run) \<Rightarrow> 'c possession \<Rightarrow> ('c possession, 'a) run" where
  "on_session f p = (case f (mp_session p) of (s, r) \<Rightarrow> (p\<lparr>mp_session := s\<rparr>, r))"

definition acquire_possession ::
  "'c connector \<Rightarrow> u32 \<Rightarrow> 'c client_session \<Rightarrow> ('c client_session, 'c possession) run" where
  "acquire_possession ops lease_ttl_ms s =
     (let lease_ttl_ms = max lease_ttl_ms 1000 in
      andthen (acquire_control ops AuthorityMotherbrain lease_ttl_ms s) (\<lambda>_ s.
      andthen (session_execute ops QStop s) (\<lambda>r s.
        (s, call_bind (expect_accepted r) (\<lambda>_.
          Returned
            \<lparr>mp_session = s, mp_lease_acquired_at = op_now ops (se_connector s), mp_lease_ttl_ms = lease_ttl_ms,
             mp_renew_margin_ms = max (lease_ttl_ms div 3) 500, mp_motion_ttl_ms = 300,
             mp_heartbeat_timeout_ms = 750, mp_max_linear_mm_s = 50, mp_max_angular_mrad_s = 500,
             mp_motor_gate_open = True, mp_refusal_reason = None, mp_last_applied_at = None,
             mp_last_applied_command = None, mp_last_status = None\<rparr>)))))"

definition signed_min :: "i16 \<Rightarrow> i16 \<Rightarrow> i16" where
  "signed_min a b = (if sint b < sint a then b else a)"

definition with_limits :: "i16 \<Rightarrow> i16 \<Rightarrow> 'c possession \<Rightarrow> 'c possession" where
  "with_limits linear angular p =
     p\<lparr>mp_max_linear_mm_s := signed_min (wrapping_abs linear) 50,
       mp_max_angular_mrad_s := signed_min (wrapping_abs angular) 500\<rparr>"

definition close_gate :: "string \<Rightarrow> 'c possession \<Rightarrow> 'c possession" where
  "close_gate reason p = p\<lparr>mp_motor_gate_open := False, mp_refusal_reason := Some reason\<rparr>"

definition renew_control_lease :: "'c connector \<Rightarrow> 'c possession \<Rightarrow> ('c possession, unit) run" where
  "renew_control_lease ops p =
     (case on_session (acquire_control ops AuthorityMotherbrain (mp_lease_ttl_ms p)) p of
        (p, Returned _) \<Rightarrow> (p\<lparr>mp_lease_acquired_at := mp_now ops p\<rparr>, Returned ())
      | (p, Failed e) \<Rightarrow> (close_gate (''control lease renewal failed: '' @ op_show_error ops e) p, Failed e)
      | (p, Panicked) \<Rightarrow> (p, Panicked))"

definition renew_at_ms :: "'c possession \<Rightarrow> u32" where
  "renew_at_ms p = min (sat_sub (mp_lease_ttl_ms p) (mp_renew_margin_ms p)) 1000"

definition maintain :: "'c connector \<Rightarrow> 'c possession \<Rightarrow> ('c possession, unit) run" where
  "maintain ops p =
     (if \<not> mp_motor_gate_open p then
        (p, Failed (CkPolicy (case mp_refusal_reason p of None \<Rightarrow> ''not possessed'' | Some reason \<Rightarrow> reason)))
      else if mp_now ops p - mp_lease_acquired_at p < unat (renew_at_ms p) then (p, Returned ())
      else renew_control_lease ops p)"

definition reopen_gate_if_safety_clear :: "'c connector \<Rightarrow> 'c possession \<Rightarrow> ('c possession, unit) run" where
  "reopen_gate_if_safety_clear ops p =
     andthen (on_session (session_execute ops QGetStatus) p) (\<lambda>r p.
       case r of
         RsStatus raw \<Rightarrow>
           (let status = summary_from_raw (op_read_json ops) raw; p = p\<lparr>mp_last_status := Some status\<rparr> in
            if sm_estop_latched status = Some True \<or> sm_safety_tripped status = Some True then (p, Returned ())
            else
              (case on_session (acquire_control ops AuthorityMotherbrain (mp_lease_ttl_ms p)) p of
                 (p, Returned _) \<Rightarrow>
                   (p\<lparr>mp_lease_acquired_at := mp_now ops p, mp_motor_gate_open := True,
                      mp_refusal_reason := None\<rparr>, Returned ())
               | (p, Failed e) \<Rightarrow>
                   (close_gate (''control lease recovery failed: '' @ op_show_error ops e) p, Failed e)
               | (p, Panicked) \<Rightarrow> (p, Panicked)))
       | _ \<Rightarrow> (p, Failed unexpected_response))"

definition contains_text :: "string \<Rightarrow> string \<Rightarrow> bool" where
  "contains_text part s \<longleftrightarrow> after_first part s \<noteq> None"

definition is_control_lease_rejection :: "cockpit_error \<Rightarrow> bool" where
  "is_control_lease_rejection e \<longleftrightarrow>
     (case e of
        CkRejected _ reason \<Rightarrow>
          contains_text ''invalid_control_lease'' reason \<or> contains_text ''control_lease_required'' reason
      | _ \<Rightarrow> False)"

text \<open>\<open>annotate_busy_rejection\<close>: the status, when it can be read, is added to the reason.\<close>

definition field_or_unknown :: "string \<Rightarrow> string list \<Rightarrow> string" where
  "field_or_unknown raw keys =
     (case List.map_filter (value_for raw) keys of [] \<Rightarrow> ''unknown'' | v # _ \<Rightarrow> v)"

definition annotate_busy_rejection ::
  "'c connector \<Rightarrow> u32 \<Rightarrow> string \<Rightarrow> 'c possession \<Rightarrow> ('c possession, cockpit_response) run" where
  "annotate_busy_rejection ops command_id request_name p =
     (let reason = ''busy while submitting '' @ request_name in
      case on_session (session_execute ops QGetStatus) p of
        (p, Returned (RsStatus raw)) \<Rightarrow>
          (p, Failed (CkRejected command_id
                (reason @ ''; status current='' @ field_or_unknown raw [''command'', ''current_command'']
                 @ '' pending='' @ field_or_unknown raw [''pending'', ''pending_command'']
                 @ '' pending_id='' @ field_or_unknown raw [''pending_command_id'']
                 @ '' runtime='' @ field_or_unknown raw [''runtime'', ''current_runtime_state'']
                 @ '' body='' @ field_or_unknown raw [''body''])))
      | (p, Panicked) \<Rightarrow> (p, Panicked)
      | (p, _) \<Rightarrow> (p, Failed (CkRejected command_id reason)))"

text \<open>The loop of \<open>execute_with_busy_retry\<close> over what is left of its 300 attempts; after the last one it
  is \<open>unreachable!\<close>.\<close>

definition busy_rejection :: "cockpit_error \<Rightarrow> u32 option" where
  "busy_rejection e = (case e of CkRejected command_id reason \<Rightarrow> if reason = ''busy'' then Some command_id else None | _ \<Rightarrow> None)"

definition sleep_possession :: "'c connector \<Rightarrow> nat \<Rightarrow> 'c possession \<Rightarrow> 'c possession" where
  "sleep_possession ops ms p =
     p\<lparr>mp_session := (mp_session p)\<lparr>se_connector := op_sleep ops ms (se_connector (mp_session p))\<rparr>\<rparr>"

fun busy_retry ::
  "'c connector \<Rightarrow> cockpit_request \<Rightarrow> nat \<Rightarrow> bool \<Rightarrow> 'c possession \<Rightarrow> ('c possession, cockpit_response) run" where
  "busy_retry ops r 0 retried p = (p, Panicked)"
| "busy_retry ops r (Suc n) retried p =
     (case on_session (session_execute ops r) p of
        (p, Failed e) \<Rightarrow>
          (case busy_rejection e of
             Some command_id \<Rightarrow>
               if n > 0 then busy_retry ops r n retried (sleep_possession ops 10 p)
               else annotate_busy_rejection ops command_id (verb r) p
           | None \<Rightarrow>
               if authorization_class_of r = AuthControlLease \<and> \<not> retried \<and> is_control_lease_rejection e then
                 (case renew_control_lease ops p of
                    (p, Returned _) \<Rightarrow> busy_retry ops r n True p
                  | (p, Failed e) \<Rightarrow> (p, Failed e)
                  | (p, Panicked) \<Rightarrow> (p, Panicked))
               else (p, Failed e))
      | (p, res) \<Rightarrow> (p, res))"

definition execute_with_busy_retry ::
  "'c connector \<Rightarrow> cockpit_request \<Rightarrow> 'c possession \<Rightarrow> ('c possession, cockpit_response) run" where
  "execute_with_busy_retry ops r p = busy_retry ops r possession_busy_retry_attempts False p"

definition exorcize :: "'c connector \<Rightarrow> 'c possession \<Rightarrow> ('c possession, unit) run" where
  "exorcize ops p =
     (case execute_with_busy_retry ops QStop p of
        (p, Panicked) \<Rightarrow> (p, Panicked)
      | (p, Failed e) \<Rightarrow> (close_gate ''possession exorcized'' p, Failed e)
      | (p, Returned r) \<Rightarrow> (close_gate ''possession exorcized'' p, expect_accepted r))"

definition drop_possession :: "'c connector \<Rightarrow> 'c possession \<Rightarrow> 'c possession" where
  "drop_possession ops p = fst (execute_with_busy_retry ops QStop p)"

section \<open>Scoped commands\<close>

text \<open>The durations of the old bump escape, which set its heartbeat (\<open>cockpit/interface.rs\<close>).\<close>

definition legacy_turn_duration_ms :: "i16 \<Rightarrow> u32" where
  "legacy_turn_duration_ms turn =
     (let angular = nat \<bar>sint turn\<bar> in
      if angular = 0 then 0 else of_nat ((1571000 + (angular - 1)) div angular))"

definition legacy_bump_escape_duration_ms :: "i16 \<Rightarrow> u32" where
  "legacy_bump_escape_duration_ms turn = sat_add 900 (legacy_turn_duration_ms turn)"

definition outside_possession :: "cockpit_request \<Rightarrow> string option" where
  "outside_possession r =
     (case r of
        QSetMode _ \<Rightarrow> Some ''Create OI is private to the brainstem''
      | QArm \<Rightarrow> Some ''the motherbrain lease is the possession gate; no second arm layer exists''
      | QPowerState _ \<Rightarrow> Some ''body power control is outside production possession''
      | _ \<Rightarrow> None)"

text \<open>\<open>None\<close> where a clamp has crossed bounds.\<close>

definition bounded_request :: "'c possession \<Rightarrow> cockpit_request \<Rightarrow> cockpit_request option" where
  "bounded_request p r =
     (case r of
        QCmdVel linear angular _ \<Rightarrow>
          Option.bind (clamp_signed (- mp_max_linear_mm_s p) (mp_max_linear_mm_s p) linear) (\<lambda>v.
            Option.bind (clamp_signed (- mp_max_angular_mrad_s p) (mp_max_angular_mrad_s p) angular) (\<lambda>w.
              Some (QCmdVel v w (mp_motion_ttl_ms p))))
      | QBumpEscape direction backoff turn \<Rightarrow>
          Option.bind (clamp_signed 0 (mp_max_linear_mm_s p) backoff) (\<lambda>v.
            Option.bind (clamp_signed 0 (mp_max_angular_mrad_s p) turn) (\<lambda>w.
              Some (QBumpEscape direction v w)))
      | other \<Rightarrow> Some other)"

definition heartbeat_before :: "'c possession \<Rightarrow> cockpit_request \<Rightarrow> u32 option" where
  "heartbeat_before p r =
     (case r of
        QCmdVel _ _ _ \<Rightarrow> Some (mp_heartbeat_timeout_ms p)
      | QBumpEscape _ _ turn \<Rightarrow>
          Some (max (sat_add (legacy_bump_escape_duration_ms turn) 1000) (mp_heartbeat_timeout_ms p))
      | _ \<Rightarrow> None)"

definition note_applied :: "'c connector \<Rightarrow> cockpit_request \<Rightarrow> 'c possession \<Rightarrow> 'c possession" where
  "note_applied ops r p =
     (case r of
        QCmdVel linear angular _ \<Rightarrow>
          p\<lparr>mp_last_applied_at := Some (mp_now ops p), mp_last_applied_command := Some (linear, angular)\<rparr>
      | QStop \<Rightarrow> p\<lparr>mp_last_applied_at := Some (mp_now ops p), mp_last_applied_command := Some (0, 0)\<rparr>
      | _ \<Rightarrow> p)"

text \<open>The command itself, after its heartbeat.\<close>

definition send_scoped ::
  "'c connector \<Rightarrow> cockpit_request \<Rightarrow> 'c possession \<Rightarrow> ('c possession, cockpit_response) run" where
  "send_scoped ops r p =
     (case execute_with_busy_retry ops r p of
        (p, Returned response) \<Rightarrow> (note_applied ops r p, Returned response)
      | (p, Failed e) \<Rightarrow>
          (if authorization_class_of r = AuthControlLease
           then close_gate (''scoped command failed: '' @ op_show_error ops e) p else p, Failed e)
      | (p, Panicked) \<Rightarrow> (p, Panicked))"

definition send_with_heartbeat ::
  "'c connector \<Rightarrow> cockpit_request \<Rightarrow> 'c possession \<Rightarrow> ('c possession, cockpit_response) run" where
  "send_with_heartbeat ops r p =
     (case heartbeat_before p r of
        None \<Rightarrow> send_scoped ops r p
      | Some timeout_ms \<Rightarrow>
          andthen (execute_with_busy_retry ops (QHeartbeatStop timeout_ms) p) (\<lambda>response p.
            andthen (p, expect_accepted response) (\<lambda>_ p. send_scoped ops r p)))"

definition execute_scoped ::
  "'c connector \<Rightarrow> cockpit_request \<Rightarrow> 'c possession \<Rightarrow> ('c possession, cockpit_response) run" where
  "execute_scoped ops r p =
     andthen (if bypasses_closed_motor_gate r then (p, Returned ()) else maintain ops p) (\<lambda>_ p.
       case outside_possession r of
         Some reason \<Rightarrow> (p, Failed (CkPolicy reason))
       | None \<Rightarrow>
           (case bounded_request p r of
              None \<Rightarrow> (p, Panicked)
            | Some r \<Rightarrow> send_with_heartbeat ops r p))"

definition reopens_after_clear :: "cockpit_request \<Rightarrow> bool" where
  "reopens_after_clear r =
     (case r of QClearEStop \<Rightarrow> True | QClearSafetyLatch _ \<Rightarrow> True | QCarefulMode _ \<Rightarrow> True | _ \<Rightarrow> False)"

definition execute_read_only ::
  "'c connector \<Rightarrow> cockpit_request \<Rightarrow> 'c possession \<Rightarrow> ('c possession, cockpit_response) run" where
  "execute_read_only ops r p =
     andthen (if mp_motor_gate_open p then maintain ops p else (p, Returned ())) (\<lambda>_ p.
       case on_session (session_execute ops r) p of
         (p, Failed e) \<Rightarrow> (close_gate (''brainstem status/event failure: '' @ op_show_error ops e) p, Failed e)
       | (p, Panicked) \<Rightarrow> (p, Panicked)
       | (p, Returned response) \<Rightarrow>
           (case response of
              RsStatus raw \<Rightarrow>
                (let summary = summary_from_raw (op_read_json ops) raw;
                     p = p\<lparr>mp_last_status := Some summary\<rparr> in
                 (if sm_estop_latched summary = Some True then close_gate ''brainstem safety refusal'' p else p,
                  Returned response))
            | _ \<Rightarrow> (p, Returned response)))"

definition possession_execute ::
  "'c connector \<Rightarrow> cockpit_request \<Rightarrow> 'c possession \<Rightarrow> ('c possession, cockpit_response) run" where
  "possession_execute ops r p =
     (case authorization_class_of r of
        AuthReadOnly \<Rightarrow> execute_read_only ops r p
      | AuthServiceLease \<Rightarrow> (p, Failed (CkPolicy ''service operations are outside motherbrain possession''))
      | _ \<Rightarrow>
          andthen (execute_scoped ops r p) (\<lambda>response p.
            if reopens_after_clear r then
              andthen (reopen_gate_if_safety_clear ops p) (\<lambda>_ p. (p, Returned response))
            else (p, Returned response)))"

definition possession_in_session ::
  "'c connector \<Rightarrow> cockpit_session \<Rightarrow> cockpit_request \<Rightarrow> 'c possession \<Rightarrow> ('c possession, cockpit_response) run" where
  "possession_in_session ops session r p =
     (if cs_session_id session \<noteq> cs_session_id (ho_session (se_outcome (mp_session p)))
      then (p, Failed (CkPolicy ''session replacement detected''))
      else possession_execute ops r p)"

definition possession_with_lease ::
  "'c connector \<Rightarrow> cockpit_session \<Rightarrow> control_lease \<Rightarrow> cockpit_request \<Rightarrow> 'c possession \<Rightarrow>
   ('c possession, cockpit_response) run" where
  "possession_with_lease ops session lease r p =
     (if cs_session_id session \<noteq> cs_session_id (ho_session (se_outcome (mp_session p)))
        \<or> map_option (\<lambda>l. (cl_lease_id l, cl_generation l)) (se_control_lease (mp_session p))
            \<noteq> Some (cl_lease_id lease, cl_generation lease)
      then (p, Failed (CkPolicy ''superseded possession lease''))
      else possession_execute ops r p)"

text \<open>The possession as a connector of its own: the trait's defaults over its \<open>execute\<close>.\<close>

definition possession_connector :: "'c connector \<Rightarrow> 'c possession connector" where
  "possession_connector ops =
     \<lparr>op_execute = possession_execute ops,
      op_handshake = (\<lambda>_ p. (p, Failed (CkPolicy ''possession session is already established''))),
      op_in_session = possession_in_session ops,
      op_with_lease = possession_with_lease ops,
      op_with_service = (\<lambda>_ _ _ p. (p, Failed (CkPolicy ''service operations are outside motherbrain possession''))),
      op_get_status = default_get_status (possession_execute ops),
      op_get_capabilities = default_get_capabilities (possession_execute ops),
      op_get_events = default_get_events (possession_execute ops),
      op_command = default_command (possession_execute ops),
      op_event_cursor_hint = (\<lambda>p. Some (se_cursor (mp_session p))),
      op_manages_motion_heartbeat = (\<lambda>_. True),
      op_sleep = sleep_possession ops,
      op_now = mp_now ops,
      op_read_json = op_read_json ops,
      op_show_error = op_show_error ops\<rparr>"

end
