(* ===== verification/Safe_Client.thy ===== *)
theory Safe_Client
  imports Possession
begin

text \<open>
  The agent's wrapper \<open>SafeCockpit\<close> (\<open>cockpit/safety.rs\<close>): one pulse of motion is sent only when the status
  shows no latch, clamped into the contract, after its heartbeat, and is stopped when stop events follow.
\<close>

section \<open>State\<close>

record agent_policy =
  ap_motion_ttl_ms :: u32
  ap_heartbeat_timeout_ms :: u32

definition default_policy :: agent_policy where
  "default_policy = \<lparr>ap_motion_ttl_ms = 300, ap_heartbeat_timeout_ms = 900\<rparr>"

record 'c safe_client =
  sf_client :: 'c
  sf_cursor :: u32
  sf_policy :: agent_policy
  sf_contract :: "cockpit_capabilities option"

definition cursor_hint :: "'c connector \<Rightarrow> 'c \<Rightarrow> u32" where
  "cursor_hint ops c = (case op_event_cursor_hint ops c of None \<Rightarrow> 0 | Some seq \<Rightarrow> seq)"

definition with_policy :: "'c connector \<Rightarrow> 'c \<Rightarrow> agent_policy \<Rightarrow> 'c safe_client" where
  "with_policy ops c policy =
     \<lparr>sf_client = c, sf_cursor = cursor_hint ops c, sf_policy = policy, sf_contract = None\<rparr>"

definition replace_client :: "'c connector \<Rightarrow> 'c \<Rightarrow> 'c safe_client \<Rightarrow> 'c safe_client" where
  "replace_client ops c f = f\<lparr>sf_cursor := cursor_hint ops c, sf_client := c, sf_contract := None\<rparr>"

definition on_client :: "('c \<Rightarrow> ('c, 'a) run) \<Rightarrow> 'c safe_client \<Rightarrow> ('c safe_client, 'a) run" where
  "on_client g f = (case g (sf_client f) of (c, r) \<Rightarrow> (f\<lparr>sf_client := c\<rparr>, r))"

section \<open>Queries\<close>

definition read_summary :: "'c connector \<Rightarrow> 'c safe_client \<Rightarrow> ('c safe_client, status_summary) run" where
  "read_summary ops f =
     andthen (on_client (op_get_status ops) f) (\<lambda>raw f. (f, Returned (summary_from_raw (op_read_json ops) raw)))"

definition resync_cursor :: "status_summary \<Rightarrow> 'c safe_client \<Rightarrow> 'c safe_client" where
  "resync_cursor status f =
     (case sm_event_next_seq status of
        None \<Rightarrow> f
      | Some event_next_seq \<Rightarrow> f\<lparr>sf_cursor := cursor_from_next_seq event_next_seq\<rparr>)"

definition refresh_status :: "'c connector \<Rightarrow> 'c safe_client \<Rightarrow> ('c safe_client, status_summary) run" where
  "refresh_status ops f =
     andthen (read_summary ops f) (\<lambda>status f.
       (if sf_cursor f = 0 then resync_cursor status f else f, Returned status))"

definition resync_event_cursor_from_status ::
  "'c connector \<Rightarrow> 'c safe_client \<Rightarrow> ('c safe_client, status_summary) run" where
  "resync_event_cursor_from_status ops f =
     andthen (read_summary ops f) (\<lambda>status f. (resync_cursor status f, Returned status))"

definition poll_events_allowing_history_gap ::
  "'c connector \<Rightarrow> 'c safe_client \<Rightarrow> ('c safe_client, event_batch) run" where
  "poll_events_allowing_history_gap ops f =
     andthen (on_client (op_get_events ops (sf_cursor f)) f) (\<lambda>batch f.
       (f\<lparr>sf_cursor := cursor_from_next_seq (eb_next_seq batch)\<rparr>, Returned batch))"

definition poll_events :: "'c connector \<Rightarrow> 'c safe_client \<Rightarrow> ('c safe_client, event_batch) run" where
  "poll_events ops f =
     (case cursor_poll ops (sf_cursor f) (sf_client f) of
        ((c, r), cursor) \<Rightarrow> (f\<lparr>sf_client := c, sf_cursor := cursor\<rparr>, r))"

definition refresh_contract :: "'c connector \<Rightarrow> 'c safe_client \<Rightarrow> ('c safe_client, cockpit_capabilities) run" where
  "refresh_contract ops f =
     andthen (on_client (op_get_capabilities ops) f) (\<lambda>contract f.
       andthen (f, checked (validate_event_vocabulary contract)) (\<lambda>_ f.
         (f\<lparr>sf_contract := Some contract\<rparr>, Returned contract)))"

definition ensure_contract :: "'c connector \<Rightarrow> 'c safe_client \<Rightarrow> ('c safe_client, cockpit_capabilities) run" where
  "ensure_contract ops f =
     (case sf_contract f of Some contract \<Rightarrow> (f, Returned contract) | None \<Rightarrow> refresh_contract ops f)"

definition poll_safety_events :: "'c connector \<Rightarrow> 'c safe_client \<Rightarrow> ('c safe_client, safe_stop_reason list) run" where
  "poll_safety_events ops f =
     andthen (poll_events ops f) (\<lambda>batch f. (f, Returned (List.map_filter stop_reason (eb_events batch))))"

section \<open>Motion\<close>

definition status_stops :: "status_summary \<Rightarrow> safe_stop_reason list" where
  "status_stops status =
     (if sm_estop_latched status = Some True then [StopEStopLatched] else []) @
     (if sm_safety_tripped status = Some True then [StopSafetyTripped (sm_safety_latch_kind status)] else [])"

text \<open>Clamp and check; a panic where the clamp's bounds are crossed.\<close>

definition prepared :: "cockpit_capabilities \<Rightarrow> cockpit_request \<Rightarrow> cockpit_request call" where
  "prepared contract r =
     (case clamp_motion_request (ca_limits contract) r of
        None \<Rightarrow> Panicked
      | Some r \<Rightarrow> call_bind (checked (validate_request contract r)) (\<lambda>_. Returned r))"

definition needs_heartbeat :: "'c connector \<Rightarrow> 'c safe_client \<Rightarrow> bool" where
  "needs_heartbeat ops f \<longleftrightarrow>
     ap_heartbeat_timeout_ms (sf_policy f) > 0 \<and> \<not> op_manages_motion_heartbeat ops (sf_client f)"

definition send_pulse ::
  "'c connector \<Rightarrow> bool \<Rightarrow> cockpit_capabilities \<Rightarrow> i16 \<Rightarrow> i16 \<Rightarrow> 'c safe_client \<Rightarrow> ('c safe_client, unit) run" where
  "send_pulse ops heartbeat contract linear angular f =
     andthen (f, prepared contract (QCmdVel linear angular (ap_motion_ttl_ms (sf_policy f)))) (\<lambda>motion f.
     andthen
       (if heartbeat then
          andthen (f, prepared contract (QHeartbeatStop (ap_heartbeat_timeout_ms (sf_policy f))))
            (\<lambda>beat f. on_client (op_command ops beat) f)
        else (f, Returned ())) (\<lambda>_ f.
     andthen (on_client (op_command ops motion) f) (\<lambda>_ f.
     andthen (poll_safety_events ops f) (\<lambda>stops f.
       if stops \<noteq> [] then
         (case on_client (op_command ops QStop) f of
            (f, Panicked) \<Rightarrow> (f, Panicked)
          | (f, _) \<Rightarrow> (f, Failed (CkMotionStopped stops)))
       else (f, Returned ())))))"

definition pulse_motion :: "'c connector \<Rightarrow> i16 \<Rightarrow> i16 \<Rightarrow> 'c safe_client \<Rightarrow> ('c safe_client, unit) run" where
  "pulse_motion ops linear angular f =
     andthen (refresh_status ops f) (\<lambda>status f.
       if sm_estop_latched status = Some True \<or> sm_safety_tripped status = Some True
       then (f, Failed (CkMotionStopped (status_stops status)))
       else
         (let heartbeat = needs_heartbeat ops f in
          andthen (ensure_contract ops f) (\<lambda>contract f.
            if \<not> supports contract ''cmd_vel''
            then (f, Failed (CkPolicy ''refusing motion because cmd_vel is unsupported''))
            else if heartbeat \<and> \<not> supports contract ''heartbeat_stop''
            then (f, Failed (CkPolicy ''heartbeat policy requires heartbeat_stop capability''))
            else send_pulse ops heartbeat contract linear angular f)))"

definition safe_stop :: "'c connector \<Rightarrow> 'c safe_client \<Rightarrow> ('c safe_client, unit) run" where
  "safe_stop ops f =
     andthen (on_client (op_command ops QStop) f) (\<lambda>_ f.
     andthen (poll_safety_events ops f) (\<lambda>_ f. (f, Returned ())))"

end
