(* ===== verification/Possession_Rules.thy ===== *)
theory Possession_Rules
  imports Safe_Client
begin

text \<open>
  What the possession guarantees over any connector. The locale \<open>kept_connector\<close> is the interface: a relation
  between connector states that every operation keeps for the requests it is sent; inside it each operation of
  session and possession is shown to keep the relation once. The interpretation is a connector that logs what
  it is sent, so the lemmas become statements about the log.
\<close>

section \<open>Sequencing\<close>

lemma andthen_simps [simp]:
  "andthen (s, Returned v) f = f v s" "andthen (s, Failed e) f = (s, Failed e)"
  "andthen (s, Panicked) f = (s, Panicked)"
  by (simp_all add: andthen_def)

lemma andthen_returned:
  "andthen r f = (s', Returned v) \<longleftrightarrow> (\<exists>s a. r = (s, Returned a) \<and> f a s = (s', Returned v))"
  by (auto simp: andthen_def split: prod.splits call.splits)

lemma call_bind_returned: "call_bind r f = Returned v \<longleftrightarrow> (\<exists>a. r = Returned a \<and> f a = Returned v)"
  by (cases r) auto

lemma on_connector_fst:
  "fst (on_connector f s) = s\<lparr>se_connector := fst (f (se_connector s))\<rparr>"
  "snd (on_connector f s) = snd (f (se_connector s))"
  by (simp_all add: on_connector_def split: prod.splits)

lemma on_session_fst:
  "fst (on_session f p) = p\<lparr>mp_session := fst (f (mp_session p))\<rparr>"
  "snd (on_session f p) = snd (f (mp_session p))"
  by (simp_all add: on_session_def split: prod.splits)

section \<open>The interface\<close>

text \<open>What stays as it was acquired: session and limits.\<close>

definition possession_limits :: "'c possession \<Rightarrow> i16 \<times> i16 \<times> u32 \<times> u32" where
  "possession_limits p =
     (mp_max_linear_mm_s p, mp_max_angular_mrad_s p, mp_motion_ttl_ms p, mp_heartbeat_timeout_ms p)"

abbreviation mp_connector :: "'c possession \<Rightarrow> 'c" where
  "mp_connector p \<equiv> se_connector (mp_session p)"

locale kept_connector =
  fixes ops :: "'c connector" and permitted :: "cockpit_request \<Rightarrow> bool" and kept :: "'c \<Rightarrow> 'c \<Rightarrow> bool"
  assumes kept_refl: "kept c c"
    and kept_trans: "kept a b \<Longrightarrow> kept b c \<Longrightarrow> kept a c"
    and in_session_kept: "permitted r \<Longrightarrow> kept c (fst (op_in_session ops session r c))"
    and with_lease_kept: "permitted r \<Longrightarrow> kept c (fst (op_with_lease ops session lease r c))"
    and with_service_kept: "permitted r \<Longrightarrow> kept c (fst (op_with_service ops session service r c))"
    and sleep_kept: "kept c (op_sleep ops n c)"
begin

definition kept_session :: "'c client_session \<Rightarrow> 'c client_session \<Rightarrow> bool" where
  "kept_session s s' \<longleftrightarrow> kept (se_connector s) (se_connector s') \<and> se_outcome s' = se_outcome s"

definition kept_possession :: "'c possession \<Rightarrow> 'c possession \<Rightarrow> bool" where
  "kept_possession p p' \<longleftrightarrow>
     kept (mp_connector p) (mp_connector p') \<and> possession_limits p' = possession_limits p"

lemma session_execute_kept: "permitted r \<Longrightarrow> kept_session s (fst (session_execute ops r s))"
  by (simp add: session_execute_def execute_leased_def execute_service_def kept_session_def kept_refl
      on_connector_fst in_session_kept with_lease_kept with_service_kept
      split: sum.splits option.splits authorization_class.splits)

lemma acquire_control_kept:
  "permitted (QAcquireControlLease a t) \<Longrightarrow> kept_session s (fst (acquire_control ops a t s))"
  using in_session_kept [of "QAcquireControlLease a t" "se_connector s" "ho_session (se_outcome s)"]
  by (auto simp: acquire_control_def andthen_def kept_session_def on_connector_def
      split: prod.splits call.splits cockpit_response.splits)

lemma kept_possession_refl: "kept_possession p p"
  by (simp add: kept_possession_def kept_refl)

lemma kept_possession_trans: "kept_possession a b \<Longrightarrow> kept_possession b c \<Longrightarrow> kept_possession a c"
  using kept_trans by (auto simp: kept_possession_def)

lemma kept_possession_update:
  "possession_limits q' = possession_limits q \<Longrightarrow> mp_session q' = mp_session q \<Longrightarrow>
   kept_possession p q' \<longleftrightarrow> kept_possession p q"
  by (simp add: kept_possession_def)

lemma on_session_kept:
  "kept_session (mp_session p) (fst (f (mp_session p))) \<Longrightarrow> kept_possession p (fst (on_session f p))"
  by (simp add: kept_possession_def kept_session_def on_session_fst possession_limits_def)

lemma close_gate_kept [simp]: "kept_possession p (close_gate m q) \<longleftrightarrow> kept_possession p q"
  by (rule kept_possession_update) (simp_all add: close_gate_def possession_limits_def)

lemma marks_kept [simp]:
  "kept_possession p (q\<lparr>mp_lease_acquired_at := t\<rparr>) \<longleftrightarrow> kept_possession p q"
  "kept_possession p (q\<lparr>mp_last_status := st\<rparr>) \<longleftrightarrow> kept_possession p q"
  "kept_possession p (q\<lparr>mp_motor_gate_open := b, mp_refusal_reason := m\<rparr>) \<longleftrightarrow> kept_possession p q"
  "kept_possession p (note_applied ops r q) \<longleftrightarrow> kept_possession p q"
  by (rule kept_possession_update;
      simp add: possession_limits_def note_applied_def split: cockpit_request.split)+

lemma sleep_possession_kept: "kept_possession p (sleep_possession ops n p)"
  by (simp add: sleep_possession_def kept_possession_def sleep_kept possession_limits_def)

lemma renew_kept:
  assumes "\<And>t. permitted (QAcquireControlLease AuthorityMotherbrain t)"
  shows "kept_possession p (fst (renew_control_lease ops p))"
proof -
  have "kept_possession p (fst (on_session (acquire_control ops AuthorityMotherbrain (mp_lease_ttl_ms p)) p))"
    by (rule on_session_kept, rule acquire_control_kept, rule assms)
  then show ?thesis
    by (auto simp: renew_control_lease_def split: prod.splits call.splits)
qed

lemma maintain_kept:
  assumes "\<And>t. permitted (QAcquireControlLease AuthorityMotherbrain t)"
  shows "kept_possession p (fst (maintain ops p))"
  using renew_kept [OF assms] by (simp add: maintain_def kept_possession_refl)

lemma reopen_kept:
  assumes "\<And>t. permitted (QAcquireControlLease AuthorityMotherbrain t)" "permitted QGetStatus"
  shows "kept_possession p (fst (reopen_gate_if_safety_clear ops p))"
proof -
  obtain q r where q: "on_session (session_execute ops QGetStatus) p = (q, r)" by force
  have pq: "kept_possession p q"
    using on_session_kept [of p "session_execute ops QGetStatus"] session_execute_kept [OF assms(2)] q by simp
  have acquired: "kept_possession p x"
    if "on_session (acquire_control ops AuthorityMotherbrain t) q' = (x, res)" "kept_possession p q'" for q' t x res
  proof -
    have "kept_possession q' (fst (on_session (acquire_control ops AuthorityMotherbrain t) q'))"
      by (rule on_session_kept, rule acquire_control_kept, rule assms)
    with that kept_possession_trans show ?thesis by fastforce
  qed
  show ?thesis
    using pq by (auto simp: reopen_gate_if_safety_clear_def q andthen_def Let_def
        split: call.splits cockpit_response.splits prod.splits dest: acquired)
qed

lemma annotate_kept:
  assumes "permitted QGetStatus"
  shows "kept_possession p (fst (annotate_busy_rejection ops i v p))"
proof -
  have "kept_possession p (fst (on_session (session_execute ops QGetStatus) p))"
    by (rule on_session_kept, rule session_execute_kept, rule assms)
  then show ?thesis
    by (auto simp: annotate_busy_rejection_def Let_def split: prod.splits call.splits cockpit_response.splits)
qed

lemma busy_retry_kept:
  assumes "\<And>t. permitted (QAcquireControlLease AuthorityMotherbrain t)" "permitted QGetStatus" "permitted r"
  shows "kept_possession p (fst (busy_retry ops r n b p))"
proof (induction n arbitrary: b p)
  case 0
  then show ?case by (simp add: kept_possession_refl)
next
  case (Suc n)
  obtain q res where q: "on_session (session_execute ops r) p = (q, res)" by force
  have pq: "kept_possession p q"
    using on_session_kept [of p "session_execute ops r"] session_execute_kept [OF assms(3)] q by simp
  have again: "kept_possession p (fst (busy_retry ops r n b' q'))" if "kept_possession p q'" for b' q'
    using kept_possession_trans [OF that Suc.IH] .
  have slept: "kept_possession p (sleep_possession ops 10 q)"
    using kept_possession_trans [OF pq sleep_possession_kept] .
  have noted: "kept_possession p (fst (annotate_busy_rejection ops i v q))" for i v
    using kept_possession_trans [OF pq annotate_kept [OF assms(2)]] .
  have renewed: "kept_possession p (fst (renew_control_lease ops q))"
    using kept_possession_trans [OF pq renew_kept [OF assms(1)]] .
  show ?case
  proof (cases "\<exists>e. res = Failed e")
    case False
    with q pq show ?thesis by (cases res) auto
  next
    case True
    then obtain e where "res = Failed e" by blast
    moreover obtain q' res' where "renew_control_lease ops q = (q', res')" by force
    ultimately show ?thesis
      using q pq again slept noted renewed
      by (auto split: option.splits call.splits)
  qed
qed

lemma send_scoped_kept:
  assumes "\<And>t. permitted (QAcquireControlLease AuthorityMotherbrain t)" "permitted QGetStatus" "permitted r"
  shows "kept_possession p (fst (send_scoped ops r p))"
  using busy_retry_kept [OF assms, of p possession_busy_retry_attempts False]
  by (auto simp: send_scoped_def execute_with_busy_retry_def split: prod.splits call.splits)

lemma send_with_heartbeat_kept:
  assumes "\<And>t. permitted (QAcquireControlLease AuthorityMotherbrain t)" "permitted QGetStatus"
    "permitted r" "\<And>t. permitted (QHeartbeatStop t)"
  shows "kept_possession p (fst (send_with_heartbeat ops r p))"
proof (cases "heartbeat_before p r")
  case None
  then show ?thesis using send_scoped_kept [OF assms(1-3)] by (simp add: send_with_heartbeat_def)
next
  case (Some t)
  obtain q res where q: "execute_with_busy_retry ops (QHeartbeatStop t) p = (q, res)" by force
  then have pq: "kept_possession p q"
    using busy_retry_kept [OF assms(1,2,4), of p t possession_busy_retry_attempts False]
    by (simp add: execute_with_busy_retry_def)
  show ?thesis
    using Some q pq kept_possession_trans [OF pq send_scoped_kept [OF assms(1-3)]]
    by (auto simp: send_with_heartbeat_def andthen_def split: call.splits)
qed

text \<open>What may reach the connector under the limits of a possession.\<close>

lemma execute_scoped_kept:
  assumes "\<And>t. permitted (QAcquireControlLease AuthorityMotherbrain t)" "permitted QGetStatus"
    "\<And>t. permitted (QHeartbeatStop t)"
    and "\<And>(q :: 'c possession) r'. possession_limits q = possession_limits p \<Longrightarrow> outside_possession r = None \<Longrightarrow>
      bounded_request q r = Some r' \<Longrightarrow> permitted r'"
  shows "kept_possession p (fst (execute_scoped ops r p))"
proof -
  obtain q res where q: "(if bypasses_closed_motor_gate r then (p, Returned ()) else maintain ops p) = (q, res)"
    by force
  then have pq: "kept_possession p q"
    using maintain_kept [OF assms(1), of p] kept_possession_refl [of p] by (auto split: if_splits)
  have "kept_possession p (fst (send_with_heartbeat ops r' q))"
    if "outside_possession r = None" "bounded_request q r = Some r'" for r'
    using that pq assms(4) [of q r'] kept_possession_trans [OF pq send_with_heartbeat_kept [OF assms(1,2) _ assms(3)]]
    by (simp add: kept_possession_def)
  then show ?thesis
    using pq by (auto simp: execute_scoped_def q andthen_def split: call.splits option.splits)
qed

lemma read_only_kept:
  assumes "\<And>t. permitted (QAcquireControlLease AuthorityMotherbrain t)" "permitted r"
  shows "kept_possession p (fst (execute_read_only ops r p))"
proof -
  obtain q res where q: "(if mp_motor_gate_open p then maintain ops p else (p, Returned ())) = (q, res)"
    by force
  then have pq: "kept_possession p q"
    using maintain_kept [OF assms(1), of p] kept_possession_refl [of p] by (auto split: if_splits)
  have "kept_possession q (fst (on_session (session_execute ops r) q))"
    by (rule on_session_kept, rule session_execute_kept, rule assms)
  then have "kept_possession p (fst (on_session (session_execute ops r) q))"
    using kept_possession_trans [OF pq] by blast
  then show ?thesis
    using pq by (auto simp: execute_read_only_def q andthen_def Let_def
        split: call.splits prod.splits cockpit_response.splits)
qed

lemma possession_execute_kept:
  assumes "\<And>t. permitted (QAcquireControlLease AuthorityMotherbrain t)" "permitted QGetStatus"
    "\<And>t. permitted (QHeartbeatStop t)"
    and "authorization_class_of r = AuthReadOnly \<Longrightarrow> permitted r"
    and "\<And>(q :: 'c possession) r'. possession_limits q = possession_limits p \<Longrightarrow> outside_possession r = None \<Longrightarrow>
      authorization_class_of r \<notin> {AuthReadOnly, AuthServiceLease} \<Longrightarrow>
      bounded_request q r = Some r' \<Longrightarrow> permitted r'"
  shows "kept_possession p (fst (possession_execute ops r p))"
proof (cases "authorization_class_of r \<in> {AuthReadOnly, AuthServiceLease}")
  case True
  then show ?thesis
    using read_only_kept [OF assms(1,4)] by (auto simp: possession_execute_def kept_possession_refl)
next
  case False
  obtain q res where q: "execute_scoped ops r p = (q, res)" by force
  then have pq: "kept_possession p q"
    using execute_scoped_kept [OF assms(1-3), of p r] assms(5) False by simp
  have "kept_possession p (fst (reopen_gate_if_safety_clear ops q))"
    using kept_possession_trans [OF pq reopen_kept [OF assms(1,2)]] .
  with False q pq show ?thesis
    by (auto simp: possession_execute_def andthen_def split: authorization_class.splits call.splits prod.splits)
qed

end

section \<open>A connector that logs what it is sent\<close>

text \<open>An entry is a request and whether it was accepted.\<close>

type_synonym sent = "cockpit_request \<times> bool"

definition logging ::
  "cockpit_request \<Rightarrow> ('c \<Rightarrow> ('c, cockpit_response) run) \<Rightarrow> 'c \<times> sent list \<Rightarrow>
   ('c \<times> sent list, cockpit_response) run" where
  "logging r f cl =
     (case f (fst cl) of (c, res) \<Rightarrow> ((c, snd cl @ [(r, res = Returned RsAccepted)]), res))"

definition unlogged :: "('c \<Rightarrow> ('c, 'a) run) \<Rightarrow> 'c \<times> sent list \<Rightarrow> ('c \<times> sent list, 'a) run" where
  "unlogged f cl = (case f (fst cl) of (c, res) \<Rightarrow> ((c, snd cl), res))"

definition logged :: "'c connector \<Rightarrow> ('c \<times> sent list) connector" where
  "logged ops =
     \<lparr>op_execute = (\<lambda>r. logging r (op_execute ops r)),
      op_handshake = (\<lambda>h. unlogged (op_handshake ops h)),
      op_in_session = (\<lambda>s r. logging r (op_in_session ops s r)),
      op_with_lease = (\<lambda>s l r. logging r (op_with_lease ops s l r)),
      op_with_service = (\<lambda>s l r. logging r (op_with_service ops s l r)),
      op_get_status = unlogged (op_get_status ops),
      op_get_capabilities = unlogged (op_get_capabilities ops),
      op_get_events = (\<lambda>since. unlogged (op_get_events ops since)),
      op_command = (\<lambda>r cl. case op_command ops r (fst cl) of
        (c, res) \<Rightarrow> ((c, snd cl @ [(r, res = Returned ())]), res)),
      op_event_cursor_hint = (\<lambda>cl. op_event_cursor_hint ops (fst cl)),
      op_manages_motion_heartbeat = (\<lambda>cl. op_manages_motion_heartbeat ops (fst cl)),
      op_sleep = (\<lambda>ms cl. (op_sleep ops ms (fst cl), snd cl)),
      op_now = (\<lambda>cl. op_now ops (fst cl)),
      op_read_json = op_read_json ops,
      op_show_error = op_show_error ops\<rparr>"

definition grows :: "(cockpit_request \<Rightarrow> bool) \<Rightarrow> 'c \<times> sent list \<Rightarrow> 'c \<times> sent list \<Rightarrow> bool" where
  "grows P a b \<longleftrightarrow> (\<exists>new. snd b = snd a @ new \<and> list_all (\<lambda>e. P (fst e)) new)"

lemma grows_logging: "P r \<Longrightarrow> grows P cl (fst (logging r f cl))"
  by (auto simp: grows_def logging_def split: prod.splits)

interpretation log: kept_connector "logged ops" P "grows P" for ops :: "'c connector" and P
proof unfold_locales
  fix a b c :: "'c \<times> sent list"
  show "grows P a a" by (simp add: grows_def)
  show "grows P a b \<Longrightarrow> grows P b c \<Longrightarrow> grows P a c" by (force simp: grows_def)
qed (simp_all add: logged_def grows_logging, simp add: grows_def)

abbreviation sent_by :: "('c \<times> sent list) possession \<Rightarrow> sent list" where
  "sent_by p \<equiv> snd (mp_connector p)"

lemma log_grows:
  "log.kept_possession P p p' \<Longrightarrow> \<exists>new. sent_by p' = sent_by p @ new \<and> (\<forall>e\<in>set new. P (fst e))"
  by (auto simp: log.kept_possession_def grows_def list_all_iff)

lemma session_execute_log:
  "session_execute (logged ops) r s = (s', res) \<Longrightarrow>
   snd (se_connector s') = snd (se_connector s) \<or>
   snd (se_connector s') = snd (se_connector s) @ [(r, res = Returned RsAccepted)]"
  "session_execute (logged ops) r s = (s', Returned v) \<Longrightarrow>
   snd (se_connector s') = snd (se_connector s) @ [(r, v = RsAccepted)]"
  by (auto simp: session_execute_def execute_leased_def execute_service_def on_connector_def logged_def logging_def
      split: sum.splits option.splits authorization_class.splits if_splits prod.splits)

lemma acquire_control_log:
  "acquire_control (logged ops) a t s = (s', res) \<Longrightarrow>
   \<exists>ok. snd (se_connector s') = snd (se_connector s) @ [(QAcquireControlLease a t, ok)]"
  "acquire_control (logged ops) a t s = (s', Returned l) \<Longrightarrow>
   snd (se_connector s') = snd (se_connector s) @ [(QAcquireControlLease a t, False)] \<and>
   se_control_lease s' = Some l \<and> se_outcome s' = se_outcome s"
  by (auto simp: acquire_control_def on_connector_def logged_def logging_def andthen_def
      split: prod.splits call.splits cockpit_response.splits)

text \<open>A command that returns was the last message sent.\<close>

lemma busy_retry_returned:
  "busy_retry (logged ops) r n b p = (p', Returned v) \<Longrightarrow>
   \<exists>before. sent_by p' = sent_by p @ before @ [(r, v = RsAccepted)]"
proof (induction n arbitrary: b p)
  case 0
  then show ?case by simp
next
  case (Suc n)
  obtain q res where q: "on_session (session_execute (logged ops) r) p = (q, res)" by force
  have pq: "\<exists>k. sent_by q = sent_by p @ k"
  proof -
    obtain s' where "session_execute (logged ops) r (mp_session p) = (s', res)" "q = p\<lparr>mp_session := s'\<rparr>"
      using q by (auto simp: on_session_def split: prod.splits)
    with session_execute_log(1) [of ops r "mp_session p" s' res] show ?thesis by auto
  qed
  show ?case
  proof (cases res)
    case (Returned w)
    then obtain s' where s': "session_execute (logged ops) r (mp_session p) = (s', Returned v)"
        "p' = p\<lparr>mp_session := s'\<rparr>"
      using Suc.prems q by (auto simp: on_session_def split: prod.splits)
    then have "sent_by p' = sent_by p @ [] @ [(r, v = RsAccepted)]" using session_execute_log(2) [OF s'(1)] by simp
    then show ?thesis by blast
  next
    case Panicked
    with Suc.prems q show ?thesis by simp
  next
    case (Failed e)
    show ?thesis
    proof (cases "busy_rejection e")
      case (Some i)
      have annotated: "\<not> (\<exists>x w. annotate_busy_rejection (logged ops) i v q = (x, Returned w))" for v
        by (auto simp: annotate_busy_rejection_def Let_def split: prod.splits call.splits cockpit_response.splits)
      then have "busy_retry (logged ops) r n b (sleep_possession (logged ops) 10 q) = (p', Returned v)"
        using Suc.prems q Failed Some by (auto split: if_splits)
      from Suc.IH [OF this] pq show ?thesis by (auto simp: sleep_possession_def logged_def)
    next
      case None
      obtain q' res' where r: "renew_control_lease (logged ops) q = (q', res')" by force
      have "\<exists>k. sent_by q' = sent_by q @ k"
        using r acquire_control_log(1)
        by (fastforce simp: renew_control_lease_def on_session_def close_gate_def split: prod.splits call.splits)
      moreover have "busy_retry (logged ops) r n True q' = (p', Returned v)"
        using Suc.prems q Failed None r by (auto split: if_splits call.splits)
      ultimately show ?thesis using Suc.IH [of True q'] pq by fastforce
    qed
  qed
qed

section \<open>The motor gate\<close>

lemma renew_gate:
  "mp_motor_gate_open (fst (renew_control_lease ops p)) \<Longrightarrow> mp_motor_gate_open p"
  by (auto simp: renew_control_lease_def on_session_def close_gate_def split: prod.splits call.splits)

lemma on_session_gate [simp]: "mp_motor_gate_open (fst (on_session f p)) = mp_motor_gate_open p"
  by (simp add: on_session_fst)

lemma annotate_gate: "mp_motor_gate_open (fst (annotate_busy_rejection ops i v p)) = mp_motor_gate_open p"
  by (auto simp: annotate_busy_rejection_def on_session_def Let_def
      split: prod.splits call.splits cockpit_response.splits)

lemma busy_retry_gate: "mp_motor_gate_open (fst (busy_retry ops r n b p)) \<Longrightarrow> mp_motor_gate_open p"
proof (induction n arbitrary: b p)
  case 0
  then show ?case by simp
next
  case (Suc n)
  obtain q res where q: "on_session (session_execute ops r) p = (q, res)" by force
  then have g: "mp_motor_gate_open q = mp_motor_gate_open p"
    using on_session_gate [of "session_execute ops r" p] by simp
  show ?case
  proof (cases res)
    case (Failed e)
    show ?thesis
    proof (cases "busy_rejection e")
      case (Some i)
      have "mp_motor_gate_open (sleep_possession ops 10 q) = mp_motor_gate_open q"
        by (simp add: sleep_possession_def)
      then show ?thesis
        using Suc.prems Suc.IH [of b "sleep_possession ops 10 q"] q Failed Some g annotate_gate [of ops i "verb r" q]
        by (simp split: if_splits)
    next
      case None
      obtain q' res' where r: "renew_control_lease ops q = (q', res')" by force
      then have "mp_motor_gate_open q' \<Longrightarrow> mp_motor_gate_open q" using renew_gate [of ops q] by simp
      then show ?thesis
        using Suc.prems Suc.IH [of True q'] q Failed None r g by (simp split: if_splits call.splits)
    qed
  qed (use Suc.prems q g in simp_all)
qed

lemma send_scoped_gate: "mp_motor_gate_open (fst (send_scoped ops r p)) \<Longrightarrow> mp_motor_gate_open p"
  using busy_retry_gate [of ops r possession_busy_retry_attempts False p]
  by (auto simp: send_scoped_def execute_with_busy_retry_def close_gate_def note_applied_def
      split: prod.splits call.splits if_splits cockpit_request.splits)

lemma send_with_heartbeat_gate: "mp_motor_gate_open (fst (send_with_heartbeat ops r p)) \<Longrightarrow> mp_motor_gate_open p"
proof (cases "heartbeat_before p r")
  case None
  moreover assume "mp_motor_gate_open (fst (send_with_heartbeat ops r p))"
  ultimately show ?thesis using send_scoped_gate by (simp add: send_with_heartbeat_def)
next
  case (Some t)
  moreover assume "mp_motor_gate_open (fst (send_with_heartbeat ops r p))"
  moreover obtain q res where "execute_with_busy_retry ops (QHeartbeatStop t) p = (q, res)" by force
  ultimately show ?thesis
    using busy_retry_gate [of ops "QHeartbeatStop t" possession_busy_retry_attempts False p]
      send_scoped_gate [of ops r q]
    by (auto simp: send_with_heartbeat_def execute_with_busy_retry_def andthen_def split: call.splits)
qed

lemma maintain_gate: "mp_motor_gate_open (fst (maintain ops p)) \<Longrightarrow> mp_motor_gate_open p"
  using renew_gate by (auto simp: maintain_def split: if_splits)

lemma execute_scoped_gate: "mp_motor_gate_open (fst (execute_scoped ops r p)) \<Longrightarrow> mp_motor_gate_open p"
proof -
  obtain q res where q: "(if bypasses_closed_motor_gate r then (p, Returned ()) else maintain ops p) = (q, res)"
    by force
  then have "mp_motor_gate_open q \<Longrightarrow> mp_motor_gate_open p"
    using maintain_gate [of ops p] by (auto split: if_splits)
  then show "mp_motor_gate_open (fst (execute_scoped ops r p)) \<Longrightarrow> mp_motor_gate_open p"
    using send_with_heartbeat_gate
    by (auto simp: execute_scoped_def q andthen_def split: call.splits option.splits)
qed

lemma read_only_gate: "mp_motor_gate_open (fst (execute_read_only ops r p)) \<Longrightarrow> mp_motor_gate_open p"
proof -
  obtain q res where q: "(if mp_motor_gate_open p then maintain ops p else (p, Returned ())) = (q, res)" by force
  then have "mp_motor_gate_open q \<Longrightarrow> mp_motor_gate_open p" by (auto split: if_splits)
  then show "mp_motor_gate_open (fst (execute_read_only ops r p)) \<Longrightarrow> mp_motor_gate_open p"
    by (auto simp: execute_read_only_def q andthen_def on_session_def close_gate_def Let_def
        split: call.splits prod.splits cockpit_response.splits if_splits)
qed

lemma reopen_gate:
  assumes "reopen_gate_if_safety_clear ops p = (p', res)" "mp_motor_gate_open p'" "\<not> mp_motor_gate_open p"
  shows "\<exists>st. mp_last_status p' = Some st \<and> sm_estop_latched st \<noteq> Some True \<and> sm_safety_tripped st \<noteq> Some True \<and>
    se_control_lease (mp_session p') \<noteq> None"
  using assms
  by (auto simp: reopen_gate_if_safety_clear_def andthen_def on_session_def close_gate_def acquire_control_def Let_def
      split: call.splits prod.splits cockpit_response.splits if_splits)

lemma closed_gate:
  assumes "\<not> mp_motor_gate_open p" "\<not> bypasses_closed_motor_gate r"
    "authorization_class_of r \<notin> {AuthReadOnly, AuthServiceLease}"
  shows "\<exists>reason. possession_execute ops r p = (p, Failed (CkPolicy reason))"
  using assms
  by (auto simp: possession_execute_def execute_scoped_def maintain_def split: authorization_class.splits)

end
