(* ===== verification/Possession_Safety.thy ===== *)
theory Possession_Safety
  imports Possession_Rules
begin

text \<open>
  Properties of the possession and of the agent's wrapper over an arbitrary connector: what reaches the
  connector, in which order, and when the motor gate opens.
\<close>

section \<open>Limits\<close>

definition velocity_request :: "cockpit_request \<Rightarrow> bool" where
  "velocity_request r \<longleftrightarrow> (case r of QCmdVel _ _ _ \<Rightarrow> True | _ \<Rightarrow> False)"

text \<open>What a possession may send under its limits.\<close>

definition within_possession :: "i16 \<times> i16 \<times> u32 \<times> u32 \<Rightarrow> cockpit_request \<Rightarrow> bool" where
  "within_possession limits r =
     (case limits of (linear, angular, ttl, _) \<Rightarrow>
       (case r of
          QCmdVel v w t \<Rightarrow> \<bar>sint v\<bar> \<le> sint linear \<and> \<bar>sint w\<bar> \<le> sint angular \<and> t = ttl
        | QBumpEscape _ v w \<Rightarrow> 0 \<le> sint v \<and> sint v \<le> sint linear \<and> 0 \<le> sint w \<and> sint w \<le> sint angular
        | QArm \<Rightarrow> False | QSetMode _ \<Rightarrow> False | QPowerState _ \<Rightarrow> False
        | QBootsel \<Rightarrow> False | QRestartCreate \<Rightarrow> False | QResetMotherbrain \<Rightarrow> False
        | _ \<Rightarrow> True))"

lemma sint_minus: "0 \<le> sint (m :: i16) \<Longrightarrow> sint (- m) = - sint m"
  using sint_neg_abs [of m] by (simp add: wrapping_abs_def)

lemma clamp_symmetric_bound:
  "clamp_signed (- m) m v = Some w \<Longrightarrow> 0 \<le> sint m \<Longrightarrow> \<bar>sint w\<bar> \<le> sint m"
  by (auto simp: clamp_signed_def sint_minus split: if_splits)

lemma clamp_zero_bound:
  "clamp_signed 0 m v = Some w \<Longrightarrow> 0 \<le> sint w \<and> sint w \<le> sint m"
  by (auto simp: clamp_signed_def split: if_splits)

lemma bounded_request_within:
  assumes "0 \<le> sint (mp_max_linear_mm_s p)" "0 \<le> sint (mp_max_angular_mrad_s p)"
    "outside_possession r = None" "authorization_class_of r \<noteq> AuthServiceLease" "bounded_request p r = Some r'"
  shows "within_possession (possession_limits p) r'"
  using assms
  by (cases r)
    (auto simp: bounded_request_def within_possession_def possession_limits_def outside_possession_def
      authorization_class_of_def bind_eq_Some_conv dest: clamp_symmetric_bound clamp_zero_bound)

section \<open>Order\<close>

text \<open>No velocity comes before the heartbeat has been accepted.\<close>

fun heartbeat_first :: "u32 \<Rightarrow> sent list \<Rightarrow> bool" where
  "heartbeat_first t [] \<longleftrightarrow> True"
| "heartbeat_first t (e # es) \<longleftrightarrow> \<not> velocity_request (fst e) \<and> (e = (QHeartbeatStop t, True) \<or> heartbeat_first t es)"

lemma heartbeat_first_quiet: "(\<And>e. e \<in> set es \<Longrightarrow> \<not> velocity_request (fst e)) \<Longrightarrow> heartbeat_first t es"
  by (induction es) auto

lemma heartbeat_first_append:
  "(\<And>e. e \<in> set es \<Longrightarrow> \<not> velocity_request (fst e)) \<Longrightarrow> (QHeartbeatStop t, True) \<in> set es \<Longrightarrow>
   heartbeat_first t (es @ fs)"
  by (induction es) auto

lemma quiet_requests:
  "\<not> velocity_request (QAcquireControlLease a t)" "\<not> velocity_request QGetStatus" "\<not> velocity_request (QHeartbeatStop t)"
  by (simp_all add: velocity_request_def)

lemma quiet_kept: "log.kept_possession (\<lambda>r. \<not> velocity_request r) p p' \<Longrightarrow>
   \<exists>new. sent_by p' = sent_by p @ new \<and> (\<forall>e\<in>set new. \<not> velocity_request (fst e))"
  by (rule log_grows)

lemma quiet_possession:
  assumes "\<not> velocity_request r"
  shows "\<exists>new. sent_by (fst (possession_execute (logged ops) r p)) = sent_by p @ new \<and>
    (\<forall>e\<in>set new. \<not> velocity_request (fst e))"
proof (rule quiet_kept, rule log.possession_execute_kept)
  fix q :: "('a \<times> sent list) possession" and r'
  assume "bounded_request q r = Some r'"
  with assms show "\<not> velocity_request r'"
    by (cases r) (auto simp: bounded_request_def velocity_request_def bind_eq_Some_conv)
qed (simp_all add: quiet_requests assms)

text \<open>After maintenance and heartbeat, what the velocity itself adds does not matter.\<close>

lemma send_velocity_log:
  "\<exists>new. sent_by (fst (send_with_heartbeat (logged ops) (QCmdVel v w t) p)) = sent_by p @ new \<and>
     heartbeat_first (mp_heartbeat_timeout_ms p) new"
proof -
  let ?hb = "QHeartbeatStop (mp_heartbeat_timeout_ms p)"
  obtain q res where q: "execute_with_busy_retry (logged ops) ?hb p = (q, res)" by force
  have "log.kept_possession (\<lambda>r. \<not> velocity_request r) p (fst (busy_retry (logged ops) ?hb possession_busy_retry_attempts False p))"
    by (rule log.busy_retry_kept) (simp_all add: quiet_requests)
  then obtain beats where beats: "sent_by q = sent_by p @ beats" "\<forall>e\<in>set beats. \<not> velocity_request (fst e)"
    using quiet_kept [of p q] q by (auto simp: execute_with_busy_retry_def)
  show ?thesis
  proof (cases "res = Returned RsAccepted")
    case True
    with q have "busy_retry (logged ops) ?hb possession_busy_retry_attempts False p = (q, Returned RsAccepted)"
      by (simp add: execute_with_busy_retry_def)
    from busy_retry_returned [OF this] beats(1) have hb: "(?hb, True) \<in> set beats" by auto
    have "log.kept_possession (\<lambda>_. True) q (fst (send_scoped (logged ops) (QCmdVel v w t) q))"
      by (rule log.send_scoped_kept) simp_all
    then obtain rest where "sent_by (fst (send_scoped (logged ops) (QCmdVel v w t) q)) = sent_by q @ rest"
      using log_grows by blast
    moreover have "heartbeat_first (mp_heartbeat_timeout_ms p) (beats @ rest)"
      using beats(2) hb by (intro heartbeat_first_append) auto
    ultimately show ?thesis
      using q True beats(1)
      by (simp add: send_with_heartbeat_def heartbeat_before_def expect_accepted_def)
  next
    case False
    then have "fst (send_with_heartbeat (logged ops) (QCmdVel v w t) p) = q"
      using q by (auto simp: send_with_heartbeat_def heartbeat_before_def expect_accepted_def andthen_def
          split: call.splits cockpit_response.splits)
    with beats heartbeat_first_quiet [of beats] show ?thesis by auto
  qed
qed

lemma possession_velocity_log:
  "\<exists>new. sent_by (fst (possession_execute (logged ops) (QCmdVel v w t) p)) = sent_by p @ new \<and>
     heartbeat_first (mp_heartbeat_timeout_ms p) new"
proof -
  obtain q res where q: "maintain (logged ops) p = (q, res)" by force
  have "log.kept_possession (\<lambda>r. \<not> velocity_request r) p (fst (maintain (logged ops) p))"
    by (rule log.maintain_kept) (simp add: quiet_requests)
  then have k: "log.kept_possession (\<lambda>r. \<not> velocity_request r) p q" by (simp add: q)
  then obtain pre where pre: "sent_by q = sent_by p @ pre" "\<forall>e\<in>set pre. \<not> velocity_request (fst e)"
    using quiet_kept by blast
  have hb: "mp_heartbeat_timeout_ms q = mp_heartbeat_timeout_ms p"
    using k by (simp add: log.kept_possession_def possession_limits_def)
  have joined: "heartbeat_first u pre' \<Longrightarrow> (\<forall>e\<in>set es. \<not> velocity_request (fst e)) \<Longrightarrow> heartbeat_first u (es @ pre')"
    for u pre' es by (induction es) auto
  let ?r = "QCmdVel v w t"
  have run: "possession_execute (logged ops) ?r p = execute_scoped (logged ops) ?r p"
    by (auto simp: possession_execute_def authorization_class_of_def reopens_after_clear_def andthen_def
        split: prod.splits call.splits)
  have bounded: "\<exists>v' w'. r' = QCmdVel v' w' (mp_motion_ttl_ms q)" if "bounded_request q ?r = Some r'" for r'
    using that by (auto simp: bounded_request_def bind_eq_Some_conv)
  have scoped: "execute_scoped (logged ops) ?r p =
      (case res of
         Returned _ \<Rightarrow> (case bounded_request q ?r of None \<Rightarrow> (q, Panicked) | Some r' \<Rightarrow> send_with_heartbeat (logged ops) r' q)
       | Failed e \<Rightarrow> (q, Failed e) | Panicked \<Rightarrow> (q, Panicked))"
    by (simp add: execute_scoped_def bypasses_closed_motor_gate_def q andthen_def outside_possession_def)
  consider "fst (execute_scoped (logged ops) ?r p) = q"
    | v' w' where "fst (execute_scoped (logged ops) ?r p) =
        fst (send_with_heartbeat (logged ops) (QCmdVel v' w' (mp_motion_ttl_ms q)) q)"
    using bounded by (cases res; cases "bounded_request q ?r") (fastforce simp: scoped)+
  then show ?thesis
  proof cases
    case 1
    with pre heartbeat_first_quiet [of pre] show ?thesis by (auto simp: run)
  next
    case 2
    obtain new where "sent_by (fst (send_with_heartbeat (logged ops) (QCmdVel v' w' (mp_motion_ttl_ms q)) q)) =
        sent_by q @ new" "heartbeat_first (mp_heartbeat_timeout_ms q) new"
      using send_velocity_log by blast
    with 2 pre hb joined show ?thesis by (auto simp: run)
  qed
qed

section \<open>How much is sent\<close>

lemma busy_retry_log_length:
  "length (sent_by (fst (busy_retry (logged ops) r n b p))) \<le> length (sent_by p) + n + (if b then 1 else 2)"
proof (induction n arbitrary: b p)
  case 0
  then show ?case by simp
next
  case (Suc n)
  obtain s' res where s': "session_execute (logged ops) r (mp_session p) = (s', res)" by force
  define q where "q = p\<lparr>mp_session := s'\<rparr>"
  have run: "on_session (session_execute (logged ops) r) p = (q, res)"
    by (simp add: on_session_def s' q_def)
  have one: "length (sent_by q) \<le> length (sent_by p) + 1"
    using session_execute_log(1) [OF s'] by (auto simp: q_def)
  have noted: "length (sent_by (fst (annotate_busy_rejection (logged ops) i x q))) \<le> length (sent_by q) + 1" for i x
  proof -
    obtain s'' r'' where e: "session_execute (logged ops) QGetStatus (mp_session q) = (s'', r'')" by force
    then have "length (snd (se_connector s'')) \<le> length (sent_by q) + 1"
      using session_execute_log(1) [OF e] by auto
    moreover have "fst (annotate_busy_rejection (logged ops) i x q) = q\<lparr>mp_session := s''\<rparr>"
      by (auto simp: annotate_busy_rejection_def on_session_def e Let_def split: call.splits cockpit_response.splits)
    ultimately show ?thesis by simp
  qed
  show ?case
  proof (cases res)
    case (Failed e)
    show ?thesis
    proof (cases "busy_rejection e")
      case (Some i)
      have "sent_by (sleep_possession (logged ops) 10 q) = sent_by q"
        by (simp add: sleep_possession_def logged_def)
      then show ?thesis
        using Suc.IH [of b "sleep_possession (logged ops) 10 q"] noted [of i "verb r"] one run Failed Some
        by (auto split: if_splits)
    next
      case None
      obtain q' res' where r: "renew_control_lease (logged ops) q = (q', res')" by force
      obtain s'' r'' where e: "acquire_control (logged ops) AuthorityMotherbrain (mp_lease_ttl_ms q) (mp_session q) = (s'', r'')"
        by force
      have "sent_by q' = snd (se_connector s'')"
        using r by (auto simp: renew_control_lease_def on_session_def e close_gate_def split: call.splits)
      then have "length (sent_by q') \<le> length (sent_by q) + 1"
        using acquire_control_log(1) [OF e] by auto
      then show ?thesis
        using Suc.IH [of True q'] one run Failed None r by (auto split: if_splits call.splits)
    qed
  qed (use one run in simp_all)
qed

section \<open>Examples\<close>

text \<open>A connector that answers every scoped request by one function and never looks at the time.\<close>

definition simple_connector :: "(cockpit_request \<Rightarrow> nat \<Rightarrow> (nat, cockpit_response) run) \<Rightarrow> nat connector" where
  "simple_connector f =
     \<lparr>op_execute = f, op_handshake = (\<lambda>_ c. (c, Failed CkSessionRequired)), op_in_session = (\<lambda>_. f),
      op_with_lease = (\<lambda>_ _. f), op_with_service = (\<lambda>_ _. f), op_get_status = default_get_status f,
      op_get_capabilities = default_get_capabilities f, op_get_events = default_get_events f,
      op_command = default_command f, op_event_cursor_hint = (\<lambda>_. None),
      op_manages_motion_heartbeat = (\<lambda>_. False), op_sleep = (\<lambda>_ c. c), op_now = (\<lambda>_. 0),
      op_read_json = (\<lambda>_. None), op_show_error = (\<lambda>_. ''error'')\<rparr>"

definition example_lease :: control_lease where
  "example_lease = \<lparr>cl_lease_id = ''lease-1'', cl_session_id = ''sess-1'', cl_owner_role = RoleMotherbrain,
     cl_authority = AuthorityMotherbrain, cl_ttl_ms = 5000, cl_generation = 1\<rparr>"

definition accepting :: "cockpit_request \<Rightarrow> nat \<Rightarrow> (nat, cockpit_response) run" where
  "accepting r c =
     (c, case r of QAcquireControlLease _ _ \<Rightarrow> Returned (RsControlLeaseGranted example_lease)
         | _ \<Rightarrow> Returned RsAccepted)"

text \<open>Busy as often as its state says, then without a lease.\<close>

definition busy_then_refused :: "cockpit_request \<Rightarrow> nat \<Rightarrow> (nat, cockpit_response) run" where
  "busy_then_refused r n =
     (case r of
        QAcquireControlLease _ _ \<Rightarrow> (n, Returned (RsControlLeaseGranted example_lease))
      | _ \<Rightarrow> (n - 1, Failed (CkRejected 1 (if n = 0 then ''invalid_control_lease'' else ''busy''))))"

definition example_contract :: cockpit_capabilities where
  "example_contract =
     \<lparr>ca_body_kind = ''create_oi'', ca_drive = ''differential'', ca_verbs = sample_cockpit_capability_verbs,
      ca_sensors = [], ca_outputs = [], ca_safety = [], ca_events = [], ca_independent_watchdog = Some True,
      ca_limits = \<lparr>li_max_linear_mm_s = 500, li_max_angular_mrad_s = 4000, li_min_ttl_ms = 10, li_max_ttl_ms = 60000\<rparr>\<rparr>"

definition example_outcome :: handshake_outcome where
  "example_outcome =
     (case validate_outcome example_client_hello
        (negotiate (\<lambda>_ _ _ _. ''sess-1'') example_client_hello ''bs'' ''b0'' example_contract
          \<lparr>ss_armed = False, ss_estop_latched = False, ss_safety_tripped = False, ss_active_motion = False,
           ss_runtime_state = ''idle''\<rparr> 1 example_software 1) of
        Returned out \<Rightarrow> out)"

definition example_possession :: "'c \<Rightarrow> 'c possession" where
  "example_possession c =
     \<lparr>mp_session = \<lparr>se_connector = c, se_outcome = example_outcome, se_cursor = 0,
        se_control_lease = Some example_lease, se_service_lease = None\<rparr>,
      mp_lease_acquired_at = 0, mp_lease_ttl_ms = 5000, mp_renew_margin_ms = 1666, mp_motion_ttl_ms = 300,
      mp_heartbeat_timeout_ms = 750, mp_max_linear_mm_s = 50, mp_max_angular_mrad_s = 500,
      mp_motor_gate_open = True, mp_refusal_reason = None, mp_last_applied_at = None,
      mp_last_applied_command = None, mp_last_status = None\<rparr>"

lemma example_outcome_contract: "ho_contract example_outcome = example_contract"
  by (simp add: example_outcome_def example_client_hello_def motherbrain_hello_def negotiate_def
      brainstem_accepts_client_role_def valid_token_def valid_identity_token_def str_bytes_def max_id_len_def
      is_ascii_alphanumeric_def negotiate_minor_def of_char_def default_features_def validate_outcome_def
      required_unsupported_def clamp_u32_def)

lemma example_fresh: "0 < unat (renew_at_ms (example_possession c))"
  by (simp add: renew_at_ms_def example_possession_def sat_sub_def min_def)

lemma example_valid_drive: "validate_request example_contract (QDriveDirect 500 (- 500) 60000) = Inr ()"
  by (simp add: validate_request_def required_capability_def example_contract_def supports_def
      sample_cockpit_capability_verbs_def validate_motion_limits_def check_linear_def wrapping_abs_def
      validate_ttl_limits_def ttl_or_timeout_ms_def)

section \<open>Properties\<close>



text \<open>C12. Possession, heartbeat before motion: in what one command adds to the log, no velocity
  comes before a heartbeat of the possession's timeout that the brainstem accepted.\<close>

theorem velocity_follows_heartbeat:
  "\<exists>new. sent_by (fst (possession_execute (logged ops) r p)) = sent_by p @ new \<and>
     heartbeat_first (mp_heartbeat_timeout_ms p) new"
proof (cases "velocity_request r")
  case True
  then obtain v w t where "r = QCmdVel v w t" by (cases r) (simp_all add: velocity_request_def)
  with possession_velocity_log show ?thesis by blast
next
  case False
  with quiet_possession heartbeat_first_quiet show ?thesis by metis
qed



text \<open>Possession, beginning: an acquired possession has asked for the lease and then sent a stop, which
  was accepted; its gate is open, with the limits of 50 mm/s, 500 mrad/s, 300 ms and 750 ms.\<close>

theorem possession_begins_stopped:
  assumes "acquire_possession (logged ops) ttl s = (s', Returned p)"
  shows "sent_by p = snd (se_connector s) @
      [(QAcquireControlLease AuthorityMotherbrain (max ttl 1000), False), (QStop, True)] \<and>
    mp_session p = s' \<and> mp_motor_gate_open p \<and> possession_limits p = (50, 500, 300, 750) \<and>
    se_control_lease s' \<noteq> None"
proof -
  from assms obtain s1 l v where a: "acquire_control (logged ops) AuthorityMotherbrain (max ttl 1000) s = (s1, Returned l)"
    and b: "session_execute (logged ops) QStop s1 = (s', Returned v)" and v: "expect_accepted v = Returned ()"
    by (auto simp: acquire_possession_def andthen_returned call_bind_returned Let_def)
  from v have "v = RsAccepted" by (cases v) (simp_all add: expect_accepted_def)
  have "se_control_lease s' = se_control_lease s1"
    using b by (auto simp: session_execute_def authorization_class_of_def on_connector_def
        split: sum.splits prod.splits)
  moreover have "mp_session p = s'" "mp_motor_gate_open p" "possession_limits p = (50, 500, 300, 750)"
    using assms by (auto simp: acquire_possession_def andthen_returned call_bind_returned Let_def possession_limits_def)
  ultimately show ?thesis
    using acquire_control_log(2) [OF a] session_execute_log(2) [OF b] \<open>v = RsAccepted\<close> by simp
qed

theorem possession_begins_stopped_witness:
  "\<exists>s' p. acquire_possession (logged (simple_connector accepting)) 5000 (mp_session (example_possession (0, []))) =
     (s', Returned p) \<and>
     sent_by p = [(QAcquireControlLease AuthorityMotherbrain 5000, False), (QStop, True)]"
proof -
  have valid: "validate_request example_contract QStop = Inr ()"
    by (simp add: validate_request_def required_capability_def example_contract_def supports_def
        sample_cockpit_capability_verbs_def validate_motion_limits_def validate_ttl_limits_def ttl_or_timeout_ms_def)
  have stop: "session_execute (logged (simple_connector accepting)) QStop s =
      (s\<lparr>se_connector := (fst (se_connector s), snd (se_connector s) @ [(QStop, True)])\<rparr>, Returned RsAccepted)"
    if "se_outcome s = example_outcome" for s :: "(nat \<times> sent list) client_session"
    using that valid
    by (simp add: session_execute_def example_outcome_contract authorization_class_of_def on_connector_def
        logged_def logging_def simple_connector_def accepting_def)
  have lease: "acquire_control (logged (simple_connector accepting)) AuthorityMotherbrain 5000
      (mp_session (example_possession (0, []))) =
      ((mp_session (example_possession (0, [])))
        \<lparr>se_connector := (0, [(QAcquireControlLease AuthorityMotherbrain 5000, False)])\<rparr>, Returned example_lease)"
    by (simp add: acquire_control_def example_possession_def on_connector_def logged_def logging_def
        simple_connector_def accepting_def)
  have outcome: "se_outcome (mp_session (example_possession c)) = example_outcome" for c
    by (simp add: example_possession_def)
  have "\<exists>s' p. acquire_possession (logged (simple_connector accepting)) 5000 (mp_session (example_possession (0, []))) =
      (s', Returned p)"
    by (simp add: acquire_possession_def lease stop outcome expect_accepted_def)
  then obtain s' p where r: "acquire_possession (logged (simple_connector accepting)) 5000
      (mp_session (example_possession (0, []))) = (s', Returned p)" by blast
  from possession_begins_stopped [OF r, THEN conjunct1]
  have "sent_by p = [(QAcquireControlLease AuthorityMotherbrain 5000, False), (QStop, True)]"
    by (simp add: example_possession_def max_def)
  with r show ?thesis by blast
qed

text \<open>C37. Possession, how much one command may send: its retries are bounded by the 300 attempts of the
  code, one renewal of the lease and one status.\<close>

theorem busy_retry_is_bounded:
  "length (sent_by (fst (execute_with_busy_retry (logged ops) r p))) \<le> length (sent_by p) + 302"
  using busy_retry_log_length [of ops r possession_busy_retry_attempts False p]
  by (simp add: execute_with_busy_retry_def possession_busy_retry_attempts_def)

text \<open>A lease that is refused at the last of the 300 attempts, after busy answers to the others, is renewed, and then
  the loop ends in its \<open>unreachable!\<close>: the retry panics.\<close>

theorem late_lease_refusal_panics:
  "snd (execute_with_busy_retry (simple_connector busy_then_refused) (QDriveDirect 500 (- 500) 60000)
     (example_possession 299)) = Panicked"
proof -
  let ?r = "QDriveDirect 500 (- 500) 60000"
  have session: "session_execute (simple_connector busy_then_refused) ?r (mp_session (example_possession n)) =
      (mp_session (example_possession (n - 1)),
       Failed (CkRejected 1 (if n = 0 then ''invalid_control_lease'' else ''busy'')))" for n
    using example_valid_drive
    by (simp add: session_execute_def example_possession_def example_outcome_contract authorization_class_of_def
        execute_leased_def requires_operator_debug_def on_connector_def simple_connector_def busy_then_refused_def)
  have run: "on_session (session_execute (simple_connector busy_then_refused) ?r) (example_possession n) =
      (example_possession (n - 1), Failed (CkRejected 1 (if n = 0 then ''invalid_control_lease'' else ''busy'')))" for n
    by (simp add: on_session_def session, simp add: example_possession_def)
  have slept: "sleep_possession (simple_connector busy_then_refused) 10 (example_possession n) = example_possession n" for n
    by (simp add: sleep_possession_def simple_connector_def example_possession_def)
  have renewed: "renew_control_lease (simple_connector busy_then_refused) (example_possession 0) =
      (example_possession 0, Returned ())"
    by (simp add: renew_control_lease_def on_session_def acquire_control_def on_connector_def simple_connector_def
        busy_then_refused_def example_possession_def mp_now_def)
  have lost: "is_control_lease_rejection (CkRejected 1 ''invalid_control_lease'')"
    by (simp add: is_control_lease_rejection_def contains_text_def after_first.simps strip_prefix_def)
  have "snd (busy_retry (simple_connector busy_then_refused) ?r (Suc n) False (example_possession n)) = Panicked" for n
  proof (induction n)
    case 0
    then show ?case
      using run [of 0] renewed lost by (simp add: busy_rejection_def authorization_class_of_def)
  next
    case (Suc n)
    then show ?case
      using run [of "Suc n"] slept [of n] by (simp add: busy_rejection_def)
  qed
  from this [of 299] show ?thesis
    by (simp add: execute_with_busy_retry_def possession_busy_retry_attempts_def numeral_eq_Suc)
qed

text \<open>The limits of the possession cover velocities only: a direct drive at the full speed of the
  contract and for a minute goes to the brainstem as it is, without a heartbeat.\<close>

theorem direct_drive_is_not_bounded:
  "sent_by (fst (possession_execute (logged (simple_connector accepting)) (QDriveDirect 500 (- 500) 60000)
     (example_possession (0, [])))) = [(QDriveDirect 500 (- 500) 60000, True)]"
proof -
  let ?ops = "logged (simple_connector accepting)" and ?r = "QDriveDirect 500 (- 500) 60000"
  let ?p = "example_possession (0, [])"
  have fresh: "maintain ?ops ?p = (?p, Returned ())"
    using example_fresh [of "(0 :: nat, [] :: sent list)"]
    by (simp add: maintain_def mp_now_def logged_def simple_connector_def example_possession_def)
  have run: "on_session (session_execute ?ops ?r) ?p = (example_possession (0, [(?r, True)]), Returned RsAccepted)"
    using example_valid_drive
    by (simp add: on_session_def session_execute_def example_possession_def example_outcome_contract
        authorization_class_of_def execute_leased_def requires_operator_debug_def on_connector_def
        simple_connector_def logged_def logging_def accepting_def)
  have "execute_with_busy_retry ?ops ?r ?p = (example_possession (0, [(?r, True)]), Returned RsAccepted)"
    by (simp add: execute_with_busy_retry_def possession_busy_retry_attempts_def numeral_eq_Suc run)
  then have "possession_execute ?ops ?r ?p = (example_possession (0, [(?r, True)]), Returned RsAccepted)"
    by (simp add: possession_execute_def authorization_class_of_def execute_scoped_def
        bypasses_closed_motor_gate_def fresh outside_possession_def bounded_request_def send_with_heartbeat_def
        heartbeat_before_def send_scoped_def note_applied_def reopens_after_clear_def)
  then show ?thesis by (simp add: example_possession_def)
qed

end
