(* ===== verification/Safe_Rules.thy ===== *)
theory Safe_Rules
  imports Possession_Safety
begin

text \<open>
  Properties of the agent's wrapper \<open>SafeCockpit\<close> over an arbitrary connector: what one pulse of motion
  sends, and that nothing is sent while the status shows a latch.
\<close>

section \<open>Queries send no command\<close>

abbreviation pulse_log :: "('c \<times> sent list) safe_client \<Rightarrow> sent list" where
  "pulse_log f \<equiv> snd (sf_client f)"

lemma refresh_status_quiet:
  "refresh_status (logged ops) f = (f', res) \<Longrightarrow>
   pulse_log f' = pulse_log f \<and> sf_policy f' = sf_policy f"
  by (auto simp: refresh_status_def read_summary_def on_client_def andthen_def logged_def unlogged_def resync_cursor_def
      split: prod.splits call.splits if_splits option.splits)

lemma ensure_contract_quiet:
  "ensure_contract (logged ops) f = (f', res) \<Longrightarrow>
   pulse_log f' = pulse_log f \<and> sf_policy f' = sf_policy f \<and>
   (\<forall>c. res = Returned c \<longrightarrow> sf_contract f' = Some c)"
  by (auto simp: ensure_contract_def refresh_contract_def on_client_def andthen_def logged_def unlogged_def
      split: prod.splits call.splits option.splits)

lemma poll_safety_events_quiet:
  "poll_safety_events (logged ops) f = (f', res) \<Longrightarrow>
   pulse_log f' = pulse_log f \<and> sf_contract f' = sf_contract f"
  by (auto simp: poll_safety_events_def poll_events_def cursor_poll_def andthen_def logged_def unlogged_def
      split: prod.splits call.splits sum.splits)

lemma command_log:
  "on_client (op_command (logged ops) r) f = (f', res) \<Longrightarrow>
   pulse_log f' = pulse_log f @ [(r, res = Returned ())] \<and> sf_contract f' = sf_contract f \<and> sf_policy f' = sf_policy f"
  by (auto simp: on_client_def logged_def split: prod.splits)

lemma prepared_valid:
  "prepared contract r = Returned r' \<Longrightarrow> validate_request contract r' = Inr ()"
  by (auto simp: prepared_def call_bind_returned checked_def split: option.splits sum.splits)

lemma prepared_shape:
  "prepared contract (QCmdVel v w t) = Returned r \<Longrightarrow> \<exists>v' w' t'. r = QCmdVel v' w' t'"
  "prepared contract (QHeartbeatStop t) = Returned r \<Longrightarrow> \<exists>t'. r = QHeartbeatStop t'"
  by (auto simp: prepared_def call_bind_returned clamp_motion_request_def bind_eq_Some_conv Let_def
      split: option.splits)

section \<open>One pulse\<close>

text \<open>The shape of what a pulse sends: a heartbeat, a velocity that keeps to the contract, a stop.\<close>

definition pulse_shape :: "bool \<Rightarrow> cockpit_capabilities \<Rightarrow> unit call \<Rightarrow> sent list \<Rightarrow> bool" where
  "pulse_shape heartbeat contract res new \<longleftrightarrow>
     (\<exists>beat move halt. new = beat @ move @ halt \<and>
       (beat = [] \<or> (\<exists>t ok. beat = [(QHeartbeatStop t, ok)])) \<and>
       (move = [] \<and> halt = [] \<and> res \<noteq> Returned () \<or>
        (\<exists>v w t ok. move = [(QCmdVel v w t, ok)] \<and> validate_request contract (QCmdVel v w t) = Inr ()) \<and>
        (heartbeat \<longrightarrow> (\<exists>t. beat = [(QHeartbeatStop t, True)])) \<and>
        (halt = [] \<or> (\<exists>ok stops. halt = [(QStop, ok)] \<and> stops \<noteq> [] \<and>
           (res = Failed (CkMotionStopped stops) \<or> res = Panicked)))))"

lemma send_motion_shape:
  assumes m: "validate_request contract (QCmdVel v w t) = Inr ()"
    and run: "andthen (on_client (op_command (logged ops) (QCmdVel v w t)) f) (\<lambda>_ f.
      andthen (poll_safety_events (logged ops) f) (\<lambda>stops f.
       if stops \<noteq> [] then
         (case on_client (op_command (logged ops) QStop) f of
            (f, Panicked) \<Rightarrow> (f, Panicked)
          | (f, _) \<Rightarrow> (f, Failed (CkMotionStopped stops)))
       else (f, Returned ()))) = (f', res)"
  shows "\<exists>ok halt. pulse_log f' = pulse_log f @ [(QCmdVel v w t, ok)] @ halt \<and> sf_contract f' = sf_contract f \<and>
    (halt = [] \<or> (\<exists>ok stops. halt = [(QStop, ok)] \<and> stops \<noteq> [] \<and>
      (res = Failed (CkMotionStopped stops) \<or> res = Panicked)))"
proof -
  obtain f1 r1 where c: "on_client (op_command (logged ops) (QCmdVel v w t)) f = (f1, r1)" by force
  note l1 = command_log [OF c]
  obtain f2 r2 where p: "poll_safety_events (logged ops) f1 = (f2, r2)" by force
  note l2 = poll_safety_events_quiet [OF p]
  obtain f3 r3 where h: "on_client (op_command (logged ops) QStop) f2 = (f3, r3)" by force
  note l3 = command_log [OF h]
  show ?thesis
  proof (cases "r1 = Returned () \<and> (\<exists>stops. r2 = Returned stops \<and> stops \<noteq> [])")
    case True
    then obtain stops where "r2 = Returned stops" "stops \<noteq> []" by blast
    with run c p h True have "f' = f3" "res = Failed (CkMotionStopped stops) \<or> res = Panicked"
      by (cases r3; simp)+
    then show ?thesis
      using l1 l2 l3 \<open>stops \<noteq> []\<close> by auto
  next
    case False
    with run c p have "f' = f1 \<or> f' = f2"
      by (auto simp: andthen_def split: call.splits if_splits)
    with l1 l2 show ?thesis by auto
  qed
qed

lemma send_pulse_shape:
  assumes "send_pulse (logged ops) heartbeat contract v w f = (f', res)"
  shows "\<exists>new. pulse_log f' = pulse_log f @ new \<and> sf_contract f' = sf_contract f \<and>
    pulse_shape heartbeat contract res new"
proof (cases "prepared contract (QCmdVel v w (ap_motion_ttl_ms (sf_policy f)))")
  case (Returned motion)
  then obtain v' w' t' where m: "motion = QCmdVel v' w' t'" "validate_request contract motion = Inr ()"
    using prepared_shape(1) prepared_valid by blast
  define rest where "rest = (\<lambda>f. andthen (on_client (op_command (logged ops) motion) f) (\<lambda>_ f.
      andthen (poll_safety_events (logged ops) f) (\<lambda>stops f.
       if stops \<noteq> [] then
         (case on_client (op_command (logged ops) QStop) f of
            (f, Panicked) \<Rightarrow> (f, Panicked)
          | (f, _) \<Rightarrow> (f, Failed (CkMotionStopped stops)))
       else (f, Returned ()))))"
  have run: "send_pulse (logged ops) heartbeat contract v w f =
      andthen (if heartbeat then
          andthen (f, prepared contract (QHeartbeatStop (ap_heartbeat_timeout_ms (sf_policy f))))
            (\<lambda>beat f. on_client (op_command (logged ops) beat) f)
        else (f, Returned ())) (\<lambda>_ f. rest f)"
    by (simp add: send_pulse_def Returned rest_def)
  have move: "\<exists>ok halt. pulse_log g' = pulse_log g @ [(motion, ok)] @ halt \<and> sf_contract g' = sf_contract g \<and>
      (halt = [] \<or> (\<exists>ok stops. halt = [(QStop, ok)] \<and> stops \<noteq> [] \<and>
        (r = Failed (CkMotionStopped stops) \<or> r = Panicked)))" if "rest g = (g', r)" for g g' r
    using send_motion_shape [of contract v' w' t' ops g g' r] m that by (simp add: rest_def)
  show ?thesis
  proof (cases heartbeat)
    case False
    with assms run have "rest f = (f', res)" by simp
    from move [OF this] obtain ok halt where h: "pulse_log f' = pulse_log f @ [(motion, ok)] @ halt"
      "sf_contract f' = sf_contract f"
      "halt = [] \<or> (\<exists>ok stops. halt = [(QStop, ok)] \<and> stops \<noteq> [] \<and>
        (res = Failed (CkMotionStopped stops) \<or> res = Panicked))" by blast
    then have "pulse_shape heartbeat contract res ([] @ [(motion, ok)] @ halt)"
      unfolding pulse_shape_def using m False by blast
    with h show ?thesis by auto
  next
    case True
    show ?thesis
    proof (cases "prepared contract (QHeartbeatStop (ap_heartbeat_timeout_ms (sf_policy f)))")
      case (Returned beat)
      then obtain u where b: "beat = QHeartbeatStop u" using prepared_shape(2) by blast
      obtain g r where g: "on_client (op_command (logged ops) beat) f = (g, r)" by force
      note l = command_log [OF g]
      show ?thesis
      proof (cases "r = Returned ()")
        case True
        with assms run \<open>heartbeat\<close> Returned g have "rest g = (f', res)" by simp
        from move [OF this] obtain ok halt where h: "pulse_log f' = pulse_log g @ [(motion, ok)] @ halt"
          "sf_contract f' = sf_contract g"
          "halt = [] \<or> (\<exists>ok stops. halt = [(QStop, ok)] \<and> stops \<noteq> [] \<and>
            (res = Failed (CkMotionStopped stops) \<or> res = Panicked))" by blast
        then have "pulse_shape heartbeat contract res ([(QHeartbeatStop u, True)] @ [(motion, ok)] @ halt)"
          unfolding pulse_shape_def using m by blast
        with h l b True show ?thesis by auto
      next
        case False
        with assms run \<open>heartbeat\<close> Returned g have e: "f' = g" "res \<noteq> Returned ()"
          by (cases r; simp)+
        then have "pulse_shape heartbeat contract res ([(QHeartbeatStop u, r = Returned ())] @ [] @ [])"
          unfolding pulse_shape_def by blast
        with e l b show ?thesis by auto
      qed
    qed (use assms run True in \<open>auto simp: pulse_shape_def\<close>)
  qed
qed (use assms in \<open>auto simp: send_pulse_def pulse_shape_def\<close>)

section \<open>Examples\<close>

lemma summary_from_line_latches:
  "sm_estop_latched (summary_from_line raw) = bool_for raw ''estop''"
  "sm_safety_tripped (summary_from_line raw) =
     otherwise (bool_for raw ''safety_tripped'') (map_option (\<lambda>_. True) (inferred_imu_safety_latch (imu_from_raw raw)))"
  "sm_event_next_seq (summary_from_line raw) = number_for raw ''event_next_seq''"
  by (simp_all add: summary_from_line_def Let_def)

lemma inferred_from_raw:
  "number_for raw ''imu_tilt_mrad'' = None \<Longrightarrow> number_for raw ''imu_impact_mm_s2'' = None \<Longrightarrow>
   inferred_imu_safety_latch (imu_from_raw raw) = None"
  by (simp add: inferred_imu_safety_latch_def imu_from_raw_def)

text \<open>A connector with one status and one answer to a query for events.\<close>

definition reporting :: "string \<Rightarrow> event_batch \<Rightarrow> cockpit_request \<Rightarrow> nat \<Rightarrow> (nat, cockpit_response) run" where
  "reporting raw batch r c =
     (c, Returned (case r of QGetStatus \<Rightarrow> RsStatus raw | QGetEvents _ \<Rightarrow> RsEvents batch | _ \<Rightarrow> RsAccepted))"

definition example_batch :: "u32 \<Rightarrow> event_batch" where
  "example_batch dropped =
     \<lparr>eb_since_seq = 0, eb_oldest_seq = 1, eb_next_seq = 1, eb_dropped_before_seq = dropped, eb_events = []\<rparr>"

definition example_safe_client :: "(nat \<times> sent list) safe_client" where
  "example_safe_client =
     \<lparr>sf_client = (0, []), sf_cursor = 4, sf_policy = default_policy, sf_contract = Some example_contract\<rparr>"

lemma plain_status:
  "sm_estop_latched (summary_from_line ''OK'') = None" "sm_safety_tripped (summary_from_line ''OK'') = None"
  by (simp_all add: summary_from_line_latches bool_for_def number_for_def value_for_def after_first.simps
      strip_prefix_def inferred_from_raw otherwise_def)

lemma example_pulse:
  "pulse_motion (logged (simple_connector (reporting ''OK'' (example_batch dropped)))) 600 0 example_safe_client =
     (example_safe_client\<lparr>sf_client := (0, [(QHeartbeatStop 900, True), (QCmdVel 500 0 300, True)]),
        sf_cursor := if dropped = 0 then 0 else 4\<rparr>,
      if dropped = 0 then Returned () else Failed (CkMissedEvents dropped))"
proof -
  let ?ops = "logged (simple_connector (reporting ''OK'' (example_batch dropped)))"
  have status: "refresh_status ?ops example_safe_client = (example_safe_client, Returned (summary_from_line ''OK''))"
    by (simp add: refresh_status_def read_summary_def on_client_def logged_def unlogged_def simple_connector_def
        default_get_status_def reporting_def example_safe_client_def summary_from_raw_def)
  have contract: "ensure_contract ?ops example_safe_client = (example_safe_client, Returned example_contract)"
    by (simp add: ensure_contract_def example_safe_client_def)
  have verbs: "supports example_contract ''cmd_vel''" "supports example_contract ''heartbeat_stop''"
    by (simp_all add: supports_def example_contract_def sample_cockpit_capability_verbs_def)
  have beat: "needs_heartbeat ?ops example_safe_client"
    by (simp add: needs_heartbeat_def example_safe_client_def default_policy_def logged_def simple_connector_def)
  have limits: "ca_limits example_contract = \<lparr>li_max_linear_mm_s = 500, li_max_angular_mrad_s = 4000,
      li_min_ttl_ms = 10, li_max_ttl_ms = 60000\<rparr>"
    by (simp add: example_contract_def)
  have motion: "prepared example_contract (QCmdVel 600 0 300) = Returned (QCmdVel 500 0 300)"
    using verbs
    by (simp add: prepared_def limits clamp_motion_request_def wrapping_abs_def clamp_signed_def clamp_u32_def
        clamp_word_def Let_def checked_def validate_request_def required_capability_def both_checks_def
        validate_motion_limits_def check_linear_def check_angular_def validate_ttl_limits_def ttl_or_timeout_ms_def)
  have hb: "prepared example_contract (QHeartbeatStop 900) = Returned (QHeartbeatStop 900)"
    using verbs
    by (simp add: prepared_def limits clamp_motion_request_def clamp_u32_def clamp_word_def Let_def checked_def
        validate_request_def required_capability_def both_checks_def validate_motion_limits_def
        validate_ttl_limits_def ttl_or_timeout_ms_def)
  have policy: "ap_motion_ttl_ms (sf_policy example_safe_client) = 300"
    "ap_heartbeat_timeout_ms (sf_policy example_safe_client) = 900"
    by (simp_all add: example_safe_client_def default_policy_def)
  have sent: "on_client (op_command ?ops r) f = (f\<lparr>sf_client := (fst (sf_client f), pulse_log f @ [(r, True)])\<rparr>, Returned ())"
    if "r = QHeartbeatStop 900 \<or> r = QCmdVel 500 0 300" for r f
    using that
    by (auto simp: on_client_def logged_def simple_connector_def default_command_def reporting_def expect_accepted_def)
  have polled: "poll_safety_events ?ops f = (f\<lparr>sf_cursor := if dropped = 0 then 0 else sf_cursor f\<rparr>,
      if dropped = 0 then Returned [] else Failed (CkMissedEvents dropped))" for f
    by (simp add: poll_safety_events_def poll_events_def cursor_poll_def logged_def unlogged_def simple_connector_def
        default_get_events_def reporting_def example_batch_def ensure_no_missed_events_def sat_sub_def
        List.map_filter_def)
  have "send_pulse ?ops True example_contract 600 0 example_safe_client =
     (example_safe_client\<lparr>sf_client := (0, [(QHeartbeatStop 900, True), (QCmdVel 500 0 300, True)]),
        sf_cursor := if dropped = 0 then 0 else 4\<rparr>,
      if dropped = 0 then Returned () else Failed (CkMissedEvents dropped))"
    by (simp add: send_pulse_def policy motion hb sent polled, simp add: example_safe_client_def)
  then show ?thesis
    using verbs beat by (simp add: pulse_motion_def status plain_status contract)
qed

section \<open>Properties\<close>



text \<open>C29. Quiet while latched: when the status shows the emergency stop or a safety latch, a pulse reports it and the
  connector gets nothing beyond that reading of the status.\<close>

theorem no_pulse_while_latched:
  assumes "op_get_status ops (sf_client f) = (c, Returned raw)"
    and "sm_estop_latched (summary_from_raw (op_read_json ops) raw) = Some True \<or>
      sm_safety_tripped (summary_from_raw (op_read_json ops) raw) = Some True"
  shows "\<exists>f' stops. pulse_motion ops v w f = (f', Failed (CkMotionStopped stops)) \<and> stops \<noteq> [] \<and> sf_client f' = c"
  using assms
  by (auto simp: pulse_motion_def refresh_status_def read_summary_def on_client_def resync_cursor_def status_stops_def
      split: option.splits)

theorem no_pulse_while_latched_witness:
  "\<exists>f' stops. pulse_motion (simple_connector (reporting ''estop=true'' (example_batch 0))) 600 0
     \<lparr>sf_client = 0, sf_cursor = 4, sf_policy = default_policy, sf_contract = None\<rparr> =
     (f', Failed (CkMotionStopped stops)) \<and> stops \<noteq> [] \<and> sf_client f' = 0"
proof (rule no_pulse_while_latched)
  show "op_get_status (simple_connector (reporting ''estop=true'' (example_batch 0)))
      (sf_client \<lparr>sf_client = 0, sf_cursor = 4, sf_policy = default_policy, sf_contract = None\<rparr>) =
      (0, Returned ''estop=true'')"
    by (simp add: simple_connector_def default_get_status_def reporting_def)
  have "sm_estop_latched (summary_from_line ''estop=true'') = Some True"
    by (simp add: summary_from_line_latches bool_for_def value_for_def after_first.simps strip_prefix_def
        first_word_def is_space_def read_tri_state_def Let_def)
  then show "sm_estop_latched (summary_from_raw (op_read_json (simple_connector
        (reporting ''estop=true'' (example_batch 0)))) ''estop=true'') = Some True \<or>
      sm_safety_tripped (summary_from_raw (op_read_json (simple_connector
        (reporting ''estop=true'' (example_batch 0)))) ''estop=true'') = Some True"
    by (simp add: summary_from_raw_def simple_connector_def)
qed

text \<open>A pulse whose events have a gap leaves its motion running: the velocity has been accepted, the caller
  learns of the gap, and no stop is sent.\<close>

theorem gap_leaves_motion_running:
  "pulse_log (fst (pulse_motion (logged (simple_connector (reporting ''OK'' (example_batch 9)))) 600 0 example_safe_client)) =
     [(QHeartbeatStop 900, True), (QCmdVel 500 0 300, True)] \<and>
   snd (pulse_motion (logged (simple_connector (reporting ''OK'' (example_batch 9)))) 600 0 example_safe_client) =
     Failed (CkMissedEvents 9)"
  by (simp add: example_pulse)

end
