(* ===== verification/Sim_Cockpit.thy ===== *)
theory Sim_Cockpit
  imports Possession
begin

text \<open>
  The simulator of the brainstem (\<open>cockpit/simulator.rs\<close>), which the host's tests and tools drive instead of the
  robot: its state in groups, its sensors and clock, its commands, its sessions and leases. Random tokens, the
  seeded hash behind a session's name and the version of the build are in the record \<open>sim_world\<close>.
\<close>

section \<open>State\<close>

type_synonym u64 = "64 word"

record sim_world =
  wo_uuid :: "u32 \<Rightarrow> string"
  wo_session_name :: session_name
  wo_version :: string

record timed_action =
  ta_command_id :: u32
  ta_complete_at_ms :: u32
  ta_linear_mm_s :: i16

record sim_withdrawal =
  wd_started_at_ms :: u32
  wd_complete_at_ms :: u32
  wd_baseline_odometry_mm :: i32

record network_lease =
  nl_leased_ip :: string
  nl_client_mac :: string
  nl_dhcp_client_identifier :: string
  nl_requested_hostname :: "string option"
  nl_lease_start :: u64
  nl_lease_expiry :: u64

record sim_log =
  xl_events :: "cockpit_event list"
  xl_next_event_seq :: u32
  xl_event_capacity :: nat

record sim_latches =
  xt_estop_latched :: bool
  xt_safety_tripped :: bool
  xt_safety_latch_kind :: "safety_latch_kind option"
  xt_safety_hazard_generation :: u32

record sim_body =
  xb_bump_left :: bool
  xb_bump_right :: bool
  xb_cliff :: bool
  xb_wheel_drop :: bool
  xb_wall :: bool
  xb_virtual_wall :: bool
  xb_buttons :: u8
  xb_ir_byte :: u8
  xb_charging_state :: u8
  xb_battery_charge_mah :: u32
  xb_battery_capacity_mah :: u32
  xb_odometry_distance_mm :: i32
  xb_odometry_heading_mrad :: i32
  xb_odometry_reset_count :: u32
  xb_audio_silent :: bool
  xb_imu_calibration :: u8

record sim_motion =
  xm_active_cmd_vel :: "timed_action option"
  xm_active_contact_withdrawal :: "sim_withdrawal option"
  xm_last_contact_withdrawal_at_ms :: "u32 option"
  xm_repeated_contact_count :: u8
  xm_heartbeat_stop_at_ms :: "u32 option"

record sim_sessions =
  xs_device_id :: string
  xs_boot_id :: string
  xs_active_session :: "cockpit_session option"
  xs_sessions :: "cockpit_session list"
  xs_control_lease :: "control_lease option"
  xs_control_lease_expires_at_ms :: "u32 option"
  xs_lease_generation :: u32
  xs_session_serial :: u64
  xs_last_hello :: "(handshake_hello \<times> handshake_response) option"

record sim_network =
  xn_leases :: "string \<rightharpoonup> network_lease"
  xn_dns_records :: "string \<rightharpoonup> string \<times> u64 \<times> u32"
  xn_registration_generation :: u32
  xn_registration_boot_id :: "string option"
  xn_internal_domain :: string

record sim_policy =
  xp_operator_debug_allowed :: bool
  xp_recovery_forebrain_device_id :: "string option"
  xp_allow_unscoped_bench_mode :: bool
  xp_scoped_dispatch :: bool

record sim =
  sim_capabilities :: cockpit_capabilities
  sim_now_ms :: u32
  sim_next_command_id :: u32
  sim_armed :: bool
  sim_log :: sim_log
  sim_latches :: sim_latches
  sim_body :: sim_body
  sim_motion :: sim_motion
  sim_sessions :: sim_sessions
  sim_network :: sim_network
  sim_policy :: sim_policy

text \<open>Updates of one group.\<close>

definition on_log :: "(sim_log \<Rightarrow> sim_log) \<Rightarrow> sim \<Rightarrow> sim" where
  "on_log f s = s\<lparr>sim_log := f (sim_log s)\<rparr>"

definition on_latches :: "(sim_latches \<Rightarrow> sim_latches) \<Rightarrow> sim \<Rightarrow> sim" where
  "on_latches f s = s\<lparr>sim_latches := f (sim_latches s)\<rparr>"

definition on_body :: "(sim_body \<Rightarrow> sim_body) \<Rightarrow> sim \<Rightarrow> sim" where
  "on_body f s = s\<lparr>sim_body := f (sim_body s)\<rparr>"

definition on_motion :: "(sim_motion \<Rightarrow> sim_motion) \<Rightarrow> sim \<Rightarrow> sim" where
  "on_motion f s = s\<lparr>sim_motion := f (sim_motion s)\<rparr>"

definition on_sessions :: "(sim_sessions \<Rightarrow> sim_sessions) \<Rightarrow> sim \<Rightarrow> sim" where
  "on_sessions f s = s\<lparr>sim_sessions := f (sim_sessions s)\<rparr>"

definition on_names :: "(sim_network \<Rightarrow> sim_network) \<Rightarrow> sim \<Rightarrow> sim" where
  "on_names f s = s\<lparr>sim_network := f (sim_network s)\<rparr>"

definition on_policy :: "(sim_policy \<Rightarrow> sim_policy) \<Rightarrow> sim \<Rightarrow> sim" where
  "on_policy f s = s\<lparr>sim_policy := f (sim_policy s)\<rparr>"

lemmas sim_groups = on_log_def on_latches_def on_body_def on_motion_def on_sessions_def on_names_def on_policy_def

section \<open>Events\<close>

definition enforce_event_capacity :: "sim_log \<Rightarrow> sim_log" where
  "enforce_event_capacity l =
     l\<lparr>xl_events := drop (length (xl_events l) - xl_event_capacity l) (xl_events l)\<rparr>"

definition log_event :: "cockpit_event_kind \<Rightarrow> u32 \<Rightarrow> u32 \<Rightarrow> u32 \<Rightarrow> sim_log \<Rightarrow> sim_log" where
  "log_event kind a b c l =
     enforce_event_capacity
       (l\<lparr>xl_next_event_seq := max (xl_next_event_seq l + 1) 1,
          xl_events := xl_events l @
            [\<lparr>ce_seq = xl_next_event_seq l, ce_kind = kind, ce_a = a, ce_b = b, ce_c = c\<rparr>]\<rparr>)"

definition sim_push_event :: "cockpit_event_kind \<Rightarrow> u32 \<Rightarrow> u32 \<Rightarrow> u32 \<Rightarrow> sim \<Rightarrow> sim" where
  "sim_push_event kind a b c = on_log (log_event kind a b c)"

text \<open>The sequence number \<open>push_event\<close> returns.\<close>

definition event_seq :: "sim \<Rightarrow> u32" where
  "event_seq s = xl_next_event_seq (sim_log s)"

definition oldest_seq :: "sim \<Rightarrow> u32" where
  "oldest_seq s =
     (case xl_events (sim_log s) of [] \<Rightarrow> xl_next_event_seq (sim_log s) | e # _ \<Rightarrow> ce_seq e)"

text \<open>\<open>self.safety_hazard_generation = self.push_event(SafetyTripped, code, 0, 0)\<close>\<close>

definition trip_event :: "u32 \<Rightarrow> sim \<Rightarrow> sim" where
  "trip_event code s =
     on_latches (\<lambda>l. l\<lparr>xt_safety_hazard_generation := event_seq s\<rparr>) (sim_push_event ESafetyTripped code 0 0 s)"

section \<open>Motion\<close>

definition interrupt_active_motion :: "sim \<Rightarrow> sim" where
  "interrupt_active_motion s =
     (case xm_active_cmd_vel (sim_motion s) of
        None \<Rightarrow> s
      | Some active \<Rightarrow>
          sim_push_event ECommandInterrupted (ta_command_id active) 0 0
            (on_motion (\<lambda>m. m\<lparr>xm_active_cmd_vel := None\<rparr>) s))"

definition sim_accept_command :: "sim \<Rightarrow> sim \<times> u32" where
  "sim_accept_command s =
     (let i = sim_next_command_id s in
      (sim_push_event ECommandStarted i 0 0 (sim_push_event ECommandAccepted i 0 0
         (s\<lparr>sim_next_command_id := max (i + 1) 1\<rparr>)), i))"

definition complete_command :: "u32 \<Rightarrow> sim \<Rightarrow> sim" where
  "complete_command i = sim_push_event ECommandCompleted i 0 0"

definition complete_due_cmd_vel :: "sim \<Rightarrow> sim" where
  "complete_due_cmd_vel s =
     (case xm_active_cmd_vel (sim_motion s) of
        None \<Rightarrow> s
      | Some active \<Rightarrow>
          if \<not> time_reached (sim_now_ms s) (ta_complete_at_ms active) then s
          else complete_command (ta_command_id active)
            (sim_push_event EMotionStopped 0 0 0 (on_motion (\<lambda>m. m\<lparr>xm_active_cmd_vel := None\<rparr>) s)))"

text \<open>\<open>CONTACT_WITHDRAWAL_SPEED_MM_S * CONTACT_WITHDRAWAL_DURATION_MS / 1000\<close>\<close>

definition withdrawal_displacement_mm :: int where
  "withdrawal_displacement_mm = trunc_div (80 * 300) 1000"

definition sat_sub_i32 :: "i32 \<Rightarrow> int \<Rightarrow> i32" where
  "sat_sub_i32 a b = of_int (sat_i32 (sint a - b))"

definition withdrawal_completed :: "u32 \<Rightarrow> sim_withdrawal \<Rightarrow> sim \<Rightarrow> sim" where
  "withdrawal_completed outcome active s =
     sim_push_event EContactWithdrawalCompleted outcome
       (xb_odometry_distance_mm (sim_body s) - wd_baseline_odometry_mm active)
       (sim_now_ms s - wd_started_at_ms active)
       (sim_push_event EMotionStopped 0 0 0 s)"

definition complete_due_contact_withdrawal :: "sim \<Rightarrow> sim" where
  "complete_due_contact_withdrawal s =
     (case xm_active_contact_withdrawal (sim_motion s) of
        None \<Rightarrow> s
      | Some active \<Rightarrow>
          if \<not> time_reached (sim_now_ms s) (wd_complete_at_ms active) then s
          else withdrawal_completed (1 OR push_bit 16 1) active
            (on_body (\<lambda>b. b\<lparr>xb_odometry_distance_mm :=
                 sat_sub_i32 (xb_odometry_distance_mm b) withdrawal_displacement_mm\<rparr>)
              (on_motion (\<lambda>m. m\<lparr>xm_active_contact_withdrawal := None\<rparr>) s)))"

definition preempt_contact_withdrawal :: "u32 \<Rightarrow> sim \<Rightarrow> sim" where
  "preempt_contact_withdrawal safety_code s =
     (case xm_active_contact_withdrawal (sim_motion s) of
        None \<Rightarrow> s
      | Some active \<Rightarrow>
          withdrawal_completed (2 OR push_bit 8 safety_code OR push_bit 16 1) active
            (on_motion (\<lambda>m. m\<lparr>xm_active_contact_withdrawal := None\<rparr>) s))"

definition expire_heartbeat_if_due :: "sim \<Rightarrow> sim" where
  "expire_heartbeat_if_due s =
     (case xm_heartbeat_stop_at_ms (sim_motion s) of
        None \<Rightarrow> s
      | Some deadline_ms \<Rightarrow>
          if \<not> time_reached (sim_now_ms s) deadline_ms then s
          else sim_push_event EMotionStopped 0 0 0 (sim_push_event ESafetyTripped 5 0 0 (sim_push_event EHeartbeatExpired 0 0 0
            (on_latches (\<lambda>l. l\<lparr>xt_safety_tripped := True\<rparr>)
              (interrupt_active_motion (on_motion (\<lambda>m. m\<lparr>xm_heartbeat_stop_at_ms := None\<rparr>) s))))))"

definition catch_up :: "sim \<Rightarrow> sim" where
  "catch_up s = expire_heartbeat_if_due (complete_due_contact_withdrawal (complete_due_cmd_vel s))"

definition drop_control :: "sim \<Rightarrow> sim" where
  "drop_control s =
     on_sessions (\<lambda>x. x\<lparr>xs_control_lease := None, xs_control_lease_expires_at_ms := None\<rparr>)
       ((on_motion (\<lambda>m. m\<lparr>xm_heartbeat_stop_at_ms := None\<rparr>) (interrupt_active_motion s))\<lparr>sim_armed := False\<rparr>)"

definition advance_ms :: "u32 \<Rightarrow> sim \<Rightarrow> sim" where
  "advance_ms ms s =
     (let s = s\<lparr>sim_now_ms := sim_now_ms s + ms\<rparr> in
      catch_up
        (case xs_control_lease_expires_at_ms (sim_sessions s) of
           None \<Rightarrow> s
         | Some deadline \<Rightarrow> if time_reached (sim_now_ms s) deadline then drop_control s else s))"

section \<open>Sensors\<close>

definition latch :: "safety_latch_kind \<Rightarrow> sim \<Rightarrow> sim" where
  "latch kind = on_latches (\<lambda>l. l\<lparr>xt_safety_tripped := True, xt_safety_latch_kind := Some kind\<rparr>)"

definition trip_safety :: "sim \<Rightarrow> sim" where
  "trip_safety s =
     (if xt_safety_tripped (sim_latches s) then s
      else sim_push_event EMotionStopped 0 0 0
        (trip_event 1 (preempt_contact_withdrawal 1 (interrupt_active_motion (latch LBump s)))))"

definition start_withdrawal :: "bool \<Rightarrow> bool \<Rightarrow> u32 \<Rightarrow> sim \<Rightarrow> sim" where
  "start_withdrawal left right preempted s =
     (let repeated =
            (case xm_last_contact_withdrawal_at_ms (sim_motion s) of
               Some previous \<Rightarrow>
                 if sim_now_ms s - previous \<le> 2000
                 then max (sat_add (xm_repeated_contact_count (sim_motion s)) 1) 1 else 1
             | None \<Rightarrow> 1);
          s = on_motion (\<lambda>m. m\<lparr>xm_repeated_contact_count := repeated,
                xm_last_contact_withdrawal_at_ms := Some (sim_now_ms s)\<rparr>) s;
          s = sim_push_event EContactWithdrawalStarted
                (b32 left OR push_bit 1 (b32 right) OR push_bit 8 (ucast repeated)) preempted
                (80 OR push_bit 16 300) s
      in on_motion (\<lambda>m. m\<lparr>xm_active_contact_withdrawal :=
           Some \<lparr>wd_started_at_ms = sim_now_ms s, wd_complete_at_ms = sim_now_ms s + 300,
             wd_baseline_odometry_mm = xb_odometry_distance_mm (sim_body s)\<rparr>\<rparr>) s)"

definition fresh_contact :: "bool \<Rightarrow> bool \<Rightarrow> sim \<Rightarrow> sim" where
  "fresh_contact left right s =
     (let active = xm_active_cmd_vel (sim_motion s);
          unsafe_forward_output = (case active of None \<Rightarrow> False | Some motion \<Rightarrow> sint (ta_linear_mm_s motion) > 0);
          preempted = (case active of None \<Rightarrow> 0 | Some motion \<Rightarrow> ta_command_id motion);
          s = sim_push_event EMotionStopped 0 0 0 (trip_event 1 (interrupt_active_motion (latch LBump s)))
      in if unsafe_forward_output then start_withdrawal left right preempted s else s)"

definition set_bump :: "bool \<Rightarrow> bool \<Rightarrow> sim \<Rightarrow> sim" where
  "set_bump left right s =
     (if xb_bump_left (sim_body s) = left \<and> xb_bump_right (sim_body s) = right then s
      else
        (let was_active = xb_bump_left (sim_body s) \<or> xb_bump_right (sim_body s);
             active = left \<or> right;
             s = sim_push_event EBumpChanged (b32 active) 0 0
               (on_body (\<lambda>b. b\<lparr>xb_bump_left := left, xb_bump_right := right\<rparr>) s)
         in if active \<and> \<not> was_active then fresh_contact left right s else s))"

definition set_cliff :: "bool \<Rightarrow> sim \<Rightarrow> sim" where
  "set_cliff active s =
     (if xb_cliff (sim_body s) = active then s
      else
        (let s = sim_push_event ECliffChanged (b32 active) 0 0 (on_body (\<lambda>b. b\<lparr>xb_cliff := active\<rparr>) s) in
         if active then sim_push_event EMotionStopped 0 0 0
           (trip_event 2 (preempt_contact_withdrawal 2 (interrupt_active_motion (latch LCliff s))))
         else s))"

definition set_wheel_drop :: "bool \<Rightarrow> sim \<Rightarrow> sim" where
  "set_wheel_drop active s =
     (if xb_wheel_drop (sim_body s) = active then s
      else
        (let s = on_body (\<lambda>b. b\<lparr>xb_wheel_drop := active\<rparr>) s in
         if active then sim_push_event EMotionStopped 0 0 0
           (trip_event 3 (sim_push_event EWheelDropLatched 1 0 0 (interrupt_active_motion (latch LWheelDrop s))))
         else s))"

definition set_wall :: "bool \<Rightarrow> sim \<Rightarrow> sim" where
  "set_wall active s =
     (if xb_wall (sim_body s) = active then s
      else sim_push_event EWallChanged (b32 active) 0 0 (on_body (\<lambda>b. b\<lparr>xb_wall := active\<rparr>) s))"

definition set_virtual_wall :: "bool \<Rightarrow> sim \<Rightarrow> sim" where
  "set_virtual_wall active s =
     (if xb_virtual_wall (sim_body s) = active then s
      else sim_push_event EVirtualWallChanged (b32 active) 0 0 (on_body (\<lambda>b. b\<lparr>xb_virtual_wall := active\<rparr>) s))"

definition sim_battery_percent :: "sim \<Rightarrow> u8 option" where
  "sim_battery_percent s =
     client_battery_percent (Some (xb_battery_charge_mah (sim_body s))) (Some (xb_battery_capacity_mah (sim_body s)))"

definition set_battery :: "u32 \<Rightarrow> u32 \<Rightarrow> sim \<Rightarrow> sim" where
  "set_battery charge_mah capacity_mah s =
     (let s = on_body (\<lambda>b. b\<lparr>xb_battery_charge_mah := charge_mah, xb_battery_capacity_mah := capacity_mah\<rparr>) s in
      case sim_battery_percent s of
        None \<Rightarrow> s
      | Some percent \<Rightarrow> if percent \<le> 20 then sim_push_event EBatteryLow (ucast percent) 0 0 s else s)"

definition set_charging_state :: "u8 \<Rightarrow> sim \<Rightarrow> sim" where
  "set_charging_state state s =
     (if xb_charging_state (sim_body s) = state then s
      else sim_push_event EChargingStateChanged (ucast state) 0 0 (on_body (\<lambda>b. b\<lparr>xb_charging_state := state\<rparr>) s))"

definition set_buttons :: "u8 \<Rightarrow> sim \<Rightarrow> sim" where
  "set_buttons buttons s =
     (if xb_buttons (sim_body s) = buttons then s
      else sim_push_event EButtonsChanged (ucast buttons) 0 0 (on_body (\<lambda>b. b\<lparr>xb_buttons := buttons\<rparr>) s))"

definition set_ir_byte :: "u8 \<Rightarrow> sim \<Rightarrow> sim" where
  "set_ir_byte ir_byte s =
     (if xb_ir_byte (sim_body s) = ir_byte then s
      else sim_push_event EIrChanged (ucast ir_byte) 0 0 (on_body (\<lambda>b. b\<lparr>xb_ir_byte := ir_byte\<rparr>) s))"

section \<open>Commands\<close>

definition require_scoped_dispatch :: "sim \<Rightarrow> unit call" where
  "require_scoped_dispatch s =
     (if xp_allow_unscoped_bench_mode (sim_policy s) \<or> xp_scoped_dispatch (sim_policy s) then Returned ()
      else Failed CkSessionRequired)"

text \<open>The frame of most commands: accepted, carried out, completed.\<close>

definition carry_out :: "(sim \<Rightarrow> sim) \<Rightarrow> sim \<Rightarrow> (sim, unit) run" where
  "carry_out f s = (case sim_accept_command s of (s, i) \<Rightarrow> (complete_command i (f s), Returned ()))"

definition scoped :: "(sim \<Rightarrow> (sim, unit) run) \<Rightarrow> sim \<Rightarrow> (sim, unit) run" where
  "scoped f s = andthen (s, require_scoped_dispatch s) (\<lambda>_. f)"

definition sim_arm :: "sim \<Rightarrow> (sim, unit) run" where
  "sim_arm = scoped (carry_out (\<lambda>s. s\<lparr>sim_armed := True\<rparr>))"

definition sim_disarm :: "sim \<Rightarrow> (sim, unit) run" where
  "sim_disarm = scoped (carry_out (\<lambda>s.
     (preempt_contact_withdrawal 0 (interrupt_active_motion s))\<lparr>sim_armed := False\<rparr>))"

definition sim_stop :: "sim \<Rightarrow> (sim, unit) run" where
  "sim_stop = carry_out (\<lambda>s.
     sim_push_event EMotionStopped 0 0 0 (preempt_contact_withdrawal 0 (interrupt_active_motion s)))"

definition sim_estop :: "sim \<Rightarrow> (sim, unit) run" where
  "sim_estop = carry_out (\<lambda>s.
     sim_push_event EMotionStopped 0 0 0 (trip_event 4 (sim_push_event EEStopLatched 1 0 0
       (on_latches (\<lambda>l. l\<lparr>xt_estop_latched := True, xt_safety_tripped := True, xt_safety_latch_kind := None\<rparr>)
         (preempt_contact_withdrawal 4 (interrupt_active_motion s))))))"

definition sim_clear_estop :: "sim \<Rightarrow> (sim, unit) run" where
  "sim_clear_estop = scoped (carry_out (\<lambda>s.
     sim_push_event ESafetyCleared 4 0 0 (sim_push_event EEStopCleared 0 0 0
       (on_latches (\<lambda>l. l\<lparr>xt_estop_latched := False, xt_safety_tripped := False, xt_safety_latch_kind := None,
          xt_safety_hazard_generation := 0\<rparr>) s))))"

definition sim_clear_safety_latch :: "safety_latch_kind \<Rightarrow> sim \<Rightarrow> (sim, unit) run" where
  "sim_clear_safety_latch kind = scoped (carry_out (\<lambda>s.
     let s = on_latches (\<lambda>l. l\<lparr>xt_safety_tripped := False, xt_safety_latch_kind := None,
           xt_safety_hazard_generation := 0\<rparr>) s;
         s = (if kind = LWheelDrop then sim_push_event EWheelDropCleared 0 0 0 s else s)
     in sim_push_event ESafetyCleared (safety_latch_kind_code kind) 0 0 s))"

text \<open>\<open>pack_i16_pair\<close> of \<open>cockpit/possession/uart.rs\<close>.\<close>

definition client_pack_i16_pair :: "i16 \<Rightarrow> i16 \<Rightarrow> u32" where
  "client_pack_i16_pair left right = push_bit 16 (ucast left) OR ucast right"

definition start_motion :: "u32 \<Rightarrow> u32 \<Rightarrow> i16 \<Rightarrow> i16 \<Rightarrow> u32 \<Rightarrow> sim \<Rightarrow> sim" where
  "start_motion i lasts linear angular ttl_ms s =
     on_motion (\<lambda>m. m\<lparr>xm_active_cmd_vel :=
         Some \<lparr>ta_command_id = i, ta_complete_at_ms = sim_now_ms s + lasts, ta_linear_mm_s = linear\<rparr>\<rparr>)
       (sim_push_event EMotionRequested (client_pack_i16_pair linear angular) ttl_ms 0 (interrupt_active_motion s))"

definition sim_cmd_vel :: "i16 \<Rightarrow> i16 \<Rightarrow> u32 \<Rightarrow> sim \<Rightarrow> (sim, unit) run" where
  "sim_cmd_vel linear angular ttl_ms = scoped (\<lambda>s.
     case sim_accept_command s of
       (s, i) \<Rightarrow>
         if xt_estop_latched (sim_latches s) \<or> xt_safety_tripped (sim_latches s)
         then (sim_push_event ECommandRejected i 0 0 s, Returned ())
         else (start_motion i (max ttl_ms 1) linear angular ttl_ms s, Returned ()))"

text \<open>The verdict on an escape motion: the first reason against it.\<close>

definition escape_compatible :: "safety_latch_kind \<Rightarrow> i16 \<Rightarrow> i16 \<Rightarrow> sim_body \<Rightarrow> bool" where
  "escape_compatible hazard linear angular b =
     (case hazard of
        LBump \<Rightarrow>
          (xb_bump_left b \<or> xb_bump_right b) \<and> \<not> xb_cliff b \<and>
          \<not> (xb_bump_left b \<and> \<not> xb_bump_right b \<and> sint angular > 0) \<and>
          \<not> (\<not> xb_bump_left b \<and> xb_bump_right b \<and> sint angular < 0) \<and>
          \<not> (xb_bump_left b \<and> xb_bump_right b \<and> angular \<noteq> 0)
      | LCliff \<Rightarrow>
          xb_cliff b \<and> \<not> xb_bump_left b \<and> \<not> xb_bump_right b \<and> sint linear < 0 \<and> angular = 0
      | _ \<Rightarrow> False)"

definition escape_verdict ::
  "safety_latch_kind \<Rightarrow> u32 \<Rightarrow> i16 \<Rightarrow> i16 \<Rightarrow> u32 \<Rightarrow> sim \<Rightarrow> command_reject_reason option" where
  "escape_verdict hazard generation linear angular ttl_ms s =
     (let l = sim_latches s; b = sim_body s;
          absolute_hazard = (xt_estop_latched l \<or> xb_wheel_drop b \<or> xb_charging_state b \<noteq> 0);
          matching_hazard = (xt_safety_tripped l \<and> xt_safety_latch_kind l = Some hazard \<and>
            xt_safety_hazard_generation l = generation \<and> generation \<noteq> 0);
          bounded = (ttl_ms = 250 \<and> - 120 \<le> sint linear \<and> sint linear \<le> 0 \<and> \<bar>sint angular\<bar> \<le> 500 \<and>
            (linear \<noteq> 0 \<or> angular \<noteq> 0))
      in if xm_active_contact_withdrawal (sim_motion s) \<noteq> None then Some RejBusy
         else if absolute_hazard then Some RejAbsoluteHazard
         else if \<not> matching_hazard then Some RejHazardMismatch
         else if \<not> bounded \<or> \<not> escape_compatible hazard linear angular b then Some RejEscapeEnvelope
         else None)"

definition sim_escape_motion ::
  "safety_latch_kind \<Rightarrow> u32 \<Rightarrow> i16 \<Rightarrow> i16 \<Rightarrow> u32 \<Rightarrow> sim \<Rightarrow> (sim, unit) run" where
  "sim_escape_motion hazard generation linear angular ttl_ms = scoped (\<lambda>s.
     case sim_accept_command s of
       (s, i) \<Rightarrow>
         (case escape_verdict hazard generation linear angular ttl_ms s of
            Some reason \<Rightarrow>
              (sim_push_event ECommandRejected i (ucast (reject_code reason)) 0 s,
               Failed (CkRejected i (reject_text reason)))
          | None \<Rightarrow> (start_motion i ttl_ms linear angular ttl_ms s, Returned ())))"

definition sim_heartbeat_stop :: "u32 \<Rightarrow> sim \<Rightarrow> (sim, unit) run" where
  "sim_heartbeat_stop timeout_ms = scoped (carry_out (\<lambda>s.
     on_motion (\<lambda>m. m\<lparr>xm_heartbeat_stop_at_ms := Some (sim_now_ms s + max timeout_ms 1)\<rparr>) s))"

definition sim_stream_sensors :: "sim \<Rightarrow> (sim, unit) run" where
  "sim_stream_sensors = scoped (carry_out id)"

definition sim_reset_odometry :: "sim \<Rightarrow> (sim, unit) run" where
  "sim_reset_odometry = scoped (carry_out (on_body (\<lambda>b.
     b\<lparr>xb_odometry_reset_count := sat_add (xb_odometry_reset_count b) 1, xb_odometry_distance_mm := 0,
       xb_odometry_heading_mrad := 0\<rparr>)))"

definition sim_zero_imu_orientation :: "sim \<Rightarrow> (sim, unit) run" where
  "sim_zero_imu_orientation = scoped (carry_out (\<lambda>s.
     sim_push_event EImuCalibrationChanged 3 9807 1 (on_body (\<lambda>b. b\<lparr>xb_imu_calibration := 3\<rparr>) s)))"

definition sim_clear_imu_orientation :: "sim \<Rightarrow> (sim, unit) run" where
  "sim_clear_imu_orientation = scoped (carry_out (\<lambda>s.
     sim_push_event EImuCalibrationChanged 0 0 1 (on_body (\<lambda>b. b\<lparr>xb_imu_calibration := 0\<rparr>) s)))"

definition sim_set_audio_silent :: "bool \<Rightarrow> sim \<Rightarrow> (sim, unit) run" where
  "sim_set_audio_silent silent = carry_out (\<lambda>s.
     if xb_audio_silent (sim_body s) \<noteq> silent
     then sim_push_event EAudioStateChanged (b32 silent) 0 0 (on_body (\<lambda>b. b\<lparr>xb_audio_silent := silent\<rparr>) s)
     else s)"

section \<open>Queries\<close>

text \<open>The status as it is printed: fields in their order.\<close>

definition sim_status_fields :: "sim \<Rightarrow> (string \<times> string) list" where
  "sim_status_fields s =
     (let b = sim_body s; l = sim_latches s; now = show_unsigned (sim_now_ms s) in
      [(''sim'', ''true''), (''now_ms'', now), (''uptime_ms'', now), (''clock_epoch'', ''0''),
       (''create_body_packets'', ''1''), (''create_last_body_packet_ms'', now),
       (''armed'', show_bool (sim_armed s)), (''estop'', show_bool (xt_estop_latched l)),
       (''safety_tripped'', show_bool (xt_safety_tripped l)),
       (''safety_latch_kind'', case xt_safety_latch_kind l of None \<Rightarrow> ''none'' | Some k \<Rightarrow> latch_str k),
       (''safety_hazard_generation'', show_unsigned (xt_safety_hazard_generation l)),
       (''event_next_seq'', show_unsigned (event_seq s)),
       (''active_cmd_vel'', show_bool (xm_active_cmd_vel (sim_motion s) \<noteq> None \<or>
          xm_active_contact_withdrawal (sim_motion s) \<noteq> None)),
       (''bump_left'', show_bool (xb_bump_left b)), (''bump_right'', show_bool (xb_bump_right b)),
       (''cliff_left'', show_bool (xb_cliff b)), (''cliff_front_left'', show_bool (xb_cliff b)),
       (''cliff_front_right'', show_bool (xb_cliff b)), (''cliff_right'', show_bool (xb_cliff b)),
       (''wheel_drop'', show_bool (xb_wheel_drop b)), (''wall'', show_bool (xb_wall b)),
       (''virtual_wall'', show_bool (xb_virtual_wall b)), (''ir_byte'', show_unsigned (xb_ir_byte b)),
       (''buttons'', show_unsigned (xb_buttons b)), (''charging_state'', show_unsigned (xb_charging_state b)),
       (''charge_mah'', show_unsigned (xb_battery_charge_mah b)),
       (''capacity_mah'', show_unsigned (xb_battery_capacity_mah b)),
       (''voltage_mv'', if xb_battery_capacity_mah b = 0 then ''0'' else ''14400''), (''current_ma'', ''0''),
       (''odometry_resets'', show_unsigned (xb_odometry_reset_count b)),
       (''odometry_distance_mm'', show_signed (xb_odometry_distance_mm b)),
       (''odometry_heading_mrad'', show_signed (xb_odometry_heading_mrad b)),
       (''imu_present'', ''2''), (''imu_health'', ''1''), (''imu_samples'', ''1''), (''imu_sample_ms'', now),
       (''imu_age_ms'', ''0''), (''imu_poll_ms'', ''20''), (''imu_yaw_mrad'', ''0''), (''imu_pitch_mrad'', ''0''),
       (''imu_roll_mrad'', ''0''), (''imu_yaw_rate_mrad_s'', ''0''), (''imu_gyro_x_mrad_s'', ''0''),
       (''imu_gyro_y_mrad_s'', ''0''), (''imu_gyro_z_mrad_s'', ''0''), (''imu_accel_x_mm_s2'', ''0''),
       (''imu_accel_y_mm_s2'', ''0''), (''imu_accel_z_mm_s2'', ''9807''), (''imu_accel_mag_mm_s2'', ''9807''),
       (''imu_tilt_mrad'', ''0''), (''imu_roughness_mm_s2'', ''0''), (''imu_impact_mm_s2'', ''0''),
       (''imu_motion_consistency'', ''1''), (''imu_calibration'', show_unsigned (xb_imu_calibration b)),
       (''imu_orientation_confidence'', ''950''), (''imu_gyro_bias_calibrated'', ''true''),
       (''imu_mounting_calibrated'', ''true''), (''imu_orientation_source'', ''simulated_accel_gyro_roll_pitch''),
       (''audio_silent'', show_bool (xb_audio_silent b)), (''audio_last_requested'', ''none''),
       (''audio_last_played'', ''none''), (''audio_last_playback_ms'', ''0''), (''audio_suppressed'', ''0''),
       (''audio_dropped'', ''0'')])"

definition field_word :: "string \<times> string \<Rightarrow> string" where
  "field_word f = fst f @ ''='' @ snd f"

definition sim_status_text :: "sim \<Rightarrow> string" where
  "sim_status_text s = ''OK 0 STATUS '' @ join_words (map field_word (sim_status_fields s))"

definition sim_get_status :: "sim \<Rightarrow> (sim, string) run" where
  "sim_get_status s = (let s = catch_up s in (s, Returned (sim_status_text s)))"

definition sim_get_capabilities :: "sim \<Rightarrow> (sim, cockpit_capabilities) run" where
  "sim_get_capabilities s = (s, Returned (sim_capabilities s))"

definition sim_get_events :: "u32 \<Rightarrow> sim \<Rightarrow> (sim, event_batch) run" where
  "sim_get_events since_seq s =
     (let s = catch_up s; oldest = oldest_seq s in
      (s, Returned
        \<lparr>eb_since_seq = since_seq, eb_oldest_seq = oldest, eb_next_seq = event_seq s,
         eb_dropped_before_seq = (if sat_add since_seq 1 < oldest then oldest else 0),
         eb_events = filter (\<lambda>e. ce_seq e > since_seq) (xl_events (sim_log s))\<rparr>))"

section \<open>Dispatch\<close>

definition accepted_after :: "(sim, unit) run \<Rightarrow> (sim, cockpit_response) run" where
  "accepted_after r = andthen r (\<lambda>_ s. (s, Returned RsAccepted))"

definition sim_dispatch :: "cockpit_request \<Rightarrow> sim \<Rightarrow> (sim, cockpit_response) run" where
  "sim_dispatch r s =
     (case r of
        QGetStatus \<Rightarrow> andthen (sim_get_status s) (\<lambda>raw s. (s, Returned (RsStatus raw)))
      | QGetCapabilities \<Rightarrow> andthen (sim_get_capabilities s) (\<lambda>c s. (s, Returned (RsCapabilities c)))
      | QGetEvents since_seq \<Rightarrow> andthen (sim_get_events since_seq s) (\<lambda>b s. (s, Returned (RsEvents b)))
      | QRegisterNetworkEndpoint _ \<Rightarrow> (s, Failed CkSessionRequired)
      | QArm \<Rightarrow> accepted_after (sim_arm s)
      | QDisarm \<Rightarrow> accepted_after (sim_disarm s)
      | QStop \<Rightarrow> accepted_after (sim_stop s)
      | QEStop \<Rightarrow> accepted_after (sim_estop s)
      | QClearEStop \<Rightarrow> accepted_after (sim_clear_estop s)
      | QClearSafetyLatch kind \<Rightarrow> accepted_after (sim_clear_safety_latch kind s)
      | QEscapeMotion hazard generation linear angular ttl_ms \<Rightarrow>
          accepted_after (sim_escape_motion hazard generation linear angular ttl_ms s)
      | QCmdVel linear angular ttl_ms \<Rightarrow> accepted_after (sim_cmd_vel linear angular ttl_ms s)
      | QHeartbeatStop timeout_ms \<Rightarrow> accepted_after (sim_heartbeat_stop timeout_ms s)
      | QStreamSensors _ _ _ \<Rightarrow> accepted_after (sim_stream_sensors s)
      | QResetOdometry \<Rightarrow> accepted_after (sim_reset_odometry s)
      | QZeroImuOrientation \<Rightarrow> accepted_after (sim_zero_imu_orientation s)
      | QClearImuOrientation \<Rightarrow> accepted_after (sim_clear_imu_orientation s)
      | QSetAudioSilent silent \<Rightarrow> accepted_after (sim_set_audio_silent silent s)
      | _ \<Rightarrow> accepted_after (carry_out id s))"

definition sim_execute :: "cockpit_request \<Rightarrow> sim \<Rightarrow> (sim, cockpit_response) run" where
  "sim_execute r s =
     (if removed_convenience r then (s, Failed (CkRejected 0 ''unsupported''))
      else if \<not> xp_allow_unscoped_bench_mode (sim_policy s) \<and> \<not> xp_scoped_dispatch (sim_policy s) \<and>
              authorization_class_of r \<notin> {AuthReadOnly, AuthEmergency}
      then (s, Failed CkSessionRequired)
      else sim_dispatch r s)"

section \<open>Network names\<close>

definition reserved_network_names :: "string list" where
  "reserved_network_names = [''pete'', ''brainstem'', ''motherbrain'', ''forebrain'', ''gateway'', ''control'']"

definition in_domain :: "string \<Rightarrow> sim \<Rightarrow> string" where
  "in_domain name s = name @ ''.'' @ xn_internal_domain (sim_network s)"

definition sim_now_s :: "sim \<Rightarrow> u64" where
  "sim_now_s s = ucast (sim_now_ms s div 1000)"

definition add_network_lease :: "network_lease \<Rightarrow> sim \<Rightarrow> sim" where
  "add_network_lease lease s =
     on_names (\<lambda>n. n\<lparr>
       xn_dns_records :=
         (case nl_requested_hostname lease of
            None \<Rightarrow> xn_dns_records n
          | Some hostname \<Rightarrow>
              if List.member reserved_network_names hostname then xn_dns_records n
              else (xn_dns_records n)(in_domain hostname s \<mapsto> (nl_leased_ip lease, nl_lease_expiry lease, 0))),
       xn_leases := (xn_leases n)(nl_dhcp_client_identifier lease \<mapsto> lease)\<rparr>) s"

text \<open>\<open>retain\<close> on a map.\<close>

definition retain_map :: "('v \<Rightarrow> bool) \<Rightarrow> ('k \<rightharpoonup> 'v) \<Rightarrow> 'k \<rightharpoonup> 'v" where
  "retain_map P m k = (case m k of None \<Rightarrow> None | Some v \<Rightarrow> if P v then Some v else None)"

definition expire_network_records :: "sim \<Rightarrow> sim" where
  "expire_network_records s =
     on_names (\<lambda>n. n\<lparr>xn_leases := retain_map (\<lambda>l. nl_lease_expiry l > sim_now_s s) (xn_leases n),
       xn_dns_records := retain_map (\<lambda>(_, expiry, _). expiry > sim_now_s s) (xn_dns_records n)\<rparr>) s"

definition resolve_internal_name :: "string \<Rightarrow> sim \<Rightarrow> sim \<times> string option" where
  "resolve_internal_name name s =
     (let s = expire_network_records s;
          canonical = (if name = ''pete'' \<or> name = ''brainstem'' then in_domain ''brainstem'' s
                       else if CHR ''.'' \<notin> set name then in_domain name s else name)
      in (s, if canonical = in_domain ''brainstem'' s then Some ''192.168.4.1''
             else map_option fst (xn_dns_records (sim_network s) canonical)))"

definition sim_register_network_endpoint ::
  "cockpit_session \<Rightarrow> register_network_endpoint \<Rightarrow> sim \<Rightarrow> (sim, cockpit_response) run" where
  "sim_register_network_endpoint session reg s =
     (if cs_local_role session \<noteq> RoleMotherbrain \<or> cs_local_purpose session \<noteq> PurposeControl
        \<or> \<not> (case xs_active_session (sim_sessions s) of
               None \<Rightarrow> False | Some active \<Rightarrow> cs_session_id active = cs_session_id session)
        \<or> ne_hostname reg \<noteq> ''motherbrain''
      then (s, Failed (CkPolicy ''reserved motherbrain registration requires the active motherbrain identity''))
      else
        (let s = expire_network_records s in
         case xn_leases (sim_network s) (ne_lease_identity reg) of
           None \<Rightarrow> (s, Failed (CkPolicy ''network registration does not match an active DHCP lease''))
         | Some lease \<Rightarrow>
             if nl_leased_ip lease \<noteq> ne_address reg
             then (s, Failed (CkPolicy ''registered address does not match the DHCP lease''))
             else
               (let n = sim_network s; fqdn = in_domain ''motherbrain'' s;
                    duplicate = (xn_registration_boot_id n = Some (cs_local_boot_id session) \<and>
                      map_option fst (xn_dns_records n fqdn) = Some (ne_address reg));
                    generation = (if duplicate then xn_registration_generation n
                                  else max (xn_registration_generation n + 1) 1);
                    ttl = max (min (ne_ttl_seconds reg) (ucast (sat_sub (nl_lease_expiry lease) (sim_now_s s)))) 1
                in (on_names (\<lambda>n. n\<lparr>xn_registration_generation := generation,
                      xn_registration_boot_id := Some (cs_local_boot_id session),
                      xn_dns_records := (xn_dns_records n)(fqdn \<mapsto>
                        (ne_address reg, sim_now_s s + ucast ttl, generation))\<rparr>) s,
                    Returned (RsNetworkEndpointRegistered
                      \<lparr>nr_session_id = cs_session_id session, nr_fqdn = fqdn, nr_address = ne_address reg,
                       nr_ttl_seconds = ttl, nr_registration_generation = generation\<rparr>)))))"

section \<open>Sessions and leases\<close>

definition lease_alive :: "sim \<Rightarrow> bool" where
  "lease_alive s \<longleftrightarrow>
     (case xs_control_lease_expires_at_ms (sim_sessions s) of
        None \<Rightarrow> False | Some deadline \<Rightarrow> \<not> time_reached (sim_now_ms s) deadline)"

definition continuing_owner :: "cockpit_session \<Rightarrow> control_authority \<Rightarrow> sim \<Rightarrow> bool" where
  "continuing_owner session authority s \<longleftrightarrow>
     lease_alive s \<and>
     (case xs_control_lease (sim_sessions s) of
        None \<Rightarrow> False
      | Some lease \<Rightarrow> cl_session_id lease = cs_session_id session \<and> cl_authority lease = authority)"

definition install_lease ::
  "sim_world \<Rightarrow> cockpit_session \<Rightarrow> control_authority \<Rightarrow> u32 \<Rightarrow> sim \<Rightarrow> (sim, cockpit_response) run" where
  "install_lease w session authority ttl_ms s =
     (let s = (if continuing_owner session authority s then s
               else (on_motion (\<lambda>m. m\<lparr>xm_heartbeat_stop_at_ms := None\<rparr>) (interrupt_active_motion s))
                      \<lparr>sim_armed := authority = AuthorityMotherbrain\<rparr>);
          generation = max (xs_lease_generation (sim_sessions s) + 1) 1;
          lease = \<lparr>cl_lease_id = ''lease-'' @ show_unsigned generation @ ''-'' @ wo_uuid w generation,
                   cl_session_id = cs_session_id session, cl_owner_role = cs_local_role session,
                   cl_authority = authority, cl_ttl_ms = clamp_word 250 60000 ttl_ms, cl_generation = generation\<rparr>
      in (on_sessions (\<lambda>x. x\<lparr>xs_lease_generation := generation, xs_control_lease := Some lease,
            xs_control_lease_expires_at_ms := Some (sim_now_ms s + cl_ttl_ms lease)\<rparr>) s,
          Returned (RsControlLeaseGranted lease)))"

definition acquire_control_lease ::
  "sim_world \<Rightarrow> cockpit_session \<Rightarrow> control_authority \<Rightarrow> u32 \<Rightarrow> sim \<Rightarrow> (sim, cockpit_response) run" where
  "acquire_control_lease w session authority ttl_ms s =
     (if \<not> role_can_request_control (cs_local_role session) (cs_local_purpose session) authority
      then (s, Failed (CkPolicy ''role is not eligible for requested control authority''))
      else if authority = AuthorityOperatorDebug \<and> \<not> xp_operator_debug_allowed (sim_policy s)
      then (s, Failed (CkPolicy ''operator debug policy is disabled''))
      else if authority = AuthorityForebrainRecovery \<and>
              xp_recovery_forebrain_device_id (sim_policy s) \<noteq> Some (cs_local_device_id session)
      then (s, Failed (CkPolicy ''forebrain is not the configured recovery identity''))
      else if authority = AuthorityForebrainRecovery \<and> lease_alive s
      then (s, Failed (CkPolicy ''current controller lease has not expired''))
      else install_lease w session authority ttl_ms s)"

definition hello_is_primary :: "handshake_hello \<Rightarrow> bool" where
  "hello_is_primary h \<longleftrightarrow> hh_role h = RoleMotherbrain \<and> hh_session_purpose h = PurposeControl"

definition sim_answer :: "sim_world \<Rightarrow> handshake_hello \<Rightarrow> sim \<Rightarrow> handshake_response" where
  "sim_answer w h s =
     (let primary = hello_is_primary h; moving = xm_active_cmd_vel (sim_motion s) \<noteq> None in
      negotiate (wo_session_name w) h (xs_device_id (sim_sessions s)) (xs_boot_id (sim_sessions s))
        (sim_capabilities s)
        \<lparr>ss_armed = (if primary then False else sim_armed s), ss_estop_latched = xt_estop_latched (sim_latches s),
         ss_safety_tripped = xt_safety_tripped (sim_latches s), ss_active_motion = (if primary then False else moving),
         ss_runtime_state = (if moving \<and> \<not> primary then ''moving'' else ''idle'')\<rparr>
        (event_seq s)
        \<lparr>sw_software_name = ''pete-brainstem-sim'', sw_software_version = wo_version w, sw_build_id = ''sim''\<rparr>
        (unat (xs_session_serial (sim_sessions s))))"

text \<open>A primary session replaces the one before it: its motion, arming and lease end.\<close>

definition open_primary :: "cockpit_session \<Rightarrow> sim \<Rightarrow> sim" where
  "open_primary session s =
     (let had_session = xs_active_session (sim_sessions s) \<noteq> None;
          s = on_sessions (\<lambda>x. x\<lparr>xs_sessions := filter (\<lambda>c. cs_local_role c \<noteq> RoleMotherbrain) (xs_sessions x)\<rparr>) s;
          s = on_names (\<lambda>n. n\<lparr>xn_dns_records := (xn_dns_records n)(in_domain ''motherbrain'' s := None),
                xn_registration_boot_id := None\<rparr>) s;
          s = on_sessions (\<lambda>x. x\<lparr>xs_active_session := Some session\<rparr>) (drop_control s)
      in sim_push_event (if had_session then ESessionReplaced else ESessionOpened) 0 0 0 s)"

definition sim_new_handshake :: "sim_world \<Rightarrow> handshake_hello \<Rightarrow> sim \<Rightarrow> (sim, handshake_outcome) run" where
  "sim_new_handshake w h s =
     (let s = on_sessions (\<lambda>x. x\<lparr>xs_session_serial := max (xs_session_serial x + 1) 1\<rparr>) s;
          peer_reboot = (case xs_active_session (sim_sessions s) of
            None \<Rightarrow> False
          | Some c \<Rightarrow> cs_local_device_id c = hh_device_id h \<and> cs_local_boot_id c \<noteq> hh_boot_id h);
          response = sim_answer w h s;
          s = (case response of HsReject _ \<Rightarrow> sim_push_event ESessionRejected 0 0 0 s | _ \<Rightarrow> s)
      in andthen (s, validate_outcome h response) (\<lambda>out s.
           let session = ho_session out;
               s = (if hello_is_primary h then open_primary session s else sim_push_event ESessionOpened 0 0 0 s);
               s = on_sessions (\<lambda>x. x\<lparr>xs_sessions :=
                     filter (\<lambda>c. cs_session_id c \<noteq> cs_session_id session) (xs_sessions x) @ [session]\<rparr>) s;
               s = (if peer_reboot then sim_push_event EPeerRebootDetected 0 0 0 s else s);
               s = on_sessions (\<lambda>x. x\<lparr>xs_last_hello := Some (h, response)\<rparr>) s
           in (s, Returned out)))"

definition sim_handshake :: "sim_world \<Rightarrow> handshake_hello \<Rightarrow> sim \<Rightarrow> (sim, handshake_outcome) run" where
  "sim_handshake w h s =
     (case xs_last_hello (sim_sessions s) of
        Some (cached_hello, cached_response) \<Rightarrow>
          if cached_hello = h then (s, validate_outcome h cached_response) else sim_new_handshake w h s
      | None \<Rightarrow> sim_new_handshake w h s)"

definition extend_lease :: "cockpit_request \<Rightarrow> sim \<Rightarrow> sim" where
  "extend_lease r s =
     (case r of
        QHeartbeatStop timeout_ms \<Rightarrow>
          on_sessions (\<lambda>x. x\<lparr>xs_control_lease_expires_at_ms :=
            Some (sim_now_ms s + clamp_word 250 60000 timeout_ms)\<rparr>) s
      | _ \<Rightarrow> s)"

definition set_scoped :: "bool \<Rightarrow> sim \<Rightarrow> sim" where
  "set_scoped b = on_policy (\<lambda>p. p\<lparr>xp_scoped_dispatch := b\<rparr>)"

definition dispatch_scoped :: "cockpit_request \<Rightarrow> sim \<Rightarrow> (sim, cockpit_response) run" where
  "dispatch_scoped r s = (case sim_execute r (set_scoped True s) of (s, res) \<Rightarrow> (set_scoped False s, res))"

text \<open>A request that is neither a registration nor a request for a lease.\<close>

definition sim_controlled :: "cockpit_session \<Rightarrow> cockpit_request \<Rightarrow> sim \<Rightarrow> (sim, cockpit_response) run" where
  "sim_controlled session r s =
     (if authorization_class_of r = AuthServiceLease
      then (s, Failed (CkPolicy ''request requires a separate service lease''))
      else if requires_control_authority r then
        (case xs_control_lease (sim_sessions s) of
           None \<Rightarrow> (s, Failed (CkPolicy ''request requires the active control lease''))
         | Some lease \<Rightarrow>
             if cl_session_id lease \<noteq> cs_session_id session \<or> \<not> lease_alive s
             then (s, Failed (CkPolicy ''request requires the active control lease''))
             else if requires_operator_debug r \<and> cl_authority lease \<noteq> AuthorityOperatorDebug
             then (s, Failed (CkPolicy ''attended operator-debug authority required''))
             else dispatch_scoped r (extend_lease r s))
      else dispatch_scoped r s)"

definition session_known :: "cockpit_session \<Rightarrow> sim \<Rightarrow> bool" where
  "session_known session s \<longleftrightarrow>
     list_ex (\<lambda>active. cs_session_id active = cs_session_id session) (xs_sessions (sim_sessions s))"

definition sim_in_session ::
  "sim_world \<Rightarrow> cockpit_session \<Rightarrow> cockpit_request \<Rightarrow> sim \<Rightarrow> (sim, cockpit_response) run" where
  "sim_in_session w session r s =
     (if requires_session r \<and> \<not> session_known session s
      then (s, Failed (CkInvalidSession (cs_session_id session)))
      else
        (case r of
           QRegisterNetworkEndpoint reg \<Rightarrow> sim_register_network_endpoint session reg s
         | QAcquireControlLease authority ttl_ms \<Rightarrow> acquire_control_lease w session authority ttl_ms s
         | QAcquireServiceLease _ _ \<Rightarrow> (s, Failed (CkPolicy ''service mode is disabled in this simulator''))
         | _ \<Rightarrow> sim_controlled session r s))"

definition sim_with_lease ::
  "sim_world \<Rightarrow> cockpit_session \<Rightarrow> control_lease \<Rightarrow> cockpit_request \<Rightarrow> sim \<Rightarrow> (sim, cockpit_response) run" where
  "sim_with_lease w session lease r s =
     (case xs_control_lease (sim_sessions s) of
        None \<Rightarrow> (s, Failed (CkPolicy ''unknown or replaced control lease''))
      | Some active \<Rightarrow>
          if cl_lease_id active = cl_lease_id lease \<and> cl_session_id active = cs_session_id session
          then sim_in_session w session r s
          else (s, Failed (CkPolicy ''unknown or replaced control lease'')))"

definition sim_with_service ::
  "cockpit_session \<Rightarrow> service_lease \<Rightarrow> cockpit_request \<Rightarrow> sim \<Rightarrow> (sim, cockpit_response) run" where
  "sim_with_service session lease r s = (s, Failed (CkPolicy ''service mode is disabled in this simulator''))"

section \<open>Construction\<close>

definition sim_sensors :: "string list" where
  "sim_sensors = [''bump'', ''cliff'', ''wheel_drop'', ''wall'', ''virtual_wall'', ''ir'', ''buttons'', ''battery'',
     ''odometry_delta'', ''imu'']"

definition sim_safety :: "string list" where
  "sim_safety = [''estop'', ''heartbeat'', ''bump'', ''cliff'', ''wheel_drop'', ''tilt'', ''impact'',
     ''contact_withdrawal_reflex_v1'']"

definition sim_events :: "string list" where
  "sim_events = [''boot'', ''command_accepted'', ''command_started'', ''command_completed'', ''command_interrupted'',
     ''command_renewed'', ''motion_requested'', ''motion_stopped'', ''safety_tripped'', ''safety_cleared'',
     ''bump_changed'', ''cliff_changed'', ''wheel_drop_latched'', ''wheel_drop_cleared'', ''wall_changed'',
     ''virtual_wall_changed'', ''battery_low'', ''charging_state_changed'', ''buttons_changed'', ''ir_changed'',
     ''heartbeat_expired'', ''estop_latched'', ''estop_cleared'', ''imu_frame_received'', ''imu_fault'',
     ''tilt_changed'', ''imu_calibration_changed'', ''motion_inconsistency_detected'', ''impact_detected'',
     ''contact_withdrawal_started'', ''contact_withdrawal_completed'', ''audio_state_changed'']"

definition sim_default_capabilities :: cockpit_capabilities where
  "sim_default_capabilities =
     \<lparr>ca_body_kind = ''sim_create_oi'', ca_drive = ''differential'', ca_verbs = sample_cockpit_capability_verbs,
      ca_sensors = sim_sensors, ca_outputs = [''drive'', ''lights'', ''song''], ca_safety = sim_safety,
      ca_events = sim_events, ca_independent_watchdog = Some True,
      ca_limits = \<lparr>li_max_linear_mm_s = 500, li_max_angular_mrad_s = 4000, li_min_ttl_ms = 10,
        li_max_ttl_ms = 60000\<rparr>\<rparr>"

definition sim_new :: "string \<Rightarrow> sim" where
  "sim_new boot_id =
     sim_push_event EBoot 0 0 0
       \<lparr>sim_capabilities = sim_default_capabilities, sim_now_ms = 0, sim_next_command_id = 1, sim_armed = False,
        sim_log = \<lparr>xl_events = [], xl_next_event_seq = 1, xl_event_capacity = 32\<rparr>,
        sim_latches = \<lparr>xt_estop_latched = False, xt_safety_tripped = False, xt_safety_latch_kind = None,
          xt_safety_hazard_generation = 0\<rparr>,
        sim_body = \<lparr>xb_bump_left = False, xb_bump_right = False, xb_cliff = False, xb_wheel_drop = False,
          xb_wall = False, xb_virtual_wall = False, xb_buttons = 0, xb_ir_byte = 0, xb_charging_state = 0,
          xb_battery_charge_mah = 2600, xb_battery_capacity_mah = 2600, xb_odometry_distance_mm = 0,
          xb_odometry_heading_mrad = 0, xb_odometry_reset_count = 0, xb_audio_silent = False,
          xb_imu_calibration = 3\<rparr>,
        sim_motion = \<lparr>xm_active_cmd_vel = None, xm_active_contact_withdrawal = None,
          xm_last_contact_withdrawal_at_ms = None, xm_repeated_contact_count = 0, xm_heartbeat_stop_at_ms = None\<rparr>,
        sim_sessions = \<lparr>xs_device_id = ''pete-brainstem-sim'', xs_boot_id = boot_id, xs_active_session = None,
          xs_sessions = [], xs_control_lease = None, xs_control_lease_expires_at_ms = None,
          xs_lease_generation = 0, xs_session_serial = 0, xs_last_hello = None\<rparr>,
        sim_network = \<lparr>xn_leases = Map.empty, xn_dns_records = Map.empty, xn_registration_generation = 0,
          xn_registration_boot_id = None, xn_internal_domain = ''pete.internal''\<rparr>,
        sim_policy = \<lparr>xp_operator_debug_allowed = False, xp_recovery_forebrain_device_id = None,
          xp_allow_unscoped_bench_mode = False, xp_scoped_dispatch = False\<rparr>\<rparr>"

definition with_event_capacity :: "nat \<Rightarrow> sim \<Rightarrow> sim" where
  "with_event_capacity n = on_log (\<lambda>l. enforce_event_capacity (l\<lparr>xl_event_capacity := max n 1\<rparr>))"

definition with_takeover_policy :: "bool \<Rightarrow> string option \<Rightarrow> sim \<Rightarrow> sim" where
  "with_takeover_policy operator_debug_allowed recovery =
     on_policy (\<lambda>p. p\<lparr>xp_operator_debug_allowed := operator_debug_allowed,
       xp_recovery_forebrain_device_id := recovery\<rparr>)"

definition with_identity :: "string \<Rightarrow> string \<Rightarrow> sim \<Rightarrow> sim" where
  "with_identity device_id boot_id = on_sessions (\<lambda>x. x\<lparr>xs_device_id := device_id, xs_boot_id := boot_id\<rparr>)"

definition with_unscoped_bench_mode :: "sim \<Rightarrow> sim" where
  "with_unscoped_bench_mode = on_policy (\<lambda>p. p\<lparr>xp_allow_unscoped_bench_mode := True\<rparr>)"

definition reboot :: "string \<Rightarrow> sim \<Rightarrow> sim" where
  "reboot boot_id s =
     sim_push_event EBoot 0 0 0
       (on_sessions (\<lambda>x. x\<lparr>xs_last_hello := None\<rparr>) (on_body (\<lambda>b. b\<lparr>xb_audio_silent := False\<rparr>)
         (drop_control
           (on_sessions (\<lambda>x. x\<lparr>xs_boot_id := boot_id, xs_active_session := None, xs_sessions := []\<rparr>) s))))"

text \<open>The simulator as a connector. The methods it overrides call the command itself; the others are the
  trait's.\<close>

definition sim_command :: "cockpit_request \<Rightarrow> sim \<Rightarrow> (sim, unit) run" where
  "sim_command r =
     (case r of
        QArm \<Rightarrow> sim_arm
      | QDisarm \<Rightarrow> sim_disarm
      | QStop \<Rightarrow> sim_stop
      | QEStop \<Rightarrow> sim_estop
      | QClearEStop \<Rightarrow> sim_clear_estop
      | QClearSafetyLatch kind \<Rightarrow> sim_clear_safety_latch kind
      | QEscapeMotion hazard generation linear angular ttl_ms \<Rightarrow>
          sim_escape_motion hazard generation linear angular ttl_ms
      | QCmdVel linear angular ttl_ms \<Rightarrow> sim_cmd_vel linear angular ttl_ms
      | QHeartbeatStop timeout_ms \<Rightarrow> sim_heartbeat_stop timeout_ms
      | QStreamSensors _ _ _ \<Rightarrow> sim_stream_sensors
      | QResetOdometry \<Rightarrow> sim_reset_odometry
      | QZeroImuOrientation \<Rightarrow> sim_zero_imu_orientation
      | QClearImuOrientation \<Rightarrow> sim_clear_imu_orientation
      | _ \<Rightarrow> default_command sim_execute r)"

definition sim_connector ::
  "sim_world \<Rightarrow> (sim \<Rightarrow> nat) \<Rightarrow> (string \<Rightarrow> json option) \<Rightarrow> (cockpit_error \<Rightarrow> string) \<Rightarrow> sim connector" where
  "sim_connector w now read_json show_error =
     \<lparr>op_execute = sim_execute, op_handshake = sim_handshake w, op_in_session = sim_in_session w,
      op_with_lease = sim_with_lease w, op_with_service = sim_with_service, op_get_status = sim_get_status,
      op_get_capabilities = sim_get_capabilities, op_get_events = sim_get_events, op_command = sim_command,
      op_event_cursor_hint = (\<lambda>_. None), op_manages_motion_heartbeat = (\<lambda>_. False), op_sleep = (\<lambda>_ s. s),
      op_now = now, op_read_json = read_json, op_show_error = show_error\<rparr>"

end
