(* ===== verification/Sim_Rules.thy ===== *)
theory Sim_Rules
  imports Sim_Cockpit Escape
begin

text \<open>
  What the simulator keeps: its event history stays an unbroken tail, its latched stop excludes motion, motion
  stands under a live lease, and a change of owner ends it. Its verdict on an escape is compared with the
  firmware's.
\<close>

section \<open>What each part leaves alone\<close>

lemma group_selectors [simp]:
  "sim_log (on_log f s) = f (sim_log s)" "sim_log (on_latches g s) = sim_log s"
  "sim_log (on_body h s) = sim_log s" "sim_log (on_motion m s) = sim_log s"
  "sim_log (on_sessions x s) = sim_log s" "sim_log (on_names n s) = sim_log s" "sim_log (on_policy p s) = sim_log s"
  "sim_latches (on_log f s) = sim_latches s" "sim_latches (on_latches g s) = g (sim_latches s)"
  "sim_latches (on_body h s) = sim_latches s" "sim_latches (on_motion m s) = sim_latches s"
  "sim_latches (on_sessions x s) = sim_latches s" "sim_latches (on_names n s) = sim_latches s"
  "sim_latches (on_policy p s) = sim_latches s"
  "sim_motion (on_log f s) = sim_motion s" "sim_motion (on_latches g s) = sim_motion s"
  "sim_motion (on_body h s) = sim_motion s" "sim_motion (on_motion m s) = m (sim_motion s)"
  "sim_motion (on_sessions x s) = sim_motion s" "sim_motion (on_names n s) = sim_motion s"
  "sim_motion (on_policy p s) = sim_motion s"
  "sim_sessions (on_log f s) = sim_sessions s" "sim_sessions (on_latches g s) = sim_sessions s"
  "sim_sessions (on_body h s) = sim_sessions s" "sim_sessions (on_motion m s) = sim_sessions s"
  "sim_sessions (on_sessions x s) = x (sim_sessions s)" "sim_sessions (on_names n s) = sim_sessions s"
  "sim_sessions (on_policy p s) = sim_sessions s"
  "sim_policy (on_log f s) = sim_policy s" "sim_policy (on_latches g s) = sim_policy s"
  "sim_policy (on_body h s) = sim_policy s" "sim_policy (on_motion m s) = sim_policy s"
  "sim_policy (on_sessions x s) = sim_policy s" "sim_policy (on_names n s) = sim_policy s"
  "sim_policy (on_policy p s) = p (sim_policy s)"
  "sim_now_ms (on_log f s) = sim_now_ms s" "sim_now_ms (on_latches g s) = sim_now_ms s"
  "sim_now_ms (on_body h s) = sim_now_ms s" "sim_now_ms (on_motion m s) = sim_now_ms s"
  "sim_now_ms (on_sessions x s) = sim_now_ms s" "sim_now_ms (on_names n s) = sim_now_ms s"
  "sim_now_ms (on_policy p s) = sim_now_ms s"
  "sim_armed (on_log f s) = sim_armed s" "sim_armed (on_latches g s) = sim_armed s"
  "sim_armed (on_body h s) = sim_armed s" "sim_armed (on_motion m s) = sim_armed s"
  "sim_armed (on_sessions x s) = sim_armed s" "sim_armed (on_names n s) = sim_armed s"
  "sim_armed (on_policy p s) = sim_armed s"
  "sim_body (on_log f s) = sim_body s" "sim_body (on_latches g s) = sim_body s"
  "sim_body (on_body h s) = h (sim_body s)" "sim_body (on_motion m s) = sim_body s"
  "sim_body (on_sessions x s) = sim_body s" "sim_body (on_names n s) = sim_body s" "sim_body (on_policy p s) = sim_body s"
  by (simp_all add: sim_groups)

lemma sim_push_event_selectors [simp]:
  "sim_latches (sim_push_event k a b c s) = sim_latches s" "sim_motion (sim_push_event k a b c s) = sim_motion s"
  "sim_sessions (sim_push_event k a b c s) = sim_sessions s" "sim_policy (sim_push_event k a b c s) = sim_policy s"
  "sim_now_ms (sim_push_event k a b c s) = sim_now_ms s" "sim_armed (sim_push_event k a b c s) = sim_armed s"
  "sim_body (sim_push_event k a b c s) = sim_body s"
  "sim_log (sim_push_event k a b c s) = log_event k a b c (sim_log s)"
  by (simp_all add: sim_push_event_def)

section \<open>The invariant\<close>

text \<open>The history is the unbroken tail before the next sequence number.\<close>

definition next_seq_after :: "cockpit_event \<Rightarrow> u32" where
  "next_seq_after e = max (ce_seq e + 1) 1"

definition sim_log_ok :: "sim_log \<Rightarrow> bool" where
  "sim_log_ok l \<longleftrightarrow>
     1 \<le> xl_event_capacity l \<and> length (xl_events l) \<le> xl_event_capacity l \<and>
     successively (\<lambda>a b. ce_seq b = next_seq_after a) (xl_events l) \<and>
     (xl_events l \<noteq> [] \<longrightarrow> xl_next_event_seq l = next_seq_after (last (xl_events l)))"

text \<open>A latched stop excludes motion; a lease has a deadline ahead; motion outside the bench mode has a lease.\<close>

definition control_ok ::
  "bool \<Rightarrow> timed_action option \<Rightarrow> sim_withdrawal option \<Rightarrow> control_lease option \<Rightarrow> u32 option \<Rightarrow> u32 \<Rightarrow> bool \<Rightarrow> bool" where
  "control_ok estop moving withdrawing lease expires now bench \<longleftrightarrow>
     (estop \<longrightarrow> moving = None \<and> withdrawing = None) \<and>
     (lease = None \<longleftrightarrow> expires = None) \<and>
     (\<forall>d. expires = Some d \<longrightarrow> \<not> time_reached now d) \<and>
     (moving \<noteq> None \<longrightarrow> bench \<or> lease \<noteq> None)"

definition sim_ok :: "sim \<Rightarrow> bool" where
  "sim_ok s \<longleftrightarrow>
     sim_log_ok (sim_log s) \<and>
     control_ok (xt_estop_latched (sim_latches s)) (xm_active_cmd_vel (sim_motion s))
       (xm_active_contact_withdrawal (sim_motion s)) (xs_control_lease (sim_sessions s))
       (xs_control_lease_expires_at_ms (sim_sessions s)) (sim_now_ms s)
       (xp_allow_unscoped_bench_mode (sim_policy s))"

text \<open>Less motion, a lighter latch keep it.\<close>

lemma control_ok_less [simp, intro]:
  assumes "control_ok e m w l x t b"
  shows "control_ok e None w l x t b" "control_ok e m None l x t b" "control_ok False m w l x t b"
    "control_ok e' None None l x t b" "control_ok e m w l x t True"
  using assms by (auto simp: control_ok_def)

lemma control_ok_without_lease [simp]:
  "control_ok e None w None None t b \<longleftrightarrow> (e \<longrightarrow> w = None)"
  by (auto simp: control_ok_def)

lemma successively_drop: "successively P xs \<Longrightarrow> successively P (drop n xs)"
  by (metis append_take_drop_id successively_append_iff)

lemma log_event_ok [simp]:
  assumes "sim_log_ok l"
  shows "sim_log_ok (log_event k a b c l)"
proof -
  let ?e = "\<lparr>ce_seq = xl_next_event_seq l, ce_kind = k, ce_a = a, ce_b = b, ce_c = c\<rparr>"
  let ?xs = "xl_events l @ [?e]"
  have "successively (\<lambda>a b. ce_seq b = next_seq_after a) ?xs"
    using assms by (auto simp: sim_log_ok_def successively_append_iff)
  then have s: "successively (\<lambda>a b. ce_seq b = next_seq_after a) (drop (length ?xs - xl_event_capacity l) ?xs)"
    by (rule successively_drop)
  have n: "length ?xs - xl_event_capacity l < length ?xs"
    using assms by (simp add: sim_log_ok_def)
  then have "last (drop (length ?xs - xl_event_capacity l) ?xs) = ?e" by (simp add: last_drop)
  with s n assms show ?thesis
    by (auto simp: sim_log_ok_def log_event_def enforce_event_capacity_def next_seq_after_def)
qed

lemma sim_push_event_ok [simp]: "sim_ok s \<Longrightarrow> sim_ok (sim_push_event k a b c s)"
  by (simp add: sim_ok_def)

lemma trip_event_ok [simp]: "sim_ok s \<Longrightarrow> sim_ok (trip_event code s)"
  by (simp add: sim_ok_def trip_event_def)

lemma latch_ok [simp]: "sim_ok s \<Longrightarrow> sim_ok (latch k s)"
  by (simp add: sim_ok_def latch_def)

lemma quiet_groups_ok [simp]:
  assumes "sim_ok s"
  shows "sim_ok (on_body f s)" "sim_ok (on_names g s)"
    "sim_ok (s\<lparr>sim_next_command_id := i\<rparr>)" "sim_ok (s\<lparr>sim_armed := b\<rparr>)"
    "sim_ok (on_motion (\<lambda>m. m\<lparr>xm_heartbeat_stop_at_ms := h\<rparr>) s)"
    "sim_ok (on_motion (\<lambda>m. m\<lparr>xm_active_cmd_vel := None\<rparr>) s)"
    "sim_ok (on_motion (\<lambda>m. m\<lparr>xm_active_contact_withdrawal := None\<rparr>) s)"
    "sim_ok (on_latches (\<lambda>l. l\<lparr>xt_safety_tripped := t\<rparr>) s)"
    "sim_ok (on_latches (\<lambda>l. l\<lparr>xt_safety_tripped := t, xt_safety_latch_kind := k,
       xt_safety_hazard_generation := n\<rparr>) s)"
    "sim_ok (on_latches (\<lambda>l. l\<lparr>xt_estop_latched := False, xt_safety_tripped := t, xt_safety_latch_kind := k,
       xt_safety_hazard_generation := n\<rparr>) s)"
  using assms by (auto simp: sim_ok_def sim_groups)

lemma interrupt_ok [simp]: "sim_ok s \<Longrightarrow> sim_ok (interrupt_active_motion s)"
  by (simp add: interrupt_active_motion_def split: option.split)

lemma interrupt_selectors [simp]:
  "xm_active_cmd_vel (sim_motion (interrupt_active_motion s)) = None"
  "xm_active_contact_withdrawal (sim_motion (interrupt_active_motion s)) = xm_active_contact_withdrawal (sim_motion s)"
  "sim_sessions (interrupt_active_motion s) = sim_sessions s" "sim_policy (interrupt_active_motion s) = sim_policy s"
  "sim_latches (interrupt_active_motion s) = sim_latches s" "sim_now_ms (interrupt_active_motion s) = sim_now_ms s"
  "sim_body (interrupt_active_motion s) = sim_body s" "sim_armed (interrupt_active_motion s) = sim_armed s"
  by (simp_all add: interrupt_active_motion_def split: option.split)

lemma withdrawal_completed_ok [simp]: "sim_ok s \<Longrightarrow> sim_ok (withdrawal_completed o' a s)"
  by (simp add: withdrawal_completed_def)

lemma preempt_ok [simp]: "sim_ok s \<Longrightarrow> sim_ok (preempt_contact_withdrawal c s)"
  by (simp add: preempt_contact_withdrawal_def split: option.split)

lemma preempt_selectors [simp]:
  "xm_active_contact_withdrawal (sim_motion (preempt_contact_withdrawal c s)) = None"
  "xm_active_cmd_vel (sim_motion (preempt_contact_withdrawal c s)) = xm_active_cmd_vel (sim_motion s)"
  "sim_sessions (preempt_contact_withdrawal c s) = sim_sessions s"
  "sim_policy (preempt_contact_withdrawal c s) = sim_policy s"
  "sim_latches (preempt_contact_withdrawal c s) = sim_latches s"
  "sim_now_ms (preempt_contact_withdrawal c s) = sim_now_ms s"
  by (simp_all add: preempt_contact_withdrawal_def withdrawal_completed_def split: option.split)

lemma complete_command_ok [simp]: "sim_ok s \<Longrightarrow> sim_ok (complete_command i s)"
  by (simp add: complete_command_def)

lemma sim_accept_command_ok: "sim_accept_command s = (s', i) \<Longrightarrow> sim_ok s \<Longrightarrow> sim_ok s'"
  by (auto simp: sim_accept_command_def Let_def)

lemma sim_accept_command_selectors:
  assumes "sim_accept_command s = (s', i)"
  shows "sim_motion s' = sim_motion s" "sim_sessions s' = sim_sessions s" "sim_policy s' = sim_policy s"
    "sim_latches s' = sim_latches s" "sim_now_ms s' = sim_now_ms s" "sim_body s' = sim_body s"
  using assms by (auto simp: sim_accept_command_def Let_def)

lemma catch_up_ok [simp]: "sim_ok s \<Longrightarrow> sim_ok (catch_up s)"
proof -
  have "sim_ok (complete_due_cmd_vel s)" if "sim_ok s" for s
    using that by (simp add: complete_due_cmd_vel_def split: option.split)
  moreover have "sim_ok (complete_due_contact_withdrawal s)" if "sim_ok s" for s
    using that by (simp add: complete_due_contact_withdrawal_def split: option.split)
  moreover have "sim_ok (expire_heartbeat_if_due s)" if "sim_ok s" for s
    using that by (simp add: expire_heartbeat_if_due_def split: option.split)
  ultimately show "sim_ok s \<Longrightarrow> sim_ok (catch_up s)" by (simp add: catch_up_def)
qed

lemma drop_control_ok [simp]:
  "sim_log_ok (sim_log s) \<Longrightarrow> (xt_estop_latched (sim_latches s) \<longrightarrow>
     xm_active_contact_withdrawal (sim_motion s) = None) \<Longrightarrow> sim_ok (drop_control s)"
  by (simp add: drop_control_def sim_ok_def sim_groups interrupt_active_motion_def sim_push_event_def
      split: option.split)

lemma sim_ok_parts:
  assumes "sim_ok s"
  shows "sim_log_ok (sim_log s)"
    "xt_estop_latched (sim_latches s) \<Longrightarrow> xm_active_cmd_vel (sim_motion s) = None"
    "xt_estop_latched (sim_latches s) \<Longrightarrow> xm_active_contact_withdrawal (sim_motion s) = None"
    "xm_active_cmd_vel (sim_motion s) \<noteq> None \<Longrightarrow> xp_allow_unscoped_bench_mode (sim_policy s) \<or>
       xs_control_lease (sim_sessions s) \<noteq> None"
  using assms by (auto simp: sim_ok_def control_ok_def)

definition later :: "u32 \<Rightarrow> sim \<Rightarrow> sim" where
  "later ms s = s\<lparr>sim_now_ms := sim_now_ms s + ms\<rparr>"

lemma later_ok:
  assumes "sim_ok s"
  shows "sim_ok (case xs_control_lease_expires_at_ms (sim_sessions (later ms s)) of
      None \<Rightarrow> later ms s
    | Some deadline \<Rightarrow> if time_reached (sim_now_ms (later ms s)) deadline then drop_control (later ms s) else later ms s)"
proof (cases "xs_control_lease_expires_at_ms (sim_sessions s)")
  case None
  with assms show ?thesis by (auto simp: sim_ok_def later_def control_ok_def)
next
  case (Some d)
  show ?thesis
  proof (cases "time_reached (sim_now_ms s + ms) d")
    case True
    have "sim_ok (drop_control (later ms s))"
      using assms by (intro drop_control_ok) (simp_all add: later_def sim_ok_parts)
    with True Some show ?thesis by (simp add: later_def)
  next
    case False
    with Some assms show ?thesis by (simp add: sim_ok_def control_ok_def later_def)
  qed
qed

lemma advance_ok [simp]: "sim_ok s \<Longrightarrow> sim_ok (advance_ms n s)"
  using later_ok [of s n] by (simp add: advance_ms_def Let_def later_def [symmetric])

section \<open>Sensors keep it\<close>

lemma latch_selectors [simp]:
  "sim_motion (latch k s) = sim_motion s" "sim_sessions (latch k s) = sim_sessions s"
  "sim_policy (latch k s) = sim_policy s" "sim_body (latch k s) = sim_body s" "sim_now_ms (latch k s) = sim_now_ms s"
  "xt_estop_latched (sim_latches (latch k s)) = xt_estop_latched (sim_latches s)"
  by (simp_all add: latch_def)

lemma trip_selectors [simp]:
  "sim_motion (trip_event k s) = sim_motion s" "sim_sessions (trip_event k s) = sim_sessions s"
  "sim_policy (trip_event k s) = sim_policy s" "sim_body (trip_event k s) = sim_body s"
  "sim_now_ms (trip_event k s) = sim_now_ms s"
  "xt_estop_latched (sim_latches (trip_event k s)) = xt_estop_latched (sim_latches s)"
  by (simp_all add: trip_event_def)

lemma start_withdrawal_ok [simp]:
  "sim_ok s \<Longrightarrow> \<not> xt_estop_latched (sim_latches s) \<Longrightarrow> sim_ok (start_withdrawal left right i s)"
  by (auto simp: start_withdrawal_def Let_def sim_ok_def control_ok_def)

lemma fresh_contact_ok [simp]:
  assumes "sim_ok s"
  shows "sim_ok (fresh_contact left right s)"
proof (cases "xm_active_cmd_vel (sim_motion s)")
  case None
  with assms show ?thesis by (simp add: fresh_contact_def)
next
  case (Some m)
  with sim_ok_parts(2) [OF assms] have "\<not> xt_estop_latched (sim_latches s)" by auto
  with assms Some show ?thesis by (simp add: fresh_contact_def Let_def)
qed

lemma sensors_ok [simp]:
  assumes "sim_ok s"
  shows "sim_ok (trip_safety s)" "sim_ok (set_bump left right s)" "sim_ok (set_cliff b s)" "sim_ok (set_wheel_drop b s)"
    "sim_ok (set_wall b s)" "sim_ok (set_virtual_wall b s)" "sim_ok (set_battery m n s)"
    "sim_ok (set_charging_state c s)" "sim_ok (set_buttons c s)" "sim_ok (set_ir_byte c s)"
  using assms
  by (simp_all add: trip_safety_def set_bump_def set_cliff_def set_wheel_drop_def set_wall_def set_virtual_wall_def
      set_battery_def set_charging_state_def set_buttons_def set_ir_byte_def Let_def split: option.split)

section \<open>Commands keep it\<close>

lemma carry_out_ok:
  assumes "\<And>s. sim_ok s \<Longrightarrow> sim_ok (f s)" "sim_ok s"
  shows "sim_ok (fst (carry_out f s))"
  using assms by (auto simp: carry_out_def sim_accept_command_ok split: prod.split)

lemma scoped_ok: "(\<And>s. sim_ok s \<Longrightarrow> sim_ok (fst (f s))) \<Longrightarrow> sim_ok s \<Longrightarrow> sim_ok (fst (scoped f s))"
  by (simp add: scoped_def require_scoped_dispatch_def andthen_def)

lemma estop_latches_ok [simp]:
  "sim_ok s \<Longrightarrow> xm_active_cmd_vel (sim_motion s) = None \<Longrightarrow> xm_active_contact_withdrawal (sim_motion s) = None \<Longrightarrow>
    sim_ok (on_latches (\<lambda>l. l\<lparr>xt_estop_latched := e, xt_safety_tripped := t, xt_safety_latch_kind := k\<rparr>) s)"
  by (simp add: sim_ok_def control_ok_def)

lemma framed_commands_ok [simp]:
  assumes "sim_ok s"
  shows "sim_ok (fst (sim_arm s))" "sim_ok (fst (sim_disarm s))" "sim_ok (fst (sim_stop s))" "sim_ok (fst (sim_estop s))"
    "sim_ok (fst (sim_clear_estop s))" "sim_ok (fst (sim_clear_safety_latch k s))"
    "sim_ok (fst (sim_heartbeat_stop n s))" "sim_ok (fst (sim_stream_sensors s))" "sim_ok (fst (sim_reset_odometry s))"
    "sim_ok (fst (sim_zero_imu_orientation s))" "sim_ok (fst (sim_clear_imu_orientation s))"
    "sim_ok (fst (sim_set_audio_silent b s))" "sim_ok (fst (carry_out id s))"
  unfolding sim_arm_def sim_disarm_def sim_stop_def sim_estop_def sim_clear_estop_def sim_clear_safety_latch_def
    sim_heartbeat_stop_def sim_stream_sensors_def sim_reset_odometry_def sim_zero_imu_orientation_def
    sim_clear_imu_orientation_def sim_set_audio_silent_def
  using assms by (auto intro!: scoped_ok carry_out_ok simp: Let_def)

text \<open>What may start motion: the command's gate, and the lease behind it.\<close>

definition motion_allowed :: "sim \<Rightarrow> bool" where
  "motion_allowed s \<longleftrightarrow>
     (xp_scoped_dispatch (sim_policy s) \<longrightarrow>
        xp_allow_unscoped_bench_mode (sim_policy s) \<or> xs_control_lease (sim_sessions s) \<noteq> None)"

lemma start_motion_ok:
  assumes "sim_ok s" "\<not> xt_estop_latched (sim_latches s)"
    "xp_allow_unscoped_bench_mode (sim_policy s) \<or> xs_control_lease (sim_sessions s) \<noteq> None"
  shows "sim_ok (start_motion i lasts linear angular ttl s)"
proof -
  have "sim_ok (interrupt_active_motion s)" by (simp add: assms)
  with assms(2,3) show ?thesis by (auto simp: start_motion_def sim_ok_def control_ok_def)
qed

lemma moving_commands_ok:
  assumes "sim_ok s" "motion_allowed s"
  shows "sim_ok (fst (sim_cmd_vel linear angular ttl s))"
    "sim_ok (fst (sim_escape_motion hazard generation linear angular ttl s))"
proof -
  obtain s' i where a: "sim_accept_command s = (s', i)" by fastforce
  note ok = sim_accept_command_ok [OF a assms(1)] and same = sim_accept_command_selectors [OF a]
  show "sim_ok (fst (sim_cmd_vel linear angular ttl s))"
    using assms ok same
    by (auto simp: sim_cmd_vel_def andthen_def scoped_def require_scoped_dispatch_def a motion_allowed_def intro!: start_motion_ok)
  have safe: "escape_verdict hazard generation linear angular ttl s' = None \<Longrightarrow> \<not> xt_estop_latched (sim_latches s')"
    by (auto simp: escape_verdict_def Let_def split: if_splits)
  show "sim_ok (fst (sim_escape_motion hazard generation linear angular ttl s))"
    using assms ok same safe
    by (auto simp: sim_escape_motion_def andthen_def scoped_def require_scoped_dispatch_def a motion_allowed_def
        intro!: start_motion_ok split: option.split)
qed

section \<open>Dispatch, sessions and leases keep it\<close>

lemma fst_andthen_ok:
  assumes "sim_ok (fst r)" "\<And>v s. sim_ok s \<Longrightarrow> sim_ok (fst (f v s))"
  shows "sim_ok (fst (andthen r f))"
  using assms by (auto simp: andthen_def split: prod.split call.split)

lemma accepted_after_ok [simp]: "sim_ok (fst (accepted_after r)) \<longleftrightarrow> sim_ok (fst r)"
  by (auto simp: accepted_after_def andthen_def split: prod.split call.split)

lemma queries_ok [simp]:
  assumes "sim_ok s"
  shows "sim_ok (fst (sim_get_status s))" "sim_ok (fst (sim_get_capabilities s))" "sim_ok (fst (sim_get_events n s))"
  using assms by (simp_all add: sim_get_status_def sim_get_capabilities_def sim_get_events_def Let_def)

definition starts_motion :: "cockpit_request \<Rightarrow> bool" where
  "starts_motion r = (case r of QCmdVel _ _ _ \<Rightarrow> True | QEscapeMotion _ _ _ _ _ \<Rightarrow> True | _ \<Rightarrow> False)"

lemma sim_dispatch_ok:
  assumes "sim_ok s" "starts_motion r \<Longrightarrow> motion_allowed s"
  shows "sim_ok (fst (sim_dispatch r s))"
  using assms
  by (cases r) (simp_all add: sim_dispatch_def starts_motion_def moving_commands_ok fst_andthen_ok)

lemma sim_execute_ok:
  assumes "sim_ok s" "starts_motion r \<Longrightarrow> motion_allowed s"
  shows "sim_ok (fst (sim_execute r s))"
  using assms by (simp add: sim_execute_def sim_dispatch_ok)

lemma set_scoped_ok [simp]: "sim_ok (set_scoped b s) \<longleftrightarrow> sim_ok s"
  by (simp add: set_scoped_def sim_ok_def)

lemma set_scoped_selectors [simp]:
  "sim_sessions (set_scoped b s) = sim_sessions s" "xp_scoped_dispatch (sim_policy (set_scoped b s)) = b"
  "xp_allow_unscoped_bench_mode (sim_policy (set_scoped b s)) = xp_allow_unscoped_bench_mode (sim_policy s)"
  by (simp_all add: set_scoped_def)

lemma dispatch_scoped_ok:
  assumes "sim_ok s" "starts_motion r \<Longrightarrow> xs_control_lease (sim_sessions s) \<noteq> None"
  shows "sim_ok (fst (dispatch_scoped r s))"
  using sim_execute_ok [of "set_scoped True s" r] assms
  by (simp add: dispatch_scoped_def motion_allowed_def split_beta)

text \<open>A deadline a lease's length ahead is ahead.\<close>

lemma deadline_ahead: "\<not> time_reached now (now + clamp_word 250 60000 t)"
proof -
  have "250 \<le> clamp_word 250 60000 t" "clamp_word 250 60000 t \<le> 60000"
    using clamp_word_bounds [of 250 60000 t] by simp_all
  then have "clamp_word 250 60000 t \<noteq> 0" "\<not> 2147483650 \<le> clamp_word 250 60000 t"
    by (auto simp: word_le_nat_alt)
  then show ?thesis by (simp add: time_reached_after_self_iff)
qed

text \<open>The owner of the lease that stands after an answer: a lease changes hands with the motion ended.\<close>

lemma install_lease_ok [simp]:
  assumes "sim_ok s"
  shows "sim_ok (fst (install_lease w session authority ttl s))"
proof -
  let ?t = "if continuing_owner session authority s then s
    else (on_motion (\<lambda>m. m\<lparr>xm_heartbeat_stop_at_ms := None\<rparr>) (interrupt_active_motion s))
      \<lparr>sim_armed := authority = AuthorityMotherbrain\<rparr>"
  have "sim_ok ?t" using assms by simp
  then have "sim_ok (on_sessions (\<lambda>x. x\<lparr>xs_lease_generation := g, xs_control_lease := Some l,
      xs_control_lease_expires_at_ms := Some (sim_now_ms ?t + clamp_word 250 60000 ttl)\<rparr>) ?t)" for g l
    by (auto simp: sim_ok_def control_ok_def deadline_ahead)
  then show ?thesis by (simp add: install_lease_def Let_def)
qed

lemma acquire_control_lease_ok [simp]: "sim_ok s \<Longrightarrow> sim_ok (fst (acquire_control_lease w c a ttl s))"
  by (simp add: acquire_control_lease_def)

lemma sim_register_network_endpoint_ok [simp]: "sim_ok s \<Longrightarrow> sim_ok (fst (sim_register_network_endpoint c reg s))"
  by (simp add: sim_register_network_endpoint_def expire_network_records_def Let_def split: option.split)

lemma extend_lease_ok [simp]:
  "sim_ok s \<Longrightarrow> xs_control_lease (sim_sessions s) \<noteq> None \<Longrightarrow> sim_ok (extend_lease r s)"
  by (cases r) (auto simp: extend_lease_def sim_ok_def control_ok_def deadline_ahead)

lemma extend_lease_keeps [simp]: "xs_control_lease (sim_sessions (extend_lease r s)) = xs_control_lease (sim_sessions s)"
  by (cases r) (simp_all add: extend_lease_def)

lemma starts_motion_needs_control: "starts_motion r \<Longrightarrow> requires_control_authority r"
  by (cases r) (simp_all add: starts_motion_def requires_control_authority_def authorization_class_of_def)

lemma sim_controlled_ok [simp]:
  assumes "sim_ok s"
  shows "sim_ok (fst (sim_controlled c r s))"
proof (cases "requires_control_authority r")
  case True
  with assms show ?thesis by (auto simp: sim_controlled_def dispatch_scoped_ok split: option.split)
next
  case False
  then have "sim_ok (fst (dispatch_scoped r s))"
    using assms starts_motion_needs_control by (intro dispatch_scoped_ok) blast+
  with False assms show ?thesis by (simp add: sim_controlled_def)
qed

lemma sim_in_session_ok [simp]: "sim_ok s \<Longrightarrow> sim_ok (fst (sim_in_session w c r s))"
  by (cases r) (simp_all add: sim_in_session_def)

lemma sim_with_lease_ok [simp]: "sim_ok s \<Longrightarrow> sim_ok (fst (sim_with_lease w c l r s))"
  by (simp add: sim_with_lease_def split: option.split)

lemma sessions_only_ok:
  assumes "sim_ok s" "\<And>x. xs_control_lease (f x) = xs_control_lease x"
    "\<And>x. xs_control_lease_expires_at_ms (f x) = xs_control_lease_expires_at_ms x"
  shows "sim_ok (on_sessions f s)"
  using assms by (simp add: sim_ok_def)

lemma open_primary_ok [simp]: "sim_ok s \<Longrightarrow> sim_ok (open_primary c s)"
  unfolding open_primary_def Let_def
  by (intro sim_push_event_ok sessions_only_ok drop_control_ok) (auto simp: sim_ok_parts)

lemma last_hello_ok [simp]: "sim_ok s \<Longrightarrow> sim_ok (on_sessions (\<lambda>x. x\<lparr>xs_last_hello := h\<rparr>) s)"
  "sim_ok s \<Longrightarrow> sim_ok (on_sessions (\<lambda>x. x\<lparr>xs_session_serial := f x\<rparr>) s)"
  "sim_ok s \<Longrightarrow> sim_ok (on_sessions (\<lambda>x. x\<lparr>xs_sessions := g x\<rparr>) s)"
  by (simp_all add: sessions_only_ok)

lemma sim_handshake_ok [simp]:
  assumes "sim_ok s"
  shows "sim_ok (fst (sim_handshake w h s))"
proof -
  have "sim_ok (fst (sim_new_handshake w h s))"
    unfolding sim_new_handshake_def Let_def
    using assms by (intro fst_andthen_ok) (auto split: handshake_response.split)
  with assms show ?thesis by (simp add: sim_handshake_def split: option.split)
qed

lemma construction_ok [simp]:
  "sim_ok (sim_new boot)"
  "sim_ok s \<Longrightarrow> sim_ok (reboot boot s)"
  "sim_ok s \<Longrightarrow> sim_ok (with_takeover_policy b r s)" "sim_ok s \<Longrightarrow> sim_ok (with_identity d i s)"
  "sim_ok s \<Longrightarrow> sim_ok (with_unscoped_bench_mode s)" "sim_ok s \<Longrightarrow> sim_ok (add_network_lease l s)"
  "sim_ok s \<Longrightarrow> sim_ok (fst (resolve_internal_name n s))"
  subgoal by (simp add: sim_new_def sim_ok_def sim_log_ok_def control_ok_def log_event_def
        enforce_event_capacity_def next_seq_after_def sim_push_event_def on_log_def)
  subgoal by (simp add: reboot_def sim_ok_parts)
  subgoal by (simp add: with_takeover_policy_def sim_ok_def)
  subgoal by (simp add: with_identity_def sessions_only_ok)
  subgoal by (auto simp: with_unscoped_bench_mode_def sim_ok_def)
  subgoal by (simp add: add_network_lease_def)
  subgoal by (simp add: resolve_internal_name_def expire_network_records_def Let_def)
  done

lemma with_event_capacity_ok [simp]:
  assumes "sim_ok s"
  shows "sim_ok (with_event_capacity n s)"
proof -
  let ?l = "sim_log s" and ?m = "max n 1"
  let ?d = "length (xl_events ?l) - ?m"
  have ok: "sim_log_ok ?l" using assms by (rule sim_ok_parts)
  have "last (drop ?d (xl_events ?l)) = last (xl_events ?l)" if "xl_events ?l \<noteq> []"
    using that by (subst last_drop) auto
  with ok have "sim_log_ok (enforce_event_capacity (?l\<lparr>xl_event_capacity := ?m\<rparr>))"
    by (auto simp: sim_log_ok_def enforce_event_capacity_def successively_drop)
  with assms show ?thesis by (simp add: with_event_capacity_def sim_ok_def)
qed

text \<open>The scope of a dispatch is closed outside it.\<close>

lemma policy_kept [simp]:
  "sim_policy (drop_control s) = sim_policy s" "sim_policy (catch_up s) = sim_policy s"
  "sim_policy (complete_command i s) = sim_policy s"
  "sim_policy (withdrawal_completed o' a s) = sim_policy s"
  "sim_policy (s\<lparr>sim_armed := b\<rparr>) = sim_policy s"
  by (simp_all add: drop_control_def catch_up_def complete_command_def withdrawal_completed_def
      expire_heartbeat_if_due_def complete_due_contact_withdrawal_def complete_due_cmd_vel_def split: option.split)

lemma sim_policy_fst_carry_out: "(\<And>s. sim_policy (f s) = sim_policy s) \<Longrightarrow> sim_policy (fst (carry_out f s)) = sim_policy s"
  by (auto simp: carry_out_def sim_accept_command_def Let_def)

lemma sim_policy_fst_scoped: "(\<And>s. sim_policy (fst (f s)) = sim_policy s) \<Longrightarrow> sim_policy (fst (scoped f s)) = sim_policy s"
  by (simp add: scoped_def andthen_def require_scoped_dispatch_def)

lemma commands_keep_policy [simp]:
  "sim_policy (fst (sim_arm s)) = sim_policy s" "sim_policy (fst (sim_disarm s)) = sim_policy s"
  "sim_policy (fst (sim_stop s)) = sim_policy s" "sim_policy (fst (sim_estop s)) = sim_policy s"
  "sim_policy (fst (sim_clear_estop s)) = sim_policy s" "sim_policy (fst (sim_clear_safety_latch k s)) = sim_policy s"
  "sim_policy (fst (sim_heartbeat_stop n s)) = sim_policy s" "sim_policy (fst (sim_stream_sensors s)) = sim_policy s"
  "sim_policy (fst (sim_reset_odometry s)) = sim_policy s"
  "sim_policy (fst (sim_zero_imu_orientation s)) = sim_policy s"
  "sim_policy (fst (sim_clear_imu_orientation s)) = sim_policy s"
  "sim_policy (fst (sim_set_audio_silent b s)) = sim_policy s" "sim_policy (fst (carry_out id s)) = sim_policy s"
  "sim_policy (fst (sim_cmd_vel l a ttl s)) = sim_policy s"
  "sim_policy (fst (sim_escape_motion h g l a ttl s)) = sim_policy s"
  unfolding sim_arm_def sim_disarm_def sim_stop_def sim_estop_def sim_clear_estop_def sim_clear_safety_latch_def
    sim_heartbeat_stop_def sim_stream_sensors_def sim_reset_odometry_def sim_zero_imu_orientation_def
    sim_clear_imu_orientation_def sim_set_audio_silent_def sim_cmd_vel_def sim_escape_motion_def
  by (auto intro!: sim_policy_fst_carry_out sim_policy_fst_scoped simp: Let_def sim_accept_command_def start_motion_def
      split: option.split)

lemma policy_after_andthen:
  assumes "sim_policy (fst r) = p" "\<And>v s. sim_policy (fst (f v s)) = sim_policy s"
  shows "sim_policy (fst (andthen r f)) = p"
  using assms by (auto simp: andthen_def split: prod.split call.split)

lemma accepted_after_policy [simp]: "sim_policy (fst (accepted_after r)) = sim_policy (fst r)"
  by (auto simp: accepted_after_def andthen_def split: prod.split call.split)

lemma queries_keep_policy [simp]:
  "sim_policy (fst (sim_get_status s)) = sim_policy s" "sim_policy (fst (sim_get_capabilities s)) = sim_policy s"
  "sim_policy (fst (sim_get_events n s)) = sim_policy s"
  by (simp_all add: sim_get_status_def sim_get_capabilities_def sim_get_events_def Let_def)

lemma sim_execute_policy [simp]: "sim_policy (fst (sim_execute r s)) = sim_policy s"
proof -
  have "sim_policy (fst (sim_dispatch r s)) = sim_policy s"
    by (cases r) (simp_all add: sim_dispatch_def policy_after_andthen)
  then show ?thesis by (simp add: sim_execute_def)
qed

definition unscoped :: "sim \<Rightarrow> bool" where
  "unscoped s \<longleftrightarrow> \<not> xp_scoped_dispatch (sim_policy s)"

lemma dispatch_scoped_unscoped [simp]: "unscoped (fst (dispatch_scoped r s))"
  by (simp add: dispatch_scoped_def unscoped_def split_beta)

lemma sim_controlled_unscoped [simp]: "unscoped s \<Longrightarrow> unscoped (fst (sim_controlled c r s))"
  by (simp add: sim_controlled_def split: option.split)

lemma sim_in_session_unscoped [simp]: "unscoped s \<Longrightarrow> unscoped (fst (sim_in_session w c r s))"
proof -
  assume u: "unscoped s"
  have "unscoped (fst (sim_register_network_endpoint c reg s))" for reg
    using u by (simp add: sim_register_network_endpoint_def expire_network_records_def Let_def unscoped_def
        split: option.split)
  moreover have "unscoped (fst (acquire_control_lease w c a ttl s))" for a ttl
    using u by (simp add: acquire_control_lease_def install_lease_def Let_def unscoped_def)
  ultimately show ?thesis using u by (cases r) (simp_all add: sim_in_session_def)
qed

lemma sim_with_lease_unscoped [simp]: "unscoped s \<Longrightarrow> unscoped (fst (sim_with_lease w c l r s))"
  by (simp add: sim_with_lease_def split: option.split)

lemma sim_handshake_policy [simp]: "sim_policy (fst (sim_handshake w h s)) = sim_policy s"
proof -
  have p: "sim_policy (open_primary c t) = sim_policy t" for c t
    by (simp add: open_primary_def Let_def)
  have "sim_policy (fst (sim_new_handshake w h s)) = sim_policy s"
    unfolding sim_new_handshake_def Let_def
    by (intro policy_after_andthen) (auto simp: p split: handshake_response.split)
  then show ?thesis by (simp add: sim_handshake_def split: option.split)
qed

lemma sim_handshake_unscoped [simp]: "unscoped (fst (sim_handshake w h s)) \<longleftrightarrow> unscoped s"
  by (simp add: unscoped_def)

lemma unscoped_may_move: "unscoped s \<Longrightarrow> motion_allowed s"
  by (simp add: unscoped_def motion_allowed_def)

section \<open>Everything that can happen to a simulator\<close>

text \<open>The builder methods, the test's hands on its sensors and clock, and the messages of its clients.\<close>

inductive sim_step :: "sim_world \<Rightarrow> sim \<Rightarrow> sim \<Rightarrow> bool" for w where
  built_capacity: "sim_step w s (with_event_capacity n s)"
| built_policy: "sim_step w s (with_takeover_policy b recovery s)"
| built_identity: "sim_step w s (with_identity device boot s)"
| built_capabilities: "sim_step w s (s\<lparr>sim_capabilities := c\<rparr>)"
| built_bench: "sim_step w s (with_unscoped_bench_mode s)"
| time_passes: "sim_step w s (advance_ms ms s)"
| rebooted: "sim_step w s (reboot boot s)"
| sensed_bump: "sim_step w s (set_bump left right s)"
| sensed_cliff: "sim_step w s (set_cliff b s)"
| sensed_wheel_drop: "sim_step w s (set_wheel_drop b s)"
| sensed_wall: "sim_step w s (set_wall b s)"
| sensed_virtual_wall: "sim_step w s (set_virtual_wall b s)"
| sensed_battery: "sim_step w s (set_battery m n s)"
| sensed_charging: "sim_step w s (set_charging_state k s)"
| sensed_buttons: "sim_step w s (set_buttons k s)"
| sensed_ir: "sim_step w s (set_ir_byte k s)"
| tripped: "sim_step w s (trip_safety s)"
| leased_address: "sim_step w s (add_network_lease l s)"
| resolved: "sim_step w s (fst (resolve_internal_name name s))"
| greeted: "sim_step w s (fst (sim_handshake w h s))"
| asked: "sim_step w s (fst (sim_execute r s))"
| asked_in_session: "sim_step w s (fst (sim_in_session w c r s))"
| asked_with_lease: "sim_step w s (fst (sim_with_lease w c l r s))"
| asked_status: "sim_step w s (fst (sim_get_status s))"
| asked_events: "sim_step w s (fst (sim_get_events n s))"
| commanded: "sim_step w s (fst (sim_command r s))"

definition sim_reachable :: "sim_world \<Rightarrow> sim \<Rightarrow> bool" where
  "sim_reachable w s \<longleftrightarrow> (\<exists>boot. (sim_step w)\<^sup>*\<^sup>* (sim_new boot) s)"

lemma default_command_ok:
  "sim_ok s \<Longrightarrow> unscoped s \<Longrightarrow> sim_ok (fst (default_command sim_execute r s))"
  "unscoped s \<Longrightarrow> unscoped (fst (default_command sim_execute r s))"
proof -
  show "sim_ok s \<Longrightarrow> unscoped s \<Longrightarrow> sim_ok (fst (default_command sim_execute r s))"
    unfolding default_command_def by (intro fst_andthen_ok sim_execute_ok unscoped_may_move) simp_all
  have "sim_policy (fst (default_command sim_execute r s)) = sim_policy s"
    unfolding default_command_def by (intro policy_after_andthen) simp_all
  then show "unscoped s \<Longrightarrow> unscoped (fst (default_command sim_execute r s))" by (simp add: unscoped_def)
qed

lemma sim_command_ok:
  assumes "sim_ok s" "unscoped s"
  shows "sim_ok (fst (sim_command r s))" "unscoped (fst (sim_command r s))"
  using assms default_command_ok [of s r]
  by (cases r; simp add: sim_command_def moving_commands_ok unscoped_may_move unscoped_def)+

lemma sensors_keep_policy [simp]:
  "sim_policy (set_bump left right s) = sim_policy s" "sim_policy (set_cliff b s) = sim_policy s"
  "sim_policy (set_wheel_drop b s) = sim_policy s" "sim_policy (set_wall b s) = sim_policy s"
  "sim_policy (set_virtual_wall b s) = sim_policy s" "sim_policy (set_battery m n s) = sim_policy s"
  "sim_policy (set_charging_state k s) = sim_policy s" "sim_policy (set_buttons k s) = sim_policy s"
  "sim_policy (set_ir_byte k s) = sim_policy s" "sim_policy (trip_safety s) = sim_policy s"
  "sim_policy (advance_ms ms s) = sim_policy s" "sim_policy (reboot boot s) = sim_policy s"
  "sim_policy (add_network_lease l s) = sim_policy s" "sim_policy (fst (resolve_internal_name name s)) = sim_policy s"
  by (simp_all add: set_bump_def set_cliff_def set_wheel_drop_def set_wall_def set_virtual_wall_def set_battery_def
      set_charging_state_def set_buttons_def set_ir_byte_def trip_safety_def fresh_contact_def start_withdrawal_def
      advance_ms_def reboot_def add_network_lease_def resolve_internal_name_def expire_network_records_def Let_def
      split: option.split)

lemma construction_unscoped [simp]:
  "unscoped (sim_new boot)"
  "unscoped (with_takeover_policy b r s) \<longleftrightarrow> unscoped s" "unscoped (with_unscoped_bench_mode s) \<longleftrightarrow> unscoped s"
  "unscoped (with_event_capacity n s) \<longleftrightarrow> unscoped s" "unscoped (with_identity d i s) \<longleftrightarrow> unscoped s"
  by (simp_all add: unscoped_def sim_new_def with_takeover_policy_def with_unscoped_bench_mode_def
      with_event_capacity_def with_identity_def sim_push_event_def on_log_def)

lemma sim_step_keeps:
  assumes "sim_step w s s'" "sim_ok s" "unscoped s"
  shows "sim_ok s' \<and> unscoped s'"
  using assms
proof cases
  case built_capabilities
  with assms show ?thesis by (simp add: sim_ok_def unscoped_def)
next
  case asked
  with assms sim_execute_ok [OF assms(2)] unscoped_may_move [OF assms(3)] show ?thesis
    by (simp add: unscoped_def)
next
  case commanded
  with assms sim_command_ok show ?thesis by simp
qed (simp_all add: with_event_capacity_ok, simp_all add: unscoped_def)

lemma sim_reachable_ok:
  assumes "sim_reachable w s"
  shows "sim_ok s \<and> unscoped s"
proof -
  have "sim_ok s \<and> unscoped s" if "(sim_step w)\<^sup>*\<^sup>* (sim_new boot) s" for boot
    using that
  proof induction
    case base
    show ?case by simp
  next
    case step
    then show ?case using sim_step_keeps by blast
  qed
  with assms show ?thesis by (auto simp: sim_reachable_def)
qed

end
