(* ===== verification/Sim_Safety.thy ===== *)
theory Sim_Safety
  imports Sim_Rules
begin

text \<open>
  What the simulator promises to the tests that trust it: its invariant, its verdict on escapes beside the
  firmware's, the lease behind its motion, and the change of its owner.
\<close>

section \<open>The invariant\<close>

text \<open>C17. Whatever its tests and clients do to a simulator, its kept events are the unbroken tail of what happened,
  at most as many as its capacity; a latched emergency stop excludes motion and withdrawal; and outside the
  bench mode motion stands under a lease that has not run out.\<close>

theorem simulator_invariant:
  assumes "sim_reachable w s"
  shows "length (xl_events (sim_log s)) \<le> xl_event_capacity (sim_log s) \<and>
    successively (\<lambda>a b. ce_seq b = max (ce_seq a + 1) 1) (xl_events (sim_log s)) \<and>
    (xl_events (sim_log s) \<noteq> [] \<longrightarrow>
       xl_next_event_seq (sim_log s) = max (ce_seq (last (xl_events (sim_log s))) + 1) 1) \<and>
    (xt_estop_latched (sim_latches s) \<longrightarrow>
       xm_active_cmd_vel (sim_motion s) = None \<and> xm_active_contact_withdrawal (sim_motion s) = None) \<and>
    (xm_active_cmd_vel (sim_motion s) \<noteq> None \<and> \<not> xp_allow_unscoped_bench_mode (sim_policy s) \<longrightarrow> lease_alive s)"
  using sim_reachable_ok [OF assms]
  by (auto simp: sim_ok_def sim_log_ok_def control_ok_def next_seq_after_def lease_alive_def)

section \<open>Escapes\<close>

text \<open>A status that shows what the simulator senses, in the bits where the firmware's check reads them.\<close>

definition mirrors :: "platform \<Rightarrow> status \<Rightarrow> sim \<Rightarrow> bool" where
  "mirrors pf st s \<longleftrightarrow>
     (let l = sim_latches s; b = sim_body s; flags = sn_flags (st_sensor st) in
      session_safety_snapshot st =
        (xt_estop_latched l, xt_safety_tripped l, False,
         map_option safety_latch_kind_to_event (xt_safety_latch_kind l)) \<and>
      safety_hazard_generation st = xt_safety_hazard_generation l \<and>
      (flag_bit 0 flags \<longleftrightarrow> xb_bump_right b) \<and> (flag_bit 1 flags \<longleftrightarrow> xb_bump_left b) \<and>
      (flag_bit 2 flags \<longleftrightarrow> xb_wheel_drop b) \<and> (cliff_flags flags \<longleftrightarrow> xb_cliff b) \<and>
      (charging_interlock_active st \<longleftrightarrow> xb_charging_state b \<noteq> 0) \<and>
      \<not> tilt_sensed pf st \<and> \<not> impact_sensed pf st)"

lemma latch_event_inj: "safety_latch_kind_to_event k = safety_latch_kind_to_event k' \<longleftrightarrow> k = k'"
  by (cases k; cases k') simp_all


section \<open>Leases and owners\<close>

lemma unscoped_refusal:
  assumes "requires_control_authority r" "unscoped s" "\<not> xp_allow_unscoped_bench_mode (sim_policy s)"
  shows "fst (sim_execute r s) = s"
  using assms by (simp add: sim_execute_def unscoped_def requires_control_authority_def)

lemma control_needs_session: "requires_control_authority r \<Longrightarrow> requires_session r"
  by (cases r) (simp_all add: requires_control_authority_def requires_session_def authorization_class_of_def)

lemma sim_in_session_control:
  assumes "requires_control_authority r" "fst (sim_in_session w c r s) \<noteq> s"
  shows "session_known c s" "fst (sim_controlled c r s) \<noteq> s"
proof -
  show "session_known c s"
    using assms control_needs_session [OF assms(1)] by (auto simp: sim_in_session_def split: if_splits)
  show "fst (sim_controlled c r s) \<noteq> s"
    using assms
    by (cases r) (auto simp: sim_in_session_def requires_control_authority_def authorization_class_of_def split: if_splits)
qed

text \<open>Outside the bench mode a request that needs the control lease changes the simulator only when it comes in
  a session the simulator knows and that session holds the live lease, an operator's one for what only an
  operator may do.\<close>

theorem lease_stands_behind_simulated_motion:
  assumes "requires_control_authority r" "unscoped s" "\<not> xp_allow_unscoped_bench_mode (sim_policy s)"
    and "fst (sim_execute r s) \<noteq> s \<or> fst (sim_in_session w c r s) \<noteq> s"
  shows "session_known c s \<and> lease_alive s \<and>
    (\<exists>l. xs_control_lease (sim_sessions s) = Some l \<and> cl_session_id l = cs_session_id c \<and>
       (requires_operator_debug r \<longrightarrow> cl_authority l = AuthorityOperatorDebug))"
proof -
  have "fst (sim_in_session w c r s) \<noteq> s" using assms unscoped_refusal by auto
  note changed = sim_in_session_control [OF assms(1) this]
  from changed(2) show ?thesis
    using changed(1) by (auto simp: sim_controlled_def assms(1) split: option.splits if_splits)
qed

text \<open>A control lease granted to a new owner starts stopped: the motion of the owner before and its heartbeat end,
  the body is armed only for the motherbrain, and the lease runs for the asked time within a quarter second and a
  minute.\<close>

theorem new_owner_starts_stopped:
  assumes "acquire_control_lease w c authority ttl s = (s', Returned response)"
    and "\<not> continuing_owner c authority s"
  shows "role_can_request_control (cs_local_role c) (cs_local_purpose c) authority \<and>
    xm_active_cmd_vel (sim_motion s') = None \<and> xm_heartbeat_stop_at_ms (sim_motion s') = None \<and>
    (sim_armed s' \<longleftrightarrow> authority = AuthorityMotherbrain) \<and>
    (\<exists>l. response = RsControlLeaseGranted l \<and> xs_control_lease (sim_sessions s') = Some l \<and>
       cl_session_id l = cs_session_id c \<and> cl_authority l = authority \<and>
       250 \<le> cl_ttl_ms l \<and> cl_ttl_ms l \<le> 60000 \<and>
       xs_control_lease_expires_at_ms (sim_sessions s') = Some (sim_now_ms s' + cl_ttl_ms l))"
proof -
  from assms(1) have role: "role_can_request_control (cs_local_role c) (cs_local_purpose c) authority"
    and inst: "install_lease w c authority ttl s = (s', Returned response)"
    by (auto simp: acquire_control_lease_def split: if_splits)
  have "250 \<le> clamp_word 250 60000 ttl \<and> clamp_word 250 60000 ttl \<le> 60000"
    by (rule clamp_word_bounds) simp
  with inst assms(2) role show ?thesis by (auto simp: install_lease_def Let_def)
qed

section \<open>Hazards and withdrawals\<close>

text \<open>A fresh cliff, the emergency stop and a safety trip end a contact withdrawal under way; a fresh wheel drop
  stops the commanded motion and leaves the withdrawal running.\<close>

theorem wheel_drop_leaves_withdrawal:
  "(\<not> xb_cliff (sim_body s) \<longrightarrow> xm_active_contact_withdrawal (sim_motion (set_cliff True s)) = None) \<and>
   (\<not> xt_safety_tripped (sim_latches s) \<longrightarrow>
      xm_active_contact_withdrawal (sim_motion (trip_safety s)) = None) \<and>
   xm_active_contact_withdrawal (sim_motion (fst (sim_estop s))) = None \<and>
   (\<not> xb_wheel_drop (sim_body s) \<longrightarrow> xm_active_cmd_vel (sim_motion (set_wheel_drop True s)) = None) \<and>
   xm_active_contact_withdrawal (sim_motion (set_wheel_drop True s)) = xm_active_contact_withdrawal (sim_motion s)"
  by (simp add: set_cliff_def trip_safety_def set_wheel_drop_def sim_estop_def carry_out_def complete_command_def
      Let_def split: prod.split)

text \<open>A simulator in the bench mode, driven forward into an obstacle on its left, that then loses a wheel.\<close>

definition bench :: sim where
  "bench = with_unscoped_bench_mode (sim_new ''boot'')"

definition driven :: sim where
  "driven = fst (sim_execute (QCmdVel 100 0 500) bench)"

definition left_bumped :: sim where
  "left_bumped = set_bump True False driven"

lemmas sim_run = sim_execute_def sim_dispatch_def sim_cmd_vel_def accepted_after_def andthen_def scoped_def
  require_scoped_dispatch_def sim_accept_command_def start_motion_def interrupt_active_motion_def sim_new_def
  with_unscoped_bench_mode_def removed_convenience_def sim_push_event_def sim_groups log_event_def
  enforce_event_capacity_def

lemma driven_facts:
  "xm_active_cmd_vel (sim_motion driven) = Some \<lparr>ta_command_id = 1, ta_complete_at_ms = 500, ta_linear_mm_s = 100\<rparr>"
  "xp_allow_unscoped_bench_mode (sim_policy driven)" "sim_now_ms driven = 0"
  "\<not> xb_bump_left (sim_body driven)" "\<not> xb_bump_right (sim_body driven)" "\<not> xb_wheel_drop (sim_body driven)"
  "\<not> xb_cliff (sim_body driven)" "xb_charging_state (sim_body driven) = 0"
  "\<not> xt_estop_latched (sim_latches driven)" "length (xl_events (sim_log driven)) = 4"
  "xm_active_contact_withdrawal (sim_motion driven) = None" "xl_next_event_seq (sim_log driven) = 5"
  "xm_last_contact_withdrawal_at_ms (sim_motion driven) = None"
  by (simp_all add: driven_def bench_def sim_run Let_def)

lemma driven_reachable: "sim_reachable w driven"
proof -
  have "(sim_step w)\<^sup>*\<^sup>* (sim_new ''boot'') bench" unfolding bench_def by (blast intro: built_bench)
  also have "(sim_step w)\<^sup>*\<^sup>* bench driven" unfolding driven_def by (blast intro: asked)
  finally show ?thesis unfolding sim_reachable_def by blast
qed

lemma left_bumped_facts:
  "xm_active_contact_withdrawal (sim_motion left_bumped) \<noteq> None"
  "\<not> xb_wheel_drop (sim_body left_bumped)" "\<not> xb_cliff (sim_body left_bumped)"
  "sim_now_ms left_bumped = 0" "xt_safety_tripped (sim_latches left_bumped)"
  "xt_safety_latch_kind (sim_latches left_bumped) = Some LBump" "\<not> xt_estop_latched (sim_latches left_bumped)"
  "xt_safety_hazard_generation (sim_latches left_bumped) = 7"
  "xb_bump_left (sim_body left_bumped)" "\<not> xb_bump_right (sim_body left_bumped)" "xb_charging_state (sim_body left_bumped) = 0"
  by (simp_all add: left_bumped_def set_bump_def fresh_contact_def driven_facts Let_def start_withdrawal_def
      trip_event_def latch_def interrupt_active_motion_def event_seq_def log_event_def enforce_event_capacity_def)

theorem simulator_invariant_witness:
  "length (xl_events (sim_log driven)) \<le> xl_event_capacity (sim_log driven) \<and> \<not> xt_estop_latched (sim_latches driven)"
  using simulator_invariant [OF driven_reachable] by (auto simp: driven_facts)

theorem wheel_drop_leaves_withdrawal_witness:
  "xm_active_contact_withdrawal (sim_motion (set_cliff True left_bumped)) = None \<and>
   xm_active_contact_withdrawal (sim_motion (set_wheel_drop True left_bumped)) \<noteq> None"
  using wheel_drop_leaves_withdrawal [of left_bumped] left_bumped_facts by (simp del: not_None_eq)

text \<open>A right contact while the simulator stands, and the firmware's status of the same hazard.\<close>

definition pressed :: sim where
  "pressed = set_bump False True (sim_new ''boot'')"

definition pressed_status :: status where
  "pressed_status = left_contact\<lparr>st_safety := (st_safety left_contact)\<lparr>sf_hazard_generation := 3\<rparr>\<rparr>"

lemma pressed_facts:
  "xm_active_contact_withdrawal (sim_motion pressed) = None" "\<not> xb_wheel_drop (sim_body pressed)"
  "\<not> xb_cliff (sim_body pressed)" "xt_safety_tripped (sim_latches pressed)"
  "xt_safety_latch_kind (sim_latches pressed) = Some LBump" "\<not> xt_estop_latched (sim_latches pressed)"
  "xt_safety_hazard_generation (sim_latches pressed) = 3" "\<not> xb_bump_left (sim_body pressed)"
  "xb_bump_right (sim_body pressed)" "xb_charging_state (sim_body pressed) = 0"
  by (simp_all add: pressed_def set_bump_def fresh_contact_def Let_def sim_new_def trip_event_def latch_def
      interrupt_active_motion_def event_seq_def sim_push_event_def sim_groups log_event_def enforce_event_capacity_def)

lemma pressed_mirror: "mirrors example_platform pressed_status pressed"
proof -
  have "session_safety_snapshot pressed_status = session_safety_snapshot left_contact"
    by (simp add: pressed_status_def session_safety_snapshot_def)
  moreover have "\<not> imu_ok example_platform pressed_status"
    using left_contact_facts(5) by (simp add: pressed_status_def imu_ok_def)
  moreover have "sn_flags (st_sensor pressed_status) = 1" "\<not> charging_interlock_active pressed_status"
    "safety_hazard_generation pressed_status = 3"
    using left_contact_facts by (simp_all add: pressed_status_def charging_interlock_active_def safety_hazard_generation_def)
  ultimately show ?thesis
    by (simp add: mirrors_def Let_def pressed_facts left_contact_facts tilt_sensed_def impact_sensed_def flag_bit_def
        cliff_flags_def)
qed


text \<open>A motherbrain's session and the lease it is granted.\<close>

definition brain :: cockpit_session where
  "brain = \<lparr>cs_session_id = ''s'', cs_peer_device_id = ''pete-brainstem-sim'', cs_peer_boot_id = ''boot'',
     cs_local_device_id = ''mb'', cs_local_boot_id = ''b'', cs_local_role = RoleMotherbrain,
     cs_local_purpose = PurposeControl, cs_protocol_major = 1, cs_protocol_minor = 0, cs_negotiated_features = [],
     cs_heartbeat_ms = 250\<rparr>"

definition greeted_sim :: sim where
  "greeted_sim = on_sessions (\<lambda>x. x\<lparr>xs_sessions := [brain]\<rparr>) (sim_new ''boot'')"

definition owned :: "sim_world \<Rightarrow> sim" where
  "owned w = fst (sim_in_session w brain (QAcquireControlLease AuthorityMotherbrain 500) greeted_sim)"

lemma greeted_facts:
  "xs_control_lease (sim_sessions greeted_sim) = None" "xs_control_lease_expires_at_ms (sim_sessions greeted_sim) = None"
  "session_known brain greeted_sim" "sim_now_ms greeted_sim = 0" "unscoped greeted_sim"
  "\<not> xp_allow_unscoped_bench_mode (sim_policy greeted_sim)" "xm_active_cmd_vel (sim_motion greeted_sim) = None"
  by (simp_all add: greeted_sim_def sim_new_def sim_push_event_def sim_groups session_known_def unscoped_def)

lemma owned_run:
  "owned w = fst (install_lease w brain AuthorityMotherbrain 500 greeted_sim)"
  "\<exists>response. acquire_control_lease w brain AuthorityMotherbrain 500 greeted_sim = (owned w, Returned response)"
proof -
  have "acquire_control_lease w brain AuthorityMotherbrain 500 greeted_sim =
      install_lease w brain AuthorityMotherbrain 500 greeted_sim"
    by (simp add: acquire_control_lease_def brain_def role_can_request_control_def)
  moreover from this have "owned w = fst (install_lease w brain AuthorityMotherbrain 500 greeted_sim)"
    by (simp add: owned_def sim_in_session_def greeted_facts)
  ultimately show "owned w = fst (install_lease w brain AuthorityMotherbrain 500 greeted_sim)"
    "\<exists>response. acquire_control_lease w brain AuthorityMotherbrain 500 greeted_sim = (owned w, Returned response)"
    by (simp_all add: install_lease_def Let_def)
qed

theorem new_owner_starts_stopped_witness:
  "\<forall>w. sim_armed (owned w) \<and> xm_active_cmd_vel (sim_motion (owned w)) = None"
proof
  fix w
  obtain response where a: "acquire_control_lease w brain AuthorityMotherbrain 500 greeted_sim = (owned w, Returned response)"
    using owned_run(2) by blast
  have "\<not> continuing_owner brain AuthorityMotherbrain greeted_sim"
    by (simp add: continuing_owner_def lease_alive_def greeted_facts)
  from new_owner_starts_stopped [OF a this]
  show "sim_armed (owned w) \<and> xm_active_cmd_vel (sim_motion (owned w)) = None" by simp
qed

lemma owned_facts:
  "session_known brain (owned w)" "unscoped (owned w)" "\<not> xp_allow_unscoped_bench_mode (sim_policy (owned w))"
  "sim_now_ms (owned w) = 0" "xs_control_lease_expires_at_ms (sim_sessions (owned w)) = Some 500"
  "\<exists>l. xs_control_lease (sim_sessions (owned w)) = Some l \<and> cl_session_id l = ''s''"
  by (simp_all add: owned_run(1) install_lease_def Let_def continuing_owner_def lease_alive_def greeted_facts
      interrupt_active_motion_def unscoped_def session_known_def)
    (simp_all add: greeted_sim_def session_known_def unscoped_def sim_new_def brain_def clamp_word_def)

lemma arming_changes:
  "fst (sim_in_session w brain QArm (owned w)) \<noteq> owned w"
proof
  assume same: "fst (sim_in_session w brain QArm (owned w)) = owned w"
  have "\<not> time_reached 0 500" by (simp add: time_reached_def)
  then have "sim_in_session w brain QArm (owned w) = dispatch_scoped QArm (owned w)"
    using owned_facts [of w]
    by (auto simp: sim_in_session_def sim_controlled_def requires_control_authority_def authorization_class_of_def
        lease_alive_def requires_operator_debug_def extend_lease_def brain_def)
  moreover have "dispatch_scoped QArm s = (set_scoped False (fst (sim_arm (set_scoped True s))),
      snd (accepted_after (sim_arm (set_scoped True s))))" for s
    by (simp add: dispatch_scoped_def sim_execute_def sim_dispatch_def removed_convenience_def accepted_after_def
        andthen_def split: prod.split call.split)
  ultimately have "set_scoped False (fst (sim_arm (set_scoped True (owned w)))) = owned w" using same by simp
  then have "sim_next_command_id (set_scoped False (fst (sim_arm (set_scoped True (owned w))))) =
      sim_next_command_id (owned w)" by (rule arg_cong)
  moreover have "sim_next_command_id (set_scoped False (fst (sim_arm (set_scoped True s)))) =
      max (sim_next_command_id s + 1) 1" for s
    by (simp add: sim_arm_def scoped_def require_scoped_dispatch_def andthen_def set_scoped_def carry_out_def
        complete_command_def sim_accept_command_def sim_push_event_def on_log_def on_policy_def Let_def)
  moreover have "sim_next_command_id (owned w) = 1"
    by (simp add: owned_run(1) install_lease_def Let_def interrupt_active_motion_def greeted_facts)
      (simp add: greeted_sim_def sim_new_def sim_push_event_def sim_groups)
  ultimately show False by simp
qed

theorem lease_stands_behind_simulated_motion_witness:
  "\<forall>w. lease_alive (owned w)"
proof
  fix w
  have "requires_control_authority QArm" by (simp add: requires_control_authority_def authorization_class_of_def)
  from lease_stands_behind_simulated_motion [OF this owned_facts(2,3) disjI2 [OF arming_changes]]
  show "lease_alive (owned w)" by simp
qed

end
