(* ===== verification/Sim_Possession.thy ===== *)
theory Sim_Possession
  imports Possession_Safety Sim_Safety
begin

text \<open>
  The client's possession over the simulator: every operation of the one is a run of the other's steps, so what
  the simulator keeps holds under any use of the possession, and letting go of the body ends its motion.
\<close>

section \<open>The simulator behind the interface\<close>

definition sim_follows :: "sim_world \<Rightarrow> sim \<Rightarrow> sim \<Rightarrow> bool" where
  "sim_follows w = (sim_step w)\<^sup>*\<^sup>*"

lemma sim_follows_step: "sim_step w s s' \<Longrightarrow> sim_follows w s s'"
  by (simp add: sim_follows_def)

lemma sim_follows_reachable: "sim_reachable w s \<Longrightarrow> sim_follows w s s' \<Longrightarrow> sim_reachable w s'"
  unfolding sim_reachable_def sim_follows_def by (meson rtranclp_trans)

interpretation simulated: kept_connector "sim_connector w now read_json show_error" "\<lambda>_. True" "sim_follows w"
  for w now read_json show_error
proof unfold_locales
  show "sim_follows w a b \<Longrightarrow> sim_follows w b c \<Longrightarrow> sim_follows w a c" for a b c
    by (simp add: sim_follows_def)
qed (simp_all add: sim_connector_def sim_with_service_def sim_follows_step asked_in_session asked_with_lease,
    simp_all add: sim_follows_def)

lemma possession_follows:
  "sim_follows w (mp_connector p) (mp_connector (fst (possession_execute (sim_connector w now rj se) r p)))"
  using simulated.possession_execute_kept [of r p w now rj se] by (simp add: simulated.kept_possession_def)


section \<open>Letting go\<close>

definition stands_still :: "sim \<Rightarrow> bool" where
  "stands_still s \<longleftrightarrow> xm_active_cmd_vel (sim_motion s) = None \<and> xm_active_contact_withdrawal (sim_motion s) = None"

lemma stop_stands_still: "stands_still (fst (dispatch_scoped QStop s))" "snd (dispatch_scoped QStop s) = Returned RsAccepted"
  by (simp_all add: dispatch_scoped_def sim_execute_def sim_dispatch_def removed_convenience_def accepted_after_def
      authorization_class_of_def sim_stop_def carry_out_def complete_command_def stands_still_def set_scoped_def
      split: prod.split)

lemma stop_in_session: "sim_in_session w c QStop s = dispatch_scoped QStop s"
  by (simp add: sim_in_session_def sim_controlled_def requires_session_def requires_control_authority_def
      authorization_class_of_def)

lemma stop_validated:
  "supports contract ''stop'' \<Longrightarrow> validate_request contract QStop = Inr ()"
  by (simp add: validate_request_def required_capability_def verb_def validate_motion_limits_def
      validate_ttl_limits_def both_checks_def ttl_or_timeout_ms_def)

lemma stop_executes:
  assumes "supports (ho_contract (se_outcome s)) ''stop''"
  shows "session_execute (sim_connector w now rj se) QStop s =
    (s\<lparr>se_connector := fst (dispatch_scoped QStop (se_connector s))\<rparr>, Returned RsAccepted)"
  using stop_stands_still(2) [of "se_connector s"]
  by (auto simp: session_execute_def stop_validated [OF assms] authorization_class_of_def on_connector_def
      sim_connector_def stop_in_session split: prod.split)

text \<open>C9. Letting go of a body stops it: whatever the state of the simulator, of the lease and of the motor gate, a
  possession whose contract has the stop leaves the simulator without motion and withdrawal when it is exorcized
  and when it is dropped, at the first attempt, and its gate is closed.\<close>

theorem letting_go_stops_the_simulator:
  assumes "supports (ho_contract (se_outcome (mp_session p))) ''stop''"
  shows "stands_still (mp_connector (drop_possession (sim_connector w now read_json show_error) p)) \<and>
    (case exorcize (sim_connector w now read_json show_error) p of
       (p', result) \<Rightarrow> stands_still (mp_connector p') \<and> \<not> mp_motor_gate_open p' \<and> result = Returned ())"
proof -
  have "execute_with_busy_retry (sim_connector w now read_json show_error) QStop p =
    (p\<lparr>mp_session := (mp_session p)\<lparr>se_connector := fst (dispatch_scoped QStop (mp_connector p))\<rparr>\<rparr>,
     Returned RsAccepted)"
    using stop_executes [OF assms]
    by (simp add: execute_with_busy_retry_def possession_busy_retry_attempts_def on_session_def
        numeral_eq_Suc split: prod.split)
  then show ?thesis
    by (simp add: drop_possession_def exorcize_def close_gate_def stop_stands_still expect_accepted_def)
qed

section \<open>An example\<close>

text \<open>The example possession on the simulator that is driven forward.\<close>

lemma estop_dispatched:
  "xt_estop_latched (sim_latches (fst (dispatch_scoped QEStop s)))" "snd (dispatch_scoped QEStop s) = Returned RsAccepted"
  by (simp_all add: dispatch_scoped_def sim_execute_def sim_dispatch_def removed_convenience_def accepted_after_def
      authorization_class_of_def sim_estop_def carry_out_def complete_command_def set_scoped_def
      split: prod.split)

lemma example_estop:
  "mp_connector (fst (possession_execute (sim_connector w now rj se) QEStop (example_possession s))) =
     fst (dispatch_scoped QEStop s)"
proof -
  have "sim_in_session w c QEStop s = dispatch_scoped QEStop s" for c
    by (simp add: sim_in_session_def sim_controlled_def requires_session_def requires_control_authority_def
        authorization_class_of_def)
  moreover have "validate_request example_contract QEStop = Inr ()"
    by (simp add: validate_request_def required_capability_def verb_def validate_motion_limits_def
        validate_ttl_limits_def both_checks_def ttl_or_timeout_ms_def supports_def example_contract_def
        sample_cockpit_capability_verbs_def)
  ultimately have "session_execute (sim_connector w now rj se) QEStop (mp_session (example_possession s)) =
      ((mp_session (example_possession s))\<lparr>se_connector := fst (dispatch_scoped QEStop s)\<rparr>, Returned RsAccepted)"
    using estop_dispatched(2) [of s]
    by (auto simp: session_execute_def authorization_class_of_def on_connector_def sim_connector_def
        example_possession_def example_outcome_contract split: prod.split)
  then show ?thesis
    by (simp add: possession_execute_def authorization_class_of_def execute_scoped_def bypasses_closed_motor_gate_def
        outside_possession_def bounded_request_def send_with_heartbeat_def heartbeat_before_def send_scoped_def
        execute_with_busy_retry_def possession_busy_retry_attempts_def on_session_def numeral_eq_Suc
        note_applied_def reopens_after_clear_def)
qed


theorem letting_go_stops_the_simulator_witness:
  "xm_active_cmd_vel (sim_motion driven) \<noteq> None \<and>
   (\<forall>w. stands_still (mp_connector (drop_possession
      (sim_connector w (\<lambda>_. 0) (\<lambda>_. None) (\<lambda>_. ''error'')) (example_possession driven))))"
proof
  show "xm_active_cmd_vel (sim_motion driven) \<noteq> None" by (simp add: driven_facts)
  have "supports (ho_contract (se_outcome (mp_session (example_possession driven)))) ''stop''"
    by (simp add: example_possession_def example_outcome_contract example_contract_def supports_def
        sample_cockpit_capability_verbs_def)
  from letting_go_stops_the_simulator [OF this]
  show "\<forall>w. stands_still (mp_connector (drop_possession
      (sim_connector w (\<lambda>_. 0) (\<lambda>_. None) (\<lambda>_. ''error'')) (example_possession driven)))" by blast
qed

end
