(* ===== verification/Answer_Rules.thy ===== *)
theory Answer_Rules
  imports Wire_Rules Sim_Safety
begin

text \<open>
  What the client reads back from an answer: the fields of a status line, which \<open>value_for\<close> finds by a substring
  search for \<open>key=\<close>. On a line of fields the search stops at the first field whose key ends in the one asked for.
\<close>

section \<open>Finding a field\<close>

definition field_char :: "char \<Rightarrow> bool" where
  "field_char c \<longleftrightarrow> c \<noteq> CHR ''='' \<and> \<not> is_space c"

definition field_text :: "string \<Rightarrow> bool" where
  "field_text w \<longleftrightarrow> list_all field_char w"

definition ends_in :: "string \<Rightarrow> string \<Rightarrow> bool" where
  "ends_in key k \<longleftrightarrow> length key \<le> length k \<and> drop (length k - length key) k = key"

lemma ends_in_Cons: "ends_in key (c # k) \<longleftrightarrow> key = c # k \<or> ends_in key k"
  by (cases "length key = Suc (length k)") (auto simp: ends_in_def Suc_diff_le le_Suc_eq)

lemma ends_in_Nil [simp]: "ends_in key [] \<longleftrightarrow> key = []"
  by (auto simp: ends_in_def)

lemma strip_prefix_steps [simp]:
  "strip_prefix (a # p) (b # s) = (if a = b then strip_prefix p s else None)" "strip_prefix (a # p) [] = None"
  "strip_prefix [] s = Some s"
  by (simp_all add: strip_prefix_def)

lemma prefix_at_sign:
  "field_text key \<Longrightarrow> field_text k \<Longrightarrow>
   strip_prefix (key @ ''='') (k @ CHR ''='' # rest) = (if key = k then Some rest else None)"
  by (induction key k rule: list_induct2') (auto simp: field_text_def field_char_def)

lemma no_prefix_in_word:
  "field_text key \<Longrightarrow> field_text v \<Longrightarrow> strip_prefix (key @ ''='') (v @ CHR '' '' # rest) = None"
  "field_text key \<Longrightarrow> field_text v \<Longrightarrow> strip_prefix (key @ ''='') v = None"
  by (induction key v rule: list_induct2') (auto simp: field_text_def field_char_def is_space_def)

text \<open>Past a word without the sign, past a key that does not end in the one sought.\<close>

lemma search_past_word:
  assumes "field_text key" "field_text v"
  shows "after_first (key @ ''='') (v @ CHR '' '' # rest) = after_first (key @ ''='') rest"
    "after_first (key @ ''='') v = None"
proof -
  have space: "after_first (key @ ''='') (CHR '' '' # rest) = after_first (key @ ''='') rest"
    using no_prefix_in_word(1) [OF assms(1), of "[]" rest] by (subst after_first.simps) (simp add: field_text_def)
  show "after_first (key @ ''='') (v @ CHR '' '' # rest) = after_first (key @ ''='') rest"
    using assms(2)
  proof (induction v)
    case Nil
    show ?case by (simp add: space)
  next
    case (Cons c v)
    then have "strip_prefix (key @ ''='') ((c # v) @ CHR '' '' # rest) = None"
      by (intro no_prefix_in_word assms)
    with Cons show ?case by (subst after_first.simps) (simp add: field_text_def)
  qed
  show "after_first (key @ ''='') v = None"
    using assms(2)
  proof (induction v)
    case Nil
    show ?case by (subst after_first.simps) (simp add: strip_prefix_def)
  next
    case (Cons c v)
    then have "strip_prefix (key @ ''='') (c # v) = None"
      by (intro no_prefix_in_word assms)
    with Cons show ?case by (subst after_first.simps) (simp add: field_text_def)
  qed
qed

lemma search_at_key:
  assumes "field_text key" "key \<noteq> []" "field_text k"
  shows "after_first (key @ ''='') (k @ CHR ''='' # rest) =
    (if ends_in key k then Some rest else after_first (key @ ''='') rest)"
  using assms(3)
proof (induction k)
  case Nil
  have "strip_prefix (key @ ''='') ([] @ CHR ''='' # rest) = None"
    using assms by (subst prefix_at_sign) (auto simp: field_text_def)
  with assms(2) show ?case by (subst after_first.simps) simp
next
  case (Cons c k)
  have "strip_prefix (key @ ''='') ((c # k) @ CHR ''='' # rest) = (if key = c # k then Some rest else None)"
    using Cons.prems by (intro prefix_at_sign assms)
  moreover have "field_text k" using Cons.prems by (simp add: field_text_def)
  ultimately show ?case using Cons.IH by (subst after_first.simps) (auto simp: ends_in_Cons)
qed

section \<open>Lines of fields\<close>

definition plain_fields :: "(string \<times> string) list \<Rightarrow> bool" where
  "plain_fields fs \<longleftrightarrow> list_all (\<lambda>f. field_text (fst f) \<and> field_text (snd f) \<and> snd f \<noteq> []) fs"

fun first_ending :: "string \<Rightarrow> (string \<times> string) list \<Rightarrow> string option" where
  "first_ending key [] = None"
| "first_ending key (f # fs) = (if ends_in key (fst f) then Some (snd f) else first_ending key fs)"

lemma first_word_of:
  assumes "field_text v" "v \<noteq> []"
  shows "first_word (v @ CHR '' '' # rest) = Some v" "first_word v = Some v"
proof -
  have n: "\<forall>c\<in>set v. \<not> is_space c" using assms(1) by (auto simp: field_text_def list_all_iff field_char_def)
  then have d: "dropWhile is_space (v @ t) = v @ t" for t
    using assms(2) by (cases v) auto
  from n have t: "takeWhile (\<lambda>c. \<not> is_space c) v = v" by (simp add: takeWhile_eq_all_conv)
  from n have "takeWhile (\<lambda>c. \<not> is_space c) (v @ CHR '' '' # rest) = v"
    by (simp add: takeWhile_append2 is_space_def)
  with d assms(2) show "first_word (v @ CHR '' '' # rest) = Some v" by (simp add: first_word_def)
  have "dropWhile is_space v = v" using d [of "[]"] by simp
  with assms(2) show "first_word v = Some v" unfolding first_word_def by (simp only: t Let_def if_False)
qed

lemma value_for_fields:
  assumes "field_text key" "key \<noteq> []" "plain_fields fs"
  shows "value_for (join_words (map field_word fs)) key = first_ending key fs"
  using assms(3)
proof (induction fs rule: induct_list012)
  case 1
  show ?case by (simp add: value_for_def) (simp add: after_first.simps strip_prefix_def)
next
  case (2 f)
  then have "field_text (snd f)" "snd f \<noteq> []" "field_text (fst f)" by (simp_all add: plain_fields_def)
  then show ?case
    by (simp add: value_for_def field_word_def search_at_key [OF assms(1,2)] search_past_word [OF assms(1)]
        first_word_of)
next
  case (3 f g fs)
  then have f: "field_text (snd f)" "snd f \<noteq> []" "field_text (fst f)"
    and rest: "plain_fields (g # fs)" by (simp_all add: plain_fields_def)
  from f show ?case using 3(2) [OF rest]
    by (simp add: value_for_def field_word_def search_at_key [OF assms(1,2)] search_past_word [OF assms(1)]
        first_word_of)
qed

section \<open>The simulator's status\<close>

lemma field_texts [simp]:
  "field_text (show_unsigned u)" "field_text (show_signed v)" "field_text (show_bool b)" "field_text (latch_str k)"
  "show_unsigned u \<noteq> []" "show_signed v \<noteq> []" "show_bool b \<noteq> []" "latch_str k \<noteq> []"
proof -
  have p: "field_text w \<and> w \<noteq> []" if "plain_word w" for w
  proof -
    have "field_char c" if "plain_char c" for c
      using that by (auto simp: plain_char_def field_char_def is_space_def)
    with that show ?thesis by (auto simp: plain_word_def field_text_def list_all_iff)
  qed
  show "field_text (show_unsigned u)" "field_text (show_signed v)" "field_text (show_bool b)" "field_text (latch_str k)"
    "show_unsigned u \<noteq> []" "show_signed v \<noteq> []" "show_bool b \<noteq> []" "latch_str k \<noteq> []"
    by (simp_all add: p)
qed

lemma status_fields_plain: "plain_fields (sim_status_fields s)"
  by (simp add: plain_fields_def sim_status_fields_def Let_def split: option.split)
    (simp add: field_text_def field_char_def is_space_def)

lemma status_value:
  assumes "field_text key" "key \<noteq> []"
  shows "value_for (sim_status_text s) key = first_ending key (sim_status_fields s)"
proof -
  let ?rest = "join_words (map field_word (sim_status_fields s))"
  have w: "field_text ''OK''" "field_text ''0''" "field_text ''STATUS''" by (simp_all add: field_text_def field_char_def is_space_def)
  have "sim_status_text s = ''OK'' @ CHR '' '' # ''0'' @ CHR '' '' # ''STATUS'' @ CHR '' '' # ?rest"
    by (simp add: sim_status_text_def)
  then have "after_first (key @ ''='') (sim_status_text s) = after_first (key @ ''='') ?rest"
    using w by (simp only: search_past_word [OF assms(1)])
  then show ?thesis using value_for_fields [OF assms status_fields_plain] by (simp add: value_for_def)
qed

lemma read_shown [simp]:
  "read_tri_state (show_bool b) = Some b"
  "latch_from_str (latch_str k) = Some k" "latch_from_str ''none'' = None"
  by (cases b; simp add: read_tri_state_def show_bool_def) (cases k; simp add: latch_from_str_def)+

lemmas status_lookup = status_value field_text_def field_char_def is_space_def sim_status_fields_def ends_in_def Let_def

lemma status_values:
  "value_for (sim_status_text s) ''armed'' = Some (show_bool (sim_armed s))"
  "value_for (sim_status_text s) ''estop'' = Some (show_bool (xt_estop_latched (sim_latches s)))"
  "value_for (sim_status_text s) ''safety_tripped'' = Some (show_bool (xt_safety_tripped (sim_latches s)))"
  "value_for (sim_status_text s) ''safety_latch_kind'' =
     Some (case xt_safety_latch_kind (sim_latches s) of None \<Rightarrow> ''none'' | Some k \<Rightarrow> latch_str k)"
  "value_for (sim_status_text s) ''safety_hazard_generation'' =
     Some (show_unsigned (xt_safety_hazard_generation (sim_latches s)))"
  "value_for (sim_status_text s) ''event_next_seq'' = Some (show_unsigned (event_seq s))"
  "value_for (sim_status_text s) ''uptime_ms'' = Some (show_unsigned (sim_now_ms s))"
  by (simp_all add: status_lookup)

lemma status_values_body:
  "value_for (sim_status_text s) ''active_cmd_vel'' =
     Some (show_bool (xm_active_cmd_vel (sim_motion s) \<noteq> None \<or> xm_active_contact_withdrawal (sim_motion s) \<noteq> None))"
  "value_for (sim_status_text s) ''bump_left'' = Some (show_bool (xb_bump_left (sim_body s)))"
  "value_for (sim_status_text s) ''bump_right'' = Some (show_bool (xb_bump_right (sim_body s)))"
  "value_for (sim_status_text s) ''wheel_drop'' = Some (show_bool (xb_wheel_drop (sim_body s)))"
  "value_for (sim_status_text s) ''wall'' = Some (show_bool (xb_wall (sim_body s)))"
  "value_for (sim_status_text s) ''virtual_wall'' = Some (show_bool (xb_virtual_wall (sim_body s)))"
  "value_for (sim_status_text s) ''cliff_left'' = Some (show_bool (xb_cliff (sim_body s)))"
  "value_for (sim_status_text s) ''cliff_front_left'' = Some (show_bool (xb_cliff (sim_body s)))"
  "value_for (sim_status_text s) ''cliff_front_right'' = Some (show_bool (xb_cliff (sim_body s)))"
  "value_for (sim_status_text s) ''cliff_right'' = Some (show_bool (xb_cliff (sim_body s)))"
  "value_for (sim_status_text s) ''charge_mah'' = Some (show_unsigned (xb_battery_charge_mah (sim_body s)))"
  "value_for (sim_status_text s) ''capacity_mah'' = Some (show_unsigned (xb_battery_capacity_mah (sim_body s)))"
  "value_for (sim_status_text s) ''imu_tilt_mrad'' = Some ''0''"
  "value_for (sim_status_text s) ''imu_impact_mm_s2'' = Some ''0''"
  by (simp_all add: status_lookup)

lemma no_imu_latch: "inferred_imu_safety_latch (imu_from_raw (sim_status_text s)) = None"
  by (simp add: inferred_imu_safety_latch_def imu_from_raw_def number_for_def status_values_body str_u32_def
      parse_unsigned_def digit_of_def)

text \<open>C27. The status of the simulator, read back by the client: clock, arming, emergency stop, latch with its kind and
  generation, motion, event position, contacts, cliffs and battery of the summary are the simulator's own.\<close>

theorem simulator_status_is_understood:
  "let m = summary_from_line (sim_status_text s) in
    sm_uptime_ms m = Some (sim_now_ms s) \<and> sm_armed m = Some (sim_armed s) \<and>
    sm_estop_latched m = Some (xt_estop_latched (sim_latches s)) \<and>
    sm_safety_tripped m = Some (xt_safety_tripped (sim_latches s)) \<and>
    sm_safety_latch_kind m = xt_safety_latch_kind (sim_latches s) \<and>
    sm_safety_hazard_generation m = Some (xt_safety_hazard_generation (sim_latches s)) \<and>
    sm_event_next_seq m = Some (event_seq s) \<and>
    sm_active_motion m = Some (\<not> (xm_active_cmd_vel (sim_motion s) = None \<and>
      xm_active_contact_withdrawal (sim_motion s) = None)) \<and>
    co_bump_left (sm_contact m) = Some (xb_bump_left (sim_body s)) \<and>
    co_bump_right (sm_contact m) = Some (xb_bump_right (sim_body s)) \<and>
    co_wheel_drop (sm_contact m) = Some (xb_wheel_drop (sim_body s)) \<and>
    co_wall (sm_contact m) = Some (xb_wall (sim_body s)) \<and>
    co_virtual_wall (sm_contact m) = Some (xb_virtual_wall (sim_body s)) \<and>
    any_safety_stop (sm_contact m) = Some (xb_wheel_drop (sim_body s) \<or> xb_cliff (sim_body s)) \<and>
    ba_percent (sm_battery m) = sim_battery_percent s"
  unfolding summary_from_line_def Let_def
  by (cases "xt_safety_latch_kind (sim_latches s)")
    (simp_all add: no_imu_latch bool_for_def number_for_def status_values status_values_body contact_from_raw_def
      battery_from_raw_def sim_battery_percent_def otherwise_def any_safety_stop_def any_known_true_def Let_def)

end
