(* ===== verification/Octets.thy ===== *)
theory Octets
  imports Sensor_Packets "HOL-Library.Monad_Syntax"
begin

text \<open>
  Byte buffers as the network code handles them: indexing and slicing that panic out of range
  (\<^term>\<open>None\<close>), slices overwritten in place, big-endian words, and text compared without regard
  to the case of letters. Every access of the packet code goes through these, so that a
  packet on which the firmware would panic is one on which its model has no value.
\<close>

section \<open>Access that may panic\<close>

text \<open>\<open>xs[i]\<close>, \<open>xs[a..b]\<close>, \<open>xs[i] = y\<close> and \<open>xs[a..b].copy_from_slice(ys)\<close>\<close>

definition octet_at :: "'a list \<Rightarrow> nat \<Rightarrow> 'a option" where
  "octet_at xs i = (if i < length xs then Some (xs ! i) else None)"

definition octets_in :: "'a list \<Rightarrow> nat \<Rightarrow> nat \<Rightarrow> 'a list option" where
  "octets_in xs a b = (if a \<le> b \<and> b \<le> length xs then Some (take (b - a) (drop a xs)) else None)"

definition octet_put :: "'a list \<Rightarrow> nat \<Rightarrow> 'a \<Rightarrow> 'a list option" where
  "octet_put xs i y = (if i < length xs then Some (xs[i := y]) else None)"

definition octets_put :: "'a list \<Rightarrow> nat \<Rightarrow> nat \<Rightarrow> 'a list \<Rightarrow> 'a list option" where
  "octets_put xs a b ys =
     (if a \<le> b \<and> b \<le> length xs \<and> length ys = b - a then Some (take a xs @ ys @ drop b xs) else None)"

lemma octet_at_ok [simp]: "i < length xs \<Longrightarrow> octet_at xs i = Some (xs ! i)"
  by (simp add: octet_at_def)

lemma octets_in_ok [simp]: "a \<le> b \<Longrightarrow> b \<le> length xs \<Longrightarrow> octets_in xs a b = Some (take (b - a) (drop a xs))"
  by (simp add: octets_in_def)

lemma octet_put_ok [simp]: "i < length xs \<Longrightarrow> octet_put xs i y = Some (xs[i := y])"
  by (simp add: octet_put_def)

lemma octets_put_ok [simp]:
  "a \<le> b \<Longrightarrow> b \<le> length xs \<Longrightarrow> length ys = b - a \<Longrightarrow> octets_put xs a b ys = Some (take a xs @ ys @ drop b xs)"
  by (simp add: octets_put_def)

lemma octets_in_SomeD: "octets_in xs a b = Some ys \<Longrightarrow> ys = take (b - a) (drop a xs) \<and> length ys = b - a"
  by (auto simp: octets_in_def split: if_splits)

lemma octets_put_SomeD: "octets_put xs a b ys = Some zs \<Longrightarrow> length zs = length xs"
  by (auto simp: octets_put_def split: if_splits)

text \<open>A slice of a buffer that is written in pieces.\<close>

lemma octets_in_append:
  "length xs = a \<Longrightarrow> length ys = b - a \<Longrightarrow> a \<le> b \<Longrightarrow> octets_in (xs @ ys @ zs) a b = Some ys"
  by (simp add: octets_in_def)

section \<open>Big-endian words\<close>

text \<open>\<open>u32::to_be_bytes\<close> and \<open>u32::from_be_bytes\<close>\<close>

definition to_be32 :: "u32 \<Rightarrow> u8 list" where
  "to_be32 v = [ucast (drop_bit 24 v), ucast (drop_bit 16 v), ucast (drop_bit 8 v), ucast v]"

definition be32 :: "u8 list \<Rightarrow> u32" where
  "be32 bs = fold (\<lambda>b v. push_bit 8 v OR ucast b) bs 0"

lemma length_to_be [simp]: "length (to_be v) = 2"
  by (simp add: to_be_def)

lemma length_to_be32 [simp]: "length (to_be32 v) = 4"
  by (simp add: to_be32_def)

lemma bit_be32: "bit (be32 [x, y, z, w]) n \<longleftrightarrow> (if n < 8 then bit w n else if n < 16 then bit z (n - 8)
    else if n < 24 then bit y (n - 16) else n < 32 \<and> bit x (n - 24))"
  by (cases "n < 8"; cases "n < 16"; cases "n < 24"; cases "n < 32")
    (auto simp: be32_def bit_or_iff bit_push_bit_iff bit_unsigned_iff dest: bit_imp_le_length)

lemma be32_to_be32: "be32 (to_be32 v) = v"
proof (rule bit_word_eqI)
  fix n assume "n < LENGTH(32)"
  then show "bit (be32 (to_be32 v)) n = bit v n"
    by (cases "n < 8"; cases "n < 16"; cases "n < 24")
      (auto simp: to_be32_def bit_be32 bit_unsigned_iff bit_drop_bit_eq)
qed

lemma be32_octets:
  "ucast (drop_bit 24 (be32 [a, b, c, d])) = a" "ucast (drop_bit 16 (be32 [a, b, c, d])) = b"
  "ucast (drop_bit 8 (be32 [a, b, c, d])) = c" "ucast (be32 [a, b, c, d]) = d"
  by (rule bit_word_eqI; simp add: bit_be32 bit_unsigned_iff bit_drop_bit_eq)+

lemma to_be32_be32: "to_be32 (be32 [a, b, c, d]) = [a, b, c, d]"
  by (simp add: to_be32_def be32_octets)

section \<open>Letters\<close>

text \<open>\<open>u8::is_ascii_alphabetic\<close>, \<open>u8::to_ascii_lowercase\<close> and \<open>eq_ignore_ascii_case\<close>\<close>

definition octet_upper :: "u8 \<Rightarrow> bool" where
  "octet_upper b \<longleftrightarrow> 65 \<le> b \<and> b \<le> 90"

definition octet_letter :: "u8 \<Rightarrow> bool" where
  "octet_letter b \<longleftrightarrow> octet_upper b \<or> 97 \<le> b \<and> b \<le> 122"

definition octet_lower :: "u8 \<Rightarrow> u8" where
  "octet_lower b = (if octet_upper b then b + 32 else b)"

definition octets_ignore_case_eq :: "u8 list \<Rightarrow> u8 list \<Rightarrow> bool" where
  "octets_ignore_case_eq xs ys \<longleftrightarrow> map octet_lower xs = map octet_lower ys"

end
