(* ===== verification/Dhcp.thy ===== *)
theory Dhcp
  imports Network_Registry Octets
begin

text \<open>
  \<open>dhcp.rs\<close>: the address pool of the access point. A client is known by its client identifier, or
  by its hardware address when it sends none; the pool has eight slots, each with an
  address of its own. The lemmas show what a slot may hold, which slot a request is given, and
  for how long an acknowledged address stays with its client.
\<close>

type_synonym dhcp_time = "64 word"

section \<open>Clients\<close>

text \<open>The fixed arrays with their lengths are the bytes up to the length, at most 32.\<close>

record dhcp_client =
  cl_hardware :: "u8 list"
  cl_identifier :: "u8 list"
  cl_hostname :: "u8 list"

definition new_client :: "u8 list \<Rightarrow> dhcp_client" where
  "new_client hardware = \<lparr>cl_hardware = hardware, cl_identifier = [], cl_hostname = []\<rparr>"

definition with_metadata :: "u8 list \<Rightarrow> u8 list \<Rightarrow> dhcp_client \<Rightarrow> dhcp_client" where
  "with_metadata ident hostname c = c\<lparr>cl_identifier := take 32 ident, cl_hostname := take 32 hostname\<rparr>"

definition lease_identity :: "dhcp_client \<Rightarrow> u8 list" where
  "lease_identity c = (if cl_identifier c = [] then cl_hardware c else cl_identifier c)"

definition same_client :: "dhcp_client \<Rightarrow> dhcp_client \<Rightarrow> bool" where
  "same_client c d \<longleftrightarrow> lease_identity c = lease_identity d"

text \<open>pete, brainstem, motherbrain, forebrain, gateway, control\<close>

definition reserved_hostnames :: "u8 list list" where
  "reserved_hostnames =
     [[112, 101, 116, 101], [98, 114, 97, 105, 110, 115, 116, 101, 109],
      [109, 111, 116, 104, 101, 114, 98, 114, 97, 105, 110], [102, 111, 114, 101, 98, 114, 97, 105, 110],
      [103, 97, 116, 101, 119, 97, 121], [99, 111, 110, 116, 114, 111, 108]]"

definition hostname_is_reserved :: "u8 list \<Rightarrow> bool" where
  "hostname_is_reserved hostname \<longleftrightarrow> list_ex (octets_ignore_case_eq hostname) reserved_hostnames"

section \<open>The pool\<close>

record pool_lease =
  pl_client :: dhcp_client
  pl_ip :: "u8 list"
  pl_expires_at_ms :: dhcp_time

type_synonym dhcp_pool = "pool_lease option list"

record dhcp_grant =
  gr_message_type :: u8
  gr_lease_ip :: "u8 list"

definition dhcp_pool_size :: nat where
  "dhcp_pool_size = 8"

definition dhcp_lease_seconds :: u32 where
  "dhcp_lease_seconds = 3600"

definition dhcp_offer_hold_seconds :: u32 where
  "dhcp_offer_hold_seconds = 30"

definition new_pool :: dhcp_pool where
  "new_pool = replicate dhcp_pool_size None"

definition pool_address :: "nat \<Rightarrow> u8 list" where
  "pool_address slot = [192, 168, 4, 2 + of_nat slot]"

definition holds_slot :: "dhcp_client \<Rightarrow> pool_lease option \<Rightarrow> bool" where
  "holds_slot client slot \<longleftrightarrow> (case slot of Some l \<Rightarrow> same_client (pl_client l) client | None \<Rightarrow> False)"

definition clear_expired :: "dhcp_time \<Rightarrow> dhcp_pool \<Rightarrow> dhcp_pool" where
  "clear_expired now_ms =
     map (\<lambda>slot. case slot of Some l \<Rightarrow> if pl_expires_at_ms l \<le> now_ms then None else slot | None \<Rightarrow> None)"

definition release :: "dhcp_client \<Rightarrow> dhcp_pool \<Rightarrow> dhcp_pool" where
  "release client pool =
     (case find_index (holds_slot client) pool of Some i \<Rightarrow> pool[i := None] | None \<Rightarrow> pool)"

definition preferred_slot :: "registry \<Rightarrow> dhcp_client \<Rightarrow> dhcp_pool \<Rightarrow> nat option" where
  "preferred_slot r client pool =
     (if lease_identity_is_motherbrain (lease_identity client) r \<and> pool ! 0 = None then Some 0 else None)"

definition reserve :: "registry \<Rightarrow> dhcp_client \<Rightarrow> dhcp_time \<Rightarrow> u32 \<Rightarrow> dhcp_pool \<Rightarrow> dhcp_pool \<times> u8 list option" where
  "reserve r client now_ms seconds pool =
     (let expires_at_ms = sat_add now_ms (ucast seconds * 1000) in
      case find_index (holds_slot client) pool of
        Some i \<Rightarrow>
          (pool[i := map_option (\<lambda>l. l\<lparr>pl_expires_at_ms := expires_at_ms\<rparr>) (pool ! i)], map_option pl_ip (pool ! i))
      | None \<Rightarrow>
          (case (case preferred_slot r client pool of Some i \<Rightarrow> Some i | None \<Rightarrow> find_index (\<lambda>slot. slot = None) pool) of
             None \<Rightarrow> (pool, None)
           | Some i \<Rightarrow>
               (pool[i := Some \<lparr>pl_client = client, pl_ip = pool_address i, pl_expires_at_ms = expires_at_ms\<rparr>],
                Some (pool_address i))))"

definition grant_of :: "u8 \<Rightarrow> u8 list option \<Rightarrow> dhcp_grant option" where
  "grant_of message_type ip = map_option (\<lambda>ip. \<lparr>gr_message_type = message_type, gr_lease_ip = ip\<rparr>) ip"

definition grant :: "registry \<Rightarrow> u8 \<Rightarrow> dhcp_client \<Rightarrow> dhcp_time \<Rightarrow> dhcp_pool \<Rightarrow> dhcp_pool \<times> dhcp_grant option" where
  "grant r message_type client now_ms pool =
     (let pool = clear_expired now_ms pool in
      if message_type = 1 then apsnd (grant_of 2) (reserve r client now_ms dhcp_offer_hold_seconds pool)
      else if message_type = 3 then apsnd (grant_of 5) (reserve r client now_ms dhcp_lease_seconds pool)
      else if message_type = 7 then (release client pool, None)
      else (pool, None))"

text \<open>Requests as they arrive: the time, the registry's state at that time, type and client.\<close>

type_synonym dhcp_arrival = "dhcp_time \<times> registry \<times> u8 \<times> dhcp_client"

fun serve :: "dhcp_arrival list \<Rightarrow> dhcp_pool \<Rightarrow> dhcp_pool \<times> (dhcp_client \<times> dhcp_grant) list" where
  "serve [] pool = (pool, [])"
| "serve ((now_ms, r, message_type, client) # arrivals) pool =
     (case grant r message_type client now_ms pool of
        (pool, g) \<Rightarrow> (case serve arrivals pool of
          (pool, gs) \<Rightarrow> (pool, (case g of Some g \<Rightarrow> [(client, g)] | None \<Rightarrow> []) @ gs)))"

section \<open>What a pool may hold\<close>

text \<open>Slot \<open>i\<close> holds address \<open>i\<close>, and no client holds two slots.\<close>

definition pool_ok :: "dhcp_pool \<Rightarrow> bool" where
  "pool_ok pool \<longleftrightarrow> length pool = dhcp_pool_size \<and>
     (\<forall>i < length pool. \<forall>l. pool ! i = Some l \<longrightarrow> pl_ip l = pool_address i) \<and>
     (\<forall>i < length pool. \<forall>j < length pool. \<forall>l m. pool ! i = Some l \<longrightarrow> pool ! j = Some m \<longrightarrow>
        same_client (pl_client l) (pl_client m) \<longrightarrow> i = j)"

lemma pool_address_inject:
  assumes "i < dhcp_pool_size" "j < dhcp_pool_size" "pool_address i = pool_address j"
  shows "i = j"
proof -
  have "(of_nat i :: u8) = of_nat j" using assms(3) by (simp add: pool_address_def)
  then have "unat (of_nat i :: u8) = unat (of_nat j :: u8)" by simp
  then show ?thesis using assms(1,2) by (simp add: unat_of_nat take_bit_eq_mod dhcp_pool_size_def)
qed

lemma same_client_refl [simp]: "same_client c c"
  by (simp add: same_client_def)

lemma same_client_sym: "same_client c d \<Longrightarrow> same_client d c"
  by (simp add: same_client_def)

lemma same_client_trans: "same_client c d \<Longrightarrow> same_client d e \<Longrightarrow> same_client c e"
  by (simp add: same_client_def)

lemma holds_slot_None [simp]: "\<not> holds_slot c None"
  by (simp add: holds_slot_def)

lemma holds_slot_Some [simp]: "holds_slot c (Some l) \<longleftrightarrow> same_client (pl_client l) c"
  by (simp add: holds_slot_def)

lemma new_pool_ok: "pool_ok new_pool"
  by (simp add: pool_ok_def new_pool_def)

lemma length_clear_expired [simp]: "length (clear_expired now_ms pool) = length pool"
  by (simp add: clear_expired_def)

lemma clear_expired_nth:
  "i < length pool \<Longrightarrow> clear_expired now_ms pool ! i = Some l \<longleftrightarrow>
     pool ! i = Some l \<and> now_ms < pl_expires_at_ms l"
  by (auto simp: clear_expired_def not_le split: option.splits if_splits)

lemma pool_ok_clear_expired: "pool_ok pool \<Longrightarrow> pool_ok (clear_expired now_ms pool)"
  unfolding pool_ok_def by (simp add: clear_expired_nth)

lemma pool_okI:
  assumes "length pool = dhcp_pool_size"
    and "\<And>i l. i < length pool \<Longrightarrow> pool ! i = Some l \<Longrightarrow> pl_ip l = pool_address i"
    and "\<And>i j l m. i < length pool \<Longrightarrow> j < length pool \<Longrightarrow> pool ! i = Some l \<Longrightarrow> pool ! j = Some m \<Longrightarrow>
      same_client (pl_client l) (pl_client m) \<Longrightarrow> i = j"
  shows "pool_ok pool"
  unfolding pool_ok_def using assms by blast

lemma pool_ok_ip: "pool_ok pool \<Longrightarrow> i < length pool \<Longrightarrow> pool ! i = Some l \<Longrightarrow> pl_ip l = pool_address i"
  by (simp add: pool_ok_def)

lemma pool_ok_distinct:
  "pool_ok pool \<Longrightarrow> i < length pool \<Longrightarrow> j < length pool \<Longrightarrow> pool ! i = Some l \<Longrightarrow> pool ! j = Some m \<Longrightarrow>
     same_client (pl_client l) (pl_client m) \<Longrightarrow> i = j"
  unfolding pool_ok_def by blast

lemma pool_ok_length: "pool_ok pool \<Longrightarrow> length pool = dhcp_pool_size"
  by (simp add: pool_ok_def)

lemma pool_ok_vacate:
  assumes "pool_ok pool"
  shows "pool_ok (pool[i := None])"
proof (rule pool_okI)
  show "length (pool[i := None]) = dhcp_pool_size" using assms by (simp add: pool_ok_def)
next
  fix j l assume "j < length (pool[i := None])" "pool[i := None] ! j = Some l"
  then show "pl_ip l = pool_address j"
    using pool_ok_ip [OF assms, of j l] by (cases "j = i") simp_all
next
  fix j k l m
  assume "j < length (pool[i := None])" "k < length (pool[i := None])" "pool[i := None] ! j = Some l"
    "pool[i := None] ! k = Some m" "same_client (pl_client l) (pl_client m)"
  then show "j = k"
    using pool_ok_distinct [OF assms, of j k l m] by (cases "j = i"; cases "k = i") simp_all
qed

text \<open>A slot is filled with its own address for a client that holds no other slot.\<close>

lemma pool_ok_fill:
  assumes "pool_ok pool" and "pl_ip l = pool_address i"
    and other: "\<And>j m. j < length pool \<Longrightarrow> pool ! j = Some m \<Longrightarrow> same_client (pl_client m) (pl_client l) \<Longrightarrow> j = i"
  shows "pool_ok (pool[i := Some l])"
proof (rule pool_okI)
  show "length (pool[i := Some l]) = dhcp_pool_size" using assms(1) by (simp add: pool_ok_def)
next
  fix j m assume "j < length (pool[i := Some l])" "pool[i := Some l] ! j = Some m"
  then show "pl_ip m = pool_address j"
    using pool_ok_ip [OF assms(1), of j m] assms(2) by (cases "j = i") simp_all
next
  fix j k m n
  assume *: "j < length (pool[i := Some l])" "k < length (pool[i := Some l])" "pool[i := Some l] ! j = Some m"
    "pool[i := Some l] ! k = Some n" "same_client (pl_client m) (pl_client n)"
  have sym: "same_client (pl_client n) (pl_client m)" using *(5) by (rule same_client_sym)
  consider "j = i" "k = i" | "j = i" "k \<noteq> i" | "j \<noteq> i" "k = i" | "j \<noteq> i" "k \<noteq> i" by blast
  then show "j = k"
  proof cases
    case 2
    then have "k = i" using * sym by (intro other [of k n]) simp_all
    then show ?thesis using 2 by simp
  next
    case 3
    then have "j = i" using * by (intro other [of j m]) simp_all
    then show ?thesis using 3 by simp
  next
    case 4
    then show ?thesis using * pool_ok_distinct [OF assms(1), of j k m n] by simp
  qed simp
qed

section \<open>What a request is given\<close>

text \<open>A reservation is refused, with the pool unchanged, only when every slot is somebody else's; otherwise
  it fills the client's slot or a free one.\<close>

lemma reserve_cases:
  assumes "pool_ok pool"
  obtains
    (full) "reserve r client now_ms seconds pool = (pool, None)"
      "\<forall>i < length pool. \<exists>l. pool ! i = Some l \<and> \<not> same_client (pl_client l) client"
  | (given) i l where "i < length pool"
      "reserve r client now_ms seconds pool = (pool[i := Some l], Some (pool_address i))"
      "same_client (pl_client l) client" "pl_ip l = pool_address i"
      "pl_expires_at_ms l = sat_add now_ms (ucast seconds * 1000)"
      "pool ! i = None \<and> (\<forall>s \<in> set pool. \<not> holds_slot client s) \<or> holds_slot client (pool ! i)"
proof (cases "find_index (holds_slot client) pool")
  case (Some i)
  from find_index_Some [OF Some] have i: "i < length pool" "holds_slot client (pool ! i)" by auto
  then obtain l where l: "pool ! i = Some l" by (cases "pool ! i") auto
  have "pl_ip l = pool_address i" using assms i(1) l by (simp add: pool_ok_def)
  with i l Some show ?thesis
    by (intro given [of i "l\<lparr>pl_expires_at_ms := sat_add now_ms (ucast seconds * 1000)\<rparr>"])
      (simp_all add: reserve_def Let_def)
next
  case None
  then have nobody: "\<forall>s \<in> set pool. \<not> holds_slot client s" by (simp add: find_index_None)
  define slot where "slot = (case preferred_slot r client pool of
      Some i \<Rightarrow> Some i | None \<Rightarrow> find_index (\<lambda>slot. slot = None) pool)"
  have eq: "reserve r client now_ms seconds pool = (case slot of None \<Rightarrow> (pool, None) | Some i \<Rightarrow>
      (pool[i := Some \<lparr>pl_client = client, pl_ip = pool_address i,
         pl_expires_at_ms = sat_add now_ms (ucast seconds * 1000)\<rparr>], Some (pool_address i)))"
    by (simp add: reserve_def None slot_def Let_def)
  show ?thesis
  proof (cases slot)
    case None
    then have "\<forall>s \<in> set pool. s \<noteq> None"
      by (simp add: slot_def find_index_None split: option.splits)
    with nobody have "\<forall>i < length pool. \<exists>l. pool ! i = Some l \<and> \<not> same_client (pl_client l) client"
      by (metis holds_slot_Some not_None_eq nth_mem)
    with eq None show ?thesis by (intro full) auto
  next
    case (Some i)
    have "0 < length pool" using assms by (simp add: pool_ok_def dhcp_pool_size_def)
    with Some have "i < length pool \<and> pool ! i = None"
      using find_index_Some [of "\<lambda>slot. slot = None" pool i]
      by (auto simp: slot_def preferred_slot_def split: option.splits if_splits)
    with nobody eq Some show ?thesis by (intro given) auto
  qed
qed

lemma pool_ok_reserve:
  assumes "pool_ok pool"
  shows "pool_ok (fst (reserve r client now_ms seconds pool))"
proof (rule reserve_cases [OF assms, of r client now_ms seconds])
  assume "reserve r client now_ms seconds pool = (pool, None)"
  then show ?thesis using assms by simp
next
  fix i l
  assume i: "i < length pool"
    and eq: "reserve r client now_ms seconds pool = (pool[i := Some l], Some (pool_address i))"
    and l: "same_client (pl_client l) client" "pl_ip l = pool_address i"
    and free: "pool ! i = None \<and> (\<forall>s \<in> set pool. \<not> holds_slot client s) \<or> holds_slot client (pool ! i)"
  have "j = i" if j: "j < length pool" "pool ! j = Some m" "same_client (pl_client m) (pl_client l)" for j m
  proof -
    have m: "same_client (pl_client m) client" using j(3) l(1) by (rule same_client_trans)
    with j have "holds_slot client (pool ! j)" "pool ! j \<in> set pool" by (simp, metis nth_mem)
    with free have "holds_slot client (pool ! i)" by blast
    then obtain k where "pool ! i = Some k" "same_client (pl_client k) client" by (cases "pool ! i") auto
    with m have "pool ! i = Some k" "same_client (pl_client m) (pl_client k)"
      by (auto simp: same_client_def)
    then show ?thesis using assms i j by (simp add: pool_ok_def)
  qed
  with assms l(2) eq show ?thesis by (simp add: pool_ok_fill)
qed

lemma pool_ok_release: "pool_ok pool \<Longrightarrow> pool_ok (release client pool)"
  by (simp add: release_def pool_ok_vacate split: option.split)

lemma pool_ok_grant: "pool_ok pool \<Longrightarrow> pool_ok (fst (grant r message_type client now_ms pool))"
  by (simp add: grant_def Let_def pool_ok_reserve pool_ok_release pool_ok_clear_expired)

text \<open>The contract of a pool over everything that may arrive.\<close>

locale pool_invariant =
  fixes inv :: "dhcp_pool \<Rightarrow> bool"
    and admits :: "dhcp_arrival \<Rightarrow> bool"
    and allowed :: "dhcp_client \<times> dhcp_grant \<Rightarrow> bool"
  assumes kept: "inv pool \<Longrightarrow> admits (now_ms, r, m, c) \<Longrightarrow> inv (fst (grant r m c now_ms pool))"
    and granted: "inv pool \<Longrightarrow> admits (now_ms, r, m, c) \<Longrightarrow> snd (grant r m c now_ms pool) = Some g \<Longrightarrow>
      allowed (c, g)"
begin

lemma served:
  "inv pool \<Longrightarrow> \<forall>a \<in> set arrivals. admits a \<Longrightarrow>
     inv (fst (serve arrivals pool)) \<and> (\<forall>cg \<in> set (snd (serve arrivals pool)). allowed cg)"
proof (induction arrivals arbitrary: pool)
  case (Cons a arrivals)
  obtain now_ms r m c where a: "a = (now_ms, r, m, c)" by (cases a)
  obtain pool' g where g: "grant r m c now_ms pool = (pool', g)" by (cases "grant r m c now_ms pool")
  have ad: "admits (now_ms, r, m, c)" using Cons.prems(2) a by simp
  have "inv pool'" using kept [OF Cons.prems(1) ad] g by simp
  with Cons have "inv (fst (serve arrivals pool')) \<and> (\<forall>cg \<in> set (snd (serve arrivals pool')). allowed cg)"
    by simp
  then show ?case using granted [OF Cons.prems(1) ad] g
    by (auto simp: a split: prod.splits option.splits)
qed simp

lemma served_inv: "inv pool \<Longrightarrow> \<forall>a \<in> set arrivals. admits a \<Longrightarrow> inv (fst (serve arrivals pool))"
  using served by blast

lemma served_allowed:
  "inv pool \<Longrightarrow> \<forall>a \<in> set arrivals. admits a \<Longrightarrow> cg \<in> set (snd (serve arrivals pool)) \<Longrightarrow> allowed cg"
  using served by blast

end

interpretation well_formed: pool_invariant pool_ok "\<lambda>_. True" "\<lambda>_. True"
  by unfold_locales (simp_all add: pool_ok_grant)

lemma served_pool_ok: "pool_ok (fst (serve arrivals new_pool))"
  using well_formed.served_inv [OF new_pool_ok] by simp

section \<open>An owner and its term\<close>

definition owns :: "dhcp_client \<Rightarrow> u8 list \<Rightarrow> dhcp_time \<Rightarrow> dhcp_pool \<Rightarrow> bool" where
  "owns client ip until pool \<longleftrightarrow> (\<exists>i < length pool. \<exists>l. pool ! i = Some l \<and>
     same_client (pl_client l) client \<and> pl_ip l = ip \<and> until \<le> pl_expires_at_ms l)"

lemma owns_clear_expired: "owns c ip until pool \<Longrightarrow> now_ms < until \<Longrightarrow> owns c ip until (clear_expired now_ms pool)"
  by (fastforce simp: owns_def clear_expired_nth)

lemma owner_is_given:
  assumes "pool_ok pool" "owns c ip until pool" "snd (reserve r d now_ms seconds pool) = Some ip"
  shows "same_client d c"
proof (rule reserve_cases [OF assms(1), of r d now_ms seconds])
  assume "reserve r d now_ms seconds pool = (pool, None)"
  then show ?thesis using assms(3) by simp
next
  fix i l
  assume i: "i < length pool"
    and eq: "reserve r d now_ms seconds pool = (pool[i := Some l], Some (pool_address i))"
    and free: "pool ! i = None \<and> (\<forall>s \<in> set pool. \<not> holds_slot d s) \<or> holds_slot d (pool ! i)"
  obtain j k where j: "j < length pool" "pool ! j = Some k" "same_client (pl_client k) c" "pl_ip k = ip"
    using assms(2) by (auto simp: owns_def)
  have "pool_address j = pool_address i" using assms(1,3) j eq by (auto simp: pool_ok_def)
  then have "j = i" using assms(1) i j(1) by (intro pool_address_inject) (simp_all add: pool_ok_def)
  with free j(2,3) show ?thesis by (auto simp: same_client_def)
qed

lemma owns_reserve:
  assumes "pool_ok pool" "owns c ip until pool"
    and "same_client d c \<Longrightarrow> until \<le> sat_add now_ms (ucast seconds * 1000)"
  shows "owns c ip until (fst (reserve r d now_ms seconds pool))"
proof (rule reserve_cases [OF assms(1), of r d now_ms seconds])
  assume "reserve r d now_ms seconds pool = (pool, None)"
  then show ?thesis using assms(2) by simp
next
  fix i l
  assume i: "i < length pool"
    and eq: "reserve r d now_ms seconds pool = (pool[i := Some l], Some (pool_address i))"
    and l: "same_client (pl_client l) d" "pl_ip l = pool_address i"
      "pl_expires_at_ms l = sat_add now_ms (ucast seconds * 1000)"
    and free: "pool ! i = None \<and> (\<forall>s \<in> set pool. \<not> holds_slot d s) \<or> holds_slot d (pool ! i)"
  obtain j k where j: "j < length pool" "pool ! j = Some k" "same_client (pl_client k) c" "pl_ip k = ip"
      "until \<le> pl_expires_at_ms k"
    using assms(2) by (auto simp: owns_def)
  show ?thesis
  proof (cases "j = i")
    case True
    with free j have "same_client (pl_client k) d" by auto
    with j(3) l(1) have "same_client d c" "same_client (pl_client l) c" by (auto simp: same_client_def)
    moreover have "pl_ip l = ip" using True assms(1) j l(2) by (auto simp: pool_ok_def)
    ultimately show ?thesis using eq i l(3) assms(3) by (auto simp: owns_def intro!: exI [of _ i])
  next
    case False
    with j eq show ?thesis by (auto simp: owns_def intro!: exI [of _ j])
  qed
qed

lemma owns_release:
  assumes "owns c ip until pool" "\<not> same_client d c"
  shows "owns c ip until (release d pool)"
proof (cases "find_index (holds_slot d) pool")
  case (Some i)
  obtain j k where j: "j < length pool" "pool ! j = Some k" "same_client (pl_client k) c" "pl_ip k = ip"
      "until \<le> pl_expires_at_ms k"
    using assms(1) by (auto simp: owns_def)
  have "j \<noteq> i" using find_index_Some [OF Some] j assms(2) by (auto simp: same_client_def)
  with Some j show ?thesis by (auto simp: owns_def release_def intro!: exI [of _ j])
qed (simp add: release_def assms)

lemma reserve_owned:
  assumes "pool_ok pool" "snd (reserve r c now_ms seconds pool) = Some ip"
  shows "owns c ip (sat_add now_ms (ucast seconds * 1000)) (fst (reserve r c now_ms seconds pool))"
  by (rule reserve_cases [OF assms(1), of r c now_ms seconds]) (use assms(2) in \<open>auto simp: owns_def\<close>)

lemma sat_add_mono: "a \<le> b \<Longrightarrow> sat_add a x \<le> sat_add b (x :: 'a::len word)"
  by (simp add: word_le_nat_alt unat_sat_add)

lemma lease_ms: "ucast dhcp_lease_seconds * 1000 = (3600000 :: dhcp_time)"
    "ucast dhcp_offer_hold_seconds * 1000 = (30000 :: dhcp_time)"
  by (simp_all add: dhcp_lease_seconds_def dhcp_offer_hold_seconds_def)

lemmas grant_rules = grant_def Let_def lease_ms grant_of_def

lemma owner_kept_by_grant:
  assumes "pool_ok pool" "owns c ip until pool" "now_ms < until"
    and "same_client d c \<Longrightarrow> m \<noteq> 1 \<and> m \<noteq> 7 \<and> until \<le> sat_add now_ms 3600000"
  shows "owns c ip until (fst (grant r m d now_ms pool))"
    and "snd (grant r m d now_ms pool) = Some g \<Longrightarrow> gr_lease_ip g = ip \<Longrightarrow> same_client d c"
proof -
  note clear = pool_ok_clear_expired [OF assms(1)] owns_clear_expired [OF assms(2,3)]
  have kept: "owns c ip until (fst (reserve r d now_ms seconds (clear_expired now_ms pool)))"
    if "same_client d c \<Longrightarrow> ucast seconds * 1000 = (3600000 :: dhcp_time)" "same_client d c \<Longrightarrow> m \<noteq> 1 \<and> m \<noteq> 7"
    for seconds
    using owns_reserve [OF clear] that assms(4) by simp
  show "owns c ip until (fst (grant r m d now_ms pool))"
    using assms(4) kept owns_release [OF clear(2), of d] clear(2)
    by (simp add: grant_rules; cases "same_client d c"; simp)
  show "snd (grant r m d now_ms pool) = Some g \<Longrightarrow> gr_lease_ip g = ip \<Longrightarrow> same_client d c"
    using owner_is_given [OF clear] by (auto simp: grant_rules split: if_splits)
qed

interpretation owner: pool_invariant "\<lambda>pool. pool_ok pool \<and> owns c ip until pool"
    "\<lambda>(now_ms, r, m, d). now_ms < until \<and>
       (same_client d c \<longrightarrow> m \<noteq> 1 \<and> m \<noteq> 7 \<and> until \<le> sat_add now_ms 3600000)"
    "\<lambda>(d, g). gr_lease_ip g = ip \<longrightarrow> same_client d c" for c ip until
proof (unfold_locales, goal_cases)
  case (1 pool now_ms r m d)
  then show ?case by (simp add: pool_ok_grant owner_kept_by_grant(1))
next
  case (2 pool now_ms r m d g)
  then show ?case using owner_kept_by_grant(2) [of pool c ip until now_ms d m r g] by simp
qed

section \<open>Pools of one client\<close>

lemma new_pool_cons: "new_pool = None # replicate 7 None"
  by (simp add: new_pool_def dhcp_pool_size_def eval_nat_numeral)

lemma clear_new_pool: "clear_expired now_ms new_pool = new_pool"
  by (simp add: clear_expired_def new_pool_def)

lemma reserve_new_pool: "reserve r c now_ms seconds new_pool =
    (Some \<lparr>pl_client = c, pl_ip = pool_address 0, pl_expires_at_ms = sat_add now_ms (ucast seconds * 1000)\<rparr> #
       replicate 7 None, Some (pool_address 0))"
proof -
  have "find_index (holds_slot c) new_pool = None" by (simp add: find_index_None new_pool_def)
  then show ?thesis by (simp add: reserve_def Let_def preferred_slot_def new_pool_cons split: option.split)
qed

lemma reserve_held: "same_client (pl_client l) c \<Longrightarrow> reserve r c now_ms seconds (Some l # rest) =
    (Some (l\<lparr>pl_expires_at_ms := sat_add now_ms (ucast seconds * 1000)\<rparr>) # rest, Some (pl_ip l))"
  by (simp add: reserve_def Let_def)

section \<open>Two clients\<close>

lemma seven_free: "replicate 7 x = x # replicate 6 x"
  by (simp add: eval_nat_numeral)

lemma nobody_free: "find_index (holds_slot c) (replicate n None) = None"
  by (simp add: find_index_None)

definition first_client :: dhcp_client where
  "first_client = new_client [2, 0, 0, 0, 0, 1]"

definition second_client :: dhcp_client where
  "second_client = new_client [2, 0, 0, 0, 0, 2]"

lemma two_clients: "\<not> same_client second_client first_client" "\<not> same_client first_client second_client"
  by (simp_all add: same_client_def lease_identity_def first_client_def second_client_def new_client_def)

lemma first_acknowledged: "grant initial_registry 3 first_client 0 new_pool =
    (Some \<lparr>pl_client = first_client, pl_ip = pool_address 0, pl_expires_at_ms = 3600000\<rparr> # replicate 7 None,
     Some \<lparr>gr_message_type = 5, gr_lease_ip = pool_address 0\<rparr>)"
  by (simp add: grant_rules clear_new_pool reserve_new_pool sat_add_def)

lemma second_offered: "snd (grant r 1 second_client 1000
    (Some \<lparr>pl_client = first_client, pl_ip = pool_address 0, pl_expires_at_ms = 3600000\<rparr> # replicate 7 None)) =
    Some \<lparr>gr_message_type = 2, gr_lease_ip = pool_address 1\<rparr>"
  by (simp add: grant_rules clear_expired_def reserve_def Let_def preferred_slot_def two_clients seven_free nobody_free)

section \<open>Properties\<close>


text \<open>C34. A request is refused only when the pool is full: a discovery or request gets no address
  exactly if all eight slots hold leases of other clients that have not expired.\<close>

theorem refusal_means_full_pool:
  assumes "m = 1 \<or> m = 3" and "pool = fst (serve earlier new_pool)"
  shows "snd (grant r m c now_ms pool) = None \<longleftrightarrow>
    (\<forall>i < dhcp_pool_size. \<exists>l. pool ! i = Some l \<and> now_ms < pl_expires_at_ms l \<and>
       \<not> same_client (pl_client l) c)"
proof -
  let ?now = "clear_expired now_ms pool"
  have ok: "pool_ok ?now" unfolding assms(2) by (rule pool_ok_clear_expired [OF served_pool_ok])
  have len: "length pool = dhcp_pool_size" using ok by (simp add: pool_ok_def)
  have "snd (reserve r c now_ms seconds ?now) = None \<longleftrightarrow>
      (\<forall>i < length ?now. \<exists>l. ?now ! i = Some l \<and> \<not> same_client (pl_client l) c)" for seconds
    by (rule reserve_cases [OF ok, of r c now_ms seconds])
      (auto simp: in_set_conv_nth holds_slot_def split: option.splits)
  then show ?thesis
    using assms(1) len by (auto simp: grant_rules clear_expired_nth)
qed

text \<open>A discovery gives an acknowledged address away: a client that has acknowledged its address for
  an hour and sends a discovery within it is left thirty seconds, since the discovery replaces the
  expiry of the lease; after them the next client is given the same address, while the first
  still uses it.\<close>

theorem discovery_gives_address_away:
  assumes "\<not> same_client d c" and "now_ms \<le> u" and "u < now_ms + 3600000" and "unat now_ms < 2 ^ 63"
  shows "serve [(now_ms, r, 3, c), (u, r', 1, c), (u + 30000, r'', 3, d)] new_pool =
     ([Some \<lparr>pl_client = d, pl_ip = [192, 168, 4, 2], pl_expires_at_ms = u + 3630000\<rparr>] @ replicate 7 None,
      [(c, \<lparr>gr_message_type = 5, gr_lease_ip = [192, 168, 4, 2]\<rparr>),
       (c, \<lparr>gr_message_type = 2, gr_lease_ip = [192, 168, 4, 2]\<rparr>),
       (d, \<lparr>gr_message_type = 5, gr_lease_ip = [192, 168, 4, 2]\<rparr>)])"
proof -
  let ?s = "\<lambda>x t. Some \<lparr>pl_client = x, pl_ip = [192, 168, 4, 2], pl_expires_at_ms = t\<rparr> # replicate 7 None"
  let ?g = "\<lambda>m. Some \<lparr>gr_message_type = m, gr_lease_ip = [192, 168, 4, 2]\<rparr>"
  have sum: "unat (now_ms + 3600000) = unat now_ms + 3600000"
    using assms(4) by (simp add: unat_word_ariths)
  have "unat u < unat now_ms + 3600000" using assms(3) sum by (simp add: word_less_nat_alt)
  with assms(4) have unats: "unat (u + 30000) = unat u + 30000" "unat u + 3630000 < 2 ^ 64"
    by (simp_all add: unat_word_ariths)
  have sats: "sat_add now_ms 3600000 = now_ms + 3600000" "sat_add u 30000 = u + 30000"
      "sat_add (u + 30000) 3600000 = u + 3630000"
    using assms(4) unats by (simp_all add: sat_add_def add.assoc)
  have "grant r 3 c now_ms new_pool = (?s c (now_ms + 3600000), ?g 5)"
    by (simp add: grant_rules clear_new_pool reserve_new_pool sats pool_address_def)
  moreover have "grant r' 1 c u (?s c (now_ms + 3600000)) = (?s c (u + 30000), ?g 2)"
    using assms(3) by (simp add: grant_rules clear_expired_def reserve_held sats not_le [symmetric])
  moreover have "grant r'' 3 d (u + 30000) (?s c (u + 30000)) = (?s d (u + 3630000), ?g 5)"
    by (simp add: grant_rules clear_expired_def reserve_new_pool [unfolded new_pool_cons] sats pool_address_def)
  ultimately show ?thesis by simp
qed


theorem refusal_means_full_pool_witness:
  "snd (grant initial_registry 1 first_client 0 new_pool) \<noteq> None"
proof -
  have "\<not> (\<forall>i < dhcp_pool_size. \<exists>l. new_pool ! i = Some l \<and> 0 < pl_expires_at_ms l \<and>
      \<not> same_client (pl_client l) first_client)"
    by (auto simp: new_pool_def dhcp_pool_size_def intro!: exI [of _ 0])
  then show ?thesis
    using refusal_means_full_pool [of 1 new_pool "[]" initial_registry first_client 0] by (simp del: not_None_eq)
qed

theorem discovery_gives_address_away_witness:
  "snd (serve [(0, initial_registry, 3, first_client), (1000, initial_registry, 1, first_client),
       (31000, initial_registry, 3, second_client)] new_pool) =
     [(first_client, \<lparr>gr_message_type = 5, gr_lease_ip = [192, 168, 4, 2]\<rparr>),
      (first_client, \<lparr>gr_message_type = 2, gr_lease_ip = [192, 168, 4, 2]\<rparr>),
      (second_client, \<lparr>gr_message_type = 5, gr_lease_ip = [192, 168, 4, 2]\<rparr>)]"
  using discovery_gives_address_away [OF two_clients(1), of 0 1000 initial_registry initial_registry initial_registry]
  by simp

end
