(* ===== verification/Icmp.thy ===== *)
theory Icmp
  imports Octets Status_Marks
begin

text \<open>
  \<open>icmp.rs\<close> and the packet device of \<open>arch/pico_w/hardware.rs\<close>: echo requests to the access point are
  answered in place, at most four in a window of a second, before the network stack sees them. The
  lemmas show that the checksum routine computes a one's complement sum, what a reply
  consists of, and what the device does with every frame.
\<close>

section \<open>The checksum\<close>

text \<open>\<open>chunks_exact(2)\<close> with its remainder, summed in a \<open>u32\<close>\<close>

fun sum_pairs :: "u8 list \<Rightarrow> u32 \<Rightarrow> u32" where
  "sum_pairs [] s = s"
| "sum_pairs [b] s = s + push_bit 8 (ucast b)"
| "sum_pairs (b # c # bs) s = sum_pairs bs (s + ucast (be16 b c))"

lemma unat_low16: "unat (s AND 0xFFFF :: u32) = unat s mod 65536"
proof -
  have "s AND 0xFFFF = take_bit 16 s" by (simp add: take_bit_eq_mask mask_eq_exp_minus_1)
  then show ?thesis by (simp add: take_bit_eq_mod unat_mod)
qed

lemma unat_high16: "unat (drop_bit 16 s :: u32) = unat s div 65536"
  by (simp add: drop_bit_eq_div unat_div)

text \<open>A number and what is left of it after one carry is folded in.\<close>

lemma fold_once:
  fixes n :: nat
  assumes "65536 \<le> n"
  shows "n mod 65536 + n div 65536 < n" "n mod 65536 + n div 65536 \<noteq> 0"
    "n - 1 = (n mod 65536 + n div 65536 - 1) + 65535 * (n div 65536)"
proof -
  have "n = 65536 * (n div 65536) + n mod 65536" by simp
  moreover have "1 \<le> n div 65536" using assms by (simp add: less_eq_div_iff_mult_less_eq)
  ultimately show "n mod 65536 + n div 65536 < n" "n mod 65536 + n div 65536 \<noteq> 0"
    "n - 1 = (n mod 65536 + n div 65536 - 1) + 65535 * (n div 65536)"
    by linarith+
qed

lemma unat_carry: "unat ((s AND 0xFFFF) + drop_bit 16 s :: u32) = unat s mod 65536 + unat s div 65536"
proof -
  have "unat s < 4294967296" using unsigned_less [of s] by simp
  then have "unat s mod 65536 + unat s div 65536 < 2 ^ LENGTH(32)" by simp
  then show ?thesis by (simp add: unat_word_ariths unat_low16 unat_high16)
qed

lemma high16_nonzero: "drop_bit 16 (s :: u32) \<noteq> 0 \<longleftrightarrow> 65536 \<le> unat s"
  by (simp add: unat_eq_zero [symmetric] unat_high16 div_eq_0_iff not_less)

function fold_carry :: "u32 \<Rightarrow> u32" where
  "fold_carry s = (if drop_bit 16 s \<noteq> 0 then fold_carry ((s AND 0xFFFF) + drop_bit 16 s) else s)"
  by auto
termination
proof (relation "measure unat")
  fix s :: u32
  assume "drop_bit 16 s \<noteq> 0"
  then have "65536 \<le> unat s" by (simp only: high16_nonzero)
  then have "unat s mod 65536 + unat s div 65536 < unat s" by (rule fold_once)
  then show "((s AND 0xFFFF) + drop_bit 16 s, s) \<in> measure unat" by (simp add: unat_carry)
qed simp

declare fold_carry.simps [simp del]

definition ipv4_checksum :: "u8 list \<Rightarrow> u16" where
  "ipv4_checksum bytes = NOT (ucast (fold_carry (sum_pairs bytes 0)))"

section \<open>Replies per window\<close>

record icmp_rate_limit =
  rl_window_started_ms :: "64 word"
  rl_replies_in_window :: u8

definition new_rate_limit :: icmp_rate_limit where
  "new_rate_limit = \<lparr>rl_window_started_ms = 0, rl_replies_in_window = 0\<rparr>"

definition icmp_echo_reply_limit :: u8 where
  "icmp_echo_reply_limit = 4"

definition rate_allow :: "64 word \<Rightarrow> icmp_rate_limit \<Rightarrow> icmp_rate_limit \<times> bool" where
  "rate_allow now_ms l =
     (let l = (if 1000 \<le> now_ms - rl_window_started_ms l
               then \<lparr>rl_window_started_ms = now_ms, rl_replies_in_window = 0\<rparr> else l)
      in if icmp_echo_reply_limit \<le> rl_replies_in_window l then (l, False)
         else (l\<lparr>rl_replies_in_window := rl_replies_in_window l + 1\<rparr>, True))"

section \<open>One frame\<close>

datatype icmp_disposition = NotIcmp | IcmpReply nat | RateLimited | IcmpDropped

definition ap_ip :: "u8 list" where
  "ap_ip = [192, 168, 4, 1]"

definition icmp_max_frame_len :: nat where
  "icmp_max_frame_len = 1280"

text \<open>The tests of the headers: the disposition of a frame that fails one, or the lengths of the header
  and of the packet.\<close>

definition icmp_headers :: "u8 list \<Rightarrow> (icmp_disposition + nat \<times> nat) option" where
  "icmp_headers frame =
     (if length frame < 14 \<or> take 2 (drop 12 frame) \<noteq> [0x08, 0x00] then Some (Inl NotIcmp)
      else (let ip = drop 14 frame in
        if length ip < 20 \<or> drop_bit 4 (ip ! 0) \<noteq> 4 \<or> ip ! 9 \<noteq> 1 then Some (Inl NotIcmp)
        else if icmp_max_frame_len < length frame then Some (Inl IcmpDropped)
        else (let header_len = unat (ip ! 0 AND 0x0F) * 4 in
          if header_len < 20 \<or> length ip < header_len then Some (Inl IcmpDropped)
          else (let total_len = unat (be16 (ip ! 2) (ip ! 3)) in
            if total_len < header_len + 8 \<or> length ip < total_len then Some (Inl IcmpDropped)
            else do {
              header \<leftarrow> octets_in ip 0 header_len;
              (if ipv4_checksum header \<noteq> 0 then Some (Inl IcmpDropped)
               else if take 4 (drop 16 ip) \<noteq> ap_ip \<or> take 4 (drop 12 ip) = [0, 0, 0, 0] \<or> 224 \<le> ip ! 12
               then Some (Inl IcmpDropped)
               else if be16 (ip ! 6) (ip ! 7) AND 0x3FFF \<noteq> 0 then Some (Inl IcmpDropped)
               else Some (Inr (header_len, total_len)))
            }))))"

definition icmp_admit :: "u8 list \<Rightarrow> (icmp_disposition + nat \<times> nat) option" where
  "icmp_admit frame = do {
     headers \<leftarrow> icmp_headers frame;
     (case headers of
        Inl disposition \<Rightarrow> Some (Inl disposition)
      | Inr (header_len, total_len) \<Rightarrow>
          (let icmp_end = 14 + total_len; icmp_start = 14 + header_len in do {
             message \<leftarrow> octets_in frame icmp_start icmp_end;
             kind \<leftarrow> octet_at frame icmp_start;
             subtype \<leftarrow> octet_at frame (icmp_start + 1);
             (if ipv4_checksum message \<noteq> 0 \<or> kind \<noteq> 8 \<or> subtype \<noteq> 0 then Some (Inl IcmpDropped)
              else Some (Inr (header_len, total_len)))
           }))
   }"

text \<open>The header of the reply, with the checksum still zero or filled in.\<close>

definition reply_header :: "u16 \<Rightarrow> u8 list \<Rightarrow> u16 \<Rightarrow> u8 list" where
  "reply_header total_len destination checksum =
     [0x45, 0] @ to_be total_len @ [0, 0, 0, 0, 64, 1] @ to_be checksum @ ap_ip @ destination"

definition icmp_write_reply :: "nat \<Rightarrow> nat \<Rightarrow> u8 list \<Rightarrow> (nat \<times> u8 list) option" where
  "icmp_write_reply header_len total_len frame =
     (let icmp_end = 14 + total_len; icmp_start = 14 + header_len; icmp_len = total_len - header_len in do {
        source_mac \<leftarrow> octets_in frame 0 6;
        destination_mac \<leftarrow> octets_in frame 6 12;
        source_ip \<leftarrow> octets_in frame 26 30;
        frame \<leftarrow> octets_put frame 0 6 destination_mac;
        frame \<leftarrow> octets_put frame 6 12 source_mac;
        (let checksum = ipv4_checksum (reply_header (of_nat (20 + icmp_len)) source_ip 0) in do {
           frame \<leftarrow> octets_put frame 14 34 (reply_header (of_nat (20 + icmp_len)) source_ip checksum);
           moved \<leftarrow> octets_in frame (icmp_start + 4) icmp_end;
           frame \<leftarrow> octets_put frame 38 (38 + length moved) moved;
           frame \<leftarrow> octets_put frame 34 38 [0, 0, 0, 0];
           message \<leftarrow> octets_in frame 34 (34 + icmp_len);
           frame \<leftarrow> octets_put frame 36 38 (to_be (ipv4_checksum message));
           Some (34 + icmp_len, frame)
         })
      })"

definition process_icmp_echo_frame ::
  "64 word \<Rightarrow> u8 list \<times> icmp_rate_limit \<Rightarrow> ((u8 list \<times> icmp_rate_limit) \<times> icmp_disposition) option" where
  "process_icmp_echo_frame now_ms s =
     (case s of (frame, limit) \<Rightarrow> do {
        admitted \<leftarrow> icmp_admit frame;
        (case admitted of
           Inl disposition \<Rightarrow> Some ((frame, limit), disposition)
         | Inr (header_len, total_len) \<Rightarrow>
             (case rate_allow now_ms limit of
                (limit, False) \<Rightarrow> Some ((frame, limit), RateLimited)
              | (limit, True) \<Rightarrow> do {
                  (n, frame) \<leftarrow> icmp_write_reply header_len total_len frame;
                  Some ((frame, limit), IcmpReply n)
                }))
      })"

section \<open>The packet device\<close>

text \<open>The counters of \<open>status/telemetry.rs\<close> and what becomes of a received frame: it goes on to the network
  stack, a reply is sent, or nothing happens.\<close>

record icmp_counters =
  ic_requests :: u32
  ic_replies :: u32
  ic_dropped :: u32
  ic_rate_limited :: u32

record echo_device =
  ed_limit :: icmp_rate_limit
  ed_counters :: icmp_counters

definition new_echo_device :: echo_device where
  "new_echo_device = \<lparr>ed_limit = new_rate_limit,
     ed_counters = \<lparr>ic_requests = 0, ic_replies = 0, ic_dropped = 0, ic_rate_limited = 0\<rparr>\<rparr>"

datatype frame_fate = ToStack "u8 list" | Answered "u8 list" | Discarded

definition network_frame_capacity :: nat where
  "network_frame_capacity = 1536"

definition mark_icmp_echo_request :: "icmp_counters \<Rightarrow> icmp_counters" where
  "mark_icmp_echo_request c = c\<lparr>ic_requests := saturating_inc (ic_requests c)\<rparr>"

definition mark_icmp_echo_reply :: "icmp_counters \<Rightarrow> icmp_counters" where
  "mark_icmp_echo_reply c = c\<lparr>ic_replies := saturating_inc (ic_replies c)\<rparr>"

definition mark_icmp_dropped :: "icmp_counters \<Rightarrow> icmp_counters" where
  "mark_icmp_dropped c = c\<lparr>ic_dropped := saturating_inc (ic_dropped c)\<rparr>"

definition mark_icmp_rate_limited :: "icmp_counters \<Rightarrow> icmp_counters" where
  "mark_icmp_rate_limited c = c\<lparr>ic_rate_limited := saturating_inc (ic_rate_limited c)\<rparr>"

definition device_receive :: "64 word \<Rightarrow> u8 list \<Rightarrow> echo_device \<Rightarrow> (echo_device \<times> frame_fate) option" where
  "device_receive now_ms frame d =
     (if network_frame_capacity < length frame
      then Some (d\<lparr>ed_counters := mark_icmp_dropped (ed_counters d)\<rparr>, Discarded)
      else do {
        ((inbound, limit), disposition) \<leftarrow> process_icmp_echo_frame now_ms (frame, ed_limit d);
        (let c = ed_counters d in
         case disposition of
           NotIcmp \<Rightarrow> Some (d\<lparr>ed_limit := limit\<rparr>, ToStack inbound)
         | IcmpReply n \<Rightarrow> do {
             reply \<leftarrow> octets_in inbound 0 n;
             Some (\<lparr>ed_limit = limit, ed_counters = mark_icmp_echo_reply (mark_icmp_echo_request c)\<rparr>, Answered reply)
           }
         | RateLimited \<Rightarrow>
             Some (\<lparr>ed_limit = limit, ed_counters = mark_icmp_rate_limited (mark_icmp_echo_request c)\<rparr>, Discarded)
         | IcmpDropped \<Rightarrow> Some (\<lparr>ed_limit = limit, ed_counters = mark_icmp_dropped c\<rparr>, Discarded))
      })"

section \<open>The one's complement sum\<close>

text \<open>What the checksum is a checksum of: the sum of the pairs as a number.\<close>

fun pair_total :: "u8 list \<Rightarrow> nat" where
  "pair_total [] = 0"
| "pair_total [b] = 256 * unat b"
| "pair_total (b # c # bs) = 256 * unat b + unat c + pair_total bs"

lemma octet_bound: "unat (b :: u8) < 256"
proof -
  have "unat b < 2 ^ LENGTH(8)" by (rule unsigned_less)
  then show ?thesis by simp
qed

lemma unat_widened: "unat (ucast (b :: u8) :: u16) = unat b" "unat (ucast (b :: u8) :: u32) = unat b"
  using octet_bound [of b] by (simp_all add: unsigned_ucast_eq take_bit_eq_mod)

lemma unat_high: "unat (push_bit 8 (ucast (b :: u8)) :: u16) = 256 * unat b"
    "unat (push_bit 8 (ucast (b :: u8)) :: u32) = 256 * unat b"
  using octet_bound [of b] by (simp_all add: push_bit_eq_mult unat_word_ariths unat_widened mult.commute)

lemma unat_be16: "unat (be16 b c) = 256 * unat b + unat c"
proof -
  have "be16 b c = push_bit 8 (ucast b) + ucast c"
    unfolding be16_def
    by (rule disjunctive_add [symmetric])
      (auto simp: bit_push_bit_iff bit_unsigned_iff dest: bit_imp_le_length)
  then show ?thesis
    using octet_bound [of b] octet_bound [of c] by (simp add: unat_word_ariths unat_high unat_widened)
qed

lemma pair_total_to_be [simp]: "pair_total (to_be v) = unat v"
  by (metis to_be_def unat_be16 be16_to_be pair_total.simps(1,3) add.right_neutral)

lemma pair_total_append: "even (length xs) \<Longrightarrow> pair_total (xs @ ys) = pair_total xs + pair_total ys"
  by (induction xs rule: pair_total.induct) auto

lemma pair_total_bound: "pair_total xs \<le> 65535 * length xs"
proof (induction xs rule: pair_total.induct)
  case (2 b)
  then show ?case using octet_bound [of b] by simp
next
  case (3 b c bs)
  then show ?case using octet_bound [of b] octet_bound [of c] by simp
qed simp

lemma unat_sum_pairs: "unat s + pair_total xs < 4294967296 \<Longrightarrow> unat (sum_pairs xs s) = unat s + pair_total xs"
proof (induction xs s rule: sum_pairs.induct)
  case (2 b s)
  then show ?case by (simp add: unat_word_ariths unat_high)
next
  case (3 b c bs s)
  have "unat (ucast (be16 b c) :: u32) = 256 * unat b + unat c"
    using octet_bound [of b] octet_bound [of c] by (simp add: unsigned_ucast_eq take_bit_eq_mod unat_be16)
  with 3 show ?case by (simp add: unat_word_ariths)
qed simp

lemma folded:
  fixes x w :: nat
  assumes "a = b" "v b = (if x = 0 then 0 else (x - 1) mod m + 1)" "x \<noteq> 0" "(x - 1) mod m = (w - 1) mod m" "w \<noteq> 0"
  shows "v a = (if w = 0 then 0 else (w - 1) mod m + 1)"
  using assms by simp

lemma unat_fold_carry: "unat (fold_carry s) = (if unat s = 0 then 0 else (unat s - 1) mod 65535 + 1)"
proof (induction s rule: fold_carry.induct)
  case (1 s)
  show ?case
  proof (cases "65536 \<le> unat s")
    case True
    let ?t = "(s AND 0xFFFF) + drop_bit 16 s"
    have nz: "drop_bit 16 s \<noteq> 0" using True by (simp only: high16_nonzero)
    have "fold_carry s = fold_carry ?t" by (subst fold_carry.simps) (simp only: nz not_False_eq_True if_True)
    moreover have "unat (fold_carry ?t) = (if unat ?t = 0 then 0 else (unat ?t - 1) mod 65535 + 1)"
      by (rule 1 [OF nz])
    moreover have "unat ?t \<noteq> 0" unfolding unat_carry by (rule fold_once(2) [OF True])
    moreover have "(unat ?t - 1) mod 65535 = (unat s - 1) mod 65535"
      by (simp only: unat_carry fold_once(3) [OF True] mod_mult_self2)
    moreover have "unat s \<noteq> 0" using True by simp
    ultimately show ?thesis by (rule folded)
  next
    case False
    then have "drop_bit 16 s = 0" using high16_nonzero by blast
    then have "fold_carry s = s" by (subst fold_carry.simps) simp
    moreover have "unat s - 1 < 65535" using False by simp
    ultimately show ?thesis by (simp only: mod_less) simp
  qed
qed

lemma unat_checksum:
  assumes "length xs \<le> 65536"
  shows "unat (ipv4_checksum xs) =
    65535 - (if pair_total xs = 0 then 0 else (pair_total xs - 1) mod 65535 + 1)"
proof -
  have "pair_total xs < 4294967296" using pair_total_bound [of xs] assms by simp
  then have "unat (fold_carry (sum_pairs xs 0)) =
      (if pair_total xs = 0 then 0 else (pair_total xs - 1) mod 65535 + 1)" (is "_ = ?f")
    by (simp add: unat_fold_carry unat_sum_pairs)
  moreover have "?f \<le> 65535" by (auto simp: Suc_le_eq less_Suc_eq_le)
  ultimately have "unat (ucast (fold_carry (sum_pairs xs 0)) :: u16) = ?f"
    by (simp only: unsigned_ucast_eq take_bit_eq_mod) simp
  moreover have "NOT x = - 1 - x" for x :: u16 by (simp add: not_eq_complement)
  moreover have "unat (- 1 - x) = 65535 - unat x" for x :: u16
    using unat_sub [of x "- 1"] by (simp add: unsigned_minus_1_eq_mask mask_eq_exp_minus_1)
  ultimately show ?thesis
    by (simp add: ipv4_checksum_def)
qed

text \<open>A checksum of zero: the message sums to a positive multiple of 65535.\<close>

lemma checksum_zero_iff:
  assumes "length xs \<le> 65536"
  shows "ipv4_checksum xs = 0 \<longleftrightarrow> pair_total xs \<noteq> 0 \<and> pair_total xs mod 65535 = 0"
proof -
  have "ipv4_checksum xs = 0 \<longleftrightarrow> unat (ipv4_checksum xs) = 0" by (simp add: unat_eq_zero)
  also have "\<dots> \<longleftrightarrow> pair_total xs \<noteq> 0 \<and> (pair_total xs - 1) mod 65535 + 1 = 65535"
    using mod_less_divisor [of 65535 "pair_total xs - 1"] by (auto simp: unat_checksum [OF assms])
  also have "\<dots> \<longleftrightarrow> pair_total xs \<noteq> 0 \<and> pair_total xs mod 65535 = 0"
    by (cases "pair_total xs") (simp_all add: mod_Suc)
  finally show ?thesis .
qed

lemma complement_fills:
  fixes n :: nat
  shows "n + (65535 - (if n = 0 then 0 else (n - 1) mod 65535 + 1)) \<noteq> 0 \<and>
    (n + (65535 - (if n = 0 then 0 else (n - 1) mod 65535 + 1))) mod 65535 = 0"
proof (cases n)
  case (Suc m)
  have "r < 65535 \<Longrightarrow> m = 65535 * q + r \<Longrightarrow> Suc m + (65535 - (r + 1)) = 65535 * (q + 1)" for q r
    by simp
  from this [of "m mod 65535" "m div 65535"]
  have "Suc m + (65535 - (m mod 65535 + 1)) = 65535 * (m div 65535 + 1)" by simp
  then show ?thesis using Suc by (simp del: mult_Suc_right)
qed simp

text \<open>Filling a zero field with the checksum makes the checksum of the whole zero.\<close>

lemma checksum_fills:
  assumes "even (length xs)" and "length xs + length ys \<le> 65534"
  shows "ipv4_checksum (xs @ to_be (ipv4_checksum (xs @ [0, 0] @ ys)) @ ys) = 0"
proof -
  define n where "n = pair_total (xs @ [0, 0] @ ys)"
  define c where "c = ipv4_checksum (xs @ [0, 0] @ ys)"
  have "unat c = 65535 - (if n = 0 then 0 else (n - 1) mod 65535 + 1)"
    unfolding n_def c_def using assms(2) by (intro unat_checksum) simp
  then have "n + unat c \<noteq> 0 \<and> (n + unat c) mod 65535 = 0" by (simp add: complement_fills del: mult_Suc_right)
  moreover have "pair_total (xs @ to_be c @ ys) = n + unat c"
    using assms(1) by (simp add: n_def pair_total_append)
  ultimately have "ipv4_checksum (xs @ to_be c @ ys) = 0"
    using assms(2) by (subst checksum_zero_iff) simp_all
  then show ?thesis by (simp only: c_def)
qed

section \<open>What the reader of headers lets through\<close>

lemma icmp_headers_admits:
  assumes "icmp_headers frame = Some (Inr (header_len, total_len))"
  shows "20 \<le> header_len" "header_len + 8 \<le> total_len" "14 + total_len \<le> length frame"
    "length frame \<le> 1280" "take 2 (drop 12 frame) = [0x08, 0x00]"
    "frame ! 23 = 1" "take 4 (drop 30 frame) = ap_ip" "ipv4_checksum (take header_len (drop 14 frame)) = 0"
  using assms
  by (auto simp: icmp_headers_def Let_def icmp_max_frame_len_def octets_in_def nth_drop
      split: if_splits option.splits Option.bind_splits)

lemma icmp_headers_total: "icmp_headers frame \<noteq> None"
  by (simp add: icmp_headers_def Let_def octets_in_def)

lemma icmp_admit_total: "\<exists>v. icmp_admit frame = Some v"
proof -
  obtain h where h: "icmp_headers frame = Some h" using icmp_headers_total by blast
  show ?thesis
  proof (cases h)
    case (Inr lens)
    obtain header_len total_len where lens: "lens = (header_len, total_len)" by (cases lens)
    from icmp_headers_admits [OF h [unfolded Inr lens]] show ?thesis
      by (simp add: icmp_admit_def h Inr lens Let_def)
  qed (simp add: icmp_admit_def h)
qed

lemma icmp_admits:
  assumes "icmp_admit frame = Some (Inr (header_len, total_len))"
  shows "icmp_headers frame = Some (Inr (header_len, total_len))"
    "ipv4_checksum (take (total_len - header_len) (drop (14 + header_len) frame)) = 0"
    "frame ! (14 + header_len) = 8" "frame ! (14 + header_len + 1) = 0"
  using assms
  by (auto simp: icmp_admit_def Let_def octets_in_def octet_at_def split: sum.splits if_splits Option.bind_splits)

lemma icmp_admit_declines: "icmp_admit frame = Some (Inl d) \<Longrightarrow> d = NotIcmp \<or> d = IcmpDropped"
  by (auto simp: icmp_admit_def icmp_headers_def Let_def split: sum.splits if_splits Option.bind_splits)

section \<open>The reply\<close>

text \<open>The message of the reply: type and code zero, the checksum, and the rest of the request.\<close>

definition reply_message :: "u8 list \<Rightarrow> u8 list" where
  "reply_message body = [0, 0] @ to_be (ipv4_checksum ([0, 0] @ [0, 0] @ body)) @ body"

definition reply_packet_header :: "nat \<Rightarrow> u8 list \<Rightarrow> u8 list" where
  "reply_packet_header icmp_len destination =
     reply_header (of_nat (20 + icmp_len)) destination (ipv4_checksum (reply_header (of_nat (20 + icmp_len)) destination 0))"

lemma length_reply_header [simp]: "length destination = 4 \<Longrightarrow> length (reply_header n destination c) = 20"
  by (simp add: reply_header_def ap_ip_def)

lemma reply_header_verifies: "length destination = 4 \<Longrightarrow> ipv4_checksum (reply_packet_header n destination) = 0"
  using checksum_fills [of "[0x45, 0] @ to_be (of_nat (20 + n)) @ [0, 0, 0, 0, 64, 1]" "ap_ip @ destination"]
  by (simp add: reply_packet_header_def reply_header_def ap_ip_def to_be_def)

lemma reply_message_verifies: "length body \<le> 65530 \<Longrightarrow> ipv4_checksum (reply_message body) = 0"
  using checksum_fills [of "[0, 0]" body] by (simp add: reply_message_def)

text \<open>A written reply is the frame turned around: addresses exchanged, a fresh header, the message, and
  whatever the buffer held behind it.\<close>

lemma written_reply:
  assumes "20 \<le> header_len" "header_len + 8 \<le> total_len" "14 + total_len \<le> length frame"
  shows "icmp_write_reply header_len total_len frame =
    Some (34 + (total_len - header_len),
      take 6 (drop 6 frame) @ take 6 frame @ take 2 (drop 12 frame) @
      reply_packet_header (total_len - header_len) (take 4 (drop 26 frame)) @
      reply_message (take (total_len - header_len - 4) (drop (18 + header_len) frame)) @
      drop (34 + (total_len - header_len)) frame)"
proof -
  define n where "n = total_len - header_len"
  define d s t i r where "d = take 6 frame" and "s = take 6 (drop 6 frame)" and "t = take 2 (drop 12 frame)"
    and "i = take 4 (drop 26 frame)" and "r = drop 34 frame"
  define h where "h = reply_packet_header n i"
  define body where "body = take (n - 4) (drop (header_len - 16) r)"
  have len: "length d = 6" "length s = 6" "length t = 2" "length i = 4" "n \<le> length r" "8 \<le> n"
    using assms by (simp_all add: d_def s_def t_def i_def r_def n_def)
  have h: "length h = 20" using len(4) by (simp add: h_def reply_packet_header_def)
  have body: "length body = n - 4" using assms by (simp add: body_def r_def n_def)
  have frame: "frame = d @ s @ t @ take 20 (drop 14 frame) @ r"
  proof -
    have "drop 12 frame = t @ drop 14 frame" unfolding t_def using append_take_drop_id [of 2 "drop 12 frame"] by simp
    moreover have "drop 6 frame = s @ drop 12 frame" unfolding s_def using append_take_drop_id [of 6 "drop 6 frame"] by simp
    moreover have "drop 14 frame = take 20 (drop 14 frame) @ r" unfolding r_def using append_take_drop_id [of 20 "drop 14 frame"] by simp
    ultimately show ?thesis unfolding d_def using append_take_drop_id [of 6 frame] by metis
  qed
  define f where "f = s @ d @ t @ h @ r"
  have "octets_put frame 0 6 s = Some (s @ drop 6 frame)"
    "octets_put (s @ drop 6 frame) 6 12 d = Some (s @ d @ drop 12 frame)"
    "octets_put (s @ d @ drop 12 frame) 14 34 h = Some f"
    using assms len h by (simp_all add: f_def r_def t_def)
  moreover have "octets_in f (14 + header_len + 4) (14 + total_len) = Some body"
  proof -
    have "14 + total_len \<le> length f" using assms len h by (simp add: f_def r_def)
    then show ?thesis using assms len h by (simp add: f_def body_def n_def add.commute)
  qed
  moreover have "octets_put f 38 (38 + length body) body = Some (s @ d @ t @ h @ take 4 r @ body @ drop n r)"
    using len h body by (simp add: f_def)
  moreover have "octets_put (s @ d @ t @ h @ take 4 r @ body @ drop n r) 34 38 [0, 0, 0, 0] =
      Some (s @ d @ t @ h @ [0, 0, 0, 0] @ body @ drop n r)"
    using len h body by simp
  moreover have "octets_in (s @ d @ t @ h @ [0, 0, 0, 0] @ body @ drop n r) 34 (34 + n) = Some ([0, 0, 0, 0] @ body)"
    using octets_in_append [of "s @ d @ t @ h" 34 "[0, 0, 0, 0] @ body" "34 + n" "drop n r"] len h body by simp
  moreover have "octets_put (s @ d @ t @ h @ [0, 0, 0, 0] @ body @ drop n r) 36 38 (to_be c) =
      Some (s @ d @ t @ h @ [0, 0] @ to_be c @ body @ drop n r)" for c
    using len h body by simp
  moreover have "octets_in frame 0 6 = Some d" "octets_in frame 6 12 = Some s" "octets_in frame 26 30 = Some i"
    using assms by (simp_all add: d_def s_def i_def)
  moreover have "drop (34 + (total_len - header_len)) frame = drop n r" by (simp add: r_def n_def add.commute)
  moreover have "take (n - 4) (drop (18 + header_len) frame) = body" using assms by (simp add: body_def r_def)
  moreover have "reply_header (of_nat (20 + n)) i (ipv4_checksum (reply_header (of_nat (20 + n)) i 0)) = h"
    by (simp add: h_def reply_packet_header_def)
  ultimately show ?thesis
    unfolding icmp_write_reply_def Let_def n_def [symmetric]
    by (simp add: d_def [symmetric] s_def [symmetric] t_def [symmetric] i_def [symmetric] h_def [symmetric]
        reply_message_def)
qed

section \<open>Properties\<close>

text \<open>C23. An echo request is answered by its echo: a frame that is admitted becomes, in place, a packet to its
  sender with the link and network addresses exchanged, whose header and message carry valid
  checksums, whose message is type and code zero over the identifier, sequence number and
  data of the request, and which fits the frame. A frame that gets no reply is left as it is.\<close>

theorem echo_reply_answers_request:
  assumes "process_icmp_echo_frame now_ms (frame, limit) = Some ((frame', limit'), disposition)"
  shows "case disposition of
      IcmpReply n \<Rightarrow> \<exists>header_len total_len.
        icmp_admit frame = Some (Inr (header_len, total_len)) \<and>
        n = 34 + (total_len - header_len) \<and> n \<le> length frame \<and> length frame' = length frame \<and>
        take 6 frame' = take 6 (drop 6 frame) \<and> take 6 (drop 6 frame') = take 6 frame \<and>
        take 4 (drop 26 frame') = ap_ip \<and> take 4 (drop 30 frame') = take 4 (drop 26 frame) \<and>
        ipv4_checksum (take 20 (drop 14 frame')) = 0 \<and> ipv4_checksum (take (n - 34) (drop 34 frame')) = 0 \<and>
        frame' ! 34 = 0 \<and> frame' ! 35 = 0 \<and>
        take (n - 38) (drop 38 frame') = take (n - 38) (drop (14 + header_len + 4) frame)
    | _ \<Rightarrow> frame' = frame"
proof (cases disposition)
  case (IcmpReply n)
  from assms icmp_admit_declines [of frame "IcmpReply n"] obtain header_len total_len where
    a: "icmp_admit frame = Some (Inr (header_len, total_len))"
    and w: "icmp_write_reply header_len total_len frame = Some (n, frame')"
    unfolding IcmpReply process_icmp_echo_frame_def
    by (auto split: sum.splits prod.splits bool.splits Option.bind_splits)
  note heads = icmp_headers_admits [OF icmp_admits(1) [OF a]]
  let ?n = "total_len - header_len"
  let ?h = "reply_packet_header ?n (take 4 (drop 26 frame))"
  let ?body = "take (?n - 4) (drop (18 + header_len) frame)"
  have n: "n = 34 + ?n" and frame': "frame' = take 6 (drop 6 frame) @ take 6 frame @ take 2 (drop 12 frame) @ ?h @
      reply_message ?body @ drop (34 + ?n) frame"
    using trans [OF w [symmetric] written_reply [OF heads(1-3)]] by (simp_all only: option.inject prod.inject)
  have len: "length ?h = 20" "length ?body = ?n - 4" "8 \<le> ?n" "length (reply_message ?body) = ?n"
    using heads(1-3) by (simp_all add: reply_packet_header_def reply_message_def)
  have parts: "take 20 (drop 14 frame') = ?h" "take (n - 34) (drop 34 frame') = reply_message ?body"
      "length frame' = length frame"
    using heads(1-3) len by (simp_all add: frame' n)
  have body: "take (n - 38) (drop 38 frame') = ?body"
    using heads(1-3) len by (simp add: frame' n reply_message_def add.commute)
  have "take 4 (drop 26 frame') = ap_ip" "take 4 (drop 30 frame') = take 4 (drop 26 frame)"
    using heads(1-3) by (simp_all add: frame' reply_packet_header_def reply_header_def ap_ip_def)
  moreover have "frame' ! 34 = 0" "frame' ! 35 = 0"
    using heads(1-3) len(1) by (simp_all add: frame' nth_append reply_message_def)
  moreover have "take 6 frame' = take 6 (drop 6 frame)" "take 6 (drop 6 frame') = take 6 frame"
    using heads(1-3) by (simp_all add: frame')
  moreover have "ipv4_checksum ?h = 0" "ipv4_checksum (reply_message ?body) = 0"
    using heads(1-4) len(2) by (simp_all add: reply_header_verifies reply_message_verifies)
  ultimately show ?thesis
    using IcmpReply a n parts body heads(1-3) by (auto intro!: exI [of _ header_len] exI [of _ total_len] simp: add.commute)
next
  case NotIcmp
  then show ?thesis using assms
    by (auto simp: process_icmp_echo_frame_def split: sum.splits prod.splits bool.splits Option.bind_splits)
next
  case RateLimited
  then show ?thesis using assms
    by (auto simp: process_icmp_echo_frame_def split: sum.splits prod.splits bool.splits Option.bind_splits)
next
  case IcmpDropped
  then show ?thesis using assms
    by (auto simp: process_icmp_echo_frame_def split: sum.splits prod.splits bool.splits Option.bind_splits)
qed

text \<open>A frame never panics the reader, and the device accounts for every frame: it goes to the network stack
  unchanged, or is answered, or discarded, and the counters say which.\<close>

lemma icmp_write_reply_total:
  "icmp_admit frame = Some (Inr (header_len, total_len)) \<Longrightarrow> icmp_write_reply header_len total_len frame \<noteq> None"
  using icmp_headers_admits [OF icmp_admits(1)] by (simp add: written_reply)

lemma process_total: "\<exists>v. process_icmp_echo_frame now_ms s = Some v"
proof (cases s)
  case (Pair frame limit)
  obtain a where a: "icmp_admit frame = Some a" using icmp_admit_total by blast
  show ?thesis
  proof (cases a)
    case (Inr lens)
    obtain h t where "lens = (h, t)" by (cases lens)
    with a Inr icmp_write_reply_total [of frame h t] show ?thesis
      by (auto simp: process_icmp_echo_frame_def Pair split: prod.split bool.split)
  qed (simp add: process_icmp_echo_frame_def Pair a)
qed

fun device_run :: "(64 word \<times> u8 list) list \<Rightarrow> echo_device \<Rightarrow> (echo_device \<times> frame_fate list) option" where
  "device_run [] d = Some (d, [])"
| "device_run ((now_ms, frame) # arrivals) d = do {
     (d, fate) \<leftarrow> device_receive now_ms frame d;
     (d, fates) \<leftarrow> device_run arrivals d;
     Some (d, fate # fates)
   }"

definition answers :: "frame_fate list \<Rightarrow> nat" where
  "answers fates = length (filter (\<lambda>f. case f of Answered _ \<Rightarrow> True | _ \<Rightarrow> False) fates)"

lemma answers_simps [simp]:
  "answers [] = 0" "answers (Answered r # fs) = Suc (answers fs)" "answers (ToStack x # fs) = answers fs"
  "answers (Discarded # fs) = answers fs"
  by (simp_all add: answers_def)

lemma device_receive_total: "\<exists>v. device_receive now_ms frame d = Some v"
proof -
  obtain inbound limit disposition where
    p: "process_icmp_echo_frame now_ms (frame, ed_limit d) = Some ((inbound, limit), disposition)"
    using process_total [of now_ms "(frame, ed_limit d)"] by auto
  have "n \<le> length inbound" if "disposition = IcmpReply n" for n
    using echo_reply_answers_request [OF p] that by auto
  then show ?thesis by (cases disposition) (simp_all add: device_receive_def p Let_def)
qed

lemma device_run_total: "\<exists>v. device_run arrivals d = Some v"
proof (induction arrivals arbitrary: d)
  case (Cons a arrivals)
  obtain now_ms frame where a: "a = (now_ms, frame)" by (cases a)
  obtain d' fate where r: "device_receive now_ms frame d = Some (d', fate)"
    using device_receive_total [of now_ms frame d] by auto
  show ?case using Cons [of d'] by (auto simp: a r)
qed simp

text \<open>An answer costs one of the four replies of the window; nothing else touches the count upwards.\<close>

lemma receive_limit:
  assumes "device_receive now_ms frame d = Some (d', fate)"
  shows "(case fate of Answered _ \<Rightarrow> rate_allow now_ms (ed_limit d) = (ed_limit d', True)
    | _ \<Rightarrow> ed_limit d' = ed_limit d \<or> rate_allow now_ms (ed_limit d) = (ed_limit d', False))"
  using assms icmp_admit_declines [of frame]
  by (auto simp: device_receive_def process_icmp_echo_frame_def Let_def
      split: if_splits Option.bind_splits prod.splits sum.splits bool.splits icmp_disposition.splits)

definition spent :: "echo_device \<Rightarrow> nat" where
  "spent d = unat (rl_replies_in_window (ed_limit d))"

definition window_open :: "64 word \<Rightarrow> echo_device \<Rightarrow> bool" where
  "window_open t d \<longleftrightarrow> t - rl_window_started_ms (ed_limit d) < 1000"

lemma allow_in_window:
  assumes "rate_allow t l = (l', v)" "t - rl_window_started_ms l < 1000"
  shows "rl_window_started_ms l' = rl_window_started_ms l"
    "v \<Longrightarrow> unat (rl_replies_in_window l') = Suc (unat (rl_replies_in_window l)) \<and> unat (rl_replies_in_window l) < 4"
    "\<not> v \<Longrightarrow> l' = l"
  using assms
  by (auto simp: rate_allow_def Let_def icmp_echo_reply_limit_def word_le_nat_alt word_less_nat_alt unat_word_ariths
      split: if_splits)

lemma allow_new_window:
  assumes "rate_allow t l = (l', v)" "\<not> t - rl_window_started_ms l < 1000"
  shows "v" "l' = \<lparr>rl_window_started_ms = t, rl_replies_in_window = 1\<rparr>"
  using assms by (auto simp: rate_allow_def Let_def icmp_echo_reply_limit_def split: if_splits)

lemma receive_in_window:
  assumes "device_receive t frame d = Some (d', fate)" "window_open t d" "spent d \<le> 4"
  shows "rl_window_started_ms (ed_limit d') = rl_window_started_ms (ed_limit d)" "spent d' = spent d + answers [fate]"
    "spent d' \<le> 4"
proof -
  have inside: "t - rl_window_started_ms (ed_limit d) < 1000" using assms(2) by (simp add: window_open_def)
  note allow = allow_in_window [OF _ inside]
  have "ed_limit d' = ed_limit d \<and> answers [fate] = 0 \<or> rate_allow t (ed_limit d) = (ed_limit d', True) \<and> answers [fate] = 1"
    using receive_limit [OF assms(1)] allow(3) by (cases fate) auto
  then have "rl_window_started_ms (ed_limit d') = rl_window_started_ms (ed_limit d) \<and>
      spent d' = spent d + answers [fate] \<and> spent d' \<le> 4"
  proof
    assume *: "rate_allow t (ed_limit d) = (ed_limit d', True) \<and> answers [fate] = 1"
    then show ?thesis using allow(1,2) [of "ed_limit d'" True] unfolding spent_def by simp
  qed (use assms(3) in \<open>simp add: spent_def\<close>)
  then show "rl_window_started_ms (ed_limit d') = rl_window_started_ms (ed_limit d)" "spent d' = spent d + answers [fate]"
    "spent d' \<le> 4" by simp_all
qed

lemma receive_new_window:
  assumes "device_receive t frame d = Some (d', fate)" "\<not> window_open t d"
  shows "answers [fate] = 0 \<and> ed_limit d' = ed_limit d \<or>
    answers [fate] = 1 \<and> rl_window_started_ms (ed_limit d') = t \<and> spent d' = 1"
  using receive_limit [OF assms(1)] assms(2) allow_new_window [of t "ed_limit d" "ed_limit d'"]
  by (auto simp: spent_def window_open_def split: frame_fate.splits)

lemma run_in_window:
  "device_run arrivals d = Some (d', fates) \<Longrightarrow> \<forall>a \<in> set arrivals. window_open (fst a) d \<Longrightarrow> spent d \<le> 4 \<Longrightarrow>
     answers fates + spent d \<le> 4"
proof (induction arrivals arbitrary: d fates)
  case (Cons a arrivals)
  obtain t frame where a: "a = (t, frame)" by (cases a)
  from Cons.prems(1) obtain d1 fate rest where r: "device_receive t frame d = Some (d1, fate)"
      "device_run arrivals d1 = Some (d', rest)" "fates = fate # rest"
    by (auto simp: a split: Option.bind_splits)
  note in_window = receive_in_window [OF r(1)]
  have "answers rest + spent d1 \<le> 4"
    using Cons.prems in_window by (intro Cons.IH [OF r(2)]) (simp_all add: a window_open_def)
  then show ?case using in_window Cons.prems(2,3) r(3) by (cases fate) (simp_all add: a)
qed simp

lemma run_within_second:
  "device_run arrivals d = Some (d', fates) \<Longrightarrow> sorted (map fst arrivals) \<Longrightarrow>
     \<forall>a \<in> set arrivals. t0 \<le> fst a \<and> unat (fst a) < unat t0 + 1000 \<Longrightarrow> spent d \<le> 4 \<Longrightarrow>
     answers fates + spent d \<le> 8"
proof (induction arrivals arbitrary: d fates)
  case (Cons a arrivals)
  obtain t frame where a: "a = (t, frame)" by (cases a)
  from Cons.prems(1) obtain d1 fate rest where r: "device_receive t frame d = Some (d1, fate)"
      "device_run arrivals d1 = Some (d', rest)" "fates = fate # rest"
    by (auto simp: a split: Option.bind_splits)
  have split: "answers fates = answers [fate] + answers rest" by (cases fate) (simp_all add: r(3))
  have later: "answers rest + spent d1 \<le> 8" if "spent d1 \<le> 4"
    using Cons.prems that by (intro Cons.IH [OF r(2)]) simp_all
  show ?case
  proof (cases "window_open t d")
    case True
    then show ?thesis using receive_in_window [OF r(1) True Cons.prems(4)] later split by simp
  next
    case False
    from receive_new_window [OF r(1) False] show ?thesis
    proof
      assume "answers [fate] = 0 \<and> ed_limit d1 = ed_limit d"
      then have "answers [fate] = 0" "spent d1 = spent d" by (simp_all add: spent_def)
      then show ?thesis using later split Cons.prems(4) by simp
    next
      assume new: "answers [fate] = 1 \<and> rl_window_started_ms (ed_limit d1) = t \<and> spent d1 = 1"
      have "window_open (fst b) d1" if "b \<in> set arrivals" for b
      proof -
        have "t \<le> fst b" "unat (fst b) < unat t0 + 1000" "unat t0 \<le> unat t"
          using Cons.prems(2,3) that by (auto simp: a word_le_nat_alt)
        then show ?thesis using new by (simp add: window_open_def word_less_nat_alt word_le_nat_alt unat_sub)
      qed
      then have "answers rest + spent d1 \<le> 4" using new by (intro run_in_window [OF r(2)]) simp_all
      then show ?thesis using new split Cons.prems(4) by simp
    qed
  qed
qed simp

lemma spent_bound: "device_run arrivals d = Some (d', fates) \<Longrightarrow> spent d \<le> 4 \<Longrightarrow> spent d' \<le> 4"
proof (induction arrivals arbitrary: d fates)
  case (Cons a arrivals)
  obtain t frame where a: "a = (t, frame)" by (cases a)
  from Cons.prems(1) obtain d1 fate rest where r: "device_receive t frame d = Some (d1, fate)"
      "device_run arrivals d1 = Some (d', rest)"
    by (auto simp: a split: Option.bind_splits)
  have "spent d1 \<le> 4"
    using receive_in_window [OF r(1)] receive_new_window [OF r(1)] Cons.prems(2)
    by (cases "window_open t d") (auto simp: spent_def)
  then show ?case by (rule Cons.IH [OF r(2)])
qed simp


section \<open>A concrete request\<close>

definition example_request :: "u8 list" where
  "example_request = [2, 0, 0, 0, 0, 1, 2, 0, 0, 0, 0, 2, 8, 0] @
     [69, 0, 0, 29, 1, 35, 0, 0, 64, 1, 240, 105, 192, 168, 4, 2, 192, 168, 4, 1] @
     [8, 0, 234, 82, 18, 52, 86, 120, 165]"

definition example_reply :: "u8 list" where
  "example_reply = [2, 0, 0, 0, 0, 2, 2, 0, 0, 0, 0, 1, 8, 0] @
     [69, 0, 0, 29, 0, 0, 0, 0, 64, 1, 241, 140, 192, 168, 4, 1, 192, 168, 4, 2] @
     [0, 0, 242, 82, 18, 52, 86, 120, 165]"

lemma example_processed:
  "process_icmp_echo_frame 1000 (example_request, new_rate_limit) =
     Some ((example_reply, \<lparr>rl_window_started_ms = 1000, rl_replies_in_window = 1\<rparr>), IcmpReply 43)"
  by code_simp

theorem echo_reply_answers_request_witness:
  "take 6 example_reply = [2, 0, 0, 0, 0, 2] \<and> take 4 (drop 30 example_reply) = [192, 168, 4, 2] \<and>
   ipv4_checksum (take 20 (drop 14 example_reply)) = 0"
  using echo_reply_answers_request [OF example_processed]
  by (auto simp: example_request_def)


end
