(* ===== verification/Name_Packets.thy ===== *)
theory Name_Packets
  imports Dhcp Icmp
begin

text \<open>
  The packets of \<open>arch/pico_w/discovery.rs\<close>: the multicast announcement of the access point's
  services, the answers to name queries, and the requests and replies of address assignment.
  A function that may panic on an index has type option with \<^term>\<open>None\<close> the panic; where
  the code itself returns an option, that option is inside. \<open>Packet_Rules\<close> holds the facts.
\<close>

section \<open>The announcement\<close>

text \<open>\<open>put_bytes\<close> either writes all the bytes and returns the offset behind them, or nothing.\<close>

definition put_bytes :: "u8 list \<Rightarrow> nat \<Rightarrow> u8 list \<Rightarrow> u8 list \<times> nat option" where
  "put_bytes packet offset bytes =
     (if offset + length bytes \<le> length packet
      then (take offset packet @ bytes @ drop (offset + length bytes) packet, Some (offset + length bytes))
      else (packet, None))"

text \<open>\<open>i = put_bytes(packet, i, bytes)?\<close>: what was written before a failure stays.\<close>

definition put_more :: "u8 list \<Rightarrow> u8 list \<times> nat option \<Rightarrow> u8 list \<times> nat option" where
  "put_more bytes s =
     (case s of (packet, Some i) \<Rightarrow> put_bytes packet i bytes | (packet, None) \<Rightarrow> (packet, None))"

definition mdns_a :: "u8 list \<Rightarrow> u8 list \<Rightarrow> u8 list \<times> nat option \<Rightarrow> u8 list \<times> nat option" where
  "mdns_a name ip s =
     put_more ip (put_more [0, 1, 0x80, 1, 0, 0, 0, 120, 0, 4] (put_more name s))"

definition mdns_ptr :: "u8 list \<Rightarrow> u8 list \<Rightarrow> u8 list \<times> nat option \<Rightarrow> u8 list \<times> nat option" where
  "mdns_ptr name target s =
     put_more target (put_more (to_be (of_nat (length target)))
       (put_more [0, 12, 0, 1, 0, 0, 0, 120] (put_more name s)))"

definition mdns_srv :: "u8 list \<Rightarrow> u16 \<Rightarrow> u8 list \<Rightarrow> u8 list \<times> nat option \<Rightarrow> u8 list \<times> nat option" where
  "mdns_srv name port target s =
     put_more target (put_more (to_be port) (put_more [0, 0, 0, 0]
       (put_more (to_be (of_nat (6 + length target)))
         (put_more [0, 33, 0x80, 1, 0, 0, 0, 120] (put_more name s)))))"

text \<open>\<open>i = f(packet, i).unwrap_or(i)\<close>\<close>

definition put_or_stay :: "(u8 list \<times> nat option \<Rightarrow> u8 list \<times> nat option) \<Rightarrow> u8 list \<times> nat \<Rightarrow> u8 list \<times> nat" where
  "put_or_stay f s =
     (case s of (packet, i) \<Rightarrow>
       (case f (packet, Some i) of (packet, Some j) \<Rightarrow> (packet, j) | (packet, None) \<Rightarrow> (packet, i)))"

definition ascii :: "string \<Rightarrow> u8 list" where
  "ascii s = map of_char s"

definition mdns_name :: "u8 list" where
  "mdns_name = [4] @ ascii ''pete'' @ [5] @ ascii ''local'' @ [0]"

definition mdns_services :: "(u8 list \<times> u16) list" where
  "mdns_services =
     [([15] @ ascii ''_pete-brainstem'' @ [4] @ ascii ''_tcp'' @ [5] @ ascii ''local'' @ [0], 80),
      ([11] @ ascii ''_pete-debug'' @ [4] @ ascii ''_tcp'' @ [5] @ ascii ''local'' @ [0], 80),
      ([13] @ ascii ''_pete-control'' @ [4] @ ascii ''_tcp'' @ [5] @ ascii ''local'' @ [0], 81),
      ([13] @ ascii ''_pete-control'' @ [4] @ ascii ''_udp'' @ [5] @ ascii ''local'' @ [0], 82)]"

text \<open>The instance name is a \<open>heapless::Vec\<close> of capacity 64: an extension that does not fit adds nothing.\<close>

definition extend_from_slice :: "nat \<Rightarrow> u8 list \<Rightarrow> u8 list \<Rightarrow> u8 list" where
  "extend_from_slice cap v bytes = (if length v + length bytes \<le> cap then v @ bytes else v)"

definition mdns_instance :: "u8 list \<Rightarrow> u8 list" where
  "mdns_instance service = extend_from_slice 64 (extend_from_slice 64 [] ([9] @ ascii ''brainstem'')) service"

definition announce_service :: "u8 list \<times> u16 \<Rightarrow> u8 list \<times> nat \<Rightarrow> u8 list \<times> nat" where
  "announce_service sp s =
     (case sp of (service, port) \<Rightarrow>
       put_or_stay (mdns_srv (mdns_instance service) port mdns_name)
         (put_or_stay (mdns_ptr service (mdns_instance service)) s))"

definition mdns_header :: "u8 list" where
  "mdns_header = [0, 0, 0x84, 0x00, 0, 0] @ to_be 9 @ replicate 760 0"

definition build_mdns_announcement :: "u8 list \<times> nat" where
  "build_mdns_announcement =
     fold announce_service mdns_services
       (case mdns_a mdns_name ap_ip (mdns_header, Some 12) of
          (packet, Some i) \<Rightarrow> (packet, i) | (packet, None) \<Rightarrow> (packet, 12))"

section \<open>Name queries\<close>

record dns_question =
  dq_name_end :: nat
  dq_end :: nat
  dq_qtype :: u16
  dq_qclass :: u16

text \<open>The loop over the labels: the offset behind the name, or \<^term>\<open>None\<close> for a compressed or cut name.\<close>

function dns_name_end :: "u8 list \<Rightarrow> nat \<Rightarrow> nat option" where
  "dns_name_end packet i =
     (if i < length packet then
        (let len = packet ! i in
         if len AND 0xC0 \<noteq> 0 then None
         else if len = 0 then Some (i + 1)
         else if length packet < i + 1 + unat len then None
         else dns_name_end packet (i + 1 + unat len))
      else None)"
  by auto
termination by (relation "measure (\<lambda>(packet, i). length packet - i)") auto

declare dns_name_end.simps [simp del]

definition parse_dns_question :: "u8 list \<Rightarrow> dns_question option" where
  "parse_dns_question packet =
     (if length packet < 17 \<or> packet ! 2 AND 0x80 \<noteq> 0 then None
      else if be16 (packet ! 4) (packet ! 5) = 0 then None
      else (case dns_name_end packet 12 of
         None \<Rightarrow> None
       | Some i \<Rightarrow>
           if length packet < i + 4 then None
           else Some \<lparr>dq_name_end = i, dq_end = i + 4, dq_qtype = be16 (packet ! i) (packet ! (i + 1)),
                      dq_qclass = be16 (packet ! (i + 2)) (packet ! (i + 3))\<rparr>))"

definition dns_byte_eq :: "u8 \<Rightarrow> u8 \<Rightarrow> bool" where
  "dns_byte_eq left right =
     (if octet_letter left \<and> octet_letter right then octet_lower left = octet_lower right else left = right)"

definition dns_name_eq :: "u8 list \<Rightarrow> u8 list \<Rightarrow> bool" where
  "dns_name_eq left right \<longleftrightarrow>
     length left = length right \<and> list_all (\<lambda>(l, r). dns_byte_eq l r) (zip left right)"

definition pete_internal :: "u8 list" where
  "pete_internal = [4] @ ascii ''pete'' @ [8] @ ascii ''internal'' @ [0]"

definition brainstem_internal :: "u8 list" where
  "brainstem_internal = [9] @ ascii ''brainstem'' @ [4] @ ascii ''pete'' @ [8] @ ascii ''internal'' @ [0]"

definition gateway_internal :: "u8 list" where
  "gateway_internal = [7] @ ascii ''gateway'' @ [4] @ ascii ''pete'' @ [8] @ ascii ''internal'' @ [0]"

definition motherbrain_internal :: "u8 list" where
  "motherbrain_internal = [11] @ ascii ''motherbrain'' @ [4] @ ascii ''pete'' @ [8] @ ascii ''internal'' @ [0]"

definition dns_answer_ip :: "u8 list \<Rightarrow> u32 \<Rightarrow> registry \<Rightarrow> u8 list option" where
  "dns_answer_ip name now_ms r =
     (if dns_name_eq name pete_internal \<or> dns_name_eq name brainstem_internal \<or>
         dns_name_eq name gateway_internal \<or> dns_name_eq name mdns_name then Some ap_ip
      else if dns_name_eq name motherbrain_internal then map_option to_be32 (resolve_motherbrain now_ms r)
      else None)"

definition dns_answer :: "u8 list \<Rightarrow> u8 list" where
  "dns_answer ip = [0xC0, 0x0C, 0, 1, 0, 1, 0, 0, 0, 0x3C, 0, 4] @ ip"

definition build_dns_reply :: "u8 list \<Rightarrow> u8 list \<Rightarrow> u32 \<Rightarrow> registry \<Rightarrow> u8 list option option" where
  "build_dns_reply query response now_ms r =
     (case parse_dns_question query of
        None \<Rightarrow> Some None
      | Some question \<Rightarrow> do {
          name \<leftarrow> octets_in query 12 (dq_name_end question);
          (case dns_answer_ip name now_ms r of
             None \<Rightarrow> Some None
           | Some answer_ip \<Rightarrow>
               if dq_qtype question \<notin> {1, 255} \<or> dq_qclass question \<notin> {1, 255} then Some None
               else do {
                 copied \<leftarrow> octets_in query 0 (dq_end question);
                 response \<leftarrow> octets_put response 0 (dq_end question) copied;
                 response \<leftarrow> octets_put response 2 12
                   [0x84 OR (query ! 2 AND 0x01), 0, 0, 1, 0, 1, 0, 0, 0, 0];
                 (let i = dq_end question in
                  if length response < i + 16 then Some None
                  else do {
                    response \<leftarrow> octets_put response i (i + 16) (dns_answer answer_ip);
                    reply \<leftarrow> octets_in response 0 (i + 16);
                    Some (Some reply)
                  })
               })
        })"

section \<open>Address assignment\<close>

definition dhcp_magic :: "u8 list" where
  "dhcp_magic = [99, 130, 83, 99]"

function dhcp_option_from :: "u8 list \<Rightarrow> u8 \<Rightarrow> nat \<Rightarrow> u8 list option" where
  "dhcp_option_from packet wanted i =
     (if i < length packet then
        (let tag = packet ! i; i = i + 1 in
         if tag = 0 then dhcp_option_from packet wanted i
         else if tag = 255 then None
         else if length packet \<le> i then None
         else (let len = unat (packet ! i); i = i + 1 in
           if length packet < i + len then None
           else if tag = wanted then Some (take len (drop i packet))
           else dhcp_option_from packet wanted (i + len)))
      else None)"
  by auto
termination by (relation "measure (\<lambda>(packet, wanted, i). length packet - i)") auto

declare dhcp_option_from.simps [simp del]

definition dhcp_option :: "u8 list \<Rightarrow> u8 \<Rightarrow> u8 list option" where
  "dhcp_option packet wanted =
     (if length packet < 240 \<or> take 4 (drop 236 packet) \<noteq> dhcp_magic then None
      else dhcp_option_from packet wanted 240)"

definition dhcp_message_type :: "u8 list \<Rightarrow> u8 option" where
  "dhcp_message_type packet =
     (case dhcp_option packet 53 of Some v \<Rightarrow> if length v = 1 then Some (v ! 0) else None | None \<Rightarrow> None)"

definition dhcp_request_parse :: "u8 list \<Rightarrow> (u8 \<times> dhcp_client) option" where
  "dhcp_request_parse packet =
     (if length packet < 240 \<or> packet ! 0 \<noteq> 1 \<or> packet ! 1 \<noteq> 1 \<or> packet ! 2 < 6 then None
      else (let hardware_address = take 6 (drop 28 packet);
                client_identifier = (case dhcp_option packet 61 of Some v \<Rightarrow> v | None \<Rightarrow> []);
                requested_hostname = (case dhcp_option packet 12 of Some v \<Rightarrow> v | None \<Rightarrow> []) in
        case dhcp_message_type packet of
          None \<Rightarrow> None
        | Some m \<Rightarrow> Some (m, with_metadata client_identifier requested_hostname (new_client hardware_address))))"

definition dhcp_response_len :: nat where
  "dhcp_response_len = 576"

text \<open>Outer \<^term>\<open>None\<close>: an index out of range; inner: the code returns \<^term>\<open>None\<close>.\<close>

definition write_dhcp_option :: "u8 \<Rightarrow> u8 list \<Rightarrow> u8 list \<times> nat \<Rightarrow> (u8 list \<times> nat) option option" where
  "write_dhcp_option tag bytes s =
     (case s of (packet, offset) \<Rightarrow>
       (let end = offset + 2 + length bytes in
        if length packet \<le> end \<or> 255 < length bytes then Some None
        else do {
          packet \<leftarrow> octet_put packet offset tag;
          packet \<leftarrow> octet_put packet (offset + 1) (of_nat (length bytes));
          packet \<leftarrow> octets_put packet (offset + 2) end bytes;
          Some (Some (packet, end))
        }))"

definition write_more :: "u8 \<Rightarrow> u8 list \<Rightarrow> (u8 list \<times> nat) option option \<Rightarrow> (u8 list \<times> nat) option option" where
  "write_more tag bytes s =
     (case s of Some (Some s) \<Rightarrow> write_dhcp_option tag bytes s | Some None \<Rightarrow> Some None | None \<Rightarrow> None)"

text \<open>The fixed part of the reply; the buffer is cleared first.\<close>

definition dhcp_reply_head :: "dhcp_grant \<Rightarrow> u8 list \<Rightarrow> u8 list option" where
  "dhcp_reply_head g request = do {
     htype \<leftarrow> octet_at request 1;
     hlen \<leftarrow> octet_at request 2;
     hops \<leftarrow> octet_at request 3;
     response \<leftarrow> octets_put (replicate dhcp_response_len 0) 0 4 [2, htype, hlen, hops];
     xid \<leftarrow> octets_in request 4 8;
     response \<leftarrow> octets_put response 4 8 xid;
     flags \<leftarrow> octets_in request 10 12;
     response \<leftarrow> octets_put response 10 12 flags;
     response \<leftarrow> octets_put response 16 20 (gr_lease_ip g);
     response \<leftarrow> octets_put response 20 24 ap_ip;
     chaddr \<leftarrow> octets_in request 28 44;
     response \<leftarrow> octets_put response 28 44 chaddr;
     octets_put response 236 240 dhcp_magic
   }"

definition build_dhcp_reply :: "dhcp_grant \<Rightarrow> u8 list \<Rightarrow> u8 list option option" where
  "build_dhcp_reply g request = do {
     response \<leftarrow> dhcp_reply_head g request;
     written \<leftarrow> write_more 6 ap_ip (write_more 3 ap_ip (write_more 1 [255, 255, 255, 0]
       (write_more 51 (to_be32 dhcp_lease_seconds) (write_more 54 ap_ip
         (write_dhcp_option 53 [gr_message_type g] (response, 240))))));
     (case written of
        None \<Rightarrow> Some None
      | Some (response, i) \<Rightarrow> do {
          response \<leftarrow> octet_put response i 255;
          reply \<leftarrow> octets_in response 0 (i + 1);
          Some (Some reply)
        })
   }"

section \<open>The two services\<close>

text \<open>What the tasks of \<open>arch/pico_w/network.rs\<close> do with one received datagram. The registry and the
  status belong to the whole firmware; the pool and the counter to the address service.\<close>

record dhcp_service =
  dv_pool :: dhcp_pool
  dv_grants :: u32

definition new_dhcp_service :: dhcp_service where
  "new_dhcp_service = \<lparr>dv_pool = new_pool, dv_grants = 0\<rparr>"

definition mark_dhcp_grant :: "dhcp_service \<times> network \<Rightarrow> dhcp_service \<times> network" where
  "mark_dhcp_grant s =
     (case s of (d, r, st) \<Rightarrow> (d\<lparr>dv_grants := saturating_inc (dv_grants d)\<rparr>, r, request_led_blinks 5 st))"

text \<open>\<open>now_ms\<close> is the clock at the grant and \<open>later_ms\<close> the clock, cut to 32 bits, at the record.\<close>

definition dhcp_datagram ::
  "dhcp_time \<Rightarrow> u32 \<Rightarrow> u8 list \<Rightarrow> dhcp_service \<times> network \<Rightarrow> ((dhcp_service \<times> network) \<times> u8 list option) option" where
  "dhcp_datagram now_ms later_ms packet s =
     (case s of (d, n) \<Rightarrow>
       (case dhcp_request_parse packet of
          None \<Rightarrow> Some (s, None)
        | Some (m, client) \<Rightarrow>
            (case grant (fst n) m client now_ms (dv_pool d) of
               (pool, None) \<Rightarrow> Some ((d\<lparr>dv_pool := pool\<rparr>, n), None)
             | (pool, Some g) \<Rightarrow>
                 (let n = record_lease (lease_identity client) (be32 (gr_lease_ip g))
                            (later_ms + dhcp_lease_seconds * 1000) n;
                      d = d\<lparr>dv_pool := pool\<rparr> in do {
                    reply \<leftarrow> build_dhcp_reply g packet;
                    (case reply of
                       None \<Rightarrow> Some ((d, n), None)
                     | Some reply \<Rightarrow> Some (mark_dhcp_grant (d, n), Some reply))
                  }))))"

text \<open>A name query reads the registry and changes nothing.\<close>

definition dns_datagram :: "u32 \<Rightarrow> u8 list \<Rightarrow> u8 list \<Rightarrow> network \<Rightarrow> u8 list option option" where
  "dns_datagram now_ms query response n = build_dns_reply query response now_ms (fst n)"

end
