(* ===== verification/Packet_Rules.thy ===== *)
theory Packet_Rules
  imports Name_Packets
begin

text \<open>
  Facts about the packets of \<open>Name_Packets\<close>: a name is read exactly when it is a list of labels, an
  answer to a name query repeats its question and never overruns the buffer, options are found
  under the tag they were written with, and a datagram of the address service is answered by a
  packet from which the grant can be read.
\<close>

section \<open>Names\<close>

definition dns_name :: "u8 list list \<Rightarrow> u8 list" where
  "dns_name labels = concat (map (\<lambda>l. of_nat (length l) # l) labels) @ [0]"

definition labels_ok :: "u8 list list \<Rightarrow> bool" where
  "labels_ok labels \<longleftrightarrow> list_all (\<lambda>l. l \<noteq> [] \<and> length l < 64) labels"

lemma dns_name_simps [simp]:
  "dns_name [] = [0]" "dns_name (l # ls) = of_nat (length l) # l @ dns_name ls"
  by (simp_all add: dns_name_def)

lemma dns_name_nonempty [simp]: "dns_name ls \<noteq> []"
  by (simp add: dns_name_def)

lemma labels_ok_simps [simp]:
  "labels_ok []" "labels_ok (l # ls) \<longleftrightarrow> l \<noteq> [] \<and> length l < 64 \<and> labels_ok ls"
  by (simp_all add: labels_ok_def)

lemma not_compressed: "(b :: u8) AND 0xC0 = 0 \<longleftrightarrow> unat b < 64"
proof -
  have high: "(0xC0 :: u8) = NOT (mask 6)" by code_simp
  have "b AND NOT (mask 6) = 0 \<longleftrightarrow> take_bit 6 b = b"
    by (auto simp: bit_eq_iff bit_simps)
  then have "b AND 0xC0 = 0 \<longleftrightarrow> take_bit 6 b = b" by (simp only: high)
  also have "\<dots> \<longleftrightarrow> unat b < 64"
  proof -
    have "take_bit 6 b = b \<longleftrightarrow> unat (take_bit 6 b) = unat b" by (rule word_unat_eq_iff)
    also have "\<dots> \<longleftrightarrow> take_bit 6 (unat b) = unat b" by (simp add: unsigned_take_bit_eq)
    also have "\<dots> \<longleftrightarrow> unat b < 2 ^ 6" by (rule take_bit_nat_eq_self_iff)
    finally show ?thesis by simp
  qed
  finally show ?thesis .
qed

lemma drop_Cons_nth: "drop i xs = y # ys \<longleftrightarrow> i < length xs \<and> xs ! i = y \<and> drop (Suc i) xs = ys"
  by (cases "i < length xs") (auto simp: Cons_nth_drop_Suc [symmetric])

text \<open>The loop over the labels is the grammar: it stops behind a name exactly where one is written.\<close>

lemma dns_name_end_complete:
  "labels_ok ls \<Longrightarrow> drop i packet = dns_name ls @ rest \<Longrightarrow>
     dns_name_end packet i = Some (i + length (dns_name ls))"
proof (induction ls arbitrary: i)
  case Nil
  then show ?case by (subst dns_name_end.simps) (simp add: drop_Cons_nth)
next
  case (Cons l ls)
  then have i: "i < length packet" "packet ! i = of_nat (length l)"
      "drop (Suc i) packet = l @ dns_name ls @ rest"
    by (simp_all add: drop_Cons_nth)
  have len: "unat (of_nat (length l) :: u8) = length l"
    using Cons.prems(1) by (simp add: unat_of_nat take_bit_eq_mod)
  have rest: "drop (Suc i + length l) packet = dns_name ls @ rest"
    using i(3) by (metis append_eq_conv_conj drop_drop add.commute)
  then have "Suc i + length l < length packet"
    using drop_all [of packet "Suc i + length l"] by (cases "Suc i + length l < length packet") simp_all
  moreover have "(of_nat (length l) :: u8) \<noteq> 0" using len Cons.prems(1) by force
  ultimately show ?case
    using Cons.IH [OF _ rest] Cons.prems(1) i len
    by (subst dns_name_end.simps) (simp add: Let_def not_compressed)
qed

lemma dns_name_end_sound:
  "dns_name_end packet i = Some e \<Longrightarrow>
     \<exists>ls rest. labels_ok ls \<and> drop i packet = dns_name ls @ rest \<and> e = i + length (dns_name ls)"
proof (induction packet i rule: dns_name_end.induct)
  case (1 packet i)
  show ?case
  proof (cases "packet ! i = 0")
    case True
    with 1 have "labels_ok []" "drop i packet = dns_name [] @ drop (Suc i) packet" "e = i + length (dns_name [])"
      by (auto simp: dns_name_end.simps [of packet i] drop_Cons_nth split: if_splits)
    then show ?thesis by blast
  next
    case False
    let ?n = "unat (packet ! i)"
    from 1(2) False have i: "i < length packet" "packet ! i AND 0xC0 = 0" "i + 1 + ?n \<le> length packet"
        "dns_name_end packet (i + 1 + ?n) = Some e"
      by (auto simp: dns_name_end.simps [of packet i] Let_def split: if_splits)
    have "\<exists>ls rest. labels_ok ls \<and> drop (i + 1 + ?n) packet = dns_name ls @ rest \<and>
        e = i + 1 + ?n + length (dns_name ls)"
      by (rule 1(1) [OF i(1) refl]) (use i False in auto)
    then obtain ls rest where ls: "labels_ok ls" "drop (i + 1 + ?n) packet = dns_name ls @ rest"
        "e = i + 1 + ?n + length (dns_name ls)"
      by blast
    let ?l = "take ?n (drop (Suc i) packet)"
    have len: "length ?l = ?n" using i by simp
    have "drop (Suc i) packet = ?l @ drop (i + 1 + ?n) packet"
      by (metis append_take_drop_id drop_drop add.commute Suc_eq_plus1)
    then have "drop i packet = dns_name (?l # ls) @ rest"
      using i(1) ls(2) len by (simp add: drop_Cons_nth)
    moreover have "labels_ok (?l # ls)"
    proof -
      have "?n \<noteq> 0" using False by (simp add: unat_eq_zero)
      then have "?l \<noteq> []" using len by (metis list.size(3))
      then show ?thesis using ls(1) len i(2) by (simp add: not_compressed)
    qed
    moreover have "e = i + length (dns_name (?l # ls))" using ls(3) len by simp
    ultimately show ?thesis by blast
  qed
qed

text \<open>C35. A name is read exactly when it is one: the reader of queries ends behind a name precisely if a list of labels
  of 1 to 63 bytes and the empty label stand there; everything else (a compressed name, a label
  that runs over the end, no end) is refused, whatever the bytes.\<close>

theorem names_are_read_by_grammar:
  "dns_name_end packet i = Some e \<longleftrightarrow>
     (\<exists>labels rest. labels_ok labels \<and> drop i packet = dns_name labels @ rest \<and>
        e = i + length (dns_name labels))"
  using dns_name_end_complete dns_name_end_sound by metis

section \<open>Answers to name queries\<close>

lemma parsed_question:
  assumes "parse_dns_question query = Some q"
  obtains labels tail rest where "labels_ok labels" "length tail = 4"
    "drop 12 query = dns_name labels @ tail @ rest" "17 \<le> length query"
    "dq_name_end q = 12 + length (dns_name labels)" "dq_end q = 16 + length (dns_name labels)"
    "dq_end q \<le> length query"
proof -
  from assms obtain i where i: "dns_name_end query 12 = Some i" "i + 4 \<le> length query" "17 \<le> length query"
      "dq_name_end q = i" "dq_end q = i + 4"
    by (auto simp: parse_dns_question_def split: if_splits option.splits)
  from dns_name_end_sound [OF i(1)] obtain labels rest where
    labels: "labels_ok labels" "drop 12 query = dns_name labels @ rest" "i = 12 + length (dns_name labels)"
    by blast
  have "4 \<le> length rest"
  proof -
    have "length query - 12 = length (dns_name labels) + length rest"
      using labels(2) by (metis length_drop length_append)
    then show ?thesis using i(2) labels(3) by simp
  qed
  then show ?thesis
    using labels i by (intro that [of labels "take 4 rest" "drop 4 rest"]) (simp_all add: add.commute)
qed

definition dns_reply_to :: "u8 list \<Rightarrow> u8 list list \<Rightarrow> u8 list \<Rightarrow> u8 list \<Rightarrow> u8 list" where
  "dns_reply_to query labels tail ip =
     take 2 query @ [0x84 OR (query ! 2 AND 0x01), 0, 0, 1, 0, 1, 0, 0, 0, 0] @
     dns_name labels @ tail @ dns_answer ip"

lemma dns_answer_ip_length: "dns_answer_ip name now_ms r = Some ip \<Longrightarrow> length ip = 4"
  by (auto simp: dns_answer_ip_def ap_ip_def split: if_splits)

lemma length_dns_answer: "length ip = 4 \<Longrightarrow> length (dns_answer ip) = 16"
  by (simp add: dns_answer_def)

text \<open>The response that is built for a question: the bytes of the question with the header set, and the answer.\<close>

lemma dns_reply_written:
  assumes "parse_dns_question query = Some q" "length query \<le> 512" "length response = 512"
    and "dns_answer_ip (take (dq_name_end q - 12) (drop 12 query)) now_ms r = Some ip"
    and "dq_qtype q \<in> {1, 255}" "dq_qclass q \<in> {1, 255}"
  shows "build_dns_reply query response now_ms r =
    Some (if dq_end q + 16 \<le> 512
          then Some (take 2 query @ [0x84 OR (query ! 2 AND 0x01), 0, 0, 1, 0, 1, 0, 0, 0, 0] @
                     drop 12 (take (dq_end q) query) @ dns_answer ip)
          else None)"
proof -
  obtain labels tail rest where q: "17 \<le> length query" "dq_name_end q = 12 + length (dns_name labels)"
    "dq_end q = 16 + length (dns_name labels)" "dq_end q \<le> length query"
    using parsed_question [OF assms(1)] by metis
  define e where "e = dq_end q"
  define head :: "u8 list" where "head = [0x84 OR (query ! 2 AND 0x01), 0, 0, 1, 0, 1, 0, 0, 0, 0]"
  define f where "f = take 2 query @ head @ drop 12 (take e query) @ drop e response"
  define answer where "answer = dns_answer ip"
  have e: "16 \<le> e" "e \<le> 512" "e \<le> length query" "dq_name_end q + 4 = e" using q assms(2) by (simp_all add: e_def)
  have lens: "length head = 10" "length f = 512" "length answer = 16"
    using e assms(3) dns_answer_ip_length [OF assms(4)]
    by (simp_all add: head_def f_def answer_def length_dns_answer)
  have "octets_in query 12 (dq_name_end q) = Some (take (dq_name_end q - 12) (drop 12 query))"
    using e by simp
  moreover have "octets_in query 0 e = Some (take e query)" using e by simp
  moreover have "octets_put response 0 e (take e query) = Some (take e query @ drop e response)"
    using assms(3) e by simp
  moreover have "octets_put (take e query @ drop e response) 2 12 head = Some f"
    using e lens(1) by (simp add: f_def min_def)
  moreover have "octets_put f e (e + 16) answer = Some (take e f @ answer @ drop (e + 16) f)" if "e + 16 \<le> 512"
    using that lens by (intro octets_put_ok) simp_all
  moreover have "octets_in (take e f @ answer @ drop (e + 16) f) 0 (e + 16) = Some (take e f @ answer)"
    if "e + 16 \<le> 512"
    using octets_in_append [of "[]" 0 "take e f @ answer" "e + 16" "drop (e + 16) f"] that lens by simp
  moreover have "take e f = take 2 query @ head @ drop 12 (take e query)" using e lens(1) by (simp add: f_def)
  ultimately have "build_dns_reply query response now_ms r =
      Some (if e + 16 \<le> 512 then Some (take 2 query @ head @ drop 12 (take e query) @ answer) else None)"
    unfolding build_dns_reply_def assms(1) option.case Let_def e_def [symmetric] head_def [symmetric]
    using assms(4-6) lens(2)
    by (simp add: answer_def not_less del: octets_in_ok octets_put_ok)
  then show ?thesis by (simp only: e_def head_def answer_def)
qed


section \<open>Options\<close>

definition encode_options :: "(u8 \<times> u8 list) list \<Rightarrow> u8 list" where
  "encode_options opts = concat (map (\<lambda>(tag, bytes). tag # of_nat (length bytes) # bytes) opts)"

definition options_ok :: "(u8 \<times> u8 list) list \<Rightarrow> bool" where
  "options_ok opts \<longleftrightarrow> list_all (\<lambda>(tag, bytes). tag \<noteq> 0 \<and> tag \<noteq> 255 \<and> length bytes < 256) opts"

lemma encode_options_simps [simp]:
  "encode_options [] = []"
  "encode_options ((tag, bytes) # opts) = tag # of_nat (length bytes) # bytes @ encode_options opts"
  "encode_options (xs @ ys) = encode_options xs @ encode_options ys"
  by (simp_all add: encode_options_def)

lemma options_ok_simps [simp]:
  "options_ok []"
  "options_ok ((tag, bytes) # opts) \<longleftrightarrow> tag \<noteq> 0 \<and> tag \<noteq> 255 \<and> length bytes < 256 \<and> options_ok opts"
  by (simp_all add: options_ok_def)

text \<open>The reader finds the first value written under a tag.\<close>

lemma option_read:
  "options_ok opts \<Longrightarrow> drop i packet = encode_options opts @ 255 # rest \<Longrightarrow>
     dhcp_option_from packet wanted i = map_of opts wanted"
proof (induction opts arbitrary: i)
  case Nil
  then have "i < length packet" "packet ! i = 255" by (simp_all add: drop_Cons_nth)
  then show ?case by (subst dhcp_option_from.simps) (simp add: Let_def)
next
  case (Cons opt opts)
  obtain tag bytes where opt: "opt = (tag, bytes)" by (cases opt)
  have i: "i < length packet" "packet ! i = tag" "Suc i < length packet" "packet ! Suc i = of_nat (length bytes)"
      "drop (Suc (Suc i)) packet = bytes @ encode_options opts @ 255 # rest"
    using Cons.prems(2) by (simp_all add: opt drop_Cons_nth)
  have tag: "tag \<noteq> 0" "tag \<noteq> 255" "length bytes < 256" "options_ok opts" using Cons.prems(1) by (simp_all add: opt)
  have len: "unat (of_nat (length bytes) :: u8) = length bytes"
    using tag(3) by (simp add: unat_of_nat take_bit_eq_mod)
  have later: "drop (Suc (Suc i) + length bytes) packet = encode_options opts @ 255 # rest"
    using arg_cong [OF i(5), of "drop (length bytes)"] by (simp add: add.commute)
  then have "Suc (Suc i) + length bytes \<le> length packet"
    using drop_all [of packet "Suc (Suc i) + length bytes"]
    by (cases "Suc (Suc i) + length bytes \<le> length packet") simp_all
  moreover have "take (length bytes) (drop (Suc (Suc i)) packet) = bytes" by (simp add: i(5))
  ultimately show ?case
    using i(1-4) tag len Cons.IH [OF tag(4) later]
    by (subst dhcp_option_from.simps) (simp add: Let_def opt not_le)
qed

text \<open>The writer appends an option to what is written, with zeros behind.\<close>

lemma option_written:
  assumes "length pre = offset" and "2 + length bytes < k" and "length bytes \<le> 255"
  shows "write_dhcp_option tag bytes (pre @ replicate k 0, offset) =
    Some (Some ((pre @ encode_options [(tag, bytes)]) @ replicate (k - 2 - length bytes) 0, offset + 2 + length bytes))"
proof -
  define n where "n = k - 2 - length bytes"
  have k: "replicate k (0 :: u8) = 0 # 0 # replicate (length bytes) 0 @ replicate n 0"
    using assms(2) by (simp add: n_def replicate_add [symmetric] flip: replicate_Suc)
  have n: "0 < n" "k - Suc (Suc (length bytes)) = n" using assms(2) by (simp_all add: n_def)
  show ?thesis
    using assms n by (simp add: write_dhcp_option_def Let_def k n_def [symmetric] nth_append list_update_append)
qed

section \<open>Replies of the address service\<close>

lemma put_zeros:
  assumes "length pre + gap = a" and "b = a + length bytes" and "gap + length bytes \<le> k"
  shows "octets_put (pre @ replicate k 0) a b bytes =
    Some ((pre @ replicate gap 0 @ bytes) @ replicate (k - gap - length bytes) (0 :: u8))"
proof -
  have "a = length pre + gap" using assms(1) by simp
  then show ?thesis using assms(3) by (simp add: assms(2) min_def)
qed

definition reply_fixed :: "dhcp_grant \<Rightarrow> u8 list \<Rightarrow> u8 list" where
  "reply_fixed g request =
     [2, request ! 1, request ! 2, request ! 3] @ take 4 (drop 4 request) @ replicate 2 0 @
     take 2 (drop 10 request) @ replicate 4 0 @ gr_lease_ip g @ ap_ip @ replicate 4 0 @
     take 16 (drop 28 request) @ replicate 192 0 @ dhcp_magic"

definition reply_options :: "dhcp_grant \<Rightarrow> (u8 \<times> u8 list) list" where
  "reply_options g =
     [(53, [gr_message_type g]), (54, ap_ip), (51, to_be32 dhcp_lease_seconds), (1, [255, 255, 255, 0]),
      (3, ap_ip), (6, ap_ip)]"

lemma reply_head_written:
  assumes "44 \<le> length request" and "length (gr_lease_ip g) = 4"
  shows "dhcp_reply_head g request = Some (reply_fixed g request @ replicate 336 0)"
proof -
  have ap: "length ap_ip = 4" "length dhcp_magic = 4" by (simp_all add: ap_ip_def dhcp_magic_def)
  define p1 where "p1 = [2, request ! 1, request ! 2, request ! 3]"
  define p2 where "p2 = p1 @ replicate 0 0 @ take 4 (drop 4 request)"
  define p3 where "p3 = p2 @ replicate 2 0 @ take 2 (drop 10 request)"
  define p4 where "p4 = p3 @ replicate 4 0 @ gr_lease_ip g"
  define p5 where "p5 = p4 @ replicate 0 0 @ ap_ip"
  define p6 where "p6 = p5 @ replicate 4 0 @ take 16 (drop 28 request)"
  define p7 where "p7 = p6 @ replicate 192 0 @ dhcp_magic"
  have len: "length p1 = 4" "length p2 = 8" "length p3 = 12" "length p4 = 20" "length p5 = 24" "length p6 = 44"
    using assms ap by (simp_all add: p1_def p2_def p3_def p4_def p5_def p6_def)
  have "octets_put (replicate dhcp_response_len 0) 0 4 p1 = Some (p1 @ replicate 572 0)"
    using put_zeros [of "[]" 0 0 4 p1 576] len by (simp add: dhcp_response_len_def del: octets_put_ok)
  moreover have "octets_put (p1 @ replicate 572 0) 4 8 (take 4 (drop 4 request)) = Some (p2 @ replicate 568 0)"
    unfolding p2_def by (subst put_zeros [where gap = 0]) (use assms len in simp_all)
  moreover have "octets_put (p2 @ replicate 568 0) 10 12 (take 2 (drop 10 request)) = Some (p3 @ replicate 564 0)"
    unfolding p3_def by (subst put_zeros [where gap = 2]) (use assms len in simp_all)
  moreover have "octets_put (p3 @ replicate 564 0) 16 20 (gr_lease_ip g) = Some (p4 @ replicate 556 0)"
    unfolding p4_def by (subst put_zeros [where gap = 4]) (use assms len in simp_all)
  moreover have "octets_put (p4 @ replicate 556 0) 20 24 ap_ip = Some (p5 @ replicate 552 0)"
    unfolding p5_def by (subst put_zeros [where gap = 0]) (use ap len in simp_all)
  moreover have "octets_put (p5 @ replicate 552 0) 28 44 (take 16 (drop 28 request)) = Some (p6 @ replicate 532 0)"
    unfolding p6_def by (subst put_zeros [where gap = 4]) (use assms len in simp_all)
  moreover have "octets_put (p6 @ replicate 532 0) 236 240 dhcp_magic = Some (p7 @ replicate 336 0)"
    unfolding p7_def by (subst put_zeros [where gap = 192]) (use ap len in simp_all)
  moreover have "p7 = reply_fixed g request"
    by (simp add: p1_def p2_def p3_def p4_def p5_def p6_def p7_def reply_fixed_def)
  ultimately show ?thesis
    using assms unfolding dhcp_reply_head_def by (simp add: p1_def [symmetric] del: octets_put_ok One_nat_def)
qed

lemma length_reply_fixed:
  "44 \<le> length request \<Longrightarrow> length (gr_lease_ip g) = 4 \<Longrightarrow> length (reply_fixed g request) = 240"
  by (simp add: reply_fixed_def ap_ip_def dhcp_magic_def)

lemma write_more_option:
  assumes "s = Some (Some (pre @ replicate k 0, length pre))" and "2 + length bytes < k" and "length bytes \<le> 255"
  shows "write_more tag bytes s = Some (Some ((pre @ encode_options [(tag, bytes)]) @ replicate (k - 2 - length bytes) 0,
    length (pre @ encode_options [(tag, bytes)])))"
  using option_written [OF refl assms(2,3)] assms(1) by (simp add: write_more_def)

lemma dhcp_reply_written:
  assumes "44 \<le> length request" and "length (gr_lease_ip g) = 4"
  shows "build_dhcp_reply g request =
    Some (Some (reply_fixed g request @ encode_options (reply_options g) @ [255]))"
proof -
  define h where "h = reply_fixed g request"
  have ap: "length ap_ip = 4" by (simp add: ap_ip_def)
  define o1 where "o1 = h @ encode_options [(53, [gr_message_type g])]"
  define o2 where "o2 = o1 @ encode_options [(54, ap_ip)]"
  define o3 where "o3 = o2 @ encode_options [(51, to_be32 dhcp_lease_seconds)]"
  define o4 where "o4 = o3 @ encode_options [(1, [255, 255, 255, 0])]"
  define o5 where "o5 = o4 @ encode_options [(3, ap_ip)]"
  define o6 where "o6 = o5 @ encode_options [(6, ap_ip)]"
  have h: "length h = 240" unfolding h_def by (rule length_reply_fixed [OF assms])
  have len: "length o6 = 273" using h ap by (simp add: o1_def o2_def o3_def o4_def o5_def o6_def)
  have s1: "write_dhcp_option 53 [gr_message_type g] (h @ replicate 336 0, 240) =
      Some (Some (o1 @ replicate 333 0, length o1))"
    using option_written [of h 240 "[gr_message_type g]" 336 53] h by (simp add: o1_def)
  have s2: "write_more 54 ap_ip (Some (Some (o1 @ replicate 333 0, length o1))) =
      Some (Some (o2 @ replicate 327 0, length o2))"
    unfolding o2_def by (subst write_more_option [OF refl]) (use ap in simp_all)
  have s3: "write_more 51 (to_be32 dhcp_lease_seconds) (Some (Some (o2 @ replicate 327 0, length o2))) =
      Some (Some (o3 @ replicate 321 0, length o3))"
    unfolding o3_def by (subst write_more_option [OF refl]) simp_all
  have s4: "write_more 1 [255, 255, 255, 0] (Some (Some (o3 @ replicate 321 0, length o3))) =
      Some (Some (o4 @ replicate 315 0, length o4))"
    unfolding o4_def by (subst write_more_option [OF refl]) simp_all
  have s5: "write_more 3 ap_ip (Some (Some (o4 @ replicate 315 0, length o4))) =
      Some (Some (o5 @ replicate 309 0, length o5))"
    unfolding o5_def by (subst write_more_option [OF refl]) (use ap in simp_all)
  have s6: "write_more 6 ap_ip (Some (Some (o5 @ replicate 309 0, length o5))) =
      Some (Some (o6 @ replicate 303 0, length o6))"
    unfolding o6_def by (subst write_more_option [OF refl]) (use ap in simp_all)
  have "replicate 303 (0 :: u8) = 0 # replicate 302 0" by (simp add: eval_nat_numeral)
  then have s7: "octet_put (o6 @ replicate 303 0) (length o6) 255 = Some (o6 @ 255 # replicate 302 0)"
    by (simp add: octet_put_def)
  have s8: "octets_in (o6 @ 255 # replicate 302 0) 0 (length o6 + 1) = Some (o6 @ [255])"
    using octets_in_append [of "[]" 0 "o6 @ [255]" "length o6 + 1" "replicate 302 0"] by simp
  have "build_dhcp_reply g request = Some (Some (o6 @ [255]))"
    unfolding build_dhcp_reply_def reply_head_written [OF assms] h_def [symmetric]
    by (simp add: s1 s2 s3 s4 s5 s6 s7 s8 [unfolded Suc_eq_plus1 [symmetric]] del: octet_put_ok octets_in_ok)
  then show ?thesis
    by (simp add: o1_def o2_def o3_def o4_def o5_def o6_def reply_options_def h_def)
qed

lemma length_pool_address [simp]: "length (pool_address i) = 4"
  by (simp add: pool_address_def)

lemma granted_address:
  assumes "pool_ok pool" and "grant r m c now_ms pool = (pool', Some g)"
  obtains i where "i < dhcp_pool_size" "gr_lease_ip g = pool_address i" "gr_message_type g = 2 \<or> gr_message_type g = 5"
proof -
  let ?now = "clear_expired now_ms pool"
  have ok: "pool_ok ?now" by (rule pool_ok_clear_expired [OF assms(1)])
  have "\<exists>i < dhcp_pool_size. ip = pool_address i" if "snd (reserve r c now_ms seconds ?now) = Some ip" for ip seconds
  proof (rule reserve_cases [OF ok, of r c now_ms seconds])
    fix i l
    assume "i < length ?now" "reserve r c now_ms seconds ?now = (?now[i := Some l], Some (pool_address i))"
    then show ?thesis using that pool_ok_length [OF ok] by auto
  qed (use that in simp)
  moreover have "\<exists>seconds. snd (reserve r c now_ms seconds ?now) = Some (gr_lease_ip g) \<and>
      (gr_message_type g = 2 \<or> gr_message_type g = 5)"
    using assms(2)
    by (auto simp: grant_def Let_def grant_of_def apsnd_def map_prod_def split: prod.splits if_splits)
      (metis snd_conv)+
  ultimately show ?thesis using that by blast
qed

lemma parsed_request:
  assumes "dhcp_request_parse packet = Some (m, client)"
  shows "240 \<le> length packet"
  using assms by (simp add: dhcp_request_parse_def Let_def split: if_splits)

lemma reply_options_ok: "length (gr_lease_ip g) = 4 \<Longrightarrow> options_ok (reply_options g)"
  by (simp add: reply_options_def ap_ip_def)

lemma reply_is_read:
  assumes "44 \<le> length request" and "length (gr_lease_ip g) = 4"
  shows "dhcp_option (reply_fixed g request @ encode_options (reply_options g) @ [255]) wanted = map_of (reply_options g) wanted"
proof -
  let ?reply = "reply_fixed g request @ encode_options (reply_options g) @ [255]"
  have len: "length (reply_fixed g request) = 240" by (rule length_reply_fixed [OF assms])
  have "take 4 (drop 236 ?reply) = dhcp_magic"
    using len assms by (simp add: reply_fixed_def ap_ip_def dhcp_magic_def del: append_assoc)
  moreover have "dhcp_option_from ?reply wanted 240 = map_of (reply_options g) wanted"
    using len by (intro option_read [OF reply_options_ok [OF assms(2)]]) simp
  moreover have "240 \<le> length ?reply" using len by simp
  ultimately show ?thesis unfolding dhcp_option_def by (simp only: not_less [symmetric]) simp
qed


section \<open>From an address to a name\<close>

lemma pool_address_word: "be32 (pool_address i) \<noteq> 0" "to_be32 (be32 (pool_address i)) = pool_address i"
proof -
  show eq: "to_be32 (be32 (pool_address i)) = pool_address i" by (simp add: pool_address_def to_be32_be32)
  show "be32 (pool_address i) \<noteq> 0"
  proof
    assume "be32 (pool_address i) = 0"
    then have "to_be32 0 = pool_address i" using eq by simp
    then show False by (simp add: to_be32_def pool_address_def)
  qed
qed

lemma registration_ignores_status:
  "fst (fst (register_motherbrain i ip dv b req now_ms (r, s))) = fst (fst (register_motherbrain i ip dv b req now_ms (r, s')))"
  by (simp add: register_motherbrain_def Let_def split: option.split)

lemma datagram_recorded:
  assumes "dhcp_datagram now_ms later_ms packet (d, r, st) = Some ((d', n), Some reply)"
    and "dhcp_request_parse packet = Some (m, client)"
    and "grant r m client now_ms (dv_pool d) = (pool', Some g)"
  shows "fst n = fst (record_lease (lease_identity client) (be32 (gr_lease_ip g)) (later_ms + 3600000) (r, st))"
  using assms
  by (auto simp: dhcp_datagram_def dhcp_lease_seconds_def mark_dhcp_grant_def Let_def
      split: prod.splits Option.bind_splits option.splits)

lemma motherbrain_question:
  assumes "labels_ok labels" and "dns_name_eq (dns_name labels) motherbrain_internal"
    and "length header = 12" and "header ! 2 AND 0x80 = 0" and "be16 (header ! 4) (header ! 5) \<noteq> 0"
  shows "parse_dns_question (header @ dns_name labels @ [0, 1, 0, 1]) =
    Some \<lparr>dq_name_end = 39, dq_end = 43, dq_qtype = 1, dq_qclass = 1\<rparr>"
    "length (dns_name labels) = 27"
    "dns_answer_ip (dns_name labels) now_ms r = map_option to_be32 (resolve_motherbrain now_ms r)"
proof -
  have "length motherbrain_internal = 27" by (simp add: motherbrain_internal_def ascii_def)
  then show len: "length (dns_name labels) = 27" using assms(2) by (simp add: dns_name_eq_def)
  have "dns_name_end (header @ dns_name labels @ [0, 1, 0, 1]) 12 = Some (12 + 27)"
    using dns_name_end_complete [OF assms(1), of 12 "header @ dns_name labels @ [0, 1, 0, 1]" "[0, 1, 0, 1]"]
      assms(3) len by simp
  moreover have "(header @ dns_name labels @ [0, 1, 0, 1]) ! (39 + k) = [0, 1, 0, 1] ! k" if "k < 4" for k
    using assms(3) len by (simp add: nth_append)
  note this [of 0] this [of 1] this [of 2] this [of 3]
  moreover have "be16 0 1 = 1" by (simp add: be16_def)
  ultimately show "parse_dns_question (header @ dns_name labels @ [0, 1, 0, 1]) =
      Some \<lparr>dq_name_end = 39, dq_end = 43, dq_qtype = 1, dq_qclass = 1\<rparr>"
    using assms(3-5) len by (simp add: parse_dns_question_def nth_append)
  have "length pete_internal = 15" "length brainstem_internal = 25" "length gateway_internal = 23" "length mdns_name = 12"
    by (simp_all add: pete_internal_def brainstem_internal_def gateway_internal_def mdns_name_def ascii_def)
  then show "dns_answer_ip (dns_name labels) now_ms r = map_option to_be32 (resolve_motherbrain now_ms r)"
    using assms(2) len by (simp add: dns_answer_ip_def dns_name_eq_def)
qed


section \<open>The announcement is complete\<close>

definition record_of :: "u8 list \<Rightarrow> u8 list \<Rightarrow> u8 list \<Rightarrow> u8 list" where
  "record_of name kind rdata = name @ kind @ [0, 0, 0, 120] @ to_be (of_nat (length rdata)) @ rdata"

lemma put_more_zeros:
  "length bytes \<le> k \<Longrightarrow> put_more bytes (pre @ replicate k 0, Some (length pre)) =
     ((pre @ bytes) @ replicate (k - length bytes) 0, Some (length (pre @ bytes)))"
  by (simp add: put_more_def put_bytes_def)

lemma pointer_written:
  assumes "length (record_of name [0, 12, 0, 1] target) \<le> k"
  shows "mdns_ptr name target (pre @ replicate k 0, Some (length pre)) =
    ((pre @ record_of name [0, 12, 0, 1] target) @ replicate (k - length (record_of name [0, 12, 0, 1] target)) 0,
     Some (length (pre @ record_of name [0, 12, 0, 1] target)))"
  using assms unfolding mdns_ptr_def record_of_def
  by (subst put_more_zeros; (subst put_more_zeros)?; (subst put_more_zeros)?; (subst put_more_zeros)?; simp)

lemma location_written:
  assumes "length (record_of name [0, 33, 0x80, 1] ([0, 0, 0, 0] @ to_be port @ target)) \<le> k"
  shows "mdns_srv name port target (pre @ replicate k 0, Some (length pre)) =
    ((pre @ record_of name [0, 33, 0x80, 1] ([0, 0, 0, 0] @ to_be port @ target)) @
       replicate (k - length (record_of name [0, 33, 0x80, 1] ([0, 0, 0, 0] @ to_be port @ target))) 0,
     Some (length (pre @ record_of name [0, 33, 0x80, 1] ([0, 0, 0, 0] @ to_be port @ target))))"
  using assms unfolding mdns_srv_def record_of_def
  by (subst put_more_zeros; (subst put_more_zeros)?; (subst put_more_zeros)?; (subst put_more_zeros)?;
      (subst put_more_zeros)?; (subst put_more_zeros)?; simp)

definition service_records :: "u8 list \<times> u16 \<Rightarrow> u8 list" where
  "service_records sp =
     (case sp of (service, port) \<Rightarrow>
       record_of service [0, 12, 0, 1] (mdns_instance service) @
       record_of (mdns_instance service) [0, 33, 0x80, 1] ([0, 0, 0, 0] @ to_be port @ mdns_name))"

lemma service_announced:
  assumes "length (service_records sp) \<le> k"
  shows "announce_service sp (pre @ replicate k 0, length pre) =
    ((pre @ service_records sp) @ replicate (k - length (service_records sp)) 0, length (pre @ service_records sp))"
proof -
  obtain service port where sp: "sp = (service, port)" by (cases sp)
  let ?p = "record_of service [0, 12, 0, 1] (mdns_instance service)"
  let ?l = "record_of (mdns_instance service) [0, 33, 0x80, 1] ([0, 0, 0, 0] @ to_be port @ mdns_name)"
  have len: "length ?p \<le> k" "length ?l \<le> k - length ?p"
    using assms by (simp_all add: sp service_records_def)
  have "put_or_stay (mdns_ptr service (mdns_instance service)) (pre @ replicate k 0, length pre) =
      ((pre @ ?p) @ replicate (k - length ?p) 0, length (pre @ ?p))"
    unfolding put_or_stay_def prod.case pointer_written [OF len(1)] by simp
  moreover have "put_or_stay (mdns_srv (mdns_instance service) port mdns_name)
      ((pre @ ?p) @ replicate (k - length ?p) 0, length (pre @ ?p)) =
      (((pre @ ?p) @ ?l) @ replicate (k - length ?p - length ?l) 0, length ((pre @ ?p) @ ?l))"
    unfolding put_or_stay_def prod.case location_written [OF len(2)] by simp
  ultimately show ?thesis by (simp add: announce_service_def sp service_records_def)
qed

lemma services_announced:
  "length (concat (map service_records sps)) \<le> k \<Longrightarrow>
   fold announce_service sps (pre @ replicate k 0, length pre) =
     ((pre @ concat (map service_records sps)) @ replicate (k - length (concat (map service_records sps))) 0,
      length (pre @ concat (map service_records sps)))"
proof (induction sps arbitrary: pre k)
  case (Cons sp sps)
  then have len: "length (service_records sp) \<le> k"
    "length (concat (map service_records sps)) \<le> k - length (service_records sp)" by simp_all
  show ?case
    unfolding fold_simps(2) service_announced [OF len(1)] Cons.IH [OF len(2)] by simp
qed simp

text \<open>Nothing of the announcement is left out for lack of room: behind the header stand the address record and,
  for each of the four services, its pointer and its location, nine records as the header says.\<close>

lemma announcement_is_complete:
  "take (snd build_mdns_announcement) (fst build_mdns_announcement) =
     [0, 0, 0x84, 0, 0, 0, 0, 9, 0, 0, 0, 0] @ record_of mdns_name [0, 1, 0x80, 1] ap_ip @
     concat (map service_records mdns_services)"
proof -
  define h :: "u8 list" where "h = [0, 0, 0x84, 0, 0, 0, 0, 9, 0, 0, 0, 0]"
  have h: "length h = 12" by (simp add: h_def)
  let ?a = "record_of mdns_name [0, 1, 0x80, 1] ap_ip"
  have lens: "length mdns_name = 12" "length ap_ip = 4" by (simp_all add: mdns_name_def ascii_def ap_ip_def)
  have a: "length ?a = 26" by (simp add: record_of_def lens)
  have header: "mdns_header = h @ replicate 756 0"
  proof -
    have "replicate 760 (0 :: u8) = replicate 4 0 @ replicate 756 0" by (simp add: replicate_add [symmetric])
    moreover have "replicate 4 (0 :: u8) = [0, 0, 0, 0]" by (simp add: eval_nat_numeral)
    ultimately show ?thesis by (simp add: mdns_header_def to_be_def h_def)
  qed
  have "mdns_a mdns_name ap_ip (h @ replicate 756 0, Some (length h)) =
      ((h @ ?a) @ replicate 730 0, Some (length (h @ ?a)))"
    unfolding mdns_a_def record_of_def
    by (subst put_more_zeros; (subst put_more_zeros)?; (subst put_more_zeros)?; simp add: lens to_be_def)
  then have "mdns_a mdns_name ap_ip (mdns_header, Some 12) = ((h @ ?a) @ replicate 730 0, Some (length (h @ ?a)))"
    unfolding header by (simp only: h)
  moreover have "length (concat (map service_records mdns_services)) \<le> 730" by code_simp
  ultimately have built: "build_mdns_announcement = ((h @ ?a @ concat (map service_records mdns_services)) @
        replicate (730 - length (concat (map service_records mdns_services))) 0,
      length (h @ ?a @ concat (map service_records mdns_services)))"
    using services_announced [of mdns_services 730 "h @ ?a"]
    unfolding build_mdns_announcement_def by simp
  have "take (length xs) (xs @ ys) = xs" for xs ys :: "u8 list" by simp
  then have "take (snd build_mdns_announcement) (fst build_mdns_announcement) =
      h @ ?a @ concat (map service_records mdns_services)" unfolding built fst_conv snd_conv .
  then show ?thesis by (simp only: h_def)
qed

section \<open>Concrete datagrams\<close>

definition example_query :: "u8 list" where
  "example_query = [0x12, 0x34, 1, 0, 0, 1, 0, 0, 0, 0, 0, 0] @
     [4] @ ascii ''Pete'' @ [8] @ ascii ''internal'' @ [0] @ [0, 1, 0, 1]"

definition example_answer :: "u8 list" where
  "example_answer = [0x12, 0x34, 0x85, 0, 0, 1, 0, 1, 0, 0, 0, 0] @
     [4] @ ascii ''Pete'' @ [8] @ ascii ''internal'' @ [0] @ [0, 1, 0, 1] @
     [0xC0, 0x0C, 0, 1, 0, 1, 0, 0, 0, 0x3C, 0, 4, 192, 168, 4, 1]"

lemma example_answered:
  "build_dns_reply example_query (replicate 512 0) 0 initial_registry = Some (Some example_answer)"
  by code_simp


definition example_discovery :: "u8 list" where
  "example_discovery = [1, 1, 6, 0, 0xAB, 0xCD, 0xEF, 1] @ replicate 20 0 @ [2, 0, 0, 0, 0, 1] @ replicate 202 0 @
     dhcp_magic @ [53, 1, 1, 255]"

lemma example_discovery_parsed: "dhcp_request_parse example_discovery = Some (1, first_client)"
  by code_simp

lemma example_offered: "grant initial_registry 1 first_client 0 (dv_pool new_dhcp_service) =
    (Some \<lparr>pl_client = first_client, pl_ip = pool_address 0, pl_expires_at_ms = 30000\<rparr> # replicate 7 None,
     Some \<lparr>gr_message_type = 2, gr_lease_ip = pool_address 0\<rparr>)"
  by (simp add: new_dhcp_service_def grant_rules clear_new_pool reserve_new_pool sat_add_def)

lemma example_served: "dv_pool new_dhcp_service = fst (serve [] new_pool)"
  by (simp add: new_dhcp_service_def)

lemma example_reply:
  obtains d n reply where "dhcp_datagram 0 0 example_discovery (new_dhcp_service, initial_registry, initial_status) =
    Some ((d, n), Some reply)"
proof -
  have "44 \<le> length example_discovery" by (simp add: example_discovery_def)
  note dhcp_reply_written [OF this, of "\<lparr>gr_message_type = 2, gr_lease_ip = pool_address 0\<rparr>"]
  moreover obtain r st where "record_lease (lease_identity first_client) (be32 (pool_address 0))
      (0 + dhcp_lease_seconds * 1000) (initial_registry, initial_status) = (r, st)" by fastforce
  ultimately show ?thesis
    using that by (simp add: dhcp_datagram_def example_discovery_parsed example_offered Let_def mark_dhcp_grant_def)
qed



end
