(* ===== verification/Spec2Isabelle.thy ===== *)
theory Spec2Isabelle
  imports Tick_Rules Mailbox Authority Audio Client_Rules Safe_Rules Sim_Possession Answer_Rules Packet_Rules
begin

text \<open>
  The brainstem firmware of \<open>netherwick\<close> and the client that talks to it: the crate \<open>src/crates/pete-brainstem\<close>,
  which drives an iRobot Create over a serial line, guards its motions and serves the commands of the layers above;
  the protocol rules both ends share (\<open>src/crates/pete-cockpit-protocol\<close>); and the cockpit library of the host
  (\<open>src/crates/pete-cockpit\<close>). Paths below are relative to \<open>src/crates/pete-brainstem/src\<close>, paths that begin with
  \<open>cockpit/\<close> to \<open>src/crates/pete-cockpit/src\<close>.

  How the program works. A single loop (\<open>Runtime::run\<close>) ticks every 10 ms. The other tasks of the firmware
  (serial lanes, web service, access point) never touch the robot: they write atomic words of the \<open>status\<close>
  module. A tick carries out pending session and authority changes, polls the serial line, judges the
  link, takes at most one command from the mailbox into a queue of sixteen, senses, applies the
  safety policy and the watchdogs, keeps the Create in Full mode, and then advances the active
  action or starts the next command. A client opens a session with a hello, asks for a control lease, which the
  runtime acknowledges, and then sends commands as lines or JSON objects that name session and lease. On the host
  a possession holds the lease, renews it, retries while the brainstem is busy, bounds velocities and closes its
  motor gate when a command fails; tests and tools put a simulator in the place of the robot.

  The firmware, in the order of the theories:

  \<^item> \<open>Prelude\<close>: wrapping deadlines, saturating arithmetic, operations that return a state and an optional
    error (\<open>outcome\<close>, \<open>and_then\<close> for Rust's question mark), bounded deques; the locale of transitions.
  \<^item> \<open>Commands\<close> (\<open>commands.rs\<close>, \<open>events.rs\<close>, \<open>runtime/helpers.rs\<close>), \<open>Protocol\<close>, \<open>Platform\<close> (the build constants),
    \<open>Imu\<close> (\<open>drivers/imu.rs\<close>), \<open>Audio\<close> (\<open>audio.rs\<close>): data and the pure parts.
  \<^item> \<open>Event_Log\<close>, \<open>Status_State\<close>, \<open>Status_Marks\<close>, \<open>Telemetry\<close>, \<open>Authority\<close>, \<open>Command_Codec\<close>, \<open>Mailbox\<close>, \<open>Escape\<close>
    (\<open>status/*.rs\<close>): the statics as one record \<open>status\<close> grouped by purpose, and every operation that
    writes or reads them.
  \<^item> \<open>Hardware\<close> (\<open>hardware.rs\<close>), \<open>Sensor_Packets\<close>, \<open>Create_Uart\<close>, \<open>Stream_Parser\<close> (\<open>drivers/create_uart.rs\<close>): the
    hardware as an environment record, and the driver on \<open>link\<close>, which holds hardware, status, driver
    state and the event queue.
  \<^item> \<open>Network_Registry\<close> (\<open>network_registry.rs\<close>): DHCP leases and the motherbrain name.
  \<^item> \<open>Runtime_State\<close>, \<open>Runtime_Motion\<close>, \<open>Runtime_Safety\<close>, \<open>Runtime_Queue\<close>, \<open>Runtime_Execution\<close>, \<open>Runtime_Tick\<close>
    (\<open>runtime.rs\<close>, \<open>runtime/*.rs\<close>, \<open>drivers/timers.rs\<close>, \<open>drivers/leds.rs\<close>): the fields of \<open>Runtime\<close> as the record \<open>sys\<close>
    in seven groups around the link, one definition per method; long methods are split along their
    \<open>if\<close> and \<open>match\<close> arms.
  \<^item> \<open>Safety_Rules\<close>, \<open>Execution_Rules\<close>, \<open>Tick_Rules\<close>: what the runtime guarantees.
  \<^item> \<open>Text_Fields\<close>, \<open>Command_Text\<close> (\<open>arch/pico_w/json.rs\<close>, \<open>arch/pico_w/commands.rs\<close>): the readers of numbers, words,
    JSON fields and commands; \<open>Session\<close> (\<open>session.rs\<close>), \<open>Admission\<close> (\<open>arch/pico_w/handshake.rs\<close>, \<open>authority.rs\<close>):
    identities, hellos, leases and registrations; \<open>Control_Lines\<close> (\<open>arch/pico_w/commands.rs\<close>, \<open>peripherals.rs\<close>):
    the serial lanes from received bytes to a mailbox entry and an answer.
  \<^item> The access point. \<open>Octets\<close>: byte buffers whose indexing may panic. \<open>Dhcp\<close> (\<open>dhcp.rs\<close>): the pool of eight
    addresses; \<open>Icmp\<close> (\<open>icmp.rs\<close>, \<open>arch/pico_w/hardware.rs\<close>): the device that answers echo requests in place before
    the network stack sees them; \<open>Name_Packets\<close> (\<open>arch/pico_w/discovery.rs\<close>, \<open>network.rs\<close>): the announcement, name
    queries and address packets, with what the tasks do on one datagram; \<open>Packet_Rules\<close>: what they guarantee.

  The client:

  \<^item> \<open>Cockpit_Request\<close>, \<open>Cockpit_Wire\<close> (\<open>cockpit/wire.rs\<close>): requests, their authorization and their compact lines;
    \<open>Cockpit_Events\<close>, \<open>Cockpit_Contract\<close> (\<open>cockpit/events.rs\<close>, \<open>cockpit/contract.rs\<close>): the events as the client
    reads them, the limits a request is checked against.
  \<^item> \<open>Wire_Rules\<close>, \<open>Control_Rules\<close>, \<open>Client_Rules\<close>: client and firmware together.
  \<^item> \<open>Client_Handshake\<close> (\<open>handshake.rs\<close> of the client): hello, welcome and rejection, the reference negotiation, the
    validation of an outcome and the line decoder; \<open>Cockpit_Answers\<close> (\<open>cockpit/possession/uart.rs\<close>) and
    \<open>Cockpit_Status\<close> (\<open>cockpit/contract.rs\<close>): what the client reads from lines and JSON objects.
  \<^item> \<open>Possession\<close> (\<open>cockpit/possession/session.rs\<close>, \<open>access.rs\<close>, \<open>cockpit/interface.rs\<close>): sessions and the possession over
    a connector, the trait \<open>Cockpit\<close> as a record of operations on an arbitrary state; \<open>Safe_Client\<close>
    (\<open>cockpit/safety.rs\<close>): the wrapper for agents.
  \<^item> \<open>Sim_Cockpit\<close> (\<open>cockpit/simulator.rs\<close>): the simulator, its fields in seven groups, and the connector it makes.
  \<^item> \<open>Possession_Rules\<close>, \<open>Possession_Safety\<close>, \<open>Safe_Rules\<close>: what possession and wrapper guarantee over any connector;
    \<open>Sim_Rules\<close>, \<open>Sim_Safety\<close>: what the simulator keeps, beside the firmware; \<open>Sim_Possession\<close>, \<open>Answer_Rules\<close>: the
    client over the simulator, and the status it reads back.

  What the lemmas show. \<open>Create_Uart\<close> classes the frames that can move the wheels and proves every other
  driver operation \<open>quiet\<close>. \<open>Runtime_State\<close> states the contract of an operation that starts no motion
  as the locale \<open>steady\<close>, with \<open>mobile\<close> and \<open>thorough\<close> for predicates that survive more; each later
  theory proves its operations inside these locales once, and the interpretations give ``only quiet
  frames are sent'', ``the emergency stop is what it was'' and the invariant \<open>sys_ok\<close>. On top of them stand
  the properties: safety of the emergency stop, latches, watchdogs and barriers, priority of hazards, admission
  of escapes, delivery of commands and sensor frames, refinement of the event ring to an
  unbounded history, invariants over any interleaving of ticks and other tasks. \<open>Wire_Rules\<close> proves that
  the firmware reads back each line the client prints; \<open>Control_Rules\<close> that a line reaches the mailbox
  only past its checks; \<open>Client_Rules\<close> states both as properties, with the waiting for acknowledgements,
  the sessions and the events. The locale \<open>kept_connector\<close> of \<open>Possession_Rules\<close> is the interface between possession
  and connector: a relation of connector states kept by every request that may be sent. Each operation of the
  possession is shown to keep it once; interpreted on a connector with a log it bounds what a possession can send,
  and interpreted on the simulator, with the runs of its steps, it carries the simulator's invariant to everything
  a possession does. \<open>Answer_Rules\<close> proves where the client's substring search for a field ends up on a line of
  fields, and with it that the summary of a simulator's status is its state. For the access point the locale
  \<open>pool_invariant\<close> of \<open>Dhcp\<close> carries an invariant of a slot through any sequence of requests; its two
  interpretations say that the pool is well formed and that an acknowledged address keeps its owner.
  \<open>Packet_Rules\<close> shows that names and options are read by their grammar, that no datagram makes the services
  panic, and follows a client from its address to its name.

  Bounds and fuel. Machine integers are words of their width, and Rust's wrapping, saturating and
  checked operations are written out. \<open>poll_loop\<close> carries what is left of the drain limit of 128,
  which is the loop's own bound; \<open>drain_reads\<close> is called with a bound that covers the bytes at
  hand; \<open>rotate_queue\<close> runs over the length of the queue, as the code does; the square root halves its bit;
  \<open>await_ack\<close> counts the 250 polls of the code and \<open>busy_retry\<close> what is left of its 300 attempts, of which the
  code makes no more either.
  No other recursion needs a bound. Where the packet code indexes a buffer its model has no value out of range, so
  that ``some value'' is proved where no panic is claimed; the buffers are those of the tasks, 512 bytes for
  names and 576 for addresses. The hardware's clock, received bytes, write failures, IMU and
  pins are arbitrary; the two rounded products of the odometry step (\<open>libm\<close>) are parameters of
  \<open>platform\<close>. What the runtime does while a lane waits is the parameter \<open>world\<close>, the time between two polls
  \<open>clock\<close>, and the reading of a hello's JSON \<open>read_hello\<close>. On the host a connector's operations, its clock and
  its sleep are fields of the record \<open>connector\<close>, with the JSON parser \<open>op_read_json\<close> and the text of an error
  \<open>op_show_error\<close>; the name of a session (a hash), random tokens and the build's version are parameters
  (\<open>session_name\<close>, \<open>sim_world\<close>). A call of the client returns, fails with an error or panics (\<open>call\<close>).

  Atomics are modelled as one sequential state: the tasks' writes are steps between ticks (\<open>moves\<close> in
  \<open>Tick_Rules\<close>), so races within a multi-word write are not covered.

  Not modelled: JSON rendering and the display page (text layout), the register level of the boards
  (\<open>arch/\<close>), the asynchronous TCP services (HTTP, WebSocket), the sockets of the network tasks and the Pi 5 control
  surface \<open>rpi5_control.rs\<close>, whose checks repeat those of the serial lanes; the client's transports (serial, HTTP,
  WebSocket, UDP) and the bootstrap that tries them, the display snapshot of a possession and the conversion of
  velocities from floating point; and the other crates of the repository, which run on
  the host behind floating point and external libraries.
\<close>

section \<open>Properties that span components\<close>

text \<open>The bump bits are swapped between the writer and the checker of the sensor flags: with only
  the left bumper pressed the decoded packet sets bit 0, which the escape check takes for the right
  bumper, so it admits turning left, into the contact, and refuses turning right, away from it.\<close>

theorem left_contact_admits_left_turn:
  "map_option (\<lambda>k. (fl_bump_left (pk_flags k), fl_bump_right (pk_flags k),
       merge_create_sensor_flags 7 0 (create_sensor_flags_bits k))) (decode_sensor_packet 7 [2]) =
     Some (True, False, sn_flags (st_sensor left_contact)) \<and>
   validate_escape_motion pf LBump 1 (- 80) 400 250 left_contact = None \<and>
   validate_escape_motion pf LBump 1 (- 80) (- 400) 250 left_contact = Some RejEscapeEnvelope"
  by (simp add: left_contact_escape escape_ttl_ms_def left_contact_facts decode_sensor_packet_def
      guarded_def valid_bumps_wheel_drops_def apply_bumps_wheel_drops_def set_flag_def default_packet_def
      default_flags_def create_sensor_flags_bits_def merge_create_sensor_flags_def packet_flag_mask_def
      bit_of_def b32_def Let_def)

end
